(* ===== verification/Prelude.thy ===== *)
theory Prelude
  imports Main "HOL-Library.Char_ord" "HOL-Library.List_Lexorder" "HOL-Library.Sublist"
begin

text \<open>
  The shared vocabulary of the development: results that may fail, transactions, the
  statements of the store over tables kept as lists of rows, and strings.

  A Go function that returns \<open>(T, error)\<close> is a function into \<open>error + T\<close>, whose left side is
  the error it returns; \<open>attempt\<close> is the \<open>if err != nil { return err }\<close> that follows a call.
  A transaction body is a function into \<open>error + (T \<times> state)\<close>; \<open>run_tx\<close> closes it the way
  \<open>defer tx.Rollback()\<close> and \<open>tx.Commit()\<close> do: an error leaves the state as it was.
  \<open>on_ok\<close> says what a body guarantees of its result when it succeeds, and the collection
  \<open>on_ok_rules\<close> holds the rules that carry an invariant through a body, call by call.
\<close>

named_theorems on_ok_rules
named_theorems row_simps

section \<open>Results that may fail\<close>

definition attempt :: "'e + 'a \<Rightarrow> ('a \<Rightarrow> 'e + 'b) \<Rightarrow> 'e + 'b" where
  "attempt m k = (case m of Inl e \<Rightarrow> Inl e | Inr a \<Rightarrow> k a)"

definition demand :: "bool \<Rightarrow> 'e \<Rightarrow> 'e + unit" where
  "demand b e = (if b then Inr () else Inl e)"

definition from_row :: "'a option \<Rightarrow> 'e \<Rightarrow> 'e + 'a" where
  "from_row m e = (case m of None \<Rightarrow> Inl e | Some a \<Rightarrow> Inr a)"

fun each :: "('x \<Rightarrow> 's \<Rightarrow> 'e + 's) \<Rightarrow> 'x list \<Rightarrow> 's \<Rightarrow> 'e + 's" where
  "each f [] s = Inr s"
| "each f (x # xs) s = attempt (f x s) (each f xs)"

definition run_tx :: "'s \<Rightarrow> 'e + ('a \<times> 's) \<Rightarrow> 's \<times> ('e + 'a)" where
  "run_tx s r = (case r of Inl e \<Rightarrow> (s, Inl e) | Inr (a, s') \<Rightarrow> (s', Inr a))"

definition succeeded :: "'s \<times> ('e + 'a) \<Rightarrow> bool" where
  "succeeded r \<longleftrightarrow> \<not> isl (snd r)"

text \<open>A committed transaction followed by reads of the state it left.\<close>

definition after_commit :: "'s \<times> ('e + 'a) \<Rightarrow> ('a \<Rightarrow> 's \<Rightarrow> 'e + 'b) \<Rightarrow> 's \<times> ('e + 'b)" where
  "after_commit r k = (case r of (s, Inl e) \<Rightarrow> (s, Inl e) | (s, Inr a) \<Rightarrow> (s, k a s))"

lemma attempt_simps [simp]:
  "attempt (Inl e) k = Inl e" "attempt (Inr a) k = k a"
  by (simp_all add: attempt_def)

lemma attempt_Inr_iff: "attempt m k = Inr b \<longleftrightarrow> (\<exists>a. m = Inr a \<and> k a = Inr b)"
  by (cases m) auto

lemma attempt_Inl_iff: "attempt m k = Inl e \<longleftrightarrow> m = Inl e \<or> (\<exists>a. m = Inr a \<and> k a = Inl e)"
  by (cases m) auto

lemma demand_Inr_iff [simp]: "demand b e = Inr u \<longleftrightarrow> b"
  by (simp add: demand_def)

lemma demand_Inl_iff [simp]: "demand b e = Inl e' \<longleftrightarrow> \<not> b \<and> e' = e"
  by (auto simp: demand_def)

lemma demand_eq [simp]: "demand True e = Inr ()" "demand False e = Inl e"
  by (simp_all add: demand_def)

lemma from_row_simps [simp]:
  "from_row None e = Inl e" "from_row (Some a) e = Inr a"
  by (simp_all add: from_row_def)

lemma from_row_Inr_iff: "from_row m e = Inr a \<longleftrightarrow> m = Some a"
  by (cases m) auto

lemma run_tx_simps [simp]:
  "run_tx s (Inl e) = (s, Inl e)" "run_tx s (Inr (a, s')) = (s', Inr a)"
  by (simp_all add: run_tx_def)

lemma run_tx_Inr_iff: "run_tx s r = (s', Inr a) \<longleftrightarrow> r = Inr (a, s')"
  by (auto simp: run_tx_def split: sum.splits prod.splits)

lemma run_tx_Inl_iff: "run_tx s r = (s', Inl e) \<longleftrightarrow> r = Inl e \<and> s' = s"
  by (auto simp: run_tx_def split: sum.splits prod.splits)

lemma run_tx_all: "Q s \<Longrightarrow> (\<And>a s'. r = Inr (a, s') \<Longrightarrow> Q s') \<Longrightarrow> Q (fst (run_tx s r))"
  by (cases r) auto

lemma run_tx_cases:
  obtains (rolled_back) "fst (run_tx s r) = s" | (committed) a s' where "r = Inr (a, s')" "fst (run_tx s r) = s'"
  by (cases r) auto

lemma after_commit_simps [simp]:
  "after_commit (s, Inl e) k = (s, Inl e)" "after_commit (s, Inr a) k = (s, k a s)"
  by (simp_all add: after_commit_def)

lemma fst_after_commit [simp]: "fst (after_commit r k) = fst r"
  by (cases r; cases "snd r") auto

lemma succeeded_after_commit: "succeeded (after_commit r k) \<Longrightarrow> succeeded r"
  by (cases r; cases "snd r") (auto simp: succeeded_def)

lemma succeeded_iff: "succeeded r \<longleftrightarrow> (\<exists>a. snd r = Inr a)"
  by (cases "snd r") (auto simp: succeeded_def)

lemma succeeded_run_tx: "succeeded (run_tx s r) \<Longrightarrow> \<exists>a s'. r = Inr (a, s') \<and> fst (run_tx s r) = s'"
  by (cases r) (auto simp: succeeded_def)

text \<open>Either nothing was committed, or the body returned the state that was committed.\<close>

lemma tx_effect:
  assumes "\<And>a s'. r = Inr (a, s') \<Longrightarrow> Q s'"
  shows "fst (run_tx s r) = s \<and> \<not> succeeded (run_tx s r) \<or> Q (fst (run_tx s r))"
  using assms by (cases r) (auto simp: succeeded_def)

lemma tx_effect_after_commit:
  assumes "\<And>a s'. r = Inr (a, s') \<Longrightarrow> Q s'"
  shows "fst (after_commit (run_tx s r) k) = s \<and> \<not> succeeded (after_commit (run_tx s r) k)
    \<or> Q (fst (after_commit (run_tx s r) k))"
  using tx_effect[of r Q s] assms succeeded_after_commit[of "run_tx s r" k] by auto

lemma after_commit_Inr_iff:
  "after_commit r k = (s, Inr b) \<longleftrightarrow> (\<exists>a. r = (s, Inr a) \<and> k a s = Inr b)"
  by (cases r; cases "snd r") auto

section \<open>What a body guarantees when it succeeds\<close>

definition on_ok :: "('a \<Rightarrow> bool) \<Rightarrow> 'e + 'a \<Rightarrow> bool" where
  "on_ok P r = (case r of Inl e \<Rightarrow> True | Inr a \<Rightarrow> P a)"

lemma on_ok_simps [simp]: "on_ok P (Inl e)" "on_ok P (Inr a) = P a"
  by (simp_all add: on_ok_def)

lemma on_ok_iff: "on_ok P r \<longleftrightarrow> (\<forall>a. r = Inr a \<longrightarrow> P a)"
  by (cases r) auto

lemma on_okD: "on_ok P r \<Longrightarrow> r = Inr a \<Longrightarrow> P a"
  by simp

lemma on_ok_attempt:
  assumes "on_ok Q m" and "\<And>a. Q a \<Longrightarrow> m = Inr a \<Longrightarrow> on_ok P (k a)"
  shows "on_ok P (attempt m k)"
  using assms by (cases m) auto

lemma on_ok_demand: "(b \<Longrightarrow> on_ok P (k ())) \<Longrightarrow> on_ok P (attempt (demand b e) k)"
  by (cases b) auto

lemma on_ok_from_row:
  "(\<And>a. m = Some a \<Longrightarrow> on_ok P (k a)) \<Longrightarrow> on_ok P (attempt (from_row m e) k)"
  by (cases m) auto

lemma on_ok_if: "(b \<Longrightarrow> on_ok P x) \<Longrightarrow> (\<not> b \<Longrightarrow> on_ok P y) \<Longrightarrow> on_ok P (if b then x else y)"
  by simp

lemma on_ok_each:
  assumes "\<And>x s. x \<in> set xs \<Longrightarrow> P s \<Longrightarrow> on_ok P (f x s)" and "P s"
  shows "on_ok P (each f xs s)"
  using assms
proof (induction xs arbitrary: s)
  case Nil
  then show ?case by simp
next
  case (Cons x xs)
  have "on_ok P (f x s)" using Cons.prems by simp
  moreover have "on_ok P (each f xs s')" if "P s'" for s'
    using Cons.IH[of s'] Cons.prems(1) that by simp
  ultimately show ?case by (auto intro: on_ok_attempt)
qed

lemma run_tx_keeps: "P s \<Longrightarrow> on_ok (\<lambda>(a, s'). P s') r \<Longrightarrow> P (fst (run_tx s r))"
  by (cases r) auto

lemma each_keeps_field:
  assumes "\<And>x s s'. f x s = Inr s' \<Longrightarrow> g s' = g s" and "each f xs s = Inr s'"
  shows "g s' = g s"
  using assms(2) by (induction xs arbitrary: s) (auto simp: attempt_Inr_iff dest: assms(1))

lemma each_append: "each f (xs @ ys) s = attempt (each f xs s) (each f ys)"
proof (induction xs arbitrary: s)
  case (Cons x xs)
  then show ?case by (cases "f x s") auto
qed simp

section \<open>Statements over a table\<close>

text \<open>
  A table is the list of its rows in insertion order. \<open>upd_where\<close> is \<open>UPDATE .. SET .. WHERE\<close>,
  \<open>del_where\<close> is \<open>DELETE .. WHERE\<close>, \<open>count_where\<close> is \<open>SELECT COUNT(*) .. WHERE\<close> and also the
  number of rows that an \<open>UPDATE\<close> or \<open>DELETE\<close> with that condition reports as affected;
  \<open>row_where\<close> is the row that \<open>QueryRow\<close> scans.
\<close>

definition upd_where :: "('r \<Rightarrow> bool) \<Rightarrow> ('r \<Rightarrow> 'r) \<Rightarrow> 'r list \<Rightarrow> 'r list" where
  "upd_where P f t = map (\<lambda>r. if P r then f r else r) t"

definition del_where :: "('r \<Rightarrow> bool) \<Rightarrow> 'r list \<Rightarrow> 'r list" where
  "del_where P t = filter (\<lambda>r. \<not> P r) t"

definition count_where :: "('r \<Rightarrow> bool) \<Rightarrow> 'r list \<Rightarrow> nat" where
  "count_where P t = length (filter P t)"

definition row_where :: "('r \<Rightarrow> bool) \<Rightarrow> 'r list \<Rightarrow> 'r option" where
  "row_where P t = List.find P t"

definition exists_row :: "('r \<Rightarrow> bool) \<Rightarrow> 'r list \<Rightarrow> bool" where
  "exists_row P t = list_ex P t"

lemma set_upd_where [row_simps]:
  "set (upd_where P f t) = (\<lambda>r. if P r then f r else r) ` set t"
  by (simp add: upd_where_def)

lemma in_upd_whereE:
  assumes "r \<in> set (upd_where P f t)"
  obtains (changed) r' where "r' \<in> set t" "P r'" "r = f r'" | (same) "r \<in> set t" "\<not> P r"
  using assms by (auto simp: upd_where_def split: if_splits)

lemma ball_upd_where:
  "(\<forall>x\<in>set (upd_where P f t). Q x) \<longleftrightarrow> (\<forall>r\<in>set t. if P r then Q (f r) else Q r)"
  by (auto simp: upd_where_def)

lemma bex_upd_where:
  "(\<exists>x\<in>set (upd_where P f t). Q x) \<longleftrightarrow> (\<exists>r\<in>set t. if P r then Q (f r) else Q r)"
  by (auto simp: upd_where_def)

lemma filter_upd_where:
  "(\<And>r. P r \<Longrightarrow> \<not> Q (f r)) \<Longrightarrow> filter Q (upd_where P f t) = filter (\<lambda>r. Q r \<and> \<not> P r) t"
  by (induction t) (auto simp: upd_where_def)

lemma set_del_where [simp]: "r \<in> set (del_where P t) \<longleftrightarrow> r \<in> set t \<and> \<not> P r"
  by (auto simp: del_where_def)

lemma map_upd_where_same:
  assumes "\<And>r. g (f r) = g r" shows "map g (upd_where P f t) = map g t"
  using assms by (simp add: upd_where_def)

lemma map_upd_where_same':
  assumes "\<And>r. r \<in> set t \<Longrightarrow> P r \<Longrightarrow> g (f r) = g r" shows "map g (upd_where P f t) = map g t"
  using assms by (simp add: upd_where_def)

lemma image_upd_where_same:
  assumes "\<And>r. g (f r) = g r" shows "g ` set (upd_where P f t) = g ` set t"
  using map_upd_where_same[where g = g and f = f and P = P and t = t] assms
  by (metis list.set_map)

lemma upd_where_append [simp]: "upd_where P f (s @ t) = upd_where P f s @ upd_where P f t"
  by (simp add: upd_where_def)

lemma upd_where_Nil [simp]: "upd_where P f [] = []"
  by (simp add: upd_where_def)

lemma length_upd_where [simp]: "length (upd_where P f t) = length t"
  by (simp add: upd_where_def)

lemma bex_del_where: "(\<exists>x\<in>set (del_where P t). Q x) \<longleftrightarrow> (\<exists>x\<in>set t. \<not> P x \<and> Q x)"
  by auto

lemma distinct_del_where: "distinct (map g t) \<Longrightarrow> distinct (map g (del_where P t))"
  by (simp add: del_where_def distinct_map_filter)

lemma count_where_0_iff [simp]: "count_where P t = 0 \<longleftrightarrow> (\<forall>r\<in>set t. \<not> P r)"
  by (auto simp: count_where_def filter_empty_conv)

lemma count_where_pos_iff [simp]: "0 < count_where P t \<longleftrightarrow> (\<exists>r\<in>set t. P r)"
  by (metis count_where_0_iff neq0_conv)

lemma row_where_Some: "row_where P t = Some r \<Longrightarrow> r \<in> set t \<and> P r"
  by (auto simp: row_where_def find_Some_iff)

lemma row_where_None [simp]: "row_where P t = None \<longleftrightarrow> (\<forall>r\<in>set t. \<not> P r)"
  by (auto simp: row_where_def find_None_iff)

lemma exists_row_iff [simp]: "exists_row P t \<longleftrightarrow> (\<exists>r\<in>set t. P r)"
  by (simp add: exists_row_def list_ex_iff)

lemma key_inj:
  assumes "distinct (map g t)" "r \<in> set t" "r' \<in> set t" "g r = g r'"
  shows "r = r'"
  using assms by (metis distinct_map inj_on_def)

lemma row_where_key:
  assumes "distinct (map g t)" "r \<in> set t" "\<And>x. x \<in> set t \<Longrightarrow> P x \<Longrightarrow> g x = g r" "P r"
  shows "row_where P t = Some r"
proof (cases "row_where P t")
  case None
  then show ?thesis using assms by auto
next
  case (Some x)
  then have "x \<in> set t" "P x" using row_where_Some by metis+
  then have "x = r" using assms by (metis key_inj)
  then show ?thesis using Some by simp
qed

lemma count_where_key_le_1:
  assumes "distinct (map g t)" "\<And>r. r \<in> set t \<Longrightarrow> P r \<Longrightarrow> g r = k"
  shows "count_where P t \<le> 1"
proof -
  have "length (filter P t) = length (map g (filter P t))" by simp
  also have "\<dots> = card (set (map g (filter P t)))"
    using assms(1) by (simp add: distinct_card distinct_map_filter del: length_map set_map)
  also have "\<dots> \<le> card {k}"
    by (intro card_mono) (auto simp: assms(2))
  finally show ?thesis by (simp add: count_where_def)
qed

lemma count_where_1_ex: "count_where P t = 1 \<Longrightarrow> \<exists>r\<in>set t. P r"
  by (metis count_where_pos_iff less_numeral_extra(1))

section \<open>References from one table to another\<close>

definition refs_in :: "('c \<Rightarrow> 'k) \<Rightarrow> 'c list \<Rightarrow> ('p \<Rightarrow> 'k) \<Rightarrow> 'p list \<Rightarrow> bool" where
  "refs_in f children g parents \<longleftrightarrow> f ` set children \<subseteq> g ` set parents"

definition opt_refs_in :: "('c \<Rightarrow> 'k option) \<Rightarrow> 'c list \<Rightarrow> ('p \<Rightarrow> 'k) \<Rightarrow> 'p list \<Rightarrow> bool" where
  "opt_refs_in f children g parents \<longleftrightarrow>
     (\<forall>c\<in>set children. case f c of None \<Rightarrow> True | Some k \<Rightarrow> k \<in> g ` set parents)"

lemma opt_refs_in_all:
  "opt_refs_in f cs g ps \<longleftrightarrow> (\<forall>c\<in>set cs. \<forall>k. f c = Some k \<longrightarrow> k \<in> g ` set ps)"
  by (auto simp: opt_refs_in_def split: option.splits)

lemma opt_refs_in_alt: "opt_refs_in f cs g ps \<longleftrightarrow> f ` set cs \<subseteq> insert None (Some ` g ` set ps)"
proof -
  have "(\<forall>k. f c = Some k \<longrightarrow> k \<in> g ` set ps) \<longleftrightarrow> f c \<in> insert None (Some ` g ` set ps)" for c
    by (cases "f c") auto
  then show ?thesis by (simp only: opt_refs_in_all image_subset_iff)
qed

lemma refs_in_Nil [simp]: "refs_in f [] g ps" "opt_refs_in h [] g ps"
  by (simp_all add: refs_in_def opt_refs_in_all)

lemma refs_in_add_child [simp]:
  "refs_in f (cs @ [c]) g ps \<longleftrightarrow> refs_in f cs g ps \<and> f c \<in> g ` set ps"
  "opt_refs_in h (cs @ [c]) g ps \<longleftrightarrow> opt_refs_in h cs g ps \<and> (\<forall>k. h c = Some k \<longrightarrow> k \<in> g ` set ps)"
  by (auto simp: refs_in_def opt_refs_in_all)

lemma refs_in_add_parent [intro]:
  "refs_in f cs g ps \<Longrightarrow> refs_in f cs g (ps @ [p])"
  "opt_refs_in h cs g ps \<Longrightarrow> opt_refs_in h cs g (ps @ [p])"
  by (auto simp: refs_in_def opt_refs_in_all)

lemma refs_in_del_child [intro]:
  "refs_in f cs g ps \<Longrightarrow> refs_in f (del_where P cs) g ps"
  "opt_refs_in h cs g ps \<Longrightarrow> opt_refs_in h (del_where P cs) g ps"
  by (auto simp: refs_in_def opt_refs_in_all)

lemma refs_in_upd_child:
  "(\<And>c. f (h c) = f c) \<Longrightarrow> refs_in f (upd_where P h cs) g ps = refs_in f cs g ps"
  "(\<And>c. f' (h c) = f' c) \<Longrightarrow> opt_refs_in f' (upd_where P h cs) g ps = opt_refs_in f' cs g ps"
  by (simp_all add: refs_in_def opt_refs_in_alt image_upd_where_same)

lemma refs_in_upd_parent:
  assumes "\<And>p. g (h p) = g p"
  shows "refs_in f cs g (upd_where P h ps) = refs_in f cs g ps"
    and "opt_refs_in f' cs g (upd_where P h ps) = opt_refs_in f' cs g ps"
  using image_upd_where_same[where g = g and f = h, OF assms]
  by (simp_all add: refs_in_def opt_refs_in_all)

text \<open>Deleting parents together with the children that refer to a deleted parent.\<close>

lemma refs_in_cascade:
  assumes "refs_in f cs g ps" "\<And>c p. p \<in> set ps \<Longrightarrow> Q p \<Longrightarrow> f c = g p \<Longrightarrow> P c"
  shows "refs_in f (del_where P cs) g (del_where Q ps)"
  using assms by (fastforce simp: refs_in_def)

lemma opt_refs_in_cascade:
  assumes "opt_refs_in f cs g ps" "\<And>c p. p \<in> set ps \<Longrightarrow> Q p \<Longrightarrow> f c = Some (g p) \<Longrightarrow> P c"
  shows "opt_refs_in f (del_where P cs) g (del_where Q ps)"
  using assms by (fastforce simp: opt_refs_in_all)

section \<open>Strings\<close>

text \<open>Strings are the bytes of the Go strings; ASCII letters are the ones that change case.\<close>

definition lower_char :: "char \<Rightarrow> char" where
  "lower_char c = (if CHR ''A'' \<le> c \<and> c \<le> CHR ''Z'' then char_of (of_char c + 32 :: nat) else c)"

definition to_lower :: "string \<Rightarrow> string" where
  "to_lower s = map lower_char s"

definition is_space :: "char \<Rightarrow> bool" where
  "is_space c \<longleftrightarrow> c \<in> {CHR '' '', CHR 0x09, CHR 0x0A, CHR 0x0B, CHR 0x0C, CHR 0x0D}"

definition trim_space :: "string \<Rightarrow> string" where
  "trim_space s = rev (dropWhile is_space (rev (dropWhile is_space s)))"

definition contains_str :: "string \<Rightarrow> string \<Rightarrow> bool" where
  "contains_str s sub \<longleftrightarrow> sublist sub s"

definition has_prefix :: "string \<Rightarrow> string \<Rightarrow> bool" where
  "has_prefix s p \<longleftrightarrow> prefix p s"

definition has_suffix :: "string \<Rightarrow> string \<Rightarrow> bool" where
  "has_suffix s p \<longleftrightarrow> suffix p s"

definition trim_prefix :: "string \<Rightarrow> string \<Rightarrow> string" where
  "trim_prefix p s = (if has_prefix s p then drop (length p) s else s)"

definition equal_fold :: "string \<Rightarrow> string \<Rightarrow> bool" where
  "equal_fold s t \<longleftrightarrow> to_lower s = to_lower t"

lemma trim_prefix_append [simp]: "trim_prefix p (p @ s) = s"
  by (simp add: trim_prefix_def has_prefix_def)

end
