(* ===== verification/Timestamps.thy ===== *)
theory Timestamps
  imports Prelude "HOL-Library.Product_Lexorder"
begin

text \<open>
  Instants and how the store compares them.

  The store writes every \<open>time.Time\<close> as text, \<open>now.Format(time.RFC3339Nano)\<close> in UTC, and its
  SQL conditions (\<open>expires_at > ?\<close>, \<open>last_seen_at <= ?\<close>) compare these texts byte by byte.
  RFC3339Nano drops the trailing zeros of the fraction, and the whole fraction when it is zero, so
  the byte order of two texts of one second is not the order of the instants. An \<open>instant\<close> is
  the number of nanoseconds since the Unix epoch; \<open>frac_text\<close> is what the text has after its
  seconds and \<open>sql_less\<close> is the byte order of the two texts. The date and the time of day up to
  the seconds have a fixed width (years 0 to 9999), so they compare like the number of seconds.
\<close>

type_synonym instant = int

abbreviation nanos_per_second :: int where
  "nanos_per_second \<equiv> 1000000000"

definition seconds :: "int \<Rightarrow> int" where
  "seconds n = n * nanos_per_second"

abbreviation minutes :: "int \<Rightarrow> int" where
  "minutes n \<equiv> seconds (60 * n)"

section \<open>The fraction of a second as text\<close>

definition nano_digits :: "nat \<Rightarrow> nat list" where
  "nano_digits n = map (\<lambda>i. n div 10 ^ (8 - i) mod 10) [0..<9]"

definition drop_trailing_zeros :: "nat list \<Rightarrow> nat list" where
  "drop_trailing_zeros ds = rev (dropWhile (\<lambda>d. d = 0) (rev ds))"

definition digit_char :: "nat \<Rightarrow> char" where
  "digit_char d = char_of (48 + d)"

definition frac_digits :: "nat \<Rightarrow> string" where
  "frac_digits n = map digit_char (drop_trailing_zeros (nano_digits n))"

definition frac_text :: "nat \<Rightarrow> string" where
  "frac_text n = (if n = 0 then ''Z'' else CHR ''.'' # frac_digits n @ ''Z'')"

definition second_of :: "instant \<Rightarrow> int" where
  "second_of t = t div nanos_per_second"

definition nanos_of :: "instant \<Rightarrow> nat" where
  "nanos_of t = nat (t mod nanos_per_second)"

definition sql_less :: "instant \<Rightarrow> instant \<Rightarrow> bool" where
  "sql_less a b \<longleftrightarrow> second_of a < second_of b
     \<or> second_of a = second_of b \<and> frac_text (nanos_of a) < frac_text (nanos_of b)"

definition sql_le :: "instant \<Rightarrow> instant \<Rightarrow> bool" where
  "sql_le a b \<longleftrightarrow> \<not> sql_less b a"

section \<open>The byte order is a strict total order\<close>

lemma nanos_of_less: "nanos_of t < 10 ^ 9"
  by (simp add: nanos_of_def nat_less_iff)

lemma instant_split: "t = second_of t * nanos_per_second + int (nanos_of t)"
  by (simp add: second_of_def nanos_of_def)

lemma instant_eqI: "second_of a = second_of b \<Longrightarrow> nanos_of a = nanos_of b \<Longrightarrow> a = b"
  by (metis instant_split)

fun digits_value :: "nat list \<Rightarrow> nat" where
  "digits_value [] = 0"
| "digits_value (d # ds) = d * 10 ^ length ds + digits_value ds"

lemma nano_digits_expand:
  "nano_digits n = [n div 10^8 mod 10, n div 10^7 mod 10, n div 10^6 mod 10, n div 10^5 mod 10,
     n div 10^4 mod 10, n div 10^3 mod 10, n div 10^2 mod 10, n div 10 mod 10, n mod 10]"
  by (simp add: nano_digits_def upt_rec)

lemma div_power_step: "(n::nat) div 10 ^ k = n div 10 ^ k mod 10 + 10 * (n div 10 ^ Suc k)"
  by (metis add.commute div_mult2_eq mod_mult_div_eq power_Suc2)

lemma digits_value_nano_digits:
  assumes "n < 10 ^ 9" shows "digits_value (nano_digits n) = n"
proof -
  have "n div 10 ^ 8 mod 10 = n div 10 ^ 8"
    using assms by (simp add: div_less_iff_less_mult)
  then show ?thesis
    unfolding nano_digits_expand
    using div_power_step[of n 0] div_power_step[of n 1] div_power_step[of n 2]
      div_power_step[of n 3] div_power_step[of n 4] div_power_step[of n 5]
      div_power_step[of n 6] div_power_step[of n 7]
    apply simp
    using div_mult_mod_eq[of n 10] by linarith
qed

lemma nano_digits_lt_10: "d \<in> set (nano_digits n) \<Longrightarrow> d < 10"
  by (auto simp: nano_digits_def)

lemma length_nano_digits [simp]: "length (nano_digits n) = 9"
  by (simp add: nano_digits_def)

lemma drop_trailing_zeros_split:
  "\<exists>k. ds = drop_trailing_zeros ds @ replicate k 0"
proof -
  have "rev ds = takeWhile (\<lambda>d. d = 0) (rev ds) @ dropWhile (\<lambda>d. d = 0) (rev ds)" by simp
  moreover have "takeWhile (\<lambda>d. d = 0) (rev ds) = replicate (length (takeWhile (\<lambda>d. d = 0) (rev ds))) 0"
    by (metis (mono_tags, lifting) replicate_eqI set_takeWhileD)
  ultimately have "rev ds = replicate (length (takeWhile (\<lambda>d. d = 0) (rev ds))) 0
      @ dropWhile (\<lambda>d. d = 0) (rev ds)" by simp
  from arg_cong[OF this, of rev] have "ds = drop_trailing_zeros ds
      @ replicate (length (takeWhile (\<lambda>d. d = 0) (rev ds))) 0"
    by (simp add: drop_trailing_zeros_def)
  then show ?thesis by blast
qed

lemma drop_trailing_zeros_last:
  "drop_trailing_zeros ds \<noteq> [] \<Longrightarrow> last (drop_trailing_zeros ds) \<noteq> 0"
  by (metis (mono_tags, lifting) drop_trailing_zeros_def hd_dropWhile last_rev rev.simps(1))

lemma digits_value_append:
  "digits_value (xs @ ys) = digits_value xs * 10 ^ length ys + digits_value ys"
  by (induction xs) (simp_all add: algebra_simps power_add)

lemma digits_value_zeros [simp]: "digits_value (replicate k 0) = 0"
  by (induction k) auto

lemma digits_value_bound: "\<forall>d\<in>set ds. d < 10 \<Longrightarrow> digits_value ds < 10 ^ length ds"
proof (induction ds)
  case (Cons d ds)
  then have "digits_value ds < 10 ^ length ds" "d \<le> 9" by auto
  then have "d * 10 ^ length ds + digits_value ds < 9 * 10 ^ length ds + 10 ^ length ds"
    by (metis add_le_less_mono mult_le_mono1)
  then show ?case by simp
qed simp

definition fraction :: "nat \<Rightarrow> nat list" where
  "fraction n = drop_trailing_zeros (nano_digits n)"

lemma fraction_pad: "\<exists>k. nano_digits n = fraction n @ replicate k 0"
  unfolding fraction_def by (rule drop_trailing_zeros_split)

lemma fraction_lt_10: "d \<in> set (fraction n) \<Longrightarrow> d < 10"
  by (metis fraction_pad nano_digits_lt_10 Un_iff set_append)

lemma length_fraction: "length (fraction n) \<le> 9"
  by (metis fraction_pad length_append length_nano_digits le_add1)

lemma fraction_value:
  assumes "n < 10 ^ 9"
  shows "digits_value (fraction n) * 10 ^ (9 - length (fraction n)) = n"
proof -
  obtain k where k: "nano_digits n = fraction n @ replicate k 0" using fraction_pad by blast
  then have "length (fraction n) + k = 9" by (metis length_append length_nano_digits length_replicate)
  then have "k = 9 - length (fraction n)" by simp
  then show ?thesis
    using digits_value_nano_digits[OF assms] k by (simp add: digits_value_append)
qed

lemma fraction_inj: "a < 10 ^ 9 \<Longrightarrow> b < 10 ^ 9 \<Longrightarrow> fraction a = fraction b \<Longrightarrow> a = b"
  by (metis fraction_value)

lemma fraction_0 [simp]: "fraction 0 = []"
  by (simp add: fraction_def nano_digits_expand drop_trailing_zeros_def)

lemma fraction_Nil_iff: "n < 10 ^ 9 \<Longrightarrow> fraction n = [] \<longleftrightarrow> n = 0"
  using fraction_inj[of n 0] by auto

lemma digit_char_less_iff: "d < 10 \<Longrightarrow> e < 10 \<Longrightarrow> digit_char d < digit_char e \<longleftrightarrow> d < e"
  by (simp add: digit_char_def less_char_def)

lemma digit_char_eq_iff: "d < 10 \<Longrightarrow> e < 10 \<Longrightarrow> digit_char d = digit_char e \<longleftrightarrow> d = e"
  by (metis digit_char_less_iff linorder_neq_iff)

lemma digit_char_less_Z: "d < 10 \<Longrightarrow> digit_char d < CHR ''Z''"
  by (simp add: digit_char_def less_char_def)

text \<open>The order of two fractions ended by \<open>Z\<close>, which is above every digit.\<close>

fun ended_less :: "nat list \<Rightarrow> nat list \<Rightarrow> bool" where
  "ended_less [] ys = False"
| "ended_less (x # xs) [] = True"
| "ended_less (x # xs) (y # ys) = (x < y \<or> x = y \<and> ended_less xs ys)"

lemma ended_less_text:
  assumes "\<forall>d\<in>set xs. d < 10" "\<forall>d\<in>set ys. d < 10"
  shows "map digit_char xs @ ''Z'' < map digit_char ys @ ''Z'' \<longleftrightarrow> ended_less xs ys"
  using assms
proof (induction xs ys rule: ended_less.induct)
  case (1 ys)
  then show ?case
    by (cases ys) (auto dest: digit_char_less_Z)
next
  case (2 x xs)
  then show ?case by (auto simp: digit_char_less_Z)
next
  case (3 x xs y ys)
  then show ?case by (auto simp: digit_char_less_iff digit_char_eq_iff)
qed

lemma frac_text_less_iff:
  assumes "a < 10 ^ 9" "b < 10 ^ 9"
  shows "frac_text a < frac_text b \<longleftrightarrow> ended_less (fraction a) (fraction b)"
proof -
  have *: "ended_less (fraction a) (fraction b) \<longleftrightarrow>
      map digit_char (fraction a) @ ''Z'' < map digit_char (fraction b) @ ''Z''"
    by (subst ended_less_text) (auto dest: fraction_lt_10)
  have dot: "CHR ''.'' < CHR ''Z''" by (simp add: less_char_def)
  show ?thesis
  proof (cases "a = 0 \<or> b = 0")
    case True
    then show ?thesis
      using fraction_Nil_iff[OF assms(1)] fraction_Nil_iff[OF assms(2)] dot
      by (cases "fraction a"; cases "fraction b") (auto simp: frac_text_def)
  next
    case False
    then show ?thesis
      unfolding * by (simp add: frac_text_def frac_digits_def fraction_def)
  qed
qed

lemma ended_less_irrefl: "\<not> ended_less xs xs"
  by (induction xs) auto

lemma ended_less_trans: "ended_less xs ys \<Longrightarrow> ended_less ys zs \<Longrightarrow> ended_less xs zs"
proof (induction xs ys arbitrary: zs rule: ended_less.induct)
  case (3 x xs y ys)
  then show ?case by (cases zs) auto
qed auto

lemma ended_less_total: "xs \<noteq> ys \<Longrightarrow> ended_less xs ys \<or> ended_less ys xs"
proof (induction xs ys rule: ended_less.induct)
  case (1 ys)
  then show ?case by (cases ys) auto
qed auto

lemma frac_less_nanos:
  "frac_text (nanos_of a) < frac_text (nanos_of b) \<longleftrightarrow> ended_less (fraction (nanos_of a)) (fraction (nanos_of b))"
  by (rule frac_text_less_iff[OF nanos_of_less nanos_of_less])

lemma sql_less_irrefl [simp]: "\<not> sql_less a a"
  by (simp add: sql_less_def)

lemma sql_less_trans: "sql_less a b \<Longrightarrow> sql_less b c \<Longrightarrow> sql_less a c"
  by (auto simp: sql_less_def frac_less_nanos intro: ended_less_trans)

lemma sql_less_total: "a \<noteq> b \<Longrightarrow> sql_less a b \<or> sql_less b a"
  using ended_less_total[of "fraction (nanos_of a)" "fraction (nanos_of b)"]
    fraction_inj[OF nanos_of_less nanos_of_less, of a b] instant_eqI[of a b]
  unfolding sql_less_def frac_less_nanos by (metis linorder_neqE)

lemma sql_less_asym: "sql_less a b \<Longrightarrow> \<not> sql_less b a"
  using sql_less_trans sql_less_irrefl by blast

lemma sql_le_iff: "sql_le a b \<longleftrightarrow> sql_less a b \<or> a = b"
  unfolding sql_le_def using sql_less_total sql_less_asym by blast

lemma sql_not_less: "\<not> sql_less a b \<longleftrightarrow> sql_le b a"
  by (simp add: sql_le_def)

lemma sql_less_le_trans: "sql_less a b \<Longrightarrow> sql_le b c \<Longrightarrow> sql_less a c"
  by (metis sql_le_iff sql_less_trans)

text \<open>\<open>ORDER BY\<close> a column, where a time column is ordered by its text; ties keep the row order.\<close>

definition time_text :: "instant \<Rightarrow> int \<times> string" where
  "time_text t = (second_of t, frac_text (nanos_of t))"

lemma sql_less_time_text: "sql_less a b \<longleftrightarrow> time_text a < time_text b"
  by (auto simp: sql_less_def time_text_def)

definition order_asc :: "('r \<Rightarrow> 'k::linorder) \<Rightarrow> 'r list \<Rightarrow> 'r list" where
  "order_asc g t = sort_key g t"

definition order_desc :: "('r \<Rightarrow> 'k::linorder) \<Rightarrow> 'r list \<Rightarrow> 'r list" where
  "order_desc g t = rev (sort_key g (rev t))"

lemma set_order_asc [simp]: "set (order_asc g t) = set t"
  by (simp add: order_asc_def)

lemma set_order_desc [simp]: "set (order_desc g t) = set t"
  by (simp add: order_desc_def)

section \<open>How far it is from the order of the instants\<close>

lemma sql_less_of_seconds: "second_of a < second_of b \<Longrightarrow> sql_less a b"
  by (simp add: sql_less_def)

lemma sql_less_second_le: "sql_less a b \<Longrightarrow> second_of a \<le> second_of b"
  by (auto simp: sql_less_def)

lemma second_of_mono: "a \<le> b \<Longrightarrow> second_of a \<le> second_of b"
  by (simp add: second_of_def zdiv_mono1)

lemma sql_less_within_second: "sql_less a b \<Longrightarrow> a < b + nanos_per_second"
  using sql_less_second_le[of a b] unfolding second_of_def by linarith

lemma less_sql_le_within_second: "a + nanos_per_second \<le> b \<Longrightarrow> sql_less a b"
  by (rule sql_less_of_seconds) (simp add: second_of_def)

text \<open>Within one second the two orders differ exactly when one fraction continues the other.\<close>

lemma ended_less_prefix:
  assumes "length xs = length us" "\<forall>d\<in>set (xs @ us). d < 10"
    and "xs = ys @ replicate j 0" "us = vs @ replicate k 0"
    and "ys = [] \<or> last ys \<noteq> 0" "vs = [] \<or> last vs \<noteq> 0"
    and "digits_value xs < digits_value us"
  shows "ended_less ys vs \<longleftrightarrow> \<not> prefix ys vs"
  using assms
proof (induction ys vs arbitrary: xs us rule: ended_less.induct)
  case (1 vs)
  then show ?case by simp
next
  case (2 y ys)
  then have "us = replicate k 0" by simp
  then have "digits_value us = 0" by simp
  then show ?case using 2 by simp
next
  case (3 y ys v vs)
  obtain xs' us' where eqs: "xs = y # xs'" "us = v # us'"
    "xs' = ys @ replicate j 0" "us' = vs @ replicate k 0" using "3.prems"(3,4) by auto
  have len: "length xs' = length us'" using "3.prems"(1) eqs by simp
  have bound: "\<forall>d\<in>set (xs' @ us'). d < 10" using "3.prems"(2) eqs by auto
  have lasts: "ys = [] \<or> last ys \<noteq> 0" "vs = [] \<or> last vs \<noteq> 0" using "3.prems"(5,6) by (auto split: if_splits)
  have lt: "y * 10 ^ length us' + digits_value xs' < v * 10 ^ length us' + digits_value us'"
    using "3.prems"(7) eqs len by simp
  have xb: "digits_value xs' < 10 ^ length us'" "digits_value us' < 10 ^ length us'"
    using digits_value_bound[of xs'] digits_value_bound[of us'] bound len by auto
  consider "y < v" | "y = v" | "v < y" by linarith
  then show ?case
  proof cases
    case 1
    then show ?thesis by simp
  next
    case 2
    then have "digits_value xs' < digits_value us'" using lt by simp
    then show ?thesis using "3.IH"[OF len bound eqs(3,4) lasts] 2 by simp
  next
    case 3
    then have "(v + 1) * 10 ^ length us' \<le> y * 10 ^ length us'" by (intro mult_le_mono1) simp
    then have False using lt xb by simp
    then show ?thesis ..
  qed
qed

lemma fraction_last: "fraction n = [] \<or> last (fraction n) \<noteq> 0"
  unfolding fraction_def using drop_trailing_zeros_last by blast

lemma sql_less_same_second:
  assumes "second_of a = second_of b" "a < b"
  shows "sql_less a b \<longleftrightarrow> \<not> prefix (fraction (nanos_of a)) (fraction (nanos_of b))"
proof -
  have "nanos_of a < nanos_of b"
    using assms instant_split[of a] instant_split[of b] by linarith
  then have lt: "digits_value (nano_digits (nanos_of a)) < digits_value (nano_digits (nanos_of b))"
    by (simp only: digits_value_nano_digits[OF nanos_of_less])
  obtain j where j: "nano_digits (nanos_of a) = fraction (nanos_of a) @ replicate j 0"
    using fraction_pad by blast
  obtain k where k: "nano_digits (nanos_of b) = fraction (nanos_of b) @ replicate k 0"
    using fraction_pad by blast
  have "ended_less (fraction (nanos_of a)) (fraction (nanos_of b))
      \<longleftrightarrow> \<not> prefix (fraction (nanos_of a)) (fraction (nanos_of b))"
    by (rule ended_less_prefix[OF _ _ j k fraction_last fraction_last lt])
       (auto dest: nano_digits_lt_10)
  then show ?thesis using assms(1) by (simp add: sql_less_def frac_less_nanos)
qed

end
