(* ===== verification/Integrity.thy ===== *)
theory Integrity
  imports Schema
begin

text \<open>
  The constraints of the tables (\<open>store/migrations.go\<close>), the statements that may violate them,
  the deletes with their ON DELETE actions, the triggers of \<open>access_sessions\<close>, and the
  integrity \<open>db_ok\<close> that all of them keep.

  \<open>T_rules db t\<close> lists the rules that table T must satisfy when it holds the rows \<open>t\<close>, in the
  order SQLite checks them (CHECK, PRIMARY KEY, UNIQUE, REFERENCES). \<open>put_T t db\<close> is an INSERT or
  UPDATE that leaves T as \<open>t\<close>. A statement whose columns no rule mentions needs no check and
  is a plain update of the record.
\<close>

section \<open>Values that the CHECK constraints allow\<close>

definition port_number :: "int \<Rightarrow> bool" where
  "port_number p \<longleftrightarrow> 1 \<le> p \<and> p \<le> 65535"

definition endpoint_protocols :: "string list" where
  "endpoint_protocols =
     [''http'', ''https'', ''ssh'', ''rtsp'', ''tcp'', ''rdp'', ''mysql'', ''postgresql'']"

definition node_check :: "node_row \<Rightarrow> bool" where
  "node_check r \<longleftrightarrow> port_number (n_port_start r) \<and> port_number (n_port_end r)
     \<and> n_port_start r \<le> n_port_end r"

definition scan_port_check :: "scan_port_row \<Rightarrow> bool" where
  "scan_port_check r \<longleftrightarrow> 0 \<le> sp_position r
     \<and> sp_protocol r \<in> set (''auto'' # endpoint_protocols) \<and> port_number (sp_port r)"

definition device_check :: "device_row \<Rightarrow> bool" where
  "device_check r \<longleftrightarrow> d_source r \<in> {''manual'', ''discovery'', ''import''}"

definition endpoint_check :: "endpoint_row \<Rightarrow> bool" where
  "endpoint_check r \<longleftrightarrow> e_protocol r \<in> set endpoint_protocols \<and> port_number (e_target_port r)
     \<and> e_access_type r \<in> {''web_proxy'', ''web_ssh'', ''port_forward''}
     \<and> e_verification_status r \<in> {''unverified'', ''verified'', ''failed''}
     \<and> e_ssh_auth_method r \<in> {'''', ''password'', ''key''}"

definition forward_check :: "forward_row \<Rightarrow> bool" where
  "forward_check r \<longleftrightarrow> port_number (pf_server_port r)"

definition user_check :: "user_row \<Rightarrow> bool" where
  "user_check r \<longleftrightarrow> u_role r \<in> {''system_admin'', ''project_admin'', ''operator'', ''temporary''}"

definition auth_session_check :: "auth_session_row \<Rightarrow> bool" where
  "auth_session_check r \<longleftrightarrow> s_status r \<in> {''active'', ''revoked''}"

definition access_session_check :: "access_session_row \<Rightarrow> bool" where
  "access_session_check r \<longleftrightarrow> acs_mode r \<in> {''web'', ''ssh''}"

definition job_check :: "job_row \<Rightarrow> bool" where
  "job_check r \<longleftrightarrow> 0 \<le> dj_progress r \<and> dj_progress r \<le> 100"

definition result_check :: "result_row \<Rightarrow> bool" where
  "result_check r \<longleftrightarrow> port_number (dr_port r) \<and> dr_protocol r \<in> set endpoint_protocols
     \<and> 0 \<le> dr_confidence r \<and> dr_confidence r \<le> 100
     \<and> dr_import_status r \<in> {''pending'', ''imported'', ''ignored''}"

definition mfa_check :: "mfa_row \<Rightarrow> bool" where
  "mfa_check r \<longleftrightarrow> um_preferred_method r \<in> {''totp'', ''email''}"

definition challenge_check :: "challenge_row \<Rightarrow> bool" where
  "challenge_check r \<longleftrightarrow> mc_purpose r \<in> {''onboard'', ''verify'', ''password''}
     \<and> mc_method r \<in> {'''', ''totp'', ''email''}
     \<and> mc_status r \<in> {''active'', ''consumed'', ''revoked''} \<and> 0 \<le> mc_attempts r"

section \<open>The rules of each table\<close>

text \<open>NULLs never collide under UNIQUE: the index has the rows whose columns are all present.\<close>

definition distinct_present :: "('r \<Rightarrow> 'k option) \<Rightarrow> 'r list \<Rightarrow> bool" where
  "distinct_present g t \<longleftrightarrow> distinct (map g (filter (\<lambda>r. g r \<noteq> None) t))"

definition client_key :: "project_row \<Rightarrow> (string \<times> int) option" where
  "client_key r = map_option (\<lambda>c. (p_node_id r, c)) (p_client_id r)"

definition forward_port_key :: "forward_row \<Rightarrow> (string \<times> int) option" where
  "forward_port_key r = map_option (\<lambda>n. (n, pf_server_port r)) (pf_node_id r)"

abbreviation check_rule :: "('r \<Rightarrow> bool) \<Rightarrow> 'r list \<Rightarrow> string \<Rightarrow> bool \<times> store_error" where
  "check_rule c t msg \<equiv> (list_all c t, ErrConstraint CheckRule msg)"

abbreviation primary_key :: "('r \<Rightarrow> 'k) \<Rightarrow> 'r list \<Rightarrow> string \<Rightarrow> bool \<times> store_error" where
  "primary_key g t msg \<equiv> (distinct (map g t), ErrConstraint PrimaryKey msg)"

abbreviation unique_key :: "('r \<Rightarrow> 'k) \<Rightarrow> 'r list \<Rightarrow> string \<Rightarrow> bool \<times> store_error" where
  "unique_key g t msg \<equiv> (distinct (map g t), ErrConstraint UniqueKey msg)"

abbreviation unique_present :: "('r \<Rightarrow> 'k option) \<Rightarrow> 'r list \<Rightarrow> string \<Rightarrow> bool \<times> store_error" where
  "unique_present g t msg \<equiv> (distinct_present g t, ErrConstraint UniqueKey msg)"

abbreviation foreign_key ::
  "('c \<Rightarrow> 'k) \<Rightarrow> 'c list \<Rightarrow> ('p \<Rightarrow> 'k) \<Rightarrow> 'p list \<Rightarrow> string \<Rightarrow> bool \<times> store_error" where
  "foreign_key f t g ps msg \<equiv> (refs_in f t g ps, ErrConstraint ForeignKey msg)"

abbreviation foreign_key_or_null ::
  "('c \<Rightarrow> 'k option) \<Rightarrow> 'c list \<Rightarrow> ('p \<Rightarrow> 'k) \<Rightarrow> 'p list \<Rightarrow> string \<Rightarrow> bool \<times> store_error" where
  "foreign_key_or_null f t g ps msg \<equiv> (opt_refs_in f t g ps, ErrConstraint ForeignKey msg)"

definition nodes_rules :: "db \<Rightarrow> node_row list \<Rightarrow> rules" where
  "nodes_rules db t =
     [check_rule node_check t ''nodes'',
      primary_key n_id t ''nodes'',
      unique_key n_name t ''nodes.name'']"

definition projects_rules :: "db \<Rightarrow> project_row list \<Rightarrow> rules" where
  "projects_rules db t =
     [primary_key p_id t ''projects'',
      unique_key p_code t ''projects.code'',
      unique_present client_key t ''projects.node_id, projects.client_id'',
      foreign_key p_node_id t n_id (t_nodes db) ''projects'']"

definition networks_rules :: "db \<Rightarrow> network_row list \<Rightarrow> rules" where
  "networks_rules db t =
     [primary_key pn_id t ''project_networks'',
      unique_key (\<lambda>r. (pn_project_id r, pn_cidr r)) t
        ''project_networks.project_id, project_networks.cidr'',
      foreign_key pn_project_id t p_id (t_projects db) ''project_networks'']"

definition scan_ports_rules :: "db \<Rightarrow> scan_port_row list \<Rightarrow> rules" where
  "scan_ports_rules db t =
     [check_rule scan_port_check t ''project_scan_ports'',
      primary_key (\<lambda>r. (sp_project_id r, sp_position r)) t ''project_scan_ports'',
      unique_key (\<lambda>r. (sp_project_id r, sp_protocol r, sp_port r)) t
        ''project_scan_ports.project_id, project_scan_ports.protocol, project_scan_ports.port'',
      foreign_key sp_project_id t p_id (t_projects db) ''project_scan_ports'']"

definition devices_rules :: "db \<Rightarrow> device_row list \<Rightarrow> rules" where
  "devices_rules db t =
     [check_rule device_check t ''devices'',
      primary_key d_id t ''devices'',
      unique_key (\<lambda>r. (d_project_id r, d_host r)) t
        ''devices.project_id, devices.host'',
      foreign_key d_project_id t p_id (t_projects db) ''devices'']"

definition endpoints_rules :: "db \<Rightarrow> endpoint_row list \<Rightarrow> rules" where
  "endpoints_rules db t =
     [check_rule endpoint_check t ''endpoints'',
      primary_key e_id t ''endpoints'',
      unique_key (\<lambda>r. (e_device_id r, e_protocol r, e_target_port r)) t
        ''endpoints.device_id, endpoints.protocol, endpoints.target_port'',
      foreign_key e_device_id t d_id (t_devices db) ''endpoints'']"

definition forwards_rules :: "db \<Rightarrow> forward_row list \<Rightarrow> rules" where
  "forwards_rules db t =
     [check_rule forward_check t ''port_forwards'',
      primary_key pf_id t ''port_forwards'',
      unique_key pf_endpoint_id t ''port_forwards.endpoint_id'',
      unique_present forward_port_key t ''port_forwards.node_id, port_forwards.server_port'',
      foreign_key pf_endpoint_id t e_id (t_endpoints db) ''port_forwards'',
      foreign_key_or_null pf_node_id t n_id (t_nodes db) ''port_forwards'']"

definition users_rules :: "db \<Rightarrow> user_row list \<Rightarrow> rules" where
  "users_rules db t =
     [check_rule user_check t ''users'',
      primary_key u_id t ''users'',
      unique_key u_username t ''users.username'']"

definition memberships_rules :: "db \<Rightarrow> membership_row list \<Rightarrow> rules" where
  "memberships_rules db t =
     [primary_key (\<lambda>r. (pm_user_id r, pm_project_id r)) t ''project_memberships'',
      foreign_key pm_user_id t u_id (t_users db) ''project_memberships'',
      foreign_key pm_project_id t p_id (t_projects db) ''project_memberships'']"

definition policies_rules :: "db \<Rightarrow> policy_row list \<Rightarrow> rules" where
  "policies_rules db t =
     [primary_key pol_id t ''access_policies'',
      unique_key pol_name t ''access_policies.name'']"

definition policy_users_rules :: "db \<Rightarrow> policy_user_row list \<Rightarrow> rules" where
  "policy_users_rules db t =
     [primary_key (\<lambda>r. (pu_policy_id r, pu_user_id r)) t ''policy_users'',
      foreign_key pu_policy_id t pol_id (t_policies db) ''policy_users'',
      foreign_key pu_user_id t u_id (t_users db) ''policy_users'']"

definition policy_projects_rules :: "db \<Rightarrow> policy_project_row list \<Rightarrow> rules" where
  "policy_projects_rules db t =
     [primary_key (\<lambda>r. (pp_policy_id r, pp_project_id r)) t ''policy_projects'',
      foreign_key pp_policy_id t pol_id (t_policies db) ''policy_projects'',
      foreign_key pp_project_id t p_id (t_projects db) ''policy_projects'']"

definition auth_sessions_rules :: "db \<Rightarrow> auth_session_row list \<Rightarrow> rules" where
  "auth_sessions_rules db t =
     [check_rule auth_session_check t ''auth_sessions'',
      primary_key s_id t ''auth_sessions'',
      unique_key s_token_hash t ''auth_sessions.token_hash'',
      foreign_key s_user_id t u_id (t_users db) ''auth_sessions'']"

definition access_sessions_rules :: "db \<Rightarrow> access_session_row list \<Rightarrow> rules" where
  "access_sessions_rules db t =
     [check_rule access_session_check t ''access_sessions'',
      primary_key acs_id t ''access_sessions'',
      unique_key acs_token_hash t ''access_sessions.token_hash'',
      foreign_key acs_project_id t p_id (t_projects db) ''access_sessions'',
      foreign_key acs_endpoint_id t e_id (t_endpoints db) ''access_sessions'',
      foreign_key_or_null acs_user_id t u_id (t_users db) ''access_sessions'',
      foreign_key_or_null acs_auth_session_id t s_id (t_auth_sessions db) ''access_sessions'']"

definition access_logs_rules :: "db \<Rightarrow> access_log_row list \<Rightarrow> rules" where
  "access_logs_rules db t =
     [primary_key lg_id t ''access_logs'']"

definition jobs_rules :: "db \<Rightarrow> job_row list \<Rightarrow> rules" where
  "jobs_rules db t =
     [check_rule job_check t ''discovery_jobs'',
      primary_key dj_id t ''discovery_jobs'',
      foreign_key dj_project_id t p_id (t_projects db) ''discovery_jobs'',
      foreign_key_or_null dj_requested_by t u_id (t_users db) ''discovery_jobs'']"

definition results_rules :: "db \<Rightarrow> result_row list \<Rightarrow> rules" where
  "results_rules db t =
     [check_rule result_check t ''discovery_results'',
      primary_key dr_id t ''discovery_results'',
      unique_key (\<lambda>r. (dr_job_id r, dr_host r, dr_protocol r, dr_port r)) t
        ''discovery_results.job_id, discovery_results.host, discovery_results.protocol, discovery_results.port'',
      foreign_key dr_job_id t dj_id (t_jobs db) ''discovery_results'']"

definition audit_logs_rules :: "db \<Rightarrow> audit_row list \<Rightarrow> rules" where
  "audit_logs_rules db t =
     [primary_key al_id t ''audit_logs'']"

definition user_mfa_rules :: "db \<Rightarrow> mfa_row list \<Rightarrow> rules" where
  "user_mfa_rules db t =
     [check_rule mfa_check t ''user_mfa'',
      primary_key um_user_id t ''user_mfa'',
      foreign_key um_user_id t u_id (t_users db) ''user_mfa'']"

definition recovery_codes_rules :: "db \<Rightarrow> recovery_row list \<Rightarrow> rules" where
  "recovery_codes_rules db t =
     [primary_key rc_id t ''mfa_recovery_codes'',
      unique_key (\<lambda>r. (rc_user_id r, rc_code_hash r)) t
        ''mfa_recovery_codes.user_id, mfa_recovery_codes.code_hash'',
      foreign_key rc_user_id t u_id (t_users db) ''mfa_recovery_codes'']"

definition challenges_rules :: "db \<Rightarrow> challenge_row list \<Rightarrow> rules" where
  "challenges_rules db t =
     [check_rule challenge_check t ''mfa_challenges'',
      primary_key mc_id t ''mfa_challenges'',
      unique_key mc_token_hash t ''mfa_challenges.token_hash'',
      foreign_key mc_user_id t u_id (t_users db) ''mfa_challenges'']"

definition node_credentials_rules :: "db \<Rightarrow> credential_row list \<Rightarrow> rules" where
  "node_credentials_rules db t =
     [primary_key nc_node_id t ''node_credentials'']"

section \<open>Statements that are checked\<close>

definition put_nodes :: "node_row list \<Rightarrow> db \<Rightarrow> db res" where
  "put_nodes t db = checked (nodes_rules db t) (db\<lparr>t_nodes := t\<rparr>)"

definition put_projects :: "project_row list \<Rightarrow> db \<Rightarrow> db res" where
  "put_projects t db = checked (projects_rules db t) (db\<lparr>t_projects := t\<rparr>)"

definition put_networks :: "network_row list \<Rightarrow> db \<Rightarrow> db res" where
  "put_networks t db = checked (networks_rules db t) (db\<lparr>t_networks := t\<rparr>)"

definition put_scan_ports :: "scan_port_row list \<Rightarrow> db \<Rightarrow> db res" where
  "put_scan_ports t db = checked (scan_ports_rules db t) (db\<lparr>t_scan_ports := t\<rparr>)"

definition put_devices :: "device_row list \<Rightarrow> db \<Rightarrow> db res" where
  "put_devices t db = checked (devices_rules db t) (db\<lparr>t_devices := t\<rparr>)"

definition put_endpoints :: "endpoint_row list \<Rightarrow> db \<Rightarrow> db res" where
  "put_endpoints t db = checked (endpoints_rules db t) (db\<lparr>t_endpoints := t\<rparr>)"

definition put_forwards :: "forward_row list \<Rightarrow> db \<Rightarrow> db res" where
  "put_forwards t db = checked (forwards_rules db t) (db\<lparr>t_forwards := t\<rparr>)"

definition put_users :: "user_row list \<Rightarrow> db \<Rightarrow> db res" where
  "put_users t db = checked (users_rules db t) (db\<lparr>t_users := t\<rparr>)"

definition put_memberships :: "membership_row list \<Rightarrow> db \<Rightarrow> db res" where
  "put_memberships t db = checked (memberships_rules db t) (db\<lparr>t_memberships := t\<rparr>)"

definition put_policies :: "policy_row list \<Rightarrow> db \<Rightarrow> db res" where
  "put_policies t db = checked (policies_rules db t) (db\<lparr>t_policies := t\<rparr>)"

definition put_policy_users :: "policy_user_row list \<Rightarrow> db \<Rightarrow> db res" where
  "put_policy_users t db = checked (policy_users_rules db t) (db\<lparr>t_policy_users := t\<rparr>)"

definition put_policy_projects :: "policy_project_row list \<Rightarrow> db \<Rightarrow> db res" where
  "put_policy_projects t db = checked (policy_projects_rules db t) (db\<lparr>t_policy_projects := t\<rparr>)"

definition put_auth_sessions :: "auth_session_row list \<Rightarrow> db \<Rightarrow> db res" where
  "put_auth_sessions t db = checked (auth_sessions_rules db t) (db\<lparr>t_auth_sessions := t\<rparr>)"

definition put_access_sessions :: "access_session_row list \<Rightarrow> db \<Rightarrow> db res" where
  "put_access_sessions t db = checked (access_sessions_rules db t) (db\<lparr>t_access_sessions := t\<rparr>)"

definition put_access_logs :: "access_log_row list \<Rightarrow> db \<Rightarrow> db res" where
  "put_access_logs t db = checked (access_logs_rules db t) (db\<lparr>t_access_logs := t\<rparr>)"

definition put_jobs :: "job_row list \<Rightarrow> db \<Rightarrow> db res" where
  "put_jobs t db = checked (jobs_rules db t) (db\<lparr>t_jobs := t\<rparr>)"

definition put_results :: "result_row list \<Rightarrow> db \<Rightarrow> db res" where
  "put_results t db = checked (results_rules db t) (db\<lparr>t_results := t\<rparr>)"

definition put_audit_logs :: "audit_row list \<Rightarrow> db \<Rightarrow> db res" where
  "put_audit_logs t db = checked (audit_logs_rules db t) (db\<lparr>t_audit_logs := t\<rparr>)"

definition put_user_mfa :: "mfa_row list \<Rightarrow> db \<Rightarrow> db res" where
  "put_user_mfa t db = checked (user_mfa_rules db t) (db\<lparr>t_user_mfa := t\<rparr>)"

definition put_recovery_codes :: "recovery_row list \<Rightarrow> db \<Rightarrow> db res" where
  "put_recovery_codes t db = checked (recovery_codes_rules db t) (db\<lparr>t_recovery_codes := t\<rparr>)"

definition put_challenges :: "challenge_row list \<Rightarrow> db \<Rightarrow> db res" where
  "put_challenges t db = checked (challenges_rules db t) (db\<lparr>t_challenges := t\<rparr>)"

definition put_node_credentials :: "credential_row list \<Rightarrow> db \<Rightarrow> db res" where
  "put_node_credentials t db = checked (node_credentials_rules db t) (db\<lparr>t_node_credentials := t\<rparr>)"

section \<open>The integrity of the database\<close>

definition db_ok :: "db \<Rightarrow> bool" where
  "db_ok db \<longleftrightarrow> holds (nodes_rules db (t_nodes db))
     \<and> holds (projects_rules db (t_projects db))
     \<and> holds (networks_rules db (t_networks db))
     \<and> holds (scan_ports_rules db (t_scan_ports db))
     \<and> holds (devices_rules db (t_devices db))
     \<and> holds (endpoints_rules db (t_endpoints db))
     \<and> holds (forwards_rules db (t_forwards db))
     \<and> holds (users_rules db (t_users db))
     \<and> holds (memberships_rules db (t_memberships db))
     \<and> holds (policies_rules db (t_policies db))
     \<and> holds (policy_users_rules db (t_policy_users db))
     \<and> holds (policy_projects_rules db (t_policy_projects db))
     \<and> holds (auth_sessions_rules db (t_auth_sessions db))
     \<and> holds (access_sessions_rules db (t_access_sessions db))
     \<and> holds (access_logs_rules db (t_access_logs db))
     \<and> holds (jobs_rules db (t_jobs db))
     \<and> holds (results_rules db (t_results db))
     \<and> holds (audit_logs_rules db (t_audit_logs db))
     \<and> holds (user_mfa_rules db (t_user_mfa db))
     \<and> holds (recovery_codes_rules db (t_recovery_codes db))
     \<and> holds (challenges_rules db (t_challenges db))
     \<and> holds (node_credentials_rules db (t_node_credentials db))"

lemmas rules_defs =
  nodes_rules_def projects_rules_def networks_rules_def
  scan_ports_rules_def devices_rules_def endpoints_rules_def
  forwards_rules_def users_rules_def memberships_rules_def
  policies_rules_def policy_users_rules_def policy_projects_rules_def
  auth_sessions_rules_def access_sessions_rules_def access_logs_rules_def
  jobs_rules_def results_rules_def audit_logs_rules_def
  user_mfa_rules_def recovery_codes_rules_def challenges_rules_def
  node_credentials_rules_def

lemmas put_defs =
  put_nodes_def put_projects_def put_networks_def
  put_scan_ports_def put_devices_def put_endpoints_def
  put_forwards_def put_users_def put_memberships_def
  put_policies_def put_policy_users_def put_policy_projects_def
  put_auth_sessions_def put_access_sessions_def put_access_logs_def
  put_jobs_def put_results_def put_audit_logs_def
  put_user_mfa_def put_recovery_codes_def put_challenges_def
  put_node_credentials_def

text \<open>A table may be replaced by rows that satisfy its rules and keep every reference to it.\<close>

lemma refs_in_mono: "refs_in f cs g ps \<Longrightarrow> g ` set ps \<subseteq> g ` set qs \<Longrightarrow> refs_in f cs g qs"
  by (auto simp: refs_in_def)

lemma opt_refs_in_mono: "opt_refs_in f cs g ps \<Longrightarrow> g ` set ps \<subseteq> g ` set qs \<Longrightarrow> opt_refs_in f cs g qs"
  by (auto simp: opt_refs_in_all)

lemma set_nodes_ok:
  "db_ok db \<Longrightarrow> holds (nodes_rules db t) \<Longrightarrow> refs_in p_node_id (t_projects db) n_id t \<Longrightarrow> opt_refs_in pf_node_id (t_forwards db) n_id t
    \<Longrightarrow> db_ok (db\<lparr>t_nodes := t\<rparr>)"
  unfolding db_ok_def rules_defs by simp

lemma set_projects_ok:
  "db_ok db \<Longrightarrow> holds (projects_rules db t) \<Longrightarrow> refs_in pn_project_id (t_networks db) p_id t \<Longrightarrow> refs_in sp_project_id (t_scan_ports db) p_id t \<Longrightarrow> refs_in d_project_id (t_devices db) p_id t \<Longrightarrow> refs_in pm_project_id (t_memberships db) p_id t \<Longrightarrow> refs_in pp_project_id (t_policy_projects db) p_id t \<Longrightarrow> refs_in acs_project_id (t_access_sessions db) p_id t \<Longrightarrow> refs_in dj_project_id (t_jobs db) p_id t
    \<Longrightarrow> db_ok (db\<lparr>t_projects := t\<rparr>)"
  unfolding db_ok_def rules_defs by simp

lemma set_networks_ok:
  "db_ok db \<Longrightarrow> holds (networks_rules db t)
    \<Longrightarrow> db_ok (db\<lparr>t_networks := t\<rparr>)"
  unfolding db_ok_def rules_defs by simp

lemma set_scan_ports_ok:
  "db_ok db \<Longrightarrow> holds (scan_ports_rules db t)
    \<Longrightarrow> db_ok (db\<lparr>t_scan_ports := t\<rparr>)"
  unfolding db_ok_def rules_defs by simp

lemma set_devices_ok:
  "db_ok db \<Longrightarrow> holds (devices_rules db t) \<Longrightarrow> refs_in e_device_id (t_endpoints db) d_id t
    \<Longrightarrow> db_ok (db\<lparr>t_devices := t\<rparr>)"
  unfolding db_ok_def rules_defs by simp

lemma set_endpoints_ok:
  "db_ok db \<Longrightarrow> holds (endpoints_rules db t) \<Longrightarrow> refs_in pf_endpoint_id (t_forwards db) e_id t \<Longrightarrow> refs_in acs_endpoint_id (t_access_sessions db) e_id t
    \<Longrightarrow> db_ok (db\<lparr>t_endpoints := t\<rparr>)"
  unfolding db_ok_def rules_defs by simp

lemma set_forwards_ok:
  "db_ok db \<Longrightarrow> holds (forwards_rules db t)
    \<Longrightarrow> db_ok (db\<lparr>t_forwards := t\<rparr>)"
  unfolding db_ok_def rules_defs by simp

lemma set_users_ok:
  "db_ok db \<Longrightarrow> holds (users_rules db t) \<Longrightarrow> refs_in pm_user_id (t_memberships db) u_id t \<Longrightarrow> refs_in pu_user_id (t_policy_users db) u_id t \<Longrightarrow> refs_in s_user_id (t_auth_sessions db) u_id t \<Longrightarrow> opt_refs_in acs_user_id (t_access_sessions db) u_id t \<Longrightarrow> opt_refs_in dj_requested_by (t_jobs db) u_id t \<Longrightarrow> refs_in um_user_id (t_user_mfa db) u_id t \<Longrightarrow> refs_in rc_user_id (t_recovery_codes db) u_id t \<Longrightarrow> refs_in mc_user_id (t_challenges db) u_id t
    \<Longrightarrow> db_ok (db\<lparr>t_users := t\<rparr>)"
  unfolding db_ok_def rules_defs by simp

lemma set_memberships_ok:
  "db_ok db \<Longrightarrow> holds (memberships_rules db t)
    \<Longrightarrow> db_ok (db\<lparr>t_memberships := t\<rparr>)"
  unfolding db_ok_def rules_defs by simp

lemma set_policies_ok:
  "db_ok db \<Longrightarrow> holds (policies_rules db t) \<Longrightarrow> refs_in pu_policy_id (t_policy_users db) pol_id t \<Longrightarrow> refs_in pp_policy_id (t_policy_projects db) pol_id t
    \<Longrightarrow> db_ok (db\<lparr>t_policies := t\<rparr>)"
  unfolding db_ok_def rules_defs by simp

lemma set_policy_users_ok:
  "db_ok db \<Longrightarrow> holds (policy_users_rules db t)
    \<Longrightarrow> db_ok (db\<lparr>t_policy_users := t\<rparr>)"
  unfolding db_ok_def rules_defs by simp

lemma set_policy_projects_ok:
  "db_ok db \<Longrightarrow> holds (policy_projects_rules db t)
    \<Longrightarrow> db_ok (db\<lparr>t_policy_projects := t\<rparr>)"
  unfolding db_ok_def rules_defs by simp

lemma set_auth_sessions_ok:
  "db_ok db \<Longrightarrow> holds (auth_sessions_rules db t) \<Longrightarrow> opt_refs_in acs_auth_session_id (t_access_sessions db) s_id t
    \<Longrightarrow> db_ok (db\<lparr>t_auth_sessions := t\<rparr>)"
  unfolding db_ok_def rules_defs by simp

lemma set_access_sessions_ok:
  "db_ok db \<Longrightarrow> holds (access_sessions_rules db t)
    \<Longrightarrow> db_ok (db\<lparr>t_access_sessions := t\<rparr>)"
  unfolding db_ok_def rules_defs by simp

lemma set_access_logs_ok:
  "db_ok db \<Longrightarrow> holds (access_logs_rules db t)
    \<Longrightarrow> db_ok (db\<lparr>t_access_logs := t\<rparr>)"
  unfolding db_ok_def rules_defs by simp

lemma set_jobs_ok:
  "db_ok db \<Longrightarrow> holds (jobs_rules db t) \<Longrightarrow> refs_in dr_job_id (t_results db) dj_id t
    \<Longrightarrow> db_ok (db\<lparr>t_jobs := t\<rparr>)"
  unfolding db_ok_def rules_defs by simp

lemma set_results_ok:
  "db_ok db \<Longrightarrow> holds (results_rules db t)
    \<Longrightarrow> db_ok (db\<lparr>t_results := t\<rparr>)"
  unfolding db_ok_def rules_defs by simp

lemma set_audit_logs_ok:
  "db_ok db \<Longrightarrow> holds (audit_logs_rules db t)
    \<Longrightarrow> db_ok (db\<lparr>t_audit_logs := t\<rparr>)"
  unfolding db_ok_def rules_defs by simp

lemma set_user_mfa_ok:
  "db_ok db \<Longrightarrow> holds (user_mfa_rules db t)
    \<Longrightarrow> db_ok (db\<lparr>t_user_mfa := t\<rparr>)"
  unfolding db_ok_def rules_defs by simp

lemma set_recovery_codes_ok:
  "db_ok db \<Longrightarrow> holds (recovery_codes_rules db t)
    \<Longrightarrow> db_ok (db\<lparr>t_recovery_codes := t\<rparr>)"
  unfolding db_ok_def rules_defs by simp

lemma set_challenges_ok:
  "db_ok db \<Longrightarrow> holds (challenges_rules db t)
    \<Longrightarrow> db_ok (db\<lparr>t_challenges := t\<rparr>)"
  unfolding db_ok_def rules_defs by simp

lemma set_node_credentials_ok:
  "db_ok db \<Longrightarrow> holds (node_credentials_rules db t)
    \<Longrightarrow> db_ok (db\<lparr>t_node_credentials := t\<rparr>)"
  unfolding db_ok_def rules_defs by simp

section \<open>Updates of columns that no rule mentions\<close>

lemma list_all_upd_where: "list_all c t \<Longrightarrow> (\<And>r. c r \<Longrightarrow> c (f r)) \<Longrightarrow> list_all c (upd_where P f t)"
  by (auto simp: list_all_iff upd_where_def)

lemma distinct_upd_where: "distinct (map g t) \<Longrightarrow> (\<And>r. g (f r) = g r) \<Longrightarrow> distinct (map g (upd_where P f t))"
  by (simp add: map_upd_where_same)

lemma distinct_present_upd_where:
  assumes "distinct_present g t" "\<And>r. g (f r) = g r"
  shows "distinct_present g (upd_where P f t)"
proof -
  have "filter (\<lambda>r. g r \<noteq> None) (upd_where P f t) = upd_where P f (filter (\<lambda>r. g r \<noteq> None) t)"
    by (induction t) (auto simp: upd_where_def assms(2))
  then show ?thesis using assms by (simp add: distinct_present_def map_upd_where_same)
qed

lemma distinct_present_del_where: "distinct_present g t \<Longrightarrow> distinct_present g (del_where P t)"
proof -
  have "filter (\<lambda>r. g r \<noteq> None) (filter (\<lambda>r. \<not> P r) t) = filter (\<lambda>r. \<not> P r) (filter (\<lambda>r. g r \<noteq> None) t)"
    by (simp add: conj_commute)
  then show "distinct_present g t \<Longrightarrow> distinct_present g (del_where P t)"
    by (simp only: distinct_present_def del_where_def distinct_map_filter)
qed

lemma list_all_del_where: "list_all c t \<Longrightarrow> list_all c (del_where P t)"
  by (simp add: list_all_iff)

lemmas upd_row_rules = list_all_upd_where distinct_upd_where distinct_present_upd_where
  refs_in_upd_child refs_in_upd_parent

lemmas del_row_rules = list_all_del_where distinct_del_where distinct_present_del_where
  refs_in_del_child

lemma upd_nodes_ok:
  assumes "db_ok db" and "\<And>r. n_id (f r) = n_id r \<and> n_name (f r) = n_name r"
    and "\<And>r. node_check r \<Longrightarrow> node_check (f r)"
  shows "db_ok (db\<lparr>t_nodes := upd_where P f (t_nodes db)\<rparr>)"
  using assms by (intro set_nodes_ok) (auto simp: db_ok_def rules_defs  intro!: upd_row_rules
    simp: refs_in_upd_child refs_in_upd_parent)

lemma upd_projects_ok:
  assumes "db_ok db" and "\<And>r. p_id (f r) = p_id r \<and> p_code (f r) = p_code r \<and> p_client_id (f r) = p_client_id r \<and> p_node_id (f r) = p_node_id r"
  shows "db_ok (db\<lparr>t_projects := upd_where P f (t_projects db)\<rparr>)"
  using assms by (intro set_projects_ok) (auto simp: db_ok_def rules_defs client_key_def intro!: upd_row_rules
    simp: refs_in_upd_child refs_in_upd_parent)

lemma upd_networks_ok:
  assumes "db_ok db" and "\<And>r. pn_id (f r) = pn_id r \<and> pn_project_id (f r) = pn_project_id r \<and> pn_cidr (f r) = pn_cidr r"
  shows "db_ok (db\<lparr>t_networks := upd_where P f (t_networks db)\<rparr>)"
  using assms by (intro set_networks_ok) (auto simp: db_ok_def rules_defs  intro!: upd_row_rules
    simp: refs_in_upd_child refs_in_upd_parent)

lemma upd_scan_ports_ok:
  assumes "db_ok db" and "\<And>r. sp_project_id (f r) = sp_project_id r \<and> sp_position (f r) = sp_position r \<and> sp_protocol (f r) = sp_protocol r \<and> sp_port (f r) = sp_port r"
    and "\<And>r. scan_port_check r \<Longrightarrow> scan_port_check (f r)"
  shows "db_ok (db\<lparr>t_scan_ports := upd_where P f (t_scan_ports db)\<rparr>)"
  using assms by (intro set_scan_ports_ok) (auto simp: db_ok_def rules_defs  intro!: upd_row_rules
    simp: refs_in_upd_child refs_in_upd_parent)

lemma upd_devices_ok:
  assumes "db_ok db" and "\<And>r. d_id (f r) = d_id r \<and> d_project_id (f r) = d_project_id r \<and> d_host (f r) = d_host r"
    and "\<And>r. device_check r \<Longrightarrow> device_check (f r)"
  shows "db_ok (db\<lparr>t_devices := upd_where P f (t_devices db)\<rparr>)"
  using assms by (intro set_devices_ok) (auto simp: db_ok_def rules_defs  intro!: upd_row_rules
    simp: refs_in_upd_child refs_in_upd_parent)

lemma upd_endpoints_ok:
  assumes "db_ok db" and "\<And>r. e_id (f r) = e_id r \<and> e_device_id (f r) = e_device_id r \<and> e_protocol (f r) = e_protocol r \<and> e_target_port (f r) = e_target_port r"
    and "\<And>r. endpoint_check r \<Longrightarrow> endpoint_check (f r)"
  shows "db_ok (db\<lparr>t_endpoints := upd_where P f (t_endpoints db)\<rparr>)"
  using assms by (intro set_endpoints_ok) (auto simp: db_ok_def rules_defs  intro!: upd_row_rules
    simp: refs_in_upd_child refs_in_upd_parent)

lemma upd_forwards_ok:
  assumes "db_ok db" and "\<And>r. pf_id (f r) = pf_id r \<and> pf_endpoint_id (f r) = pf_endpoint_id r \<and> pf_server_port (f r) = pf_server_port r \<and> pf_node_id (f r) = pf_node_id r"
    and "\<And>r. forward_check r \<Longrightarrow> forward_check (f r)"
  shows "db_ok (db\<lparr>t_forwards := upd_where P f (t_forwards db)\<rparr>)"
  using assms by (intro set_forwards_ok) (auto simp: db_ok_def rules_defs forward_port_key_def intro!: upd_row_rules
    simp: refs_in_upd_child refs_in_upd_parent)

lemma upd_users_ok:
  assumes "db_ok db" and "\<And>r. u_id (f r) = u_id r \<and> u_username (f r) = u_username r"
    and "\<And>r. user_check r \<Longrightarrow> user_check (f r)"
  shows "db_ok (db\<lparr>t_users := upd_where P f (t_users db)\<rparr>)"
  using assms by (intro set_users_ok) (auto simp: db_ok_def rules_defs  intro!: upd_row_rules
    simp: refs_in_upd_child refs_in_upd_parent)

lemma upd_memberships_ok:
  assumes "db_ok db" and "\<And>r. pm_user_id (f r) = pm_user_id r \<and> pm_project_id (f r) = pm_project_id r"
  shows "db_ok (db\<lparr>t_memberships := upd_where P f (t_memberships db)\<rparr>)"
  using assms by (intro set_memberships_ok) (auto simp: db_ok_def rules_defs  intro!: upd_row_rules
    simp: refs_in_upd_child refs_in_upd_parent)

lemma upd_policies_ok:
  assumes "db_ok db" and "\<And>r. pol_id (f r) = pol_id r \<and> pol_name (f r) = pol_name r"
  shows "db_ok (db\<lparr>t_policies := upd_where P f (t_policies db)\<rparr>)"
  using assms by (intro set_policies_ok) (auto simp: db_ok_def rules_defs  intro!: upd_row_rules
    simp: refs_in_upd_child refs_in_upd_parent)

lemma upd_policy_users_ok:
  assumes "db_ok db" and "\<And>r. pu_policy_id (f r) = pu_policy_id r \<and> pu_user_id (f r) = pu_user_id r"
  shows "db_ok (db\<lparr>t_policy_users := upd_where P f (t_policy_users db)\<rparr>)"
  using assms by (intro set_policy_users_ok) (auto simp: db_ok_def rules_defs  intro!: upd_row_rules
    simp: refs_in_upd_child refs_in_upd_parent)

lemma upd_policy_projects_ok:
  assumes "db_ok db" and "\<And>r. pp_policy_id (f r) = pp_policy_id r \<and> pp_project_id (f r) = pp_project_id r"
  shows "db_ok (db\<lparr>t_policy_projects := upd_where P f (t_policy_projects db)\<rparr>)"
  using assms by (intro set_policy_projects_ok) (auto simp: db_ok_def rules_defs  intro!: upd_row_rules
    simp: refs_in_upd_child refs_in_upd_parent)

lemma upd_auth_sessions_ok:
  assumes "db_ok db" and "\<And>r. s_id (f r) = s_id r \<and> s_token_hash (f r) = s_token_hash r \<and> s_user_id (f r) = s_user_id r"
    and "\<And>r. auth_session_check r \<Longrightarrow> auth_session_check (f r)"
  shows "db_ok (db\<lparr>t_auth_sessions := upd_where P f (t_auth_sessions db)\<rparr>)"
  using assms by (intro set_auth_sessions_ok) (auto simp: db_ok_def rules_defs  intro!: upd_row_rules
    simp: refs_in_upd_child refs_in_upd_parent)

lemma upd_access_sessions_ok:
  assumes "db_ok db" and "\<And>r. acs_id (f r) = acs_id r \<and> acs_token_hash (f r) = acs_token_hash r \<and> acs_project_id (f r) = acs_project_id r \<and> acs_endpoint_id (f r) = acs_endpoint_id r \<and> acs_user_id (f r) = acs_user_id r \<and> acs_auth_session_id (f r) = acs_auth_session_id r"
    and "\<And>r. access_session_check r \<Longrightarrow> access_session_check (f r)"
  shows "db_ok (db\<lparr>t_access_sessions := upd_where P f (t_access_sessions db)\<rparr>)"
  using assms by (intro set_access_sessions_ok) (auto simp: db_ok_def rules_defs  intro!: upd_row_rules
    simp: refs_in_upd_child refs_in_upd_parent)

lemma upd_access_logs_ok:
  assumes "db_ok db" and "\<And>r. lg_id (f r) = lg_id r"
  shows "db_ok (db\<lparr>t_access_logs := upd_where P f (t_access_logs db)\<rparr>)"
  using assms by (intro set_access_logs_ok) (auto simp: db_ok_def rules_defs  intro!: upd_row_rules
    simp: refs_in_upd_child refs_in_upd_parent)

lemma upd_jobs_ok:
  assumes "db_ok db" and "\<And>r. dj_id (f r) = dj_id r \<and> dj_project_id (f r) = dj_project_id r \<and> dj_requested_by (f r) = dj_requested_by r"
    and "\<And>r. job_check r \<Longrightarrow> job_check (f r)"
  shows "db_ok (db\<lparr>t_jobs := upd_where P f (t_jobs db)\<rparr>)"
  using assms by (intro set_jobs_ok) (auto simp: db_ok_def rules_defs  intro!: upd_row_rules
    simp: refs_in_upd_child refs_in_upd_parent)

lemma upd_results_ok:
  assumes "db_ok db" and "\<And>r. dr_id (f r) = dr_id r \<and> dr_job_id (f r) = dr_job_id r \<and> dr_host (f r) = dr_host r \<and> dr_protocol (f r) = dr_protocol r \<and> dr_port (f r) = dr_port r"
    and "\<And>r. result_check r \<Longrightarrow> result_check (f r)"
  shows "db_ok (db\<lparr>t_results := upd_where P f (t_results db)\<rparr>)"
  using assms by (intro set_results_ok) (auto simp: db_ok_def rules_defs  intro!: upd_row_rules
    simp: refs_in_upd_child refs_in_upd_parent)

lemma upd_audit_logs_ok:
  assumes "db_ok db" and "\<And>r. al_id (f r) = al_id r"
  shows "db_ok (db\<lparr>t_audit_logs := upd_where P f (t_audit_logs db)\<rparr>)"
  using assms by (intro set_audit_logs_ok) (auto simp: db_ok_def rules_defs  intro!: upd_row_rules
    simp: refs_in_upd_child refs_in_upd_parent)

lemma upd_user_mfa_ok:
  assumes "db_ok db" and "\<And>r. um_user_id (f r) = um_user_id r"
    and "\<And>r. mfa_check r \<Longrightarrow> mfa_check (f r)"
  shows "db_ok (db\<lparr>t_user_mfa := upd_where P f (t_user_mfa db)\<rparr>)"
  using assms by (intro set_user_mfa_ok) (auto simp: db_ok_def rules_defs  intro!: upd_row_rules
    simp: refs_in_upd_child refs_in_upd_parent)

lemma upd_recovery_codes_ok:
  assumes "db_ok db" and "\<And>r. rc_id (f r) = rc_id r \<and> rc_user_id (f r) = rc_user_id r \<and> rc_code_hash (f r) = rc_code_hash r"
  shows "db_ok (db\<lparr>t_recovery_codes := upd_where P f (t_recovery_codes db)\<rparr>)"
  using assms by (intro set_recovery_codes_ok) (auto simp: db_ok_def rules_defs  intro!: upd_row_rules
    simp: refs_in_upd_child refs_in_upd_parent)

lemma upd_challenges_ok:
  assumes "db_ok db" and "\<And>r. mc_id (f r) = mc_id r \<and> mc_token_hash (f r) = mc_token_hash r \<and> mc_user_id (f r) = mc_user_id r"
    and "\<And>r. challenge_check r \<Longrightarrow> challenge_check (f r)"
  shows "db_ok (db\<lparr>t_challenges := upd_where P f (t_challenges db)\<rparr>)"
  using assms by (intro set_challenges_ok) (auto simp: db_ok_def rules_defs  intro!: upd_row_rules
    simp: refs_in_upd_child refs_in_upd_parent)

lemma upd_node_credentials_ok:
  assumes "db_ok db" and "\<And>r. nc_node_id (f r) = nc_node_id r"
  shows "db_ok (db\<lparr>t_node_credentials := upd_where P f (t_node_credentials db)\<rparr>)"
  using assms by (intro set_node_credentials_ok) (auto simp: db_ok_def rules_defs  intro!: upd_row_rules
    simp: refs_in_upd_child refs_in_upd_parent)

lemma del_networks_ok: "db_ok db \<Longrightarrow> db_ok (db\<lparr>t_networks := del_where P (t_networks db)\<rparr>)"
  by (rule set_networks_ok) (auto simp: db_ok_def rules_defs intro!: del_row_rules)

lemma del_scan_ports_ok: "db_ok db \<Longrightarrow> db_ok (db\<lparr>t_scan_ports := del_where P (t_scan_ports db)\<rparr>)"
  by (rule set_scan_ports_ok) (auto simp: db_ok_def rules_defs intro!: del_row_rules)

lemma del_forwards_ok: "db_ok db \<Longrightarrow> db_ok (db\<lparr>t_forwards := del_where P (t_forwards db)\<rparr>)"
  by (rule set_forwards_ok) (auto simp: db_ok_def rules_defs intro!: del_row_rules)

lemma del_memberships_ok: "db_ok db \<Longrightarrow> db_ok (db\<lparr>t_memberships := del_where P (t_memberships db)\<rparr>)"
  by (rule set_memberships_ok) (auto simp: db_ok_def rules_defs intro!: del_row_rules)

lemma del_policy_users_ok: "db_ok db \<Longrightarrow> db_ok (db\<lparr>t_policy_users := del_where P (t_policy_users db)\<rparr>)"
  by (rule set_policy_users_ok) (auto simp: db_ok_def rules_defs intro!: del_row_rules)

lemma del_policy_projects_ok: "db_ok db \<Longrightarrow> db_ok (db\<lparr>t_policy_projects := del_where P (t_policy_projects db)\<rparr>)"
  by (rule set_policy_projects_ok) (auto simp: db_ok_def rules_defs intro!: del_row_rules)

lemma del_access_sessions_ok: "db_ok db \<Longrightarrow> db_ok (db\<lparr>t_access_sessions := del_where P (t_access_sessions db)\<rparr>)"
  by (rule set_access_sessions_ok) (auto simp: db_ok_def rules_defs intro!: del_row_rules)

lemma del_access_logs_ok: "db_ok db \<Longrightarrow> db_ok (db\<lparr>t_access_logs := del_where P (t_access_logs db)\<rparr>)"
  by (rule set_access_logs_ok) (auto simp: db_ok_def rules_defs intro!: del_row_rules)

lemma del_results_ok: "db_ok db \<Longrightarrow> db_ok (db\<lparr>t_results := del_where P (t_results db)\<rparr>)"
  by (rule set_results_ok) (auto simp: db_ok_def rules_defs intro!: del_row_rules)

lemma del_audit_logs_ok: "db_ok db \<Longrightarrow> db_ok (db\<lparr>t_audit_logs := del_where P (t_audit_logs db)\<rparr>)"
  by (rule set_audit_logs_ok) (auto simp: db_ok_def rules_defs intro!: del_row_rules)

lemma del_user_mfa_ok: "db_ok db \<Longrightarrow> db_ok (db\<lparr>t_user_mfa := del_where P (t_user_mfa db)\<rparr>)"
  by (rule set_user_mfa_ok) (auto simp: db_ok_def rules_defs intro!: del_row_rules)

lemma del_recovery_codes_ok: "db_ok db \<Longrightarrow> db_ok (db\<lparr>t_recovery_codes := del_where P (t_recovery_codes db)\<rparr>)"
  by (rule set_recovery_codes_ok) (auto simp: db_ok_def rules_defs intro!: del_row_rules)

lemma del_challenges_ok: "db_ok db \<Longrightarrow> db_ok (db\<lparr>t_challenges := del_where P (t_challenges db)\<rparr>)"
  by (rule set_challenges_ok) (auto simp: db_ok_def rules_defs intro!: del_row_rules)

lemma del_node_credentials_ok: "db_ok db \<Longrightarrow> db_ok (db\<lparr>t_node_credentials := del_where P (t_node_credentials db)\<rparr>)"
  by (rule set_node_credentials_ok) (auto simp: db_ok_def rules_defs intro!: del_row_rules)

end
