(* ===== verification/Statements.thy ===== *)
theory Statements
  imports Integrity
begin

text \<open>
  The SQL statements of the store as functions on \<open>db\<close>: updates of columns that no constraint
  mentions, deletes with their ON DELETE actions (\<open>store/migrations.go\<close>), the triggers of
  \<open>access_sessions\<close>, and the invariant \<open>store_inv\<close> of the store: the integrity of the
  tables, an up-to-date log row for every access session, and at most one live MFA challenge per
  user, which has fewer than five failed attempts. The lemmas of \<open>on_ok_rules\<close> say which
  statements keep it, so an operation is shown to keep it statement by statement.
\<close>

section \<open>The invariant of the store\<close>

definition log_of :: "access_session_row \<Rightarrow> access_log_row \<Rightarrow> bool" where
  "log_of s l \<longleftrightarrow> lg_id l = acs_id s \<and> lg_status l = acs_status s \<and> lg_expires_at l = acs_expires_at s
     \<and> lg_last_seen_at l = acs_last_seen_at s \<and> lg_ended_at l = acs_ended_at s
     \<and> (acs_grant_exchanged_at s \<noteq> None \<longrightarrow> lg_accessed_at l \<noteq> None)"

definition logs_ok :: "access_session_row list \<Rightarrow> access_log_row list \<Rightarrow> bool" where
  "logs_ok ss ls \<longleftrightarrow> (\<forall>s\<in>set ss. \<exists>l\<in>set ls. log_of s l)"

definition live_challenge :: "challenge_row \<Rightarrow> bool" where
  "live_challenge c \<longleftrightarrow> mc_status c = ''active''"

definition challenges_ok :: "challenge_row list \<Rightarrow> bool" where
  "challenges_ok cs \<longleftrightarrow> distinct (map mc_user_id (filter live_challenge cs))
     \<and> (\<forall>c\<in>set cs. live_challenge c \<longrightarrow> mc_attempts c < 5)"

definition store_inv :: "db \<Rightarrow> bool" where
  "store_inv db \<longleftrightarrow> db_ok db \<and> logs_ok (t_access_sessions db) (t_access_logs db)
     \<and> challenges_ok (t_challenges db)"

lemma empty_db_inv: "store_inv empty_db"
  by (simp add: store_inv_def db_ok_def rules_defs empty_db_def logs_ok_def challenges_ok_def
      distinct_present_def)

lemma store_inv_db_ok: "store_inv db \<Longrightarrow> db_ok db"
  by (simp add: store_inv_def)

section \<open>Updates and deletes of rows\<close>

definition update_nodes :: "(node_row \<Rightarrow> bool) \<Rightarrow> (node_row \<Rightarrow> node_row) \<Rightarrow> db \<Rightarrow> db" where
  "update_nodes P f db = db\<lparr>t_nodes := upd_where P f (t_nodes db)\<rparr>"

definition update_devices :: "(device_row \<Rightarrow> bool) \<Rightarrow> (device_row \<Rightarrow> device_row) \<Rightarrow> db \<Rightarrow> db" where
  "update_devices P f db = db\<lparr>t_devices := upd_where P f (t_devices db)\<rparr>"

definition update_endpoints :: "(endpoint_row \<Rightarrow> bool) \<Rightarrow> (endpoint_row \<Rightarrow> endpoint_row) \<Rightarrow> db \<Rightarrow> db" where
  "update_endpoints P f db = db\<lparr>t_endpoints := upd_where P f (t_endpoints db)\<rparr>"

definition update_forwards :: "(forward_row \<Rightarrow> bool) \<Rightarrow> (forward_row \<Rightarrow> forward_row) \<Rightarrow> db \<Rightarrow> db" where
  "update_forwards P f db = db\<lparr>t_forwards := upd_where P f (t_forwards db)\<rparr>"

definition update_users :: "(user_row \<Rightarrow> bool) \<Rightarrow> (user_row \<Rightarrow> user_row) \<Rightarrow> db \<Rightarrow> db" where
  "update_users P f db = db\<lparr>t_users := upd_where P f (t_users db)\<rparr>"

definition update_auth_sessions :: "(auth_session_row \<Rightarrow> bool) \<Rightarrow> (auth_session_row \<Rightarrow> auth_session_row) \<Rightarrow> db \<Rightarrow> db" where
  "update_auth_sessions P f db = db\<lparr>t_auth_sessions := upd_where P f (t_auth_sessions db)\<rparr>"

definition update_jobs :: "(job_row \<Rightarrow> bool) \<Rightarrow> (job_row \<Rightarrow> job_row) \<Rightarrow> db \<Rightarrow> db" where
  "update_jobs P f db = db\<lparr>t_jobs := upd_where P f (t_jobs db)\<rparr>"

definition update_user_mfa :: "(mfa_row \<Rightarrow> bool) \<Rightarrow> (mfa_row \<Rightarrow> mfa_row) \<Rightarrow> db \<Rightarrow> db" where
  "update_user_mfa P f db = db\<lparr>t_user_mfa := upd_where P f (t_user_mfa db)\<rparr>"

definition update_recovery_codes :: "(recovery_row \<Rightarrow> bool) \<Rightarrow> (recovery_row \<Rightarrow> recovery_row) \<Rightarrow> db \<Rightarrow> db" where
  "update_recovery_codes P f db = db\<lparr>t_recovery_codes := upd_where P f (t_recovery_codes db)\<rparr>"

definition update_challenges :: "(challenge_row \<Rightarrow> bool) \<Rightarrow> (challenge_row \<Rightarrow> challenge_row) \<Rightarrow> db \<Rightarrow> db" where
  "update_challenges P f db = db\<lparr>t_challenges := upd_where P f (t_challenges db)\<rparr>"

definition delete_networks :: "(network_row \<Rightarrow> bool) \<Rightarrow> db \<Rightarrow> db" where
  "delete_networks P db = db\<lparr>t_networks := del_where P (t_networks db)\<rparr>"

definition delete_scan_ports :: "(scan_port_row \<Rightarrow> bool) \<Rightarrow> db \<Rightarrow> db" where
  "delete_scan_ports P db = db\<lparr>t_scan_ports := del_where P (t_scan_ports db)\<rparr>"

definition delete_forwards :: "(forward_row \<Rightarrow> bool) \<Rightarrow> db \<Rightarrow> db" where
  "delete_forwards P db = db\<lparr>t_forwards := del_where P (t_forwards db)\<rparr>"

definition delete_memberships :: "(membership_row \<Rightarrow> bool) \<Rightarrow> db \<Rightarrow> db" where
  "delete_memberships P db = db\<lparr>t_memberships := del_where P (t_memberships db)\<rparr>"

definition delete_policy_users :: "(policy_user_row \<Rightarrow> bool) \<Rightarrow> db \<Rightarrow> db" where
  "delete_policy_users P db = db\<lparr>t_policy_users := del_where P (t_policy_users db)\<rparr>"

definition delete_policy_projects :: "(policy_project_row \<Rightarrow> bool) \<Rightarrow> db \<Rightarrow> db" where
  "delete_policy_projects P db = db\<lparr>t_policy_projects := del_where P (t_policy_projects db)\<rparr>"

definition delete_user_mfa :: "(mfa_row \<Rightarrow> bool) \<Rightarrow> db \<Rightarrow> db" where
  "delete_user_mfa P db = db\<lparr>t_user_mfa := del_where P (t_user_mfa db)\<rparr>"

definition delete_recovery_codes :: "(recovery_row \<Rightarrow> bool) \<Rightarrow> db \<Rightarrow> db" where
  "delete_recovery_codes P db = db\<lparr>t_recovery_codes := del_where P (t_recovery_codes db)\<rparr>"

definition delete_challenges :: "(challenge_row \<Rightarrow> bool) \<Rightarrow> db \<Rightarrow> db" where
  "delete_challenges P db = db\<lparr>t_challenges := del_where P (t_challenges db)\<rparr>"

definition delete_node_credentials :: "(credential_row \<Rightarrow> bool) \<Rightarrow> db \<Rightarrow> db" where
  "delete_node_credentials P db = db\<lparr>t_node_credentials := del_where P (t_node_credentials db)\<rparr>"

lemmas row_statement_defs =
  update_nodes_def update_devices_def update_endpoints_def
  update_forwards_def update_users_def update_auth_sessions_def
  update_jobs_def update_user_mfa_def update_recovery_codes_def
  update_challenges_def delete_networks_def delete_scan_ports_def
  delete_forwards_def delete_memberships_def delete_policy_users_def
  delete_policy_projects_def delete_user_mfa_def delete_recovery_codes_def
  delete_challenges_def delete_node_credentials_def

lemma update_nodes_inv [on_ok_rules]:
  assumes "store_inv db"
    and "\<And>r. n_id (f r) = n_id r \<and> n_name (f r) = n_name r"
    and "\<And>r. node_check r \<Longrightarrow> node_check (f r)"
  shows "store_inv (update_nodes P f db)"
  unfolding update_nodes_def store_inv_def
  by (intro conjI upd_nodes_ok) (use assms in \<open>simp_all add: store_inv_def\<close>)

lemma update_devices_inv [on_ok_rules]:
  assumes "store_inv db"
    and "\<And>r. d_id (f r) = d_id r \<and> d_project_id (f r) = d_project_id r \<and> d_host (f r) = d_host r"
    and "\<And>r. device_check r \<Longrightarrow> device_check (f r)"
  shows "store_inv (update_devices P f db)"
  unfolding update_devices_def store_inv_def
  by (intro conjI upd_devices_ok) (use assms in \<open>simp_all add: store_inv_def\<close>)

lemma update_endpoints_inv [on_ok_rules]:
  assumes "store_inv db"
    and "\<And>r. e_id (f r) = e_id r \<and> e_device_id (f r) = e_device_id r \<and> e_protocol (f r) = e_protocol r \<and> e_target_port (f r) = e_target_port r"
    and "\<And>r. endpoint_check r \<Longrightarrow> endpoint_check (f r)"
  shows "store_inv (update_endpoints P f db)"
  unfolding update_endpoints_def store_inv_def
  by (intro conjI upd_endpoints_ok) (use assms in \<open>simp_all add: store_inv_def\<close>)

lemma update_forwards_inv [on_ok_rules]:
  assumes "store_inv db"
    and "\<And>r. pf_id (f r) = pf_id r \<and> pf_endpoint_id (f r) = pf_endpoint_id r \<and> pf_server_port (f r) = pf_server_port r \<and> pf_node_id (f r) = pf_node_id r"
    and "\<And>r. forward_check r \<Longrightarrow> forward_check (f r)"
  shows "store_inv (update_forwards P f db)"
  unfolding update_forwards_def store_inv_def
  by (intro conjI upd_forwards_ok) (use assms in \<open>simp_all add: store_inv_def\<close>)

lemma update_users_inv [on_ok_rules]:
  assumes "store_inv db"
    and "\<And>r. u_id (f r) = u_id r \<and> u_username (f r) = u_username r"
    and "\<And>r. user_check r \<Longrightarrow> user_check (f r)"
  shows "store_inv (update_users P f db)"
  unfolding update_users_def store_inv_def
  by (intro conjI upd_users_ok) (use assms in \<open>simp_all add: store_inv_def\<close>)

lemma update_auth_sessions_inv [on_ok_rules]:
  assumes "store_inv db"
    and "\<And>r. s_id (f r) = s_id r \<and> s_token_hash (f r) = s_token_hash r \<and> s_user_id (f r) = s_user_id r"
    and "\<And>r. auth_session_check r \<Longrightarrow> auth_session_check (f r)"
  shows "store_inv (update_auth_sessions P f db)"
  unfolding update_auth_sessions_def store_inv_def
  by (intro conjI upd_auth_sessions_ok) (use assms in \<open>simp_all add: store_inv_def\<close>)

lemma update_jobs_inv [on_ok_rules]:
  assumes "store_inv db"
    and "\<And>r. dj_id (f r) = dj_id r \<and> dj_project_id (f r) = dj_project_id r \<and> dj_requested_by (f r) = dj_requested_by r"
    and "\<And>r. job_check r \<Longrightarrow> job_check (f r)"
  shows "store_inv (update_jobs P f db)"
  unfolding update_jobs_def store_inv_def
  by (intro conjI upd_jobs_ok) (use assms in \<open>simp_all add: store_inv_def\<close>)

lemma update_user_mfa_inv [on_ok_rules]:
  assumes "store_inv db"
    and "\<And>r. um_user_id (f r) = um_user_id r"
    and "\<And>r. mfa_check r \<Longrightarrow> mfa_check (f r)"
  shows "store_inv (update_user_mfa P f db)"
  unfolding update_user_mfa_def store_inv_def
  by (intro conjI upd_user_mfa_ok) (use assms in \<open>simp_all add: store_inv_def\<close>)

lemma update_recovery_codes_inv [on_ok_rules]:
  assumes "store_inv db"
    and "\<And>r. rc_id (f r) = rc_id r \<and> rc_user_id (f r) = rc_user_id r \<and> rc_code_hash (f r) = rc_code_hash r"
  shows "store_inv (update_recovery_codes P f db)"
  unfolding update_recovery_codes_def store_inv_def
  by (intro conjI upd_recovery_codes_ok) (use assms in \<open>simp_all add: store_inv_def\<close>)

lemma delete_networks_inv [on_ok_rules]: "store_inv db \<Longrightarrow> store_inv (delete_networks P db)"
  unfolding delete_networks_def store_inv_def by (auto intro: del_networks_ok)

lemma delete_scan_ports_inv [on_ok_rules]: "store_inv db \<Longrightarrow> store_inv (delete_scan_ports P db)"
  unfolding delete_scan_ports_def store_inv_def by (auto intro: del_scan_ports_ok)

lemma delete_forwards_inv [on_ok_rules]: "store_inv db \<Longrightarrow> store_inv (delete_forwards P db)"
  unfolding delete_forwards_def store_inv_def by (auto intro: del_forwards_ok)

lemma delete_memberships_inv [on_ok_rules]: "store_inv db \<Longrightarrow> store_inv (delete_memberships P db)"
  unfolding delete_memberships_def store_inv_def by (auto intro: del_memberships_ok)

lemma delete_policy_users_inv [on_ok_rules]: "store_inv db \<Longrightarrow> store_inv (delete_policy_users P db)"
  unfolding delete_policy_users_def store_inv_def by (auto intro: del_policy_users_ok)

lemma delete_policy_projects_inv [on_ok_rules]: "store_inv db \<Longrightarrow> store_inv (delete_policy_projects P db)"
  unfolding delete_policy_projects_def store_inv_def by (auto intro: del_policy_projects_ok)

lemma delete_user_mfa_inv [on_ok_rules]: "store_inv db \<Longrightarrow> store_inv (delete_user_mfa P db)"
  unfolding delete_user_mfa_def store_inv_def by (auto intro: del_user_mfa_ok)

lemma delete_recovery_codes_inv [on_ok_rules]: "store_inv db \<Longrightarrow> store_inv (delete_recovery_codes P db)"
  unfolding delete_recovery_codes_def store_inv_def by (auto intro: del_recovery_codes_ok)

lemma delete_node_credentials_inv [on_ok_rules]: "store_inv db \<Longrightarrow> store_inv (delete_node_credentials P db)"
  unfolding delete_node_credentials_def store_inv_def by (auto intro: del_node_credentials_ok)

section \<open>Inserts and checked updates keep the invariant\<close>

lemma put_Inr:
  "put_nodes t0 db = Inr db' \<longleftrightarrow> holds (nodes_rules db t0) \<and> db' = db\<lparr>t_nodes := t0\<rparr>"
  "put_projects t1 db = Inr db' \<longleftrightarrow> holds (projects_rules db t1) \<and> db' = db\<lparr>t_projects := t1\<rparr>"
  "put_networks t2 db = Inr db' \<longleftrightarrow> holds (networks_rules db t2) \<and> db' = db\<lparr>t_networks := t2\<rparr>"
  "put_scan_ports t3 db = Inr db' \<longleftrightarrow> holds (scan_ports_rules db t3) \<and> db' = db\<lparr>t_scan_ports := t3\<rparr>"
  "put_devices t4 db = Inr db' \<longleftrightarrow> holds (devices_rules db t4) \<and> db' = db\<lparr>t_devices := t4\<rparr>"
  "put_endpoints t5 db = Inr db' \<longleftrightarrow> holds (endpoints_rules db t5) \<and> db' = db\<lparr>t_endpoints := t5\<rparr>"
  "put_forwards t6 db = Inr db' \<longleftrightarrow> holds (forwards_rules db t6) \<and> db' = db\<lparr>t_forwards := t6\<rparr>"
  "put_users t7 db = Inr db' \<longleftrightarrow> holds (users_rules db t7) \<and> db' = db\<lparr>t_users := t7\<rparr>"
  "put_memberships t8 db = Inr db' \<longleftrightarrow> holds (memberships_rules db t8) \<and> db' = db\<lparr>t_memberships := t8\<rparr>"
  "put_policies t9 db = Inr db' \<longleftrightarrow> holds (policies_rules db t9) \<and> db' = db\<lparr>t_policies := t9\<rparr>"
  "put_policy_users t10 db = Inr db' \<longleftrightarrow> holds (policy_users_rules db t10) \<and> db' = db\<lparr>t_policy_users := t10\<rparr>"
  "put_policy_projects t11 db = Inr db' \<longleftrightarrow> holds (policy_projects_rules db t11) \<and> db' = db\<lparr>t_policy_projects := t11\<rparr>"
  "put_auth_sessions t12 db = Inr db' \<longleftrightarrow> holds (auth_sessions_rules db t12) \<and> db' = db\<lparr>t_auth_sessions := t12\<rparr>"
  "put_access_sessions t13 db = Inr db' \<longleftrightarrow> holds (access_sessions_rules db t13) \<and> db' = db\<lparr>t_access_sessions := t13\<rparr>"
  "put_access_logs t14 db = Inr db' \<longleftrightarrow> holds (access_logs_rules db t14) \<and> db' = db\<lparr>t_access_logs := t14\<rparr>"
  "put_jobs t15 db = Inr db' \<longleftrightarrow> holds (jobs_rules db t15) \<and> db' = db\<lparr>t_jobs := t15\<rparr>"
  "put_results t16 db = Inr db' \<longleftrightarrow> holds (results_rules db t16) \<and> db' = db\<lparr>t_results := t16\<rparr>"
  "put_audit_logs t17 db = Inr db' \<longleftrightarrow> holds (audit_logs_rules db t17) \<and> db' = db\<lparr>t_audit_logs := t17\<rparr>"
  "put_user_mfa t18 db = Inr db' \<longleftrightarrow> holds (user_mfa_rules db t18) \<and> db' = db\<lparr>t_user_mfa := t18\<rparr>"
  "put_recovery_codes t19 db = Inr db' \<longleftrightarrow> holds (recovery_codes_rules db t19) \<and> db' = db\<lparr>t_recovery_codes := t19\<rparr>"
  "put_challenges t20 db = Inr db' \<longleftrightarrow> holds (challenges_rules db t20) \<and> db' = db\<lparr>t_challenges := t20\<rparr>"
  "put_node_credentials t21 db = Inr db' \<longleftrightarrow> holds (node_credentials_rules db t21) \<and> db' = db\<lparr>t_node_credentials := t21\<rparr>"
  by (auto simp: put_defs checked_Inr_iff)

lemma put_nodes_inv [on_ok_rules]:
  "store_inv db \<Longrightarrow> n_id ` set (t_nodes db) \<subseteq> n_id ` set t \<Longrightarrow> on_ok store_inv (put_nodes t db)"
  unfolding put_nodes_def store_inv_def
  by (intro on_ok_checked conjI set_nodes_ok)
     (auto simp: db_ok_def rules_defs elim: refs_in_mono opt_refs_in_mono)

lemma put_projects_inv [on_ok_rules]:
  "store_inv db \<Longrightarrow> p_id ` set (t_projects db) \<subseteq> p_id ` set t \<Longrightarrow> on_ok store_inv (put_projects t db)"
  unfolding put_projects_def store_inv_def
  by (intro on_ok_checked conjI set_projects_ok)
     (auto simp: db_ok_def rules_defs elim: refs_in_mono opt_refs_in_mono)

lemma put_networks_inv [on_ok_rules]: "store_inv db \<Longrightarrow> on_ok store_inv (put_networks t db)"
  unfolding put_networks_def store_inv_def by (intro on_ok_checked conjI set_networks_ok) auto

lemma put_scan_ports_inv [on_ok_rules]: "store_inv db \<Longrightarrow> on_ok store_inv (put_scan_ports t db)"
  unfolding put_scan_ports_def store_inv_def by (intro on_ok_checked conjI set_scan_ports_ok) auto

lemma put_devices_inv [on_ok_rules]:
  "store_inv db \<Longrightarrow> d_id ` set (t_devices db) \<subseteq> d_id ` set t \<Longrightarrow> on_ok store_inv (put_devices t db)"
  unfolding put_devices_def store_inv_def
  by (intro on_ok_checked conjI set_devices_ok)
     (auto simp: db_ok_def rules_defs elim: refs_in_mono opt_refs_in_mono)

lemma put_endpoints_inv [on_ok_rules]:
  "store_inv db \<Longrightarrow> e_id ` set (t_endpoints db) \<subseteq> e_id ` set t \<Longrightarrow> on_ok store_inv (put_endpoints t db)"
  unfolding put_endpoints_def store_inv_def
  by (intro on_ok_checked conjI set_endpoints_ok)
     (auto simp: db_ok_def rules_defs elim: refs_in_mono opt_refs_in_mono)

lemma put_forwards_inv [on_ok_rules]: "store_inv db \<Longrightarrow> on_ok store_inv (put_forwards t db)"
  unfolding put_forwards_def store_inv_def by (intro on_ok_checked conjI set_forwards_ok) auto

lemma put_users_inv [on_ok_rules]:
  "store_inv db \<Longrightarrow> u_id ` set (t_users db) \<subseteq> u_id ` set t \<Longrightarrow> on_ok store_inv (put_users t db)"
  unfolding put_users_def store_inv_def
  by (intro on_ok_checked conjI set_users_ok)
     (auto simp: db_ok_def rules_defs elim: refs_in_mono opt_refs_in_mono)

lemma put_memberships_inv [on_ok_rules]: "store_inv db \<Longrightarrow> on_ok store_inv (put_memberships t db)"
  unfolding put_memberships_def store_inv_def by (intro on_ok_checked conjI set_memberships_ok) auto

lemma put_policies_inv [on_ok_rules]:
  "store_inv db \<Longrightarrow> pol_id ` set (t_policies db) \<subseteq> pol_id ` set t \<Longrightarrow> on_ok store_inv (put_policies t db)"
  unfolding put_policies_def store_inv_def
  by (intro on_ok_checked conjI set_policies_ok)
     (auto simp: db_ok_def rules_defs elim: refs_in_mono opt_refs_in_mono)

lemma put_policy_users_inv [on_ok_rules]: "store_inv db \<Longrightarrow> on_ok store_inv (put_policy_users t db)"
  unfolding put_policy_users_def store_inv_def by (intro on_ok_checked conjI set_policy_users_ok) auto

lemma put_policy_projects_inv [on_ok_rules]: "store_inv db \<Longrightarrow> on_ok store_inv (put_policy_projects t db)"
  unfolding put_policy_projects_def store_inv_def by (intro on_ok_checked conjI set_policy_projects_ok) auto

lemma put_auth_sessions_inv [on_ok_rules]:
  "store_inv db \<Longrightarrow> s_id ` set (t_auth_sessions db) \<subseteq> s_id ` set t \<Longrightarrow> on_ok store_inv (put_auth_sessions t db)"
  unfolding put_auth_sessions_def store_inv_def
  by (intro on_ok_checked conjI set_auth_sessions_ok)
     (auto simp: db_ok_def rules_defs elim: refs_in_mono opt_refs_in_mono)

lemma put_jobs_inv [on_ok_rules]:
  "store_inv db \<Longrightarrow> dj_id ` set (t_jobs db) \<subseteq> dj_id ` set t \<Longrightarrow> on_ok store_inv (put_jobs t db)"
  unfolding put_jobs_def store_inv_def
  by (intro on_ok_checked conjI set_jobs_ok)
     (auto simp: db_ok_def rules_defs elim: refs_in_mono opt_refs_in_mono)

lemma put_results_inv [on_ok_rules]: "store_inv db \<Longrightarrow> on_ok store_inv (put_results t db)"
  unfolding put_results_def store_inv_def by (intro on_ok_checked conjI set_results_ok) auto

lemma put_audit_logs_inv [on_ok_rules]: "store_inv db \<Longrightarrow> on_ok store_inv (put_audit_logs t db)"
  unfolding put_audit_logs_def store_inv_def by (intro on_ok_checked conjI set_audit_logs_ok) auto

lemma put_user_mfa_inv [on_ok_rules]: "store_inv db \<Longrightarrow> on_ok store_inv (put_user_mfa t db)"
  unfolding put_user_mfa_def store_inv_def by (intro on_ok_checked conjI set_user_mfa_ok) auto

lemma put_recovery_codes_inv [on_ok_rules]: "store_inv db \<Longrightarrow> on_ok store_inv (put_recovery_codes t db)"
  unfolding put_recovery_codes_def store_inv_def by (intro on_ok_checked conjI set_recovery_codes_ok) auto

lemma put_node_credentials_inv [on_ok_rules]: "store_inv db \<Longrightarrow> on_ok store_inv (put_node_credentials t db)"
  unfolding put_node_credentials_def store_inv_def by (intro on_ok_checked conjI set_node_credentials_ok) auto

section \<open>MFA challenges\<close>

text \<open>A challenge changes without becoming live again, and live ones keep their count below five.\<close>

lemma challenges_ok_upd:
  assumes "challenges_ok cs"
    and "\<And>c. mc_user_id (f c) = mc_user_id c"
    and "\<And>c. P c \<Longrightarrow> live_challenge (f c) \<Longrightarrow> live_challenge c \<and> (mc_attempts c < 5 \<longrightarrow> mc_attempts (f c) < 5)"
  shows "challenges_ok (upd_where P f cs)"
  using assms(1)
proof (induction cs)
  case (Cons c cs)
  have IH: "challenges_ok (upd_where P f cs)"
    using Cons by (simp add: challenges_ok_def split: if_splits)
  have sub: "mc_user_id ` {x \<in> set (upd_where P f cs). live_challenge x}
      \<subseteq> mc_user_id ` {x \<in> set cs. live_challenge x}"
    using assms(2,3) by (fastforce simp: upd_where_def split: if_splits)
  show ?case
    using IH sub Cons.prems assms(2,3)
    by (auto simp: challenges_ok_def upd_where_def split: if_splits) 
qed (simp add: challenges_ok_def)

lemma challenges_ok_del: "challenges_ok cs \<Longrightarrow> challenges_ok (del_where P cs)"
proof -
  have "filter live_challenge (filter (\<lambda>c. \<not> P c) cs) = filter (\<lambda>c. \<not> P c) (filter live_challenge cs)"
    by (simp add: conj_commute)
  then show "challenges_ok cs \<Longrightarrow> challenges_ok (del_where P cs)"
    by (auto simp only: challenges_ok_def del_where_def distinct_map_filter set_filter)
qed

lemma challenges_ok_add:
  "challenges_ok cs \<Longrightarrow> mc_attempts c < 5 \<Longrightarrow> \<forall>x\<in>set cs. mc_user_id x = mc_user_id c \<longrightarrow> \<not> live_challenge x
    \<Longrightarrow> challenges_ok (cs @ [c])"
  by (auto simp: challenges_ok_def)

lemma update_challenges_inv:
  assumes "store_inv db"
    and "\<And>c. mc_id (f c) = mc_id c \<and> mc_token_hash (f c) = mc_token_hash c \<and> mc_user_id (f c) = mc_user_id c"
    and "\<And>c. challenge_check c \<Longrightarrow> challenge_check (f c)"
    and "\<And>c. P c \<Longrightarrow> live_challenge (f c) \<Longrightarrow> live_challenge c \<and> (mc_attempts c < 5 \<longrightarrow> mc_attempts (f c) < 5)"
  shows "store_inv (update_challenges P f db)"
  unfolding update_challenges_def store_inv_def
  by (intro conjI upd_challenges_ok)
     (use assms in \<open>simp_all add: store_inv_def challenges_ok_upd\<close>)

lemma delete_challenges_inv [on_ok_rules]: "store_inv db \<Longrightarrow> store_inv (delete_challenges P db)"
  unfolding delete_challenges_def store_inv_def by (auto intro: del_challenges_ok challenges_ok_del)

lemma put_challenges_inv:
  "store_inv db \<Longrightarrow> challenges_ok t \<Longrightarrow> on_ok store_inv (put_challenges t db)"
  unfolding put_challenges_def store_inv_def by (intro on_ok_checked conjI set_challenges_ok) auto

section \<open>Access sessions and their logs\<close>

text \<open>
  \<open>trg_access_sessions_log_insert\<close>: a new session gets a log row with the names of its user,
  project, endpoint and device at that time.
\<close>

definition log_row :: "access_session_row \<Rightarrow> db \<Rightarrow> access_log_row option" where
  "log_row s db =
     (case row_where (\<lambda>p. p_id p = acs_project_id s) (t_projects db) of None \<Rightarrow> None | Some p \<Rightarrow>
      case row_where (\<lambda>e. e_id e = acs_endpoint_id s) (t_endpoints db) of None \<Rightarrow> None | Some e \<Rightarrow>
      case row_where (\<lambda>d. d_id d = e_device_id e) (t_devices db) of None \<Rightarrow> None | Some d \<Rightarrow>
      Some \<lparr>lg_id = acs_id s, lg_user_id = acs_user_id s,
        lg_username = (case row_where (\<lambda>u. Some (u_id u) = acs_user_id s) (t_users db) of
           None \<Rightarrow> '''' | Some u \<Rightarrow> u_username u),
        lg_project_id = acs_project_id s, lg_project_name = p_name p,
        lg_endpoint_id = acs_endpoint_id s, lg_endpoint_name = e_name e, lg_device_name = d_name d,
        lg_mode = acs_mode s, lg_source_ip = acs_source_ip s, lg_status = acs_status s,
        lg_accessed_at = acs_grant_exchanged_at s, lg_expires_at = acs_expires_at s,
        lg_started_at = acs_started_at s, lg_last_seen_at = acs_last_seen_at s,
        lg_ended_at = acs_ended_at s\<rparr>)"

definition insert_access_session :: "access_session_row \<Rightarrow> db \<Rightarrow> db res" where
  "insert_access_session s db =
     attempt (put_access_sessions (t_access_sessions db @ [s]) db) (\<lambda>db1.
     case log_row s db1 of
       None \<Rightarrow> Inr db1
     | Some l \<Rightarrow> put_access_logs (t_access_logs db1 @ [l]) db1)"

text \<open>\<open>trg_access_sessions_log_update\<close>: the log row follows the session.\<close>

definition mirror_log :: "access_session_row \<Rightarrow> access_log_row \<Rightarrow> access_log_row" where
  "mirror_log s l = l\<lparr>lg_status := acs_status s,
     lg_accessed_at := (case acs_grant_exchanged_at s of None \<Rightarrow> lg_accessed_at l
        | Some g \<Rightarrow> (case lg_accessed_at l of None \<Rightarrow> Some g | Some a \<Rightarrow> Some a)),
     lg_expires_at := acs_expires_at s, lg_last_seen_at := acs_last_seen_at s,
     lg_ended_at := acs_ended_at s\<rparr>"

fun mirror_logs :: "access_session_row list \<Rightarrow> access_log_row list \<Rightarrow> access_log_row list" where
  "mirror_logs [] ls = ls"
| "mirror_logs (s # ss) ls = mirror_logs ss (upd_where (\<lambda>l. lg_id l = acs_id s) (mirror_log s) ls)"

definition update_access_sessions ::
  "(access_session_row \<Rightarrow> bool) \<Rightarrow> (access_session_row \<Rightarrow> access_session_row) \<Rightarrow> db \<Rightarrow> db" where
  "update_access_sessions P f db = db\<lparr>
     t_access_sessions := upd_where P f (t_access_sessions db),
     t_access_logs := mirror_logs (map f (filter P (t_access_sessions db))) (t_access_logs db)\<rparr>"

lemma lg_id_mirror_log [simp]: "lg_id (mirror_log s l) = lg_id l"
  by (simp add: mirror_log_def)

lemma map_lg_id_mirror_logs: "map lg_id (mirror_logs ss ls) = map lg_id ls"
  by (induction ss ls rule: mirror_logs.induct) (auto simp: map_upd_where_same)

lemma mirror_logs_other: "l \<in> set ls \<Longrightarrow> lg_id l \<notin> acs_id ` set ss \<Longrightarrow> l \<in> set (mirror_logs ss ls)"
  by (induction ss ls rule: mirror_logs.induct) (auto simp: upd_where_def)

lemma log_of_mirror: "lg_id l = acs_id s \<Longrightarrow> log_of s (mirror_log s l)"
  by (auto simp: log_of_def mirror_log_def split: option.splits)

lemma mirror_logs_follows:
  "distinct (map acs_id ss) \<Longrightarrow> s \<in> set ss \<Longrightarrow> l \<in> set ls \<Longrightarrow> lg_id l = acs_id s
    \<Longrightarrow> \<exists>l'\<in>set (mirror_logs ss ls). log_of s l'"
proof (induction ss ls arbitrary: l rule: mirror_logs.induct)
  case (2 x ss ls)
  show ?case
  proof (cases "s = x")
    case True
    have "mirror_log x l \<in> set (upd_where (\<lambda>l. lg_id l = acs_id x) (mirror_log x) ls)"
      using 2(4,5) True by (auto simp: upd_where_def image_iff)
    moreover have "lg_id (mirror_log x l) \<notin> acs_id ` set ss" using 2 True by auto
    ultimately have "mirror_log x l \<in> set (mirror_logs (x # ss) ls)"
      by (simp add: mirror_logs_other)
    then show ?thesis using log_of_mirror[of l x] 2(5) True by blast
  next
    case False
    then have "s \<in> set ss" using 2(3) by simp
    moreover from this have "acs_id s \<noteq> acs_id x" using 2(2) by (metis distinct.simps(2) image_eqI list.set_map list.simps(9))
    ultimately have "s \<in> set ss" "acs_id s \<noteq> acs_id x" by simp_all
    then have "l \<in> set (upd_where (\<lambda>l. lg_id l = acs_id x) (mirror_log x) ls)"
      using 2(4,5) by (auto simp: upd_where_def image_iff)
    then show ?thesis using 2 \<open>s \<in> set ss\<close> by simp
  qed
qed simp

lemma access_session_ids: "db_ok db \<Longrightarrow> distinct (map acs_id (t_access_sessions db))"
  by (simp add: db_ok_def rules_defs)

lemma update_access_sessions_inv [on_ok_rules]:
  assumes inv: "store_inv db"
    and f: "\<And>r. acs_id (f r) = acs_id r \<and> acs_token_hash (f r) = acs_token_hash r
      \<and> acs_project_id (f r) = acs_project_id r \<and> acs_endpoint_id (f r) = acs_endpoint_id r
      \<and> acs_user_id (f r) = acs_user_id r \<and> acs_auth_session_id (f r) = acs_auth_session_id r"
    and c: "\<And>r. access_session_check r \<Longrightarrow> access_session_check (f r)"
  shows "store_inv (update_access_sessions P f db)"
proof -
  let ?ss = "t_access_sessions db" and ?ls = "t_access_logs db"
  let ?ms = "map f (filter P ?ss)"
  have ids: "map acs_id ?ms = map acs_id (filter P ?ss)" using f by simp
  have dist: "distinct (map acs_id ?ss)" "distinct (map acs_id ?ms)"
    using access_session_ids[OF store_inv_db_ok[OF inv]] unfolding ids
    by (simp_all add: distinct_map_filter)
  have "\<exists>l\<in>set (mirror_logs ?ms ?ls). log_of s l" if s: "s \<in> set (upd_where P f ?ss)" for s
    using s
  proof (cases rule: in_upd_whereE)
    case (changed r)
    then obtain l where "l \<in> set ?ls" "log_of r l"
      using inv by (auto simp: store_inv_def logs_ok_def)
    then show ?thesis
      using mirror_logs_follows[OF dist(2), of s l ?ls] changed f by (auto simp: log_of_def)
  next
    case same
    then obtain l where l: "l \<in> set ?ls" "log_of s l"
      using inv by (auto simp: store_inv_def logs_ok_def)
    have "acs_id s \<noteq> acs_id r" if "r \<in> set ?ss" "P r" for r
      using key_inj[OF dist(1), of s r] same that by auto
    then have "lg_id l \<notin> set (map acs_id ?ms)" unfolding ids using l by (fastforce simp: log_of_def)
    then have "lg_id l \<notin> acs_id ` set ?ms" by (metis list.set_map)
    then show ?thesis using mirror_logs_other[of l ?ls ?ms] l by blast
  qed
  then have logs: "logs_ok (upd_where P f ?ss) (mirror_logs ?ms ?ls)"
    by (simp add: logs_ok_def)
  have ok: "db_ok (db\<lparr>t_access_sessions := upd_where P f ?ss\<rparr>)"
    by (rule upd_access_sessions_ok) (use store_inv_db_ok[OF inv] f c in simp_all)
  then have "db_ok (db\<lparr>t_access_sessions := upd_where P f ?ss,
      t_access_logs := mirror_logs ?ms ?ls\<rparr>)"
    by (intro set_access_logs_ok) (auto simp: db_ok_def rules_defs map_lg_id_mirror_logs)
  then show ?thesis
    using logs inv by (simp add: update_access_sessions_def store_inv_def)
qed

lemma row_where_ref:
  assumes "k \<in> g ` set t" obtains r where "row_where (\<lambda>r. g r = k) t = Some r" "r \<in> set t" "g r = k"
  using assms row_where_Some[of "\<lambda>r. g r = k" t] by (cases "row_where (\<lambda>r. g r = k) t") auto

lemma log_row_exists:
  assumes ok: "db_ok db" and s: "s \<in> set (t_access_sessions db)"
  shows "\<exists>l. log_row s db = Some l \<and> log_of s l"
proof -
  have refs: "acs_project_id s \<in> p_id ` set (t_projects db)" "acs_endpoint_id s \<in> e_id ` set (t_endpoints db)"
    "e_device_id ` set (t_endpoints db) \<subseteq> d_id ` set (t_devices db)"
    using ok s by (auto simp: db_ok_def rules_defs refs_in_def)
  obtain p where p: "row_where (\<lambda>p. p_id p = acs_project_id s) (t_projects db) = Some p"
    using row_where_ref[OF refs(1)] by metis
  obtain e where e: "row_where (\<lambda>e. e_id e = acs_endpoint_id s) (t_endpoints db) = Some e"
      "e \<in> set (t_endpoints db)"
    using row_where_ref[OF refs(2)] by metis
  have "e_device_id e \<in> d_id ` set (t_devices db)" using refs(3) e(2) by blast
  from row_where_ref[OF this] obtain d where
    d: "row_where (\<lambda>d. d_id d = e_device_id e) (t_devices db) = Some d" by metis
  show ?thesis using p e(1) d by (simp add: log_row_def log_of_def)
qed

lemma insert_access_session_inv [on_ok_rules]:
  assumes inv: "store_inv db" shows "on_ok store_inv (insert_access_session s db)"
proof -
  have "store_inv db2" if r: "insert_access_session s db = Inr db2" for db2
  proof -
    let ?db1 = "db\<lparr>t_access_sessions := t_access_sessions db @ [s]\<rparr>"
    have put: "put_access_sessions (t_access_sessions db @ [s]) db = Inr ?db1"
      and rest: "(case log_row s ?db1 of None \<Rightarrow> Inr ?db1
        | Some l \<Rightarrow> put_access_logs (t_access_logs ?db1 @ [l]) ?db1) = Inr db2"
      using r by (auto simp: insert_access_session_def attempt_Inr_iff put_access_sessions_def checked_Inr_iff)
    have ok1: "db_ok ?db1"
      using put inv by (intro set_access_sessions_ok)
        (auto simp: put_access_sessions_def checked_Inr_iff store_inv_def)
    from log_row_exists[OF this, of s] obtain l where l: "log_row s ?db1 = Some l" "log_of s l" by auto
    then have db2: "db2 = ?db1\<lparr>t_access_logs := t_access_logs db @ [l]\<rparr>"
      and "holds (access_logs_rules ?db1 (t_access_logs db @ [l]))"
      using rest by (auto simp: put_access_logs_def checked_Inr_iff)
    then have "db_ok db2" using ok1 by (auto intro: set_access_logs_ok)
    then show ?thesis using l(2) inv unfolding db2 by (auto simp: store_inv_def logs_ok_def)
  qed
  then show ?thesis by (simp add: on_ok_iff)
qed

lemma put_audit_logs_fields:
  "put_audit_logs t db = Inr db' \<Longrightarrow> db' = db\<lparr>t_audit_logs := t\<rparr>"
  by (simp add: put_audit_logs_def checked_Inr_iff)

section \<open>Deletes with their ON DELETE actions\<close>

definition delete_endpoints :: "(endpoint_row \<Rightarrow> bool) \<Rightarrow> db \<Rightarrow> db" where
  "delete_endpoints P db = (let gone = map e_id (filter P (t_endpoints db)) in db\<lparr>
     t_forwards := del_where (\<lambda>r. pf_endpoint_id r \<in> set gone) (t_forwards db),
     t_access_sessions := del_where (\<lambda>r. acs_endpoint_id r \<in> set gone) (t_access_sessions db),
     t_endpoints := del_where P (t_endpoints db)\<rparr>)"

definition delete_devices :: "(device_row \<Rightarrow> bool) \<Rightarrow> db \<Rightarrow> db" where
  "delete_devices P db = (let gone = map d_id (filter P (t_devices db)) in
     (delete_endpoints (\<lambda>r. e_device_id r \<in> set gone) db)\<lparr>
       t_devices := del_where P (t_devices db)\<rparr>)"

definition delete_auth_sessions :: "(auth_session_row \<Rightarrow> bool) \<Rightarrow> db \<Rightarrow> db" where
  "delete_auth_sessions P db = (let gone = map s_id (filter P (t_auth_sessions db)) in db\<lparr>
     t_access_sessions :=
       del_where (\<lambda>r. acs_auth_session_id r \<in> Some ` set gone) (t_access_sessions db),
     t_auth_sessions := del_where P (t_auth_sessions db)\<rparr>)"

definition delete_jobs :: "(job_row \<Rightarrow> bool) \<Rightarrow> db \<Rightarrow> db" where
  "delete_jobs P db = (let gone = map dj_id (filter P (t_jobs db)) in db\<lparr>
     t_results := del_where (\<lambda>r. dr_job_id r \<in> set gone) (t_results db),
     t_jobs := del_where P (t_jobs db)\<rparr>)"

definition delete_policy :: "string \<Rightarrow> db \<Rightarrow> db" where
  "delete_policy k db = db\<lparr>
     t_policy_users := del_where (\<lambda>r. pu_policy_id r = k) (t_policy_users db),
     t_policy_projects := del_where (\<lambda>r. pp_policy_id r = k) (t_policy_projects db),
     t_policies := del_where (\<lambda>r. pol_id r = k) (t_policies db)\<rparr>"

definition delete_project :: "string \<Rightarrow> db \<Rightarrow> db" where
  "delete_project k db =
     (delete_devices (\<lambda>r. d_project_id r = k) (delete_jobs (\<lambda>r. dj_project_id r = k) (db\<lparr>
       t_networks := del_where (\<lambda>r. pn_project_id r = k) (t_networks db),
       t_scan_ports := del_where (\<lambda>r. sp_project_id r = k) (t_scan_ports db),
       t_memberships := del_where (\<lambda>r. pm_project_id r = k) (t_memberships db),
       t_policy_projects := del_where (\<lambda>r. pp_project_id r = k) (t_policy_projects db),
       t_access_sessions := del_where (\<lambda>r. acs_project_id r = k) (t_access_sessions db)\<rparr>)))\<lparr>
     t_projects := del_where (\<lambda>r. p_id r = k) (t_projects db)\<rparr>"

definition delete_user :: "string \<Rightarrow> db \<Rightarrow> db" where
  "delete_user k db =
     (delete_auth_sessions (\<lambda>r. s_user_id r = k) (db\<lparr>
       t_memberships := del_where (\<lambda>r. pm_user_id r = k) (t_memberships db),
       t_policy_users := del_where (\<lambda>r. pu_user_id r = k) (t_policy_users db),
       t_user_mfa := del_where (\<lambda>r. um_user_id r = k) (t_user_mfa db),
       t_recovery_codes := del_where (\<lambda>r. rc_user_id r = k) (t_recovery_codes db),
       t_challenges := del_where (\<lambda>r. mc_user_id r = k) (t_challenges db),
       t_jobs := upd_where (\<lambda>r. dj_requested_by r = Some k) (\<lambda>r. r\<lparr>dj_requested_by := None\<rparr>) (t_jobs db),
       t_access_sessions := upd_where (\<lambda>r. acs_user_id r = Some k) (\<lambda>r. r\<lparr>acs_user_id := None\<rparr>)
         (t_access_sessions db)\<rparr>))\<lparr>
     t_users := del_where (\<lambda>r. u_id r = k) (t_users db)\<rparr>"

text \<open>Nodes are protected: \<open>ON DELETE RESTRICT\<close> from projects and from port forwards.\<close>

definition delete_node :: "string \<Rightarrow> db \<Rightarrow> db res" where
  "delete_node k db = checked
     [(\<not> exists_row (\<lambda>r. p_node_id r = k) (t_projects db), ErrConstraint ForeignKey ''projects''),
      (\<not> exists_row (\<lambda>r. pf_node_id r = Some k) (t_forwards db), ErrConstraint ForeignKey ''port_forwards'')]
     (db\<lparr>t_nodes := del_where (\<lambda>r. n_id r = k) (t_nodes db)\<rparr>)"

lemmas cascade_rules = list_all_del_where distinct_del_where distinct_present_del_where
  refs_in_del_child refs_in_cascade opt_refs_in_cascade

text \<open>\<open>ON DELETE SET NULL\<close>, and parents that nobody refers to.\<close>

lemma opt_refs_in_null:
  assumes "opt_refs_in f cs g ps" "\<And>c. f (h c) = None"
  shows "opt_refs_in f (upd_where (\<lambda>c. f c = Some k) h cs) g ps"
  using assms by (auto simp: opt_refs_in_all upd_where_def)

lemma opt_refs_in_null_cascade:
  assumes "opt_refs_in f cs g ps" "\<And>c. f (h c) = None"
  shows "opt_refs_in f (upd_where (\<lambda>c. f c = Some k) h cs) g (del_where (\<lambda>p. g p = k) ps)"
  using assms by (fastforce simp: opt_refs_in_all upd_where_def)

lemma nulled_checks:
  "job_check (r\<lparr>dj_requested_by := x\<rparr>) = job_check r"
  "access_session_check (s\<lparr>acs_user_id := y\<rparr>) = access_session_check s"
  by (simp_all add: job_check_def access_session_check_def)

lemma refs_in_keep:
  "refs_in f cs g ps \<Longrightarrow> \<forall>c\<in>set cs. f c \<noteq> k \<Longrightarrow> refs_in f cs g (del_where (\<lambda>p. g p = k) ps)"
  by (fastforce simp: refs_in_def)

lemma opt_refs_in_keep:
  "opt_refs_in f cs g ps \<Longrightarrow> \<forall>c\<in>set cs. f c \<noteq> Some k \<Longrightarrow> opt_refs_in f cs g (del_where (\<lambda>p. g p = k) ps)"
  by (fastforce simp: opt_refs_in_all)

lemma delete_endpoints_ok: "db_ok db \<Longrightarrow> db_ok (delete_endpoints P db)"
  unfolding delete_endpoints_def Let_def db_ok_def rules_defs
  by (simp add: cascade_rules)

lemma delete_devices_ok: "db_ok db \<Longrightarrow> db_ok (delete_devices P db)"
  unfolding delete_devices_def Let_def
  by (rule set_devices_ok, erule delete_endpoints_ok)
     (simp_all add: db_ok_def rules_defs delete_endpoints_def Let_def cascade_rules)

lemma delete_auth_sessions_ok: "db_ok db \<Longrightarrow> db_ok (delete_auth_sessions P db)"
proof -
  assume ok: "db_ok db"
  let ?t = "del_where (\<lambda>r. acs_auth_session_id r \<in> Some ` set (map s_id (filter P (t_auth_sessions db))))
    (t_access_sessions db)"
  have "opt_refs_in acs_auth_session_id ?t s_id (del_where P (t_auth_sessions db))"
    by (rule opt_refs_in_cascade) (use ok in \<open>auto simp: db_ok_def rules_defs\<close>)
  moreover have "db_ok (db\<lparr>t_access_sessions := ?t\<rparr>)" using ok by (rule del_access_sessions_ok)
  ultimately show ?thesis
    unfolding delete_auth_sessions_def Let_def
    by (intro set_auth_sessions_ok) (use ok in \<open>simp_all add: db_ok_def rules_defs cascade_rules\<close>)
qed

lemma delete_jobs_ok: "db_ok db \<Longrightarrow> db_ok (delete_jobs P db)"
  unfolding delete_jobs_def Let_def db_ok_def rules_defs
  by (simp add: cascade_rules)

lemma delete_policy_ok: "db_ok db \<Longrightarrow> db_ok (delete_policy k db)"
  unfolding delete_policy_def db_ok_def rules_defs
  by (simp add: cascade_rules)

lemma delete_project_ok: "db_ok db \<Longrightarrow> db_ok (delete_project k db)"
proof -
  assume ok: "db_ok db"
  let ?db1 = "db\<lparr>
       t_networks := del_where (\<lambda>r. pn_project_id r = k) (t_networks db),
       t_scan_ports := del_where (\<lambda>r. sp_project_id r = k) (t_scan_ports db),
       t_memberships := del_where (\<lambda>r. pm_project_id r = k) (t_memberships db),
       t_policy_projects := del_where (\<lambda>r. pp_project_id r = k) (t_policy_projects db),
       t_access_sessions := del_where (\<lambda>r. acs_project_id r = k) (t_access_sessions db)\<rparr>"
  have "db_ok ?db1"
    using ok unfolding db_ok_def rules_defs by (simp add: cascade_rules)
  then have "db_ok (delete_devices (\<lambda>r. d_project_id r = k) (delete_jobs (\<lambda>r. dj_project_id r = k) ?db1))"
    by (intro delete_devices_ok delete_jobs_ok)
  then show ?thesis
    unfolding delete_project_def
    by (rule set_projects_ok)
       (use ok in \<open>simp_all add: db_ok_def rules_defs delete_devices_def delete_jobs_def
          delete_endpoints_def Let_def cascade_rules\<close>)
qed

lemma delete_user_ok: "db_ok db \<Longrightarrow> db_ok (delete_user k db)"
proof -
  assume ok: "db_ok db"
  let ?db1 = "db\<lparr>
       t_memberships := del_where (\<lambda>r. pm_user_id r = k) (t_memberships db),
       t_policy_users := del_where (\<lambda>r. pu_user_id r = k) (t_policy_users db),
       t_user_mfa := del_where (\<lambda>r. um_user_id r = k) (t_user_mfa db),
       t_recovery_codes := del_where (\<lambda>r. rc_user_id r = k) (t_recovery_codes db),
       t_challenges := del_where (\<lambda>r. mc_user_id r = k) (t_challenges db),
       t_jobs := upd_where (\<lambda>r. dj_requested_by r = Some k) (\<lambda>r. r\<lparr>dj_requested_by := None\<rparr>) (t_jobs db),
       t_access_sessions := upd_where (\<lambda>r. acs_user_id r = Some k) (\<lambda>r. r\<lparr>acs_user_id := None\<rparr>)
         (t_access_sessions db)\<rparr>"
  have "db_ok ?db1"
    using ok unfolding db_ok_def rules_defs
    by (simp add: cascade_rules upd_row_rules opt_refs_in_null nulled_checks)
  then have "db_ok (delete_auth_sessions (\<lambda>r. s_user_id r = k) ?db1)"
    by (rule delete_auth_sessions_ok)
  then show ?thesis
    unfolding delete_user_def
    by (rule set_users_ok)
       (use ok in \<open>simp_all add: db_ok_def rules_defs delete_auth_sessions_def
          Let_def cascade_rules opt_refs_in_null_cascade refs_in_del_child\<close>)
qed

lemma delete_node_ok: "db_ok db \<Longrightarrow> on_ok db_ok (delete_node k db)"
  unfolding delete_node_def
  by (rule on_ok_checked, rule set_nodes_ok)
     (simp_all add: db_ok_def rules_defs cascade_rules refs_in_keep opt_refs_in_keep)

lemma logs_ok_del: "logs_ok ss ls \<Longrightarrow> logs_ok (del_where P ss) ls"
  by (simp add: logs_ok_def)

lemma logs_ok_null_user:
  "logs_ok ss ls \<Longrightarrow> logs_ok (upd_where P (\<lambda>s. s\<lparr>acs_user_id := x\<rparr>) ss) ls"
  by (fastforce simp: logs_ok_def upd_where_def log_of_def)

lemmas delete_statement_defs = delete_endpoints_def delete_devices_def delete_auth_sessions_def
  delete_jobs_def delete_policy_def delete_project_def delete_user_def

lemma delete_endpoints_inv [on_ok_rules]: "store_inv db \<Longrightarrow> store_inv (delete_endpoints P db)"
  by (simp add: store_inv_def delete_endpoints_ok) (simp add: delete_endpoints_def Let_def logs_ok_del)

lemma delete_devices_inv [on_ok_rules]: "store_inv db \<Longrightarrow> store_inv (delete_devices P db)"
  by (simp add: store_inv_def delete_devices_ok)
     (simp add: delete_devices_def delete_endpoints_def Let_def logs_ok_del)

lemma delete_auth_sessions_inv [on_ok_rules]: "store_inv db \<Longrightarrow> store_inv (delete_auth_sessions P db)"
  by (simp add: store_inv_def delete_auth_sessions_ok) (simp add: delete_auth_sessions_def Let_def logs_ok_del)

lemma delete_policy_inv [on_ok_rules]: "store_inv db \<Longrightarrow> store_inv (delete_policy k db)"
  by (simp add: store_inv_def delete_policy_ok) (simp add: delete_policy_def)

lemma delete_project_inv [on_ok_rules]: "store_inv db \<Longrightarrow> store_inv (delete_project k db)"
  by (simp add: store_inv_def delete_project_ok)
     (simp add: delete_project_def delete_devices_def delete_endpoints_def delete_jobs_def Let_def logs_ok_del)

lemma delete_user_inv [on_ok_rules]: "store_inv db \<Longrightarrow> store_inv (delete_user k db)"
  by (simp add: store_inv_def delete_user_ok)
     (simp add: delete_user_def delete_auth_sessions_def Let_def logs_ok_del logs_ok_null_user challenges_ok_del)

lemma delete_node_inv [on_ok_rules]: "store_inv db \<Longrightarrow> on_ok store_inv (delete_node k db)"
  using delete_node_ok[of db k]
  by (auto simp: on_ok_iff store_inv_def delete_node_def checked_Inr_iff)

section \<open>Transactions that keep the invariant\<close>

definition keeps_inv :: "('a \<times> db) res \<Rightarrow> bool" where
  "keeps_inv r \<longleftrightarrow> on_ok (\<lambda>(a, s). store_inv s) r"

lemma keeps_inv_Inr [on_ok_rules]: "store_inv db \<Longrightarrow> keeps_inv (Inr (a, db))"
  by (simp add: keeps_inv_def)

lemma keeps_inv_Inl [on_ok_rules]: "keeps_inv (Inl e)"
  by (simp add: keeps_inv_def)

lemma keeps_inv_attempt [on_ok_rules]:
  "on_ok store_inv m \<Longrightarrow> (\<And>db. store_inv db \<Longrightarrow> keeps_inv (k db)) \<Longrightarrow> keeps_inv (attempt m k)"
  unfolding keeps_inv_def by (cases m) auto

lemma keeps_inv_attempt_pair [on_ok_rules]:
  "keeps_inv m \<Longrightarrow> (\<And>a db. store_inv db \<Longrightarrow> keeps_inv (k (a, db))) \<Longrightarrow> keeps_inv (attempt m k)"
  unfolding keeps_inv_def by (cases m) auto

lemma keeps_inv_demand [on_ok_rules]: "(b \<Longrightarrow> keeps_inv (k ())) \<Longrightarrow> keeps_inv (attempt (demand b e) k)"
  by (cases b) (auto simp: keeps_inv_Inl)

lemma keeps_inv_from_row [on_ok_rules]:
  "(\<And>a. m = Some a \<Longrightarrow> keeps_inv (k a)) \<Longrightarrow> keeps_inv (attempt (from_row m e) k)"
  by (cases m) (auto simp: keeps_inv_Inl)

lemma keeps_inv_run_tx [on_ok_rules]: "store_inv db \<Longrightarrow> keeps_inv r \<Longrightarrow> store_inv (fst (run_tx db r))"
  unfolding keeps_inv_def by (rule run_tx_keeps)

lemma keeps_inv_after_commit [on_ok_rules]: "store_inv (fst r) \<Longrightarrow> store_inv (fst (after_commit r k))"
  by simp

lemma keeps_inv_if [on_ok_rules]:
  "(b \<Longrightarrow> keeps_inv x) \<Longrightarrow> (\<not> b \<Longrightarrow> keeps_inv y) \<Longrightarrow> keeps_inv (if b then x else y)"
  by simp

lemma keeps_inv_case_prod [on_ok_rules]:
  "(\<And>a b. p = (a, b) \<Longrightarrow> keeps_inv (k a b)) \<Longrightarrow> keeps_inv (case p of (a, b) \<Rightarrow> k a b)"
  by (cases p) simp

declare on_ok_if [on_ok_rules] on_ok_each [where P = store_inv, on_ok_rules]

lemma on_ok_attempt_inv [on_ok_rules]:
  "on_ok store_inv m \<Longrightarrow> (\<And>db. store_inv db \<Longrightarrow> on_ok store_inv (k db)) \<Longrightarrow> on_ok store_inv (attempt m k)"
  by (cases m) auto

lemma on_ok_Inr_inv [on_ok_rules]: "store_inv db \<Longrightarrow> on_ok store_inv (Inr db)"
  by simp

declare on_ok_demand [where P = store_inv, on_ok_rules] on_ok_from_row [where P = store_inv, on_ok_rules]

lemma keys_kept [simp]:
  "(\<And>r. g (f r) = g r) \<Longrightarrow> g ` set t \<subseteq> g ` set (upd_where P f t)"
  by (simp add: image_upd_where_same)

end
