(* ===== verification/StoreAudit.thy ===== *)
theory StoreAudit
  imports Statements
begin

text \<open>
  The audit trail: \<open>store/audit.go\<close>, \<open>store/audit_public.go\<close> and \<open>store/audit_query.go\<close>.

  The metadata of an entry arrives as text. \<open>metadata\<close> is that text as \<open>sanitizeAuditMetadata\<close>
  sees it: blank, not JSON, or the JSON value that \<open>json.Unmarshal\<close> decodes. The lemmas show that
  redaction leaves no value under a key that looks like a secret, at any depth, and touches
  nothing else.
\<close>

section \<open>Redaction\<close>

datatype metadata = Blank | Malformed | Parsed json

record audit_input =
  ai_actor :: string
  ai_action :: string
  ai_resource_type :: string
  ai_resource_id :: string
  ai_result :: string
  ai_request_id :: string
  ai_source_ip :: string
  ai_metadata :: metadata

definition sensitive_fragments :: "string list" where
  "sensitive_fragments = [''password'', ''passwd'', ''passphrase'', ''secret'', ''token'',
     ''credential'', ''privatekey'', ''verifykey'', ''authorization'', ''cookie'']"

definition normalized_key :: "string \<Rightarrow> string" where
  "normalized_key key = filter (\<lambda>c. c \<notin> set ''_-. '') (to_lower key)"

definition audit_key_is_sensitive :: "string \<Rightarrow> bool" where
  "audit_key_is_sensitive key = list_ex (contains_str (normalized_key key)) sensitive_fragments"

abbreviation redacted :: json where
  "redacted \<equiv> JString ''[REDACTED]''"

fun redact :: "json \<Rightarrow> json" where
  "redact (JObject kvs) = JObject (map (\<lambda>(k, v).
     (k, if audit_key_is_sensitive k then redacted else redact v)) kvs)"
| "redact (JArray vs) = JArray (map redact vs)"
| "redact JNull = JNull"
| "redact (JBool b) = JBool b"
| "redact (JNumber n) = JNumber n"
| "redact (JString s) = JString s"

definition sanitize_audit_metadata :: "metadata \<Rightarrow> json" where
  "sanitize_audit_metadata m = (case m of
     Blank \<Rightarrow> JObject [] | Malformed \<Rightarrow> JObject [] | Parsed v \<Rightarrow> redact v)"

section \<open>Writing and listing entries\<close>

definition insert_audit :: "string \<Rightarrow> audit_input \<Rightarrow> instant \<Rightarrow> db \<Rightarrow> db res" where
  "insert_audit audit_id input now db = put_audit_logs (t_audit_logs db @
     [\<lparr>al_id = audit_id, al_actor = ai_actor input, al_action = ai_action input,
       al_resource_type = ai_resource_type input, al_resource_id = ai_resource_id input,
       al_result = ai_result input, al_request_id = ai_request_id input,
       al_source_ip = ai_source_ip input,
       al_metadata = sanitize_audit_metadata (ai_metadata input), al_created_at = now\<rparr>]) db"

definition append_audit :: "string \<Rightarrow> instant \<Rightarrow> audit_input \<Rightarrow> db \<Rightarrow> db \<times> unit res" where
  "append_audit audit_id now input db = run_tx db
     (attempt (insert_audit audit_id input now db) (\<lambda>db1. Inr ((), db1)))"

text \<open>SQLite's \<open>LIKE\<close>: \<open>%\<close> is any run of characters, \<open>_\<close> any one, letters match in either case.\<close>

fun sql_like :: "string \<Rightarrow> string \<Rightarrow> bool" where
  "sql_like [] s = (s = [])"
| "sql_like (c # p) s =
     (if c = CHR ''%'' then sql_like p s \<or> (case s of [] \<Rightarrow> False | _ # s' \<Rightarrow> sql_like (c # p) s')
      else (case s of [] \<Rightarrow> False
            | x # s' \<Rightarrow> (c = CHR ''_'' \<or> lower_char c = lower_char x) \<and> sql_like p s'))"

definition page :: "int \<Rightarrow> int \<Rightarrow> 'r list \<Rightarrow> 'r list" where
  "page limit offset t =
     (let limit = (if limit < 1 \<or> limit > 1000 then 100 else limit);
          offset = (if offset < 0 then 0 else offset)
      in take (nat limit) (drop (nat offset) t))"

definition like_any :: "string \<Rightarrow> string list \<Rightarrow> bool" where
  "like_any search cols = list_ex (sql_like (''%'' @ search @ ''%'')) cols"

definition list_audit_logs :: "string \<Rightarrow> string \<Rightarrow> int \<Rightarrow> int \<Rightarrow> db \<Rightarrow> audit_row list" where
  "list_audit_logs search category limit offset db =
     page limit offset (order_desc (\<lambda>r. time_text (al_created_at r)) (filter (\<lambda>r.
       (category \<noteq> ''operation'' \<or> al_resource_type r \<noteq> ''access_session''
         \<and> \<not> sql_like ''access_session.%'' (al_action r))
       \<and> (search = '''' \<or> like_any search [al_actor r, al_action r, al_resource_type r,
           al_resource_id r, al_request_id r])) (t_audit_logs db)))"

section \<open>What redaction guarantees\<close>

text \<open>No object, at any depth, has a value under a sensitive key.\<close>

fun secret_free :: "json \<Rightarrow> bool" where
  "secret_free (JObject kvs) = list_all (\<lambda>(k, v).
     if audit_key_is_sensitive k then v = redacted else secret_free v) kvs"
| "secret_free (JArray vs) = list_all secret_free vs"
| "secret_free _ = True"

lemma secret_free_redact: "secret_free (redact j)"
  by (induction j rule: redact.induct) (auto simp: list_all_iff)

lemma redact_secret_free: "secret_free j \<Longrightarrow> redact j = j"
  by (induction j rule: redact.induct)
     (auto simp: list_all_iff intro!: map_idI split: if_splits)

datatype json_step = Key string | Index nat

fun json_at :: "json \<Rightarrow> json_step list \<Rightarrow> json option" where
  "json_at j [] = Some j"
| "json_at (JObject kvs) (Key k # p) = (case map_of kvs k of None \<Rightarrow> None | Some v \<Rightarrow> json_at v p)"
| "json_at (JArray vs) (Index i # p) = (if i < length vs then json_at (vs ! i) p else None)"
| "json_at _ _ = None"

fun plain_step :: "json_step \<Rightarrow> bool" where
  "plain_step (Key k) = (\<not> audit_key_is_sensitive k)"
| "plain_step (Index i) = True"

lemma map_of_redact:
  "map_of (map (\<lambda>(k, v). (k, if audit_key_is_sensitive k then redacted else redact v)) kvs) k =
     map_option (\<lambda>v. if audit_key_is_sensitive k then redacted else redact v) (map_of kvs k)"
  by (induction kvs) auto

lemma json_at_redact:
  "list_all plain_step p \<Longrightarrow> json_at (redact j) p = map_option redact (json_at j p)"
  by (induction j p rule: json_at.induct) (auto simp: map_of_redact split: option.splits)

lemma json_at_sensitive:
  assumes "list_all plain_step p" "audit_key_is_sensitive k" "json_at (redact j) (p @ [Key k]) = Some v"
  shows "v = redacted"
  using assms
proof (induction j p rule: json_at.induct)
  case (1 j)
  then show ?case by (cases j) (auto simp: map_of_redact split: option.splits)
qed (auto simp: map_of_redact split: option.splits if_splits)

lemma insert_audit_inv [on_ok_rules]: "store_inv db \<Longrightarrow> on_ok store_inv (insert_audit i a now db)"
  unfolding insert_audit_def by (rule put_audit_logs_inv)

lemma insert_audit_Inr:
  "insert_audit i a now db = Inr db' \<Longrightarrow> \<exists>r. db' = db\<lparr>t_audit_logs := t_audit_logs db @ [r]\<rparr>"
  unfolding insert_audit_def by (blast dest: put_audit_logs_fields)

end
