(* ===== verification/Demo.thy ===== *)
theory Demo
  imports StoreAudit
begin

text \<open>
  A small populated store on which the properties are instantiated: one node, two projects, a
  device with an SSH and a web endpoint, an administrator, an operator and a temporary user, a
  policy, login and access sessions, MFA data and a discovery job. \<open>demo_inv\<close> shows that it
  satisfies the invariant of the store.
\<close>

definition demo_node :: node_row where
  "demo_node = \<lparr>n_id = ''n1'', n_name = ''edge'', n_api_url = ''https://nps'', n_tls_server_name = '''',
     n_credential_ref = ''vault:n1'', n_port_start = 20000, n_port_end = 20002, n_enabled = True,
     n_health_status = ''unknown'', n_last_checked_at = None, n_created_at = 0, n_updated_at = 0\<rparr>"

definition demo_project :: "string \<Rightarrow> string \<Rightarrow> int option \<Rightarrow> project_row" where
  "demo_project i code client = \<lparr>p_id = i, p_code = code, p_name = ''plant'', p_node_id = ''n1'',
     p_owner_name = ''ops'', p_client_id = client, p_created_at = 0, p_updated_at = 0\<rparr>"

definition demo_device :: device_row where
  "demo_device = \<lparr>d_id = ''d1'', d_project_id = ''p1'', d_host = ''10.0.0.5'', d_name = ''gw'',
     d_device_type = ''other'', d_vendor = '''', d_source = ''manual'', d_status = ''unknown'',
     d_last_seen_at = None, d_created_at = 0, d_updated_at = 0\<rparr>"

definition demo_endpoint :: "string \<Rightarrow> string \<Rightarrow> int \<Rightarrow> string \<Rightarrow> endpoint_row" where
  "demo_endpoint i proto port access = \<lparr>e_id = i, e_device_id = ''d1'', e_name = proto,
     e_protocol = proto, e_target_port = port, e_access_type = access,
     e_verification_status = ''unverified'', e_last_verified_at = None, e_tls_server_name = '''',
     e_ssh_credential_ref = '''', e_ssh_auth_method = '''', e_ssh_username = '''',
     e_ssh_key_path = '''', e_ssh_host_key_fingerprint = '''', e_created_at = 0, e_updated_at = 0\<rparr>"

definition demo_user :: "string \<Rightarrow> string \<Rightarrow> user_row" where
  "demo_user i role = \<lparr>u_id = i, u_username = ''user-'' @ i, u_display_name = i, u_email = '''',
     u_password_hash = ''h'', u_role = role, u_enabled = True, u_password_change_required = False,
     u_created_at = 0, u_updated_at = 0\<rparr>"

definition demo_auth_session :: "string \<Rightarrow> string \<Rightarrow> string \<Rightarrow> auth_session_row" where
  "demo_auth_session i uid token = \<lparr>s_id = i, s_user_id = uid, s_token_hash = token,
     s_csrf_hash = ''c'', s_status = ''active'', s_expires_at = minutes 600, s_created_at = 0,
     s_last_seen_at = 0\<rparr>"

definition demo_access_session :: "string \<Rightarrow> string \<Rightarrow> string \<Rightarrow> string \<Rightarrow> access_session_row" where
  "demo_access_session i uid sid token = \<lparr>acs_id = i, acs_user_id = Some uid,
     acs_auth_session_id = Some sid, acs_project_id = ''p1'', acs_endpoint_id = ''e2'',
     acs_token_hash = token, acs_route_label = ''label'', acs_grant_hash = ''grant'',
     acs_grant_exchanged_at = None, acs_mode = ''web'', acs_source_ip = ''192.0.2.1'',
     acs_status = ''active'', acs_expires_at = minutes 60, acs_started_at = 0,
     acs_ended_at = None, acs_last_seen_at = 0\<rparr>"

definition demo_access_log :: "access_session_row \<Rightarrow> access_log_row" where
  "demo_access_log s = \<lparr>lg_id = acs_id s, lg_user_id = acs_user_id s, lg_username = ''user-u2'',
     lg_project_id = ''p1'', lg_project_name = ''plant'', lg_endpoint_id = ''e2'',
     lg_endpoint_name = ''http'', lg_device_name = ''gw'', lg_mode = acs_mode s,
     lg_source_ip = acs_source_ip s, lg_status = acs_status s,
     lg_accessed_at = acs_grant_exchanged_at s, lg_expires_at = acs_expires_at s,
     lg_started_at = acs_started_at s, lg_last_seen_at = acs_last_seen_at s,
     lg_ended_at = acs_ended_at s\<rparr>"

definition demo_challenge :: "string \<Rightarrow> string \<Rightarrow> string \<Rightarrow> challenge_row" where
  "demo_challenge i uid purpose = \<lparr>mc_id = i, mc_user_id = uid, mc_token_hash = ''ch-'' @ i,
     mc_purpose = purpose, mc_method = ''totp'', mc_secret_ciphertext = ''sealed'',
     mc_email = ''a@b.c'', mc_email_code_hash = ''code'', mc_email_sent_at = Some 0,
     mc_email_verified = True, mc_new_password_hash = ''newhash'', mc_source_ip = ''192.0.2.1'',
     mc_status = ''active'', mc_attempts = 0, mc_expires_at = minutes 10, mc_created_at = 0\<rparr>"

definition demo_job :: job_row where
  "demo_job = \<lparr>dj_id = ''j1'', dj_project_id = ''p1'', dj_requested_by = Some ''u2'',
     dj_networks = Some [''10.0.0.0/30''], dj_ports = Some [], dj_status = ''queued'',
     dj_progress = 0, dj_created_at = 0, dj_started_at = None, dj_finished_at = None\<rparr>"

definition demo_audit :: audit_input where
  "demo_audit = \<lparr>ai_actor = ''u1'', ai_action = ''test'', ai_resource_type = '''',
     ai_resource_id = '''', ai_result = ''ok'', ai_request_id = ''r'', ai_source_ip = ''192.0.2.1'',
     ai_metadata = Blank\<rparr>"

definition demo_db :: db where
  "demo_db = empty_db\<lparr>
     t_nodes := [demo_node],
     t_projects := [demo_project ''p1'' ''AAA'' (Some 7), demo_project ''p2'' ''BBB'' None],
     t_networks := [\<lparr>pn_id = ''w1'', pn_project_id = ''p1'', pn_cidr = ''10.0.0.0/24'',
        pn_verified = False, pn_created_at = 0\<rparr>],
     t_devices := [demo_device],
     t_endpoints := [demo_endpoint ''e1'' ''ssh'' 22 ''web_ssh'', demo_endpoint ''e2'' ''http'' 80 ''web_proxy''],
     t_users := [demo_user ''u1'' ''system_admin'', demo_user ''u2'' ''operator'', demo_user ''u3'' ''temporary''],
     t_memberships := [\<lparr>pm_user_id = ''u2'', pm_project_id = ''p1'', pm_created_at = 0\<rparr>],
     t_policies := [\<lparr>pol_id = ''q1'', pol_name = ''visit'', pol_capabilities = Some [''web''],
        pol_schedule = Some \<lparr>valid_from = Some 100, valid_until = Some 200\<rparr>, pol_enabled = True,
        pol_created_at = 0, pol_updated_at = 0\<rparr>],
     t_policy_users := [\<lparr>pu_policy_id = ''q1'', pu_user_id = ''u3''\<rparr>],
     t_policy_projects := [\<lparr>pp_policy_id = ''q1'', pp_project_id = ''p1''\<rparr>],
     t_auth_sessions := [demo_auth_session ''s1'' ''u1'' ''t1'', demo_auth_session ''s2'' ''u2'' ''t2''],
     t_access_sessions := [demo_access_session ''a1'' ''u2'' ''s2'' ''k1''],
     t_access_logs := [demo_access_log (demo_access_session ''a1'' ''u2'' ''s2'' ''k1'')],
     t_jobs := [demo_job],
     t_user_mfa := [\<lparr>um_user_id = ''u2'', um_secret_ciphertext = ''sealed'', um_preferred_method = ''totp'',
        um_last_totp_counter = 5, um_enabled_at = 0, um_updated_at = 0\<rparr>],
     t_recovery_codes := [\<lparr>rc_id = ''rc1'', rc_user_id = ''u2'', rc_code_hash = ''rec'',
        rc_used_at = None, rc_created_at = 0\<rparr>],
     t_challenges := [demo_challenge ''m2'' ''u2'' ''verify'', demo_challenge ''m3'' ''u3'' ''onboard'']\<rparr>"

lemmas demo_defs = demo_db_def demo_node_def demo_project_def demo_device_def demo_endpoint_def
  demo_user_def demo_auth_session_def demo_access_session_def demo_access_log_def
  demo_challenge_def demo_job_def demo_audit_def empty_db_def

lemma demo_inv: "store_inv demo_db"
  by code_simp

end
