(* ===== verification/StoreUsers.thy ===== *)
theory StoreUsers
  imports Demo
begin

text \<open>
  Users and their login sessions: \<open>store/users.go\<close>.

  An operation gets the values the code draws itself, fresh identifiers (\<open>id.New\<close>) and the
  current time, as arguments; it returns the committed database and what the Go function
  returns. Reads after a commit see the committed database (\<open>after_commit\<close>).
\<close>

section \<open>Views of a user\<close>

record user =
  usr_id :: string
  usr_username :: string
  usr_display_name :: string
  usr_email :: string
  usr_role :: string
  usr_enabled :: bool
  usr_project_ids :: "string list"
  usr_mfa_enabled :: bool
  usr_password_change_required :: bool
  usr_created_at :: instant
  usr_updated_at :: instant

record user_credential =
  cred_user :: user
  cred_password_hash :: string
  cred_mfa_secret :: string
  cred_mfa_method :: string

record auth_session =
  ses_id :: string
  ses_user :: user
  ses_expires_at :: instant
  ses_last_seen_at :: "instant option"
  ses_csrf_hash :: string

record create_user_input =
  cu_username :: string
  cu_display_name :: string
  cu_password_hash :: string
  cu_role :: string
  cu_enabled :: bool
  cu_project_ids :: "string list"

record update_user_input =
  uu_display_name :: string
  uu_password_hash :: string
  uu_role :: string
  uu_enabled :: bool
  uu_project_ids :: "string list"

record change_password_input =
  cp_user_id :: string
  cp_password_hash :: string
  cp_token_hash :: string
  cp_csrf_hash :: string
  cp_expires_at :: instant
  cp_audit :: audit_input

text \<open>
  The projects of a user are the memberships and the projects of every enabled policy that
  names the user; the query reads neither the schedule nor the capabilities of the policy.
\<close>

definition user_projects :: "string \<Rightarrow> db \<Rightarrow> string list" where
  "user_projects uid db = sort (remdups (
     map pm_project_id (filter (\<lambda>m. pm_user_id m = uid) (t_memberships db)) @
     map pp_project_id (filter (\<lambda>pp.
       exists_row (\<lambda>pu. pu_policy_id pu = pp_policy_id pp \<and> pu_user_id pu = uid) (t_policy_users db)
       \<and> exists_row (\<lambda>p. pol_id p = pp_policy_id pp \<and> pol_enabled p) (t_policies db))
       (t_policy_projects db))))"

definition has_mfa :: "string \<Rightarrow> db \<Rightarrow> bool" where
  "has_mfa uid db = exists_row (\<lambda>m. um_user_id m = uid) (t_user_mfa db)"

definition user_of_row :: "user_row \<Rightarrow> db \<Rightarrow> user" where
  "user_of_row r db = \<lparr>usr_id = u_id r, usr_username = u_username r,
     usr_display_name = u_display_name r, usr_email = u_email r, usr_role = u_role r,
     usr_enabled = u_enabled r, usr_project_ids = user_projects (u_id r) db,
     usr_mfa_enabled = has_mfa (u_id r) db,
     usr_password_change_required = u_password_change_required r,
     usr_created_at = u_created_at r, usr_updated_at = u_updated_at r\<rparr>"

definition user_by_id :: "string \<Rightarrow> db \<Rightarrow> user res" where
  "user_by_id uid db =
     attempt (from_row (row_where (\<lambda>r. u_id r = uid) (t_users db)) ErrNotFound) (\<lambda>r.
     Inr (user_of_row r db))"

definition list_users :: "db \<Rightarrow> user list" where
  "list_users db = map (\<lambda>r. user_of_row r db) (order_desc (\<lambda>r. time_text (u_created_at r)) (t_users db))"

definition has_users :: "db \<Rightarrow> bool" where
  "has_users db = (count_where (\<lambda>r. True) (t_users db) > 0)"

definition mfa_of :: "string \<Rightarrow> db \<Rightarrow> mfa_row option" where
  "mfa_of uid db = row_where (\<lambda>m. um_user_id m = uid) (t_user_mfa db)"

definition user_credential_by_username :: "string \<Rightarrow> db \<Rightarrow> user_credential res" where
  "user_credential_by_username username db =
     attempt (from_row (row_where (\<lambda>r. u_username r = username) (t_users db)) ErrNotFound) (\<lambda>r.
     Inr \<lparr>cred_user = user_of_row r db, cred_password_hash = u_password_hash r,
       cred_mfa_secret = (case mfa_of (u_id r) db of None \<Rightarrow> '''' | Some m \<Rightarrow> um_secret_ciphertext m),
       cred_mfa_method = (case mfa_of (u_id r) db of None \<Rightarrow> '''' | Some m \<Rightarrow> um_preferred_method m)\<rparr>)"

section \<open>Creating users\<close>

definition new_user_row ::
  "string \<Rightarrow> string \<Rightarrow> string \<Rightarrow> string \<Rightarrow> string \<Rightarrow> bool \<Rightarrow> instant \<Rightarrow> user_row" where
  "new_user_row uid username display hash role enabled now =
     \<lparr>u_id = uid, u_username = username, u_display_name = display, u_email = '''',
      u_password_hash = hash, u_role = role, u_enabled = enabled,
      u_password_change_required = True, u_created_at = now, u_updated_at = now\<rparr>"

definition new_user :: "user_row \<Rightarrow> string list \<Rightarrow> user" where
  "new_user r projects = \<lparr>usr_id = u_id r, usr_username = u_username r,
     usr_display_name = u_display_name r, usr_email = '''', usr_role = u_role r,
     usr_enabled = u_enabled r, usr_project_ids = projects, usr_mfa_enabled = False,
     usr_password_change_required = True, usr_created_at = u_created_at r,
     usr_updated_at = u_updated_at r\<rparr>"

definition insert_membership :: "string \<Rightarrow> instant \<Rightarrow> string \<Rightarrow> db \<Rightarrow> db res" where
  "insert_membership uid now pid db = put_memberships (t_memberships db @
     [\<lparr>pm_user_id = uid, pm_project_id = pid, pm_created_at = now\<rparr>]) db"

definition create_initial_admin ::
  "string \<Rightarrow> string \<Rightarrow> instant \<Rightarrow> create_user_input \<Rightarrow> audit_input \<Rightarrow> db \<Rightarrow> db \<times> user res" where
  "create_initial_admin uid audit_id now input audit db = run_tx db (
     attempt (demand (count_where (\<lambda>r. True) (t_users db) = 0) ErrAlreadyInitialized) (\<lambda>_.
     let r = new_user_row uid (cu_username input) (cu_display_name input) (cu_password_hash input)
               ''system_admin'' True now in
     attempt (put_users (t_users db @ [r]) db) (\<lambda>db.
     attempt (insert_audit audit_id (audit\<lparr>ai_resource_id := uid\<rparr>) now db) (\<lambda>db.
     Inr (new_user r [], db)))))"

definition create_user ::
  "string \<Rightarrow> string \<Rightarrow> instant \<Rightarrow> create_user_input \<Rightarrow> audit_input \<Rightarrow> db \<Rightarrow> db \<times> user res" where
  "create_user uid audit_id now input audit db = run_tx db (
     let r = new_user_row uid (cu_username input) (cu_display_name input) (cu_password_hash input)
               (cu_role input) (cu_enabled input) now in
     attempt (put_users (t_users db @ [r]) db) (\<lambda>db.
     attempt (each (insert_membership uid now) (cu_project_ids input) db) (\<lambda>db.
     attempt (insert_audit audit_id (audit\<lparr>ai_resource_id := uid\<rparr>) now db) (\<lambda>db.
     Inr (new_user r (cu_project_ids input), db)))))"

section \<open>Changing and deleting users\<close>

definition other_admins :: "string \<Rightarrow> db \<Rightarrow> nat" where
  "other_admins uid db =
     count_where (\<lambda>r. u_role r = ''system_admin'' \<and> u_enabled r \<and> u_id r \<noteq> uid) (t_users db)"

definition revoke_user_sessions :: "string \<Rightarrow> db \<Rightarrow> db" where
  "revoke_user_sessions uid db =
     update_auth_sessions (\<lambda>s. s_user_id s = uid \<and> s_status s = ''active'')
       (\<lambda>s. s\<lparr>s_status := ''revoked''\<rparr>) db"

definition revoke_user_challenges :: "string \<Rightarrow> db \<Rightarrow> db" where
  "revoke_user_challenges uid db =
     update_challenges (\<lambda>c. mc_user_id c = uid \<and> mc_status c = ''active'')
       (\<lambda>c. c\<lparr>mc_status := ''revoked''\<rparr>) db"

definition apply_user_input :: "update_user_input \<Rightarrow> instant \<Rightarrow> user_row \<Rightarrow> user_row" where
  "apply_user_input input now r =
     (if uu_password_hash input = ''''
      then r\<lparr>u_display_name := uu_display_name input, u_role := uu_role input,
             u_enabled := uu_enabled input, u_updated_at := now\<rparr>
      else r\<lparr>u_display_name := uu_display_name input, u_password_hash := uu_password_hash input,
             u_password_change_required := True, u_role := uu_role input,
             u_enabled := uu_enabled input, u_updated_at := now\<rparr>)"

definition update_user ::
  "string \<Rightarrow> instant \<Rightarrow> string \<Rightarrow> update_user_input \<Rightarrow> audit_input \<Rightarrow> db \<Rightarrow> db \<times> user res" where
  "update_user audit_id now uid input audit db = after_commit (run_tx db (
     attempt (from_row (row_where (\<lambda>r. u_id r = uid) (t_users db)) ErrNotFound) (\<lambda>old.
     attempt (demand
       (\<not> (u_role old = ''system_admin'' \<and> u_enabled old
           \<and> (uu_role input \<noteq> ''system_admin'' \<or> \<not> uu_enabled input)
           \<and> other_admins uid db = 0)) ErrLastAdmin) (\<lambda>_.
     attempt (put_users (upd_where (\<lambda>r. u_id r = uid) (apply_user_input input now) (t_users db)) db) (\<lambda>db.
     attempt (each (insert_membership uid now) (uu_project_ids input)
       (delete_memberships (\<lambda>m. pm_user_id m = uid) db)) (\<lambda>db.
     attempt (insert_audit audit_id (audit\<lparr>ai_resource_id := uid\<rparr>) now (revoke_user_sessions uid db)) (\<lambda>db.
     Inr (u_created_at old, db))))))))
     (\<lambda>created db. attempt (user_by_id uid db) (\<lambda>u. Inr (u\<lparr>usr_created_at := created\<rparr>)))"

definition delete_user_op :: "string \<Rightarrow> instant \<Rightarrow> string \<Rightarrow> audit_input \<Rightarrow> db \<Rightarrow> db \<times> unit res" where
  "delete_user_op audit_id now uid audit db = run_tx db (
     attempt (from_row (row_where (\<lambda>r. u_id r = uid) (t_users db)) ErrNotFound) (\<lambda>old.
     attempt (demand
       (\<not> (u_role old = ''system_admin'' \<and> u_enabled old \<and> other_admins uid db = 0)) ErrLastAdmin) (\<lambda>_.
     attempt (insert_audit audit_id (audit\<lparr>ai_resource_id := uid\<rparr>) now (delete_user uid db)) (\<lambda>db.
     Inr ((), db)))))"

section \<open>Login sessions\<close>

definition new_auth_session :: "string \<Rightarrow> string \<Rightarrow> string \<Rightarrow> string \<Rightarrow> instant \<Rightarrow> instant \<Rightarrow> auth_session_row" where
  "new_auth_session sid uid token csrf expires now =
     \<lparr>s_id = sid, s_user_id = uid, s_token_hash = token, s_csrf_hash = csrf, s_status = ''active'',
      s_expires_at = expires, s_created_at = now, s_last_seen_at = now\<rparr>"

definition insert_auth_session ::
  "string \<Rightarrow> string \<Rightarrow> string \<Rightarrow> string \<Rightarrow> instant \<Rightarrow> instant \<Rightarrow> db \<Rightarrow> db res" where
  "insert_auth_session sid uid token csrf expires now db =
     put_auth_sessions (t_auth_sessions db @ [new_auth_session sid uid token csrf expires now]) db"

definition create_auth_session ::
  "string \<Rightarrow> instant \<Rightarrow> string \<Rightarrow> string \<Rightarrow> string \<Rightarrow> instant \<Rightarrow> db \<Rightarrow> db \<times> auth_session res" where
  "create_auth_session sid now uid token csrf expires db = after_commit (run_tx db (
     attempt (insert_auth_session sid uid token csrf expires now db) (\<lambda>db. Inr ((), db))))
     (\<lambda>_ db. attempt (user_by_id uid db) (\<lambda>u.
       Inr \<lparr>ses_id = sid, ses_user = u, ses_expires_at = expires, ses_last_seen_at = Some now,
            ses_csrf_hash = csrf\<rparr>))"

definition resolve_auth_session :: "instant \<Rightarrow> string \<Rightarrow> db \<Rightarrow> auth_session res" where
  "resolve_auth_session now token db =
     attempt (from_row (row_where (\<lambda>s. s_token_hash s = token \<and> s_status s = ''active''
       \<and> sql_less now (s_expires_at s)
       \<and> exists_row (\<lambda>u. u_id u = s_user_id s) (t_users db)) (t_auth_sessions db)) ErrNotFound) (\<lambda>s.
     attempt (from_row (row_where (\<lambda>u. u_id u = s_user_id s) (t_users db)) ErrNotFound) (\<lambda>u.
     attempt (demand (u_enabled u) ErrNotFound) (\<lambda>_.
     Inr \<lparr>ses_id = s_id s, ses_user = user_of_row u db, ses_expires_at = s_expires_at s,
          ses_last_seen_at = Some (s_last_seen_at s), ses_csrf_hash = s_csrf_hash s\<rparr>)))"

definition touch_auth_session :: "string \<Rightarrow> instant \<Rightarrow> db \<Rightarrow> db" where
  "touch_auth_session sid now db =
     update_auth_sessions (\<lambda>s. s_id s = sid \<and> s_status s = ''active'')
       (\<lambda>s. s\<lparr>s_last_seen_at := now\<rparr>) db"

definition revoke_auth_session :: "string \<Rightarrow> db \<Rightarrow> db \<times> unit res" where
  "revoke_auth_session token db =
     (let hit = (\<lambda>s. s_token_hash s = token \<and> s_status s = ''active'') in
      if count_where hit (t_auth_sessions db) = 0 then (db, Inl ErrNotFound)
      else (update_auth_sessions hit (\<lambda>s. s\<lparr>s_status := ''revoked''\<rparr>) db, Inr ()))"

definition change_password ::
  "string \<Rightarrow> string \<Rightarrow> instant \<Rightarrow> change_password_input \<Rightarrow> db \<Rightarrow> db \<times> auth_session res" where
  "change_password sid audit_id now input db = (let uid = cp_user_id input in after_commit (run_tx db (
     attempt (from_row (row_where (\<lambda>r. u_id r = uid) (t_users db)) ErrNotFound) (\<lambda>u.
     attempt (demand (u_enabled u \<and> cp_password_hash input \<noteq> '''') ErrNotFound) (\<lambda>_.
     let db = update_users (\<lambda>r. u_id r = uid) (\<lambda>r. r\<lparr>u_password_hash := cp_password_hash input,
                u_password_change_required := False, u_updated_at := now\<rparr>) db;
         db = revoke_user_challenges uid (revoke_user_sessions uid db) in
     attempt (insert_auth_session sid uid (cp_token_hash input) (cp_csrf_hash input)
       (cp_expires_at input) now db) (\<lambda>db.
     attempt (insert_audit audit_id ((cp_audit input)\<lparr>ai_resource_id := uid\<rparr>) now db) (\<lambda>db.
     Inr ((), db)))))))
     (\<lambda>_ db. attempt (user_by_id uid db) (\<lambda>u.
       Inr \<lparr>ses_id = sid, ses_user = u, ses_expires_at = cp_expires_at input,
            ses_last_seen_at = Some now, ses_csrf_hash = cp_csrf_hash input\<rparr>)))"

definition cleanup_auth_sessions :: "instant \<Rightarrow> db \<Rightarrow> db \<times> nat" where
  "cleanup_auth_sessions now db =
     (let db = delete_challenges (\<lambda>c. sql_le (mc_expires_at c) now \<or> mc_status c \<noteq> ''active'') db;
          old = (\<lambda>s. sql_le (s_expires_at s) now
                   \<or> s_status s = ''revoked'' \<and> sql_le (s_last_seen_at s) (now - minutes (24 * 60)))
      in (delete_auth_sessions old db, count_where old (t_auth_sessions db)))"

section \<open>Every operation keeps the invariant of the store\<close>

lemma revoke_user_sessions_inv [on_ok_rules]: "store_inv db \<Longrightarrow> store_inv (revoke_user_sessions uid db)"
  unfolding revoke_user_sessions_def by (intro on_ok_rules) (simp_all add: auth_session_check_def)

lemma revoke_user_challenges_inv [on_ok_rules]: "store_inv db \<Longrightarrow> store_inv (revoke_user_challenges uid db)"
  unfolding revoke_user_challenges_def
  by (rule update_challenges_inv) (simp_all add: challenge_check_def live_challenge_def)

lemma insert_membership_inv [on_ok_rules]:
  "store_inv db \<Longrightarrow> on_ok store_inv (insert_membership uid now pid db)"
  unfolding insert_membership_def by (rule put_memberships_inv)

lemma insert_auth_session_inv [on_ok_rules]:
  "store_inv db \<Longrightarrow> on_ok store_inv (insert_auth_session sid uid token csrf expires now db)"
  unfolding insert_auth_session_def by (rule put_auth_sessions_inv) auto

lemma apply_user_input_key [simp]:
  "u_id (apply_user_input input now r) = u_id r" "u_username (apply_user_input input now r) = u_username r"
  by (simp_all add: apply_user_input_def)

lemma create_initial_admin_inv [on_ok_rules]:
  "store_inv db \<Longrightarrow> store_inv (fst (create_initial_admin uid aid now input audit db))"
  unfolding create_initial_admin_def Let_def by (intro on_ok_rules) auto

lemma create_user_inv [on_ok_rules]:
  "store_inv db \<Longrightarrow> store_inv (fst (create_user uid aid now input audit db))"
  unfolding create_user_def Let_def by (intro on_ok_rules) auto

lemma update_user_inv [on_ok_rules]:
  "store_inv db \<Longrightarrow> store_inv (fst (update_user aid now uid input audit db))"
  unfolding update_user_def by (intro on_ok_rules) auto

lemma delete_user_op_inv [on_ok_rules]:
  "store_inv db \<Longrightarrow> store_inv (fst (delete_user_op aid now uid audit db))"
  unfolding delete_user_op_def by (intro on_ok_rules)

lemma create_auth_session_inv [on_ok_rules]:
  "store_inv db \<Longrightarrow> store_inv (fst (create_auth_session sid now uid token csrf expires db))"
  unfolding create_auth_session_def by (intro on_ok_rules)

lemma touch_auth_session_inv [on_ok_rules]: "store_inv db \<Longrightarrow> store_inv (touch_auth_session sid now db)"
  unfolding touch_auth_session_def by (intro on_ok_rules) (simp_all add: auth_session_check_def)

lemma revoke_auth_session_inv [on_ok_rules]:
  "store_inv db \<Longrightarrow> store_inv (fst (revoke_auth_session token db))"
  unfolding revoke_auth_session_def Let_def
  by (auto intro!: update_auth_sessions_inv simp: auth_session_check_def)

lemma change_password_inv [on_ok_rules]:
  "store_inv db \<Longrightarrow> store_inv (fst (change_password sid aid now input db))"
  unfolding change_password_def Let_def by (intro on_ok_rules) (simp_all add: user_check_def)

lemma cleanup_auth_sessions_inv [on_ok_rules]:
  "store_inv db \<Longrightarrow> store_inv (fst (cleanup_auth_sessions now db))"
  unfolding cleanup_auth_sessions_def Let_def by (simp add: delete_auth_sessions_inv delete_challenges_inv)

section \<open>What the operations do\<close>

lemma insert_membership_Inr:
  "insert_membership uid now pid db = Inr db' \<Longrightarrow> db' = db\<lparr>t_memberships := t_memberships db @
     [\<lparr>pm_user_id = uid, pm_project_id = pid, pm_created_at = now\<rparr>]\<rparr>"
  by (simp add: insert_membership_def put_Inr)

lemma each_insert_membership:
  "each (insert_membership uid now) pids db = Inr db' \<Longrightarrow>
     db' = db\<lparr>t_memberships := t_memberships db @
       map (\<lambda>p. \<lparr>pm_user_id = uid, pm_project_id = p, pm_created_at = now\<rparr>) pids\<rparr>"
proof (induction pids arbitrary: db)
  case (Cons p pids)
  let ?db1 = "db\<lparr>t_memberships := t_memberships db @ [\<lparr>pm_user_id = uid, pm_project_id = p, pm_created_at = now\<rparr>]\<rparr>"
  have "each (insert_membership uid now) pids ?db1 = Inr db'"
    using Cons.prems by (auto simp: attempt_Inr_iff dest: insert_membership_Inr)
  from Cons.IH[OF this] show ?case by simp
qed simp

lemma insert_auth_session_Inr:
  "insert_auth_session sid uid token csrf expires now db = Inr db' \<longleftrightarrow>
     holds (auth_sessions_rules db (t_auth_sessions db @ [new_auth_session sid uid token csrf expires now])) \<and>
     db' = db\<lparr>t_auth_sessions := t_auth_sessions db @ [new_auth_session sid uid token csrf expires now]\<rparr>"
  by (simp add: insert_auth_session_def put_Inr)

text \<open>The effects: either nothing was committed, or the committed state is as described.\<close>

lemma update_user_effect:
  "let r = update_user aid now uid input audit db in
   fst r = db \<and> \<not> succeeded r \<or>
   (\<exists>old entry. row_where (\<lambda>r. u_id r = uid) (t_users db) = Some old
    \<and> (u_role old = ''system_admin'' \<and> u_enabled old
        \<and> (uu_role input \<noteq> ''system_admin'' \<or> \<not> uu_enabled input) \<longrightarrow> 0 < other_admins uid db)
    \<and> fst r = db\<lparr>t_users := upd_where (\<lambda>r. u_id r = uid) (apply_user_input input now) (t_users db),
        t_memberships := del_where (\<lambda>m. pm_user_id m = uid) (t_memberships db) @
          map (\<lambda>p. \<lparr>pm_user_id = uid, pm_project_id = p, pm_created_at = now\<rparr>) (uu_project_ids input),
        t_auth_sessions := t_auth_sessions (revoke_user_sessions uid db),
        t_audit_logs := t_audit_logs db @ [entry]\<rparr>)"
  unfolding update_user_def Let_def
  by (rule tx_effect_after_commit)
     (auto simp: attempt_Inr_iff from_row_Inr_iff put_Inr revoke_user_sessions_def
       row_statement_defs other_admins_def dest!: insert_audit_Inr each_insert_membership)

lemma delete_user_op_effect:
  "let r = delete_user_op aid now uid audit db in
   fst r = db \<and> \<not> succeeded r \<or>
   (\<exists>old entry. row_where (\<lambda>r. u_id r = uid) (t_users db) = Some old
    \<and> (u_role old = ''system_admin'' \<and> u_enabled old \<longrightarrow> 0 < other_admins uid db)
    \<and> fst r = (delete_user uid db)\<lparr>t_audit_logs := t_audit_logs (delete_user uid db) @ [entry]\<rparr>)"
  unfolding delete_user_op_def Let_def
  by (rule tx_effect)
     (auto simp: attempt_Inr_iff from_row_Inr_iff other_admins_def dest!: insert_audit_Inr)

lemma change_password_effect:
  "let r = change_password sid aid now input db; uid = cp_user_id input in
   fst r = db \<and> \<not> succeeded r \<or>
   (\<exists>u entry. row_where (\<lambda>r. u_id r = uid) (t_users db) = Some u \<and> u_enabled u
    \<and> cp_password_hash input \<noteq> ''''
    \<and> fst r = db\<lparr>t_users := upd_where (\<lambda>r. u_id r = uid)
          (\<lambda>r. r\<lparr>u_password_hash := cp_password_hash input, u_password_change_required := False,
             u_updated_at := now\<rparr>) (t_users db),
        t_challenges := t_challenges (revoke_user_challenges uid db),
        t_auth_sessions := t_auth_sessions (revoke_user_sessions uid db) @
          [new_auth_session sid uid (cp_token_hash input) (cp_csrf_hash input) (cp_expires_at input) now],
        t_audit_logs := t_audit_logs db @ [entry]\<rparr>)"
  unfolding change_password_def Let_def
  by (rule tx_effect_after_commit)
     (auto simp: Let_def attempt_Inr_iff from_row_Inr_iff insert_auth_session_Inr
       revoke_user_sessions_def revoke_user_challenges_def row_statement_defs dest!: insert_audit_Inr)

lemma create_user_effect:
  "let r = create_user uid aid now input audit db in
   fst r = db \<and> \<not> succeeded r \<or>
   (\<exists>entry. fst r = db\<lparr>t_users := t_users db @ [new_user_row uid (cu_username input) (cu_display_name input)
          (cu_password_hash input) (cu_role input) (cu_enabled input) now],
        t_memberships := t_memberships db @
          map (\<lambda>p. \<lparr>pm_user_id = uid, pm_project_id = p, pm_created_at = now\<rparr>) (cu_project_ids input),
        t_audit_logs := t_audit_logs db @ [entry]\<rparr>)"
  unfolding create_user_def Let_def
  by (rule tx_effect) (auto simp: attempt_Inr_iff put_Inr dest!: insert_audit_Inr each_insert_membership)

lemma create_initial_admin_effect:
  "let r = create_initial_admin uid aid now input audit db in
   fst r = db \<and> \<not> succeeded r \<or>
   (t_users db = [] \<and> (\<exists>entry. fst r = db\<lparr>t_users := [new_user_row uid (cu_username input)
          (cu_display_name input) (cu_password_hash input) ''system_admin'' True now],
        t_audit_logs := t_audit_logs db @ [entry]\<rparr>))"
  unfolding create_initial_admin_def Let_def
  by (rule tx_effect) (auto simp: attempt_Inr_iff put_Inr Let_def dest!: insert_audit_Inr)

lemma user_ids: "store_inv db \<Longrightarrow> distinct (map u_id (t_users db))"
  by (simp add: store_inv_def db_ok_def rules_defs)

text \<open>A session that resolves is a live row of an enabled user.\<close>

lemma resolve_auth_session_Inr:
  assumes "resolve_auth_session now token db = Inr ses"
  shows "\<exists>s\<in>set (t_auth_sessions db). \<exists>u\<in>set (t_users db). s_token_hash s = token
    \<and> s_status s = ''active'' \<and> sql_less now (s_expires_at s) \<and> u_id u = s_user_id s \<and> u_enabled u
    \<and> ses = \<lparr>ses_id = s_id s, ses_user = user_of_row u db, ses_expires_at = s_expires_at s,
        ses_last_seen_at = Some (s_last_seen_at s), ses_csrf_hash = s_csrf_hash s\<rparr>"
proof -
  obtain s u where *: "row_where (\<lambda>s. s_token_hash s = token \<and> s_status s = ''active''
       \<and> sql_less now (s_expires_at s)
       \<and> exists_row (\<lambda>u. u_id u = s_user_id s) (t_users db)) (t_auth_sessions db) = Some s"
    "row_where (\<lambda>u. u_id u = s_user_id s) (t_users db) = Some u" and u: "u_enabled u"
    and ses: "ses = \<lparr>ses_id = s_id s, ses_user = user_of_row u db, ses_expires_at = s_expires_at s,
        ses_last_seen_at = Some (s_last_seen_at s), ses_csrf_hash = s_csrf_hash s\<rparr>"
    using assms unfolding resolve_auth_session_def attempt_Inr_iff from_row_Inr_iff demand_Inr_iff
    by (elim exE conjE) (rule that, assumption+, simp)
  show ?thesis using row_where_Some[OF *(1)] row_where_Some[OF *(2)] u ses by blast
qed

lemma revoked_sessions:
  assumes "s \<in> set (t_auth_sessions (revoke_user_sessions uid db))" "s_user_id s = uid"
  shows "s_status s \<noteq> ''active''"
proof -
  have "s \<in> set (upd_where (\<lambda>s. s_user_id s = uid \<and> s_status s = ''active'')
      (\<lambda>s. s\<lparr>s_status := ''revoked''\<rparr>) (t_auth_sessions db))"
    using assms(1) by (simp add: revoke_user_sessions_def update_auth_sessions_def)
  then show ?thesis using assms(2) by (cases rule: in_upd_whereE) auto
qed

section \<open>The last administrator\<close>

definition is_admin :: "user_row \<Rightarrow> bool" where
  "is_admin r \<longleftrightarrow> u_role r = ''system_admin'' \<and> u_enabled r"

definition has_admin :: "db \<Rightarrow> bool" where
  "has_admin db \<longleftrightarrow> exists_row is_admin (t_users db)"

lemma other_admins_pos:
  "0 < other_admins uid db \<longleftrightarrow> (\<exists>r\<in>set (t_users db). is_admin r \<and> u_id r \<noteq> uid)"
  by (auto simp: other_admins_def is_admin_def)

text \<open>Without another administrator the one there is is the row the operation reads.\<close>

lemma only_admin_is_old:
  assumes "store_inv db" "has_admin db" "\<not> 0 < other_admins uid db"
    and "row_where (\<lambda>r. u_id r = uid) (t_users db) = Some old"
  shows "is_admin old"
proof -
  obtain a where a: "a \<in> set (t_users db)" "is_admin a" using assms(2) by (auto simp: has_admin_def)
  then have "u_id a = uid" using assms(3) by (auto simp: other_admins_pos)
  then have "a = old"
    using key_inj[OF user_ids[OF assms(1)] a(1)] row_where_Some[OF assms(4)] by auto
  then show ?thesis using a by simp
qed

lemma has_admin_update_user:
  assumes inv: "store_inv db" and adm: "has_admin db"
  shows "has_admin (fst (update_user aid now uid input audit db))"
  using update_user_effect[of aid now uid input audit db, unfolded Let_def]
proof (elim disjE exE conjE)
  fix old entry
  let ?db = "fst (update_user aid now uid input audit db)"
  assume old: "row_where (\<lambda>r. u_id r = uid) (t_users db) = Some old"
    and guard: "u_role old = ''system_admin'' \<and> u_enabled old
        \<and> (uu_role input \<noteq> ''system_admin'' \<or> \<not> uu_enabled input) \<longrightarrow> 0 < other_admins uid db"
    and db: "?db = db\<lparr>t_users := upd_where (\<lambda>r. u_id r = uid) (apply_user_input input now) (t_users db),
        t_memberships := del_where (\<lambda>m. pm_user_id m = uid) (t_memberships db) @
          map (\<lambda>p. \<lparr>pm_user_id = uid, pm_project_id = p, pm_created_at = now\<rparr>) (uu_project_ids input),
        t_auth_sessions := t_auth_sessions (revoke_user_sessions uid db),
        t_audit_logs := t_audit_logs db @ [entry]\<rparr>"
  show ?thesis
  proof (cases "0 < other_admins uid db")
    case True
    then show ?thesis unfolding has_admin_def db by (auto simp: other_admins_pos upd_where_def)
  next
    case False
    then have "is_admin (apply_user_input input now old)"
      using guard only_admin_is_old[OF inv adm False old]
      by (auto simp: is_admin_def apply_user_input_def)
    then show ?thesis unfolding has_admin_def db using row_where_Some[OF old] by (auto simp: upd_where_def)
  qed
qed (use adm in simp)

lemma has_admin_delete_user:
  assumes inv: "store_inv db" and adm: "has_admin db"
  shows "has_admin (fst (delete_user_op aid now uid audit db))"
  using delete_user_op_effect[of aid now uid audit db, unfolded Let_def]
proof (elim disjE exE conjE)
  fix old entry
  let ?db = "fst (delete_user_op aid now uid audit db)"
  assume old: "row_where (\<lambda>r. u_id r = uid) (t_users db) = Some old"
    and guard: "u_role old = ''system_admin'' \<and> u_enabled old \<longrightarrow> 0 < other_admins uid db"
    and db: "?db = (delete_user uid db)\<lparr>t_audit_logs := t_audit_logs (delete_user uid db) @ [entry]\<rparr>"
  have "0 < other_admins uid db"
    using guard only_admin_is_old[OF inv adm _ old] by (auto simp: is_admin_def)
  then show ?thesis unfolding has_admin_def db
    by (auto simp: other_admins_pos delete_user_def delete_auth_sessions_def Let_def)
qed (use adm in simp)

text \<open>C2. The store never loses its last enabled system administrator to an update or a deletion
of a user, whatever the input: if it has one before, it has one after, also when the operation
fails.\<close>

theorem last_admin_kept:
  assumes "store_inv db" "has_admin db"
  shows "has_admin (fst (update_user aid now uid input audit db))
    \<and> has_admin (fst (delete_user_op aid now uid audit db))"
  using has_admin_update_user[OF assms] has_admin_delete_user[OF assms] by blast

theorem last_admin_kept_witness:
  "has_admin (fst (update_user ''x'' 1 ''u1'' \<lparr>uu_display_name = ''n'', uu_password_hash = '''',
     uu_role = ''operator'', uu_enabled = True, uu_project_ids = []\<rparr> demo_audit demo_db))
   \<and> has_admin (fst (delete_user_op ''x'' 1 ''u1'' demo_audit demo_db))"
  by (rule last_admin_kept[OF demo_inv]) code_simp

text \<open>A committed update of a user ends every login session the user had: no token resolves
to that user afterwards, at any time.\<close>

theorem update_user_ends_sessions:
  assumes "succeeded (update_user aid now uid input audit db)"
  shows "\<forall>t token ses. resolve_auth_session t token (fst (update_user aid now uid input audit db)) = Inr ses
    \<longrightarrow> usr_id (ses_user ses) \<noteq> uid"
proof (intro allI impI)
  fix t token ses
  assume res: "resolve_auth_session t token (fst (update_user aid now uid input audit db)) = Inr ses"
  have "t_auth_sessions (fst (update_user aid now uid input audit db)) = t_auth_sessions (revoke_user_sessions uid db)"
    using update_user_effect[of aid now uid input audit db, unfolded Let_def] assms by auto
  with resolve_auth_session_Inr[OF res] revoked_sessions[of _ uid db]
  show "usr_id (ses_user ses) \<noteq> uid" by (auto simp: user_of_row_def)
qed

definition demo_update_user :: update_user_input where
  "demo_update_user = \<lparr>uu_display_name = ''n'', uu_password_hash = '''', uu_role = ''operator'',
     uu_enabled = True, uu_project_ids = [''p2'']\<rparr>"

theorem update_user_ends_sessions_witness:
  "\<not> (\<exists>t token ses. resolve_auth_session t token (fst (update_user ''x'' 1 ''u2'' demo_update_user demo_audit demo_db))
      = Inr ses \<and> usr_id (ses_user ses) = ''u2'')"
proof -
  have "succeeded (update_user ''x'' 1 ''u2'' demo_update_user demo_audit demo_db)" by code_simp
  from update_user_ends_sessions[OF this] show ?thesis by blast
qed

text \<open>The login sessions that resolve after a password change, and the new one among them.\<close>

lemma resolve_auth_session_intro:
  assumes inv: "store_inv db" and s: "s \<in> set (t_auth_sessions db)" "s_status s = ''active''"
    and t: "sql_less now (s_expires_at s)" and u: "u \<in> set (t_users db)" "u_id u = s_user_id s" "u_enabled u"
  shows "resolve_auth_session now (s_token_hash s) db = Inr \<lparr>ses_id = s_id s,
    ses_user = user_of_row u db, ses_expires_at = s_expires_at s,
    ses_last_seen_at = Some (s_last_seen_at s), ses_csrf_hash = s_csrf_hash s\<rparr>"
proof -
  have "distinct (map s_token_hash (t_auth_sessions db))"
    using inv by (simp add: store_inv_def db_ok_def rules_defs)
  then have "row_where (\<lambda>x. s_token_hash x = s_token_hash s \<and> s_status x = ''active''
      \<and> sql_less now (s_expires_at x) \<and> exists_row (\<lambda>u. u_id u = s_user_id x) (t_users db))
      (t_auth_sessions db) = Some s"
    by (rule row_where_key) (use s t u in auto)
  moreover have "row_where (\<lambda>x. u_id x = s_user_id s) (t_users db) = Some u"
    by (rule row_where_key[OF user_ids[OF inv]]) (use u in auto)
  ultimately show ?thesis using u by (simp add: resolve_auth_session_def)
qed

lemma change_password_parts:
  assumes inv: "store_inv db" and ok: "succeeded (change_password sid aid now input db)"
  defines "db' \<equiv> fst (change_password sid aid now input db)"
  shows "\<forall>t token ses. resolve_auth_session t token db' = Inr ses
      \<longrightarrow> usr_id (ses_user ses) = cp_user_id input \<longrightarrow> token = cp_token_hash input \<and> ses_id ses = sid"
    and "\<forall>t. sql_less t (cp_expires_at input) \<longrightarrow>
      (\<exists>ses. resolve_auth_session t (cp_token_hash input) db' = Inr ses \<and> ses_id ses = sid
        \<and> usr_id (ses_user ses) = cp_user_id input \<and> \<not> usr_password_change_required (ses_user ses))"
    and "\<forall>c\<in>set (t_challenges db'). mc_user_id c = cp_user_id input \<longrightarrow> mc_status c \<noteq> ''active''"
proof -
  let ?uid = "cp_user_id input"
  let ?s = "new_auth_session sid ?uid (cp_token_hash input) (cp_csrf_hash input) (cp_expires_at input) now"
  let ?f = "\<lambda>r. r\<lparr>u_password_hash := cp_password_hash input, u_password_change_required := False, u_updated_at := now\<rparr>"
  from change_password_effect[of sid aid now input db, unfolded Let_def] ok obtain u entry where
    u: "row_where (\<lambda>r. u_id r = ?uid) (t_users db) = Some u" "u_enabled u"
    and db': "db' = db\<lparr>t_users := upd_where (\<lambda>r. u_id r = ?uid) ?f (t_users db),
        t_challenges := t_challenges (revoke_user_challenges ?uid db),
        t_auth_sessions := t_auth_sessions (revoke_user_sessions ?uid db) @ [?s],
        t_audit_logs := t_audit_logs db @ [entry]\<rparr>"
    unfolding db'_def by blast
  have inv': "store_inv db'" unfolding db'_def using inv by (rule change_password_inv)
  show "\<forall>t token ses. resolve_auth_session t token db' = Inr ses
      \<longrightarrow> usr_id (ses_user ses) = ?uid \<longrightarrow> token = cp_token_hash input \<and> ses_id ses = sid"
  proof (intro allI impI)
    fix t token ses
    assume "resolve_auth_session t token db' = Inr ses" and who: "usr_id (ses_user ses) = ?uid"
    from resolve_auth_session_Inr[OF this(1)] obtain s where s: "s \<in> set (t_auth_sessions db')"
      "s_token_hash s = token" "s_status s = ''active''" "s_user_id s = ?uid" "ses_id ses = s_id s"
      using who by (auto simp: user_of_row_def)
    then have "s = ?s" using revoked_sessions[of s ?uid db] by (auto simp: db')
    then show "token = cp_token_hash input \<and> ses_id ses = sid" using s by (simp add: new_auth_session_def)
  qed
  show "\<forall>t. sql_less t (cp_expires_at input) \<longrightarrow>
      (\<exists>ses. resolve_auth_session t (cp_token_hash input) db' = Inr ses \<and> ses_id ses = sid
        \<and> usr_id (ses_user ses) = ?uid \<and> \<not> usr_password_change_required (ses_user ses))"
  proof (intro allI impI)
    fix t assume t: "sql_less t (cp_expires_at input)"
    have "?f u \<in> set (t_users db')" "u_id u = ?uid"
      using row_where_Some[OF u(1)] by (auto simp: db' upd_where_def)
    then show "\<exists>ses. resolve_auth_session t (cp_token_hash input) db' = Inr ses \<and> ses_id ses = sid
        \<and> usr_id (ses_user ses) = ?uid \<and> \<not> usr_password_change_required (ses_user ses)"
      using resolve_auth_session_intro[OF inv', of ?s t "?f u"] t u(2)
      by (auto simp: new_auth_session_def user_of_row_def db')
  qed
  show "\<forall>c\<in>set (t_challenges db'). mc_user_id c = ?uid \<longrightarrow> mc_status c \<noteq> ''active''"
    by (auto simp: db' revoke_user_challenges_def update_challenges_def elim!: in_upd_whereE)
qed

definition demo_change_password :: change_password_input where
  "demo_change_password = \<lparr>cp_user_id = ''u2'', cp_password_hash = ''h2'', cp_token_hash = ''t9'',
     cp_csrf_hash = ''c9'', cp_expires_at = minutes 720, cp_audit = demo_audit\<rparr>"

text \<open>After a committed change of password the only token that resolves to the user is the new
one, it resolves to the new session until it expires, and no MFA challenge of the user is live.\<close>

theorem change_password_single_session:
  assumes "store_inv db" and "succeeded (change_password sid aid now input db)"
  shows "let db' = fst (change_password sid aid now input db); uid = cp_user_id input in
     (\<forall>t token ses. resolve_auth_session t token db' = Inr ses
        \<longrightarrow> usr_id (ses_user ses) = uid \<longrightarrow> token = cp_token_hash input \<and> ses_id ses = sid)
   \<and> (\<forall>t. sql_less t (cp_expires_at input) \<longrightarrow>
        (\<exists>ses. resolve_auth_session t (cp_token_hash input) db' = Inr ses \<and> ses_id ses = sid
          \<and> usr_id (ses_user ses) = uid \<and> \<not> usr_password_change_required (ses_user ses)))
   \<and> (\<forall>c\<in>set (t_challenges db'). mc_user_id c = uid \<longrightarrow> mc_status c \<noteq> ''active'')"
  using change_password_parts[OF assms] by (simp add: Let_def)

theorem change_password_single_session_witness:
  "\<not> (\<exists>ses. resolve_auth_session 2 ''t2'' (fst (change_password ''s9'' ''x'' 1 demo_change_password demo_db))
      = Inr ses \<and> usr_id (ses_user ses) = ''u2'')
   \<and> (\<exists>ses. resolve_auth_session 2 ''t9'' (fst (change_password ''s9'' ''x'' 1 demo_change_password demo_db))
      = Inr ses \<and> ses_id ses = ''s9'')"
proof -
  have ok: "succeeded (change_password ''s9'' ''x'' 1 demo_change_password demo_db)" by code_simp
  have t: "sql_less 2 (cp_expires_at demo_change_password)" by code_simp
  show ?thesis
    using change_password_single_session[OF demo_inv ok] t
    unfolding Let_def by (auto simp: demo_change_password_def)
qed

end
