(* ===== verification/StoreMfa.thy ===== *)
theory StoreMfa
  imports StoreUsers
begin

text \<open>
  MFA challenges, enrolment and recovery codes: \<open>store/mfa.go\<close>.

  A challenge is opened at login (\<open>create_mfa_challenge\<close>), collects what onboarding needs, and is
  closed by one successful completion or by five failures. Hashes, sealed secrets and fresh
  identifiers are arguments; the identifiers of recovery codes come from \<open>code_id\<close>, one per
  position of the list.
\<close>

record mfa_challenge =
  ch_id :: string
  ch_user :: user
  ch_purpose :: string
  ch_method :: string
  ch_secret :: string
  ch_email :: string
  ch_email_code_hash :: string
  ch_email_verified :: bool
  ch_new_password_hash :: string
  ch_mfa_secret :: string
  ch_mfa_method :: string
  ch_attempts :: int
  ch_expires_at :: instant

record complete_mfa_input =
  ci_challenge_id :: string
  ci_password_hash :: string
  ci_method :: string
  ci_counter :: int
  ci_code_hash :: string
  ci_token_hash :: string
  ci_csrf_hash :: string
  ci_expires_at :: instant
  ci_recovery :: "string list"
  ci_method_bound :: string
  ci_audit :: audit_input

section \<open>Challenges\<close>

definition new_challenge_row ::
  "string \<Rightarrow> instant \<Rightarrow> string \<Rightarrow> string \<Rightarrow> string \<Rightarrow> string \<Rightarrow> string \<Rightarrow> instant \<Rightarrow> challenge_row" where
  "new_challenge_row cid now uid token purpose secret ip expires =
     \<lparr>mc_id = cid, mc_user_id = uid, mc_token_hash = token, mc_purpose = purpose, mc_method = '''',
      mc_secret_ciphertext = secret, mc_email = '''', mc_email_code_hash = '''',
      mc_email_sent_at = None, mc_email_verified = False, mc_new_password_hash = '''',
      mc_source_ip = ip, mc_status = ''active'', mc_attempts = 0, mc_expires_at = expires,
      mc_created_at = now\<rparr>"

definition challenge_by_token :: "instant \<Rightarrow> string \<Rightarrow> db \<Rightarrow> mfa_challenge res" where
  "challenge_by_token now token db =
     attempt (from_row (row_where (\<lambda>c. mc_token_hash c = token \<and> mc_status c = ''active''
       \<and> sql_less now (mc_expires_at c)
       \<and> exists_row (\<lambda>u. u_id u = mc_user_id c) (t_users db)) (t_challenges db)) ErrMFAChallenge) (\<lambda>c.
     attempt (from_row (row_where (\<lambda>u. u_id u = mc_user_id c) (t_users db)) ErrMFAChallenge) (\<lambda>u.
     attempt (demand (u_enabled u \<and> mc_attempts c < 5) ErrMFAChallenge) (\<lambda>_.
     Inr \<lparr>ch_id = mc_id c, ch_user = user_of_row u db, ch_purpose = mc_purpose c,
       ch_method = mc_method c, ch_secret = mc_secret_ciphertext c, ch_email = mc_email c,
       ch_email_code_hash = mc_email_code_hash c, ch_email_verified = mc_email_verified c,
       ch_new_password_hash = mc_new_password_hash c,
       ch_mfa_secret = (case mfa_of (u_id u) db of None \<Rightarrow> '''' | Some m \<Rightarrow> um_secret_ciphertext m),
       ch_mfa_method = (case mfa_of (u_id u) db of None \<Rightarrow> '''' | Some m \<Rightarrow> um_preferred_method m),
       ch_attempts = mc_attempts c, ch_expires_at = mc_expires_at c\<rparr>)))"

definition create_mfa_challenge ::
  "string \<Rightarrow> instant \<Rightarrow> instant \<Rightarrow> string \<Rightarrow> string \<Rightarrow> string \<Rightarrow> string \<Rightarrow> string \<Rightarrow> instant \<Rightarrow> db
     \<Rightarrow> db \<times> mfa_challenge res" where
  "create_mfa_challenge cid now read_now uid token purpose secret ip expires db = after_commit (run_tx db (
     let db = revoke_user_challenges uid db in
     attempt (put_challenges (t_challenges db @
       [new_challenge_row cid now uid token purpose secret ip expires]) db) (\<lambda>db. Inr ((), db))))
     (\<lambda>_ db. challenge_by_token read_now token db)"

text \<open>One \<open>UPDATE\<close> of a challenge whose row count decides between success and the error \<open>e\<close>.\<close>

definition update_challenge ::
  "(challenge_row \<Rightarrow> bool) \<Rightarrow> (challenge_row \<Rightarrow> challenge_row) \<Rightarrow> store_error \<Rightarrow> db \<Rightarrow> db \<times> unit res" where
  "update_challenge P f e db =
     (update_challenges P f db, if count_where P (t_challenges db) = 1 then Inr () else Inl e)"

definition set_onboarding_password :: "instant \<Rightarrow> string \<Rightarrow> string \<Rightarrow> db \<Rightarrow> db \<times> unit res" where
  "set_onboarding_password now cid hash db = update_challenge
     (\<lambda>c. mc_id c = cid \<and> mc_purpose c = ''onboard'' \<and> mc_status c = ''active''
        \<and> sql_less now (mc_expires_at c) \<and> mc_attempts c < 5)
     (\<lambda>c. c\<lparr>mc_new_password_hash := hash\<rparr>) ErrMFAChallenge db"

definition sent_before :: "instant \<Rightarrow> challenge_row \<Rightarrow> bool" where
  "sent_before cutoff c = (case mc_email_sent_at c of None \<Rightarrow> True | Some t \<Rightarrow> sql_le t cutoff)"

definition set_onboarding_email_delivery ::
  "instant \<Rightarrow> string \<Rightarrow> string \<Rightarrow> string \<Rightarrow> instant \<Rightarrow> db \<Rightarrow> db \<times> unit res" where
  "set_onboarding_email_delivery now cid email code expires db = update_challenge
     (\<lambda>c. mc_id c = cid \<and> mc_purpose c = ''onboard'' \<and> mc_status c = ''active''
        \<and> mc_new_password_hash c \<noteq> '''' \<and> mc_attempts c < 5 \<and> sent_before (now - seconds 60) c)
     (\<lambda>c. c\<lparr>mc_email := email, mc_email_code_hash := code, mc_email_verified := False,
            mc_email_sent_at := Some now, mc_expires_at := expires\<rparr>) ErrMFACooldown db"

definition verify_onboarding_email :: "string \<Rightarrow> string \<Rightarrow> db \<Rightarrow> db \<times> unit res" where
  "verify_onboarding_email cid code db = update_challenge
     (\<lambda>c. mc_id c = cid \<and> mc_purpose c = ''onboard'' \<and> mc_status c = ''active''
        \<and> mc_email_code_hash c = code \<and> mc_email c \<noteq> '''')
     (\<lambda>c. c\<lparr>mc_email_verified := True, mc_email_code_hash := ''''\<rparr>) ErrMFAChallenge db"

definition set_mfa_challenge_method ::
  "instant \<Rightarrow> string \<Rightarrow> string \<Rightarrow> string \<Rightarrow> string \<Rightarrow> instant \<Rightarrow> db \<Rightarrow> db \<times> unit res" where
  "set_mfa_challenge_method now cid method secret code expires db =
     (let hit = (\<lambda>c. mc_id c = cid \<and> mc_status c = ''active'' \<and> mc_attempts c < 5
            \<and> (code = '''' \<or> mc_email_code_hash c = '''' \<or> sent_before (now - seconds 60) c));
          set = (\<lambda>c. c\<lparr>mc_method := method, mc_secret_ciphertext := secret, mc_email_code_hash := code,
            mc_email_sent_at := (if code \<noteq> '''' then Some now else mc_email_sent_at c),
            mc_expires_at := expires\<rparr>)
      in case put_challenges (upd_where hit set (t_challenges db)) db of
        Inl e \<Rightarrow> (db, Inl e)
      | Inr db' \<Rightarrow> (db', if count_where hit (t_challenges db) = 1 then Inr ()
                       else Inl (if code \<noteq> '''' then ErrMFACooldown else ErrMFAChallenge)))"

definition clear_mfa_email_delivery :: "string \<Rightarrow> string \<Rightarrow> db \<Rightarrow> db" where
  "clear_mfa_email_delivery cid code db = update_challenges
     (\<lambda>c. mc_id c = cid \<and> mc_status c = ''active'' \<and> mc_email_code_hash c = code)
     (\<lambda>c. c\<lparr>mc_email_code_hash := '''', mc_email_sent_at := None\<rparr>) db"

definition count_failure :: "challenge_row \<Rightarrow> challenge_row" where
  "count_failure c = c\<lparr>mc_attempts := mc_attempts c + 1,
     mc_status := (if mc_attempts c + 1 \<ge> 5 then ''revoked'' else mc_status c)\<rparr>"

definition fail_mfa_challenge :: "string \<Rightarrow> db \<Rightarrow> db \<times> unit res" where
  "fail_mfa_challenge cid db =
     (let hit = (\<lambda>c. mc_id c = cid \<and> mc_status c = ''active'') in
      (update_challenges hit count_failure db,
       if count_where hit (t_challenges db) = 0 then Inl ErrMFAChallenge else Inr ()))"

section \<open>Completing a challenge\<close>

definition live_challenge_row :: "instant \<Rightarrow> string \<Rightarrow> db \<Rightarrow> (challenge_row \<times> user_row) res" where
  "live_challenge_row now cid db =
     attempt (from_row (row_where (\<lambda>c. mc_id c = cid \<and> mc_status c = ''active''
       \<and> sql_less now (mc_expires_at c)
       \<and> exists_row (\<lambda>u. u_id u = mc_user_id c) (t_users db)) (t_challenges db)) ErrMFAChallenge) (\<lambda>c.
     attempt (from_row (row_where (\<lambda>u. u_id u = mc_user_id c) (t_users db)) ErrMFAChallenge) (\<lambda>u.
     Inr (c, u)))"

definition consume_challenge :: "string \<Rightarrow> db \<Rightarrow> db res" where
  "consume_challenge cid db =
     (let hit = (\<lambda>c. mc_id c = cid \<and> mc_status c = ''active'') in
      attempt (demand (count_where hit (t_challenges db) = 1) ErrMFAChallenge) (\<lambda>_.
      Inr (update_challenges hit (\<lambda>c. c\<lparr>mc_status := ''consumed''\<rparr>) db)))"

text \<open>The tail that every completion shares: end the old sessions, open the new one, audit it.\<close>

definition open_session :: "string \<Rightarrow> string \<Rightarrow> instant \<Rightarrow> string \<Rightarrow> complete_mfa_input \<Rightarrow> db \<Rightarrow> (string \<times> db) res" where
  "open_session sid audit_id now uid input db =
     attempt (insert_auth_session sid uid (ci_token_hash input) (ci_csrf_hash input)
       (ci_expires_at input) now (revoke_user_sessions uid db)) (\<lambda>db.
     attempt (insert_audit audit_id ((ci_audit input)\<lparr>ai_resource_id := uid\<rparr>) now db) (\<lambda>db.
     Inr (uid, db)))"

definition opened_session :: "string \<Rightarrow> complete_mfa_input \<Rightarrow> string \<Rightarrow> db \<Rightarrow> auth_session res" where
  "opened_session sid input uid db = attempt (user_by_id uid db) (\<lambda>u.
     Inr \<lparr>ses_id = sid, ses_user = u, ses_expires_at = ci_expires_at input,
          ses_last_seen_at = None, ses_csrf_hash = ci_csrf_hash input\<rparr>)"

definition complete_password_change ::
  "string \<Rightarrow> string \<Rightarrow> instant \<Rightarrow> complete_mfa_input \<Rightarrow> db \<Rightarrow> db \<times> auth_session res" where
  "complete_password_change sid audit_id now input db = after_commit (run_tx db (
     attempt (live_challenge_row now (ci_challenge_id input) db) (\<lambda>(c, u).
     attempt (demand (mc_purpose c = ''password'' \<and> ci_password_hash input \<noteq> '''' \<and> u_enabled u)
       ErrMFAChallenge) (\<lambda>_.
     attempt (consume_challenge (ci_challenge_id input) db) (\<lambda>db.
     let uid = mc_user_id c;
         db = update_users (\<lambda>r. u_id r = uid) (\<lambda>r. r\<lparr>u_password_hash := ci_password_hash input,
                u_password_change_required := False, u_updated_at := now\<rparr>) db in
     open_session sid audit_id now uid input db)))))
     (opened_session sid input)"

definition upsert_user_mfa :: "mfa_row \<Rightarrow> db \<Rightarrow> db res" where
  "upsert_user_mfa r db =
     (if exists_row (\<lambda>m. um_user_id m = um_user_id r) (t_user_mfa db)
      then put_user_mfa (upd_where (\<lambda>m. um_user_id m = um_user_id r) (\<lambda>m. m\<lparr>
             um_secret_ciphertext := um_secret_ciphertext r,
             um_preferred_method := um_preferred_method r,
             um_last_totp_counter := um_last_totp_counter r,
             um_enabled_at := um_enabled_at r, um_updated_at := um_updated_at r\<rparr>) (t_user_mfa db)) db
      else put_user_mfa (t_user_mfa db @ [r]) db)"

definition recovery_code_row :: "(nat \<Rightarrow> string) \<Rightarrow> instant \<Rightarrow> string \<Rightarrow> nat \<times> string \<Rightarrow> recovery_row" where
  "recovery_code_row code_id now uid = (\<lambda>(i, hash). \<lparr>rc_id = code_id i, rc_user_id = uid,
     rc_code_hash = hash, rc_used_at = None, rc_created_at = now\<rparr>)"

definition insert_recovery_code :: "(nat \<Rightarrow> string) \<Rightarrow> instant \<Rightarrow> string \<Rightarrow> nat \<times> string \<Rightarrow> db \<Rightarrow> db res" where
  "insert_recovery_code code_id now uid x db =
     put_recovery_codes (t_recovery_codes db @ [recovery_code_row code_id now uid x]) db"

text \<open>What onboarding writes: the new password and email, the method, and new recovery codes.\<close>

definition enrol_user ::
  "(nat \<Rightarrow> string) \<Rightarrow> instant \<Rightarrow> complete_mfa_input \<Rightarrow> challenge_row \<Rightarrow> db \<Rightarrow> db res" where
  "enrol_user code_id now input c db =
     (let uid = mc_user_id c in
      attempt (demand ((ci_method_bound input = ''totp'' \<or> ci_method_bound input = ''email'')
        \<and> length (ci_recovery input) \<ge> 8 \<and> mc_email_verified c \<and> mc_email c \<noteq> ''''
        \<and> mc_new_password_hash c \<noteq> '''') ErrMFAChallenge) (\<lambda>_.
      attempt (demand (\<not> (ci_method_bound input = ''totp'' \<and> mc_secret_ciphertext c = ''''))
        ErrMFAChallenge) (\<lambda>_.
      let db = update_users (\<lambda>r. u_id r = uid) (\<lambda>r. r\<lparr>u_password_hash := mc_new_password_hash c,
             u_email := mc_email c, u_password_change_required := False, u_updated_at := now\<rparr>) db in
      attempt (upsert_user_mfa \<lparr>um_user_id = uid, um_secret_ciphertext = mc_secret_ciphertext c,
        um_preferred_method = ci_method_bound input, um_last_totp_counter = ci_counter input,
        um_enabled_at = now, um_updated_at = now\<rparr> db) (\<lambda>db.
      each (insert_recovery_code code_id now uid) (enumerate 0 (ci_recovery input))
        (delete_recovery_codes (\<lambda>r. rc_user_id r = uid) db)))))"

text \<open>What a second factor must show, and the state that makes it single-use.\<close>

definition use_totp_counter :: "instant \<Rightarrow> string \<Rightarrow> int \<Rightarrow> db \<Rightarrow> db res" where
  "use_totp_counter now uid counter db =
     (let hit = (\<lambda>m. um_user_id m = uid \<and> um_last_totp_counter m < counter) in
      attempt (demand (count_where hit (t_user_mfa db) = 1) ErrMFAReplay) (\<lambda>_.
      Inr (update_user_mfa hit (\<lambda>m. m\<lparr>um_last_totp_counter := counter, um_updated_at := now\<rparr>) db)))"

definition use_recovery_code :: "instant \<Rightarrow> string \<Rightarrow> string \<Rightarrow> db \<Rightarrow> db res" where
  "use_recovery_code now uid hash db =
     (let hit = (\<lambda>r. rc_user_id r = uid \<and> rc_code_hash r = hash \<and> rc_used_at r = None) in
      attempt (demand (count_where hit (t_recovery_codes db) = 1) ErrMFAChallenge) (\<lambda>_.
      Inr (update_recovery_codes hit (\<lambda>r. r\<lparr>rc_used_at := Some now\<rparr>) db)))"

definition use_factor :: "instant \<Rightarrow> complete_mfa_input \<Rightarrow> string \<Rightarrow> db \<Rightarrow> db res" where
  "use_factor now input uid db =
     (if ci_method input = ''totp'' then use_totp_counter now uid (ci_counter input) db
      else if ci_method input = ''recovery'' then use_recovery_code now uid (ci_code_hash input) db
      else if ci_method input \<noteq> ''email'' then Inl ErrMFAChallenge
      else Inr db)"

definition complete_mfa ::
  "string \<Rightarrow> string \<Rightarrow> (nat \<Rightarrow> string) \<Rightarrow> instant \<Rightarrow> complete_mfa_input \<Rightarrow> bool \<Rightarrow> db
     \<Rightarrow> db \<times> auth_session res" where
  "complete_mfa sid audit_id code_id now input onboarding db = after_commit (run_tx db (
     attempt (live_challenge_row now (ci_challenge_id input) db) (\<lambda>(c, u).
     attempt (demand (u_enabled u \<and> onboarding = (mc_purpose c = ''onboard'')) ErrMFAChallenge) (\<lambda>_.
     attempt (consume_challenge (ci_challenge_id input) db) (\<lambda>db.
     attempt (if onboarding then enrol_user code_id now input c db
              else use_factor now input (mc_user_id c) db) (\<lambda>db.
     open_session sid audit_id now (mc_user_id c) input db))))))
     (opened_session sid input)"

definition complete_mfa_enrollment ::
  "string \<Rightarrow> string \<Rightarrow> (nat \<Rightarrow> string) \<Rightarrow> instant \<Rightarrow> complete_mfa_input \<Rightarrow> db \<Rightarrow> db \<times> auth_session res" where
  "complete_mfa_enrollment sid audit_id code_id now input db =
     complete_mfa sid audit_id code_id now input True db"

definition complete_mfa_authentication ::
  "string \<Rightarrow> string \<Rightarrow> (nat \<Rightarrow> string) \<Rightarrow> instant \<Rightarrow> complete_mfa_input \<Rightarrow> db \<Rightarrow> db \<times> auth_session res" where
  "complete_mfa_authentication sid audit_id code_id now input db =
     complete_mfa sid audit_id code_id now input False db"

section \<open>Recovery codes and resets\<close>

definition recovery_code_count :: "string \<Rightarrow> db \<Rightarrow> nat" where
  "recovery_code_count uid db =
     count_where (\<lambda>r. rc_user_id r = uid \<and> rc_used_at r = None) (t_recovery_codes db)"

definition reset_user_mfa_where ::
  "(user_row \<Rightarrow> bool) \<Rightarrow> string \<Rightarrow> instant \<Rightarrow> audit_input \<Rightarrow> db \<Rightarrow> db \<times> unit res" where
  "reset_user_mfa_where P audit_id now audit db = run_tx db (
     attempt (from_row (row_where P (t_users db)) ErrNotFound) (\<lambda>u.
     let uid = u_id u;
         db = delete_user_mfa (\<lambda>m. um_user_id m = uid) db;
         db = delete_recovery_codes (\<lambda>r. rc_user_id r = uid) db;
         db = update_users (\<lambda>r. u_id r = uid) (\<lambda>r. r\<lparr>u_password_change_required := True\<rparr>) db;
         db = revoke_user_sessions uid (revoke_user_challenges uid db) in
     attempt (insert_audit audit_id (audit\<lparr>ai_resource_id := uid\<rparr>) now db) (\<lambda>db. Inr ((), db))))"

definition reset_user_mfa :: "string \<Rightarrow> instant \<Rightarrow> string \<Rightarrow> audit_input \<Rightarrow> db \<Rightarrow> db \<times> unit res" where
  "reset_user_mfa audit_id now uid audit db = reset_user_mfa_where (\<lambda>u. u_id u = uid) audit_id now audit db"

definition reset_user_mfa_by_username :: "string \<Rightarrow> instant \<Rightarrow> string \<Rightarrow> audit_input \<Rightarrow> db \<Rightarrow> db \<times> unit res" where
  "reset_user_mfa_by_username audit_id now username audit db =
     reset_user_mfa_where (\<lambda>u. u_username u = username) audit_id now audit db"

section \<open>The invariant\<close>

lemma challenges_ok_open:
  assumes "challenges_ok (t_challenges db)"
  shows "challenges_ok (t_challenges (revoke_user_challenges uid db) @
    [new_challenge_row cid now uid token purpose secret ip expires])"
proof (rule challenges_ok_add)
  show "challenges_ok (t_challenges (revoke_user_challenges uid db))"
    unfolding revoke_user_challenges_def update_challenges_def
    by (simp, rule challenges_ok_upd[OF assms]) (simp_all add: live_challenge_def)
  show "\<forall>x\<in>set (t_challenges (revoke_user_challenges uid db)).
      mc_user_id x = mc_user_id (new_challenge_row cid now uid token purpose secret ip expires)
      \<longrightarrow> \<not> live_challenge x"
    by (simp add: revoke_user_challenges_def update_challenges_def new_challenge_row_def
        live_challenge_def ball_upd_where)
qed (simp add: new_challenge_row_def)

lemma create_mfa_challenge_inv [on_ok_rules]:
  assumes "store_inv db"
  shows "store_inv (fst (create_mfa_challenge cid now rnow uid token purpose secret ip expires db))"
proof -
  have "challenges_ok (t_challenges db)" using assms by (simp add: store_inv_def)
  from challenges_ok_open[OF this] revoke_user_challenges_inv[OF assms] show ?thesis
    unfolding create_mfa_challenge_def Let_def
    by (intro keeps_inv_after_commit keeps_inv_run_tx keeps_inv_attempt keeps_inv_Inr
        put_challenges_inv assms) auto
qed

lemma update_challenge_inv:
  assumes "store_inv db"
    and "\<And>c. mc_id (f c) = mc_id c \<and> mc_token_hash (f c) = mc_token_hash c \<and> mc_user_id (f c) = mc_user_id c
      \<and> mc_status (f c) = mc_status c \<and> mc_attempts (f c) = mc_attempts c
      \<and> mc_purpose (f c) = mc_purpose c \<and> mc_method (f c) = mc_method c"
  shows "store_inv (fst (update_challenge P f e db))"
  unfolding update_challenge_def
  by (simp, rule update_challenges_inv[OF assms(1)])
     (simp_all add: assms(2) challenge_check_def live_challenge_def)

lemma challenge_updates_inv [on_ok_rules]:
  "store_inv db \<Longrightarrow> store_inv (fst (set_onboarding_password now cid hash db))"
  "store_inv db \<Longrightarrow> store_inv (fst (set_onboarding_email_delivery now cid email code expires db))"
  "store_inv db \<Longrightarrow> store_inv (fst (verify_onboarding_email cid code db))"
  unfolding set_onboarding_password_def set_onboarding_email_delivery_def verify_onboarding_email_def
  by (rule update_challenge_inv; simp)+

lemma set_mfa_challenge_method_inv [on_ok_rules]:
  assumes "store_inv db"
  shows "store_inv (fst (set_mfa_challenge_method now cid method secret code expires db))"
proof -
  let ?hit = "\<lambda>c. mc_id c = cid \<and> mc_status c = ''active'' \<and> mc_attempts c < 5
            \<and> (code = '''' \<or> mc_email_code_hash c = '''' \<or> sent_before (now - seconds 60) c)"
  let ?set = "\<lambda>c. c\<lparr>mc_method := method, mc_secret_ciphertext := secret, mc_email_code_hash := code,
            mc_email_sent_at := (if code \<noteq> '''' then Some now else mc_email_sent_at c),
            mc_expires_at := expires\<rparr>"
  have "challenges_ok (upd_where ?hit ?set (t_challenges db))"
    by (rule challenges_ok_upd) (use assms in \<open>simp_all add: store_inv_def live_challenge_def\<close>)
  from put_challenges_inv[OF assms this] show ?thesis
    unfolding set_mfa_challenge_method_def Let_def using assms
    by (auto split: sum.splits)
qed

lemma clear_mfa_email_delivery_inv [on_ok_rules]:
  "store_inv db \<Longrightarrow> store_inv (clear_mfa_email_delivery cid code db)"
  unfolding clear_mfa_email_delivery_def
  by (rule update_challenges_inv) (simp_all add: challenge_check_def live_challenge_def)

lemma fail_mfa_challenge_inv [on_ok_rules]:
  "store_inv db \<Longrightarrow> store_inv (fst (fail_mfa_challenge cid db))"
  unfolding fail_mfa_challenge_def Let_def
  by (simp, rule update_challenges_inv)
     (auto simp: challenge_check_def live_challenge_def count_failure_def split: if_splits)

lemma consume_challenge_inv [on_ok_rules]: "store_inv db \<Longrightarrow> on_ok store_inv (consume_challenge cid db)"
  unfolding consume_challenge_def Let_def
  by (intro on_ok_demand, simp, rule update_challenges_inv)
     (auto simp: challenge_check_def live_challenge_def)

lemma open_session_inv [on_ok_rules]:
  "store_inv db \<Longrightarrow> keeps_inv (open_session sid aid now uid input db)"
  unfolding open_session_def by (intro on_ok_rules)

lemma keeps_inv_attempt_live [on_ok_rules]:
  "(\<And>c u. keeps_inv (k (c, u))) \<Longrightarrow> keeps_inv (attempt (live_challenge_row now cid db) k)"
  by (cases "live_challenge_row now cid db") (auto simp: keeps_inv_Inl)

lemma complete_password_change_inv [on_ok_rules]:
  "store_inv db \<Longrightarrow> store_inv (fst (complete_password_change sid aid now input db))"
  unfolding complete_password_change_def Let_def split_beta
  by (intro on_ok_rules) (simp_all add: user_check_def)

lemma upsert_user_mfa_inv [on_ok_rules]: "store_inv db \<Longrightarrow> on_ok store_inv (upsert_user_mfa r db)"
  unfolding upsert_user_mfa_def by (intro on_ok_rules)

lemma enrol_user_inv [on_ok_rules]: "store_inv db \<Longrightarrow> on_ok store_inv (enrol_user code_id now input c db)"
  unfolding enrol_user_def insert_recovery_code_def Let_def
  by (intro on_ok_rules) (simp_all add: user_check_def)

lemma use_factor_inv [on_ok_rules]: "store_inv db \<Longrightarrow> on_ok store_inv (use_factor now input uid db)"
  unfolding use_factor_def use_totp_counter_def use_recovery_code_def Let_def
  by (auto intro!: on_ok_demand update_user_mfa_inv update_recovery_codes_inv simp: mfa_check_def)

lemma complete_mfa_inv [on_ok_rules]:
  "store_inv db \<Longrightarrow> store_inv (fst (complete_mfa sid aid code_id now input onboarding db))"
  unfolding complete_mfa_def split_beta by (intro on_ok_rules)

lemma reset_user_mfa_where_inv [on_ok_rules]:
  "store_inv db \<Longrightarrow> store_inv (fst (reset_user_mfa_where P aid now audit db))"
  unfolding reset_user_mfa_where_def Let_def by (intro on_ok_rules) (simp_all add: user_check_def)

section \<open>What a completion does\<close>

lemma live_challenge_row_Inr:
  assumes "live_challenge_row now cid db = Inr (c, u)"
  shows "c \<in> set (t_challenges db) \<and> mc_id c = cid \<and> mc_status c = ''active''
    \<and> sql_less now (mc_expires_at c) \<and> u \<in> set (t_users db) \<and> u_id u = mc_user_id c"
proof -
  have *: "row_where (\<lambda>c. mc_id c = cid \<and> mc_status c = ''active''
       \<and> sql_less now (mc_expires_at c)
       \<and> exists_row (\<lambda>u. u_id u = mc_user_id c) (t_users db)) (t_challenges db) = Some c"
    "row_where (\<lambda>u. u_id u = mc_user_id c) (t_users db) = Some u"
    using assms by (auto simp: live_challenge_row_def attempt_Inr_iff from_row_Inr_iff)
  show ?thesis using row_where_Some[OF *(1)] row_where_Some[OF *(2)] by blast
qed

lemma consume_challenge_Inr:
  "consume_challenge cid db = Inr db' \<Longrightarrow> db' = update_challenges (\<lambda>c. mc_id c = cid \<and> mc_status c = ''active'')
     (\<lambda>c. c\<lparr>mc_status := ''consumed''\<rparr>) db"
  by (simp add: consume_challenge_def Let_def attempt_Inr_iff)

lemma challenge_ids: "store_inv db \<Longrightarrow> distinct (map mc_id (t_challenges db))"
  by (simp add: store_inv_def db_ok_def rules_defs)

lemma consume_challenge_ok:
  assumes "store_inv db" "live_challenge_row now cid db = Inr (c, u)"
  shows "consume_challenge cid db = Inr (update_challenges (\<lambda>c. mc_id c = cid \<and> mc_status c = ''active'')
     (\<lambda>c. c\<lparr>mc_status := ''consumed''\<rparr>) db)"
proof -
  let ?hit = "\<lambda>c. mc_id c = cid \<and> mc_status c = ''active''"
  have "count_where ?hit (t_challenges db) \<le> 1"
    by (rule count_where_key_le_1[OF challenge_ids[OF assms(1)]]) simp
  moreover have "0 < count_where ?hit (t_challenges db)"
    using live_challenge_row_Inr[OF assms(2)] by auto
  ultimately have "count_where ?hit (t_challenges db) = 1" by linarith
  then show ?thesis by (simp add: consume_challenge_def)
qed

lemma open_session_Inr:
  "open_session sid aid now uid input db = Inr (v, db') \<Longrightarrow>
     \<exists>entry. v = uid \<and> db' = db\<lparr>t_auth_sessions := t_auth_sessions (revoke_user_sessions uid db) @
         [new_auth_session sid uid (ci_token_hash input) (ci_csrf_hash input) (ci_expires_at input) now],
       t_audit_logs := t_audit_logs db @ [entry]\<rparr>"
  by (auto simp: open_session_def attempt_Inr_iff insert_auth_session_Inr revoke_user_sessions_def
      update_auth_sessions_def dest!: insert_audit_Inr)

definition completed_with ::
  "(nat \<Rightarrow> string) \<Rightarrow> instant \<Rightarrow> complete_mfa_input \<Rightarrow> bool \<Rightarrow> db \<Rightarrow> db \<Rightarrow> challenge_row \<Rightarrow> user_row \<Rightarrow> db \<Rightarrow> bool" where
  "completed_with code_id now input onboarding db db' c u db2 \<longleftrightarrow>
     live_challenge_row now (ci_challenge_id input) db = Inr (c, u) \<and> u_enabled u
     \<and> onboarding = (mc_purpose c = ''onboard'')
     \<and> (if onboarding then enrol_user code_id now input c else use_factor now input (mc_user_id c))
         (update_challenges (\<lambda>c. mc_id c = ci_challenge_id input \<and> mc_status c = ''active'')
           (\<lambda>c. c\<lparr>mc_status := ''consumed''\<rparr>) db) = Inr db2
     \<and> t_users db' = t_users db2 \<and> t_user_mfa db' = t_user_mfa db2
     \<and> t_recovery_codes db' = t_recovery_codes db2 \<and> t_challenges db' = t_challenges db2"

lemma complete_mfa_effect:
  "let r = complete_mfa sid aid code_id now input onboarding db in
   fst r = db \<and> \<not> succeeded r \<or> (\<exists>c u db2. completed_with code_id now input onboarding db (fst r) c u db2)"
  unfolding complete_mfa_def Let_def
proof (rule tx_effect_after_commit)
  fix a s'
  assume "attempt (live_challenge_row now (ci_challenge_id input) db) (\<lambda>(c, u).
     attempt (demand (u_enabled u \<and> onboarding = (mc_purpose c = ''onboard'')) ErrMFAChallenge) (\<lambda>_.
     attempt (consume_challenge (ci_challenge_id input) db) (\<lambda>db.
     attempt (if onboarding then enrol_user code_id now input c db
              else use_factor now input (mc_user_id c) db) (\<lambda>db.
     open_session sid aid now (mc_user_id c) input db)))) = Inr (a, s')"
  then obtain c u db1 db2 where *: "live_challenge_row now (ci_challenge_id input) db = Inr (c, u)"
      "u_enabled u" "onboarding = (mc_purpose c = ''onboard'')" "consume_challenge (ci_challenge_id input) db = Inr db1"
      "(if onboarding then enrol_user code_id now input c db1 else use_factor now input (mc_user_id c) db1) = Inr db2"
      "open_session sid aid now (mc_user_id c) input db2 = Inr (a, s')"
    by (auto simp: attempt_Inr_iff)
  then show "\<exists>c u db2. completed_with code_id now input onboarding db s' c u db2"
    using consume_challenge_Inr[OF *(4)] open_session_Inr[OF *(6)]
    unfolding completed_with_def by (intro exI[of _ c] exI[of _ u] exI[of _ db2]) (auto split: if_splits)
qed

lemma completed_challenges:
  assumes "completed_with code_id now input onboarding db db' c u db2"
  shows "t_challenges db' = upd_where (\<lambda>c. mc_id c = ci_challenge_id input \<and> mc_status c = ''active'')
     (\<lambda>c. c\<lparr>mc_status := ''consumed''\<rparr>) (t_challenges db)"
proof -
  have rec: "each (insert_recovery_code code_id now uid) xs d = Inr d' \<Longrightarrow> t_challenges d' = t_challenges d"
    for uid xs d d'
    by (rule each_keeps_field[where g = t_challenges]) (auto simp: insert_recovery_code_def put_Inr)
  show ?thesis
    using assms
    by (auto simp: completed_with_def enrol_user_def use_factor_def use_totp_counter_def
        use_recovery_code_def Let_def attempt_Inr_iff upsert_user_mfa_def put_Inr
        row_statement_defs split: if_splits dest!: rec)
qed

lemma password_changed_challenges:
  assumes "succeeded (complete_password_change sid aid now input db)"
  shows "t_challenges (fst (complete_password_change sid aid now input db))
    = upd_where (\<lambda>c. mc_id c = ci_challenge_id input \<and> mc_status c = ''active'') (\<lambda>c. c\<lparr>mc_status := ''consumed''\<rparr>) (t_challenges db)"
proof -
  have "let r = complete_password_change sid aid now input db in fst r = db \<and> \<not> succeeded r
      \<or> t_challenges (fst r) = upd_where (\<lambda>c. mc_id c = ci_challenge_id input \<and> mc_status c = ''active'')
          (\<lambda>c. c\<lparr>mc_status := ''consumed''\<rparr>) (t_challenges db)"
    unfolding complete_password_change_def Let_def
  proof (rule tx_effect_after_commit, goal_cases)
    case (1 a s')
    then show ?case
      by (auto simp: attempt_Inr_iff row_statement_defs dest!: consume_challenge_Inr open_session_Inr)
  qed
  then show ?thesis using assms by (simp add: Let_def)
qed

section \<open>Properties\<close>

text \<open>C26. A challenge completes once: after a committed completion, of the second factor, the onboarding or the
password change, no completion of the same challenge, of whatever kind and at whatever time, succeeds on the store that
it left.\<close>

theorem challenge_completes_once:
  assumes "r = complete_mfa sid aid ids now input onboarding db \<or> r = complete_password_change sid aid now input db"
    and "succeeded r" "ci_challenge_id input2 = ci_challenge_id input"
  shows "\<not> succeeded (complete_mfa sid2 aid2 ids2 now2 input2 onboarding2 (fst r))
       \<and> \<not> succeeded (complete_password_change sid2 aid2 now2 input2 (fst r))"
proof -
  have "t_challenges (fst r) = upd_where (\<lambda>c. mc_id c = ci_challenge_id input \<and> mc_status c = ''active'')
      (\<lambda>c. c\<lparr>mc_status := ''consumed''\<rparr>) (t_challenges db)"
    using assms(1)
  proof
    assume r: "r = complete_mfa sid aid ids now input onboarding db"
    obtain c u db2 where "completed_with ids now input onboarding db (fst r) c u db2"
      using complete_mfa_effect[of sid aid ids now input onboarding db, unfolded Let_def] assms(2) r by blast
    then show ?thesis by (rule completed_challenges)
  next
    assume "r = complete_password_change sid aid now input db"
    with assms(2) password_changed_challenges show ?thesis by blast
  qed
  then have dead: "\<forall>c\<in>set (t_challenges (fst r)). mc_id c = ci_challenge_id input2 \<longrightarrow> mc_status c \<noteq> ''active''"
    by (simp add: ball_upd_where assms(3))
  have none: "live_challenge_row now2 (ci_challenge_id input2) (fst r) \<noteq> Inr (c', u')" for c' u'
    using dead live_challenge_row_Inr[of now2 "ci_challenge_id input2" "fst r" c' u'] by blast
  have "\<exists>e. live_challenge_row now2 (ci_challenge_id input2) (fst r) = Inl e"
    using none by (cases "live_challenge_row now2 (ci_challenge_id input2) (fst r)") auto
  then show ?thesis
    by (auto simp: complete_mfa_def complete_password_change_def succeeded_def)
qed

definition demo_complete :: complete_mfa_input where
  "demo_complete = \<lparr>ci_challenge_id = ''m2'', ci_password_hash = '''', ci_method = ''totp'', ci_counter = 6,
     ci_code_hash = '''', ci_token_hash = ''t9'', ci_csrf_hash = ''c9'', ci_expires_at = minutes 720,
     ci_recovery = [], ci_method_bound = '''', ci_audit = demo_audit\<rparr>"

theorem challenge_completes_once_witness:
  "\<not> succeeded (complete_mfa ''s8'' ''y'' (\<lambda>i. ''r'') 2 demo_complete False
        (fst (complete_mfa ''s9'' ''x'' (\<lambda>i. ''r'') 1 demo_complete False demo_db)))
   \<and> \<not> succeeded (complete_password_change ''s8'' ''y'' 2 demo_complete
        (fst (complete_mfa ''s9'' ''x'' (\<lambda>i. ''r'') 1 demo_complete False demo_db)))"
  by (rule challenge_completes_once[OF disjI1[OF refl]]) (code_simp, rule refl)

text \<open>The counter of a user only accepts a larger one.\<close>

lemma mfa_users: "store_inv db \<Longrightarrow> distinct (map um_user_id (t_user_mfa db))"
  by (simp add: store_inv_def db_ok_def rules_defs)

lemma totp_completed:
  assumes "completed_with ids now input False db db' c u db2" "ci_method input = ''totp''"
  shows "\<forall>m\<in>set (t_user_mfa db'). um_user_id m = mc_user_id c \<longrightarrow> ci_counter input \<le> um_last_totp_counter m"
proof -
  have "t_user_mfa db' = upd_where (\<lambda>m. um_user_id m = mc_user_id c \<and> um_last_totp_counter m < ci_counter input)
      (\<lambda>m. m\<lparr>um_last_totp_counter := ci_counter input, um_updated_at := now\<rparr>) (t_user_mfa db)"
    using assms by (auto simp: completed_with_def use_factor_def use_totp_counter_def Let_def
        attempt_Inr_iff row_statement_defs)
  then show ?thesis by (auto simp only: ball_upd_where) auto
qed

text \<open>A TOTP code is good once: after a login with counter n the store answers every later
challenge of the same user with \<open>ErrMFAReplay\<close> when its counter is at most n, as long as the
enrolment of the user has not changed.\<close>

theorem totp_counter_single_use:
  assumes "succeeded (complete_mfa_authentication sid aid ids now input db)" "ci_method input = ''totp''"
    and "live_challenge_row now (ci_challenge_id input) db = Inr (c, u)"
    and "store_inv db2"
      "t_user_mfa db2 = t_user_mfa (fst (complete_mfa_authentication sid aid ids now input db))"
    and "live_challenge_row now2 (ci_challenge_id input2) db2 = Inr (c2, u2)" "u_enabled u2"
      "mc_purpose c2 \<noteq> ''onboard''" "mc_user_id c2 = mc_user_id c"
    and "ci_method input2 = ''totp''" "ci_counter input2 \<le> ci_counter input"
  shows "complete_mfa_authentication sid2 aid2 ids2 now2 input2 db2 = (db2, Inl ErrMFAReplay)"
proof -
  obtain c' u' db3 where fin: "completed_with ids now input False db
      (fst (complete_mfa_authentication sid aid ids now input db)) c' u' db3"
    using complete_mfa_effect[of sid aid ids now input False db, unfolded Let_def] assms(1)
    unfolding complete_mfa_authentication_def by blast
  then have "c' = c" using assms(3) by (simp add: completed_with_def)
  then have "\<forall>m\<in>set (t_user_mfa db2). um_user_id m = mc_user_id c2 \<longrightarrow> \<not> um_last_totp_counter m < ci_counter input2"
    using totp_completed[OF fin assms(2)] assms(5,9,11) by fastforce
  then have none: "count_where (\<lambda>m. um_user_id m = mc_user_id c2 \<and> um_last_totp_counter m < ci_counter input2)
      (t_user_mfa db2) = 0" by auto
  show ?thesis
    unfolding complete_mfa_authentication_def complete_mfa_def
    by (simp add: assms(6) consume_challenge_ok[OF assms(4,6)] assms(7,8,10) use_factor_def
        use_totp_counter_def update_challenges_def none del: count_where_0_iff)
qed

text \<open>A store on which the login above has happened and the user has a new challenge.\<close>

definition demo_after_totp :: db where
  "demo_after_totp = fst (create_mfa_challenge ''m9'' 3 3 ''u2'' ''ch-m9'' ''verify'' '''' '''' (minutes 20)
     (fst (complete_mfa_authentication ''s9'' ''x'' (\<lambda>i. ''r'') 1 demo_complete demo_db)))"

theorem totp_counter_single_use_witness:
  "complete_mfa_authentication ''s8'' ''y'' (\<lambda>i. ''r'') 4 (demo_complete\<lparr>ci_challenge_id := ''m9''\<rparr>) demo_after_totp
     = (demo_after_totp, Inl ErrMFAReplay)"
proof (rule totp_counter_single_use[where db = demo_db and input = demo_complete and now = 1
      and sid = "''s9''" and aid = "''x''" and ids = "\<lambda>i. ''r''"])
  show "succeeded (complete_mfa_authentication ''s9'' ''x'' (\<lambda>i. ''r'') 1 demo_complete demo_db)" by code_simp
  show "live_challenge_row 1 (ci_challenge_id demo_complete) demo_db
      = Inr (demo_challenge ''m2'' ''u2'' ''verify'', demo_user ''u2'' ''operator'')" by code_simp
  show "store_inv demo_after_totp" by code_simp
  show "t_user_mfa demo_after_totp
      = t_user_mfa (fst (complete_mfa_authentication ''s9'' ''x'' (\<lambda>i. ''r'') 1 demo_complete demo_db))"
    by code_simp
  show "live_challenge_row 4 (ci_challenge_id (demo_complete\<lparr>ci_challenge_id := ''m9''\<rparr>)) demo_after_totp
      = Inr (new_challenge_row ''m9'' 3 ''u2'' ''ch-m9'' ''verify'' '''' '''' (minutes 20), demo_user ''u2'' ''operator'')"
    by code_simp
qed (simp_all add: demo_complete_def new_challenge_row_def demo_challenge_def demo_user_def)

lemma recovery_completed:
  assumes "completed_with ids now input False db db' c u db2" "ci_method input = ''recovery''"
  shows "\<forall>r\<in>set (t_recovery_codes db'). rc_user_id r = mc_user_id c \<longrightarrow> rc_code_hash r = ci_code_hash input
    \<longrightarrow> rc_used_at r \<noteq> None"
proof -
  have "t_recovery_codes db' = upd_where (\<lambda>r. rc_user_id r = mc_user_id c \<and> rc_code_hash r = ci_code_hash input
      \<and> rc_used_at r = None) (\<lambda>r. r\<lparr>rc_used_at := Some now\<rparr>) (t_recovery_codes db)"
    using assms by (auto simp: completed_with_def use_factor_def use_recovery_code_def Let_def
        attempt_Inr_iff row_statement_defs)
  then show ?thesis by (simp only: ball_upd_where) simp
qed

text \<open>A recovery code is good once: after a login with it, a later challenge of the same user
with the same code is refused and changes nothing, as long as the codes have not been replaced.\<close>

theorem recovery_code_single_use:
  assumes "succeeded (complete_mfa_authentication sid aid ids now input db)" "ci_method input = ''recovery''"
    and "live_challenge_row now (ci_challenge_id input) db = Inr (c, u)"
    and "store_inv db2"
      "t_recovery_codes db2 = t_recovery_codes (fst (complete_mfa_authentication sid aid ids now input db))"
    and "live_challenge_row now2 (ci_challenge_id input2) db2 = Inr (c2, u2)" "mc_user_id c2 = mc_user_id c"
    and "ci_method input2 = ''recovery''" "ci_code_hash input2 = ci_code_hash input"
  shows "complete_mfa_authentication sid2 aid2 ids2 now2 input2 db2 = (db2, Inl ErrMFAChallenge)"
proof -
  obtain c' u' db3 where fin: "completed_with ids now input False db
      (fst (complete_mfa_authentication sid aid ids now input db)) c' u' db3"
    using complete_mfa_effect[of sid aid ids now input False db, unfolded Let_def] assms(1)
    unfolding complete_mfa_authentication_def by blast
  then have "c' = c" using assms(3) by (simp add: completed_with_def)
  then have none: "count_where (\<lambda>r. rc_user_id r = mc_user_id c2 \<and> rc_code_hash r = ci_code_hash input2
      \<and> rc_used_at r = None) (t_recovery_codes db2) = 0"
    using recovery_completed[OF fin assms(2)] assms(5,7,9) by simp
  show ?thesis
    unfolding complete_mfa_authentication_def complete_mfa_def
    by (cases "u_enabled u2 \<and> mc_purpose c2 \<noteq> ''onboard''")
       (auto simp: assms(6) consume_challenge_ok[OF assms(4,6)] assms(8) use_factor_def
        use_recovery_code_def update_challenges_def none simp del: count_where_0_iff)
qed

definition demo_recovery :: complete_mfa_input where
  "demo_recovery = demo_complete\<lparr>ci_method := ''recovery'', ci_code_hash := ''rec''\<rparr>"

definition demo_after_recovery :: db where
  "demo_after_recovery = fst (create_mfa_challenge ''m9'' 3 3 ''u2'' ''ch-m9'' ''verify'' '''' '''' (minutes 20)
     (fst (complete_mfa_authentication ''s9'' ''x'' (\<lambda>i. ''r'') 1 demo_recovery demo_db)))"

theorem recovery_code_single_use_witness:
  "complete_mfa_authentication ''s8'' ''y'' (\<lambda>i. ''r'') 4 (demo_recovery\<lparr>ci_challenge_id := ''m9''\<rparr>) demo_after_recovery
     = (demo_after_recovery, Inl ErrMFAChallenge)"
proof (rule recovery_code_single_use[where db = demo_db and input = demo_recovery and now = 1
      and sid = "''s9''" and aid = "''x''" and ids = "\<lambda>i. ''r''"])
  show "succeeded (complete_mfa_authentication ''s9'' ''x'' (\<lambda>i. ''r'') 1 demo_recovery demo_db)" by code_simp
  show "live_challenge_row 1 (ci_challenge_id demo_recovery) demo_db
      = Inr (demo_challenge ''m2'' ''u2'' ''verify'', demo_user ''u2'' ''operator'')" by code_simp
  show "store_inv demo_after_recovery" by code_simp
  show "t_recovery_codes demo_after_recovery
      = t_recovery_codes (fst (complete_mfa_authentication ''s9'' ''x'' (\<lambda>i. ''r'') 1 demo_recovery demo_db))"
    by code_simp
  show "live_challenge_row 4 (ci_challenge_id (demo_recovery\<lparr>ci_challenge_id := ''m9''\<rparr>)) demo_after_recovery
      = Inr (new_challenge_row ''m9'' 3 ''u2'' ''ch-m9'' ''verify'' '''' '''' (minutes 20), demo_user ''u2'' ''operator'')"
    by code_simp
qed (simp_all add: demo_complete_def demo_recovery_def new_challenge_row_def demo_challenge_def)

section \<open>Failures\<close>

lemma fail_keeps_challenge:
  assumes "store_inv db" "c \<in> set (t_challenges db)"
  shows "(if mc_status c = ''active'' then count_failure c else c)
    \<in> set (t_challenges (fst (fail_mfa_challenge (mc_id c) db)))"
  using assms(2) by (force simp: fail_mfa_challenge_def Let_def update_challenges_def upd_where_def)

text \<open>Five wrong codes end a challenge: after n failures a live challenge is live with n more
attempts while the sum is below five, and revoked from then on.\<close>

theorem failures_close_challenge:
  assumes "store_inv db" "c \<in> set (t_challenges db)" "mc_status c = ''active''"
  shows "\<exists>c'\<in>set (t_challenges (((\<lambda>d. fst (fail_mfa_challenge (mc_id c) d)) ^^ n) db)).
    mc_id c' = mc_id c \<and>
    (if mc_attempts c + int n < 5 then mc_status c' = ''active'' \<and> mc_attempts c' = mc_attempts c + int n
     else mc_status c' = ''revoked'')"
proof -
  let ?step = "\<lambda>d. fst (fail_mfa_challenge (mc_id c) d)"
  have "store_inv ((?step ^^ n) db) \<and> (\<exists>c'\<in>set (t_challenges ((?step ^^ n) db)). mc_id c' = mc_id c \<and>
    (if mc_attempts c + int n < 5 then mc_status c' = ''active'' \<and> mc_attempts c' = mc_attempts c + int n
     else mc_status c' = ''revoked''))"
  proof (induction n)
    case 0
    have "mc_attempts c < 5"
      using assms by (auto simp: store_inv_def challenges_ok_def live_challenge_def)
    then show ?case using assms by auto
  next
    case (Suc n)
    let ?d = "(?step ^^ n) db"
    from Suc.IH obtain c' where c': "store_inv ?d" "c' \<in> set (t_challenges ?d)" "mc_id c' = mc_id c"
      "if mc_attempts c + int n < 5 then mc_status c' = ''active'' \<and> mc_attempts c' = mc_attempts c + int n
       else mc_status c' = ''revoked''" by blast
    from fail_keeps_challenge[OF c'(1,2)]
    have "(if mc_status c' = ''active'' then count_failure c' else c') \<in> set (t_challenges ((?step ^^ Suc n) db))"
      by (simp add: c'(3))
    moreover have "store_inv ((?step ^^ Suc n) db)" using fail_mfa_challenge_inv[OF c'(1)] by simp
    moreover have "let x = (if mc_status c' = ''active'' then count_failure c' else c') in mc_id x = mc_id c \<and>
        (if mc_attempts c + int (Suc n) < 5 then mc_status x = ''active'' \<and> mc_attempts x = mc_attempts c + int (Suc n)
         else mc_status x = ''revoked'')"
      using c'(3,4) by (auto simp: Let_def count_failure_def split: if_splits)
    ultimately show ?case unfolding Let_def by blast
  qed
  then show ?thesis by blast
qed

theorem failures_close_challenge_witness:
  "\<exists>c'\<in>set (t_challenges (((\<lambda>d. fst (fail_mfa_challenge ''m2'' d)) ^^ 5) demo_db)).
     mc_id c' = ''m2'' \<and> mc_status c' = ''revoked''"
  using failures_close_challenge[OF demo_inv, of "demo_challenge ''m2'' ''u2'' ''verify''" 5]
  by (simp add: demo_db_def demo_challenge_def)

section \<open>Onboarding\<close>

lemma each_insert_recovery:
  "each (insert_recovery_code code_id now uid) xs db = Inr db' \<Longrightarrow>
     db' = db\<lparr>t_recovery_codes := t_recovery_codes db @ map (recovery_code_row code_id now uid) xs\<rparr>"
proof (induction xs arbitrary: db)
  case (Cons x xs)
  let ?db1 = "db\<lparr>t_recovery_codes := t_recovery_codes db @ [recovery_code_row code_id now uid x]\<rparr>"
  have "each (insert_recovery_code code_id now uid) xs ?db1 = Inr db'"
    using Cons.prems by (auto simp: attempt_Inr_iff) (simp add: insert_recovery_code_def put_Inr)
  from Cons.IH[OF this] show ?case by simp
qed simp

lemma upsert_user_mfa_Inr:
  assumes "upsert_user_mfa r db = Inr db'"
  shows "(\<exists>m\<in>set (t_user_mfa db'). um_user_id m = um_user_id r) \<and> (\<exists>t. db' = db\<lparr>t_user_mfa := t\<rparr>)"
  using assms by (auto simp: upsert_user_mfa_def put_Inr bex_upd_where split: if_splits)

lemma recovery_count_new:
  "count_where (\<lambda>r. rc_user_id r = uid \<and> rc_used_at r = None)
     (del_where (\<lambda>r. rc_user_id r = uid) t @ map (recovery_code_row code_id now uid) (enumerate 0 codes))
   = length codes"
proof -
  have "filter (\<lambda>r. rc_user_id r = uid \<and> rc_used_at r = None) (del_where (\<lambda>r. rc_user_id r = uid) t) = []"
    by (auto simp: filter_empty_conv)
  moreover have "filter (\<lambda>r. rc_user_id r = uid \<and> rc_used_at r = None)
      (map (recovery_code_row code_id now uid) (enumerate 0 codes))
    = map (recovery_code_row code_id now uid) (enumerate 0 codes)"
    by (auto simp: filter_id_conv recovery_code_row_def split_beta)
  ultimately show ?thesis by (simp add: count_where_def)
qed

text \<open>Enrolment needs a challenge whose email address was verified and whose new password was
set, and at least eight recovery codes; it leaves the user with that password and address, no
pending password change, MFA enabled, and exactly the given recovery codes unused.\<close>

theorem enrollment_complete:
  assumes "succeeded (complete_mfa_enrollment sid aid ids now input db)"
  shows "\<exists>c u. live_challenge_row now (ci_challenge_id input) db = Inr (c, u)
    \<and> mc_purpose c = ''onboard'' \<and> mc_email_verified c \<and> mc_email c \<noteq> '''' \<and> mc_new_password_hash c \<noteq> ''''
    \<and> 8 \<le> length (ci_recovery input)
    \<and> (let db' = fst (complete_mfa_enrollment sid aid ids now input db) in
       (\<forall>r\<in>set (t_users db'). u_id r = mc_user_id c \<longrightarrow> u_password_hash r = mc_new_password_hash c
          \<and> u_email r = mc_email c \<and> \<not> u_password_change_required r)
       \<and> has_mfa (mc_user_id c) db'
       \<and> recovery_code_count (mc_user_id c) db' = length (ci_recovery input))"
proof -
  let ?db' = "fst (complete_mfa_enrollment sid aid ids now input db)"
  obtain c u db2 where fin: "completed_with ids now input True db ?db' c u db2"
    using complete_mfa_effect[of sid aid ids now input True db, unfolded Let_def] assms
    unfolding complete_mfa_enrollment_def by blast
  let ?uid = "mc_user_id c"
  let ?f = "\<lambda>r. r\<lparr>u_password_hash := mc_new_password_hash c, u_email := mc_email c,
      u_password_change_required := False, u_updated_at := now\<rparr>"
  from fin obtain db3 where enrol: "mc_email_verified c" "mc_email c \<noteq> ''''" "mc_new_password_hash c \<noteq> ''''"
      "8 \<le> length (ci_recovery input)"
    and up: "upsert_user_mfa \<lparr>um_user_id = ?uid, um_secret_ciphertext = mc_secret_ciphertext c,
        um_preferred_method = ci_method_bound input, um_last_totp_counter = ci_counter input,
        um_enabled_at = now, um_updated_at = now\<rparr> (update_users (\<lambda>r. u_id r = ?uid) ?f
          (update_challenges (\<lambda>c. mc_id c = ci_challenge_id input \<and> mc_status c = ''active'')
            (\<lambda>c. c\<lparr>mc_status := ''consumed''\<rparr>) db)) = Inr db3"
    and rec: "each (insert_recovery_code ids now ?uid) (enumerate 0 (ci_recovery input))
        (delete_recovery_codes (\<lambda>r. rc_user_id r = ?uid) db3) = Inr db2"
    unfolding completed_with_def enrol_user_def Let_def by (auto simp: attempt_Inr_iff)
  from upsert_user_mfa_Inr[OF up] obtain t where db3: "\<exists>m\<in>set (t_user_mfa db3). um_user_id m = ?uid"
      "t_users db3 = upd_where (\<lambda>r. u_id r = ?uid) ?f (t_users db)"
      "t_recovery_codes db3 = t_recovery_codes db"
    by (auto simp: row_statement_defs)
  from each_insert_recovery[OF rec] have "t_users ?db' = t_users db3" "t_user_mfa ?db' = t_user_mfa db3"
      "t_recovery_codes ?db' = del_where (\<lambda>r. rc_user_id r = ?uid) (t_recovery_codes db) @
         map (recovery_code_row ids now ?uid) (enumerate 0 (ci_recovery input))"
    using fin db3(3) by (auto simp: completed_with_def row_statement_defs)
  then have "\<forall>r\<in>set (t_users ?db'). u_id r = ?uid \<longrightarrow> u_password_hash r = mc_new_password_hash c
        \<and> u_email r = mc_email c \<and> \<not> u_password_change_required r"
      and "has_mfa ?uid ?db'" and "recovery_code_count ?uid ?db' = length (ci_recovery input)"
    using db3 by (simp_all add: ball_upd_where has_mfa_def recovery_code_count_def recovery_count_new)
  then show ?thesis using fin enrol unfolding completed_with_def Let_def by blast
qed

definition demo_enrol :: complete_mfa_input where
  "demo_enrol = demo_complete\<lparr>ci_challenge_id := ''m3'', ci_method_bound := ''totp'',
     ci_recovery := [''a'', ''b'', ''c'', ''d'', ''e'', ''f'', ''g'', ''h'']\<rparr>"

definition demo_code_id :: "nat \<Rightarrow> string" where
  "demo_code_id i = replicate (Suc i) (CHR ''x'')"

theorem enrollment_complete_witness:
  "\<exists>c u. live_challenge_row 1 ''m3'' demo_db = Inr (c, u) \<and> mc_email c \<noteq> ''''
     \<and> recovery_code_count (mc_user_id c) (fst (complete_mfa_enrollment ''s9'' ''x'' demo_code_id 1 demo_enrol demo_db)) = 8"
proof -
  have "succeeded (complete_mfa_enrollment ''s9'' ''x'' demo_code_id 1 demo_enrol demo_db)" by code_simp
  from enrollment_complete[OF this] show ?thesis
    unfolding Let_def by (auto simp: demo_enrol_def demo_complete_def)
qed

end
