(* ===== verification/StorePolicies.thy ===== *)
theory StorePolicies
  imports Demo
begin

text \<open>
  Access policies: \<open>store/policies.go\<close>.

  A policy names users and projects and gives them capabilities within an optional window of
  time. \<open>policy_grants\<close> is what one policy gives; a capability is held when some policy gives it.
\<close>

record access_policy =
  ap_id :: string
  ap_name :: string
  ap_project_ids :: "string list"
  ap_user_ids :: "string list"
  ap_capabilities :: "string list"
  ap_valid_from :: "instant option"
  ap_valid_until :: "instant option"
  ap_enabled :: bool
  ap_created_at :: instant
  ap_updated_at :: instant

record save_policy_input =
  si_name :: string
  si_project_ids :: "string list"
  si_user_ids :: "string list"
  si_capabilities :: "string list"
  si_valid_from :: "instant option"
  si_valid_until :: "instant option"
  si_enabled :: bool

section \<open>Reading\<close>

definition policy_project_ids :: "string \<Rightarrow> db \<Rightarrow> string list" where
  "policy_project_ids k db =
     order_asc id (map pp_project_id (filter (\<lambda>r. pp_policy_id r = k) (t_policy_projects db)))"

definition policy_user_ids :: "string \<Rightarrow> db \<Rightarrow> string list" where
  "policy_user_ids k db =
     order_asc id (map pu_user_id (filter (\<lambda>r. pu_policy_id r = k) (t_policy_users db)))"

definition undecodable :: store_error where
  "undecodable = ErrMsg ''json''"

definition scan_access_policy :: "db \<Rightarrow> policy_row \<Rightarrow> access_policy res" where
  "scan_access_policy db r =
     attempt (from_row (pol_capabilities r) undecodable) (\<lambda>cs.
     attempt (from_row (pol_schedule r) undecodable) (\<lambda>sch.
     Inr \<lparr>ap_id = pol_id r, ap_name = pol_name r, ap_project_ids = policy_project_ids (pol_id r) db,
       ap_user_ids = policy_user_ids (pol_id r) db, ap_capabilities = cs,
       ap_valid_from = valid_from sch, ap_valid_until = valid_until sch, ap_enabled = pol_enabled r,
       ap_created_at = pol_created_at r, ap_updated_at = pol_updated_at r\<rparr>))"

definition list_access_policies :: "db \<Rightarrow> access_policy list res" where
  "list_access_policies db = each (\<lambda>r acc. attempt (scan_access_policy db r) (\<lambda>p. Inr (acc @ [p])))
     (order_desc (\<lambda>r. time_text (pol_created_at r)) (t_policies db)) []"

section \<open>Saving and deleting\<close>

definition policy_row_of :: "string \<Rightarrow> instant \<Rightarrow> save_policy_input \<Rightarrow> policy_row" where
  "policy_row_of k now input = \<lparr>pol_id = k, pol_name = si_name input,
     pol_capabilities = Some (si_capabilities input),
     pol_schedule = Some \<lparr>valid_from = si_valid_from input, valid_until = si_valid_until input\<rparr>,
     pol_enabled = si_enabled input, pol_created_at = now, pol_updated_at = now\<rparr>"

definition write_policy_row :: "string \<Rightarrow> instant \<Rightarrow> save_policy_input \<Rightarrow> bool \<Rightarrow> db \<Rightarrow> db res" where
  "write_policy_row k now input create db =
     (if create then put_policies (t_policies db @ [policy_row_of k now input]) db
      else attempt (put_policies (upd_where (\<lambda>r. pol_id r = k)
             (\<lambda>r. (policy_row_of k now input)\<lparr>pol_id := pol_id r, pol_created_at := pol_created_at r\<rparr>)
             (t_policies db)) db) (\<lambda>db1.
           attempt (demand (count_where (\<lambda>r. pol_id r = k) (t_policies db) = 1) ErrNotFound) (\<lambda>_.
           Inr db1)))"

definition insert_policy_project :: "string \<Rightarrow> string \<Rightarrow> db \<Rightarrow> db res" where
  "insert_policy_project k pid db = put_policy_projects (t_policy_projects db @
     [\<lparr>pp_policy_id = k, pp_project_id = pid\<rparr>]) db"

definition insert_policy_user :: "string \<Rightarrow> string \<Rightarrow> db \<Rightarrow> db res" where
  "insert_policy_user k uid db = put_policy_users (t_policy_users db @
     [\<lparr>pu_policy_id = k, pu_user_id = uid\<rparr>]) db"

definition save_access_policy ::
  "string \<Rightarrow> instant \<Rightarrow> string \<Rightarrow> save_policy_input \<Rightarrow> audit_input \<Rightarrow> bool \<Rightarrow> db \<Rightarrow> db \<times> access_policy res" where
  "save_access_policy audit_id now k input audit create db = after_commit (run_tx db (
     attempt (write_policy_row k now input create db) (\<lambda>db.
     let db = delete_policy_users (\<lambda>r. pu_policy_id r = k) (delete_policy_projects (\<lambda>r. pp_policy_id r = k) db) in
     attempt (each (insert_policy_project k) (si_project_ids input) db) (\<lambda>db.
     attempt (each (insert_policy_user k) (si_user_ids input) db) (\<lambda>db.
     attempt (insert_audit audit_id (audit\<lparr>ai_resource_id := k\<rparr>) now db) (\<lambda>db.
     Inr ((), db)))))))
     (\<lambda>_ db. Inr \<lparr>ap_id = k, ap_name = si_name input, ap_project_ids = si_project_ids input,
       ap_user_ids = si_user_ids input, ap_capabilities = si_capabilities input,
       ap_valid_from = si_valid_from input, ap_valid_until = si_valid_until input,
       ap_enabled = si_enabled input,
       ap_created_at = (if create then now else
         case row_where (\<lambda>r. pol_id r = k) (t_policies db) of None \<Rightarrow> now | Some r \<Rightarrow> pol_created_at r),
       ap_updated_at = now\<rparr>)"

definition create_access_policy ::
  "string \<Rightarrow> string \<Rightarrow> instant \<Rightarrow> save_policy_input \<Rightarrow> audit_input \<Rightarrow> db \<Rightarrow> db \<times> access_policy res" where
  "create_access_policy k audit_id now input audit db = save_access_policy audit_id now k input audit True db"

definition update_access_policy ::
  "string \<Rightarrow> instant \<Rightarrow> string \<Rightarrow> save_policy_input \<Rightarrow> audit_input \<Rightarrow> db \<Rightarrow> db \<times> access_policy res" where
  "update_access_policy audit_id now k input audit db = save_access_policy audit_id now k input audit False db"

definition delete_access_policy :: "string \<Rightarrow> instant \<Rightarrow> string \<Rightarrow> audit_input \<Rightarrow> db \<Rightarrow> db \<times> unit res" where
  "delete_access_policy audit_id now k audit db = run_tx db (
     attempt (demand (count_where (\<lambda>r. pol_id r = k) (t_policies db) = 1) ErrNotFound) (\<lambda>_.
     attempt (insert_audit audit_id (audit\<lparr>ai_resource_id := k\<rparr>) now (delete_policy k db)) (\<lambda>db.
     Inr ((), db))))"

section \<open>Capabilities\<close>

definition in_window :: "policy_schedule \<Rightarrow> instant \<Rightarrow> bool" where
  "in_window sch at \<longleftrightarrow>
     (case valid_from sch of None \<Rightarrow> True | Some f \<Rightarrow> \<not> at < f)
   \<and> (case valid_until sch of None \<Rightarrow> True | Some u \<Rightarrow> at < u)"

definition row_allows :: "string \<Rightarrow> instant \<Rightarrow> policy_row \<Rightarrow> bool" where
  "row_allows capability at p = (case (pol_capabilities p, pol_schedule p) of
     (Some cs, Some sch) \<Rightarrow> in_window sch at \<and> capability \<in> set cs
   | _ \<Rightarrow> False)"

definition has_policy_capability :: "string \<Rightarrow> string \<Rightarrow> string \<Rightarrow> instant \<Rightarrow> db \<Rightarrow> bool" where
  "has_policy_capability uid pid capability at db = exists_row (\<lambda>p. pol_enabled p
     \<and> exists_row (\<lambda>r. pu_policy_id r = pol_id p \<and> pu_user_id r = uid) (t_policy_users db)
     \<and> exists_row (\<lambda>r. pp_policy_id r = pol_id p \<and> pp_project_id r = pid) (t_policy_projects db)
     \<and> row_allows capability at p) (t_policies db)"

section \<open>The invariant\<close>

lemma write_policy_row_inv [on_ok_rules]: "store_inv db \<Longrightarrow> on_ok store_inv (write_policy_row k now input c db)"
  unfolding write_policy_row_def
  by (intro on_ok_rules) (auto simp: keys_kept)

lemma insert_policy_inv [on_ok_rules]:
  "store_inv db \<Longrightarrow> on_ok store_inv (insert_policy_project k pid db)"
  "store_inv db \<Longrightarrow> on_ok store_inv (insert_policy_user k uid db)"
  unfolding insert_policy_project_def insert_policy_user_def by (intro on_ok_rules; assumption)+

lemma save_access_policy_inv [on_ok_rules]:
  "store_inv db \<Longrightarrow> store_inv (fst (save_access_policy aid now k input audit create db))"
  unfolding save_access_policy_def Let_def by (intro on_ok_rules)

lemma delete_access_policy_inv [on_ok_rules]:
  "store_inv db \<Longrightarrow> store_inv (fst (delete_access_policy aid now k audit db))"
  unfolding delete_access_policy_def by (intro on_ok_rules)

section \<open>What a policy grants\<close>

definition policy_grants :: "string \<Rightarrow> string \<Rightarrow> string \<Rightarrow> string \<Rightarrow> instant \<Rightarrow> db \<Rightarrow> bool" where
  "policy_grants k uid pid capability at db = exists_row (\<lambda>p. pol_id p = k \<and> pol_enabled p
     \<and> exists_row (\<lambda>r. pu_policy_id r = k \<and> pu_user_id r = uid) (t_policy_users db)
     \<and> exists_row (\<lambda>r. pp_policy_id r = k \<and> pp_project_id r = pid) (t_policy_projects db)
     \<and> row_allows capability at p) (t_policies db)"

definition input_covers :: "save_policy_input \<Rightarrow> string \<Rightarrow> string \<Rightarrow> string \<Rightarrow> instant \<Rightarrow> bool" where
  "input_covers input uid pid capability at \<longleftrightarrow> si_enabled input \<and> uid \<in> set (si_user_ids input)
     \<and> pid \<in> set (si_project_ids input) \<and> capability \<in> set (si_capabilities input)
     \<and> in_window \<lparr>valid_from = si_valid_from input, valid_until = si_valid_until input\<rparr> at"

lemma has_policy_capability_iff:
  "has_policy_capability uid pid cap at db \<longleftrightarrow> (\<exists>k. policy_grants k uid pid cap at db)"
  by (auto simp: has_policy_capability_def policy_grants_def)

lemma each_insert_policy_project:
  "each (insert_policy_project k) pids db = Inr db' \<Longrightarrow> db' = db\<lparr>t_policy_projects :=
     t_policy_projects db @ map (\<lambda>p. \<lparr>pp_policy_id = k, pp_project_id = p\<rparr>) pids\<rparr>"
proof (induction pids arbitrary: db)
  case (Cons p pids)
  let ?db1 = "db\<lparr>t_policy_projects := t_policy_projects db @ [\<lparr>pp_policy_id = k, pp_project_id = p\<rparr>]\<rparr>"
  have "each (insert_policy_project k) pids ?db1 = Inr db'"
    using Cons.prems by (auto simp: attempt_Inr_iff) (simp add: insert_policy_project_def put_Inr)
  from Cons.IH[OF this] show ?case by simp
qed simp

lemma each_insert_policy_user:
  "each (insert_policy_user k) uids db = Inr db' \<Longrightarrow> db' = db\<lparr>t_policy_users :=
     t_policy_users db @ map (\<lambda>u. \<lparr>pu_policy_id = k, pu_user_id = u\<rparr>) uids\<rparr>"
proof (induction uids arbitrary: db)
  case (Cons u uids)
  let ?db1 = "db\<lparr>t_policy_users := t_policy_users db @ [\<lparr>pu_policy_id = k, pu_user_id = u\<rparr>]\<rparr>"
  have "each (insert_policy_user k) uids ?db1 = Inr db'"
    using Cons.prems by (auto simp: attempt_Inr_iff) (simp add: insert_policy_user_def put_Inr)
  from Cons.IH[OF this] show ?case by simp
qed simp

text \<open>The rows a saved policy leaves: its own row as the input says, the others as they were.\<close>

lemma write_policy_row_Inr:
  assumes "write_policy_row k now input create db = Inr db'"
  shows "\<exists>t. db' = db\<lparr>t_policies := t\<rparr>
    \<and> (\<exists>r\<in>set t. pol_id r = k)
    \<and> (\<forall>r\<in>set t. pol_id r = k \<longrightarrow> pol_enabled r = si_enabled input
        \<and> row_allows c at r = (c \<in> set (si_capabilities input)
            \<and> in_window \<lparr>valid_from = si_valid_from input, valid_until = si_valid_until input\<rparr> at))
    \<and> (\<forall>r. pol_id r \<noteq> k \<longrightarrow> r \<in> set t \<longleftrightarrow> r \<in> set (t_policies db))"
proof (cases create)
  case True
  with assms have db': "db' = db\<lparr>t_policies := t_policies db @ [policy_row_of k now input]\<rparr>"
    and "holds (policies_rules db (t_policies db @ [policy_row_of k now input]))"
    by (auto simp: write_policy_row_def put_Inr)
  then have "k \<notin> pol_id ` set (t_policies db)" by (simp add: policies_rules_def policy_row_of_def)
  then show ?thesis unfolding db'
    by (intro exI[of _ "t_policies db @ [policy_row_of k now input]"])
       (auto simp: policy_row_of_def row_allows_def)
next
  case False
  let ?f = "\<lambda>r. (policy_row_of k now input)\<lparr>pol_id := pol_id r, pol_created_at := pol_created_at r\<rparr>"
  let ?t = "upd_where (\<lambda>r. pol_id r = k) ?f (t_policies db)"
  have f: "pol_id (?f r) = pol_id r" for r by simp
  from False assms have db': "db' = db\<lparr>t_policies := ?t\<rparr>"
    and one: "count_where (\<lambda>r. pol_id r = k) (t_policies db) = 1"
    by (auto simp: write_policy_row_def put_Inr attempt_Inr_iff)
  have "\<exists>r\<in>set ?t. pol_id r = k" using count_where_1_ex[OF one] by (simp add: bex_upd_where)
  moreover have "\<forall>r\<in>set ?t. pol_id r = k \<longrightarrow> pol_enabled r = si_enabled input
        \<and> row_allows c at r = (c \<in> set (si_capabilities input)
            \<and> in_window \<lparr>valid_from = si_valid_from input, valid_until = si_valid_until input\<rparr> at)"
    by (auto simp: ball_upd_where policy_row_of_def row_allows_def)
  moreover have "\<forall>r. pol_id r \<noteq> k \<longrightarrow> r \<in> set ?t \<longleftrightarrow> r \<in> set (t_policies db)"
    by (force simp: upd_where_def)
  ultimately show ?thesis unfolding db' by blast
qed

text \<open>What the saved policy gives, and that every other policy gives what it gave.\<close>

lemma saved_policy_grants:
  assumes "succeeded (save_access_policy aid now k input audit create db)"
  shows "policy_grants k uid pid c at (fst (save_access_policy aid now k input audit create db))
      = input_covers input uid pid c at
    \<and> (k' = k \<or> policy_grants k' uid pid c at (fst (save_access_policy aid now k input audit create db))
        = policy_grants k' uid pid c at db)"
proof -
  let ?db' = "fst (save_access_policy aid now k input audit create db)"
  have "succeeded (run_tx db (
     attempt (write_policy_row k now input create db) (\<lambda>db.
     let db = delete_policy_users (\<lambda>r. pu_policy_id r = k) (delete_policy_projects (\<lambda>r. pp_policy_id r = k) db) in
     attempt (each (insert_policy_project k) (si_project_ids input) db) (\<lambda>db.
     attempt (each (insert_policy_user k) (si_user_ids input) db) (\<lambda>db.
     attempt (insert_audit aid (audit\<lparr>ai_resource_id := k\<rparr>) now db) (\<lambda>db.
     Inr ((), db)))))))"
    using assms unfolding save_access_policy_def by (rule succeeded_after_commit)
  from succeeded_run_tx[OF this] obtain db1 entry where w: "write_policy_row k now input create db = Inr db1"
    and db': "?db' = db1\<lparr>t_policy_projects := del_where (\<lambda>r. pp_policy_id r = k) (t_policy_projects db1)
         @ map (\<lambda>p. \<lparr>pp_policy_id = k, pp_project_id = p\<rparr>) (si_project_ids input),
       t_policy_users := del_where (\<lambda>r. pu_policy_id r = k) (t_policy_users db1)
         @ map (\<lambda>u. \<lparr>pu_policy_id = k, pu_user_id = u\<rparr>) (si_user_ids input),
       t_audit_logs := t_audit_logs db1 @ [entry]\<rparr>"
    unfolding save_access_policy_def
    by (auto simp: attempt_Inr_iff row_statement_defs Let_def
        dest!: insert_audit_Inr each_insert_policy_project each_insert_policy_user)
  from write_policy_row_Inr[OF w, of c at] obtain t where t: "db1 = db\<lparr>t_policies := t\<rparr>"
    "\<exists>r\<in>set t. pol_id r = k"
    "\<And>r. r \<in> set t \<Longrightarrow> pol_id r = k \<Longrightarrow> pol_enabled r = si_enabled input
        \<and> row_allows c at r = (c \<in> set (si_capabilities input)
            \<and> in_window \<lparr>valid_from = si_valid_from input, valid_until = si_valid_until input\<rparr> at)"
    "\<And>r. pol_id r \<noteq> k \<Longrightarrow> r \<in> set t \<longleftrightarrow> r \<in> set (t_policies db)" by blast
  have users: "exists_row (\<lambda>r. pu_policy_id r = k \<and> pu_user_id r = uid) (t_policy_users ?db')
      = (uid \<in> set (si_user_ids input))" unfolding db' by (simp add: bex_Un bex_del_where)
  have projects: "exists_row (\<lambda>r. pp_policy_id r = k \<and> pp_project_id r = pid) (t_policy_projects ?db')
      = (pid \<in> set (si_project_ids input))" unfolding db' by (simp add: bex_Un bex_del_where)
  have "t_policies ?db' = t" unfolding db' t(1) by simp
  then have "policy_grants k uid pid c at ?db' = input_covers input uid pid c at"
    unfolding policy_grants_def users projects input_covers_def using t(2,3) by auto
  moreover have "policy_grants k' uid pid c at ?db' = policy_grants k' uid pid c at db" if "k' \<noteq> k"
  proof -
    have "exists_row (\<lambda>r. pu_policy_id r = k' \<and> pu_user_id r = uid) (t_policy_users ?db')
        = exists_row (\<lambda>r. pu_policy_id r = k' \<and> pu_user_id r = uid) (t_policy_users db)"
      and "exists_row (\<lambda>r. pp_policy_id r = k' \<and> pp_project_id r = pid) (t_policy_projects ?db')
        = exists_row (\<lambda>r. pp_policy_id r = k' \<and> pp_project_id r = pid) (t_policy_projects db)"
      unfolding db' t(1) using that by (auto simp: bex_Un bex_del_where intro: bexI)
    moreover have "exists_row (\<lambda>p. pol_id p = k' \<and> Q p) t = exists_row (\<lambda>p. pol_id p = k' \<and> Q p) (t_policies db)" for Q
      using t(4) that unfolding exists_row_iff by metis
    ultimately show ?thesis
      unfolding policy_grants_def using \<open>t_policies ?db' = t\<close> by simp
  qed
  ultimately show ?thesis by blast
qed

definition demo_policy :: save_policy_input where
  "demo_policy = \<lparr>si_name = ''night'', si_project_ids = [''p2''], si_user_ids = [''u3''],
     si_capabilities = [''ssh''], si_valid_from = Some 10, si_valid_until = Some 20, si_enabled = True\<rparr>"

text \<open>C27. A saved policy, new or updated, grants exactly what its input says. Afterwards a user holds a capability on a
project at an instant exactly when the input is enabled, lists the user, the project and the capability, and the instant
is from the start of its window on and before its end, or when some other policy grants it as before.\<close>

theorem saved_policy_grants_exactly:
  assumes "succeeded (save_access_policy aid now k input audit create db)"
  shows "has_policy_capability uid pid c at (fst (save_access_policy aid now k input audit create db)) \<longleftrightarrow>
    si_enabled input \<and> uid \<in> set (si_user_ids input) \<and> pid \<in> set (si_project_ids input) \<and> c \<in> set (si_capabilities input)
      \<and> (\<forall>start. si_valid_from input = Some start \<longrightarrow> start \<le> at) \<and> (\<forall>until. si_valid_until input = Some until \<longrightarrow> at < until)
    \<or> has_policy_capability uid pid c at (db\<lparr>t_policies := del_where (\<lambda>p. pol_id p = k) (t_policies db)\<rparr>)"
proof -
  let ?without = "db\<lparr>t_policies := del_where (\<lambda>p. pol_id p = k) (t_policies db)\<rparr>"
  have other: "policy_grants k' uid pid c at ?without \<longleftrightarrow> k' \<noteq> k \<and> policy_grants k' uid pid c at db" for k'
    by (auto simp: policy_grants_def del_where_def)
  have covers: "input_covers input uid pid c at \<longleftrightarrow> si_enabled input \<and> uid \<in> set (si_user_ids input)
      \<and> pid \<in> set (si_project_ids input) \<and> c \<in> set (si_capabilities input)
      \<and> (\<forall>start. si_valid_from input = Some start \<longrightarrow> start \<le> at) \<and> (\<forall>until. si_valid_until input = Some until \<longrightarrow> at < until)"
    by (auto simp: input_covers_def in_window_def split: option.splits)
  show ?thesis
    unfolding has_policy_capability_iff other covers [symmetric] using saved_policy_grants[OF assms] by metis
qed

theorem saved_policy_grants_exactly_witness:
  "has_policy_capability ''u3'' ''p2'' ''ssh'' 10 (fst (save_access_policy ''x'' 1 ''q2'' demo_policy demo_audit True demo_db))"
proof -
  have ok: "succeeded (save_access_policy ''x'' 1 ''q2'' demo_policy demo_audit True demo_db)" by code_simp
  show ?thesis
    using saved_policy_grants_exactly[OF ok, of "''u3''" "''p2''" "''ssh''" 10] by (simp add: demo_policy_def)
qed

end
