(* ===== verification/StoreAccess.thy ===== *)
theory StoreAccess
  imports StoreUsers
begin

text \<open>
  Access sessions: \<open>store/access_sessions.go\<close>.

  An access session lets one login of one user reach one endpoint. It starts with a one-time
  grant, which the browser exchanges once; from then on it resolves while it is active, not
  expired, not idle, and while the login session behind it is. \<open>auth_live\<close> is the EXISTS
  subquery on the login session that the statements share. The update of a session also
  updates its log row (the triggers of Statements).
\<close>

record endpoint_route =
  rt_endpoint_id :: string
  rt_endpoint_name :: string
  rt_protocol :: string
  rt_target_port :: int
  rt_access_type :: string
  rt_device_id :: string
  rt_device_name :: string
  rt_host :: string
  rt_project_id :: string
  rt_project_name :: string
  rt_node_id :: string
  rt_client_id :: int
  rt_tls_server_name :: string
  rt_credential_ref :: string
  rt_ssh_auth_method :: string
  rt_ssh_username :: string
  rt_ssh_key_path :: string
  rt_ssh_host_key_fingerprint :: string

record access_session =
  acc_id :: string
  acc_token_hash :: string
  acc_domain_prefix :: string
  acc_user_id :: "string option"
  acc_auth_session_id :: string
  acc_project_id :: string
  acc_endpoint_id :: string
  acc_endpoint_name :: string
  acc_device_name :: string
  acc_mode :: string
  acc_source_ip :: string
  acc_status :: string
  acc_expires_at :: instant
  acc_started_at :: instant
  acc_last_seen_at :: instant
  acc_ended_at :: "instant option"

record create_access_input =
  ca_user_id :: "string option"
  ca_auth_session_id :: string
  ca_project_id :: string
  ca_endpoint_id :: string
  ca_token_hash :: string
  ca_route_label :: string
  ca_grant_hash :: string
  ca_mode :: string
  ca_source_ip :: string
  ca_expires_at :: instant

section \<open>Routes\<close>

text \<open>The join of an endpoint with its device and its project.\<close>

definition route_of :: "endpoint_row \<Rightarrow> device_row \<Rightarrow> project_row \<Rightarrow> endpoint_route" where
  "route_of e d p = \<lparr>rt_endpoint_id = e_id e, rt_endpoint_name = e_name e, rt_protocol = e_protocol e,
     rt_target_port = e_target_port e, rt_access_type = e_access_type e, rt_device_id = d_id d,
     rt_device_name = d_name d, rt_host = d_host d, rt_project_id = p_id p, rt_project_name = p_name p,
     rt_node_id = p_node_id p, rt_client_id = (case p_client_id p of None \<Rightarrow> 0 | Some c \<Rightarrow> c),
     rt_tls_server_name = e_tls_server_name e, rt_credential_ref = e_ssh_credential_ref e,
     rt_ssh_auth_method = e_ssh_auth_method e, rt_ssh_username = e_ssh_username e,
     rt_ssh_key_path = e_ssh_key_path e, rt_ssh_host_key_fingerprint = e_ssh_host_key_fingerprint e\<rparr>"

definition endpoint_join :: "string \<Rightarrow> db \<Rightarrow> (endpoint_row \<times> device_row \<times> project_row) option" where
  "endpoint_join eid db =
     (case row_where (\<lambda>e. e_id e = eid) (t_endpoints db) of None \<Rightarrow> None | Some e \<Rightarrow>
      case row_where (\<lambda>d. d_id d = e_device_id e) (t_devices db) of None \<Rightarrow> None | Some d \<Rightarrow>
      case row_where (\<lambda>p. p_id p = d_project_id d) (t_projects db) of None \<Rightarrow> None | Some p \<Rightarrow>
      Some (e, d, p))"

definition endpoint_route_of :: "string \<Rightarrow> db \<Rightarrow> endpoint_route res" where
  "endpoint_route_of eid db =
     attempt (from_row (endpoint_join eid db) ErrNotFound) (\<lambda>(e, d, p). Inr (route_of e d p))"

section \<open>Creating a session\<close>

definition new_access_session :: "string \<Rightarrow> instant \<Rightarrow> create_access_input \<Rightarrow> access_session_row" where
  "new_access_session sid now input = \<lparr>acs_id = sid, acs_user_id = ca_user_id input,
     acs_auth_session_id = Some (ca_auth_session_id input), acs_project_id = ca_project_id input,
     acs_endpoint_id = ca_endpoint_id input, acs_token_hash = ca_token_hash input,
     acs_route_label = ca_route_label input, acs_grant_hash = ca_grant_hash input,
     acs_grant_exchanged_at = None, acs_mode = ca_mode input, acs_source_ip = ca_source_ip input,
     acs_status = ''active'', acs_expires_at = ca_expires_at input, acs_started_at = now,
     acs_ended_at = None, acs_last_seen_at = now\<rparr>"

definition token_taken :: "store_error \<Rightarrow> store_error" where
  "token_taken e = (if e = ErrConstraint UniqueKey ''access_sessions.token_hash'' then ErrInUse else e)"

definition create_access_session ::
  "string \<Rightarrow> string \<Rightarrow> instant \<Rightarrow> create_access_input \<Rightarrow> audit_input \<Rightarrow> db \<Rightarrow> db \<times> access_session res" where
  "create_access_session sid audit_id now input audit db = run_tx db (
     attempt (map_sum token_taken id (insert_access_session (new_access_session sid now input) db)) (\<lambda>db.
     attempt (insert_audit audit_id (audit\<lparr>ai_resource_id := sid\<rparr>) now db) (\<lambda>db.
     Inr (\<lparr>acc_id = sid, acc_token_hash = ca_token_hash input, acc_domain_prefix = ca_route_label input,
       acc_user_id = ca_user_id input, acc_auth_session_id = ca_auth_session_id input,
       acc_project_id = ca_project_id input, acc_endpoint_id = ca_endpoint_id input,
       acc_endpoint_name = '''', acc_device_name = '''', acc_mode = ca_mode input,
       acc_source_ip = ca_source_ip input, acc_status = ''active'', acc_expires_at = ca_expires_at input,
       acc_started_at = now, acc_last_seen_at = now, acc_ended_at = None\<rparr>, db))))"

section \<open>Using a session\<close>

definition auth_live :: "instant \<Rightarrow> instant \<Rightarrow> db \<Rightarrow> access_session_row \<Rightarrow> bool" where
  "auth_live now cutoff db s = exists_row (\<lambda>a. acs_auth_session_id s = Some (s_id a)
     \<and> acs_user_id s = Some (s_user_id a) \<and> s_status a = ''active'' \<and> sql_less now (s_expires_at a)
     \<and> sql_less cutoff (s_last_seen_at a)
     \<and> exists_row (\<lambda>u. u_id u = s_user_id a \<and> u_enabled u) (t_users db)) (t_auth_sessions db)"

definition session_live :: "instant \<Rightarrow> instant \<Rightarrow> db \<Rightarrow> access_session_row \<Rightarrow> bool" where
  "session_live now cutoff db s \<longleftrightarrow> acs_status s = ''active'' \<and> sql_less now (acs_expires_at s)
     \<and> sql_less cutoff (acs_last_seen_at s) \<and> auth_live now cutoff db s"

text \<open>The endpoint of a session, joined with the device and the project of the session.\<close>

definition session_join :: "access_session_row \<Rightarrow> db \<Rightarrow> (endpoint_row \<times> device_row \<times> project_row) option" where
  "session_join s db =
     (case row_where (\<lambda>e. e_id e = acs_endpoint_id s) (t_endpoints db) of None \<Rightarrow> None | Some e \<Rightarrow>
      case row_where (\<lambda>d. d_id d = e_device_id e \<and> d_project_id d = acs_project_id s) (t_devices db) of
        None \<Rightarrow> None | Some d \<Rightarrow>
      case row_where (\<lambda>p. p_id p = acs_project_id s) (t_projects db) of None \<Rightarrow> None | Some p \<Rightarrow>
      Some (e, d, p))"

definition touch_interval :: int where
  "touch_interval = seconds 30"

definition view_session :: "access_session_row \<Rightarrow> endpoint_row \<Rightarrow> device_row \<Rightarrow> access_session" where
  "view_session s e d = \<lparr>acc_id = acs_id s, acc_token_hash = '''', acc_domain_prefix = acs_route_label s,
     acc_user_id = acs_user_id s,
     acc_auth_session_id = (case acs_auth_session_id s of None \<Rightarrow> '''' | Some a \<Rightarrow> a),
     acc_project_id = acs_project_id s, acc_endpoint_id = acs_endpoint_id s, acc_endpoint_name = e_name e,
     acc_device_name = d_name d, acc_mode = acs_mode s, acc_source_ip = acs_source_ip s,
     acc_status = acs_status s, acc_expires_at = acs_expires_at s, acc_started_at = acs_started_at s,
     acc_last_seen_at = acs_last_seen_at s, acc_ended_at = acs_ended_at s\<rparr>"

definition record_activity :: "instant \<Rightarrow> access_session_row \<Rightarrow> db \<Rightarrow> db" where
  "record_activity now s db =
     (if now - acs_last_seen_at s \<ge> touch_interval
      then update_auth_sessions (\<lambda>a. Some (s_id a) = acs_auth_session_id s \<and> s_status a = ''active'')
             (\<lambda>a. a\<lparr>s_last_seen_at := now\<rparr>)
             (update_access_sessions (\<lambda>x. acs_id x = acs_id s) (\<lambda>x. x\<lparr>acs_last_seen_at := now\<rparr>) db)
      else db)"

text \<open>The rows the join of a resolution selects.\<close>

definition resolvable :: "instant \<Rightarrow> string \<Rightarrow> string \<Rightarrow> instant \<Rightarrow> db \<Rightarrow> access_session_row \<Rightarrow> bool" where
  "resolvable now token grant cutoff db s \<longleftrightarrow> acs_token_hash s = token \<and> acs_grant_hash s = grant
     \<and> acs_grant_exchanged_at s \<noteq> None \<and> session_live now cutoff db s \<and> session_join s db \<noteq> None"

definition resolve_access_grant ::
  "instant \<Rightarrow> string \<Rightarrow> string \<Rightarrow> instant \<Rightarrow> db \<Rightarrow> db \<times> (access_session \<times> endpoint_route) res" where
  "resolve_access_grant now token grant cutoff db = run_tx db (
     attempt (from_row (row_where (resolvable now token grant cutoff db) (t_access_sessions db))
       ErrNotFound) (\<lambda>s.
     attempt (from_row (session_join s db) ErrNotFound) (\<lambda>(e, d, p).
     Inr ((view_session s e d\<lparr>acc_last_seen_at := now\<rparr>, route_of e d p), record_activity now s db))))"

definition exchange_access_grant ::
  "instant \<Rightarrow> instant \<Rightarrow> string \<Rightarrow> string \<Rightarrow> instant \<Rightarrow> db \<Rightarrow> db \<times> (access_session \<times> endpoint_route) res" where
  "exchange_access_grant now resolve_now token grant cutoff db =
     (let hit = (\<lambda>s. acs_token_hash s = token \<and> acs_grant_hash s = grant
            \<and> acs_grant_exchanged_at s = None \<and> session_live now cutoff db s);
          db' = update_access_sessions hit (\<lambda>s. s\<lparr>acs_grant_exchanged_at := Some now\<rparr>) db
      in if count_where hit (t_access_sessions db) \<noteq> 1 then (db', Inl ErrNotFound)
         else resolve_access_grant resolve_now token grant cutoff db')"

definition touch_access_session :: "string \<Rightarrow> instant \<Rightarrow> instant \<Rightarrow> db \<Rightarrow> db \<times> unit res" where
  "touch_access_session sid now cutoff db = run_tx db (
     let hit = (\<lambda>s. acs_id s = sid \<and> session_live now cutoff db s) in
     attempt (demand (count_where hit (t_access_sessions db) = 1) ErrNotFound) (\<lambda>_.
     let db = update_access_sessions hit (\<lambda>s. s\<lparr>acs_last_seen_at := now\<rparr>) db;
         auth = (case row_where (\<lambda>s. acs_id s = sid) (t_access_sessions db) of
           None \<Rightarrow> None | Some s \<Rightarrow> acs_auth_session_id s);
         mine = (\<lambda>a. Some (s_id a) = auth \<and> s_status a = ''active'' \<and> sql_less now (s_expires_at a)) in
     attempt (demand (count_where mine (t_auth_sessions db) = 1) ErrNotFound) (\<lambda>_.
     Inr ((), update_auth_sessions mine (\<lambda>a. a\<lparr>s_last_seen_at := now\<rparr>) db))))"

section \<open>Listing and ending sessions\<close>

definition list_active_access_sessions :: "instant \<Rightarrow> instant \<Rightarrow> db \<Rightarrow> access_session list" where
  "list_active_access_sessions now cutoff db = List.map_filter (\<lambda>s.
     (case row_where (\<lambda>e. e_id e = acs_endpoint_id s) (t_endpoints db) of None \<Rightarrow> None | Some e \<Rightarrow>
      case row_where (\<lambda>d. d_id d = e_device_id e) (t_devices db) of None \<Rightarrow> None | Some d \<Rightarrow>
      Some (view_session s e d\<lparr>acc_auth_session_id := '''', acc_token_hash := acs_token_hash s\<rparr>)))
     (order_desc (\<lambda>s. time_text (acs_last_seen_at s))
       (filter (session_live now cutoff db) (t_access_sessions db)))"

definition end_session :: "string \<Rightarrow> instant \<Rightarrow> access_session_row \<Rightarrow> access_session_row" where
  "end_session status now s = s\<lparr>acs_status := status, acs_ended_at := Some now\<rparr>"

definition of_device :: "string \<Rightarrow> db \<Rightarrow> access_session_row \<Rightarrow> bool" where
  "of_device did db s = exists_row (\<lambda>e. e_id e = acs_endpoint_id s \<and> e_device_id e = did) (t_endpoints db)"

definition revoke_resource_sessions :: "instant \<Rightarrow> string \<Rightarrow> string \<Rightarrow> db \<Rightarrow> db \<times> string list" where
  "revoke_resource_sessions now pid did db =
     (let hit = (\<lambda>s. acs_project_id s = pid \<and> acs_status s = ''active'' \<and> (did = '''' \<or> of_device did db s))
      in (update_access_sessions hit (end_session ''revoked'' now) db,
          map acs_id (filter hit (t_access_sessions db))))"

definition list_access_logs :: "string \<Rightarrow> int \<Rightarrow> int \<Rightarrow> db \<Rightarrow> access_log_row list" where
  "list_access_logs search limit offset db =
     (let search = trim_space search in
      page limit offset (order_desc (\<lambda>l. time_text (lg_started_at l)) (filter (\<lambda>l.
        search = '''' \<or> like_any search [lg_username l, lg_project_name l, lg_device_name l,
          lg_endpoint_name l, lg_mode l, lg_source_ip l, lg_status l, lg_id l]) (t_access_logs db))))"

definition revoke_access_session :: "string \<Rightarrow> instant \<Rightarrow> string \<Rightarrow> audit_input \<Rightarrow> db \<Rightarrow> db \<times> unit res" where
  "revoke_access_session audit_id now sid audit db = run_tx db (
     let hit = (\<lambda>s. acs_id s = sid \<and> acs_status s = ''active'') in
     attempt (demand (count_where hit (t_access_sessions db) \<noteq> 0) ErrNotFound) (\<lambda>_.
     attempt (insert_audit audit_id (audit\<lparr>ai_resource_id := sid\<rparr>) now
       (update_access_sessions hit (end_session ''revoked'' now) db)) (\<lambda>db. Inr ((), db))))"

definition expired_now :: "instant \<Rightarrow> instant \<Rightarrow> db \<Rightarrow> access_session_row \<Rightarrow> bool" where
  "expired_now now cutoff db s \<longleftrightarrow> acs_status s = ''active'' \<and> (sql_le (acs_expires_at s) now
     \<or> sql_le (acs_last_seen_at s) cutoff \<or> \<not> auth_live now cutoff db s)"

definition expire_access_sessions :: "instant \<Rightarrow> instant \<Rightarrow> db \<Rightarrow> db \<times> nat" where
  "expire_access_sessions now cutoff db =
     (update_access_sessions (expired_now now cutoff db) (end_session ''expired'' now) db,
      count_where (expired_now now cutoff db) (t_access_sessions db))"

section \<open>The invariant\<close>

lemma on_ok_map_sum [on_ok_rules]: "on_ok P m \<Longrightarrow> on_ok P (map_sum f id m)"
  by (cases m) auto

lemma create_access_session_inv [on_ok_rules]:
  "store_inv db \<Longrightarrow> store_inv (fst (create_access_session sid aid now input audit db))"
  unfolding create_access_session_def by (intro on_ok_rules)

lemma record_activity_inv [on_ok_rules]: "store_inv db \<Longrightarrow> store_inv (record_activity now s db)"
  unfolding record_activity_def
  by (auto intro!: on_ok_rules simp: access_session_check_def auth_session_check_def)

lemma resolve_access_grant_inv [on_ok_rules]:
  "store_inv db \<Longrightarrow> store_inv (fst (resolve_access_grant now token grant cutoff db))"
  unfolding resolve_access_grant_def split_beta by (intro on_ok_rules)

lemma exchange_access_grant_inv [on_ok_rules]:
  "store_inv db \<Longrightarrow> store_inv (fst (exchange_access_grant now rnow token grant cutoff db))"
  unfolding exchange_access_grant_def Let_def
  by (auto intro!: resolve_access_grant_inv update_access_sessions_inv simp: access_session_check_def)

lemma touch_access_session_inv [on_ok_rules]:
  "store_inv db \<Longrightarrow> store_inv (fst (touch_access_session sid now cutoff db))"
  unfolding touch_access_session_def Let_def
  by (intro on_ok_rules) (simp_all add: access_session_check_def auth_session_check_def)

lemma end_session_key [simp]:
  "acs_id (end_session st now s) = acs_id s" "acs_token_hash (end_session st now s) = acs_token_hash s"
  "acs_project_id (end_session st now s) = acs_project_id s"
  "acs_endpoint_id (end_session st now s) = acs_endpoint_id s"
  "acs_user_id (end_session st now s) = acs_user_id s"
  "acs_auth_session_id (end_session st now s) = acs_auth_session_id s"
  "access_session_check (end_session st now s) = access_session_check s"
  by (simp_all add: end_session_def access_session_check_def)

lemma revoke_resource_sessions_inv [on_ok_rules]:
  "store_inv db \<Longrightarrow> store_inv (fst (revoke_resource_sessions now pid did db))"
  unfolding revoke_resource_sessions_def Let_def by (simp, intro on_ok_rules) auto

lemma revoke_access_session_inv [on_ok_rules]:
  "store_inv db \<Longrightarrow> store_inv (fst (revoke_access_session aid now sid audit db))"
  unfolding revoke_access_session_def Let_def by (intro on_ok_rules) auto

lemma expire_access_sessions_inv [on_ok_rules]:
  "store_inv db \<Longrightarrow> store_inv (fst (expire_access_sessions now cutoff db))"
  unfolding expire_access_sessions_def by (simp, intro on_ok_rules) auto

section \<open>Lemmas\<close>

lemma update_none:
  assumes "\<forall>s\<in>set (t_access_sessions db). \<not> P s"
  shows "update_access_sessions P f db = db"
proof -
  have "upd_where P f (t_access_sessions db) = t_access_sessions db"
    unfolding upd_where_def by (rule map_idI) (use assms in auto)
  moreover have "filter P (t_access_sessions db) = []" using assms by (simp add: filter_empty_conv)
  ultimately show ?thesis by (simp add: update_access_sessions_def)
qed

lemma update_access_sessions_simps [simp]:
  "t_access_sessions (update_access_sessions P f db) = upd_where P f (t_access_sessions db)"
  "t_auth_sessions (update_access_sessions P f db) = t_auth_sessions db"
  "t_users (update_access_sessions P f db) = t_users db"
  "t_endpoints (update_access_sessions P f db) = t_endpoints db"
  "t_devices (update_access_sessions P f db) = t_devices db"
  "t_projects (update_access_sessions P f db) = t_projects db"
  "t_audit_logs (update_access_sessions P f db) = t_audit_logs db"
  by (simp_all add: update_access_sessions_def)

lemma update_auth_sessions_simps [simp]:
  "t_access_sessions (update_auth_sessions P f db) = t_access_sessions db"
  "t_auth_sessions (update_auth_sessions P f db) = upd_where P f (t_auth_sessions db)"
  by (simp_all add: update_auth_sessions_def)

lemma access_tokens: "store_inv db \<Longrightarrow> distinct (map acs_token_hash (t_access_sessions db))"
  by (simp add: store_inv_def db_ok_def rules_defs)

lemma sql_less_not_le: "sql_less a b \<longleftrightarrow> \<not> sql_le b a"
  by (simp add: sql_le_def)

lemma live_or_expired:
  "acs_status s = ''active'' \<Longrightarrow> session_live now cutoff db s \<longleftrightarrow> \<not> expired_now now cutoff db s"
  by (auto simp: session_live_def expired_now_def sql_less_not_le)

section \<open>Properties\<close>

lemma resolve_state:
  "fst (resolve_access_grant now token grant cutoff db) = db
     \<or> (\<exists>s. fst (resolve_access_grant now token grant cutoff db) = record_activity now s db)"
  unfolding resolve_access_grant_def
  by (rule run_tx_all[where Q = "\<lambda>x. x = db \<or> (\<exists>s. x = record_activity now s db)"])
     (auto simp: attempt_Inr_iff split_beta)

lemma resolve_access_grant_Inr:
  "resolve_access_grant now token grant cutoff db = (db', Inr (ses, route)) \<Longrightarrow>
     \<exists>s e d p. s \<in> set (t_access_sessions db) \<and> resolvable now token grant cutoff db s
       \<and> session_join s db = Some (e, d, p) \<and> ses = view_session s e d\<lparr>acc_last_seen_at := now\<rparr>
       \<and> route = route_of e d p \<and> db' = record_activity now s db"
  by (auto simp: resolve_access_grant_def run_tx_Inr_iff attempt_Inr_iff from_row_Inr_iff
      dest!: row_where_Some)

lemma resolve_succeeds_iff:
  "succeeded (resolve_access_grant now token grant cutoff db)
     \<longleftrightarrow> (\<exists>s\<in>set (t_access_sessions db). resolvable now token grant cutoff db s)"
proof (cases "row_where (resolvable now token grant cutoff db) (t_access_sessions db)")
  case None
  then show ?thesis
    using row_where_None[THEN iffD1, OF None]
    by (simp add: resolve_access_grant_def succeeded_def del: row_where_None)
next
  case (Some s)
  then have "session_join s db \<noteq> None" using row_where_Some[OF Some] by (simp add: resolvable_def)
  then show ?thesis
    using Some row_where_Some[OF Some] by (auto simp: resolve_access_grant_def succeeded_def)
qed

text \<open>C23. A resolved access session is authorized: its row carries the token and the exchanged grant,
is active, not expired and not idle, and rests on an active, unexpired login session of the same
user, who is enabled; the route is the endpoint of that session.\<close>

theorem resolved_session_authorized:
  assumes "snd (resolve_access_grant now token grant cutoff db) = Inr (ses, route)"
  shows "\<exists>s a u. s \<in> set (t_access_sessions db) \<and> acs_token_hash s = token \<and> acs_grant_hash s = grant
    \<and> acs_grant_exchanged_at s \<noteq> None \<and> acs_status s = ''active'' \<and> sql_less now (acs_expires_at s)
    \<and> sql_less cutoff (acs_last_seen_at s)
    \<and> a \<in> set (t_auth_sessions db) \<and> acs_auth_session_id s = Some (s_id a) \<and> s_status a = ''active''
    \<and> sql_less now (s_expires_at a) \<and> sql_less cutoff (s_last_seen_at a)
    \<and> u \<in> set (t_users db) \<and> u_enabled u \<and> s_user_id a = u_id u \<and> acs_user_id s = Some (u_id u)
    \<and> acc_id ses = acs_id s \<and> acc_user_id ses = Some (u_id u)
    \<and> rt_endpoint_id route = acs_endpoint_id s \<and> rt_project_id route = acs_project_id s"
proof -
  obtain db' where r: "resolve_access_grant now token grant cutoff db = (db', Inr (ses, route))"
    using assms by (metis prod.collapse)
  from resolve_access_grant_Inr[OF this] obtain s e d p where
    s: "s \<in> set (t_access_sessions db)" "resolvable now token grant cutoff db s"
      "session_join s db = Some (e, d, p)" "ses = view_session s e d\<lparr>acc_last_seen_at := now\<rparr>"
      "route = route_of e d p" by blast
  from s(2) obtain a u where "a \<in> set (t_auth_sessions db)" "u \<in> set (t_users db)"
    "acs_auth_session_id s = Some (s_id a)" "acs_user_id s = Some (s_user_id a)" "s_status a = ''active''"
    "sql_less now (s_expires_at a)" "sql_less cutoff (s_last_seen_at a)" "u_id u = s_user_id a" "u_enabled u"
    by (auto simp: resolvable_def session_live_def auth_live_def)
  moreover have "e_id e = acs_endpoint_id s" "p_id p = acs_project_id s"
    using s(3) by (auto simp: session_join_def split: option.splits dest!: row_where_Some)
  ultimately show ?thesis using s
    by (intro exI[of _ s] exI[of _ a] exI[of _ u])
       (simp add: resolvable_def session_live_def view_session_def route_of_def)
qed

definition demo_exchanged :: db where
  "demo_exchanged = fst (exchange_access_grant 1 2 ''k1'' ''grant'' (- 1) demo_db)"

theorem resolved_session_authorized_witness:
  "\<exists>ses route s. snd (resolve_access_grant 3 ''k1'' ''grant'' (- 1) demo_exchanged) = Inr (ses, route)
     \<and> s \<in> set (t_access_sessions demo_exchanged) \<and> acc_id ses = acs_id s \<and> acs_grant_exchanged_at s \<noteq> None"
proof -
  have "succeeded (resolve_access_grant 3 ''k1'' ''grant'' (- 1) demo_exchanged)" by code_simp
  then obtain ses route where r: "snd (resolve_access_grant 3 ''k1'' ''grant'' (- 1) demo_exchanged) = Inr (ses, route)"
    by (auto simp: succeeded_iff)
  from resolved_session_authorized[OF this] show ?thesis using r by blast
qed

lemma activity_keeps_grants:
  "(\<forall>s\<in>set (t_access_sessions db). acs_token_hash s = token \<longrightarrow> acs_grant_exchanged_at s \<noteq> None)
    \<Longrightarrow> \<forall>s\<in>set (t_access_sessions (record_activity now y db)). acs_token_hash s = token \<longrightarrow> acs_grant_exchanged_at s \<noteq> None"
  unfolding record_activity_def
  by (simp add: ball_upd_where del: not_None_eq)

text \<open>C24. A grant is exchanged once: whatever the second attempt presents for the same hostname
token, at whatever time, it is refused and changes nothing.\<close>

theorem grant_exchanged_once:
  assumes "store_inv db" "succeeded (exchange_access_grant now rnow token grant cutoff db)"
  defines "db' \<equiv> fst (exchange_access_grant now rnow token grant cutoff db)"
  shows "exchange_access_grant now2 rnow2 token grant2 cutoff2 db' = (db', Inl ErrNotFound)"
proof -
  let ?hit = "\<lambda>s. acs_token_hash s = token \<and> acs_grant_hash s = grant
            \<and> acs_grant_exchanged_at s = None \<and> session_live now cutoff db s"
  let ?db1 = "update_access_sessions ?hit (\<lambda>s. s\<lparr>acs_grant_exchanged_at := Some now\<rparr>) db"
  have one: "count_where ?hit (t_access_sessions db) = 1"
    and db': "db' = fst (resolve_access_grant rnow token grant cutoff ?db1)"
    using assms(2) by (auto simp: db'_def exchange_access_grant_def Let_def succeeded_def split: if_splits)
  obtain x where x: "x \<in> set (t_access_sessions db)" "?hit x" using count_where_1_ex[OF one] by blast
  have only: "?hit s" if "s \<in> set (t_access_sessions db)" "acs_token_hash s = token" for s
    using key_inj[OF access_tokens[OF assms(1)] x(1) that(1)] x(2) that(2) by simp
  have used1: "\<forall>s\<in>set (t_access_sessions ?db1). acs_token_hash s = token \<longrightarrow> acs_grant_exchanged_at s \<noteq> None"
    unfolding update_access_sessions_simps ball_upd_where
    by (intro ballI) (simp, use only in blast)
  have "\<forall>s\<in>set (t_access_sessions db'). acs_token_hash s = token \<longrightarrow> acs_grant_exchanged_at s \<noteq> None"
    using resolve_state[of rnow token grant cutoff ?db1] unfolding db'[symmetric]
  proof (elim disjE exE)
    fix y assume "db' = record_activity rnow y ?db1"
    then show ?thesis using activity_keeps_grants[OF used1, of rnow y] by (simp only:)
  next
    assume "db' = ?db1"
    then show ?thesis using used1 by (simp only:)
  qed
  then have none: "\<forall>s\<in>set (t_access_sessions db'). \<not> (acs_token_hash s = token \<and> acs_grant_hash s = grant2
      \<and> acs_grant_exchanged_at s = None \<and> session_live now2 cutoff2 db' s)" by auto
  then have "count_where (\<lambda>s. acs_token_hash s = token \<and> acs_grant_hash s = grant2
      \<and> acs_grant_exchanged_at s = None \<and> session_live now2 cutoff2 db' s) (t_access_sessions db') = 0"
    by simp
  then show ?thesis
    unfolding exchange_access_grant_def Let_def by (simp only: update_none[OF none]) simp
qed

theorem grant_exchanged_once_witness:
  "exchange_access_grant 5 6 ''k1'' ''grant'' (- 1) demo_exchanged = (demo_exchanged, Inl ErrNotFound)"
  unfolding demo_exchanged_def
  by (rule grant_exchanged_once[OF demo_inv]) code_simp

text \<open>Activity never revives a session: touching leaves the status of every access and login
session as it was, and unless a live session has that identifier it is refused and changes nothing.\<close>

theorem touch_never_revives:
  "map (\<lambda>s. (acs_id s, acs_status s, acs_expires_at s)) (t_access_sessions (fst (touch_access_session sid now cutoff db)))
     = map (\<lambda>s. (acs_id s, acs_status s, acs_expires_at s)) (t_access_sessions db)
   \<and> map (\<lambda>a. (s_id a, s_status a, s_expires_at a)) (t_auth_sessions (fst (touch_access_session sid now cutoff db)))
     = map (\<lambda>a. (s_id a, s_status a, s_expires_at a)) (t_auth_sessions db)
   \<and> ((\<exists>s\<in>set (t_access_sessions db). acs_id s = sid \<and> session_live now cutoff db s)
      \<or> touch_access_session sid now cutoff db = (db, Inl ErrNotFound))"
proof (intro conjI)
  let ?r = "touch_access_session sid now cutoff db"
  show "map (\<lambda>s. (acs_id s, acs_status s, acs_expires_at s)) (t_access_sessions (fst ?r))
     = map (\<lambda>s. (acs_id s, acs_status s, acs_expires_at s)) (t_access_sessions db)"
    unfolding touch_access_session_def Let_def
    by (rule run_tx_all) (auto simp: attempt_Inr_iff map_upd_where_same)
  show "map (\<lambda>a. (s_id a, s_status a, s_expires_at a)) (t_auth_sessions (fst ?r))
     = map (\<lambda>a. (s_id a, s_status a, s_expires_at a)) (t_auth_sessions db)"
    unfolding touch_access_session_def Let_def
    by (rule run_tx_all) (auto simp: attempt_Inr_iff map_upd_where_same)
  show "(\<exists>s\<in>set (t_access_sessions db). acs_id s = sid \<and> session_live now cutoff db s) \<or> ?r = (db, Inl ErrNotFound)"
  proof (cases "\<exists>s\<in>set (t_access_sessions db). acs_id s = sid \<and> session_live now cutoff db s")
    case False
    then have "count_where (\<lambda>s. acs_id s = sid \<and> session_live now cutoff db s) (t_access_sessions db) = 0"
      by simp
    then show ?thesis unfolding touch_access_session_def Let_def by (simp del: count_where_0_iff)
  qed simp
qed

text \<open>The sweep is exact: after it the active sessions are the ones that were live, in order and
unchanged, every other active session has ended now, and what resolves is what resolved before.\<close>

theorem expire_is_exact:
  "filter (\<lambda>s. acs_status s = ''active'') (t_access_sessions (fst (expire_access_sessions now cutoff db)))
     = filter (session_live now cutoff db) (t_access_sessions db)
   \<and> snd (expire_access_sessions now cutoff db)
     = count_where (\<lambda>s. acs_status s = ''active'' \<and> \<not> session_live now cutoff db s) (t_access_sessions db)
   \<and> succeeded (resolve_access_grant now token grant cutoff (fst (expire_access_sessions now cutoff db)))
     = succeeded (resolve_access_grant now token grant cutoff db)"
proof (intro conjI)
  let ?P = "expired_now now cutoff db" and ?db' = "fst (expire_access_sessions now cutoff db)"
  have eq: "t_access_sessions ?db' = upd_where ?P (end_session ''expired'' now) (t_access_sessions db)"
    by (simp add: expire_access_sessions_def)
  have live: "session_live now cutoff db s = (acs_status s = ''active'' \<and> \<not> ?P s)" for s
    using live_or_expired[of s now cutoff db] by (auto simp: session_live_def)
  show "filter (\<lambda>s. acs_status s = ''active'') (t_access_sessions ?db')
      = filter (session_live now cutoff db) (t_access_sessions db)"
    unfolding eq by (subst filter_upd_where) (auto simp: end_session_def live intro: filter_cong)
  have "?P = (\<lambda>s. acs_status s = ''active'' \<and> \<not> session_live now cutoff db s)"
    by (auto simp: fun_eq_iff live expired_now_def)
  then show "snd (expire_access_sessions now cutoff db)
      = count_where (\<lambda>s. acs_status s = ''active'' \<and> \<not> session_live now cutoff db s) (t_access_sessions db)"
    by (simp add: expire_access_sessions_def)
  have same: "session_live now cutoff ?db' = session_live now cutoff db" "session_join s ?db' = session_join s db" for s
    by (auto simp: fun_eq_iff session_live_def auth_live_def session_join_def expire_access_sessions_def
        cong: option.case_cong)
  show "succeeded (resolve_access_grant now token grant cutoff ?db')
      = succeeded (resolve_access_grant now token grant cutoff db)"
    unfolding resolve_succeeds_iff eq bex_upd_where
    by (rule bex_cong[OF refl]) (auto simp: resolvable_def same live end_session_def)
qed

end
