(* ===== verification/StoreProjects.thy ===== *)
theory StoreProjects
  imports Demo
begin

text \<open>
  Nodes, node credentials, projects, their networks and their scan ports: \<open>store/nodes.go\<close>,
  \<open>store/node_connection.go\<close>, \<open>store/node_credentials.go\<close>, \<open>store/projects.go\<close> and
  \<open>store/project_scan_ports.go\<close>.
\<close>

section \<open>Nodes\<close>

record node =
  nd_id :: string
  nd_name :: string
  nd_api_url :: string
  nd_tls_server_name :: string
  nd_credential_configured :: bool
  nd_port_start :: int
  nd_port_end :: int
  nd_enabled :: bool
  nd_health_status :: string
  nd_last_checked_at :: "instant option"
  nd_created_at :: instant
  nd_updated_at :: instant

record create_node_input =
  cn_id :: string
  cn_name :: string
  cn_api_url :: string
  cn_tls_server_name :: string
  cn_credential_ref :: string
  cn_port_start :: int
  cn_port_end :: int

record node_connection =
  nx_id :: string
  nx_name :: string
  nx_api_url :: string
  nx_tls_server_name :: string
  nx_credential_ref :: string
  nx_enabled :: bool

definition node_of_row :: "node_row \<Rightarrow> node" where
  "node_of_row r = \<lparr>nd_id = n_id r, nd_name = n_name r, nd_api_url = n_api_url r,
     nd_tls_server_name = n_tls_server_name r, nd_credential_configured = (n_credential_ref r \<noteq> ''''),
     nd_port_start = n_port_start r, nd_port_end = n_port_end r, nd_enabled = n_enabled r,
     nd_health_status = n_health_status r, nd_last_checked_at = n_last_checked_at r,
     nd_created_at = n_created_at r, nd_updated_at = n_updated_at r\<rparr>"

definition list_nodes :: "db \<Rightarrow> node list" where
  "list_nodes db = map node_of_row (order_desc (\<lambda>r. time_text (n_created_at r)) (t_nodes db))"

definition create_node ::
  "string \<Rightarrow> string \<Rightarrow> instant \<Rightarrow> create_node_input \<Rightarrow> audit_input \<Rightarrow> db \<Rightarrow> db \<times> node res" where
  "create_node fresh audit_id now input audit db = (let k = (if cn_id input = '''' then fresh else cn_id input);
       r = \<lparr>n_id = k, n_name = cn_name input, n_api_url = cn_api_url input,
            n_tls_server_name = cn_tls_server_name input, n_credential_ref = cn_credential_ref input,
            n_port_start = cn_port_start input, n_port_end = cn_port_end input, n_enabled = True,
            n_health_status = ''unknown'', n_last_checked_at = None, n_created_at = now, n_updated_at = now\<rparr>
     in run_tx db (
     attempt (put_nodes (t_nodes db @ [r]) db) (\<lambda>db.
     attempt (insert_audit audit_id (audit\<lparr>ai_resource_id := k\<rparr>) now db) (\<lambda>db.
     Inr (node_of_row r, db)))))"

definition node_credential_reference :: "string \<Rightarrow> db \<Rightarrow> string res" where
  "node_credential_reference k db =
     attempt (from_row (row_where (\<lambda>r. n_id r = k) (t_nodes db)) ErrNotFound) (\<lambda>r. Inr (n_credential_ref r))"

definition apply_node_input :: "create_node_input \<Rightarrow> bool option \<Rightarrow> instant \<Rightarrow> node_row \<Rightarrow> node_row" where
  "apply_node_input input enabled now r = r\<lparr>n_name := cn_name input, n_api_url := cn_api_url input,
     n_tls_server_name := cn_tls_server_name input,
     n_credential_ref := (if cn_credential_ref input = '''' then n_credential_ref r else cn_credential_ref input),
     n_port_start := cn_port_start input, n_port_end := cn_port_end input,
     n_enabled := (case enabled of None \<Rightarrow> n_enabled r | Some b \<Rightarrow> b), n_updated_at := now\<rparr>"

definition update_node ::
  "string \<Rightarrow> instant \<Rightarrow> string \<Rightarrow> create_node_input \<Rightarrow> bool option \<Rightarrow> audit_input \<Rightarrow> db \<Rightarrow> db \<times> node res" where
  "update_node audit_id now k input enabled audit db = after_commit (run_tx db (
     attempt (put_nodes (upd_where (\<lambda>r. n_id r = k) (apply_node_input input enabled now) (t_nodes db)) db) (\<lambda>db1.
     attempt (demand (count_where (\<lambda>r. n_id r = k) (t_nodes db) = 1) ErrNotFound) (\<lambda>_.
     attempt (insert_audit audit_id (audit\<lparr>ai_resource_id := k\<rparr>) now db1) (\<lambda>db2.
     Inr ((), db2))))))
     (\<lambda>_ db. from_row (List.find (\<lambda>n. nd_id n = k) (list_nodes db)) ErrNotFound)"

definition delete_node_op :: "string \<Rightarrow> instant \<Rightarrow> string \<Rightarrow> audit_input \<Rightarrow> db \<Rightarrow> db \<times> unit res" where
  "delete_node_op audit_id now k audit db = run_tx db (
     attempt (demand (\<not> count_where (\<lambda>p. p_node_id p = k) (t_projects db) > 0)
       (ErrMsg ''node still has projects'')) (\<lambda>_.
     attempt (delete_node k db) (\<lambda>db1.
     attempt (demand (count_where (\<lambda>r. n_id r = k) (t_nodes db) = 1) ErrNotFound) (\<lambda>_.
     attempt (insert_audit audit_id (audit\<lparr>ai_resource_id := k\<rparr>) now db1) (\<lambda>db2.
     Inr ((), db2))))))"

definition get_node_connection :: "string \<Rightarrow> db \<Rightarrow> node_connection res" where
  "get_node_connection k db =
     attempt (from_row (row_where (\<lambda>r. n_id r = k) (t_nodes db)) ErrNotFound) (\<lambda>r.
     Inr \<lparr>nx_id = n_id r, nx_name = n_name r, nx_api_url = n_api_url r,
       nx_tls_server_name = n_tls_server_name r, nx_credential_ref = n_credential_ref r,
       nx_enabled = n_enabled r\<rparr>)"

definition update_node_health :: "string \<Rightarrow> string \<Rightarrow> instant \<Rightarrow> db \<Rightarrow> db \<times> unit res" where
  "update_node_health k status t db =
     (update_nodes (\<lambda>r. n_id r = k) (\<lambda>r. r\<lparr>n_health_status := status,
        n_last_checked_at := Some t, n_updated_at := t\<rparr>) db,
      if count_where (\<lambda>r. n_id r = k) (t_nodes db) = 0 then Inl ErrNotFound else Inr ())"

section \<open>Sealed node credentials\<close>

definition save_node_credential :: "string \<Rightarrow> string \<Rightarrow> string \<Rightarrow> db \<Rightarrow> db" where
  "save_node_credential k nonce ciphertext db =
     (if exists_row (\<lambda>r. nc_node_id r = k) (t_node_credentials db)
      then db\<lparr>t_node_credentials := upd_where (\<lambda>r. nc_node_id r = k)
             (\<lambda>r. r\<lparr>nc_nonce := nonce, nc_ciphertext := ciphertext\<rparr>) (t_node_credentials db)\<rparr>
      else db\<lparr>t_node_credentials := t_node_credentials db @
             [\<lparr>nc_node_id = k, nc_nonce = nonce, nc_ciphertext = ciphertext\<rparr>]\<rparr>)"

definition node_credential :: "string \<Rightarrow> db \<Rightarrow> (string \<times> string) res" where
  "node_credential k db =
     attempt (from_row (row_where (\<lambda>r. nc_node_id r = k) (t_node_credentials db)) ErrNotFound) (\<lambda>r.
     Inr (nc_nonce r, nc_ciphertext r))"

definition delete_node_credential :: "string \<Rightarrow> db \<Rightarrow> db" where
  "delete_node_credential k db = delete_node_credentials (\<lambda>r. nc_node_id r = k) db"

section \<open>Projects\<close>

record project =
  pr_id :: string
  pr_code :: string
  pr_name :: string
  pr_node_id :: string
  pr_owner_name :: string
  pr_client_id :: "int option"
  pr_networks :: "string list"
  pr_created_at :: instant
  pr_updated_at :: instant

record create_project_input =
  cpr_name :: string
  cpr_node_id :: string
  cpr_owner_name :: string
  cpr_client_id :: "int option"
  cpr_networks :: "string list"

record update_project_input =
  upr_name :: string
  upr_owner_name :: string
  upr_networks :: "string list"

definition project_networks :: "string \<Rightarrow> db \<Rightarrow> string list" where
  "project_networks k db =
     order_asc id (map pn_cidr (filter (\<lambda>r. pn_project_id r = k) (t_networks db)))"

definition project_of_row :: "project_row \<Rightarrow> db \<Rightarrow> project" where
  "project_of_row r db = \<lparr>pr_id = p_id r, pr_code = p_code r, pr_name = p_name r,
     pr_node_id = p_node_id r, pr_owner_name = p_owner_name r, pr_client_id = p_client_id r,
     pr_networks = project_networks (p_id r) db, pr_created_at = p_created_at r,
     pr_updated_at = p_updated_at r\<rparr>"

definition list_projects :: "db \<Rightarrow> project list" where
  "list_projects db =
     map (\<lambda>r. project_of_row r db) (order_desc (\<lambda>r. time_text (p_created_at r)) (t_projects db))"

definition project_by_id :: "string \<Rightarrow> db \<Rightarrow> project res" where
  "project_by_id k db =
     attempt (from_row (row_where (\<lambda>r. p_id r = k) (t_projects db)) ErrNotFound) (\<lambda>r.
     Inr (project_of_row r db))"

definition insert_network :: "(nat \<Rightarrow> string) \<Rightarrow> string \<Rightarrow> instant \<Rightarrow> nat \<times> string \<Rightarrow> db \<Rightarrow> db res" where
  "insert_network net_id k now = (\<lambda>(i, cidr) db. put_networks (t_networks db @
     [\<lparr>pn_id = net_id i, pn_project_id = k, pn_cidr = cidr, pn_verified = False, pn_created_at = now\<rparr>]) db)"

definition insert_scan_port :: "string \<Rightarrow> nat \<times> discovery_port \<Rightarrow> db \<Rightarrow> db res" where
  "insert_scan_port k = (\<lambda>(i, p) db. put_scan_ports (t_scan_ports db @
     [\<lparr>sp_project_id = k, sp_position = int i, sp_name = dp_name p, sp_protocol = dp_protocol p,
       sp_port = dp_port p\<rparr>]) db)"

text \<open>\<open>DefaultProjectScanPorts\<close>; the Chinese names are their UTF-8 bytes.\<close>

definition web_service_name :: string where
  "web_service_name = ''Web '' @ [CHR 0xE6, CHR 0x9C, CHR 0x8D, CHR 0xE5, CHR 0x8A, CHR 0xA1]"

definition default_scan_ports :: "discovery_port list" where
  "default_scan_ports =
     [\<lparr>dp_port = 80, dp_protocol = ''http'', dp_name = web_service_name\<rparr>,
      \<lparr>dp_port = 443, dp_protocol = ''https'', dp_name = web_service_name @
         [CHR 0xEF, CHR 0xBC, CHR 0x88] @ ''HTTPS'' @ [CHR 0xEF, CHR 0xBC, CHR 0x89]\<rparr>,
      \<lparr>dp_port = 3000, dp_protocol = ''http'', dp_name = ''AdGuard Home''\<rparr>,
      \<lparr>dp_port = 3001, dp_protocol = ''http'', dp_name = ''SmartDNS''\<rparr>,
      \<lparr>dp_port = 22, dp_protocol = ''ssh'', dp_name = ''SSH''\<rparr>]"

definition create_project ::
  "string \<Rightarrow> string \<Rightarrow> (nat \<Rightarrow> string) \<Rightarrow> instant \<Rightarrow> string \<Rightarrow> create_project_input \<Rightarrow> audit_input
     \<Rightarrow> db \<Rightarrow> db \<times> project res" where
  "create_project k audit_id net_id now code input audit db = run_tx db (
     attempt (put_projects (t_projects db @
       [\<lparr>p_id = k, p_code = code, p_name = cpr_name input, p_node_id = cpr_node_id input,
         p_owner_name = cpr_owner_name input, p_client_id = cpr_client_id input,
         p_created_at = now, p_updated_at = now\<rparr>]) db) (\<lambda>db.
     attempt (each (insert_network net_id k now) (enumerate 0 (cpr_networks input)) db) (\<lambda>db.
     attempt (each (insert_scan_port k) (enumerate 0 default_scan_ports) db) (\<lambda>db.
     attempt (insert_audit audit_id (audit\<lparr>ai_resource_id := k\<rparr>) now db) (\<lambda>db.
     Inr (\<lparr>pr_id = k, pr_code = code, pr_name = cpr_name input, pr_node_id = cpr_node_id input,
       pr_owner_name = cpr_owner_name input, pr_client_id = cpr_client_id input,
       pr_networks = cpr_networks input, pr_created_at = now, pr_updated_at = now\<rparr>, db))))))"

definition update_project ::
  "string \<Rightarrow> (nat \<Rightarrow> string) \<Rightarrow> instant \<Rightarrow> string \<Rightarrow> update_project_input \<Rightarrow> audit_input
     \<Rightarrow> db \<Rightarrow> db \<times> project res" where
  "update_project audit_id net_id now k input audit db = after_commit (run_tx db (
     attempt (demand (count_where (\<lambda>r. p_id r = k) (t_projects db) = 1) ErrNotFound) (\<lambda>_.
     let db = db\<lparr>t_projects := upd_where (\<lambda>r. p_id r = k) (\<lambda>r. r\<lparr>p_name := upr_name input,
                p_owner_name := upr_owner_name input, p_updated_at := now\<rparr>) (t_projects db)\<rparr>;
         db = delete_networks (\<lambda>r. pn_project_id r = k) db in
     attempt (each (insert_network net_id k now) (enumerate 0 (upr_networks input)) db) (\<lambda>db.
     attempt (insert_audit audit_id (audit\<lparr>ai_resource_id := k\<rparr>) now db) (\<lambda>db.
     Inr ((), db))))))
     (\<lambda>_ db. from_row (List.find (\<lambda>p. pr_id p = k) (list_projects db)) ErrNotFound)"

text \<open>What keeps a project: forwards of its endpoints, unexpired sessions, unfinished jobs.\<close>

definition device_in_project :: "string \<Rightarrow> db \<Rightarrow> string \<Rightarrow> bool" where
  "device_in_project k db did = exists_row (\<lambda>d. d_id d = did \<and> d_project_id d = k) (t_devices db)"

definition forward_in_project :: "string \<Rightarrow> db \<Rightarrow> forward_row \<Rightarrow> bool" where
  "forward_in_project k db f = exists_row (\<lambda>e. e_id e = pf_endpoint_id f
     \<and> device_in_project k db (e_device_id e)) (t_endpoints db)"

definition project_dependencies :: "instant \<Rightarrow> string \<Rightarrow> db \<Rightarrow> nat" where
  "project_dependencies now k db =
     count_where (forward_in_project k db) (t_forwards db) +
     count_where (\<lambda>s. acs_project_id s = k \<and> acs_status s = ''active'' \<and> sql_less now (acs_expires_at s))
       (t_access_sessions db) +
     count_where (\<lambda>j. dj_project_id j = k \<and> dj_status j \<in> {''queued'', ''running''}) (t_jobs db)"

definition delete_project_op :: "string \<Rightarrow> instant \<Rightarrow> string \<Rightarrow> audit_input \<Rightarrow> db \<Rightarrow> db \<times> unit res" where
  "delete_project_op audit_id now k audit db = run_tx db (
     attempt (demand (\<not> project_dependencies now k db > 0) ErrInUse) (\<lambda>_.
     attempt (demand (count_where (\<lambda>r. p_id r = k) (t_projects db) = 1) ErrNotFound) (\<lambda>_.
     attempt (insert_audit audit_id (audit\<lparr>ai_resource_id := k\<rparr>) now (delete_project k db)) (\<lambda>db.
     Inr ((), db)))))"

section \<open>Scan ports\<close>

definition project_scan_ports :: "string \<Rightarrow> db \<Rightarrow> discovery_port list res" where
  "project_scan_ports k db = attempt (project_by_id k db) (\<lambda>_.
     Inr (map (\<lambda>r. \<lparr>dp_port = sp_port r, dp_protocol = sp_protocol r, dp_name = sp_name r\<rparr>)
       (order_asc sp_position (filter (\<lambda>r. sp_project_id r = k) (t_scan_ports db)))))"

definition replace_project_scan_ports ::
  "string \<Rightarrow> instant \<Rightarrow> string \<Rightarrow> discovery_port list \<Rightarrow> audit_input \<Rightarrow> db \<Rightarrow> db \<times> unit res" where
  "replace_project_scan_ports audit_id now k ports audit db = run_tx db (
     attempt (demand (count_where (\<lambda>r. sp_project_id r = k) (t_scan_ports db) \<noteq> 0
       \<or> count_where (\<lambda>r. p_id r = k) (t_projects db) = 1) ErrNotFound) (\<lambda>_.
     attempt (each (insert_scan_port k) (enumerate 0 ports)
       (delete_scan_ports (\<lambda>r. sp_project_id r = k) db)) (\<lambda>db.
     attempt (insert_audit audit_id (audit\<lparr>ai_resource_id := k\<rparr>) now db) (\<lambda>db.
     Inr ((), db)))))"

section \<open>The invariant\<close>

lemma create_node_inv [on_ok_rules]:
  "store_inv db \<Longrightarrow> store_inv (fst (create_node f aid now input audit db))"
  unfolding create_node_def Let_def by (intro on_ok_rules) auto

lemma apply_node_input_key [simp]: "n_id (apply_node_input input enabled now r) = n_id r"
  by (simp add: apply_node_input_def)

lemma update_node_inv [on_ok_rules]:
  "store_inv db \<Longrightarrow> store_inv (fst (update_node aid now k input enabled audit db))"
  unfolding update_node_def by (intro on_ok_rules) simp_all

lemma delete_node_op_inv [on_ok_rules]:
  "store_inv db \<Longrightarrow> store_inv (fst (delete_node_op aid now k audit db))"
  unfolding delete_node_op_def by (intro on_ok_rules)

lemma update_node_health_inv [on_ok_rules]:
  "store_inv db \<Longrightarrow> store_inv (fst (update_node_health k status t db))"
  unfolding update_node_health_def by (simp, intro on_ok_rules) (auto simp: node_check_def)

lemma credential_nodes: "store_inv db \<Longrightarrow> distinct (map nc_node_id (t_node_credentials db))"
  by (simp add: store_inv_def db_ok_def rules_defs)

lemma save_node_credential_inv [on_ok_rules]:
  "store_inv db \<Longrightarrow> store_inv (save_node_credential k nonce ciphertext db)"
  using credential_nodes[of db]
  by (auto simp: save_node_credential_def store_inv_def node_credentials_rules_def map_upd_where_same
      intro!: set_node_credentials_ok)

lemma delete_node_credential_inv [on_ok_rules]:
  "store_inv db \<Longrightarrow> store_inv (delete_node_credential k db)"
  unfolding delete_node_credential_def by (intro on_ok_rules)

lemma insert_network_inv [on_ok_rules]: "store_inv db \<Longrightarrow> on_ok store_inv (insert_network ids k now x db)"
  unfolding insert_network_def split_beta by (intro on_ok_rules)

lemma insert_scan_port_inv [on_ok_rules]: "store_inv db \<Longrightarrow> on_ok store_inv (insert_scan_port k x db)"
  unfolding insert_scan_port_def split_beta by (intro on_ok_rules)

lemma create_project_inv [on_ok_rules]:
  "store_inv db \<Longrightarrow> store_inv (fst (create_project k aid ids now code input audit db))"
  unfolding create_project_def by (intro on_ok_rules) auto

lemma project_rename_inv:
  "store_inv db \<Longrightarrow> store_inv (db\<lparr>t_projects := upd_where P (\<lambda>r. r\<lparr>p_name := a, p_owner_name := b, p_updated_at := c\<rparr>) (t_projects db)\<rparr>)"
  by (auto simp: store_inv_def intro!: upd_projects_ok)

lemma update_project_inv [on_ok_rules]:
  "store_inv db \<Longrightarrow> store_inv (fst (update_project aid ids now k input audit db))"
  unfolding update_project_def Let_def by (intro on_ok_rules project_rename_inv)

lemma delete_project_op_inv [on_ok_rules]:
  "store_inv db \<Longrightarrow> store_inv (fst (delete_project_op aid now k audit db))"
  unfolding delete_project_op_def by (intro on_ok_rules)

lemma replace_project_scan_ports_inv [on_ok_rules]:
  "store_inv db \<Longrightarrow> store_inv (fst (replace_project_scan_ports aid now k ports audit db))"
  unfolding replace_project_scan_ports_def by (intro on_ok_rules)

section \<open>Scan ports round trip\<close>

lemma each_insert_scan_port:
  "each (insert_scan_port k) xs db = Inr db' \<Longrightarrow> db' = db\<lparr>t_scan_ports := t_scan_ports db @
     map (\<lambda>(i, p). \<lparr>sp_project_id = k, sp_position = int i, sp_name = dp_name p,
       sp_protocol = dp_protocol p, sp_port = dp_port p\<rparr>) xs\<rparr>"
proof (induction xs arbitrary: db)
  case (Cons x xs)
  obtain i p where x: "x = (i, p)" by (cases x)
  let ?db1 = "db\<lparr>t_scan_ports := t_scan_ports db @ [\<lparr>sp_project_id = k, sp_position = int i,
      sp_name = dp_name p, sp_protocol = dp_protocol p, sp_port = dp_port p\<rparr>]\<rparr>"
  have "each (insert_scan_port k) xs ?db1 = Inr db'"
    using Cons.prems unfolding x by (auto simp: attempt_Inr_iff) (simp add: insert_scan_port_def put_Inr)
  from Cons.IH[OF this] show ?case by (simp add: x)
qed simp

lemma sorted_enumerated:
  "sorted (map sp_position (map (\<lambda>(i, p). \<lparr>sp_project_id = k, sp_position = int i, sp_name = dp_name p,
       sp_protocol = dp_protocol p, sp_port = dp_port p\<rparr>) (enumerate n ports)))"
proof (induction ports arbitrary: n)
  case (Cons p ports)
  have "\<forall>x\<in>set (enumerate (Suc n) ports). n \<le> fst x" by (auto simp: in_set_enumerate_eq)
  then show ?case using Cons[of "Suc n"] by (auto simp: split_beta)
qed simp

text \<open>Replacing the scan ports of a project and reading them back gives the list that was saved, in
its order, and a successful replacement needs the project to exist.\<close>

theorem scan_ports_roundtrip:
  assumes inv: "store_inv db" and ok: "succeeded (replace_project_scan_ports aid now k ports audit db)"
  shows "project_scan_ports k (fst (replace_project_scan_ports aid now k ports audit db)) = Inr ports"
proof -
  let ?db' = "fst (replace_project_scan_ports aid now k ports audit db)"
  let ?row = "\<lambda>(i, p). \<lparr>sp_project_id = k, sp_position = int i, sp_name = dp_name p,
       sp_protocol = dp_protocol p, sp_port = dp_port p\<rparr>"
  have "?db' = db \<and> \<not> succeeded (replace_project_scan_ports aid now k ports audit db) \<or>
      ((count_where (\<lambda>r. sp_project_id r = k) (t_scan_ports db) \<noteq> 0
       \<or> count_where (\<lambda>r. p_id r = k) (t_projects db) = 1) \<and>
       (\<exists>entry. ?db' = db\<lparr>t_scan_ports := del_where (\<lambda>r. sp_project_id r = k) (t_scan_ports db)
        @ map ?row (enumerate 0 ports), t_audit_logs := t_audit_logs db @ [entry]\<rparr>))"
    unfolding replace_project_scan_ports_def
    by (rule tx_effect) (auto simp: attempt_Inr_iff row_statement_defs simp del: count_where_0_iff
        dest!: insert_audit_Inr each_insert_scan_port)
  then obtain entry where
    pre: "count_where (\<lambda>r. sp_project_id r = k) (t_scan_ports db) \<noteq> 0
       \<or> count_where (\<lambda>r. p_id r = k) (t_projects db) = 1"
    and db': "?db' = db\<lparr>t_scan_ports := del_where (\<lambda>r. sp_project_id r = k) (t_scan_ports db)
        @ map ?row (enumerate 0 ports), t_audit_logs := t_audit_logs db @ [entry]\<rparr>"
    using ok by blast
  have "refs_in sp_project_id (t_scan_ports db) p_id (t_projects db)"
    using inv by (simp add: store_inv_def db_ok_def rules_defs)
  then have "\<exists>p\<in>set (t_projects db). p_id p = k"
    using pre count_where_1_ex[of "\<lambda>r. p_id r = k" "t_projects db"] by (force simp: refs_in_def)
  then obtain p where "row_where (\<lambda>r. p_id r = k) (t_projects db) = Some p"
    by (metis (mono_tags, lifting) not_Some_eq row_where_None)
  then have proj: "\<exists>q. project_by_id k ?db' = Inr q" by (simp add: project_by_id_def db')
  have "filter (\<lambda>r. sp_project_id r = k) (del_where (\<lambda>r. sp_project_id r = k) (t_scan_ports db)) = []"
    by (simp add: filter_empty_conv)
  moreover have "filter (\<lambda>r. sp_project_id r = k) (map ?row (enumerate 0 ports)) = map ?row (enumerate 0 ports)"
    by (auto simp: filter_id_conv)
  moreover have "order_asc sp_position (map ?row (enumerate 0 ports)) = map ?row (enumerate 0 ports)"
    unfolding order_asc_def using sorted_enumerated[of k 0 ports] by (rule sort_key_id_if_sorted)
  moreover have "map (\<lambda>r. \<lparr>dp_port = sp_port r, dp_protocol = sp_protocol r, dp_name = sp_name r\<rparr>)
      (map ?row (enumerate n ports)) = ports" for n
    by (induction ports arbitrary: n) auto
  ultimately show ?thesis using proj by (auto simp: project_scan_ports_def db')
qed

theorem scan_ports_roundtrip_witness:
  "project_scan_ports ''p1'' (fst (replace_project_scan_ports ''x'' 1 ''p1'' default_scan_ports demo_audit demo_db))
     = Inr default_scan_ports"
  by (rule scan_ports_roundtrip[OF demo_inv]) code_simp

section \<open>Deleting a project\<close>

text \<open>A project is deleted only when nothing uses it: no port forward of its endpoints, no active
and unexpired access session, no queued or running scan. Then no row of any table refers to it, the
access logs keep all their rows, and otherwise the answer is \<open>ErrInUse\<close> and nothing changes.\<close>

theorem delete_project_guarded:
  "(0 < project_dependencies now k db \<and> delete_project_op aid now k audit db = (db, Inl ErrInUse))
   \<or> (project_dependencies now k db = 0 \<and> \<not> succeeded (delete_project_op aid now k audit db)
       \<and> fst (delete_project_op aid now k audit db) = db)
   \<or> (project_dependencies now k db = 0 \<and> (let db' = fst (delete_project_op aid now k audit db) in
       t_projects db' = filter (\<lambda>p. p_id p \<noteq> k) (t_projects db)
       \<and> k \<notin> d_project_id ` set (t_devices db') \<and> k \<notin> pn_project_id ` set (t_networks db')
       \<and> k \<notin> sp_project_id ` set (t_scan_ports db') \<and> k \<notin> pm_project_id ` set (t_memberships db')
       \<and> k \<notin> pp_project_id ` set (t_policy_projects db') \<and> k \<notin> acs_project_id ` set (t_access_sessions db')
       \<and> k \<notin> dj_project_id ` set (t_jobs db') \<and> t_access_logs db' = t_access_logs db))"
proof (cases "0 < project_dependencies now k db")
  case True
  then show ?thesis by (simp add: delete_project_op_def)
next
  case False
  have eff: "fst (delete_project_op aid now k audit db) = db \<and> \<not> succeeded (delete_project_op aid now k audit db)
    \<or> (\<exists>entry. fst (delete_project_op aid now k audit db)
        = (delete_project k db)\<lparr>t_audit_logs := t_audit_logs (delete_project k db) @ [entry]\<rparr>)"
    unfolding delete_project_op_def
    by (rule tx_effect) (auto simp: attempt_Inr_iff dest!: insert_audit_Inr)
  show ?thesis
  proof (cases "\<exists>entry. fst (delete_project_op aid now k audit db)
        = (delete_project k db)\<lparr>t_audit_logs := t_audit_logs (delete_project k db) @ [entry]\<rparr>")
    case True
    then obtain entry where "fst (delete_project_op aid now k audit db)
        = (delete_project k db)\<lparr>t_audit_logs := t_audit_logs (delete_project k db) @ [entry]\<rparr>" ..
    then show ?thesis using False
      by (auto simp: Let_def delete_project_def delete_devices_def delete_endpoints_def delete_jobs_def
          del_where_def)
  qed (use eff False in auto)
qed

end
