(* ===== verification/Texts.thy ===== *)
theory Texts
  imports Prelude Timestamps
begin

text \<open>
  The texts the program builds and reads back with Go's standard library: decimal numbers
  (\<open>strconv.Itoa\<close>, \<open>strconv.Atoi\<close>, \<open>%d\<close>), \<open>net.JoinHostPort\<close>, and \<open>strings.Split\<close> with a
  one-byte separator. The lemmas show that a number read back is the number that was written.
\<close>

section \<open>Decimal numbers\<close>

fun nat_text :: "nat \<Rightarrow> string" where
  "nat_text n = (if n < 10 then [digit_char n] else nat_text (n div 10) @ [digit_char (n mod 10)])"

declare nat_text.simps [simp del]

definition itoa :: "int \<Rightarrow> string" where
  "itoa i = (if i < 0 then CHR ''-'' # nat_text (nat (- i)) else nat_text (nat i))"

definition is_digit :: "char \<Rightarrow> bool" where
  "is_digit c \<longleftrightarrow> CHR ''0'' \<le> c \<and> c \<le> CHR ''9''"

definition digit_of :: "char \<Rightarrow> nat" where
  "digit_of c = of_char c - 48"

definition text_value :: "string \<Rightarrow> nat" where
  "text_value s = foldl (\<lambda>n c. n * 10 + digit_of c) 0 s"

definition parse_digits :: "string \<Rightarrow> nat option" where
  "parse_digits s = (if s \<noteq> [] \<and> list_all is_digit s then Some (text_value s) else None)"

text \<open>\<open>strconv.Atoi\<close> on a 64-bit platform: an optional sign, digits, and the range of \<open>int\<close>.\<close>

definition atoi :: "string \<Rightarrow> int option" where
  "atoi s = (let (neg, body) = (case s of c # r \<Rightarrow>
         if c = CHR ''-'' then (True, r) else if c = CHR ''+'' then (False, r) else (False, s)
       | [] \<Rightarrow> (False, s)) in
     case parse_digits body of None \<Rightarrow> None
     | Some n \<Rightarrow> let i = (if neg then - int n else int n) in
         if - (2 ^ 63) \<le> i \<and> i < 2 ^ 63 then Some i else None)"

lemma digit_char_props:
  assumes "d < 10"
  shows "is_digit (digit_char d)" and "digit_of (digit_char d) = d" and "digit_char d \<noteq> CHR ''-''"
    and "digit_char d \<noteq> CHR ''+'' \<and> digit_char d \<noteq> CHR '':''"
proof -
  have "d = 0 \<or> d = 1 \<or> d = 2 \<or> d = 3 \<or> d = 4 \<or> d = 5 \<or> d = 6 \<or> d = 7 \<or> d = 8 \<or> d = 9"
    using assms by arith
  then show "is_digit (digit_char d)" "digit_of (digit_char d) = d" "digit_char d \<noteq> CHR ''-''"
      "digit_char d \<noteq> CHR ''+'' \<and> digit_char d \<noteq> CHR '':''"
    by (elim disjE; simp add: digit_char_def is_digit_def digit_of_def less_eq_char_def; code_simp)+
qed

lemma text_value_snoc: "text_value (s @ [c]) = text_value s * 10 + digit_of c"
  by (simp add: text_value_def)

lemma nat_text_digits: "nat_text n \<noteq> [] \<and> list_all is_digit (nat_text n)"
proof (induction n rule: nat_text.induct)
  case (1 n)
  then show ?case by (subst (1 2) nat_text.simps) (auto simp: digit_char_props)
qed

lemma text_value_nat_text: "text_value (nat_text n) = n"
proof (induction n rule: nat_text.induct)
  case (1 n)
  show ?case
  proof (cases "n < 10")
    case True
    then show ?thesis by (subst nat_text.simps) (simp add: text_value_def digit_char_props)
  next
    case False
    then have "text_value (nat_text (n div 10)) = n div 10" using 1 by simp
    then show ?thesis using False
      by (subst nat_text.simps) (simp add: text_value_snoc digit_char_props)
  qed
qed

lemma parse_digits_nat_text [simp]: "parse_digits (nat_text n) = Some n"
  by (simp add: parse_digits_def nat_text_digits text_value_nat_text)

lemma hd_nat_text: "nat_text n = c # r \<Longrightarrow> c \<noteq> CHR ''-'' \<and> c \<noteq> CHR ''+''"
  using nat_text_digits[of n] by (auto simp: is_digit_def less_eq_char_def)

lemma atoi_itoa:
  assumes "- (2 ^ 63) \<le> i" "i < 2 ^ 63" shows "atoi (itoa i) = Some i"
proof (cases "i < 0")
  case True
  then show ?thesis using assms by (simp add: atoi_def itoa_def)
next
  case False
  obtain c r where t: "nat_text (nat i) = c # r" using nat_text_digits[of "nat i"] by (cases "nat_text (nat i)") auto
  then show ?thesis using assms False hd_nat_text[OF t] parse_digits_nat_text[of "nat i"]
    by (simp add: atoi_def itoa_def)
qed

lemma nat_text_inj: "nat_text m = nat_text n \<Longrightarrow> m = n"
  by (metis text_value_nat_text)

section \<open>Hosts with ports, and splitting\<close>

definition join_host_port :: "string \<Rightarrow> string \<Rightarrow> string" where
  "join_host_port host port =
     (if CHR '':'' \<in> set host then ''['' @ host @ '']:'' @ port else host @ '':'' @ port)"

fun split_on :: "char \<Rightarrow> string \<Rightarrow> string list" where
  "split_on sep [] = [[]]"
| "split_on sep (c # s) =
     (if c = sep then [] # split_on sep s
      else case split_on sep s of [] \<Rightarrow> [[c]] | w # ws \<Rightarrow> (c # w) # ws)"

definition join_with :: "char \<Rightarrow> string list \<Rightarrow> string" where
  "join_with sep ws = (case ws of [] \<Rightarrow> [] | w # ws \<Rightarrow> w @ concat (map (\<lambda>x. sep # x) ws))"

lemma split_on_not_Nil [simp]: "split_on sep s \<noteq> []"
  by (induction s) (auto split: list.splits)

lemma split_on_no_sep: "sep \<notin> set s \<Longrightarrow> split_on sep s = [s]"
  by (induction s) auto

lemma split_on_append: "sep \<notin> set w \<Longrightarrow> split_on sep (w @ sep # s) = w # split_on sep s"
  by (induction w) auto

lemma split_on_join: "ws \<noteq> [] \<Longrightarrow> \<forall>w\<in>set ws. sep \<notin> set w \<Longrightarrow> split_on sep (join_with sep ws) = ws"
proof (induction ws)
  case (Cons w ws)
  show ?case
  proof (cases ws)
    case Nil
    then show ?thesis using Cons by (simp add: join_with_def split_on_no_sep)
  next
    case (Cons v vs)
    then have "join_with sep (w # ws) = w @ sep # join_with sep ws" by (simp add: join_with_def)
    then show ?thesis using Cons.IH Cons.prems Cons by (simp add: split_on_append)
  qed
qed simp

end
