(* ===== verification/StoreDevices.thy ===== *)
theory StoreDevices
  imports StoreProjects Texts
begin

text \<open>
  Devices and their endpoints: \<open>store/devices.go\<close>.

  A device belongs to a project and has endpoints (protocol and port). Endpoints in use (a port
  forward, or an active and unexpired access session) keep their protocol and port and are not
  removed. The random ids a call draws are arguments, one function for the ids of a loop.
\<close>

record device_endpoint =
  de_id :: string
  de_name :: string
  de_protocol :: string
  de_target_port :: int
  de_access_type :: string
  de_verification_status :: string
  de_last_verified_at :: "instant option"
  de_tls_server_name :: string
  de_credential_configured :: bool
  de_ssh_auth_method :: string
  de_ssh_username :: string
  de_ssh_key_path :: string
  de_ssh_host_key_fingerprint :: string

record device =
  dv_id :: string
  dv_project_id :: string
  dv_host :: string
  dv_name :: string
  dv_device_type :: string
  dv_vendor :: string
  dv_source :: string
  dv_status :: string
  dv_last_seen_at :: "instant option"
  dv_endpoints :: "device_endpoint list"
  dv_created_at :: instant
  dv_updated_at :: instant

record ssh_credential_input =
  sc_method :: string
  sc_username :: string
  sc_password :: string
  sc_key_path :: string

record create_endpoint_input =
  ce_id :: string
  ce_is_new :: bool
  ce_name :: string
  ce_protocol :: string
  ce_target_port :: int
  ce_tls_server_name :: string
  ce_credential_ref :: string
  ce_ssh_credential :: "ssh_credential_input option"
  ce_ssh_auth_method :: string
  ce_ssh_username :: string
  ce_ssh_key_path :: string
  ce_ssh_host_key_fingerprint :: string

record create_device_input =
  cd_host :: string
  cd_name :: string
  cd_device_type :: string
  cd_vendor :: string
  cd_source :: string
  cd_endpoints :: "create_endpoint_input list"

record update_device_input =
  ud_host :: string
  ud_name :: string
  ud_device_type :: string
  ud_vendor :: string
  ud_endpoints :: "create_endpoint_input list option"

section \<open>Reading devices\<close>

definition project_networks_of :: "string \<Rightarrow> db \<Rightarrow> string list res" where
  "project_networks_of k db =
     attempt (demand (count_where (\<lambda>p. p_id p = k) (t_projects db) \<noteq> 0) ErrNotFound) (\<lambda>_.
     Inr (project_networks k db))"

definition endpoint_of_row :: "endpoint_row \<Rightarrow> device_endpoint" where
  "endpoint_of_row r = \<lparr>de_id = e_id r, de_name = e_name r, de_protocol = e_protocol r,
     de_target_port = e_target_port r, de_access_type = e_access_type r,
     de_verification_status = e_verification_status r, de_last_verified_at = e_last_verified_at r,
     de_tls_server_name = e_tls_server_name r,
     de_credential_configured = (e_ssh_credential_ref r \<noteq> ''''),
     de_ssh_auth_method = e_ssh_auth_method r, de_ssh_username = e_ssh_username r,
     de_ssh_key_path = e_ssh_key_path r, de_ssh_host_key_fingerprint = e_ssh_host_key_fingerprint r\<rparr>"

definition device_endpoints :: "string \<Rightarrow> db \<Rightarrow> device_endpoint list" where
  "device_endpoints k db = map endpoint_of_row
     (order_asc (\<lambda>r. time_text (e_created_at r)) (filter (\<lambda>r. e_device_id r = k) (t_endpoints db)))"

definition device_of_row :: "db \<Rightarrow> device_row \<Rightarrow> device" where
  "device_of_row db r = \<lparr>dv_id = d_id r, dv_project_id = d_project_id r, dv_host = d_host r,
     dv_name = d_name r, dv_device_type = d_device_type r, dv_vendor = d_vendor r,
     dv_source = d_source r, dv_status = d_status r, dv_last_seen_at = d_last_seen_at r,
     dv_endpoints = device_endpoints (d_id r) db, dv_created_at = d_created_at r,
     dv_updated_at = d_updated_at r\<rparr>"

definition list_devices :: "string \<Rightarrow> db \<Rightarrow> device list res" where
  "list_devices k db = attempt (project_networks_of k db) (\<lambda>_.
     Inr (map (device_of_row db) (order_desc (\<lambda>r. time_text (d_created_at r))
       (filter (\<lambda>r. d_project_id r = k) (t_devices db)))))"

definition device_by_id :: "string \<Rightarrow> string \<Rightarrow> db \<Rightarrow> device res" where
  "device_by_id k did db = attempt (list_devices k db) (\<lambda>ds.
     from_row (List.find (\<lambda>d. dv_id d = did) ds) ErrNotFound)"

section \<open>Creating devices\<close>

definition endpoint_access_type :: "string \<Rightarrow> string" where
  "endpoint_access_type protocol =
     (if protocol = ''http'' \<or> protocol = ''https'' then ''web_proxy''
      else if protocol = ''ssh'' then ''web_ssh'' else ''port_forward'')"

definition new_endpoint_row :: "string \<Rightarrow> string \<Rightarrow> instant \<Rightarrow> create_endpoint_input \<Rightarrow> endpoint_row" where
  "new_endpoint_row eid did now i = \<lparr>e_id = eid, e_device_id = did, e_name = ce_name i,
     e_protocol = ce_protocol i, e_target_port = ce_target_port i,
     e_access_type = endpoint_access_type (ce_protocol i), e_verification_status = ''unverified'',
     e_last_verified_at = None, e_tls_server_name = ce_tls_server_name i,
     e_ssh_credential_ref = ce_credential_ref i, e_ssh_auth_method = ce_ssh_auth_method i,
     e_ssh_username = ce_ssh_username i, e_ssh_key_path = ce_ssh_key_path i,
     e_ssh_host_key_fingerprint = ce_ssh_host_key_fingerprint i, e_created_at = now, e_updated_at = now\<rparr>"

text \<open>One pass of the endpoint loop; the fresh id of position \<open>n\<close> is used when the input has none.\<close>

definition insert_endpoint ::
  "(nat \<Rightarrow> string) \<Rightarrow> string \<Rightarrow> instant \<Rightarrow> nat \<times> create_endpoint_input \<Rightarrow> db \<Rightarrow> db res" where
  "insert_endpoint ids did now = (\<lambda>(n, i) db. put_endpoints (t_endpoints db @
     [new_endpoint_row (if ce_id i = '''' then ids n else ce_id i) did now i]) db)"

definition created_endpoint :: "(nat \<Rightarrow> string) \<Rightarrow> nat \<times> create_endpoint_input \<Rightarrow> device_endpoint" where
  "created_endpoint ids = (\<lambda>(n, i). \<lparr>de_id = (if ce_id i = '''' then ids n else ce_id i),
     de_name = ce_name i, de_protocol = ce_protocol i, de_target_port = ce_target_port i,
     de_access_type = endpoint_access_type (ce_protocol i), de_verification_status = ''unverified'',
     de_last_verified_at = None, de_tls_server_name = ce_tls_server_name i,
     de_credential_configured = (ce_credential_ref i \<noteq> ''''), de_ssh_auth_method = ce_ssh_auth_method i,
     de_ssh_username = ce_ssh_username i, de_ssh_key_path = ce_ssh_key_path i,
     de_ssh_host_key_fingerprint = ce_ssh_host_key_fingerprint i\<rparr>)"

definition new_device_row :: "string \<Rightarrow> string \<Rightarrow> instant \<Rightarrow> create_device_input \<Rightarrow> device_row" where
  "new_device_row did k now input = \<lparr>d_id = did, d_project_id = k, d_host = cd_host input,
     d_name = cd_name input, d_device_type = cd_device_type input, d_vendor = cd_vendor input,
     d_source = cd_source input, d_status = ''unknown'', d_last_seen_at = None, d_created_at = now,
     d_updated_at = now\<rparr>"

definition insert_device_tx ::
  "string \<Rightarrow> string \<Rightarrow> (nat \<Rightarrow> string) \<Rightarrow> instant \<Rightarrow> string \<Rightarrow> create_device_input \<Rightarrow> audit_input
     \<Rightarrow> db \<Rightarrow> (device \<times> db) res" where
  "insert_device_tx did audit_id ids now k input audit db =
     attempt (put_devices (t_devices db @ [new_device_row did k now input]) db) (\<lambda>db.
     attempt (each (insert_endpoint ids did now) (enumerate 0 (cd_endpoints input)) db) (\<lambda>db.
     attempt (insert_audit audit_id (audit\<lparr>ai_resource_id := did\<rparr>) now db) (\<lambda>db.
     Inr (\<lparr>dv_id = did, dv_project_id = k, dv_host = cd_host input, dv_name = cd_name input,
        dv_device_type = cd_device_type input, dv_vendor = cd_vendor input,
        dv_source = cd_source input, dv_status = ''unknown'', dv_last_seen_at = None,
        dv_endpoints = map (created_endpoint ids) (enumerate 0 (cd_endpoints input)),
        dv_created_at = now, dv_updated_at = now\<rparr>, db))))"

definition create_device ::
  "string \<Rightarrow> string \<Rightarrow> (nat \<Rightarrow> string) \<Rightarrow> instant \<Rightarrow> string \<Rightarrow> create_device_input \<Rightarrow> audit_input
     \<Rightarrow> db \<Rightarrow> db \<times> device res" where
  "create_device did audit_id ids now k input audit db =
     run_tx db (insert_device_tx did audit_id ids now k input audit db)"

text \<open>The ids and the clock reading of each pass over an import batch.\<close>

record device_ids =
  di_device :: string
  di_audit :: string
  di_endpoint :: "nat \<Rightarrow> string"
  di_now :: instant

fun insert_devices ::
  "(nat \<Rightarrow> device_ids) \<Rightarrow> nat \<Rightarrow> string \<Rightarrow> create_device_input list \<Rightarrow> audit_input \<Rightarrow> db
     \<Rightarrow> (device list \<times> db) res" where
  "insert_devices ids n k [] audit db = Inr ([], db)"
| "insert_devices ids n k (input # inputs) audit db =
     attempt (insert_device_tx (di_device (ids n)) (di_audit (ids n)) (di_endpoint (ids n))
       (di_now (ids n)) k input audit db) (\<lambda>(d, db).
     attempt (insert_devices ids (Suc n) k inputs audit db) (\<lambda>(ds, db). Inr (d # ds, db)))"

definition create_devices ::
  "(nat \<Rightarrow> device_ids) \<Rightarrow> string \<Rightarrow> create_device_input list \<Rightarrow> audit_input \<Rightarrow> db
     \<Rightarrow> db \<times> device list res" where
  "create_devices ids k inputs audit db = run_tx db (insert_devices ids 0 k inputs audit db)"

section \<open>Verifying, updating and deleting\<close>

text \<open>
  \<open>statuses\<close> is the Go map from endpoint ids to probe results, as the list of its entries in the
  order the loop visits them; its keys are distinct.
\<close>

definition mark_endpoint :: "instant \<Rightarrow> bool \<Rightarrow> endpoint_row \<Rightarrow> endpoint_row" where
  "mark_endpoint now ok r = r\<lparr>e_verification_status := (if ok then ''verified'' else ''failed''),
     e_last_verified_at := (if ok then Some now else e_last_verified_at r), e_updated_at := now\<rparr>"

definition set_verification :: "string \<Rightarrow> instant \<Rightarrow> string \<times> bool \<Rightarrow> db \<Rightarrow> db res" where
  "set_verification did now = (\<lambda>(eid, ok) db.
     attempt (demand (count_where (\<lambda>r. e_id r = eid \<and> e_device_id r = did) (t_endpoints db) = 1)
       (ErrMsg ''verification contains an unknown endpoint'')) (\<lambda>_.
     Inr (update_endpoints (\<lambda>r. e_id r = eid \<and> e_device_id r = did) (mark_endpoint now ok) db)))"

definition endpoints_of_device :: "string \<Rightarrow> string \<Rightarrow> db \<Rightarrow> endpoint_row list" where
  "endpoints_of_device k did db = filter (\<lambda>r. e_device_id r = did
     \<and> exists_row (\<lambda>d. d_id d = did \<and> d_project_id d = k) (t_devices db)) (t_endpoints db)"

definition verify_device_endpoints ::
  "string \<Rightarrow> instant \<Rightarrow> string \<Rightarrow> string \<Rightarrow> (string \<times> bool) list \<Rightarrow> audit_input \<Rightarrow> db \<Rightarrow> db \<times> device res" where
  "verify_device_endpoints audit_id now k did statuses audit db =
     (if statuses = [] then (db, Inl (ErrMsg ''verification status is empty''))
      else let count = length (endpoints_of_device k did db);
               verified = length (filter snd statuses) in
      after_commit (run_tx db (
      attempt (demand (count \<noteq> 0) ErrNotFound) (\<lambda>_.
      attempt (demand (length statuses = count)
        (ErrMsg ''verification status does not cover every endpoint'')) (\<lambda>_.
      attempt (each (set_verification did now) statuses db) (\<lambda>db.
      attempt (insert_audit audit_id (audit\<lparr>ai_resource_id := did,
          ai_metadata := Parsed (JObject [(''verified'', JNumber (itoa (int verified))),
            (''failed'', JNumber (itoa (int count - int verified)))])\<rparr>) now
        (update_devices (\<lambda>d. d_id d = did \<and> d_project_id d = k)
          (\<lambda>d. d\<lparr>d_status := (if verified > 0 then ''online'' else ''offline''),
                 d_last_seen_at := (if verified > 0 then Some now else d_last_seen_at d),
                 d_updated_at := now\<rparr>) db)) (\<lambda>db.
      Inr ((), db)))))))
      (\<lambda>_ db. device_by_id k did db))"

text \<open>In use: a forward goes to the endpoint, or a session on it is active and has not expired.\<close>

definition endpoint_busy :: "instant \<Rightarrow> db \<Rightarrow> string \<Rightarrow> bool" where
  "endpoint_busy now db eid \<longleftrightarrow> exists_row (\<lambda>f. pf_endpoint_id f = eid) (t_forwards db)
     \<or> exists_row (\<lambda>s. acs_endpoint_id s = eid \<and> acs_status s = ''active''
          \<and> sql_less now (acs_expires_at s)) (t_access_sessions db)"

definition in_use_error :: "string \<Rightarrow> store_error" where
  "in_use_error eid = ErrMsg (''endpoint '' @ eid @ '' is in use'')"

definition apply_endpoint_input :: "instant \<Rightarrow> create_endpoint_input \<Rightarrow> endpoint_row \<Rightarrow> endpoint_row" where
  "apply_endpoint_input now i r =
     (let same = (e_protocol r = ce_protocol i \<and> e_target_port r = ce_target_port i) in
      r\<lparr>e_name := ce_name i, e_protocol := ce_protocol i, e_target_port := ce_target_port i,
        e_access_type := endpoint_access_type (ce_protocol i),
        e_verification_status := (if same then e_verification_status r else ''unverified''),
        e_last_verified_at := (if same then e_last_verified_at r else None),
        e_tls_server_name := ce_tls_server_name i,
        e_ssh_credential_ref := (if ce_credential_ref i = '''' then e_ssh_credential_ref r else ce_credential_ref i),
        e_ssh_auth_method := (if ce_ssh_auth_method i = '''' then e_ssh_auth_method r else ce_ssh_auth_method i),
        e_ssh_username := (if ce_ssh_username i = '''' then e_ssh_username r else ce_ssh_username i),
        e_ssh_key_path := (if ce_ssh_auth_method i = '''' \<and> ce_ssh_key_path i = '''' then e_ssh_key_path r
                           else ce_ssh_key_path i),
        e_ssh_host_key_fingerprint := ce_ssh_host_key_fingerprint i, e_updated_at := now\<rparr>)"

text \<open>The last loop: an input with an id is an UPDATE (which may match no row), one without an INSERT.\<close>

definition write_endpoint ::
  "(nat \<Rightarrow> string) \<Rightarrow> string \<Rightarrow> instant \<Rightarrow> nat \<times> create_endpoint_input \<Rightarrow> db \<Rightarrow> db res" where
  "write_endpoint ids did now = (\<lambda>(n, i) db.
     if ce_id i \<noteq> ''''
     then put_endpoints (upd_where (\<lambda>r. e_id r = ce_id i \<and> e_device_id r = did)
            (apply_endpoint_input now i) (t_endpoints db)) db
     else put_endpoints (t_endpoints db @ [new_endpoint_row (ids n) did now i]) db)"

definition kept_endpoint :: "endpoint_row list \<Rightarrow> create_endpoint_input \<Rightarrow> bool" where
  "kept_endpoint existing i \<longleftrightarrow> ce_id i \<noteq> '''' \<and> exists_row (\<lambda>r. e_id r = ce_id i) existing \<and> \<not> ce_is_new i"

definition keep_endpoint :: "instant \<Rightarrow> endpoint_row list \<Rightarrow> create_endpoint_input \<Rightarrow> db \<Rightarrow> db res" where
  "keep_endpoint now existing i db =
     attempt (demand (\<not> (kept_endpoint existing i \<and> endpoint_busy now db (ce_id i)
         \<and> exists_row (\<lambda>r. e_id r = ce_id i \<and> (e_protocol r \<noteq> ce_protocol i
             \<or> e_target_port r \<noteq> ce_target_port i)) existing)) (in_use_error (ce_id i))) (\<lambda>_. Inr db)"

definition remove_endpoint :: "(string \<Rightarrow> bool) \<Rightarrow> endpoint_row \<Rightarrow> db \<Rightarrow> db res" where
  "remove_endpoint busy r db =
     attempt (demand (\<not> busy (e_id r)) (in_use_error (e_id r))) (\<lambda>_.
     Inr (delete_endpoints (\<lambda>x. e_id x = e_id r) db))"

definition replace_device_endpoints_tx ::
  "(nat \<Rightarrow> string) \<Rightarrow> string \<Rightarrow> create_endpoint_input list \<Rightarrow> instant \<Rightarrow> db \<Rightarrow> db res" where
  "replace_device_endpoints_tx ids did desired now db =
     (let existing = filter (\<lambda>r. e_device_id r = did) (t_endpoints db);
          busy = endpoint_busy now db;
          kept = map ce_id (filter (kept_endpoint existing) desired) in
     attempt (demand (list_all (\<lambda>i. ce_id i = '''' \<or> exists_row (\<lambda>r. e_id r = ce_id i) existing
        \<or> ce_is_new i) desired) ErrNotFound) (\<lambda>_.
     attempt (each (keep_endpoint now existing) desired db) (\<lambda>db.
     attempt (each (remove_endpoint busy) (filter (\<lambda>r. e_id r \<notin> set kept) existing) db) (\<lambda>db.
     each (write_endpoint ids did now) (enumerate 0 desired) db))))"

definition update_device ::
  "string \<Rightarrow> (nat \<Rightarrow> string) \<Rightarrow> instant \<Rightarrow> string \<Rightarrow> string \<Rightarrow> update_device_input \<Rightarrow> audit_input
     \<Rightarrow> db \<Rightarrow> db \<times> device res" where
  "update_device audit_id ids now k did input audit db = after_commit (run_tx db (
     attempt (put_devices (upd_where (\<lambda>d. d_id d = did \<and> d_project_id d = k)
        (\<lambda>d. d\<lparr>d_host := (if ud_host input = '''' then d_host d else ud_host input),
               d_name := ud_name input, d_device_type := ud_device_type input,
               d_vendor := ud_vendor input, d_updated_at := now\<rparr>) (t_devices db)) db) (\<lambda>db1.
     attempt (demand (count_where (\<lambda>d. d_id d = did \<and> d_project_id d = k) (t_devices db) = 1)
       ErrNotFound) (\<lambda>_.
     attempt (case ud_endpoints input of None \<Rightarrow> Inr db1
        | Some desired \<Rightarrow> replace_device_endpoints_tx ids did desired now db1) (\<lambda>db2.
     attempt (insert_audit audit_id (audit\<lparr>ai_resource_id := did\<rparr>) now db2) (\<lambda>db3.
     Inr ((), db3)))))))
     (\<lambda>_ db. device_by_id k did db)"

definition device_references :: "instant \<Rightarrow> string \<Rightarrow> db \<Rightarrow> nat" where
  "device_references now did db =
     count_where (\<lambda>f. exists_row (\<lambda>e. e_id e = pf_endpoint_id f \<and> e_device_id e = did) (t_endpoints db))
       (t_forwards db) +
     count_where (\<lambda>s. exists_row (\<lambda>e. e_id e = acs_endpoint_id s \<and> e_device_id e = did) (t_endpoints db)
       \<and> acs_status s = ''active'' \<and> sql_less now (acs_expires_at s)) (t_access_sessions db)"

definition delete_device_op ::
  "string \<Rightarrow> instant \<Rightarrow> string \<Rightarrow> string \<Rightarrow> audit_input \<Rightarrow> db \<Rightarrow> db \<times> unit res" where
  "delete_device_op audit_id now k did audit db = run_tx db (
     attempt (demand (\<not> device_references now did db > 0)
       (ErrMsg ''resource has active sessions or port forwards'')) (\<lambda>_.
     attempt (demand (count_where (\<lambda>d. d_id d = did \<and> d_project_id d = k) (t_devices db) = 1)
       ErrNotFound) (\<lambda>_.
     attempt (insert_audit audit_id (audit\<lparr>ai_resource_id := did\<rparr>) now
       (delete_devices (\<lambda>d. d_id d = did \<and> d_project_id d = k) db)) (\<lambda>db.
     Inr ((), db)))))"

section \<open>The invariant\<close>

lemma fst_if_inv:
  "(b \<Longrightarrow> store_inv (fst x)) \<Longrightarrow> (\<not> b \<Longrightarrow> store_inv (fst y)) \<Longrightarrow> store_inv (fst (if b then x else y))"
  by simp

lemma insert_endpoint_inv [on_ok_rules]: "store_inv db \<Longrightarrow> on_ok store_inv (insert_endpoint ids did now x db)"
  unfolding insert_endpoint_def split_beta by (intro on_ok_rules) auto

lemma insert_device_tx_inv [on_ok_rules]:
  "store_inv db \<Longrightarrow> keeps_inv (insert_device_tx did aid ids now k input audit db)"
  unfolding insert_device_tx_def by (intro on_ok_rules) auto

lemma create_device_inv [on_ok_rules]:
  "store_inv db \<Longrightarrow> store_inv (fst (create_device did aid ids now k input audit db))"
  unfolding create_device_def by (intro on_ok_rules)

lemma insert_devices_inv:
  "store_inv db \<Longrightarrow> keeps_inv (insert_devices ids n k inputs audit db)"
proof (induction inputs arbitrary: n db)
  case (Cons input inputs)
  show ?case
    unfolding insert_devices.simps split_beta fst_conv snd_conv
    by (intro keeps_inv_attempt_pair insert_device_tx_inv Cons) (simp add: keeps_inv_def Cons.prems)+
qed (simp add: keeps_inv_def)

lemma create_devices_inv [on_ok_rules]:
  "store_inv db \<Longrightarrow> store_inv (fst (create_devices ids k inputs audit db))"
  unfolding create_devices_def by (intro on_ok_rules insert_devices_inv)

lemma set_verification_inv [on_ok_rules]: "store_inv db \<Longrightarrow> on_ok store_inv (set_verification did now x db)"
  unfolding set_verification_def split_beta mark_endpoint_def by (intro on_ok_rules) (auto simp: endpoint_check_def)

lemma verify_device_endpoints_inv [on_ok_rules]:
  "store_inv db \<Longrightarrow> store_inv (fst (verify_device_endpoints aid now k did statuses audit db))"
  unfolding verify_device_endpoints_def Let_def
  by (intro fst_if_inv on_ok_rules) (auto simp: device_check_def)

lemma write_endpoint_inv [on_ok_rules]: "store_inv db \<Longrightarrow> on_ok store_inv (write_endpoint ids did now x db)"
  unfolding write_endpoint_def split_beta
  by (intro on_ok_rules) (auto simp: image_upd_where_same apply_endpoint_input_def Let_def)

lemma keep_endpoint_inv [on_ok_rules]: "store_inv db \<Longrightarrow> on_ok store_inv (keep_endpoint now ex x db)"
  unfolding keep_endpoint_def by (intro on_ok_rules)

lemma remove_endpoint_inv [on_ok_rules]: "store_inv db \<Longrightarrow> on_ok store_inv (remove_endpoint busy r db)"
  unfolding remove_endpoint_def by (intro on_ok_rules)

lemma replace_device_endpoints_inv [on_ok_rules]:
  "store_inv db \<Longrightarrow> on_ok store_inv (replace_device_endpoints_tx ids did desired now db)"
  unfolding replace_device_endpoints_tx_def Let_def by (intro on_ok_rules)

lemma update_device_inv [on_ok_rules]:
  assumes "store_inv db" shows "store_inv (fst (update_device aid ids now k did input audit db))"
proof -
  have "on_ok store_inv (case ud_endpoints input of None \<Rightarrow> Inr db1
        | Some desired \<Rightarrow> replace_device_endpoints_tx ids did desired now db1)" if "store_inv db1" for db1
    using that by (cases "ud_endpoints input") (auto intro: replace_device_endpoints_inv)
  then show ?thesis unfolding update_device_def using assms
    by (intro on_ok_rules) (auto simp: image_upd_where_same)
qed

lemma delete_device_op_inv [on_ok_rules]:
  "store_inv db \<Longrightarrow> store_inv (fst (delete_device_op aid now k did audit db))"
  unfolding delete_device_op_def by (intro on_ok_rules)

section \<open>What is created is what is read\<close>

lemma find_key:
  assumes "distinct (map g xs)" "x \<in> set xs"
  shows "List.find (\<lambda>y. g y = g x) xs = Some x"
  using row_where_key[of g xs x "\<lambda>y. g y = g x"] assms by (simp add: row_where_def)

lemma distinct_order_desc: "distinct (map g (order_desc f t)) = distinct (map g t)"
  by (simp add: order_desc_def rev_map [symmetric] distinct_map)

lemma device_keys: "store_inv db \<Longrightarrow> distinct (map d_id (t_devices db))"
  and device_projects: "store_inv db \<Longrightarrow> refs_in d_project_id (t_devices db) p_id (t_projects db)"
  and endpoint_devices: "store_inv db \<Longrightarrow> refs_in e_device_id (t_endpoints db) d_id (t_devices db)"
  and endpoint_keys: "store_inv db \<Longrightarrow> distinct (map e_id (t_endpoints db))"
  by (simp_all add: store_inv_def db_ok_def rules_defs)

text \<open>Reading a stored device gives its row with its endpoints.\<close>

lemma device_by_id_row:
  assumes inv: "store_inv db" and r: "r \<in> set (t_devices db)"
  shows "device_by_id (d_project_id r) (d_id r) db = Inr (device_of_row db r)"
proof -
  have "d_project_id r \<in> p_id ` set (t_projects db)"
    using device_projects[OF inv] r by (auto simp: refs_in_def)
  then have "\<exists>p\<in>set (t_projects db). p_id p = d_project_id r" by auto
  then have "count_where (\<lambda>p. p_id p = d_project_id r) (t_projects db) \<noteq> 0"
    unfolding count_where_0_iff by blast
  then have proj: "project_networks_of (d_project_id r) db = Inr (project_networks (d_project_id r) db)"
    unfolding project_networks_of_def by (simp only: demand_eq attempt_simps not_False_eq_True)
  let ?rows = "order_desc (\<lambda>r. time_text (d_created_at r)) (filter (\<lambda>x. d_project_id x = d_project_id r) (t_devices db))"
  have "distinct (map d_id ?rows)"
    using device_keys[OF inv] by (simp add: distinct_order_desc distinct_map_filter)
  then have "distinct (map dv_id (map (device_of_row db) ?rows))"
    by (simp add: device_of_row_def comp_def)
  moreover have "device_of_row db r \<in> set (map (device_of_row db) ?rows)" using r by simp
  ultimately have "List.find (\<lambda>y. dv_id y = dv_id (device_of_row db r)) (map (device_of_row db) ?rows)
      = Some (device_of_row db r)" by (rule find_key)
  then show ?thesis
    by (simp add: device_by_id_def list_devices_def proj device_of_row_def)
qed

definition inserted_endpoint :: "(nat \<Rightarrow> string) \<Rightarrow> string \<Rightarrow> instant \<Rightarrow> nat \<times> create_endpoint_input \<Rightarrow> endpoint_row" where
  "inserted_endpoint ids did now = (\<lambda>(n, i). new_endpoint_row (if ce_id i = '''' then ids n else ce_id i) did now i)"

lemma each_insert_endpoint:
  "each (insert_endpoint ids did now) xs db = Inr db' \<Longrightarrow>
     db' = db\<lparr>t_endpoints := t_endpoints db @ map (inserted_endpoint ids did now) xs\<rparr>"
proof (induction xs arbitrary: db)
  case (Cons x xs)
  let ?db1 = "db\<lparr>t_endpoints := t_endpoints db @ [inserted_endpoint ids did now x]\<rparr>"
  have "each (insert_endpoint ids did now) xs ?db1 = Inr db'"
    using Cons.prems by (cases x) (auto simp: attempt_Inr_iff insert_endpoint_def inserted_endpoint_def put_Inr)
  from Cons.IH[OF this] show ?case by simp
qed simp

lemma insert_device_tx_effect:
  assumes "insert_device_tx did aid ids now k input audit db = Inr (d, db')"
  shows "\<exists>entry. db' = db\<lparr>t_devices := t_devices db @ [new_device_row did k now input],
      t_endpoints := t_endpoints db @ map (inserted_endpoint ids did now) (enumerate 0 (cd_endpoints input)),
      t_audit_logs := t_audit_logs db @ [entry]\<rparr>"
    and "holds (devices_rules db (t_devices db @ [new_device_row did k now input]))"
  using assms unfolding insert_device_tx_def
  by (auto simp: attempt_Inr_iff put_Inr dest!: insert_audit_Inr each_insert_endpoint)

lemma insert_device_tx_inv_Inr:
  "insert_device_tx did aid ids now k input audit db = Inr (d, db') \<Longrightarrow> store_inv db \<Longrightarrow> store_inv db'"
  using insert_device_tx_inv[of db did aid ids now k input audit] by (simp add: keeps_inv_def)

lemma endpoint_of_inserted: "endpoint_of_row (inserted_endpoint ids did now x) = created_endpoint ids x"
  by (cases x) (simp add: inserted_endpoint_def created_endpoint_def endpoint_of_row_def new_endpoint_row_def)

lemma inserted_endpoint_fields [simp]:
  "e_device_id (inserted_endpoint ids did now x) = did" "e_created_at (inserted_endpoint ids did now x) = now"
  by (cases x; simp add: inserted_endpoint_def new_endpoint_row_def)+

lemma order_asc_const: "(\<And>x. x \<in> set t \<Longrightarrow> f x = c) \<Longrightarrow> order_asc f t = t"
  unfolding order_asc_def
  by (rule sort_key_id_if_sorted) (simp add: map_replicate_const cong: map_cong)

lemma insert_device_tx_new:
  assumes ok: "insert_device_tx did aid ids now k input audit db = Inr (d, db')" and inv: "store_inv db"
  shows "\<exists>r\<in>set (t_devices db'). d_id r = did \<and> d_project_id r = k \<and> d_host r = cd_host input
    \<and> d = device_of_row db' r"
proof -
  let ?r = "new_device_row did k now input"
  obtain entry where db': "db' = db\<lparr>t_devices := t_devices db @ [?r],
      t_endpoints := t_endpoints db @ map (inserted_endpoint ids did now) (enumerate 0 (cd_endpoints input)),
      t_audit_logs := t_audit_logs db @ [entry]\<rparr>"
    using insert_device_tx_effect[OF ok] by blast
  have "did \<notin> d_id ` set (t_devices db)"
    using insert_device_tx_effect(2)[OF ok] by (simp add: rules_defs new_device_row_def)
  then have "filter (\<lambda>x. e_device_id x = did) (t_endpoints db) = []"
    using endpoint_devices[OF inv] by (auto simp: filter_empty_conv refs_in_def)
  moreover have asc: "order_asc (\<lambda>r. time_text (e_created_at r)) (map (inserted_endpoint ids did now) xs)
      = map (inserted_endpoint ids did now) xs" for xs
    by (rule order_asc_const[where c = "time_text now"]) auto
  ultimately have "device_endpoints did db' = map (created_endpoint ids) (enumerate 0 (cd_endpoints input))"
    using asc by (auto simp: device_endpoints_def db' filter_map comp_def endpoint_of_inserted filter_empty_conv)
  moreover have "dv_id d = did" "dv_project_id d = k" "dv_host d = cd_host input" "dv_name d = cd_name input"
    "dv_device_type d = cd_device_type input" "dv_vendor d = cd_vendor input" "dv_source d = cd_source input"
    "dv_status d = ''unknown''" "dv_last_seen_at d = None" "dv_created_at d = now" "dv_updated_at d = now"
    "dv_endpoints d = map (created_endpoint ids) (enumerate 0 (cd_endpoints input))"
    using ok by (auto simp: insert_device_tx_def attempt_Inr_iff)
  ultimately have "d = device_of_row db' ?r" by (simp add: device_of_row_def new_device_row_def)
  then show ?thesis by (intro bexI[of _ ?r]) (simp_all add: db' new_device_row_def)
qed

lemma insert_device_tx_frame:
  assumes ok: "insert_device_tx did aid ids now k input audit db = Inr (d, db')" and inv: "store_inv db"
    and r: "r \<in> set (t_devices db)"
  shows "r \<in> set (t_devices db') \<and> device_of_row db' r = device_of_row db r"
proof -
  have "did \<notin> d_id ` set (t_devices db)"
    using insert_device_tx_effect(2)[OF ok] by (simp add: rules_defs new_device_row_def)
  then have "did \<noteq> d_id r" using r by blast
  then show ?thesis using insert_device_tx_effect(1)[OF ok] r
    by (auto simp: device_of_row_def device_endpoints_def filter_map comp_def)
qed

lemma list_all2_right: "list_all2 P xs ys \<Longrightarrow> y \<in> set ys \<Longrightarrow> \<exists>x. P x y"
  by (induction rule: list_all2_induct) auto

lemma insert_devices_read_back:
  assumes "insert_devices ids n k inputs audit db = Inr (ds, db')" and "store_inv db"
  shows "list_all2 (\<lambda>input d. dv_host d = cd_host input \<and> (\<exists>r\<in>set (t_devices db'). d_id r = dv_id d
      \<and> d_project_id r = k \<and> d = device_of_row db' r)) inputs ds
    \<and> (\<forall>r\<in>set (t_devices db). r \<in> set (t_devices db') \<and> device_of_row db' r = device_of_row db r)"
  using assms
proof (induction inputs arbitrary: n db ds)
  case (Cons input inputs)
  obtain d db1 ds1 where one: "insert_device_tx (di_device (ids n)) (di_audit (ids n)) (di_endpoint (ids n))
       (di_now (ids n)) k input audit db = Inr (d, db1)"
    and rest: "insert_devices ids (Suc n) k inputs audit db1 = Inr (ds1, db')" and ds: "ds = d # ds1"
    using Cons.prems(1) by (auto simp: attempt_Inr_iff)
  note inv1 = insert_device_tx_inv_Inr[OF one Cons.prems(2)]
  note IH = Cons.IH[OF rest inv1]
  obtain r where r: "r \<in> set (t_devices db1)" "d_project_id r = k" "d_host r = cd_host input"
      "d = device_of_row db1 r"
    using insert_device_tx_new[OF one Cons.prems(2)] by blast
  then have "r \<in> set (t_devices db')" "d = device_of_row db' r" using IH by auto
  moreover from this r have "dv_host d = cd_host input" "d_id r = dv_id d" by (simp_all add: device_of_row_def)
  ultimately show ?case using IH r(2) insert_device_tx_frame[OF one Cons.prems(2)] unfolding ds by auto
qed simp

text \<open>An import batch that succeeds creates every device of the batch: the devices it returns are in
the order of the inputs, have their hosts, and each of them is what reading it back by its id gives, with
all its endpoints; no later row of the batch disturbs an earlier one.\<close>

theorem import_batch_read_back:
  assumes inv: "store_inv db" and ok: "create_devices ids k inputs audit db = (db', Inr ds)"
  shows "map dv_host ds = map cd_host inputs \<and> list_all (\<lambda>d. device_by_id k (dv_id d) db' = Inr d) ds"
proof -
  have run: "insert_devices ids 0 k inputs audit db = Inr (ds, db')"
    using ok by (simp add: create_devices_def run_tx_Inr_iff)
  have inv': "store_inv db'" using create_devices_inv[OF inv, of ids k inputs audit] ok by simp
  note rb = conjunct1[OF insert_devices_read_back[OF run inv]]
  have "map dv_host ds = map cd_host inputs"
    using rb by (induction rule: list_all2_induct) auto
  moreover have "device_by_id k (dv_id d) db' = Inr d" if d: "d \<in> set ds" for d
  proof -
    obtain r where "r \<in> set (t_devices db')" "d_id r = dv_id d" "d_project_id r = k" "d = device_of_row db' r"
      using list_all2_right[OF rb d] by blast
    then show ?thesis using device_by_id_row[OF inv'] by metis
  qed
  ultimately show ?thesis by (simp add: list_all_iff)
qed

definition demo_endpoint_input :: "string \<Rightarrow> string \<Rightarrow> int \<Rightarrow> create_endpoint_input" where
  "demo_endpoint_input eid proto port = \<lparr>ce_id = eid, ce_is_new = False, ce_name = proto,
     ce_protocol = proto, ce_target_port = port, ce_tls_server_name = '''', ce_credential_ref = '''',
     ce_ssh_credential = None, ce_ssh_auth_method = '''', ce_ssh_username = '''',
     ce_ssh_key_path = '''', ce_ssh_host_key_fingerprint = ''''\<rparr>"

definition demo_device_input :: "string \<Rightarrow> create_endpoint_input list \<Rightarrow> create_device_input" where
  "demo_device_input host eps = \<lparr>cd_host = host, cd_name = ''x'', cd_device_type = ''other'',
     cd_vendor = '''', cd_source = ''manual'', cd_endpoints = eps\<rparr>"

definition demo_ids :: "string \<Rightarrow> nat \<Rightarrow> string" where
  "demo_ids s n = s @ nat_text n"

definition demo_device_ids :: "nat \<Rightarrow> device_ids" where
  "demo_device_ids n = \<lparr>di_device = demo_ids ''dev'' n, di_audit = demo_ids ''aud'' n,
     di_endpoint = (\<lambda>m. demo_ids ''ep'' n @ demo_ids ''-'' m), di_now = 5\<rparr>"

definition demo_batch :: "create_device_input list" where
  "demo_batch = [demo_device_input ''10.0.0.6'' [demo_endpoint_input '''' ''ssh'' 22, demo_endpoint_input '''' ''tcp'' 22],
     demo_device_input ''10.0.0.7'' [demo_endpoint_input '''' ''https'' 443]]"

theorem import_batch_read_back_witness:
  "map dv_host (projr (snd (create_devices demo_device_ids ''p1'' demo_batch demo_audit demo_db)))
     = [''10.0.0.6'', ''10.0.0.7'']"
proof -
  let ?r = "create_devices demo_device_ids ''p1'' demo_batch demo_audit demo_db"
  have "succeeded ?r" by code_simp
  then have "?r = (fst ?r, Inr (projr (snd ?r)))" by (cases ?r; cases "snd ?r") (auto simp: succeeded_def)
  from import_batch_read_back[OF demo_inv this] show ?thesis
    by (simp add: demo_batch_def demo_device_input_def)
qed

section \<open>What a verification leaves\<close>

lemma mark_endpoint_keys [simp]:
  "e_id (mark_endpoint now ok r) = e_id r" "e_device_id (mark_endpoint now ok r) = e_device_id r"
  by (simp_all add: mark_endpoint_def)

definition marked :: "string \<Rightarrow> instant \<Rightarrow> (string \<times> bool) list \<Rightarrow> endpoint_row \<Rightarrow> endpoint_row" where
  "marked did now sts r = (case map_of sts (e_id r) of None \<Rightarrow> r
     | Some ok \<Rightarrow> if e_device_id r = did then mark_endpoint now ok r else r)"

lemma map_filter_upd_where:
  "(\<And>r. g (f r) = g r) \<Longrightarrow> (\<And>r. Q (f r) = Q r) \<Longrightarrow>
     map g (filter Q (upd_where P f t)) = map g (filter Q t)"
  by (induction t) (simp_all add: upd_where_def)

lemma each_set_verification:
  assumes "each (set_verification did now) sts db = Inr db'" and "distinct (map fst sts)"
  shows "db' = db\<lparr>t_endpoints := map (marked did now sts) (t_endpoints db)\<rparr>
    \<and> fst ` set sts \<subseteq> e_id ` {r \<in> set (t_endpoints db). e_device_id r = did}"
  using assms
proof (induction sts arbitrary: db)
  case Nil
  then show ?case by (auto simp: marked_def)
next
  case (Cons x sts)
  obtain eid ok where x: "x = (eid, ok)" by (cases x)
  let ?P = "\<lambda>r. e_id r = eid \<and> e_device_id r = did"
  let ?db1 = "update_endpoints ?P (mark_endpoint now ok) db"
  have one: "count_where ?P (t_endpoints db) = 1" and rest: "each (set_verification did now) sts ?db1 = Inr db'"
    using Cons.prems(1) by (auto simp: x attempt_Inr_iff set_verification_def)
  note IH = Cons.IH[OF rest]
  have fresh: "eid \<notin> fst ` set sts" and dist: "distinct (map fst sts)" using Cons.prems(2) x by auto
  have none: "map_of sts eid = None" using fresh by (simp add: map_of_eq_None_iff)
  have step: "marked did now sts (if ?P r then mark_endpoint now ok r else r) = marked did now (x # sts) r" for r
    using none by (auto simp: marked_def x split: option.splits)
  have "e_id ` {r \<in> set (t_endpoints ?db1). e_device_id r = did} = e_id ` {r \<in> set (t_endpoints db). e_device_id r = did}"
    using arg_cong[OF map_filter_upd_where[where g = e_id and Q = "\<lambda>r. e_device_id r = did"
        and f = "mark_endpoint now ok" and P = ?P and t = "t_endpoints db"], of set]
    by (simp add: update_endpoints_def)
  moreover have "eid \<in> e_id ` {r \<in> set (t_endpoints db). e_device_id r = did}"
    using count_where_1_ex[OF one] by auto
  moreover have "map (marked did now sts) (t_endpoints ?db1) = map (marked did now (x # sts)) (t_endpoints db)"
    using step by (simp add: update_endpoints_def upd_where_def del: map_eq_conv) (simp only: comp_def)
  moreover have "db' = ?db1\<lparr>t_endpoints := map (marked did now sts) (t_endpoints ?db1)\<rparr>"
    and "fst ` set sts \<subseteq> e_id ` {r \<in> set (t_endpoints ?db1). e_device_id r = did}"
    using IH[OF dist] by blast+
  ultimately show ?case by (simp add: x update_endpoints_def)
qed

text \<open>A verification that succeeds leaves no stale result: every endpoint of the device then has the
status of this probe, \<open>verified\<close> exactly when the probe reached it.\<close>

theorem verification_covers_device:
  assumes inv: "store_inv db" and dist: "distinct (map fst statuses)"
    and ok: "succeeded (verify_device_endpoints aid now k did statuses audit db)"
    and e: "e \<in> set (t_endpoints (fst (verify_device_endpoints aid now k did statuses audit db)))"
    and mine: "e_device_id e = did"
  shows "\<exists>reached. (e_id e, reached) \<in> set statuses
    \<and> e_verification_status e = (if reached then ''verified'' else ''failed'')"
proof -
  let ?r = "verify_device_endpoints aid now k did statuses audit db"
  have eff: "fst ?r = db \<and> \<not> succeeded ?r \<or> endpoints_of_device k did db \<noteq> []
      \<and> length statuses = length (endpoints_of_device k did db)
      \<and> t_endpoints (fst ?r) = map (marked did now statuses) (t_endpoints db)
      \<and> fst ` set statuses \<subseteq> e_id ` {r \<in> set (t_endpoints db). e_device_id r = did}"
  proof (cases "statuses = []")
    case True
    then show ?thesis by (simp add: verify_device_endpoints_def succeeded_def)
  next
    case False
    then show ?thesis unfolding verify_device_endpoints_def Let_def if_not_P[OF False]
      by (intro tx_effect_after_commit)
         (auto simp: attempt_Inr_iff update_devices_def dest!: insert_audit_Inr each_set_verification[OF _ dist])
  qed
  then have ne: "endpoints_of_device k did db \<noteq> []" and len: "length statuses = length (endpoints_of_device k did db)"
    and rows: "t_endpoints (fst ?r) = map (marked did now statuses) (t_endpoints db)"
    and sub: "fst ` set statuses \<subseteq> e_id ` {r \<in> set (t_endpoints db). e_device_id r = did}"
    using ok by auto
  let ?mine = "filter (\<lambda>r. e_device_id r = did) (t_endpoints db)"
  have "distinct (map e_id ?mine)" using endpoint_keys[OF inv] by (simp add: distinct_map_filter)
  then have "card (e_id ` set ?mine) = length ?mine" by (metis distinct_card length_map list.set_map)
  moreover have "endpoints_of_device k did db = ?mine"
    using ne by (cases "exists_row (\<lambda>d. d_id d = did \<and> d_project_id d = k) (t_devices db)")
       (simp_all add: endpoints_of_device_def del: exists_row_iff)
  moreover have "card (fst ` set statuses) = length statuses" using dist by (metis distinct_card length_map list.set_map)
  ultimately have all: "fst ` set statuses = e_id ` set ?mine"
    using sub len by (intro card_subset_eq) auto
  obtain r where r: "r \<in> set (t_endpoints db)" "e = marked did now statuses r" using e rows by auto
  then have "r \<in> set ?mine" "e_id e = e_id r" using mine by (auto simp: marked_def split: option.splits if_splits)
  then obtain reached where "map_of statuses (e_id r) = Some reached"
    using all map_of_eq_None_iff[of statuses "e_id r"] by (cases "map_of statuses (e_id r)") auto
  then show ?thesis using r \<open>r \<in> set ?mine\<close> \<open>e_id e = e_id r\<close>
    by (intro exI[of _ reached]) (auto simp: marked_def mark_endpoint_def dest: map_of_SomeD)
qed

theorem verification_covers_device_witness:
  "\<exists>reached. (''e2'', reached) \<in> set [(''e2'', True), (''e1'', False)]
     \<and> ''verified'' = (if reached then ''verified'' else ''failed'')"
proof -
  let ?r = "verify_device_endpoints ''x'' 9 ''p1'' ''d1'' [(''e2'', True), (''e1'', False)] demo_audit demo_db"
  let ?e = "mark_endpoint 9 True (demo_endpoint ''e2'' ''http'' 80 ''web_proxy'')"
  have "t_endpoints (fst ?r) = [mark_endpoint 9 False (demo_endpoint ''e1'' ''ssh'' 22 ''web_ssh''), ?e]"
    by code_simp
  then have e: "?e \<in> set (t_endpoints (fst ?r))" by simp
  have "succeeded ?r" by code_simp
  from verification_covers_device[OF demo_inv _ this e] show ?thesis
    by (simp add: demo_endpoint_def mark_endpoint_def)
qed

section \<open>Endpoints in use\<close>

text \<open>What an update must not disturb: the endpoint, its port forwards and its sessions.\<close>

definition endpoint_intact :: "string \<Rightarrow> endpoint_row \<Rightarrow> db \<Rightarrow> db \<Rightarrow> bool" where
  "endpoint_intact did e db db' \<longleftrightarrow>
     (\<exists>e'\<in>set (t_endpoints db'). e_id e' = e_id e \<and> e_device_id e' = did
        \<and> e_protocol e' = e_protocol e \<and> e_target_port e' = e_target_port e)
     \<and> filter (\<lambda>f. pf_endpoint_id f = e_id e) (t_forwards db')
         = filter (\<lambda>f. pf_endpoint_id f = e_id e) (t_forwards db)
     \<and> filter (\<lambda>s. acs_endpoint_id s = e_id e) (t_access_sessions db')
         = filter (\<lambda>s. acs_endpoint_id s = e_id e) (t_access_sessions db)"

lemma each_keeps:
  assumes "each f xs s = Inr s'" "Q s" "\<And>x s s'. x \<in> set xs \<Longrightarrow> f x s = Inr s' \<Longrightarrow> Q s \<Longrightarrow> Q s'"
  shows "Q s'"
  using on_ok_each[of xs Q f s] assms by (auto simp: on_ok_iff)

lemma each_keep_endpoint:
  "each (keep_endpoint now ex) xs db = Inr db' \<Longrightarrow> db' = db \<and>
    (\<forall>i\<in>set xs. \<not> (kept_endpoint ex i \<and> endpoint_busy now db (ce_id i)
         \<and> exists_row (\<lambda>r. e_id r = ce_id i \<and> (e_protocol r \<noteq> ce_protocol i
             \<or> e_target_port r \<noteq> ce_target_port i)) ex))"
  by (induction xs arbitrary: db) (auto simp: attempt_Inr_iff keep_endpoint_def)

lemma each_remove_not_busy:
  "each (remove_endpoint busy) xs db = Inr db' \<Longrightarrow> r \<in> set xs \<Longrightarrow> \<not> busy (e_id r)"
  by (induction xs arbitrary: db) (auto simp: attempt_Inr_iff remove_endpoint_def)

lemma filter_del_where: "(\<And>x. x \<in> set t \<Longrightarrow> P x \<Longrightarrow> \<not> Q x) \<Longrightarrow> filter Q (del_where P t) = filter Q t"
  by (induction t) (auto simp: del_where_def)

lemma remove_endpoint_intact:
  assumes "remove_endpoint busy r s = Inr s'" "e_id r \<noteq> e_id e" "endpoint_intact did e db s"
  shows "endpoint_intact did e db s'"
proof -
  have s': "s' = delete_endpoints (\<lambda>x. e_id x = e_id r) s"
    using assms(1) by (simp add: remove_endpoint_def attempt_Inr_iff)
  have "filter (\<lambda>f. pf_endpoint_id f = e_id e) (t_forwards s') = filter (\<lambda>f. pf_endpoint_id f = e_id e) (t_forwards s)"
    and "filter (\<lambda>x. acs_endpoint_id x = e_id e) (t_access_sessions s')
      = filter (\<lambda>x. acs_endpoint_id x = e_id e) (t_access_sessions s)"
    unfolding s' delete_endpoints_def Let_def
    using assms(2) by (simp, intro filter_del_where, auto)+
  then show ?thesis using assms(2,3) by (auto simp: endpoint_intact_def s' delete_endpoints_def Let_def)
qed

lemma write_endpoint_intact:
  assumes w: "write_endpoint ids did now (n, i) s = Inr s'"
    and same: "ce_id i = e_id e \<Longrightarrow> ce_protocol i = e_protocol e \<and> ce_target_port i = e_target_port e"
    and ok: "endpoint_intact did e db s"
  shows "endpoint_intact did e db s'"
proof (cases "ce_id i = ''''")
  case True
  then show ?thesis using w ok by (auto simp: write_endpoint_def put_Inr endpoint_intact_def)
next
  case False
  then have s': "s' = s\<lparr>t_endpoints := upd_where (\<lambda>r. e_id r = ce_id i \<and> e_device_id r = did)
            (apply_endpoint_input now i) (t_endpoints s)\<rparr>"
    using w by (simp add: write_endpoint_def put_Inr)
  obtain e' where "e' \<in> set (t_endpoints s)" "e_id e' = e_id e" "e_device_id e' = did"
      "e_protocol e' = e_protocol e" "e_target_port e' = e_target_port e"
    using ok by (auto simp: endpoint_intact_def)
  then have "\<exists>r\<in>set (t_endpoints s). if e_id r = ce_id i \<and> e_device_id r = did
     then e_id (apply_endpoint_input now i r) = e_id e \<and> e_device_id (apply_endpoint_input now i r) = did
        \<and> e_protocol (apply_endpoint_input now i r) = e_protocol e
        \<and> e_target_port (apply_endpoint_input now i r) = e_target_port e
     else e_id r = e_id e \<and> e_device_id r = did \<and> e_protocol r = e_protocol e \<and> e_target_port r = e_target_port e"
    using same by (intro bexI[of _ e']) (simp_all add: apply_endpoint_input_def Let_def)
  then have "\<exists>x\<in>set (t_endpoints s'). e_id x = e_id e \<and> e_device_id x = did
        \<and> e_protocol x = e_protocol e \<and> e_target_port x = e_target_port e"
    by (simp add: s' bex_upd_where)
  then show ?thesis using ok unfolding endpoint_intact_def by (simp add: s')
qed

lemma replace_endpoints_intact:
  assumes r: "replace_device_endpoints_tx ids did desired now s = Inr s'"
    and e: "e \<in> set (t_endpoints s)" "e_device_id e = did" "endpoint_busy now s (e_id e)"
    and new: "\<forall>i\<in>set desired. ce_is_new i \<longrightarrow> ce_id i \<noteq> e_id e"
    and ok: "endpoint_intact did e db s"
  shows "endpoint_intact did e db s'"
proof -
  let ?ex = "filter (\<lambda>r. e_device_id r = did) (t_endpoints s)"
  let ?kept = "map ce_id (filter (kept_endpoint ?ex) desired)"
  obtain s1 where checks: "\<forall>i\<in>set desired. \<not> (kept_endpoint ?ex i \<and> endpoint_busy now s (ce_id i)
         \<and> exists_row (\<lambda>r. e_id r = ce_id i \<and> (e_protocol r \<noteq> ce_protocol i
             \<or> e_target_port r \<noteq> ce_target_port i)) ?ex)"
    and rem: "each (remove_endpoint (endpoint_busy now s)) (filter (\<lambda>r. e_id r \<notin> set ?kept) ?ex) s = Inr s1"
    and wr: "each (write_endpoint ids did now) (enumerate 0 desired) s1 = Inr s'"
    using r unfolding replace_device_endpoints_tx_def Let_def
    by (auto simp only: attempt_Inr_iff dest!: each_keep_endpoint)
  have "e \<in> set ?ex" using e by simp
  then have "e_id e \<in> set ?kept" using each_remove_not_busy[OF rem, of e] e(3) by auto
  then have "e_id e \<noteq> ''''" by (auto simp: kept_endpoint_def)
  have same: "ce_protocol i = e_protocol e \<and> ce_target_port i = e_target_port e"
    if "i \<in> set desired" "ce_id i = e_id e" for i
  proof -
    have "kept_endpoint ?ex i"
      using that new \<open>e \<in> set ?ex\<close> \<open>e_id e \<noteq> ''''\<close> by (auto simp: kept_endpoint_def)
    then show ?thesis using checks that e by fastforce
  qed
  have "endpoint_intact did e db s1"
    using rem ok
  proof (rule each_keeps)
    fix x s s' assume "x \<in> set (filter (\<lambda>r. e_id r \<notin> set ?kept) ?ex)" "remove_endpoint (endpoint_busy now s) x s = Inr s'"
  qed (use \<open>e_id e \<in> set ?kept\<close> in \<open>auto intro: remove_endpoint_intact\<close>)
  from wr this show ?thesis
  proof (rule each_keeps)
    fix x s s' assume x: "x \<in> set (enumerate 0 desired)" "write_endpoint ids did now x s = Inr s'"
      "endpoint_intact did e db s"
    then have "snd x \<in> set desired" by (auto simp: in_set_enumerate_eq) (metis nth_mem)
    then show "endpoint_intact did e db s'"
      using write_endpoint_intact[of ids did now "fst x" "snd x" s s' e db] same[of "snd x"] x by simp
  qed
qed

lemma update_device_cases:
  "fst (update_device aid ids now k did input audit db) = db
     \<and> \<not> succeeded (update_device aid ids now k did input audit db)
   \<or> (\<exists>devs db2 entry. (case ud_endpoints input of None \<Rightarrow> Inr (db\<lparr>t_devices := devs\<rparr>)
        | Some desired \<Rightarrow> replace_device_endpoints_tx ids did desired now (db\<lparr>t_devices := devs\<rparr>)) = Inr db2
      \<and> fst (update_device aid ids now k did input audit db) = db2\<lparr>t_audit_logs := t_audit_logs db2 @ [entry]\<rparr>)"
  unfolding update_device_def
  by (rule tx_effect_after_commit) (fastforce simp: attempt_Inr_iff put_Inr dest!: insert_audit_Inr)

text \<open>C28. Saving a device never disturbs an endpoint that is in use (it has a port forward, or an active
and unexpired access session): whatever list of endpoints is saved, and whether the call succeeds or
fails, the endpoint is still there with its protocol and port, and all its forwards and sessions too.\<close>

theorem busy_endpoint_kept:
  assumes e: "e \<in> set (t_endpoints db)" "e_device_id e = did" and busy: "endpoint_busy now db (e_id e)"
    and desired: "ud_endpoints input = Some desired"
    and new: "\<forall>i\<in>set desired. ce_is_new i \<longrightarrow> ce_id i \<noteq> e_id e"
  shows "endpoint_intact did e db (fst (update_device aid ids now k did input audit db))"
  using update_device_cases[of aid ids now k did input audit db]
proof (elim disjE exE conjE)
  assume "fst (update_device aid ids now k did input audit db) = db"
  then show ?thesis using e by (auto simp: endpoint_intact_def)
next
  fix devs db2 entry
  assume r: "(case ud_endpoints input of None \<Rightarrow> Inr (db\<lparr>t_devices := devs\<rparr>)
        | Some desired \<Rightarrow> replace_device_endpoints_tx ids did desired now (db\<lparr>t_devices := devs\<rparr>)) = Inr db2"
    and db': "fst (update_device aid ids now k did input audit db) = db2\<lparr>t_audit_logs := t_audit_logs db2 @ [entry]\<rparr>"
  have "endpoint_intact did e db (db\<lparr>t_devices := devs\<rparr>)" using e by (auto simp: endpoint_intact_def)
  moreover have "endpoint_busy now (db\<lparr>t_devices := devs\<rparr>) (e_id e)" using busy by (simp add: endpoint_busy_def)
  ultimately have "endpoint_intact did e db db2"
    using replace_endpoints_intact[of ids did desired now "db\<lparr>t_devices := devs\<rparr>" db2 e db] r desired new e by simp
  then show ?thesis by (simp add: db' endpoint_intact_def)
qed

definition demo_update :: "create_endpoint_input list \<Rightarrow> update_device_input" where
  "demo_update eps = \<lparr>ud_host = '''', ud_name = ''gw2'', ud_device_type = ''other'', ud_vendor = '''',
     ud_endpoints = Some eps\<rparr>"

theorem busy_endpoint_kept_witness:
  "endpoint_intact ''d1'' (demo_endpoint ''e2'' ''http'' 80 ''web_proxy'') demo_db
     (fst (update_device ''x'' (demo_ids ''n'') 9 ''p1'' ''d1'' (demo_update [demo_endpoint_input ''e2'' ''http'' 80,
        demo_endpoint_input '''' ''tcp'' 99]) demo_audit demo_db))"
proof (rule busy_endpoint_kept[where desired = "[demo_endpoint_input ''e2'' ''http'' 80,
        demo_endpoint_input '''' ''tcp'' 99]"])
  show "endpoint_busy 9 demo_db (e_id (demo_endpoint ''e2'' ''http'' 80 ''web_proxy''))" by code_simp
qed (simp_all add: demo_defs demo_update_def demo_endpoint_input_def)

text \<open>An endpoint input that carries an id is only ever an update: saving a device never creates an
endpoint with the id of an input, even when the input is marked as new. (Inputs without an id draw a
fresh one.) The SSH preparation of the HTTP layer gives new endpoints an id, and those are lost.\<close>

theorem input_with_id_not_created:
  assumes id: "ce_id i \<noteq> ''''" and absent: "ce_id i \<notin> e_id ` set (t_endpoints db)"
    and fresh: "\<And>n. ids n \<noteq> ce_id i"
  shows "ce_id i \<notin> e_id ` set (t_endpoints (fst (update_device aid ids now k did input audit db)))"
proof -
  have keep: "ce_id i \<notin> e_id ` set (t_endpoints s')"
    if "each (write_endpoint ids did now) xs s = Inr s'" "ce_id i \<notin> e_id ` set (t_endpoints s)" for xs s s'
    using that
  proof (rule each_keeps)
    fix x s s' assume "write_endpoint ids did now x s = Inr s'" "ce_id i \<notin> e_id ` set (t_endpoints s)"
    then show "ce_id i \<notin> e_id ` set (t_endpoints s')"
      using fresh[of "fst x"] fresh[of "fst x", symmetric]
      by (cases x) (auto simp: write_endpoint_def put_Inr image_upd_where_same apply_endpoint_input_def
          Let_def new_endpoint_row_def split: if_splits)
  qed
  have sub: "set (t_endpoints s') \<subseteq> set (t_endpoints s)" if "each (remove_endpoint b) xs s = Inr s'" for b xs s s'
    using that
  proof (rule each_keeps)
    show "\<And>x sa s'. remove_endpoint b x sa = Inr s' \<Longrightarrow> set (t_endpoints sa) \<subseteq> set (t_endpoints s)
        \<Longrightarrow> set (t_endpoints s') \<subseteq> set (t_endpoints s)"
      by (auto simp: remove_endpoint_def attempt_Inr_iff delete_endpoints_def Let_def)
  qed simp
  have rep: "ce_id i \<notin> e_id ` set (t_endpoints s')"
    if r: "replace_device_endpoints_tx ids did desired now s = Inr s'" and a: "ce_id i \<notin> e_id ` set (t_endpoints s)"
    for desired s s'
  proof -
    obtain b xs s1 where rem: "each (remove_endpoint b) xs s = Inr s1"
      and wr: "each (write_endpoint ids did now) (enumerate 0 desired) s1 = Inr s'"
      using r unfolding replace_device_endpoints_tx_def Let_def attempt_Inr_iff
      by (blast dest!: each_keep_endpoint)
    show ?thesis using keep[OF wr] sub[OF rem] a by blast
  qed
  show ?thesis using update_device_cases[of aid ids now k did input audit db]
  proof (elim disjE exE conjE)
    fix devs db2 entry
    assume r: "(case ud_endpoints input of None \<Rightarrow> Inr (db\<lparr>t_devices := devs\<rparr>)
        | Some desired \<Rightarrow> replace_device_endpoints_tx ids did desired now (db\<lparr>t_devices := devs\<rparr>)) = Inr db2"
      and db': "fst (update_device aid ids now k did input audit db) = db2\<lparr>t_audit_logs := t_audit_logs db2 @ [entry]\<rparr>"
    then show ?thesis using absent rep[of _ "db\<lparr>t_devices := devs\<rparr>" db2] by (auto split: option.splits)
  qed (use absent in simp)
qed

definition demo_new_ssh :: create_endpoint_input where
  "demo_new_ssh = (demo_endpoint_input ''e9'' ''ssh'' 2222)\<lparr>ce_is_new := True, ce_credential_ref := ''vault:ssh-e9''\<rparr>"

definition demo_ssh_update :: "db \<times> device res" where
  "demo_ssh_update = update_device ''x'' (demo_ids ''n'') 9 ''p1'' ''d1''
     (demo_update [demo_endpoint_input ''e1'' ''ssh'' 22, demo_endpoint_input ''e2'' ''http'' 80, demo_new_ssh])
     demo_audit demo_db"

theorem input_with_id_not_created_witness:
  "succeeded demo_ssh_update \<and> ''e9'' \<notin> e_id ` set (t_endpoints (fst demo_ssh_update))"
proof
  show "succeeded demo_ssh_update" by code_simp
  have "ce_id demo_new_ssh \<notin> e_id ` set (t_endpoints (fst demo_ssh_update))"
    unfolding demo_ssh_update_def
    by (rule input_with_id_not_created)
       (simp_all add: demo_new_ssh_def demo_endpoint_input_def demo_ids_def demo_defs)
  then show "''e9'' \<notin> e_id ` set (t_endpoints (fst demo_ssh_update))"
    by (simp add: demo_new_ssh_def demo_endpoint_input_def)
qed

section \<open>Deleting a device\<close>

text \<open>A device is deleted only when none of its endpoints has a port forward or an active, unexpired
session; then exactly the device goes, with its endpoints, and no port forward of any device is lost. In
every other case nothing changes.\<close>

theorem delete_device_guarded:
  "(fst (delete_device_op aid now k did audit db) = db \<and> \<not> succeeded (delete_device_op aid now k did audit db))
   \<or> (device_references now did db = 0 \<and> (let db' = fst (delete_device_op aid now k did audit db) in
       t_devices db' = filter (\<lambda>d. \<not> (d_id d = did \<and> d_project_id d = k)) (t_devices db)
       \<and> t_endpoints db' = filter (\<lambda>e. e_device_id e \<noteq> did) (t_endpoints db)
       \<and> t_forwards db' = t_forwards db \<and> t_access_logs db' = t_access_logs db))"
proof -
  have eff: "fst (delete_device_op aid now k did audit db) = db \<and> \<not> succeeded (delete_device_op aid now k did audit db)
    \<or> device_references now did db = 0
      \<and> count_where (\<lambda>d. d_id d = did \<and> d_project_id d = k) (t_devices db) = 1
      \<and> (\<exists>entry. fst (delete_device_op aid now k did audit db)
        = (delete_devices (\<lambda>d. d_id d = did \<and> d_project_id d = k) db)\<lparr>t_audit_logs :=
            t_audit_logs (delete_devices (\<lambda>d. d_id d = did \<and> d_project_id d = k) db) @ [entry]\<rparr>)"
    unfolding delete_device_op_def
    by (rule tx_effect) (auto simp: attempt_Inr_iff dest!: insert_audit_Inr)
  have "t_forwards db = del_where (\<lambda>r. pf_endpoint_id r \<in> set (map e_id
        (filter (\<lambda>r. e_device_id r \<in> set (map d_id (filter (\<lambda>d. d_id d = did \<and> d_project_id d = k) (t_devices db))))
          (t_endpoints db)))) (t_forwards db)"
    if "device_references now did db = 0"
  proof -
    have "\<forall>f\<in>set (t_forwards db). \<forall>e\<in>set (t_endpoints db). e_id e = pf_endpoint_id f \<longrightarrow> e_device_id e \<noteq> did"
      using that unfolding device_references_def by simp
    then show ?thesis unfolding del_where_def by (intro filter_True[symmetric]) fastforce
  qed
  moreover have "set (map d_id (filter (\<lambda>d. d_id d = did \<and> d_project_id d = k) (t_devices db))) = {did}"
    if "count_where (\<lambda>d. d_id d = did \<and> d_project_id d = k) (t_devices db) = 1"
    using count_where_1_ex[OF that] by auto
  ultimately show ?thesis using eff
    by (auto simp: Let_def delete_devices_def delete_endpoints_def del_where_def)
qed

end
