(* ===== verification/StoreForwards.thy ===== *)
theory StoreForwards
  imports StoreAccess StoreDevices "HOL-Library.Option_ord"
begin

text \<open>
  Port forwards: \<open>store/port_forwards.go\<close>.

  A forward binds a port of the pool of a node to one endpoint. Reserving picks the smallest free
  port (or checks the one asked for) and inserts the row as \<open>provisioning\<close>; activating it records
  the task of the node and makes it \<open>running\<close>. The UNIQUE rules of the table keep one forward per
  endpoint and one per port of a node.
\<close>

record port_forward =
  fwd_id :: string
  fwd_project_id :: string
  fwd_endpoint_id :: string
  fwd_endpoint_name :: string
  fwd_device_name :: string
  fwd_node_id :: string
  fwd_client_id :: int
  fwd_target :: string
  fwd_server_port :: int
  fwd_node_task_type :: string
  fwd_node_task_id :: "int option"
  fwd_status :: string
  fwd_expires_at :: "instant option"
  fwd_created_at :: instant
  fwd_updated_at :: instant

record reserve_forward_input =
  rf_project_id :: string
  rf_endpoint_id :: string
  rf_server_port :: int
  rf_expires_at :: "instant option"

section \<open>Reading forwards\<close>

definition forward_view :: "forward_row \<Rightarrow> endpoint_row \<Rightarrow> device_row \<Rightarrow> project_row \<Rightarrow> port_forward" where
  "forward_view f e d p = \<lparr>fwd_id = pf_id f, fwd_project_id = p_id p, fwd_endpoint_id = pf_endpoint_id f,
     fwd_endpoint_name = e_name e, fwd_device_name = d_name d, fwd_node_id = p_node_id p,
     fwd_client_id = (case p_client_id p of None \<Rightarrow> 0 | Some c \<Rightarrow> c),
     fwd_target = join_host_port (d_host d) (itoa (e_target_port e)), fwd_server_port = pf_server_port f,
     fwd_node_task_type = pf_node_task_type f, fwd_node_task_id = pf_node_task_id f,
     fwd_status = pf_status f, fwd_expires_at = pf_expires_at f, fwd_created_at = pf_created_at f,
     fwd_updated_at = pf_updated_at f\<rparr>"

text \<open>The inner join: a forward whose endpoint, device or project is missing is not listed.\<close>

definition joined_forward :: "db \<Rightarrow> forward_row \<Rightarrow> port_forward option" where
  "joined_forward db f = (case endpoint_join (pf_endpoint_id f) db of None \<Rightarrow> None
     | Some (e, d, p) \<Rightarrow> Some (forward_view f e d p))"

definition list_port_forwards :: "string \<Rightarrow> db \<Rightarrow> port_forward list" where
  "list_port_forwards k db = filter (\<lambda>v. fwd_project_id v = k)
     (List.map_filter (joined_forward db) (order_desc (\<lambda>f. time_text (pf_created_at f)) (t_forwards db)))"

definition port_forward_by_id :: "string \<Rightarrow> db \<Rightarrow> port_forward res" where
  "port_forward_by_id fid db =
     attempt (from_row (row_where (\<lambda>f. pf_id f = fid) (t_forwards db)) ErrNotFound) (\<lambda>f.
     from_row (joined_forward db f) ErrNotFound)"

text \<open>An expired forward is listed whatever the state its cleanup left it in.\<close>

definition expired_forward :: "instant \<Rightarrow> forward_row \<Rightarrow> bool" where
  "expired_forward now f \<longleftrightarrow> (case pf_expires_at f of None \<Rightarrow> False | Some t \<Rightarrow> sql_le t now)
     \<and> pf_status f \<in> {''provisioning'', ''running'', ''stopped'', ''cleanup_failed''}"

definition list_expired_port_forwards :: "instant \<Rightarrow> db \<Rightarrow> port_forward list" where
  "list_expired_port_forwards now db = List.map_filter (joined_forward db)
     (order_asc (\<lambda>f. map_option time_text (pf_expires_at f)) (filter (expired_forward now) (t_forwards db)))"

section \<open>Reserving\<close>

text \<open>\<open>for port := start; port <= end; port++\<close>.\<close>

function first_free :: "int set \<Rightarrow> int \<Rightarrow> int \<Rightarrow> int option" where
  "first_free used port stop =
     (if port > stop then None else if port \<notin> used then Some port else first_free used (port + 1) stop)"
  by auto

termination by (relation "measure (\<lambda>(used, port, stop). nat (stop + 1 - port))") auto

declare first_free.simps [simp del]

definition node_ports :: "string \<Rightarrow> db \<Rightarrow> int list" where
  "node_ports nid db = map pf_server_port (filter (\<lambda>f. pf_node_id f = Some nid) (t_forwards db))"

definition first_available_port :: "string \<Rightarrow> int \<Rightarrow> int \<Rightarrow> db \<Rightarrow> int res" where
  "first_available_port nid start stop db =
     from_row (first_free (set (node_ports nid db)) start stop) (ErrMsg ''node port pool is exhausted'')"

definition reserve_port_forward ::
  "string \<Rightarrow> string \<Rightarrow> instant \<Rightarrow> reserve_forward_input \<Rightarrow> audit_input \<Rightarrow> db \<Rightarrow> db \<times> port_forward res" where
  "reserve_port_forward fid audit_id now input audit db = run_tx db (
     attempt (endpoint_route_of (rf_endpoint_id input) db) (\<lambda>route.
     attempt (demand (rt_project_id route = rf_project_id input) ErrNotFound) (\<lambda>_.
     attempt (demand (\<not> (rt_protocol route = ''http'' \<or> rt_protocol route = ''https''))
       (ErrMsg ''web endpoints cannot create port forwards'')) (\<lambda>_.
     attempt (demand (\<not> rt_client_id route < 1) (ErrMsg ''project has no bound client'')) (\<lambda>_.
     attempt (from_row (row_where (\<lambda>n. n_id n = rt_node_id route \<and> n_enabled n) (t_nodes db)) ErrNotFound) (\<lambda>n.
     attempt (if rf_server_port input = 0
              then first_available_port (rt_node_id route) (n_port_start n) (n_port_end n) db
              else attempt (demand (\<not> (rf_server_port input < n_port_start n \<or> rf_server_port input > n_port_end n))
                     (ErrMsg ''server port is outside node port pool'')) (\<lambda>_. Inr (rf_server_port input))) (\<lambda>port.
     attempt (put_forwards (t_forwards db @ [\<lparr>pf_id = fid, pf_endpoint_id = rt_endpoint_id route,
         pf_node_id = Some (rt_node_id route), pf_node_task_type = '''', pf_node_task_id = None,
         pf_server_port = port, pf_status = ''provisioning'', pf_expires_at = rf_expires_at input,
         pf_created_at = now, pf_updated_at = now\<rparr>]) db) (\<lambda>db.
     attempt (insert_audit audit_id (audit\<lparr>ai_resource_id := fid\<rparr>) now db) (\<lambda>db.
     Inr (\<lparr>fwd_id = fid, fwd_project_id = rt_project_id route, fwd_endpoint_id = rt_endpoint_id route,
        fwd_endpoint_name = rt_endpoint_name route, fwd_device_name = rt_device_name route,
        fwd_node_id = rt_node_id route, fwd_client_id = rt_client_id route,
        fwd_target = join_host_port (rt_host route) (itoa (rt_target_port route)),
        fwd_server_port = port, fwd_node_task_type = '''', fwd_node_task_id = None,
        fwd_status = ''provisioning'', fwd_expires_at = rf_expires_at input, fwd_created_at = now,
        fwd_updated_at = now\<rparr>, db))))))))))"

section \<open>Changing a forward\<close>

definition activate_port_forward :: "instant \<Rightarrow> string \<Rightarrow> string \<Rightarrow> int \<Rightarrow> db \<Rightarrow> db \<times> unit res" where
  "activate_port_forward now fid task_type task_id db =
     (if task_type \<noteq> ''portForward'' \<or> task_id < 1
      then (db, Inl (ErrMsg ''invalid NPS port-forward task reference''))
      else let pending = (\<lambda>f. pf_id f = fid \<and> pf_status f = ''provisioning'') in
        (update_forwards pending (\<lambda>f. f\<lparr>pf_node_task_type := task_type, pf_node_task_id := Some task_id,
           pf_status := ''running'', pf_updated_at := now\<rparr>) db,
         if count_where pending (t_forwards db) \<noteq> 1 then Inl ErrNotFound else Inr ()))"

definition set_port_forward_status ::
  "string \<Rightarrow> instant \<Rightarrow> string \<Rightarrow> string \<Rightarrow> audit_input \<Rightarrow> db \<Rightarrow> db \<times> unit res" where
  "set_port_forward_status audit_id now fid status audit db = run_tx db (
     attempt (demand (count_where (\<lambda>f. pf_id f = fid) (t_forwards db) = 1) ErrNotFound) (\<lambda>_.
     attempt (insert_audit audit_id (audit\<lparr>ai_resource_id := fid\<rparr>) now
       (update_forwards (\<lambda>f. pf_id f = fid) (\<lambda>f. f\<lparr>pf_status := status, pf_updated_at := now\<rparr>) db)) (\<lambda>db.
     Inr ((), db))))"

definition delete_port_forward ::
  "string \<Rightarrow> instant \<Rightarrow> string \<Rightarrow> audit_input \<Rightarrow> db \<Rightarrow> db \<times> unit res" where
  "delete_port_forward audit_id now fid audit db = run_tx db (
     attempt (demand (count_where (\<lambda>f. pf_id f = fid) (t_forwards db) = 1) ErrNotFound) (\<lambda>_.
     attempt (insert_audit audit_id (audit\<lparr>ai_resource_id := fid\<rparr>) now
       (delete_forwards (\<lambda>f. pf_id f = fid) db)) (\<lambda>db.
     Inr ((), db))))"

section \<open>The invariant\<close>

lemma endpoint_route_frame: "attempt (endpoint_route_of e db) k = Inr x \<Longrightarrow> \<exists>r. endpoint_route_of e db = Inr r \<and> k r = Inr x"
  by (auto simp: attempt_Inr_iff)

lemma keeps_inv_attempt_any:
  "(\<And>a. m = Inr a \<Longrightarrow> keeps_inv (k a)) \<Longrightarrow> keeps_inv (attempt m k)"
  by (cases m) (auto simp: keeps_inv_def)

lemma reserve_port_forward_inv [on_ok_rules]:
  assumes "store_inv db" shows "store_inv (fst (reserve_port_forward fid aid now input audit db))"
  unfolding reserve_port_forward_def
  by (intro keeps_inv_run_tx assms, rule keeps_inv_attempt_any, rule keeps_inv_demand, rule keeps_inv_demand,
      rule keeps_inv_demand, rule keeps_inv_from_row, rule keeps_inv_attempt_any)
     (intro on_ok_rules assms)

lemma activate_port_forward_inv [on_ok_rules]:
  "store_inv db \<Longrightarrow> store_inv (fst (activate_port_forward now fid tt ti db))"
  unfolding activate_port_forward_def Let_def
  by (auto simp: forward_check_def intro!: update_forwards_inv)

lemma set_port_forward_status_inv [on_ok_rules]:
  "store_inv db \<Longrightarrow> store_inv (fst (set_port_forward_status aid now fid status audit db))"
  unfolding set_port_forward_status_def by (intro on_ok_rules) (auto simp: forward_check_def)

lemma delete_port_forward_inv [on_ok_rules]:
  "store_inv db \<Longrightarrow> store_inv (fst (delete_port_forward aid now fid audit db))"
  unfolding delete_port_forward_def by (intro on_ok_rules)

section \<open>Reserving a port\<close>

lemma first_free_Some:
  "first_free used port stop = Some q \<Longrightarrow> port \<le> q \<and> q \<le> stop \<and> q \<notin> used \<and> {port..<q} \<subseteq> used"
proof (induction used port stop rule: first_free.induct)
  case (1 used port stop)
  show ?case
  proof (cases "port > stop \<or> port \<notin> used")
    case True
    then show ?thesis using "1.prems" by (subst (asm) first_free.simps) (auto split: if_splits)
  next
    case False
    then have "first_free used (port + 1) stop = Some q" using "1.prems" by (subst (asm) first_free.simps) simp
    then have q: "port + 1 \<le> q \<and> q \<le> stop \<and> q \<notin> used \<and> {port + 1..<q} \<subseteq> used" using "1.IH" False by auto
    have "{port..<q} \<subseteq> insert port {port + 1..<q}" by auto
    then show ?thesis using q False by auto
  qed
qed

lemma first_free_None: "first_free used port stop = None \<Longrightarrow> {port..stop} \<subseteq> used"
proof (induction used port stop rule: first_free.induct)
  case (1 used port stop)
  show ?case
  proof (cases "port > stop \<or> port \<notin> used")
    case True
    then show ?thesis using "1.prems" by (subst (asm) first_free.simps) (auto split: if_splits)
  next
    case False
    then have "first_free used (port + 1) stop = None" using "1.prems" by (subst (asm) first_free.simps) simp
    then have "{port + 1..stop} \<subseteq> used" using "1.IH" False by auto
    moreover have "{port..stop} \<subseteq> insert port {port + 1..stop}" by auto
    ultimately show ?thesis using False by auto
  qed
qed

text \<open>The port search is exact: it returns the smallest port of the pool that no forward of the node
uses, and reports an exhausted pool exactly when every port of the pool is used.\<close>

theorem first_available_port_exact:
  "case first_available_port nid start stop db of
     Inr port \<Rightarrow> start \<le> port \<and> port \<le> stop \<and> port \<notin> set (node_ports nid db)
       \<and> {start..<port} \<subseteq> set (node_ports nid db)
   | Inl e \<Rightarrow> e = ErrMsg ''node port pool is exhausted'' \<and> {start..stop} \<subseteq> set (node_ports nid db)"
proof (cases "first_free (set (node_ports nid db)) start stop")
  case None
  then show ?thesis using first_free_None[OF None] by (simp add: first_available_port_def)
next
  case (Some q)
  then show ?thesis using first_free_Some[OF Some] by (simp add: first_available_port_def)
qed

definition reserved_row :: "string \<Rightarrow> instant \<Rightarrow> reserve_forward_input \<Rightarrow> string \<Rightarrow> int \<Rightarrow> forward_row" where
  "reserved_row fid now input nid port = \<lparr>pf_id = fid, pf_endpoint_id = rf_endpoint_id input,
     pf_node_id = Some nid, pf_node_task_type = '''', pf_node_task_id = None, pf_server_port = port,
     pf_status = ''provisioning'', pf_expires_at = rf_expires_at input, pf_created_at = now,
     pf_updated_at = now\<rparr>"

lemma endpoint_join_id: "endpoint_join eid db = Some (e, d, p) \<Longrightarrow> e_id e = eid"
  by (auto simp: endpoint_join_def split: option.splits dest!: row_where_Some)

lemma reserve_port_forward_effect:
  assumes ok: "reserve_port_forward fid aid now input audit db = (db', Inr f)"
  obtains e d p n port entry where
    "endpoint_join (rf_endpoint_id input) db = Some (e, d, p)" "p_id p = rf_project_id input"
    "n \<in> set (t_nodes db)" "n_id n = p_node_id p" "n_enabled n"
    "if rf_server_port input = 0
     then first_available_port (n_id n) (n_port_start n) (n_port_end n) db = Inr port
     else port = rf_server_port input \<and> n_port_start n \<le> port \<and> port \<le> n_port_end n"
    "holds (forwards_rules db (t_forwards db @ [reserved_row fid now input (p_node_id p) port]))"
    "f = forward_view (reserved_row fid now input (p_node_id p) port) e d p"
    "db' = db\<lparr>t_forwards := t_forwards db @ [reserved_row fid now input (p_node_id p) port],
        t_audit_logs := t_audit_logs db @ [entry]\<rparr>"
proof -
  obtain route n port db1 where route: "endpoint_route_of (rf_endpoint_id input) db = Inr route"
    and proj: "rt_project_id route = rf_project_id input"
    and n: "row_where (\<lambda>n. n_id n = rt_node_id route \<and> n_enabled n) (t_nodes db) = Some n"
    and port: "(if rf_server_port input = 0
              then first_available_port (rt_node_id route) (n_port_start n) (n_port_end n) db
              else attempt (demand (\<not> (rf_server_port input < n_port_start n \<or> rf_server_port input > n_port_end n))
                     (ErrMsg ''server port is outside node port pool'')) (\<lambda>_. Inr (rf_server_port input))) = Inr port"
    and put: "put_forwards (t_forwards db @ [\<lparr>pf_id = fid, pf_endpoint_id = rt_endpoint_id route,
         pf_node_id = Some (rt_node_id route), pf_node_task_type = '''', pf_node_task_id = None,
         pf_server_port = port, pf_status = ''provisioning'', pf_expires_at = rf_expires_at input,
         pf_created_at = now, pf_updated_at = now\<rparr>]) db = Inr db1"
    and audit: "insert_audit aid (audit\<lparr>ai_resource_id := fid\<rparr>) now db1 = Inr db'"
    and f: "f = \<lparr>fwd_id = fid, fwd_project_id = rt_project_id route, fwd_endpoint_id = rt_endpoint_id route,
        fwd_endpoint_name = rt_endpoint_name route, fwd_device_name = rt_device_name route,
        fwd_node_id = rt_node_id route, fwd_client_id = rt_client_id route,
        fwd_target = join_host_port (rt_host route) (itoa (rt_target_port route)),
        fwd_server_port = port, fwd_node_task_type = '''', fwd_node_task_id = None,
        fwd_status = ''provisioning'', fwd_expires_at = rf_expires_at input, fwd_created_at = now,
        fwd_updated_at = now\<rparr>"
    using ok unfolding reserve_port_forward_def run_tx_Inr_iff
    by (elim attempt_Inr_iff[THEN iffD1, elim_format] exE conjE)
       (auto simp only: demand_Inr_iff from_row_Inr_iff sum.inject prod.inject simp_thms)
  obtain e d p where j: "endpoint_join (rf_endpoint_id input) db = Some (e, d, p)" and r: "route = route_of e d p"
    using route by (auto simp: endpoint_route_of_def attempt_Inr_iff from_row_Inr_iff)
  note rt = route_of_def r endpoint_join_id[OF j]
  obtain entry where "db' = db1\<lparr>t_audit_logs := t_audit_logs db1 @ [entry]\<rparr>"
    using insert_audit_Inr[OF audit] by blast
  then show ?thesis
    using that[OF j, of n port entry] row_where_Some[OF n] proj port put f
    by (auto simp: rt put_Inr reserved_row_def forward_view_def attempt_Inr_iff simp del: holds_simps split: if_splits)
qed

lemma forward_port_free:
  assumes "holds (forwards_rules db (t_forwards db @ [reserved_row fid now input nid port]))"
  shows "port \<notin> set (node_ports nid db)"
proof
  assume "port \<in> set (node_ports nid db)"
  then have "\<exists>f\<in>set (t_forwards db). forward_port_key f = Some (nid, port)"
    by (auto simp: node_ports_def forward_port_key_def)
  then show False using assms
    by (auto simp: forwards_rules_def distinct_present_def forward_port_key_def reserved_row_def image_iff
        split: option.splits) 
qed

text \<open>A reserved forward gets a port of the pool of an enabled node, its own node, which no other
forward of that node uses; it is the port asked for when one was asked for; and reading the forward back
by its id gives exactly what the reservation returned.\<close>

theorem reserved_forward_valid:
  assumes ok: "reserve_port_forward fid aid now input audit db = (db', Inr f)"
  shows "(\<exists>n\<in>set (t_nodes db). n_id n = fwd_node_id f \<and> n_enabled n
        \<and> n_port_start n \<le> fwd_server_port f \<and> fwd_server_port f \<le> n_port_end n)
    \<and> fwd_server_port f \<notin> set (node_ports (fwd_node_id f) db)
    \<and> rf_server_port input \<in> {0, fwd_server_port f}
    \<and> port_forward_by_id fid db' = Inr f"
proof -
  from reserve_port_forward_effect[OF ok] obtain e d p n port entry where
    j: "endpoint_join (rf_endpoint_id input) db = Some (e, d, p)"
    and n: "n \<in> set (t_nodes db)" "n_id n = p_node_id p" "n_enabled n"
    and port: "if rf_server_port input = 0
     then first_available_port (n_id n) (n_port_start n) (n_port_end n) db = Inr port
     else port = rf_server_port input \<and> n_port_start n \<le> port \<and> port \<le> n_port_end n"
    and rules: "holds (forwards_rules db (t_forwards db @ [reserved_row fid now input (p_node_id p) port]))"
    and f: "f = forward_view (reserved_row fid now input (p_node_id p) port) e d p"
    and db': "db' = db\<lparr>t_forwards := t_forwards db @ [reserved_row fid now input (p_node_id p) port],
        t_audit_logs := t_audit_logs db @ [entry]\<rparr>"
    by metis
  let ?r = "reserved_row fid now input (p_node_id p) port"
  have fields: "fwd_node_id f = p_node_id p" "fwd_server_port f = port" "pf_id ?r = fid"
    "pf_endpoint_id ?r = rf_endpoint_id input"
    by (simp_all add: f forward_view_def reserved_row_def)
  have range: "n_port_start n \<le> port \<and> port \<le> n_port_end n \<and> rf_server_port input \<in> {0, port}"
  proof (cases "rf_server_port input = 0")
    case True
    then have "first_free (set (node_ports (n_id n) db)) (n_port_start n) (n_port_end n) = Some port"
      using port by (simp add: first_available_port_def from_row_Inr_iff)
    then show ?thesis using first_free_Some True by auto
  qed (use port in auto)
  have "distinct (map pf_id (t_forwards db'))" using rules by (simp add: forwards_rules_def db')
  moreover have "?r \<in> set (t_forwards db')" by (simp add: db')
  ultimately have "row_where (\<lambda>x. pf_id x = fid) (t_forwards db') = Some ?r"
    using fields by (intro row_where_key[where g = pf_id]) auto
  moreover have "endpoint_join (rf_endpoint_id input) db' = Some (e, d, p)"
    using j by (simp add: db' endpoint_join_def cong: option.case_cong)
  ultimately have "port_forward_by_id fid db' = Inr f"
    using fields f by (simp add: port_forward_by_id_def joined_forward_def)
  then show ?thesis using n range forward_port_free[OF rules] fields by auto
qed

definition demo_reserve :: "int \<Rightarrow> reserve_forward_input" where
  "demo_reserve port = \<lparr>rf_project_id = ''p1'', rf_endpoint_id = ''e1'', rf_server_port = port,
     rf_expires_at = Some (minutes 30)\<rparr>"

definition demo_forwarded :: "db \<times> port_forward res" where
  "demo_forwarded = reserve_port_forward ''f1'' ''x'' 5 (demo_reserve 0) demo_audit demo_db"

theorem reserved_forward_valid_witness:
  "port_forward_by_id ''f1'' (fst demo_forwarded) = Inr (projr (snd demo_forwarded))
     \<and> fwd_server_port (projr (snd demo_forwarded)) = 20000"
proof
  have "succeeded demo_forwarded" by code_simp
  then have "reserve_port_forward ''f1'' ''x'' 5 (demo_reserve 0) demo_audit demo_db
      = (fst demo_forwarded, Inr (projr (snd demo_forwarded)))"
    by (cases demo_forwarded; cases "snd demo_forwarded") (auto simp: succeeded_def demo_forwarded_def)
  from reserved_forward_valid[OF this]
  show "port_forward_by_id ''f1'' (fst demo_forwarded) = Inr (projr (snd demo_forwarded))" by simp
  show "fwd_server_port (projr (snd demo_forwarded)) = 20000" by code_simp
qed

section \<open>The life of a forward\<close>

lemma upd_where_none: "\<forall>x\<in>set t. \<not> P x \<Longrightarrow> upd_where P h t = t"
  by (induction t) (simp_all add: upd_where_def)

lemma activate_nothing:
  assumes "\<forall>x\<in>set (t_forwards s). \<not> (pf_id x = fid \<and> pf_status x = ''provisioning'')"
  shows "activate_port_forward now fid ''portForward'' (max 1 tj) s = (s, Inl ErrNotFound)"
proof -
  have "count_where (\<lambda>f. pf_id f = fid \<and> pf_status f = ''provisioning'') (t_forwards s) = 0"
    using assms by simp
  then show ?thesis
    by (simp add: activate_port_forward_def update_forwards_def upd_where_none[OF assms] del: count_where_0_iff)
qed

text \<open>A forward is activated at most once: the activation that succeeds found it provisioning and
leaves it running with the task of the node, and any later activation of the same forward answers
\<open>ErrNotFound\<close> and changes nothing.\<close>

theorem activation_once:
  assumes ok: "succeeded (activate_port_forward now fid tt ti db)"
  shows "exists_row (\<lambda>f. pf_id f = fid \<and> pf_status f = ''provisioning'') (t_forwards db)
    \<and> exists_row (\<lambda>f. pf_id f = fid \<and> pf_status f = ''running'' \<and> pf_node_task_id f = Some ti)
        (t_forwards (fst (activate_port_forward now fid tt ti db)))
    \<and> activate_port_forward now2 fid ''portForward'' (max 1 tj) (fst (activate_port_forward now fid tt ti db))
      = (fst (activate_port_forward now fid tt ti db), Inl ErrNotFound)"
proof -
  let ?P = "\<lambda>f. pf_id f = fid \<and> pf_status f = ''provisioning''"
  let ?g = "\<lambda>f. f\<lparr>pf_node_task_type := tt, pf_node_task_id := Some ti, pf_status := ''running'', pf_updated_at := now\<rparr>"
  let ?db' = "fst (activate_port_forward now fid tt ti db)"
  have one: "count_where ?P (t_forwards db) = 1" and db': "?db' = update_forwards ?P ?g db"
    using ok by (auto simp: activate_port_forward_def succeeded_def Let_def split: if_splits)
  obtain f where f: "f \<in> set (t_forwards db)" "?P f" using count_where_1_ex[OF one] by blast
  have run: "exists_row (\<lambda>f. pf_id f = fid \<and> pf_status f = ''running'' \<and> pf_node_task_id f = Some ti) (t_forwards ?db')"
    unfolding db' update_forwards_def exists_row_iff using f
    by (simp add: bex_upd_where) (intro bexI[of _ f], auto)
  have none: "\<forall>x\<in>set (t_forwards ?db'). \<not> ?P x"
    unfolding db' update_forwards_def by (simp add: ball_upd_where)

  have "activate_port_forward now2 fid ''portForward'' (max 1 tj) ?db' = (?db', Inl ErrNotFound)"
    by (rule activate_nothing[OF none])
  then show ?thesis using f run by auto
qed

theorem activation_once_witness:
  "activate_port_forward 7 ''f1'' ''portForward'' (max 1 9)
       (fst (activate_port_forward 6 ''f1'' ''portForward'' 3 (fst demo_forwarded)))
     = (fst (activate_port_forward 6 ''f1'' ''portForward'' 3 (fst demo_forwarded)), Inl ErrNotFound)"
proof -
  have "succeeded (activate_port_forward 6 ''f1'' ''portForward'' 3 (fst demo_forwarded))" by code_simp
  then show ?thesis using activation_once[of 6 "''f1''" "''portForward''" 3 "fst demo_forwarded" 7 9] by blast
qed

end
