(* ===== verification/StoreDiscovery.thy ===== *)
theory StoreDiscovery
  imports StoreDevices
begin

text \<open>
  Discovery jobs, their results and the import of a discovered device: \<open>store/discovery.go\<close>.

  A job is queued, then running, and ends completed, failed or canceled; the updates of its state
  carry the condition that it has not ended. Importing is an upsert: the device with the host in
  the project is created or refreshed, and so is each endpoint of the input.
\<close>

record discovery_route =
  dro_project_id :: string
  dro_node_id :: string
  dro_client_id :: int
  dro_networks :: "string list"

record discovery_job =
  job_id :: string
  job_project_id :: string
  job_networks :: "string list"
  job_ports :: "discovery_port list"
  job_status :: string
  job_progress :: int
  job_created_at :: instant
  job_started_at :: "instant option"
  job_finished_at :: "instant option"

record discovery_result =
  res_id :: string
  res_job_id :: string
  res_host :: string
  res_port :: int
  res_protocol :: string
  res_service_name :: string
  res_fingerprint :: string
  res_response_summary :: string
  res_confidence :: int
  res_import_status :: string
  res_created_at :: instant

record probe_result =
  pr_host :: string
  pr_port :: int
  pr_protocol :: string
  pr_service_name :: string
  pr_fingerprint :: string
  pr_response_summary :: string
  pr_confidence :: int

definition discovery_route_of :: "string \<Rightarrow> db \<Rightarrow> discovery_route res" where
  "discovery_route_of k db =
     attempt (from_row (row_where (\<lambda>p. p_id p = k) (t_projects db)) ErrNotFound) (\<lambda>p.
     Inr \<lparr>dro_project_id = p_id p, dro_node_id = p_node_id p,
       dro_client_id = (case p_client_id p of None \<Rightarrow> 0 | Some c \<Rightarrow> c),
       dro_networks = project_networks k db\<rparr>)"

section \<open>Jobs\<close>

text \<open>Scanning a row fails when a JSON column does not decode.\<close>

definition scan_job :: "job_row \<Rightarrow> discovery_job res" where
  "scan_job r =
     attempt (from_row (dj_networks r) (ErrMsg ''json'')) (\<lambda>networks.
     attempt (from_row (dj_ports r) (ErrMsg ''json'')) (\<lambda>ports.
     Inr \<lparr>job_id = dj_id r, job_project_id = dj_project_id r, job_networks = networks, job_ports = ports,
       job_status = dj_status r, job_progress = dj_progress r, job_created_at = dj_created_at r,
       job_started_at = dj_started_at r, job_finished_at = dj_finished_at r\<rparr>))"

definition discovery_job_by_id :: "string \<Rightarrow> db \<Rightarrow> discovery_job res" where
  "discovery_job_by_id jid db =
     attempt (from_row (row_where (\<lambda>r. dj_id r = jid) (t_jobs db)) ErrNotFound) scan_job"

fun scan_jobs :: "job_row list \<Rightarrow> discovery_job list res" where
  "scan_jobs [] = Inr []"
| "scan_jobs (r # rs) = attempt (scan_job r) (\<lambda>j. attempt (scan_jobs rs) (\<lambda>js. Inr (j # js)))"

definition list_discovery_jobs :: "string \<Rightarrow> db \<Rightarrow> discovery_job list res" where
  "list_discovery_jobs k db = scan_jobs (order_desc (\<lambda>r. time_text (dj_created_at r))
     (filter (\<lambda>r. dj_project_id r = k) (t_jobs db)))"

definition create_discovery_job ::
  "string \<Rightarrow> string \<Rightarrow> instant \<Rightarrow> string \<Rightarrow> string list \<Rightarrow> discovery_port list \<Rightarrow> audit_input
     \<Rightarrow> db \<Rightarrow> db \<times> discovery_job res" where
  "create_discovery_job jid audit_id now k networks ports audit db = run_tx db (
     attempt (put_jobs (t_jobs db @ [\<lparr>dj_id = jid, dj_project_id = k, dj_requested_by = None,
         dj_networks = Some networks, dj_ports = Some ports, dj_status = ''queued'', dj_progress = 0,
         dj_created_at = now, dj_started_at = None, dj_finished_at = None\<rparr>]) db) (\<lambda>db.
     attempt (insert_audit audit_id (audit\<lparr>ai_resource_id := jid\<rparr>) now db) (\<lambda>db.
     Inr (\<lparr>job_id = jid, job_project_id = k, job_networks = networks, job_ports = ports,
       job_status = ''queued'', job_progress = 0, job_created_at = now, job_started_at = None,
       job_finished_at = None\<rparr>, db))))"

definition clamp_progress :: "int \<Rightarrow> int" where
  "clamp_progress p = (let p = (if p < 0 then 0 else p) in if p > 100 then 100 else p)"

definition unfinished :: "job_row \<Rightarrow> bool" where
  "unfinished r \<longleftrightarrow> dj_status r \<in> {''queued'', ''running''}"

text \<open>The three statements of the switch on the new status.\<close>

definition set_discovery_job_state :: "instant \<Rightarrow> string \<Rightarrow> string \<Rightarrow> int \<Rightarrow> db \<Rightarrow> db \<times> unit res" where
  "set_discovery_job_state now jid status progress db =
     (let p = clamp_progress progress;
          (sel, upd) =
            (if status = ''running'' then
               (\<lambda>r. dj_id r = jid \<and> unfinished r, \<lambda>r. r\<lparr>dj_status := status, dj_progress := p,
                  dj_started_at := (case dj_started_at r of None \<Rightarrow> Some now | Some t \<Rightarrow> Some t)\<rparr>)
             else if status \<in> {''completed'', ''failed'', ''canceled''} then
               (\<lambda>r. dj_id r = jid \<and> unfinished r, \<lambda>r. r\<lparr>dj_status := status, dj_progress := p,
                  dj_finished_at := Some now\<rparr>)
             else (\<lambda>r. dj_id r = jid, \<lambda>r. r\<lparr>dj_status := status, dj_progress := p\<rparr>))
      in (update_jobs sel upd db,
          if count_where sel (t_jobs db) = 0 then Inl ErrNotFound else Inr ()))"

section \<open>Results\<close>

definition same_service :: "string \<Rightarrow> string \<Rightarrow> string \<Rightarrow> int \<Rightarrow> result_row \<Rightarrow> bool" where
  "same_service jid host protocol port r \<longleftrightarrow>
     dr_job_id r = jid \<and> dr_host r = host \<and> dr_protocol r = protocol \<and> dr_port r = port"

definition save_discovery_result :: "string \<Rightarrow> instant \<Rightarrow> string \<Rightarrow> probe_result \<Rightarrow> db \<Rightarrow> db \<times> unit res" where
  "save_discovery_result rid now jid r db = run_tx db (
     (let row = \<lparr>dr_id = rid, dr_job_id = jid, dr_host = pr_host r, dr_port = pr_port r,
            dr_protocol = pr_protocol r, dr_service_name = pr_service_name r,
            dr_fingerprint = pr_fingerprint r, dr_response_summary = pr_response_summary r,
            dr_confidence = pr_confidence r, dr_import_status = ''pending'', dr_created_at = now\<rparr>;
          same = same_service jid (pr_host r) (pr_protocol r) (pr_port r) in
      attempt (put_results (if exists_row same (t_results db)
        then upd_where same (\<lambda>x. x\<lparr>dr_service_name := pr_service_name r, dr_fingerprint := pr_fingerprint r,
               dr_response_summary := pr_response_summary r, dr_confidence := pr_confidence r\<rparr>) (t_results db)
        else t_results db @ [row]) db) (\<lambda>db. Inr ((), db))))"

definition result_of_row :: "result_row \<Rightarrow> discovery_result" where
  "result_of_row r = \<lparr>res_id = dr_id r, res_job_id = dr_job_id r, res_host = dr_host r,
     res_port = dr_port r, res_protocol = dr_protocol r, res_service_name = dr_service_name r,
     res_fingerprint = dr_fingerprint r, res_response_summary = dr_response_summary r,
     res_confidence = dr_confidence r, res_import_status = dr_import_status r,
     res_created_at = dr_created_at r\<rparr>"

definition list_discovery_results :: "string \<Rightarrow> db \<Rightarrow> discovery_result list" where
  "list_discovery_results jid db = map result_of_row
     (order_asc (\<lambda>r. (dr_host r, dr_port r)) (filter (\<lambda>r. dr_job_id r = jid) (t_results db)))"

section \<open>Importing a device\<close>

text \<open>The endpoint upsert, and the result it marks as imported.\<close>

definition discovered :: "string \<Rightarrow> string \<Rightarrow> create_endpoint_input \<Rightarrow> db \<Rightarrow> bool" where
  "discovered jid host i db =
     (count_where (same_service jid host (ce_protocol i) (ce_target_port i)) (t_results db) > 0)"

definition imported_row :: "string \<Rightarrow> string \<Rightarrow> instant \<Rightarrow> bool \<Rightarrow> create_endpoint_input \<Rightarrow> endpoint_row" where
  "imported_row eid did now found i = \<lparr>e_id = eid, e_device_id = did, e_name = ce_name i,
     e_protocol = ce_protocol i, e_target_port = ce_target_port i,
     e_access_type = endpoint_access_type (ce_protocol i),
     e_verification_status = (if found then ''verified'' else ''unverified''),
     e_last_verified_at = (if found then Some now else None), e_tls_server_name = ce_tls_server_name i,
     e_ssh_credential_ref = ce_credential_ref i, e_ssh_auth_method = '''', e_ssh_username = '''',
     e_ssh_key_path = '''', e_ssh_host_key_fingerprint = ce_ssh_host_key_fingerprint i,
     e_created_at = now, e_updated_at = now\<rparr>"

definition refreshed_row :: "instant \<Rightarrow> bool \<Rightarrow> create_endpoint_input \<Rightarrow> endpoint_row \<Rightarrow> endpoint_row" where
  "refreshed_row now found i r = r\<lparr>e_name := ce_name i,
     e_verification_status := (if found then ''verified'' else e_verification_status r),
     e_last_verified_at := (if found then Some now else e_last_verified_at r),
     e_tls_server_name := ce_tls_server_name i,
     e_ssh_credential_ref := (if ce_credential_ref i = '''' then e_ssh_credential_ref r else ce_credential_ref i),
     e_ssh_host_key_fingerprint := ce_ssh_host_key_fingerprint i, e_updated_at := now\<rparr>"

definition import_endpoint ::
  "(nat \<Rightarrow> string) \<Rightarrow> string \<Rightarrow> instant \<Rightarrow> string \<Rightarrow> string \<Rightarrow> nat \<times> create_endpoint_input \<Rightarrow> db \<Rightarrow> db res" where
  "import_endpoint ids did now jid host = (\<lambda>(n, i) db.
     (let found = discovered jid host i db;
          same = (\<lambda>r. e_device_id r = did \<and> e_protocol r = ce_protocol i \<and> e_target_port r = ce_target_port i) in
      attempt (put_endpoints (if exists_row same (t_endpoints db)
        then upd_where same (refreshed_row now found i) (t_endpoints db)
        else t_endpoints db @ [imported_row (ids n) did now found i]) db) (\<lambda>db.
      if found
      then put_results (upd_where (same_service jid host (ce_protocol i) (ce_target_port i))
             (\<lambda>r. r\<lparr>dr_import_status := ''imported''\<rparr>) (t_results db)) db
      else Inr db)))"

definition import_device_row ::
  "string \<Rightarrow> instant \<Rightarrow> string \<Rightarrow> create_device_input \<Rightarrow> db \<Rightarrow> (string \<times> db) res" where
  "import_device_row fresh now k input db =
     (case row_where (\<lambda>d. d_project_id d = k \<and> d_host d = cd_host input) (t_devices db) of
        None \<Rightarrow> attempt (put_devices (t_devices db @ [\<lparr>d_id = fresh, d_project_id = k,
            d_host = cd_host input, d_name = cd_name input, d_device_type = cd_device_type input,
            d_vendor = cd_vendor input, d_source = ''discovery'', d_status = ''online'',
            d_last_seen_at = Some now, d_created_at = now, d_updated_at = now\<rparr>]) db) (\<lambda>db. Inr (fresh, db))
      | Some d \<Rightarrow> Inr (d_id d, update_devices (\<lambda>x. d_id x = d_id d) (\<lambda>x. x\<lparr>d_name := cd_name input,
            d_device_type := cd_device_type input, d_vendor := cd_vendor input, d_status := ''online'',
            d_last_seen_at := Some now, d_updated_at := now\<rparr>) db))"

definition import_discovery_device ::
  "string \<Rightarrow> string \<Rightarrow> (nat \<Rightarrow> string) \<Rightarrow> instant \<Rightarrow> string \<Rightarrow> create_device_input \<Rightarrow> audit_input
     \<Rightarrow> db \<Rightarrow> db \<times> device res" where
  "import_discovery_device fresh audit_id ids now jid input audit db =
     (case discovery_job_by_id jid db of Inl e \<Rightarrow> (db, Inl e) | Inr job \<Rightarrow>
      after_commit (run_tx db (
      attempt (demand (job_status job = ''completed'') (ErrMsg ''discovery job is not completed'')) (\<lambda>_.
      attempt (demand (count_where (\<lambda>r. dr_job_id r = jid \<and> dr_host r = cd_host input) (t_results db) \<noteq> 0)
        ErrNotFound) (\<lambda>_.
      attempt (import_device_row fresh now (job_project_id job) input db) (\<lambda>(did, db).
      attempt (each (import_endpoint ids did now jid (cd_host input)) (enumerate 0 (cd_endpoints input)) db) (\<lambda>db.
      attempt (insert_audit audit_id (audit\<lparr>ai_resource_id := did\<rparr>) now db) (\<lambda>db.
      Inr (did, db))))))))
      (\<lambda>did db. device_by_id (job_project_id job) did db))"

section \<open>The invariant\<close>

lemma create_discovery_job_inv [on_ok_rules]:
  "store_inv db \<Longrightarrow> store_inv (fst (create_discovery_job jid aid now k networks ports audit db))"
  unfolding create_discovery_job_def by (intro on_ok_rules) auto

lemma clamp_progress_range: "0 \<le> clamp_progress p \<and> clamp_progress p \<le> 100"
  by (simp add: clamp_progress_def Let_def)

lemma set_discovery_job_state_inv [on_ok_rules]:
  assumes inv: "store_inv db" shows "store_inv (fst (set_discovery_job_state now jid status progress db))"
proof -
  have "store_inv (update_jobs P f db)"
    if "\<And>r. dj_id (f r) = dj_id r \<and> dj_project_id (f r) = dj_project_id r \<and> dj_requested_by (f r) = dj_requested_by r"
      "\<And>r. dj_progress (f r) = clamp_progress progress" for P f
    using inv that by (intro update_jobs_inv) (simp_all add: job_check_def clamp_progress_range)
  then show ?thesis unfolding set_discovery_job_state_def Let_def
    by (cases "status = ''running''"; cases "status \<in> {''completed'', ''failed'', ''canceled''}")
       (simp_all del: insert_iff)
qed

lemma save_discovery_result_inv [on_ok_rules]:
  "store_inv db \<Longrightarrow> store_inv (fst (save_discovery_result rid now jid r db))"
  unfolding save_discovery_result_def Let_def by (intro on_ok_rules)

lemma import_endpoint_inv [on_ok_rules]:
  "store_inv db \<Longrightarrow> on_ok store_inv (import_endpoint ids did now jid host x db)"
  unfolding import_endpoint_def split_beta Let_def
  by (intro on_ok_rules) (auto simp: image_upd_where_same refreshed_row_def)

lemma import_device_row_inv [on_ok_rules]:
  "store_inv db \<Longrightarrow> keeps_inv (import_device_row fresh now k input db)"
  unfolding import_device_row_def
  by (cases "row_where (\<lambda>d. d_project_id d = k \<and> d_host d = cd_host input) (t_devices db)";
      simp only: option.case; intro on_ok_rules) (auto simp: device_check_def)

lemma import_discovery_device_inv [on_ok_rules]:
  assumes "store_inv db" shows "store_inv (fst (import_discovery_device fresh aid ids now jid input audit db))"
proof (cases "discovery_job_by_id jid db")
  case (Inr job)
  show ?thesis unfolding import_discovery_device_def Inr sum.case split_beta
    by (intro on_ok_rules assms) (simp_all add: assms)
qed (simp add: import_discovery_device_def assms)

section \<open>The life of a job\<close>

inductive job_step :: "string \<Rightarrow> string \<Rightarrow> bool" where
  start: "s \<in> {''queued'', ''running''} \<Longrightarrow> job_step s ''running''"
| finish: "s \<in> {''queued'', ''running''} \<Longrightarrow> t \<in> {''completed'', ''failed'', ''canceled''} \<Longrightarrow> job_step s t"

inductive_cases job_stepE: "job_step s t"

lemma no_step_after_end: "s \<in> {''completed'', ''failed'', ''canceled''} \<Longrightarrow> \<not> job_step s t"
  by (auto elim: job_stepE)

text \<open>The status updates of the scanner follow the life of a job: each update leaves every job as it
was or takes it along a step from queued or running, so a job that has completed, failed or been canceled
never changes again, whatever reports still arrive.\<close>

theorem job_updates_are_steps:
  assumes "status \<in> {''running'', ''completed'', ''failed'', ''canceled''}"
  shows "list_all2 (\<lambda>r r'. r' = r \<or> job_step (dj_status r) (dj_status r')) (t_jobs db)
           (t_jobs (fst (set_discovery_job_state now jid status progress db)))"
proof -
  have moves: "list_all2 (\<lambda>r r'. r' = r \<or> job_step (dj_status r) (dj_status r')) t
      (upd_where (\<lambda>r. dj_id r = jid \<and> unfinished r) f t)"
    if "\<And>r. dj_status (f r) = status" for f t
    using that assms by (induction t) (auto simp: upd_where_def unfinished_def intro: job_step.intros)
  show ?thesis unfolding set_discovery_job_state_def Let_def update_jobs_def
    using assms by (cases "status = ''running''") (auto intro!: moves)
qed

theorem job_updates_are_steps_witness:
  "list_all2 (\<lambda>r r'. r' = r \<or> job_step (dj_status r) (dj_status r')) [demo_job]
     (t_jobs (fst (set_discovery_job_state 5 ''j1'' ''running'' 40 demo_db)))"
  using job_updates_are_steps[of "''running''" demo_db 5 "''j1''" 40] by (simp add: demo_db_def)

section \<open>Saving a result\<close>

lemma filter_upd_where_same:
  "(\<And>r. P r \<Longrightarrow> P (f r)) \<Longrightarrow> filter P (upd_where P f t) = map f (filter P t)"
  by (induction t) (auto simp: upd_where_def)

lemma same_service_unique:
  assumes "store_inv db" shows "length (filter (same_service jid host protocol port) (t_results db)) \<le> 1"
  using count_where_key_le_1[where g = "\<lambda>r. (dr_job_id r, dr_host r, dr_protocol r, dr_port r)" and
      t = "t_results db" and P = "same_service jid host protocol port" and k = "(jid, host, protocol, port)"] assms
  by (simp add: count_where_def same_service_def store_inv_def db_ok_def rules_defs)

text \<open>A service found again does not appear twice: after a result is saved there is exactly one row for
the job, host, protocol and port, with the data of the latest probe, and a service that was already
imported stays marked as imported.\<close>

theorem result_saved_once:
  assumes inv: "store_inv db" and ok: "succeeded (save_discovery_result rid now jid r db)"
  shows "map (\<lambda>x. (dr_service_name x, dr_fingerprint x, dr_response_summary x, dr_confidence x, dr_import_status x))
     (filter (same_service jid (pr_host r) (pr_protocol r) (pr_port r))
        (t_results (fst (save_discovery_result rid now jid r db))))
   = [(pr_service_name r, pr_fingerprint r, pr_response_summary r, pr_confidence r,
       case filter (same_service jid (pr_host r) (pr_protocol r) (pr_port r)) (t_results db) of
         [] \<Rightarrow> ''pending'' | old # _ \<Rightarrow> dr_import_status old)]"
proof -
  let ?same = "same_service jid (pr_host r) (pr_protocol r) (pr_port r)"
  let ?f = "\<lambda>x. x\<lparr>dr_service_name := pr_service_name r, dr_fingerprint := pr_fingerprint r,
               dr_response_summary := pr_response_summary r, dr_confidence := pr_confidence r\<rparr>"
  let ?row = "\<lparr>dr_id = rid, dr_job_id = jid, dr_host = pr_host r, dr_port = pr_port r,
            dr_protocol = pr_protocol r, dr_service_name = pr_service_name r,
            dr_fingerprint = pr_fingerprint r, dr_response_summary = pr_response_summary r,
            dr_confidence = pr_confidence r, dr_import_status = ''pending'', dr_created_at = now\<rparr>"
  have res: "t_results (fst (save_discovery_result rid now jid r db)) = (if exists_row ?same (t_results db)
      then upd_where ?same ?f (t_results db) else t_results db @ [?row])"
    using succeeded_run_tx[OF ok[unfolded save_discovery_result_def]]
    unfolding save_discovery_result_def Let_def by (auto simp: attempt_Inr_iff put_Inr)
  show ?thesis
  proof (cases "filter ?same (t_results db)")
    case Nil
    then have "\<not> exists_row ?same (t_results db)" by (auto simp: filter_empty_conv)
    moreover have "?same ?row" by (simp add: same_service_def)
    ultimately show ?thesis using Nil by (simp add: res)
  next
    case (Cons old rest)
    then have "rest = []" using same_service_unique[OF inv, of jid "pr_host r" "pr_protocol r" "pr_port r"] by simp
    moreover from Cons have "filter ?same (t_results db) \<noteq> []" by simp
    then have "exists_row ?same (t_results db)" unfolding exists_row_iff filter_empty_conv by blast
    moreover have "filter ?same (upd_where ?same ?f (t_results db)) = map ?f (filter ?same (t_results db))"
      by (rule filter_upd_where_same) (simp add: same_service_def)
    ultimately show ?thesis using Cons by (simp add: res)
  qed
qed

definition demo_probe :: probe_result where
  "demo_probe = \<lparr>pr_host = ''10.0.0.1'', pr_port = 80, pr_protocol = ''http'', pr_service_name = ''web'',
     pr_fingerprint = ''fp'', pr_response_summary = ''200'', pr_confidence = 90\<rparr>"

theorem result_saved_once_witness:
  "length (filter (same_service ''j1'' ''10.0.0.1'' ''http'' 80)
     (t_results (fst (save_discovery_result ''r2'' 6 ''j1'' demo_probe
        (fst (save_discovery_result ''r1'' 5 ''j1'' demo_probe demo_db)))))) = 1"
proof -
  let ?db1 = "fst (save_discovery_result ''r1'' 5 ''j1'' demo_probe demo_db)"
  have "store_inv ?db1" by (intro save_discovery_result_inv demo_inv)
  moreover have "succeeded (save_discovery_result ''r2'' 6 ''j1'' demo_probe ?db1)" by code_simp
  ultimately show ?thesis
    using arg_cong[OF result_saved_once, where f = length] by (fastforce simp: demo_probe_def)
qed

section \<open>What an import may claim\<close>

definition has_evidence :: "string \<Rightarrow> string \<Rightarrow> db \<Rightarrow> endpoint_row \<Rightarrow> bool" where
  "has_evidence jid host db e = exists_row (same_service jid host (e_protocol e) (e_target_port e)) (t_results db)"

definition justified :: "string \<Rightarrow> string \<Rightarrow> db \<Rightarrow> db \<Rightarrow> bool" where
  "justified jid host db s \<longleftrightarrow> (\<forall>e\<in>set (t_endpoints s). e_verification_status e = ''verified'' \<longrightarrow>
       has_evidence jid host db e \<or> (\<exists>e0\<in>set (t_endpoints db). e_id e0 = e_id e \<and> e_verification_status e0 = ''verified''))
     \<and> map (\<lambda>r. (dr_job_id r, dr_host r, dr_protocol r, dr_port r)) (t_results s)
        = map (\<lambda>r. (dr_job_id r, dr_host r, dr_protocol r, dr_port r)) (t_results db)"

lemma same_services:
  assumes "map (\<lambda>r. (dr_job_id r, dr_host r, dr_protocol r, dr_port r)) t
     = map (\<lambda>r. (dr_job_id r, dr_host r, dr_protocol r, dr_port r)) t'"
  shows "exists_row (same_service jid host protocol port) t = exists_row (same_service jid host protocol port) t'"
proof -
  have "exists_row (same_service jid host protocol port) u
      \<longleftrightarrow> (jid, host, protocol, port) \<in> set (map (\<lambda>r. (dr_job_id r, dr_host r, dr_protocol r, dr_port r)) u)" for u
    by (auto simp: same_service_def)
  then show ?thesis using assms by (simp only:)
qed

lemma import_endpoint_justified:
  assumes step: "import_endpoint ids did now jid host (n, i) s = Inr s'" and just: "justified jid host db s"
  shows "justified jid host db s'"
proof -
  let ?found = "discovered jid host i s"
  let ?same = "\<lambda>r. e_device_id r = did \<and> e_protocol r = ce_protocol i \<and> e_target_port r = ce_target_port i"
  let ?ok = "\<lambda>e. e_verification_status e = ''verified'' \<longrightarrow>
       has_evidence jid host db e \<or> (\<exists>e0\<in>set (t_endpoints db). e_id e0 = e_id e \<and> e_verification_status e0 = ''verified'')"
  have eps: "t_endpoints s' = (if exists_row ?same (t_endpoints s)
        then upd_where ?same (refreshed_row now ?found i) (t_endpoints s)
        else t_endpoints s @ [imported_row (ids n) did now ?found i])"
    and results: "t_results s' = (if ?found then upd_where (same_service jid host (ce_protocol i) (ce_target_port i))
             (\<lambda>r. r\<lparr>dr_import_status := ''imported''\<rparr>) (t_results s) else t_results s)"
    using step by (auto simp: import_endpoint_def Let_def attempt_Inr_iff put_Inr split: if_splits)
  have ev: "has_evidence jid host db e" if ?found "e_protocol e = ce_protocol i" "e_target_port e = ce_target_port i" for e
    using that same_services[of "t_results s" "t_results db"] just
    by (auto simp: discovered_def has_evidence_def justified_def simp del: exists_row_iff)
       (metis exists_row_iff)
  have old: "\<forall>r\<in>set (t_endpoints s). ?ok r" using just by (simp add: justified_def)
  have "?ok (refreshed_row now ?found i r)" if "r \<in> set (t_endpoints s)" "?same r" for r
    using bspec[OF old that(1)] that(2) ev[of "refreshed_row now ?found i r"]
    by (cases ?found) (simp_all add: refreshed_row_def has_evidence_def)
  moreover have "?ok (imported_row (ids n) did now ?found i)"
    using ev[of "imported_row (ids n) did now ?found i"] by (cases ?found) (auto simp: imported_row_def)
  ultimately have "\<forall>e\<in>set (t_endpoints s'). ?ok e"
    using old unfolding eps by (auto simp only: ball_upd_where set_append split: if_splits) auto
  moreover have "map (\<lambda>r. (dr_job_id r, dr_host r, dr_protocol r, dr_port r)) (t_results s')
      = map (\<lambda>r. (dr_job_id r, dr_host r, dr_protocol r, dr_port r)) (t_results s)"
    unfolding results by (simp add: map_upd_where_same)
  ultimately show ?thesis using just unfolding justified_def by (simp only: simp_thms)
qed

text \<open>Importing needs a completed job and never invents a verification: after an import, successful or
not, an endpoint is verified only if it was verified before, or the job found a service on this host with
exactly its protocol and port.\<close>

theorem import_only_verifies_evidence:
  assumes e: "e \<in> set (t_endpoints (fst (import_discovery_device fresh aid ids now jid input audit db)))"
    and v: "e_verification_status e = ''verified''"
  shows "has_evidence jid (cd_host input) db e
     \<or> (\<exists>e0\<in>set (t_endpoints db). e_id e0 = e_id e \<and> e_verification_status e0 = ''verified'')"
proof (cases "discovery_job_by_id jid db")
  case (Inl err)
  then show ?thesis using e v by (auto simp: import_discovery_device_def)
next
  case (Inr job)
  let ?db' = "fst (import_discovery_device fresh aid ids now jid input audit db)"

  have "?db' = db \<and> \<not> succeeded (import_discovery_device fresh aid ids now jid input audit db)
      \<or> (\<exists>did db1 db2. import_device_row fresh now (job_project_id job) input db = Inr (did, db1)
          \<and> each (import_endpoint ids did now jid (cd_host input)) (enumerate 0 (cd_endpoints input)) db1 = Inr db2
          \<and> t_endpoints ?db' = t_endpoints db2)"
    unfolding import_discovery_device_def Inr sum.case
    by (rule tx_effect_after_commit) (fastforce simp: attempt_Inr_iff dest!: insert_audit_Inr)
  then show ?thesis
  proof (elim disjE exE conjE)
    fix did db1 db2
    assume row: "import_device_row fresh now (job_project_id job) input db = Inr (did, db1)"
      and each: "each (import_endpoint ids did now jid (cd_host input)) (enumerate 0 (cd_endpoints input)) db1 = Inr db2"
      and db': "t_endpoints ?db' = t_endpoints db2"
    have "t_endpoints db1 = t_endpoints db" "t_results db1 = t_results db"
      using row by (auto simp: import_device_row_def attempt_Inr_iff put_Inr update_devices_def split: option.splits)
    then have "justified jid (cd_host input) db db1" by (auto simp: justified_def)
    then have "justified jid (cd_host input) db db2"
      by (rule each_keeps[OF each]) (auto intro: import_endpoint_justified)
    then show ?thesis using e v db' by (simp add: justified_def)
  qed (use e v in auto)
qed

definition demo_scanned :: db where
  "demo_scanned = demo_db\<lparr>t_jobs := [demo_job\<lparr>dj_status := ''completed''\<rparr>],
     t_results := [\<lparr>dr_id = ''r1'', dr_job_id = ''j1'', dr_host = ''10.0.0.1'', dr_port = 80,
        dr_protocol = ''http'', dr_service_name = ''web'', dr_fingerprint = ''fp'',
        dr_response_summary = ''200'', dr_confidence = 90, dr_import_status = ''pending'', dr_created_at = 5\<rparr>]\<rparr>"

definition demo_import :: "db \<times> device res" where
  "demo_import = import_discovery_device ''dev9'' ''x'' (demo_ids ''ep'') 0 ''j1''
     (demo_device_input ''10.0.0.1'' [demo_endpoint_input '''' ''http'' 80, demo_endpoint_input '''' ''ssh'' 22])
     demo_audit demo_scanned"

definition demo_imported_endpoint :: endpoint_row where
  "demo_imported_endpoint = imported_row ''ep0'' ''dev9'' 0 True (demo_endpoint_input '''' ''http'' 80)"

theorem import_only_verifies_evidence_witness:
  "has_evidence ''j1'' ''10.0.0.1'' demo_scanned demo_imported_endpoint
     \<and> map e_verification_status (t_endpoints (fst demo_import))
        = [''unverified'', ''unverified'', ''verified'', ''unverified'']"
proof
  have "t_endpoints (fst demo_import) = t_endpoints demo_db @ [demo_imported_endpoint,
      imported_row ''ep1'' ''dev9'' 0 False (demo_endpoint_input '''' ''ssh'' 22)]" by code_simp
  then have rows: "demo_imported_endpoint \<in> set (t_endpoints (fst demo_import))" 
     by simp
  then have "has_evidence ''j1'' (cd_host (demo_device_input ''10.0.0.1'' [demo_endpoint_input '''' ''http'' 80,
        demo_endpoint_input '''' ''ssh'' 22])) demo_scanned demo_imported_endpoint
      \<or> (\<exists>e0\<in>set (t_endpoints demo_scanned). e_id e0 = e_id demo_imported_endpoint
          \<and> e_verification_status e0 = ''verified'')"
    unfolding demo_import_def
    by (rule import_only_verifies_evidence) (simp add: demo_imported_endpoint_def imported_row_def)
  moreover have "\<not> (\<exists>e0\<in>set (t_endpoints demo_scanned). e_id e0 = e_id demo_imported_endpoint
          \<and> e_verification_status e0 = ''verified'')"
    by code_simp
  ultimately show "has_evidence ''j1'' ''10.0.0.1'' demo_scanned demo_imported_endpoint"
    by (simp add: demo_device_input_def)
  show "map e_verification_status (t_endpoints (fst demo_import))
        = [''unverified'', ''unverified'', ''verified'', ''unverified'']"
    by code_simp
qed

end
