(* ===== verification/Steps.thy ===== *)
theory Steps
  imports StoreMfa StorePolicies StoreForwards StoreDiscovery
begin

text \<open>
  The store as a transition system: \<open>store_step\<close> has one rule for every operation of
  \<open>store/*.go\<close> that writes, with arbitrary arguments and whatever its outcome, and \<open>reachable\<close>
  are the states that a sequence of them makes of the freshly migrated database.
\<close>

inductive store_step :: "db \<Rightarrow> db \<Rightarrow> bool" where
  initial_admin: "store_step db (fst (create_initial_admin uid aid now input audit db))"
| user_created: "store_step db (fst (create_user uid aid now input audit db))"
| user_updated: "store_step db (fst (update_user aid now uid input audit db))"
| user_deleted: "store_step db (fst (delete_user_op aid now uid audit db))"
| logged_in: "store_step db (fst (create_auth_session sid now uid token csrf expires db))"
| touched: "store_step db (touch_auth_session sid now db)"
| logged_out: "store_step db (fst (revoke_auth_session token db))"
| password_changed: "store_step db (fst (change_password sid aid now input db))"
| logins_cleaned: "store_step db (fst (cleanup_auth_sessions now db))"
| challenged: "store_step db (fst (create_mfa_challenge cid now rnow uid token purpose secret ip expires db))"
| onboarding_password: "store_step db (fst (set_onboarding_password now cid hash db))"
| onboarding_email: "store_step db (fst (set_onboarding_email_delivery now cid email code expires db))"
| onboarding_verified: "store_step db (fst (verify_onboarding_email cid code db))"
| method_chosen: "store_step db (fst (set_mfa_challenge_method now cid method secret code expires db))"
| email_cleared: "store_step db (clear_mfa_email_delivery cid code db)"
| challenge_failed: "store_step db (fst (fail_mfa_challenge cid db))"
| password_completed: "store_step db (fst (complete_password_change sid aid now input db))"
| mfa_completed: "store_step db (fst (complete_mfa sid aid code_id now input onboarding db))"
| mfa_reset: "store_step db (fst (reset_user_mfa_where P aid now audit db))"
| policy_saved: "store_step db (fst (save_access_policy aid now k input audit create db))"
| policy_deleted: "store_step db (fst (delete_access_policy aid now k audit db))"
| node_created: "store_step db (fst (create_node f aid now input audit db))"
| node_updated: "store_step db (fst (update_node aid now k input enabled audit db))"
| node_deleted: "store_step db (fst (delete_node_op aid now k audit db))"
| node_checked: "store_step db (fst (update_node_health k status t db))"
| credential_saved: "store_step db (save_node_credential k nonce ciphertext db)"
| credential_deleted: "store_step db (delete_node_credential k db)"
| project_created: "store_step db (fst (create_project k aid ids now code input audit db))"
| project_updated: "store_step db (fst (update_project aid ids now k input audit db))"
| project_deleted: "store_step db (fst (delete_project_op aid now k audit db))"
| ports_replaced: "store_step db (fst (replace_project_scan_ports aid now k ports audit db))"
| device_created: "store_step db (fst (create_device did aid ids now k input audit db))"
| devices_imported: "store_step db (fst (create_devices dids k inputs audit db))"
| device_verified: "store_step db (fst (verify_device_endpoints aid now k did statuses audit db))"
| device_updated: "store_step db (fst (update_device aid ids now k did input audit db))"
| device_deleted: "store_step db (fst (delete_device_op aid now k did audit db))"
| job_created: "store_step db (fst (create_discovery_job jid aid now k networks ports audit db))"
| job_updated: "store_step db (fst (set_discovery_job_state now jid status progress db))"
| result_saved: "store_step db (fst (save_discovery_result rid now jid r db))"
| result_imported: "store_step db (fst (import_discovery_device fresh aid ids now jid input audit db))"
| forward_reserved: "store_step db (fst (reserve_port_forward fid aid now input audit db))"
| forward_activated: "store_step db (fst (activate_port_forward now fid tt ti db))"
| forward_marked: "store_step db (fst (set_port_forward_status aid now fid status audit db))"
| forward_deleted: "store_step db (fst (delete_port_forward aid now fid audit db))"
| access_created: "store_step db (fst (create_access_session sid aid now input audit db))"
| access_resolved: "store_step db (fst (resolve_access_grant now token grant cutoff db))"
| access_exchanged: "store_step db (fst (exchange_access_grant now rnow token grant cutoff db))"
| access_touched: "store_step db (fst (touch_access_session sid now cutoff db))"
| resource_revoked: "store_step db (fst (revoke_resource_sessions now pid did db))"
| access_revoked: "store_step db (fst (revoke_access_session aid now sid audit db))"
| access_expired: "store_step db (fst (expire_access_sessions now cutoff db))"
| audit_appended: "store_step db (fst (append_audit aid now audit db))"

inductive reachable :: "db \<Rightarrow> bool" where
  migrated: "reachable empty_db"
| stepped: "reachable db \<Longrightarrow> store_step db db' \<Longrightarrow> reachable db'"

inductive_cases store_stepE: "store_step db db'"

lemma append_audit_inv [on_ok_rules]: "store_inv db \<Longrightarrow> store_inv (fst (append_audit aid now a db))"
  unfolding append_audit_def by (intro on_ok_rules)

lemma store_step_inv: "store_step db db' \<Longrightarrow> store_inv db \<Longrightarrow> store_inv db'"
  by (induction rule: store_step.induct) (intro on_ok_rules; assumption)+

text \<open>C1. Every state the store can reach is consistent: whatever operations are run, with whatever
arguments and outcomes, every row satisfies the checks of its table, keys are unique, references are to
existing rows, every access session has an up-to-date log row, and no user has two live MFA challenges or
one with five failed attempts.\<close>

theorem reachable_inv: "reachable db \<Longrightarrow> store_inv db"
  by (induction rule: reachable.induct) (auto intro: empty_db_inv store_step_inv)

definition first_admin :: create_user_input where
  "first_admin = \<lparr>cu_username = ''admin'', cu_display_name = ''Admin'', cu_password_hash = ''h'',
     cu_role = ''system_admin'', cu_enabled = True, cu_project_ids = []\<rparr>"

definition installed_db :: db where
  "installed_db = fst (create_initial_admin ''u1'' ''x1'' 0 first_admin demo_audit empty_db)"

theorem reachable_inv_witness:
  "store_inv (fst (create_auth_session ''s1'' 1 ''u1'' ''t1'' ''c'' (minutes 60) installed_db))
   \<and> map s_user_id (t_auth_sessions (fst (create_auth_session ''s1'' 1 ''u1'' ''t1'' ''c'' (minutes 60) installed_db))) = [''u1'']"
proof
  have "reachable installed_db"
    unfolding installed_db_def by (rule reachable.stepped[OF reachable.migrated store_step.initial_admin])
  from reachable_inv[OF reachable.stepped[OF this store_step.logged_in]]
  show "store_inv (fst (create_auth_session ''s1'' 1 ''u1'' ''t1'' ''c'' (minutes 60) installed_db))" .
  show "map s_user_id (t_auth_sessions (fst (create_auth_session ''s1'' 1 ''u1'' ''t1'' ''c'' (minutes 60) installed_db))) = [''u1'']"
    by code_simp
qed

end
