(* ===== verification/LoginLimiter.thy ===== *)
theory LoginLimiter
  imports Timestamps "HOL-Library.Product_Lexorder"
begin

text \<open>
  The login throttle: \<open>auth/login_limiter.go\<close>.

  A Go map from keys (user and source address) to the number of failures in a fixed window and
  the start of that window. The map is the list of its entries, one per key, in the order the
  iteration of \<open>evictOldest\<close> visits them; Go leaves that order open and no statement depends on
  it. The mutex makes each operation one step.
\<close>

record login_attempt =
  la_count :: int
  la_window_start :: instant

record login_limiter =
  ll_attempts :: "(string \<times> login_attempt) list"
  ll_limit :: int
  ll_window :: int
  ll_max_keys :: nat

section \<open>Operations\<close>

definition new_login_limiter :: "int \<Rightarrow> int \<Rightarrow> int list \<Rightarrow> login_limiter" where
  "new_login_limiter limit window max_keys = \<lparr>ll_attempts = [], ll_limit = limit, ll_window = window,
     ll_max_keys = (case max_keys of [] \<Rightarrow> 4096 | k # _ \<Rightarrow> if k > 0 then nat k else 4096)\<rparr>"

definition attempt_of :: "string \<Rightarrow> login_limiter \<Rightarrow> login_attempt option" where
  "attempt_of key l = map_of (ll_attempts l) key"

definition put_attempt :: "string \<Rightarrow> login_attempt \<Rightarrow> login_limiter \<Rightarrow> login_limiter" where
  "put_attempt key a l = l\<lparr>ll_attempts := filter (\<lambda>x. fst x \<noteq> key) (ll_attempts l) @ [(key, a)]\<rparr>"

definition drop_attempt :: "string \<Rightarrow> login_limiter \<Rightarrow> login_limiter" where
  "drop_attempt key l = l\<lparr>ll_attempts := filter (\<lambda>x. fst x \<noteq> key) (ll_attempts l)\<rparr>"

definition elapsed :: "instant \<Rightarrow> login_limiter \<Rightarrow> login_attempt \<Rightarrow> bool" where
  "elapsed now l a \<longleftrightarrow> now - la_window_start a \<ge> ll_window l"

definition cleanup :: "instant \<Rightarrow> login_limiter \<Rightarrow> login_limiter" where
  "cleanup now l = l\<lparr>ll_attempts := filter (\<lambda>x. \<not> elapsed now l (snd x)) (ll_attempts l)\<rparr>"

text \<open>The loop keeps the first key it sees and any later one with an older window.\<close>

fun oldest_key :: "(string \<times> login_attempt) list \<Rightarrow> string \<Rightarrow> instant \<Rightarrow> string" where
  "oldest_key [] key t = key"
| "oldest_key ((k, a) # rest) key t =
     (if key = '''' \<or> la_window_start a < t then oldest_key rest k (la_window_start a)
      else oldest_key rest key t)"

definition evict_oldest :: "login_limiter \<Rightarrow> login_limiter" where
  "evict_oldest l = (let key = oldest_key (ll_attempts l) '''' 0 in
     if key \<noteq> '''' then drop_attempt key l else l)"

definition blocked :: "string \<Rightarrow> instant \<Rightarrow> login_limiter \<Rightarrow> login_limiter \<times> (bool \<times> int)" where
  "blocked key now l = (let l = cleanup now l in
     (l, case attempt_of key l of None \<Rightarrow> (False, 0)
         | Some a \<Rightarrow> if la_count a < ll_limit l then (False, 0)
             else let retry = ll_window l - (now - la_window_start a) in
               (True, if retry < seconds 1 then seconds 1 else retry)))"

definition failure :: "string \<Rightarrow> instant \<Rightarrow> login_limiter \<Rightarrow> login_limiter" where
  "failure key now l =
     (case attempt_of key l of
        Some a \<Rightarrow> if elapsed now l a then put_attempt key \<lparr>la_count = 1, la_window_start = now\<rparr> l
                  else put_attempt key (a\<lparr>la_count := la_count a + 1\<rparr>) l
      | None \<Rightarrow>
          let l = (if length (ll_attempts l) \<ge> ll_max_keys l
                   then let l = cleanup now l in
                     if length (ll_attempts l) \<ge> ll_max_keys l then evict_oldest l else l
                   else l)
          in put_attempt key \<lparr>la_count = 1, la_window_start = now\<rparr> l)"

definition success :: "string \<Rightarrow> login_limiter \<Rightarrow> login_limiter" where
  "success key l = drop_attempt key l"

section \<open>The map is a map, and it is bounded\<close>

definition limiter_inv :: "login_limiter \<Rightarrow> bool" where
  "limiter_inv l \<longleftrightarrow> distinct (map fst (ll_attempts l)) \<and> '''' \<notin> fst ` set (ll_attempts l)
     \<and> length (ll_attempts l) \<le> ll_max_keys l \<and> 0 < ll_max_keys l"

lemma new_limiter_inv: "limiter_inv (new_login_limiter limit window ks)"
  by (auto simp: limiter_inv_def new_login_limiter_def split: list.splits)

lemma length_filter_key:
  "distinct (map fst t) \<Longrightarrow> length (filter (\<lambda>x. fst x \<noteq> key) t) + (if key \<in> fst ` set t then 1 else 0) = length t"
proof (induction t)
  case (Cons x t)
  show ?case
  proof (cases "fst x = key")
    case True
    then have "\<forall>y\<in>set t. fst y \<noteq> key" using Cons.prems by (auto simp: image_iff)
    then have "filter (\<lambda>x. fst x \<noteq> key) t = t" by (simp add: filter_id_conv)
    then show ?thesis using True by simp
  next
    case False
    then show ?thesis using Cons by simp
  qed
qed simp

lemma put_attempt_inv:
  assumes "limiter_inv l" "key \<noteq> ''''" "key \<in> fst ` set (ll_attempts l) \<or> length (ll_attempts l) < ll_max_keys l"
  shows "limiter_inv (put_attempt key a l)"
  using assms length_filter_key[of "ll_attempts l" key]
  by (auto simp: limiter_inv_def put_attempt_def distinct_map_filter split: if_splits)

lemma drop_attempt_inv: "limiter_inv l \<Longrightarrow> limiter_inv (drop_attempt key l)"
  by (auto simp: limiter_inv_def drop_attempt_def distinct_map_filter intro: le_trans[OF length_filter_le])

lemma cleanup_inv: "limiter_inv l \<Longrightarrow> limiter_inv (cleanup now l)"
  by (auto simp: limiter_inv_def cleanup_def distinct_map_filter intro: le_trans[OF length_filter_le])

lemma oldest_key_in:
  "'''' \<notin> fst ` set t \<Longrightarrow> key \<noteq> '''' \<Longrightarrow> oldest_key t key s \<in> insert key (fst ` set t)"
  by (induction t key s rule: oldest_key.induct) auto

lemma oldest_key_some:
  assumes "'''' \<notin> fst ` set t" "t \<noteq> []" shows "oldest_key t '''' s \<in> fst ` set t"
  using assms oldest_key_in[of "tl t" "fst (hd t)" "la_window_start (snd (hd t))"]
  by (cases t) (auto simp: split_beta)

lemma evict_makes_room:
  assumes "limiter_inv l" "length (ll_attempts l) \<ge> ll_max_keys l"
  shows "length (ll_attempts (evict_oldest l)) < ll_max_keys l"
proof -
  have ne: "ll_attempts l \<noteq> []" using assms by (auto simp: limiter_inv_def)
  then have k: "oldest_key (ll_attempts l) '''' 0 \<in> fst ` set (ll_attempts l)"
    using assms oldest_key_some by (auto simp: limiter_inv_def)
  then have "oldest_key (ll_attempts l) '''' 0 \<noteq> ''''" using assms unfolding limiter_inv_def by metis
  then show ?thesis
    using k assms length_filter_key[of "ll_attempts l" "oldest_key (ll_attempts l) '''' 0"]
    by (simp add: evict_oldest_def Let_def drop_attempt_def limiter_inv_def)
qed

lemma evict_oldest_inv: "limiter_inv l \<Longrightarrow> limiter_inv (evict_oldest l)"
  by (simp add: evict_oldest_def Let_def drop_attempt_inv)

lemma max_keys_kept [simp]:
  "ll_max_keys (cleanup now l) = ll_max_keys l" "ll_max_keys (evict_oldest l) = ll_max_keys l"
  "ll_max_keys (put_attempt key a l) = ll_max_keys l" "ll_max_keys (drop_attempt key l) = ll_max_keys l"
  by (simp_all add: cleanup_def evict_oldest_def put_attempt_def drop_attempt_def Let_def)

lemma failure_inv:
  assumes inv: "limiter_inv l" and key: "key \<noteq> ''''" shows "limiter_inv (failure key now l)"
proof (cases "attempt_of key l")
  case None
  let ?l = "if length (ll_attempts l) \<ge> ll_max_keys l then let l = cleanup now l in
      if length (ll_attempts l) \<ge> ll_max_keys l then evict_oldest l else l else l"
  have "limiter_inv ?l \<and> length (ll_attempts ?l) < ll_max_keys ?l"
    using inv cleanup_inv[OF inv, of now] evict_oldest_inv[OF cleanup_inv[OF inv, of now]]
      evict_makes_room[OF cleanup_inv[OF inv, of now]] by (auto simp: Let_def)
  then show ?thesis using None key
    unfolding failure_def None option.case Let_def by (intro put_attempt_inv) (simp_all add: Let_def)
next
  case (Some a)
  then have "key \<in> fst ` set (ll_attempts l)" by (metis attempt_of_def domI dom_map_of_conv_image_fst)
  then show ?thesis using inv key Some by (simp add: failure_def put_attempt_inv)
qed

section \<open>Failures in a window block\<close>

lemma attempt_of_put [simp]: "attempt_of key (put_attempt key a l) = Some a"
proof -
  have "map_of (filter (\<lambda>x. fst x \<noteq> key) (ll_attempts l)) key = None" by (auto simp: map_of_eq_None_iff)
  then show ?thesis by (simp add: attempt_of_def put_attempt_def map_add_def)
qed

lemma limits_kept [simp]:
  "ll_limit (cleanup now l) = ll_limit l" "ll_window (cleanup now l) = ll_window l"
  "ll_limit (put_attempt key a l) = ll_limit l" "ll_window (put_attempt key a l) = ll_window l"
  by (simp_all add: cleanup_def put_attempt_def)

lemma attempt_of_put_other [simp]: "k \<noteq> key \<Longrightarrow> attempt_of k (put_attempt key a l) = attempt_of k l"
proof -
  assume "k \<noteq> key"
  then have "map_of (filter (\<lambda>x. fst x \<noteq> key) t) k = map_of t k" for t :: "(string \<times> login_attempt) list"
    by (induction t) auto
  then show ?thesis using \<open>k \<noteq> key\<close>
    by (simp add: attempt_of_def put_attempt_def map_add_def split: option.splits)
qed

lemma attempt_of_drop: "attempt_of k (drop_attempt key l) = (if k = key then None else attempt_of k l)"
proof -
  have "map_of (filter (\<lambda>x. fst x \<noteq> key) t) k = (if k = key then None else map_of t k)"
    for t :: "(string \<times> login_attempt) list"
    by (induction t) auto
  then show ?thesis by (simp add: attempt_of_def drop_attempt_def)
qed

lemma attempt_of_cleanup:
  assumes "distinct (map fst (ll_attempts l))"
  shows "attempt_of key (cleanup now l) = (case attempt_of key l of None \<Rightarrow> None
     | Some a \<Rightarrow> if elapsed now l a then None else Some a)"
proof -
  have "map_of (filter (\<lambda>x. \<not> Q (snd x)) t) key = (case map_of t key of None \<Rightarrow> None
     | Some a \<Rightarrow> if Q a then None else Some a)"
    if "distinct (map fst t)" for t :: "(string \<times> login_attempt) list" and Q
    using that by (induction t) (auto simp: map_of_eq_None_iff split: option.splits)
  then show ?thesis using assms by (simp add: attempt_of_def cleanup_def)
qed

section \<open>The limiter implements a fixed window per key\<close>

text \<open>What callers do with a limiter, in order of time, and the contract of one key: a failure opens a
window or counts in the open one, a success forgets the key, and other keys do not matter.\<close>

datatype limiter_event = Fail string instant | Ask string instant | Clear string

fun limiter_step :: "limiter_event \<Rightarrow> login_limiter \<Rightarrow> login_limiter" where
  "limiter_step (Fail key t) l = failure key t l"
| "limiter_step (Ask key t) l = fst (blocked key t l)"
| "limiter_step (Clear key) l = success key l"

definition limiter_run :: "limiter_event list \<Rightarrow> login_limiter \<Rightarrow> login_limiter" where
  "limiter_run es l = fold limiter_step es l"

fun window_step :: "int \<Rightarrow> string \<Rightarrow> limiter_event \<Rightarrow> login_attempt option \<Rightarrow> login_attempt option" where
  "window_step w key (Fail k t) m = (if k \<noteq> key then m else case m of
       None \<Rightarrow> Some \<lparr>la_count = 1, la_window_start = t\<rparr>
     | Some a \<Rightarrow> if t - la_window_start a \<ge> w then Some \<lparr>la_count = 1, la_window_start = t\<rparr>
                 else Some (a\<lparr>la_count := la_count a + 1\<rparr>))"
| "window_step w key (Ask k t) m = m"
| "window_step w key (Clear k) m = (if k = key then None else m)"

definition open_window :: "int \<Rightarrow> instant \<Rightarrow> login_attempt option \<Rightarrow> login_attempt option" where
  "open_window w now m = (case m of None \<Rightarrow> None | Some a \<Rightarrow> if now - la_window_start a \<ge> w then None else Some a)"

definition must_block :: "int \<Rightarrow> int \<Rightarrow> string \<Rightarrow> instant \<Rightarrow> limiter_event list \<Rightarrow> bool" where
  "must_block limit w key now es = (case open_window w now (fold (window_step w key) es None) of
     None \<Rightarrow> False | Some a \<Rightarrow> la_count a \<ge> limit)"

fun event_times :: "limiter_event list \<Rightarrow> instant list" where
  "event_times [] = []"
| "event_times (Fail k t # es) = t # event_times es"
| "event_times (Ask k t # es) = t # event_times es"
| "event_times (Clear k # es) = event_times es"

fun failing_keys :: "limiter_event list \<Rightarrow> string list" where
  "failing_keys [] = []"
| "failing_keys (Fail k t # es) = k # failing_keys es"
| "failing_keys (_ # es) = failing_keys es"

lemma open_window_later: "now \<le> t \<Longrightarrow> open_window w now m = open_window w now m' \<Longrightarrow> open_window w t m = open_window w t m'"
  by (cases m; cases m') (auto simp: open_window_def split: if_splits)

lemma attempt_of_cleanup_open:
  "distinct (map fst (ll_attempts l)) \<Longrightarrow> attempt_of key (cleanup t l) = open_window (ll_window l) t (attempt_of key l)"
  by (simp add: attempt_of_cleanup open_window_def elapsed_def split: option.splits)

lemma open_window_idem: "open_window w t (open_window w t m) = open_window w t m"
  by (auto simp: open_window_def split: option.splits)

lemma failure_no_eviction:
  assumes "attempt_of key l = None" "length (ll_attempts l) < ll_max_keys l"
  shows "failure key t l = put_attempt key \<lparr>la_count = 1, la_window_start = t\<rparr> l"
  using assms by (simp add: failure_def)

definition tracks :: "string set \<Rightarrow> login_limiter \<Rightarrow> bool" where
  "tracks K l \<longleftrightarrow> distinct (map fst (ll_attempts l)) \<and> fst ` set (ll_attempts l) \<subseteq> K \<and> finite K \<and> card K \<le> ll_max_keys l"

lemma tracks_room:
  assumes "tracks K l" "key \<in> K" "attempt_of key l = None" shows "length (ll_attempts l) < ll_max_keys l"
proof -
  have "key \<notin> fst ` set (ll_attempts l)" using assms(3) by (simp add: attempt_of_def map_of_eq_None_iff)
  then have "fst ` set (ll_attempts l) \<subset> K" using assms by (auto simp: tracks_def)
  then have "card (fst ` set (ll_attempts l)) < card K" using assms(1) psubset_card_mono by (auto simp: tracks_def)
  moreover have "card (fst ` set (ll_attempts l)) = length (ll_attempts l)"
    using assms(1) by (metis distinct_card length_map list.set_map tracks_def)
  ultimately show ?thesis using assms(1) by (simp add: tracks_def)
qed

lemma tracks_put: "tracks K l \<Longrightarrow> key \<in> K \<Longrightarrow> tracks K (put_attempt key a l)"
  by (auto simp: tracks_def put_attempt_def distinct_map_filter)

lemma failure_cases:
  assumes "tracks K l" "key \<in> K"
  shows "failure key t l = put_attempt key (case open_window (ll_window l) t (attempt_of key l) of
      None \<Rightarrow> \<lparr>la_count = 1, la_window_start = t\<rparr> | Some a \<Rightarrow> a\<lparr>la_count := la_count a + 1\<rparr>) l"
proof (cases "attempt_of key l")
  case None
  then show ?thesis using failure_no_eviction[OF None tracks_room[OF assms None]] by (simp add: open_window_def)
qed (auto simp: failure_def open_window_def elapsed_def)

lemma limiter_step_tracks:
  assumes "tracks K l" "\<And>k t. e = Fail k t \<Longrightarrow> k \<in> K"
  shows "tracks K (limiter_step e l)" "ll_window (limiter_step e l) = ll_window l" "ll_limit (limiter_step e l) = ll_limit l"
  using assms failure_cases[of K l] tracks_put[of K l]
  by (cases e; auto simp: tracks_def cleanup_def success_def drop_attempt_def blocked_def Let_def distinct_map_filter)+

text \<open>One step keeps the open windows of the limiter and of the contract the same.\<close>

lemma limiter_step_simulates:
  assumes tr: "tracks K l" and keys: "\<And>k t. e = Fail k t \<Longrightarrow> k \<in> K"
    and sim: "open_window (ll_window l) now (attempt_of key l) = open_window (ll_window l) now m"
    and later: "set (event_times [e]) \<subseteq> {now..t}" "now \<le> t"
  shows "open_window (ll_window l) t (attempt_of key (limiter_step e l)) = open_window (ll_window l) t (window_step (ll_window l) key e m)"
proof (cases e)
  case (Fail k s)
  then have s: "now \<le> s" "s \<le> t" using later by auto
  have at_s: "open_window (ll_window l) s (attempt_of key l) = open_window (ll_window l) s m"
    using open_window_later[OF s(1) sim] .
  show ?thesis
  proof (cases "k = key")
    case True
    have "attempt_of key (failure key s l) = window_step (ll_window l) key (Fail key s) m"
      using failure_cases[OF tr keys, of key s s] Fail True at_s
      by (cases m) (auto simp: open_window_def split: option.splits if_splits)
    then show ?thesis using Fail True by simp
  next
    case False
    then have "attempt_of key (failure k s l) = attempt_of key l"
      using failure_cases[OF tr keys, of k s s] Fail by simp
    then show ?thesis using Fail False open_window_later[OF later(2) sim] by simp
  qed
next
  case (Ask k s)
  then have s: "now \<le> s" "s \<le> t" using later by auto
  have "attempt_of key (fst (blocked k s l)) = open_window (ll_window l) s (attempt_of key l)"
    using tr attempt_of_cleanup_open[of l key s] by (simp add: blocked_def Let_def tracks_def)
  then have "open_window (ll_window l) s (attempt_of key (fst (blocked k s l))) = open_window (ll_window l) s m"
    using open_window_later[OF s(1) sim] by (simp add: open_window_idem)
  from open_window_later[OF s(2) this] show ?thesis by (simp add: Ask)
next
  case (Clear k)
  then show ?thesis using open_window_later[OF later(2) sim] by (simp add: success_def attempt_of_drop)
qed

lemma limiter_run_simulates:
  assumes "tracks K l" "set (failing_keys es) \<subseteq> K" "sorted (now # event_times es)"
    and "\<forall>s\<in>set (event_times es). s \<le> t" "now \<le> t"
    and "open_window (ll_window l) now (attempt_of key l) = open_window (ll_window l) now m"
  shows "open_window (ll_window l) t (attempt_of key (limiter_run es l)) = open_window (ll_window l) t (fold (window_step (ll_window l) key) es m)
    \<and> tracks K (limiter_run es l) \<and> ll_window (limiter_run es l) = ll_window l \<and> ll_limit (limiter_run es l) = ll_limit l"
  using assms
proof (induction es arbitrary: l now m)
  case Nil
  show ?case using open_window_later[OF Nil(5) Nil(6)] Nil(1) by (simp add: limiter_run_def)
next
  case (Cons e es)
  have keys: "k \<in> K" if "e = Fail k s" for k s using Cons.prems(2) that by simp
  have split: "event_times (e # es) = event_times [e] @ event_times es" by (cases e) auto
  obtain u where u: "now \<le> u" "set (event_times [e]) \<subseteq> {now..u}" "sorted (u # event_times es)" "u \<le> t"
  proof (cases "event_times [e]")
    case Nil
    then show ?thesis using that[of now] Cons.prems(3,5) split by simp
  next
    case (Cons s ss)
    then have "event_times [e] = [s]" by (cases e) auto
    then show ?thesis using that[of s] Cons.prems(3,4) split by simp
  qed
  have step: "tracks K (limiter_step e l)" "ll_window (limiter_step e l) = ll_window l"
      "ll_limit (limiter_step e l) = ll_limit l"
    using limiter_step_tracks[OF Cons.prems(1), of e] keys by blast+
  have sim: "open_window (ll_window (limiter_step e l)) u (attempt_of key (limiter_step e l))
      = open_window (ll_window (limiter_step e l)) u (window_step (ll_window l) key e m)"
    unfolding step(2) by (rule limiter_step_simulates[OF Cons.prems(1) _ Cons.prems(6) u(2,1)]) (rule keys)
  have sub: "set (failing_keys es) \<subseteq> K" using Cons.prems(2) by (cases e) auto
  have times: "\<forall>s\<in>set (event_times es). s \<le> t" using Cons.prems(4) split by auto
  show ?case
    using Cons.IH[OF step(1) sub u(3) times u(4) sim]
    by (simp only: limiter_run_def fold.simps comp_def step(2,3))
qed

text \<open>C29. The limiter implements a fixed window per key: asked after any history in order of time, with
no more failing keys than it can hold, it blocks a key exactly when at least the limit of failures were
counted in the window that is still open, whatever happened to other keys in between.\<close>

theorem limiter_refines_window:
  assumes "sorted (event_times es)" "\<forall>s\<in>set (event_times es). s \<le> now"
    and "card (set (failing_keys es)) \<le> ll_max_keys (new_login_limiter limit w ks)"
  shows "fst (snd (blocked key now (limiter_run es (new_login_limiter limit w ks)))) = must_block limit w key now es"
proof -
  let ?l = "new_login_limiter limit w ks"
  obtain start where start: "sorted (start # event_times es)" "start \<le> now"
  proof (cases "event_times es")
    case Nil
    then show ?thesis using that[of now] by simp
  next
    case (Cons s ss)
    then show ?thesis using that[of s] assms(1,2) by simp
  qed
  have l: "tracks (set (failing_keys es)) ?l" "ll_window ?l = w" "ll_limit ?l = limit" "attempt_of key ?l = None"
    using assms(3) by (simp_all add: tracks_def new_login_limiter_def attempt_of_def)
  have "open_window w start (attempt_of key ?l) = open_window w start None" by (simp only: l(4))
  from limiter_run_simulates[OF l(1) subset_refl start(1) assms(2) start(2), where m = None and key = key, unfolded l(2,3), OF this]
  have run: "open_window w now (attempt_of key (limiter_run es ?l)) = open_window w now (fold (window_step w key) es None)"
    "tracks (set (failing_keys es)) (limiter_run es ?l)" "ll_window (limiter_run es ?l) = w" "ll_limit (limiter_run es ?l) = limit"
    by blast+
  have "attempt_of key (cleanup now (limiter_run es ?l)) = open_window w now (fold (window_step w key) es None)"
    using attempt_of_cleanup_open[of "limiter_run es ?l" key now] run by (simp add: tracks_def)
  then show ?thesis using run(4)
    by (cases "open_window w now (fold (window_step w key) es None)") (auto simp: blocked_def Let_def must_block_def)
qed

definition demo_events :: "limiter_event list" where
  "demo_events = [Fail ''u1@a'' 1, Fail ''u2@b'' 2, Ask ''u1@a'' 3, Fail ''u1@a'' 4, Fail ''u1@a'' 5]"

theorem limiter_refines_window_witness:
  "fst (snd (blocked ''u1@a'' 9 (limiter_run demo_events (new_login_limiter 3 100 [2]))))
     \<and> \<not> fst (snd (blocked ''u1@a'' 101 (limiter_run demo_events (new_login_limiter 3 100 [2]))))"
proof
  have es: "sorted (event_times demo_events)" "set (event_times demo_events) = {1, 2, 3, 4, 5}"
      "set (failing_keys demo_events) = {''u1@a'', ''u2@b''}"
    by (auto simp: demo_events_def)
  have "fst (snd (blocked ''u1@a'' t (limiter_run demo_events (new_login_limiter 3 100 [2]))))
      = must_block 3 100 ''u1@a'' t demo_events" if "9 \<le> t" for t
    using that es by (intro limiter_refines_window) (auto simp: new_login_limiter_def)
  moreover have "must_block 3 100 ''u1@a'' 9 demo_events" "\<not> must_block 3 100 ''u1@a'' 101 demo_events"
    by (simp_all add: must_block_def open_window_def demo_events_def)
  ultimately show "fst (snd (blocked ''u1@a'' 9 (limiter_run demo_events (new_login_limiter 3 100 [2]))))"
    "\<not> fst (snd (blocked ''u1@a'' 101 (limiter_run demo_events (new_login_limiter 3 100 [2]))))"
    by simp_all
qed

text \<open>The limiter uses bounded memory: whatever keys fail, in whatever order, it never holds more
entries than its capacity, and one entry per key.\<close>

theorem limiter_bounded:
  assumes "'''' \<notin> set (failing_keys es)"
  shows "limiter_inv (limiter_run es (new_login_limiter limit w ks))"
proof -
  have "limiter_inv (limiter_run es l)" if "limiter_inv l" for l
    using assms that
  proof (induction es arbitrary: l)
    case (Cons e es)
    have "limiter_inv (limiter_step e l)"
      using Cons.prems by (cases e) (auto simp: failure_inv blocked_def Let_def cleanup_inv success_def drop_attempt_inv)
    moreover have "'''' \<notin> set (failing_keys es)" using Cons.prems by (cases e) auto
    ultimately show ?case using Cons.IH by (simp add: limiter_run_def)
  qed (simp add: limiter_run_def)
  then show ?thesis by (simp add: new_limiter_inv)
qed

theorem limiter_bounded_witness:
  "length (ll_attempts (limiter_run [Fail ''a'' 1, Fail ''b'' 2, Fail ''c'' 3] (new_login_limiter 3 100 [2]))) \<le> 2"
  using limiter_bounded[of "[Fail ''a'' 1, Fail ''b'' 2, Fail ''c'' 3]" 3 100 "[2]"]
  by (simp add: limiter_inv_def) (simp add: limiter_run_def failure_def new_login_limiter_def attempt_of_def
      cleanup_def evict_oldest_def drop_attempt_def put_attempt_def elapsed_def Let_def)

end
