(* ===== verification/Http.thy ===== *)
theory Http
  imports Texts "HOL-Library.AList"
begin

text \<open>
  What the gateways use of Go's \<open>net/http\<close>, \<open>net/textproto\<close> and \<open>net\<close>: header maps with
  canonical names, the cookies of a request and their text, and \<open>net.SplitHostPort\<close>.

  A header map is an association list from canonical names to values. \<open>cookies_of\<close> is
  \<open>Request.Cookies\<close> (without the limit on the number of cookies) and \<open>cookie_text\<close> is
  \<open>Cookie.String\<close> for a cookie with a name and a value only; \<open>cookies_of_joined\<close> shows that the
  cookies written into one header with \<open>; \<close> between them are read back.
\<close>

section \<open>Headers\<close>

definition is_alpha :: "char \<Rightarrow> bool" where
  "is_alpha c \<longleftrightarrow> CHR ''a'' \<le> c \<and> c \<le> CHR ''z'' \<or> CHR ''A'' \<le> c \<and> c \<le> CHR ''Z''"

definition is_token_char :: "char \<Rightarrow> bool" where
  "is_token_char c \<longleftrightarrow> is_alpha c \<or> is_digit c \<or> c \<in> set ''!#$%&*+-.^_`|~'' \<or> c = CHR 0x27"

definition is_token :: "string \<Rightarrow> bool" where
  "is_token s \<longleftrightarrow> s \<noteq> [] \<and> list_all is_token_char s"

definition upper_char :: "char \<Rightarrow> char" where
  "upper_char c = (if CHR ''a'' \<le> c \<and> c \<le> CHR ''z'' then char_of (of_char c - 32 :: nat) else c)"

fun canonical_words :: "bool \<Rightarrow> string \<Rightarrow> string" where
  "canonical_words up [] = []"
| "canonical_words up (c # s) = (if up then upper_char c else lower_char c) # canonical_words (c = CHR ''-'') s"

definition canonical_name :: "string \<Rightarrow> string" where
  "canonical_name s = (if is_token s then canonical_words True s else s)"

type_synonym headers = "(string \<times> string list) list"

definition header_values :: "headers \<Rightarrow> string \<Rightarrow> string list" where
  "header_values h name = (case map_of h (canonical_name name) of None \<Rightarrow> [] | Some vs \<Rightarrow> vs)"

definition header_get :: "headers \<Rightarrow> string \<Rightarrow> string" where
  "header_get h name = (case header_values h name of [] \<Rightarrow> '''' | v # _ \<Rightarrow> v)"

definition header_del :: "string \<Rightarrow> headers \<Rightarrow> headers" where
  "header_del name h = AList.delete (canonical_name name) h"

definition header_put :: "string \<Rightarrow> string list \<Rightarrow> headers \<Rightarrow> headers" where
  "header_put name vs h = AList.update (canonical_name name) vs h"

definition header_set :: "string \<Rightarrow> string \<Rightarrow> headers \<Rightarrow> headers" where
  "header_set name v h = header_put name [v] h"

definition header_add :: "string \<Rightarrow> string \<Rightarrow> headers \<Rightarrow> headers" where
  "header_add name v h = header_put name (header_values h name @ [v]) h"

lemma header_values_del:
  "header_values (header_del n h) m = (if canonical_name m = canonical_name n then [] else header_values h m)"
  by (simp add: header_values_def header_del_def delete_conv')

lemma header_values_put:
  "header_values (header_put n vs h) m = (if canonical_name m = canonical_name n then vs else header_values h m)"
  by (simp add: header_values_def header_put_def update_conv')

lemma header_values_set:
  "header_values (header_set n v h) m = (if canonical_name m = canonical_name n then [v] else header_values h m)"
  by (simp add: header_set_def header_values_put)

lemma header_values_del_all:
  "header_values (fold header_del ns h) m
     = (if canonical_name m \<in> canonical_name ` set ns then [] else header_values h m)"
  by (induction ns arbitrary: h) (auto simp: header_values_del)

section \<open>Cookies\<close>

definition trim_ascii :: "string \<Rightarrow> string" where
  "trim_ascii s = (let sp = (\<lambda>c. c \<in> {CHR '' '', CHR 0x09, CHR 0x0A, CHR 0x0D}) in
     rev (dropWhile sp (rev (dropWhile sp s))))"

fun cut_at :: "char \<Rightarrow> string \<Rightarrow> string \<times> string" where
  "cut_at sep [] = ([], [])"
| "cut_at sep (c # s) = (if c = sep then ([], s) else case cut_at sep s of (a, b) \<Rightarrow> (c # a, b))"

definition cookie_byte :: "char \<Rightarrow> bool" where
  "cookie_byte c \<longleftrightarrow> CHR '' '' \<le> c \<and> c < CHR 0x7F \<and> c \<notin> {CHR 0x22, CHR '';'', CHR 0x5C}"

record cookie =
  c_name :: string
  c_value :: string
  c_quoted :: bool

definition parse_cookie_value :: "string \<Rightarrow> (string \<times> bool) option" where
  "parse_cookie_value raw = (let
     quoted = (length raw > 1 \<and> hd raw = CHR 0x22 \<and> last raw = CHR 0x22);
     raw = (if quoted then butlast (tl raw) else raw)
     in if list_all cookie_byte raw then Some (raw, quoted) else None)"

definition parse_cookie :: "string \<Rightarrow> cookie option" where
  "parse_cookie part = (let part = trim_ascii part; (name, val) = cut_at CHR ''='' part; name = trim_ascii name in
     if part = '''' \<or> \<not> is_token name then None
     else map_option (\<lambda>(v, q). \<lparr>c_name = name, c_value = v, c_quoted = q\<rparr>) (parse_cookie_value val))"

definition cookies_of :: "headers \<Rightarrow> cookie list" where
  "cookies_of h = concat (map (\<lambda>line. List.map_filter parse_cookie (split_on CHR '';'' (trim_ascii line)))
     (header_values h ''Cookie''))"

definition cookie_named :: "headers \<Rightarrow> string \<Rightarrow> string option" where
  "cookie_named h name = map_option c_value (List.find (\<lambda>c. c_name c = name) (cookies_of h))"

definition cookie_text :: "cookie \<Rightarrow> string" where
  "cookie_text c = (if \<not> is_token (c_name c) then [] else c_name c @ ''='' @
     (let v = filter cookie_byte (c_value c) in
      if v = [] then v else if CHR '' '' \<in> set v \<or> CHR '','' \<in> set v \<or> c_quoted c
      then CHR 0x22 # v @ [CHR 0x22] else v))"

text \<open>A cookie that was read.\<close>

definition cookie_ok :: "cookie \<Rightarrow> bool" where
  "cookie_ok c \<longleftrightarrow> is_token (c_name c) \<and> list_all cookie_byte (c_value c)"

lemma cookies_of_ok: "\<forall>c\<in>set (cookies_of h). cookie_ok c"
  by (auto simp: cookies_of_def List.map_filter_def parse_cookie_def parse_cookie_value_def cookie_ok_def
      Let_def split: if_splits prod.splits)

lemma token_char_props:
  assumes "is_token_char c"
  shows "c \<noteq> CHR ''=''" "c \<noteq> CHR '';''" "c \<notin> {CHR '' '', CHR 0x09, CHR 0x0A, CHR 0x0D}"
  using assms by (auto simp: is_token_char_def is_alpha_def is_digit_def less_eq_char_def)

lemma cookie_byte_props:
  assumes "cookie_byte c"
  shows "c \<noteq> CHR '';''" "c \<noteq> CHR 0x22" "c \<noteq> CHR '' '' \<Longrightarrow> c \<notin> {CHR '' '', CHR 0x09, CHR 0x0A, CHR 0x0D}"
  using assms by (auto simp: cookie_byte_def less_eq_char_def)

lemma trim_ascii_id:
  assumes "s \<noteq> []" "hd s \<notin> {CHR '' '', CHR 0x09, CHR 0x0A, CHR 0x0D}" "last s \<notin> {CHR '' '', CHR 0x09, CHR 0x0A, CHR 0x0D}"
  shows "trim_ascii s = s"
proof -
  let ?sp = "\<lambda>c. c \<in> {CHR '' '', CHR 0x09, CHR 0x0A, CHR 0x0D}"
  have "dropWhile ?sp s = s" using assms(1,2) by (cases s) auto
  moreover have "dropWhile ?sp (rev s) = rev s" using assms(1,3) by (cases s rule: rev_cases) auto
  ultimately show ?thesis unfolding trim_ascii_def Let_def by (simp only: rev_rev_ident)
qed

lemma trim_ascii_space: "trim_ascii (CHR '' '' # s) = trim_ascii s"
  by (simp add: trim_ascii_def Let_def)

lemma cut_at_append: "sep \<notin> set a \<Longrightarrow> cut_at sep (a @ sep # b) = (a, b)"
  by (induction a) auto

lemma is_tokenD:
  assumes "is_token s"
  shows "CHR ''='' \<notin> set s" "CHR '';'' \<notin> set s" "trim_ascii s = s" "hd s \<notin> {CHR '' '', CHR 0x09, CHR 0x0A, CHR 0x0D}"
proof -
  have all: "\<forall>c\<in>set s. is_token_char c" and ne: "s \<noteq> []"
    using assms by (auto simp: is_token_def list_all_iff)
  show "CHR ''='' \<notin> set s" "CHR '';'' \<notin> set s" using all token_char_props(1,2) by blast+
  show hd: "hd s \<notin> {CHR '' '', CHR 0x09, CHR 0x0A, CHR 0x0D}"
    using all ne token_char_props(3) by (meson hd_in_set)
  show "trim_ascii s = s"
    using all ne hd token_char_props(3) by (meson trim_ascii_id last_in_set)
qed

text \<open>The text after the equals sign.\<close>

definition value_text :: "cookie \<Rightarrow> string" where
  "value_text c = (let v = c_value c in if v = [] then v
     else if CHR '' '' \<in> set v \<or> CHR '','' \<in> set v \<or> c_quoted c then CHR 0x22 # v @ [CHR 0x22] else v)"

lemma cookie_text_ok: "cookie_ok c \<Longrightarrow> cookie_text c = c_name c @ CHR ''='' # value_text c"
proof -
  assume "cookie_ok c"
  then have "filter cookie_byte (c_value c) = c_value c" "is_token (c_name c)"
    by (auto simp: cookie_ok_def list_all_iff)
  then show ?thesis by (simp add: cookie_text_def value_text_def Let_def)
qed

lemma parse_value_text:
  assumes "cookie_ok c"
  shows "\<exists>q. parse_cookie_value (value_text c) = Some (c_value c, q)"
proof (cases "c_value c")
  case Nil
  then show ?thesis by (intro exI[of _ False]) (simp add: value_text_def parse_cookie_value_def)
next
  case (Cons a v)
  have all: "list_all cookie_byte (c_value c)" using assms by (simp add: cookie_ok_def)
  then have "a \<noteq> CHR 0x22" using Cons cookie_byte_props(2) by auto
  then show ?thesis using all Cons by (auto simp: value_text_def parse_cookie_value_def Let_def)
qed

lemma value_text_last:
  assumes "cookie_ok c" "value_text c \<noteq> []"
  shows "last (value_text c) \<notin> {CHR '' '', CHR 0x09, CHR 0x0A, CHR 0x0D}"
proof (cases "CHR '' '' \<in> set (c_value c) \<or> CHR '','' \<in> set (c_value c) \<or> c_quoted c")
  case True
  then show ?thesis using assms(2) by (auto simp: value_text_def Let_def split: if_splits)
next
  case False
  have "c_value c \<noteq> []" using assms(2) by (auto simp: value_text_def)
  then have "last (c_value c) \<in> set (c_value c)" by simp
  moreover have "cookie_byte (last (c_value c))" using assms(1) calculation by (simp add: cookie_ok_def list_all_iff)
  ultimately show ?thesis using False cookie_byte_props(3)[of "last (c_value c)"] by (auto simp: value_text_def Let_def)
qed

lemma cookie_text_trim: "cookie_ok c \<Longrightarrow> trim_ascii (cookie_text c) = cookie_text c"
proof -
  assume c: "cookie_ok c"
  then have "is_token (c_name c)" by (simp add: cookie_ok_def)
  then have n: "c_name c \<noteq> []" "hd (c_name c) \<notin> {CHR '' '', CHR 0x09, CHR 0x0A, CHR 0x0D}"
    using is_tokenD(4) by (auto simp: is_token_def)
  have "last (c_name c @ CHR ''='' # value_text c) \<notin> {CHR '' '', CHR 0x09, CHR 0x0A, CHR 0x0D}"
    using value_text_last[OF c] by (cases "value_text c") auto
  then show ?thesis using n unfolding cookie_text_ok[OF c] by (intro trim_ascii_id) auto
qed

lemma parse_cookie_text:
  assumes "cookie_ok c"
  shows "\<exists>q. parse_cookie (cookie_text c) = Some (c\<lparr>c_quoted := q\<rparr>)"
proof -
  have n: "is_token (c_name c)" using assms by (simp add: cookie_ok_def)
  obtain q where "parse_cookie_value (value_text c) = Some (c_value c, q)" using parse_value_text[OF assms] by blast
  moreover have "cut_at CHR ''='' (c_name c @ CHR ''='' # value_text c) = (c_name c, value_text c)"
    by (rule cut_at_append[OF is_tokenD(1)[OF n]])
  ultimately have "parse_cookie (cookie_text c) = Some (c\<lparr>c_quoted := q\<rparr>)"
    unfolding parse_cookie_def Let_def cookie_text_trim[OF assms]
    using n is_tokenD(3)[OF n] by (simp add: cookie_text_ok[OF assms])
  then show ?thesis by blast
qed

lemma parse_cookie_space: "parse_cookie (CHR '' '' # s) = parse_cookie s"
  by (simp add: parse_cookie_def trim_ascii_space)

lemma cookie_text_no_separator: "cookie_ok c \<Longrightarrow> CHR '';'' \<notin> set (cookie_text c)"
proof -
  assume c: "cookie_ok c"
  then have "CHR '';'' \<notin> set (c_value c)" using cookie_byte_props(1) by (auto simp: cookie_ok_def list_all_iff)
  moreover have "CHR '';'' \<notin> set (c_name c)" using c is_tokenD(2) by (auto simp: cookie_ok_def)
  ultimately show ?thesis unfolding cookie_text_ok[OF c] by (auto simp: value_text_def Let_def split: if_splits)
qed

section \<open>Cookies joined into one header\<close>

fun join_cookies :: "string list \<Rightarrow> string" where
  "join_cookies [] = []"
| "join_cookies [w] = w"
| "join_cookies (w # ws) = w @ ''; '' @ join_cookies ws"

lemma split_joined:
  assumes "ws \<noteq> []" "\<forall>w\<in>set ws. CHR '';'' \<notin> set w"
  shows "split_on CHR '';'' (join_cookies ws) = hd ws # map (\<lambda>w. CHR '' '' # w) (tl ws)"
  using assms
proof (induction ws rule: join_cookies.induct)
  case (3 w v vs)
  have "split_on CHR '';'' (CHR '' '' # join_cookies (v # vs))
      = (CHR '' '' # v) # map (\<lambda>w. CHR '' '' # w) vs"
    using 3 by simp
  then show ?case using 3 by (simp add: split_on_append)
qed (auto simp: split_on_no_sep)

lemma join_cookies_ends:
  assumes "ws \<noteq> []" "\<forall>w\<in>set ws. w \<noteq> [] \<and> hd w \<notin> A \<and> last w \<notin> A"
  shows "join_cookies ws \<noteq> [] \<and> hd (join_cookies ws) \<notin> A \<and> last (join_cookies ws) \<notin> A"
  using assms by (induction ws rule: join_cookies.induct) auto

lemma cookies_of_joined:
  assumes "\<forall>c\<in>set cs. cookie_ok c" "cs \<noteq> []" "header_values h ''Cookie'' = [join_cookies (map cookie_text cs)]"
  shows "map (\<lambda>c. (c_name c, c_value c)) (cookies_of h) = map (\<lambda>c. (c_name c, c_value c)) cs"
proof -
  let ?A = "{CHR '' '', CHR 0x09, CHR 0x0A, CHR 0x0D}"
  have ends: "cookie_text c \<noteq> [] \<and> hd (cookie_text c) \<notin> ?A \<and> last (cookie_text c) \<notin> ?A" if "c \<in> set cs" for c
  proof -
    have c: "cookie_ok c" using that assms(1) by blast
    then have n: "is_token (c_name c)" by (simp add: cookie_ok_def)
    then have "c_name c \<noteq> []" by (simp add: is_token_def)
    moreover have "last (CHR ''='' # value_text c) \<notin> ?A" using value_text_last[OF c] by (cases "value_text c") auto
    ultimately show ?thesis using is_tokenD(4)[OF n] unfolding cookie_text_ok[OF c] by simp
  qed
  then have "trim_ascii (join_cookies (map cookie_text cs)) = join_cookies (map cookie_text cs)"
    using join_cookies_ends[of "map cookie_text cs" ?A] assms(2) by (intro trim_ascii_id) auto
  moreover have "split_on CHR '';'' (join_cookies (map cookie_text cs))
      = hd (map cookie_text cs) # map (\<lambda>w. CHR '' '' # w) (tl (map cookie_text cs))"
    using assms cookie_text_no_separator by (intro split_joined) auto
  moreover have "List.map_filter parse_cookie (hd ws # map (\<lambda>w. CHR '' '' # w) (tl ws)) = List.map_filter parse_cookie ws"
    if "ws \<noteq> []" for ws
  proof -
    have "List.map_filter parse_cookie (map (\<lambda>w. CHR '' '' # w) us) = List.map_filter parse_cookie us" for us
      by (induction us) (simp_all add: List.map_filter_def parse_cookie_space)
    then show ?thesis using that by (cases ws) (simp_all add: List.map_filter_def split: option.splits)
  qed
  ultimately have "cookies_of h = List.map_filter parse_cookie (map cookie_text cs)"
    unfolding cookies_of_def assms(3) using assms(2) by (simp del: join_cookies.simps)
  moreover have "map (\<lambda>c. (c_name c, c_value c)) (List.map_filter parse_cookie (map cookie_text ds))
      = map (\<lambda>c. (c_name c, c_value c)) ds" if "\<forall>c\<in>set ds. cookie_ok c" for ds
    using that
  proof (induction ds)
    case (Cons d ds)
    obtain q where "parse_cookie (cookie_text d) = Some (d\<lparr>c_quoted := q\<rparr>)"
      using parse_cookie_text Cons.prems by auto
    then show ?case using Cons by (simp add: List.map_filter_def)
  qed (simp add: List.map_filter_def)
  ultimately show ?thesis using assms(1) by simp
qed

section \<open>Hosts with ports\<close>

fun split_last :: "char \<Rightarrow> string \<Rightarrow> (string \<times> string) option" where
  "split_last sep [] = None"
| "split_last sep (c # s) = (case split_last sep s of Some (a, b) \<Rightarrow> Some (c # a, b)
     | None \<Rightarrow> if c = sep then Some ([], s) else None)"

definition split_host_port :: "string \<Rightarrow> (string \<times> string) option" where
  "split_host_port hp = (case split_last CHR '':'' hp of None \<Rightarrow> None
   | Some (h, port) \<Rightarrow>
     if hd hp = CHR ''['' then
       let (host, rest) = cut_at CHR '']'' (tl hp) in
       if CHR '']'' \<in> set (tl hp) \<and> rest = CHR '':'' # port \<and> CHR ''['' \<notin> set (tl hp) \<and> CHR '']'' \<notin> set rest
       then Some (host, port) else None
     else if CHR '':'' \<in> set h \<or> CHR ''['' \<in> set hp \<or> CHR '']'' \<in> set hp then None else Some (h, port))"

lemma split_last_None: "sep \<notin> set s \<Longrightarrow> split_last sep s = None"
  by (induction s) auto

lemma split_last_append: "sep \<notin> set b \<Longrightarrow> split_last sep (a @ sep # b) = Some (a, b)"
  by (induction a) (auto simp: split_last_None)

lemma split_join_host_port:
  assumes "set host \<inter> {CHR ''['', CHR '']''} = {}" "set port \<inter> {CHR ''['', CHR '']'', CHR '':''} = {}"
  shows "split_host_port (join_host_port host port) = Some (host, port)"
proof (cases "CHR '':'' \<in> set host")
  case True
  have "split_last CHR '':'' (CHR ''['' # host @ CHR '']'' # CHR '':'' # port) = Some (CHR ''['' # host @ [CHR '']''], port)"
    using split_last_append[of "CHR '':''" port "CHR ''['' # host @ [CHR '']'']"] assms(2) by auto
  moreover have "cut_at CHR '']'' (host @ CHR '']'' # CHR '':'' # port) = (host, CHR '':'' # port)"
    using assms(1) by (intro cut_at_append) auto
  ultimately show ?thesis using True assms by (simp add: join_host_port_def split_host_port_def)
next
  case False
  have "split_last CHR '':'' (host @ CHR '':'' # port) = Some (host, port)"
    using assms(2) by (intro split_last_append) auto
  moreover have "hd (host @ CHR '':'' # port) \<noteq> CHR ''[''" using assms(1) by (cases host) auto
  ultimately show ?thesis using False assms by (simp add: join_host_port_def split_host_port_def)
qed

end
