(* ===== verification/Registry.thy ===== *)
theory Registry
  imports Timestamps "HOL-Library.AList" "HOL-Library.Word"
begin

text \<open>
  The connections of access sessions and their revocation: the \<open>active\<close>, \<open>revoked\<close> and
  \<open>nextID\<close> fields of \<open>WebGateway\<close> (\<open>access/gateway.go\<close>) and of \<open>SSHGateway\<close>
  (\<open>access/ssh_gateway.go\<close>) with the methods that use them under \<open>activeMu\<close>.

  A method holds the mutex for its whole body, so each is one step and a run of the gateway is a
  list of steps in the order the mutex was taken. \<open>revocation_registry\<close> is what both promise: a
  revoked session leaves a tombstone, and for ten minutes no connection of it is registered. A Go
  map of maps is a function into optional association lists; the inner map never stays empty.
\<close>

definition tombstone_ttl :: int where
  "tombstone_ttl = minutes 10"

definition keep_tombstone :: "instant \<Rightarrow> instant option \<Rightarrow> instant option" where
  "keep_tombstone now t = (case t of None \<Rightarrow> None
     | Some t \<Rightarrow> if t < now - tombstone_ttl then None else Some t)"

section \<open>The interface\<close>

text \<open>\<open>live s g\<close> are the registered connections of session \<open>s\<close>, with the identifiers they have.\<close>

datatype ('i, 'a) registry_event = Track instant string 'a | Mark instant instant string | Forget string 'i

fun event_instants :: "('i, 'a) registry_event \<Rightarrow> instant list" where
  "event_instants (Track now s c) = [now]"
| "event_instants (Mark pruned now s) = [pruned, now]"
| "event_instants (Forget s i) = []"

fun registry_step :: "(instant \<Rightarrow> string \<Rightarrow> 'a \<Rightarrow> 'g \<Rightarrow> 'g \<times> 'i option) \<Rightarrow>
    (instant \<Rightarrow> instant \<Rightarrow> string \<Rightarrow> 'g \<Rightarrow> 'g \<times> 'c list) \<Rightarrow> (string \<Rightarrow> 'i \<Rightarrow> 'g \<Rightarrow> 'g) \<Rightarrow>
    ('i, 'a) registry_event \<Rightarrow> 'g \<Rightarrow> 'g" where
  "registry_step track mark forget (Track now s a) g = fst (track now s a g)"
| "registry_step track mark forget (Mark pruned now s) g = fst (mark pruned now s g)"
| "registry_step track mark forget (Forget s i) g = forget s i g"

locale revocation_registry =
  fixes track :: "instant \<Rightarrow> string \<Rightarrow> 'a \<Rightarrow> 'g \<Rightarrow> 'g \<times> 'i option"
    and mark :: "instant \<Rightarrow> instant \<Rightarrow> string \<Rightarrow> 'g \<Rightarrow> 'g \<times> 'c list"
    and forget :: "string \<Rightarrow> 'i \<Rightarrow> 'g \<Rightarrow> 'g"
    and live :: "string \<Rightarrow> 'g \<Rightarrow> ('i \<times> 'c) set"
    and stamp :: "string \<Rightarrow> 'g \<Rightarrow> instant option"
    and sane :: "'g \<Rightarrow> bool"
  assumes track_refused: "keep_tombstone now (stamp s g) \<noteq> None \<Longrightarrow> track now s c g = (g', r) \<Longrightarrow>
      r = None \<and> (\<forall>x. live x g' = live x g)"
    and track_accepted: "keep_tombstone now (stamp s g) = None \<Longrightarrow> track now s c g = (g', r) \<Longrightarrow>
      \<exists>i. r = Some i \<and> i \<in> fst ` live s g'"
    and track_other: "track now s c g = (g', r) \<Longrightarrow> x \<noteq> s \<Longrightarrow> live x g' = live x g"
    and track_stamp: "track now s c g = (g', r) \<Longrightarrow> stamp x g' = keep_tombstone now (stamp x g)"
    and mark_live: "mark pruned now s g = (g', cs) \<Longrightarrow> live x g' = live x g \<and> set cs = snd ` live s g"
    and mark_stamp: "mark pruned now s g = (g', cs) \<Longrightarrow>
      stamp x g' = (if x = s then Some now else keep_tombstone pruned (stamp x g))"
    and forget_live: "sane g \<Longrightarrow> live x (forget s i g) = (if x = s then {p \<in> live s g. fst p \<noteq> i} else live x g)"
    and forget_stamp: "stamp x (forget s i g) = stamp x g"
    and sane_steps: "sane g \<Longrightarrow> sane (registry_step track mark forget e g)"

text \<open>A list of steps, run from the left.\<close>

definition run_registry :: "(instant \<Rightarrow> string \<Rightarrow> 'a \<Rightarrow> 'g \<Rightarrow> 'g \<times> 'i option) \<Rightarrow>
    (instant \<Rightarrow> instant \<Rightarrow> string \<Rightarrow> 'g \<Rightarrow> 'g \<times> 'c list) \<Rightarrow> (string \<Rightarrow> 'i \<Rightarrow> 'g \<Rightarrow> 'g) \<Rightarrow>
    ('i, 'a) registry_event list \<Rightarrow> 'g \<Rightarrow> 'g" where
  "run_registry track mark forget es g = fold (registry_step track mark forget) es g"

definition run_instants :: "('i, 'a) registry_event list \<Rightarrow> instant set" where
  "run_instants es = set (concat (map event_instants es))"

lemma keep_in_window:
  "t \<in> {t0..t0 + tombstone_ttl} \<Longrightarrow> now \<in> {t0..t0 + tombstone_ttl} \<Longrightarrow> keep_tombstone now (Some t) = Some t"
  by (auto simp: keep_tombstone_def)

context revocation_registry
begin

abbreviation run :: "('i, 'a) registry_event list \<Rightarrow> 'g \<Rightarrow> 'g" where
  "run \<equiv> run_registry track mark forget"

text \<open>The session has a tombstone of the window that starts at \<open>t0\<close>.\<close>

definition revoked_at :: "instant \<Rightarrow> string \<Rightarrow> 'g \<Rightarrow> bool" where
  "revoked_at t0 s g \<longleftrightarrow> (\<exists>t\<in>{t0..t0 + tombstone_ttl}. stamp s g = Some t)"

lemma step_revoked:
  assumes "sane g" "revoked_at t0 s g" "set (event_instants e) \<subseteq> {t0..t0 + tombstone_ttl}"
  shows "revoked_at t0 s (registry_step track mark forget e g)"
    and "live s (registry_step track mark forget e g) \<subseteq> {p \<in> live s g. Forget s (fst p) \<noteq> e}"
proof -
  obtain t where t: "t \<in> {t0..t0 + tombstone_ttl}" "stamp s g = Some t"
    using assms(2) unfolding revoked_at_def by blast
  have "revoked_at t0 s (registry_step track mark forget e g) \<and>
    live s (registry_step track mark forget e g) \<subseteq> {p \<in> live s g. Forget s (fst p) \<noteq> e}"
  proof (cases e)
    case (Track now x c)
    obtain g' r where r: "track now x c g = (g', r)" by fastforce
    have keep: "keep_tombstone now (stamp s g) = Some t"
      using t assms(3) Track by (simp add: keep_in_window)
    then have "live s g' = live s g"
      using track_other[OF r, of s] track_refused[of now x g c g' r] r by (cases "x = s") auto
    then show ?thesis using r Track keep t track_stamp[OF r, of s] by (auto simp: revoked_at_def)
  next
    case (Mark pruned now x)
    obtain g' cs where r: "mark pruned now x g = (g', cs)" by fastforce
    have "keep_tombstone pruned (stamp s g) = Some t"
      using t assms(3) Mark by (simp add: keep_in_window)
    then show ?thesis
      using r Mark t assms(3) mark_stamp[OF r, of s] mark_live[OF r, of s] by (auto simp: revoked_at_def)
  next
    case (Forget x i)
    then show ?thesis
      using assms(2) forget_live[OF assms(1), of s x i] forget_stamp[of s x i g]
      by (auto simp: revoked_at_def split: if_splits)
  qed
  then show "revoked_at t0 s (registry_step track mark forget e g)"
    and "live s (registry_step track mark forget e g) \<subseteq> {p \<in> live s g. Forget s (fst p) \<noteq> e}" by auto
qed

lemma sane_run: "sane g \<Longrightarrow> sane (run es g)"
  by (induction es arbitrary: g) (auto simp: run_registry_def sane_steps)

lemma run_revoked:
  assumes "sane g" "revoked_at t0 s g" "run_instants es \<subseteq> {t0..t0 + tombstone_ttl}"
  shows "revoked_at t0 s (run es g) \<and> live s (run es g) \<subseteq> {p \<in> live s g. Forget s (fst p) \<notin> set es}"
  using assms
proof (induction es arbitrary: g)
  case (Cons e es)
  let ?g = "registry_step track mark forget e g"
  have e: "set (event_instants e) \<subseteq> {t0..t0 + tombstone_ttl}" and es: "run_instants es \<subseteq> {t0..t0 + tombstone_ttl}"
    using Cons.prems(3) by (auto simp: run_instants_def)
  have run: "run (e # es) g = run es ?g" by (simp add: run_registry_def)
  have "revoked_at t0 s (run es ?g) \<and> live s (run es ?g) \<subseteq> {p \<in> live s ?g. Forget s (fst p) \<notin> set es}"
    by (rule Cons.IH[OF sane_steps[OF Cons.prems(1)] step_revoked(1)[OF Cons.prems(1,2) e] es])
  then show ?case using step_revoked(2)[OF Cons.prems(1,2) e] unfolding run by auto
qed (simp add: run_registry_def)

text \<open>After a revocation no new connection is registered, and those that were are the ones it closes.\<close>

lemma revocation_window:
  assumes "sane g" "mark pruned t0 s g = (g', cs)" "run_instants es \<subseteq> {t0..t0 + tombstone_ttl}"
  shows "live s (run es g') \<subseteq> {p \<in> live s g. Forget s (fst p) \<notin> set es}"
    and "snd ` live s (run es g') \<subseteq> set cs"
    and "now \<in> {t0..t0 + tombstone_ttl} \<Longrightarrow> snd (track now s c (run es g')) = None"
proof -
  have r0: "revoked_at t0 s g'" using mark_stamp[OF assms(2), of s] by (auto simp: revoked_at_def tombstone_ttl_def seconds_def)
  have "sane g'" using sane_steps[OF assms(1), of "Mark pruned t0 s"] assms(2) by simp
  from run_revoked[OF this r0 assms(3)]
  have r: "revoked_at t0 s (run es g')" "live s (run es g') \<subseteq> {p \<in> live s g'. Forget s (fst p) \<notin> set es}" by auto
  then show l: "live s (run es g') \<subseteq> {p \<in> live s g. Forget s (fst p) \<notin> set es}"
    using mark_live[OF assms(2), of s] by simp
  then show "snd ` live s (run es g') \<subseteq> set cs" using mark_live[OF assms(2), of s] by auto
  show "snd (track now s c (run es g')) = None" if n: "now \<in> {t0..t0 + tombstone_ttl}"
  proof -
    obtain h x where tr: "track now s c (run es g') = (h, x)" by fastforce
    have "keep_tombstone now (stamp s (run es g')) \<noteq> None"
      using r(1) n by (auto simp: revoked_at_def keep_in_window)
    from track_refused[OF this tr] tr show ?thesis by simp
  qed
qed

end

section \<open>Maps of maps\<close>

definition put_inner :: "string \<Rightarrow> 'i \<Rightarrow> 'c \<Rightarrow> (string \<rightharpoonup> ('i \<times> 'c) list) \<Rightarrow> string \<rightharpoonup> ('i \<times> 'c) list" where
  "put_inner s i c m = (case m s of None \<Rightarrow> m(s \<mapsto> [(i, c)]) | Some l \<Rightarrow> m(s \<mapsto> AList.update i c l))"

definition drop_inner :: "string \<Rightarrow> 'i \<Rightarrow> (string \<rightharpoonup> ('i \<times> 'c) list) \<Rightarrow> string \<rightharpoonup> ('i \<times> 'c) list" where
  "drop_inner s i m = (let l = (case m s of None \<Rightarrow> [] | Some l \<Rightarrow> AList.delete i l) in
     if l = [] then m(s := None) else m(s \<mapsto> l))"

definition inner :: "string \<Rightarrow> (string \<rightharpoonup> ('i \<times> 'c) list) \<Rightarrow> ('i \<times> 'c) list" where
  "inner s m = (case m s of None \<Rightarrow> [] | Some l \<Rightarrow> l)"

definition inner_distinct :: "(string \<rightharpoonup> ('i \<times> 'c) list) \<Rightarrow> bool" where
  "inner_distinct m \<longleftrightarrow> (\<forall>s. distinct (map fst (inner s m)))"

lemma inner_put [simp]:
  "inner x (put_inner s i c m) = (if x = s then AList.update i c (inner s m) else inner x m)"
  by (simp add: inner_def put_inner_def split: option.split)

lemma inner_drop [simp]: "inner x (drop_inner s i m) = (if x = s then AList.delete i (inner s m) else inner x m)"
  by (simp add: inner_def drop_inner_def Let_def split: option.split)

lemma set_delete: "set (AList.delete i l) = {p \<in> set l. fst p \<noteq> i}"
  by (auto simp: AList.delete_eq)

lemma inner_distinct_put [intro]: "inner_distinct m \<Longrightarrow> inner_distinct (put_inner s i c m)"
  by (simp add: inner_distinct_def distinct_update)

lemma inner_distinct_drop [intro]: "inner_distinct m \<Longrightarrow> inner_distinct (drop_inner s i m)"
  by (simp add: inner_distinct_def distinct_delete)

lemma set_inner_update:
  "distinct (map fst l) \<Longrightarrow> set (AList.update i c l) = insert (i, c) {p \<in> set l. fst p \<noteq> i}"
  by (induction l) force+

lemma pair_in_update: "(i, c) \<in> set (AList.update i c l)"
  by (induction l) auto

lemma in_update: "i \<in> fst ` set (AList.update i c l)"
  by (metis image_set list.set_map in_set_conv_decomp update_keys dom_update insertI1)

section \<open>The connections of the Web gateway\<close>

text \<open>A tracked connection knows the session of its tracker and the identifier it was given.\<close>

record web_activity_conn =
  wc_session :: string
  wc_id :: "64 word"

record web_registry =
  wr_active :: "string \<rightharpoonup> (64 word \<times> web_activity_conn) list"
  wr_revoked :: "string \<rightharpoonup> instant"
  wr_next_id :: "64 word"

definition web_prune :: "instant \<Rightarrow> web_registry \<Rightarrow> web_registry" where
  "web_prune now g = g\<lparr>wr_revoked := (\<lambda>s. keep_tombstone now (wr_revoked g s))\<rparr>"

definition web_track :: "instant \<Rightarrow> string \<Rightarrow> web_registry \<Rightarrow> web_registry \<times> web_activity_conn option" where
  "web_track now s g = (let g = web_prune now g in
     if wr_revoked g s \<noteq> None then (g, None)
     else let i = wr_next_id g + 1; c = \<lparr>wc_session = s, wc_id = i\<rparr> in
       (g\<lparr>wr_next_id := i, wr_active := put_inner s i c (wr_active g)\<rparr>, Some c))"

definition web_unregister :: "string \<Rightarrow> 64 word \<Rightarrow> web_registry \<Rightarrow> web_registry" where
  "web_unregister s i g = g\<lparr>wr_active := drop_inner s i (wr_active g)\<rparr>"

definition web_close :: "web_activity_conn \<Rightarrow> web_registry \<Rightarrow> web_registry" where
  "web_close c g = web_unregister (wc_session c) (wc_id c) g"

text \<open>The part of \<open>Revoke\<close> under the mutex, with the readings of the clock for the pruning and for the
tombstone, and the whole method.\<close>

definition web_mark :: "instant \<Rightarrow> instant \<Rightarrow> string \<Rightarrow> web_registry \<Rightarrow> web_registry \<times> web_activity_conn list" where
  "web_mark pruned now s g = (let g = web_prune pruned g; g = g\<lparr>wr_revoked := (wr_revoked g)(s \<mapsto> now)\<rparr> in
     (g, map snd (inner s (wr_active g))))"

definition web_revoke :: "instant \<Rightarrow> instant \<Rightarrow> string \<Rightarrow> web_registry \<Rightarrow> web_registry \<times> bool" where
  "web_revoke pruned now s g = (case web_mark pruned now s g of (g, cs) \<Rightarrow> (fold web_close cs g, cs \<noteq> []))"

definition web_live :: "string \<Rightarrow> web_registry \<Rightarrow> (64 word \<times> web_activity_conn) set" where
  "web_live s g = set (inner s (wr_active g))"

definition web_sane :: "web_registry \<Rightarrow> bool" where
  "web_sane g \<longleftrightarrow> inner_distinct (wr_active g)
     \<and> (\<forall>s. \<forall>(i, c)\<in>set (inner s (wr_active g)). c = \<lparr>wc_session = s, wc_id = i\<rparr>)"

abbreviation web_step_track :: "instant \<Rightarrow> string \<Rightarrow> unit \<Rightarrow> web_registry \<Rightarrow> web_registry \<times> 64 word option" where
  "web_step_track now s u g \<equiv> (case web_track now s g of (g, r) \<Rightarrow> (g, map_option wc_id r))"

abbreviation web_stamp :: "string \<Rightarrow> web_registry \<Rightarrow> instant option" where
  "web_stamp s g \<equiv> wr_revoked g s"

lemma web_sane_track: "web_sane g \<Longrightarrow> web_sane (fst (web_track now s g))"
  by (auto simp: web_sane_def web_track_def web_prune_def Let_def inner_distinct_def set_inner_update distinct_update
      split: if_splits)

lemma web_sane_forget: "web_sane g \<Longrightarrow> web_sane (web_unregister s i g)"
  by (auto simp: web_sane_def web_unregister_def set_delete split: if_splits)

lemma web_sane_mark: "web_sane g \<Longrightarrow> web_sane (fst (web_mark pruned now s g))"
  by (simp add: web_sane_def web_mark_def web_prune_def Let_def)

interpretation web: revocation_registry web_step_track web_mark web_unregister web_live web_stamp web_sane
proof
  show "web_sane (registry_step web_step_track web_mark web_unregister e g)" if "web_sane g" for e g
    using that web_sane_track web_sane_mark
    by (cases e) (auto simp: web_sane_forget split_beta)
qed (auto simp: web_track_def web_mark_def web_unregister_def web_live_def web_prune_def Let_def set_delete in_update
    split: if_splits prod.splits)


section \<open>The connections of the SSH gateway\<close>

text \<open>A \<open>CancelFunc\<close> is named by the context it ends; its owner unregisters it when it returns.\<close>

type_synonym cancel_func = nat

record ssh_registry =
  sr_active :: "string \<rightharpoonup> (64 word \<times> cancel_func) list"
  sr_revoked :: "string \<rightharpoonup> instant"
  sr_next_id :: "64 word"

definition ssh_prune :: "instant \<Rightarrow> ssh_registry \<Rightarrow> ssh_registry" where
  "ssh_prune now g = g\<lparr>sr_revoked := (\<lambda>s. keep_tombstone now (sr_revoked g s))\<rparr>"

definition ssh_register :: "instant \<Rightarrow> string \<Rightarrow> cancel_func \<Rightarrow> ssh_registry \<Rightarrow> ssh_registry \<times> 64 word option" where
  "ssh_register now s cancel g = (let g = ssh_prune now g in
     if sr_revoked g s \<noteq> None then (g, None)
     else let i = sr_next_id g + 1 in
       (g\<lparr>sr_next_id := i, sr_active := put_inner s i cancel (sr_active g)\<rparr>, Some i))"

definition ssh_unregister :: "string \<Rightarrow> 64 word \<Rightarrow> ssh_registry \<Rightarrow> ssh_registry" where
  "ssh_unregister s i g = g\<lparr>sr_active := drop_inner s i (sr_active g)\<rparr>"

text \<open>\<open>Revoke\<close>: the contexts it cancels, and whether there were any.\<close>

definition ssh_mark :: "instant \<Rightarrow> instant \<Rightarrow> string \<Rightarrow> ssh_registry \<Rightarrow> ssh_registry \<times> cancel_func list" where
  "ssh_mark pruned now s g = (let g = ssh_prune pruned g; g = g\<lparr>sr_revoked := (sr_revoked g)(s \<mapsto> now)\<rparr> in
     (g, map snd (inner s (sr_active g))))"

definition ssh_revoke :: "instant \<Rightarrow> instant \<Rightarrow> string \<Rightarrow> ssh_registry \<Rightarrow> ssh_registry \<times> cancel_func list \<times> bool" where
  "ssh_revoke pruned now s g = (case ssh_mark pruned now s g of (g, cs) \<Rightarrow> (g, cs, cs \<noteq> []))"

definition ssh_live :: "string \<Rightarrow> ssh_registry \<Rightarrow> (64 word \<times> cancel_func) set" where
  "ssh_live s g = set (inner s (sr_active g))"

definition ssh_sane :: "ssh_registry \<Rightarrow> bool" where
  "ssh_sane g \<longleftrightarrow> inner_distinct (sr_active g)"

abbreviation ssh_stamp :: "string \<Rightarrow> ssh_registry \<Rightarrow> instant option" where
  "ssh_stamp s g \<equiv> sr_revoked g s"

lemma ssh_sane_steps:
  "ssh_sane g \<Longrightarrow> ssh_sane (registry_step ssh_register ssh_mark ssh_unregister e g)"
  by (cases e) (auto simp: ssh_sane_def ssh_register_def ssh_mark_def ssh_unregister_def ssh_prune_def Let_def)

interpretation ssh: revocation_registry ssh_register ssh_mark ssh_unregister ssh_live ssh_stamp ssh_sane
proof
  show "ssh_sane (registry_step ssh_register ssh_mark ssh_unregister e g)" if "ssh_sane g" for e g
    using that by (rule ssh_sane_steps)
qed (auto simp: ssh_register_def ssh_mark_def ssh_unregister_def ssh_live_def ssh_prune_def Let_def set_delete in_update
    split: if_splits prod.splits)

section \<open>Properties\<close>

definition run_web :: "(64 word, unit) registry_event list \<Rightarrow> web_registry \<Rightarrow> web_registry" where
  "run_web es g = run_registry web_step_track web_mark web_unregister es g"

definition run_ssh :: "(64 word, cancel_func) registry_event list \<Rightarrow> ssh_registry \<Rightarrow> ssh_registry" where
  "run_ssh es g = run_registry ssh_register ssh_mark ssh_unregister es g"

lemma run_web_append: "run_web (es @ fs) g = run_web fs (run_web es g)"
  by (simp add: run_web_def run_registry_def)

lemma run_web_closes: "fold web_close cs g = run_web (map (\<lambda>c. Forget (wc_session c) (wc_id c)) cs) g"
  by (induction cs arbitrary: g) (simp_all add: run_web_def run_registry_def web_close_def)

lemma run_instants_append [simp]: "run_instants (es @ fs) = run_instants es \<union> run_instants fs"
  by (simp add: run_instants_def)

lemma run_instants_closes [simp]: "run_instants (map (\<lambda>c. Forget (f c) (h c)) cs) = {}"
  by (induction cs) (simp_all add: run_instants_def)

text \<open>C32. Revoking a Web session is final for ten minutes: whatever the gateway does between the tombstone
and the closing of the connections found, and afterwards, once they are closed the session has no
registered connection, and a new one is refused.\<close>

theorem web_revocation_final:
  fixes s :: string and pruned :: instant
  assumes "web_sane g" "run_instants before \<union> run_instants after \<subseteq> {now..now + minutes 10}"
    and "later \<in> {now..now + minutes 10}"
  defines "m \<equiv> web_mark pruned now s g"
  defines "g' \<equiv> run_web after (fold web_close (snd m) (run_web before (fst m)))"
  shows "web_live s g' = {} \<and> snd (web_track later s g') = None"
proof -
  obtain h cs where m: "web_mark pruned now s g = (h, cs)" by fastforce
  let ?es = "before @ map (\<lambda>c. Forget (wc_session c) (wc_id c)) cs @ after"
  have run: "g' = run_web ?es h"
    by (simp add: g'_def m_def m run_web_append run_web_closes)
  have times: "run_instants ?es \<subseteq> {now..now + tombstone_ttl}" using assms(2) by (simp add: tombstone_ttl_def)
  have "web_live s (run_web ?es h) \<subseteq> {p \<in> web_live s g. Forget s (fst p) \<notin> set ?es}"
    unfolding run_web_def by (rule web.revocation_window(1)[OF assms(1) m times])
  moreover have "Forget s (fst p) \<in> set ?es" if "p \<in> web_live s g" for p
  proof -
    have "snd p \<in> set cs" using that web.mark_live[OF m] by auto
    moreover have "snd p = \<lparr>wc_session = s, wc_id = fst p\<rparr>"
      using that assms(1) by (cases p) (auto simp: web_sane_def web_live_def)
    ultimately show ?thesis by force
  qed
  ultimately have "web_live s (run_web ?es h) = {}" by blast
  moreover have "snd (web_step_track later s () (run_web ?es h)) = None"
    unfolding run_web_def
    by (rule web.revocation_window(3)[OF assms(1) m times]) (use assms(3) in \<open>simp add: tombstone_ttl_def\<close>)
  ultimately show ?thesis unfolding run by (simp add: split_beta)
qed

text \<open>Revoking an SSH session cancels every terminal that is registered for it, then or later in the
next ten minutes: every registration that is left was cancelled by the revocation and has not yet been
taken back by its owner, and a new terminal is refused.\<close>

theorem ssh_revocation_cancels:
  fixes s :: string and pruned :: instant
  assumes "ssh_sane g" "run_instants events \<subseteq> {now..now + minutes 10}" "later \<in> {now..now + minutes 10}"
  defines "g' \<equiv> run_ssh events (fst (ssh_revoke pruned now s g))"
  shows "snd ` ssh_live s g' \<subseteq> set (fst (snd (ssh_revoke pruned now s g)))
    \<and> ssh_live s g' \<subseteq> {p \<in> ssh_live s g. Forget s (fst p) \<notin> set events}
    \<and> snd (ssh_register later s cancel g') = None"
proof -
  obtain h cs where m: "ssh_mark pruned now s g = (h, cs)" by fastforce
  have times: "run_instants events \<subseteq> {now..now + tombstone_ttl}" "later \<in> {now..now + tombstone_ttl}"
    using assms(2,3) by (simp_all add: tombstone_ttl_def)
  show ?thesis
    using ssh.revocation_window[OF assms(1) m times(1)] times(2)
    by (simp add: g'_def run_ssh_def ssh_revoke_def m)
qed

definition web_started :: web_registry where
  "web_started = \<lparr>wr_active = Map.empty, wr_revoked = Map.empty, wr_next_id = 0\<rparr>"

definition ssh_started :: ssh_registry where
  "ssh_started = \<lparr>sr_active = Map.empty, sr_revoked = Map.empty, sr_next_id = 0\<rparr>"

lemma web_started_sane: "web_sane web_started"
  by (simp add: web_sane_def web_started_def inner_distinct_def inner_def)

lemma ssh_started_sane: "ssh_sane ssh_started"
  by (simp add: ssh_sane_def ssh_started_def inner_distinct_def inner_def)

definition demo_web :: web_registry where
  "demo_web = run_web [Track 1 ''s'' (), Track 2 ''s'' (), Track 2 ''t'' ()] web_started"

definition demo_ssh :: ssh_registry where
  "demo_ssh = run_ssh [Track 1 ''s'' 7, Track 2 ''s'' 8] ssh_started"

theorem web_revocation_final_witness:
  "length (snd (web_mark 3 3 ''s'' demo_web)) = 2
   \<and> web_live ''s'' (run_web [Track 5 ''s'' ()] (fold web_close (snd (web_mark 3 3 ''s'' demo_web))
        (run_web [Track 4 ''s'' ()] (fst (web_mark 3 3 ''s'' demo_web))))) = {}"
proof
  show "length (snd (web_mark 3 3 ''s'' demo_web)) = 2" by code_simp
  have "web_sane demo_web"
    unfolding demo_web_def run_web_def by (rule web.sane_run[OF web_started_sane])
  from web_revocation_final[OF this, where before = "[Track 4 ''s'' ()]" and after = "[Track 5 ''s'' ()]" and now = 3
    and later = 6 and pruned = 3 and s = "''s''"]
  show "web_live ''s'' (run_web [Track 5 ''s'' ()] (fold web_close (snd (web_mark 3 3 ''s'' demo_web))
        (run_web [Track 4 ''s'' ()] (fst (web_mark 3 3 ''s'' demo_web))))) = {}"
    by (simp add: run_instants_def seconds_def)
qed

theorem ssh_revocation_cancels_witness:
  "fst (snd (ssh_revoke 3 3 ''s'' demo_ssh)) = [7, 8]
   \<and> snd ` ssh_live ''s'' (run_ssh [Track 4 ''s'' 9, Forget ''s'' 1] (fst (ssh_revoke 3 3 ''s'' demo_ssh))) \<subseteq> {7, 8}"
proof
  show found: "fst (snd (ssh_revoke 3 3 ''s'' demo_ssh)) = [7, 8]" by code_simp
  have "ssh_sane demo_ssh"
    unfolding demo_ssh_def run_ssh_def by (rule ssh.sane_run[OF ssh_started_sane])
  from ssh_revocation_cancels[OF this, where events = "[Track 4 ''s'' 9, Forget ''s'' 1]" and now = 3 and later = 6
    and pruned = 3 and s = "''s''"]
  show "snd ` ssh_live ''s'' (run_ssh [Track 4 ''s'' 9, Forget ''s'' 1] (fst (ssh_revoke 3 3 ''s'' demo_ssh))) \<subseteq> {7, 8}"
    using found by (simp add: run_instants_def seconds_def)
qed

end
