(* ===== verification/Digits.thy ===== *)
theory Digits
  imports Prelude "HOL-Library.Word"
begin

text \<open>
  Numbers and their big-endian digits in a base, of a fixed length: what base32 route labels
  (base 256 to base 32) and dotted IPv4 addresses (base 256) are made of.
\<close>

fun digits :: "nat \<Rightarrow> nat \<Rightarrow> nat \<Rightarrow> nat list" where
  "digits b 0 n = []"
| "digits b (Suc k) n = digits b k (n div b) @ [n mod b]"

definition digits_value :: "nat \<Rightarrow> nat list \<Rightarrow> nat" where
  "digits_value b ds = foldl (\<lambda>n d. n * b + d) 0 ds"

lemma digits_value_simps [simp]:
  "digits_value b [] = 0" "digits_value b (ds @ [d]) = digits_value b ds * b + d"
  by (simp_all add: digits_value_def)

lemma length_digits [simp]: "length (digits b k n) = k"
  by (induction k arbitrary: n) auto

lemma digits_less: "0 < b \<Longrightarrow> d \<in> set (digits b k n) \<Longrightarrow> d < b"
  by (induction k arbitrary: n) auto

lemma digits_numeral: "digits b (numeral k) n = digits b (pred_numeral k) (n div b) @ [n mod b]"
  by (simp add: numeral_eq_Suc)

lemma value_digits: "digits_value b (digits b k n) = n mod b ^ k"
proof (induction k arbitrary: n)
  case (Suc k)
  then show ?case by (simp add: mod_mult2_eq mult.commute)
qed simp

lemma value_digits_small: "n < b ^ k \<Longrightarrow> digits_value b (digits b k n) = n"
  by (simp add: value_digits)

lemma value_less: "\<forall>d\<in>set ds. d < b \<Longrightarrow> digits_value b ds < b ^ length ds"
proof (induction ds rule: rev_induct)
  case (snoc d ds)
  then have "digits_value b ds + 1 \<le> b ^ length ds" "d < b" by auto
  then have "(digits_value b ds + 1) * b \<le> b ^ length ds * b" by (intro mult_right_mono) auto
  then show ?case using \<open>d < b\<close> by (simp add: algebra_simps)
qed simp

lemma digits_of_value: "\<forall>d\<in>set ds. d < b \<Longrightarrow> digits b (length ds) (digits_value b ds) = ds"
  by (induction ds rule: rev_induct) auto

lemma digits_inj: "digits b k m = digits b k n \<Longrightarrow> m < b ^ k \<Longrightarrow> n < b ^ k \<Longrightarrow> m = n"
  by (metis value_digits_small)

lemma byte_less: "unat (w :: 8 word) < 256"
  by (rule order_less_le_trans[OF unsigned_less]) simp

end
