(* ===== verification/RouteLabel.thy ===== *)
theory RouteLabel
  imports Digits
begin

text \<open>
  The random host labels of Web access sessions: \<open>webroutelabel/label.go\<close>.

  \<open>New\<close> encodes five random bytes as eight symbols of a base32 alphabet after the prefix \<open>web-\<close>.
  The random bytes are the argument. \<open>base32_decode\<close> is \<open>DecodeString\<close> of an encoding without
  padding: it drops carriage returns and line feeds first, and a last group may be short.
\<close>

definition label_prefix :: string where
  "label_prefix = ''web-''"

definition encoded_digest_bytes :: nat where
  "encoded_digest_bytes = 5"

definition route_alphabet :: string where
  "route_alphabet = ''0123456789abcdefghjkmnpqrstvwxyz''"

definition base32_encode :: "8 word list \<Rightarrow> string" where
  "base32_encode raw = map (\<lambda>d. route_alphabet ! d) (digits 32 8 (digits_value 256 (map unat raw)))"

definition new_route_label :: "8 word list \<Rightarrow> string" where
  "new_route_label raw = label_prefix @ to_lower (base32_encode raw)"

definition symbol_index :: "char \<Rightarrow> nat option" where
  "symbol_index c = (case dropWhile (\<lambda>i. route_alphabet ! i \<noteq> c) [0..<32] of [] \<Rightarrow> None | i # _ \<Rightarrow> Some i)"

text \<open>The bytes of a group of symbols: as many whole bytes as its bits hold, and none for the lengths an
encoder never leaves over.\<close>

definition group_bytes :: "nat list \<Rightarrow> 8 word list" where
  "group_bytes ds = (let n = length ds * 5 div 8 in
     if length ds \<in> {2, 4, 5, 7, 8} then map of_nat (digits 256 n (digits_value 32 ds div 2 ^ (length ds * 5 - n * 8)))
     else [])"

fun symbol_indices :: "string \<Rightarrow> nat list option" where
  "symbol_indices [] = Some []"
| "symbol_indices (c # s) = (case (symbol_index c, symbol_indices s) of
     (Some d, Some ds) \<Rightarrow> Some (d # ds) | _ \<Rightarrow> None)"

function chunks :: "nat list \<Rightarrow> nat list list" where
  "chunks ds = (if ds = [] then [] else take 8 ds # chunks (drop 8 ds))"
  by auto

termination by (relation "measure length") auto

declare chunks.simps [simp del]

definition base32_decode :: "string \<Rightarrow> 8 word list option" where
  "base32_decode s = map_option (\<lambda>ds. concat (map group_bytes (chunks ds)))
     (symbol_indices (filter (\<lambda>c. c \<notin> {CHR 0x0A, CHR 0x0D}) s))"

definition is_current :: "string \<Rightarrow> bool" where
  "is_current label \<longleftrightarrow> has_prefix label label_prefix
     \<and> length label = length label_prefix + (encoded_digest_bytes * 8 + 4) div 5
     \<and> (let encoded = drop (length label_prefix) label in
        encoded = to_lower encoded \<and> base32_decode encoded \<noteq> None)"

section \<open>Labels that were made are recognised, and differ when their bytes differ\<close>

lemma symbol_index_alphabet: "d < 32 \<Longrightarrow> symbol_index (route_alphabet ! d) = Some d"
  and alphabet_lower: "d < 32 \<Longrightarrow> lower_char (route_alphabet ! d) = route_alphabet ! d"
  and alphabet_no_newline: "d < 32 \<Longrightarrow> route_alphabet ! d \<notin> {CHR 0x0A, CHR 0x0D}"
proof -
  have "\<forall>d\<in>set [0..<32]. symbol_index (route_alphabet ! d) = Some d
     \<and> lower_char (route_alphabet ! d) = route_alphabet ! d \<and> route_alphabet ! d \<notin> {CHR 0x0A, CHR 0x0D}"
    by code_simp
  then show "d < 32 \<Longrightarrow> symbol_index (route_alphabet ! d) = Some d"
    "d < 32 \<Longrightarrow> lower_char (route_alphabet ! d) = route_alphabet ! d"
    "d < 32 \<Longrightarrow> route_alphabet ! d \<notin> {CHR 0x0A, CHR 0x0D}" by auto
qed

lemma symbol_indices_map:
  "\<forall>d\<in>set ds. d < 32 \<Longrightarrow> symbol_indices (map (\<lambda>d. route_alphabet ! d) ds) = Some ds"
  by (induction ds) (auto simp: symbol_index_alphabet)

lemma group_of_eight:
  assumes "length raw = 5"
  shows "group_bytes (digits 32 8 (digits_value 256 (map unat raw))) = raw"
proof -
  have small: "\<forall>d\<in>set (map unat raw). d < 256"
    by (auto intro: byte_less)
  have "digits_value 256 (map unat raw) < 256 ^ length (map unat raw)" by (rule value_less[OF small])
  then have "digits_value 256 (map unat raw) < 32 ^ 8" using assms by simp
  then have "digits_value 32 (digits 32 8 (digits_value 256 (map unat raw))) = digits_value 256 (map unat raw)"
    by (rule value_digits_small)
  moreover have "digits 256 (length (map unat raw)) (digits_value 256 (map unat raw)) = map unat raw"
    by (rule digits_of_value[OF small])
  ultimately show ?thesis using assms by (simp add: group_bytes_def Let_def comp_def)
qed

lemma chunks_eight: "length ds = 8 \<Longrightarrow> chunks ds = [ds]"
  by (subst chunks.simps, subst chunks.simps) auto

lemma decode_label:
  assumes "length raw = 5" shows "base32_decode (to_lower (base32_encode raw)) = Some raw"
proof -
  let ?ds = "digits 32 8 (digits_value 256 (map unat raw))"
  have small: "\<forall>d\<in>set ?ds. d < 32" using digits_less[of 32] by auto
  have lower: "to_lower (base32_encode raw) = map (\<lambda>d. route_alphabet ! d) ?ds"
    using small by (simp add: to_lower_def base32_encode_def alphabet_lower)
  have "filter (\<lambda>c. c \<notin> {CHR 0x0A, CHR 0x0D}) (map (\<lambda>d. route_alphabet ! d) ?ds) = map (\<lambda>d. route_alphabet ! d) ?ds"
    using small alphabet_no_newline by (intro filter_True) auto
  moreover have "length ?ds = 8" by simp
  then have "chunks ?ds = [?ds]" by (rule chunks_eight)
  ultimately show ?thesis
    unfolding lower base32_decode_def by (simp only: symbol_indices_map[OF small])
      (simp add: group_of_eight[OF assms])
qed

text \<open>Every label the platform makes is recognised as current, and it determines the random bytes it
was made from, so two labels collide only when all forty random bits do.\<close>

theorem new_labels_current:
  assumes "length raw = 5" "length raw' = 5"
  shows "is_current (new_route_label raw) \<and> (new_route_label raw = new_route_label raw') = (raw = raw')"
proof -
  have len: "length (to_lower (base32_encode raw)) = 8" by (simp add: to_lower_def base32_encode_def)
  have "\<forall>d\<in>set (digits 32 8 n). d < 32" for n using digits_less[of 32] by auto
  then have "to_lower (to_lower (base32_encode raw)) = to_lower (base32_encode raw)"
    by (auto simp: to_lower_def base32_encode_def alphabet_lower)
  then have "is_current (new_route_label raw)"
    using len decode_label[OF assms(1)]
    by (simp add: is_current_def new_route_label_def has_prefix_def label_prefix_def encoded_digest_bytes_def)
  moreover have "(new_route_label raw = new_route_label raw') = (raw = raw')"
  proof
    assume "new_route_label raw = new_route_label raw'"
    then have "to_lower (base32_encode raw) = to_lower (base32_encode raw')" by (simp add: new_route_label_def)
    then have "Some raw = Some raw'" using decode_label[OF assms(1)] decode_label[OF assms(2)] by metis
    then show "raw = raw'" by simp
  qed simp
  ultimately show ?thesis by simp
qed

theorem new_labels_current_witness:
  "is_current (new_route_label [1, 2, 3, 4, 255]) \<and> new_route_label [1, 2, 3, 4, 255] \<noteq> new_route_label [1, 2, 3, 4, 254]"
  using new_labels_current[of "[1, 2, 3, 4, 255]" "[1, 2, 3, 4, 254]"] by simp

text \<open>A string of that length with a line feed in it is accepted too: the decoder skips line feeds.\<close>

lemma line_feed_accepted: "is_current (''web-abcdef'' @ [CHR 0x0A, CHR 0x0A])"
  by code_simp

end
