(* ===== verification/Gateway.thy ===== *)
theory Gateway
  imports Http Registry RouteLabel StoreAccess
begin

text \<open>
  The Web gateway: \<open>access/gateway.go\<close>. A request to the random hostname of an access session is
  answered by the gateway itself (the pages and the exchange of the one-time grant) or forwarded to
  the endpoint of the session, after \<open>resolve_authorized_access\<close> has resolved the cookie against
  the store. What is forwarded is built by \<open>proxied_request\<close> (the upstream, the headers without the
  platform's credentials), what comes back is rewritten by \<open>modify_response\<close>, and the connection
  pools are shared through \<open>proxy_transport\<close>.

  SHA-256, the URL parser and the SOCKS routes of the nodes are arguments (\<open>gateway_env\<close>). Every
  reading of the clock is an argument too (\<open>readings\<close>). The bodies of requests and responses, which
  the gateway copies without looking at them, are left out, and so are the texts of its pages.
\<close>

section \<open>Requests, replies and the environment\<close>

record socks_route =
  so_address :: string
  so_username :: string
  so_password :: string

record url =
  url_scheme :: string
  url_hostname :: string
  url_port :: string
  url_path :: string
  url_query :: string
  url_fragment :: string

text \<open>The body of a request: what \<open>ParseForm\<close> makes of it and what the JSON decoder makes of it.\<close>

record http_request =
  rq_method :: string
  rq_host :: string
  rq_tls :: bool
  rq_remote_addr :: string
  rq_headers :: headers
  rq_subdomain :: bool
  rq_url_path :: string
  rq_token :: string
  rq_path :: string
  rq_query :: "(string \<times> string list) list"
  rq_form :: "(string \<times> string list) list option"
  rq_json :: "string option"

record set_cookie =
  sc_name :: string
  sc_value :: string
  sc_path :: string
  sc_domain :: string
  sc_http_only :: bool
  sc_secure :: bool
  sc_same_site :: string
  sc_max_age :: int
  sc_expires :: "instant option"

record gateway_env =
  ge_hash :: "string \<Rightarrow> string"
  ge_socks_route :: "string \<Rightarrow> int \<Rightarrow> socks_route option"
  ge_parse_url :: "string \<Rightarrow> url option"
  ge_render_url :: "url \<Rightarrow> string"
  ge_idle_ttl :: int

record readings =
  rd_gateway :: instant
  rd_store :: instant
  rd_resolve :: instant
  rd_reply :: instant
  rd_pool :: instant

definition access_grant_cookie :: string where
  "access_grant_cookie = ''dmp_access_grant''"

definition upstream_scheme_cookie :: string where
  "upstream_scheme_cookie = ''dmp_upstream_scheme''"

definition web_grant_authorize_path :: string where
  "web_grant_authorize_path = ''.dmp/authorize''"

definition web_grant_exchange_path :: string where
  "web_grant_exchange_path = ''.dmp/session''"

definition https_upgrade_path :: string where
  "https_upgrade_path = ''.dmp-upstream/https''"

definition reserved_cookies :: "string list" where
  "reserved_cookies = [''dmp_session'', ''dmp_csrf'', upstream_scheme_cookie, access_grant_cookie]"

definition valid_access_token :: "string \<Rightarrow> bool" where
  "valid_access_token token \<longleftrightarrow> 32 \<le> length token \<and> length token \<le> 128
     \<and> CHR ''/'' \<notin> set token \<and> CHR 0x5C \<notin> set token \<and> CHR '' '' \<notin> set token"

definition valid_gateway_route_token :: "string \<Rightarrow> bool" where
  "valid_gateway_route_token token = is_current token"

definition access_request_uses_https :: "http_request \<Rightarrow> bool" where
  "access_request_uses_https rq \<longleftrightarrow> rq_tls rq
     \<or> equal_fold (trim_space (hd (split_on CHR '','' (header_get (rq_headers rq) ''X-Forwarded-Proto'')))) ''https''"

definition direct_source_ip :: "http_request \<Rightarrow> string" where
  "direct_source_ip rq = (case split_host_port (rq_remote_addr rq) of Some (host, _) \<Rightarrow> host
     | None \<Rightarrow> rq_remote_addr rq)"

definition web_request_path :: "http_request \<Rightarrow> string" where
  "web_request_path rq = trim_prefix ''/'' (rq_path rq)"

fun first_non_empty :: "string list \<Rightarrow> string" where
  "first_non_empty [] = ''''"
| "first_non_empty (v # vs) = (if v \<noteq> '''' then v else first_non_empty vs)"

section \<open>Resolving the cookie of a request\<close>

text \<open>The status of the refusal, or the session with its route.\<close>

definition resolve_authorized_access ::
  "gateway_env \<Rightarrow> readings \<Rightarrow> http_request \<Rightarrow> db \<Rightarrow> db \<times> (nat + access_session \<times> endpoint_route)" where
  "resolve_authorized_access env rd rq db =
     (case cookie_named (rq_headers rq) access_grant_cookie of
        None \<Rightarrow> (db, Inl 401)
      | Some grant \<Rightarrow>
          if \<not> valid_access_token grant then (db, Inl 401)
          else case resolve_access_grant (rd_store rd) (ge_hash env (rq_token rq)) (ge_hash env grant)
                 (rd_gateway rd - ge_idle_ttl env) db of
            (db, Inl e) \<Rightarrow> (db, Inl (if e = ErrNotFound then 410 else 502))
          | (db, Inr r) \<Rightarrow> (db, Inr r))"

definition grant_cookie :: "http_request \<Rightarrow> readings \<Rightarrow> string \<Rightarrow> string \<Rightarrow> string \<Rightarrow> instant \<Rightarrow> set_cookie" where
  "grant_cookie rq rd grant path same_site expires = \<lparr>sc_name = access_grant_cookie, sc_value = grant,
     sc_path = path, sc_domain = '''', sc_http_only = True, sc_secure = access_request_uses_https rq,
     sc_same_site = same_site,
     sc_max_age = (let d = expires - rd_reply rd in
       if d \<ge> 0 then d div 1000000000 else - ((- d) div 1000000000)),
     sc_expires = Some expires\<rparr>"

definition cleared_scheme_cookie :: "http_request \<Rightarrow> set_cookie" where
  "cleared_scheme_cookie rq = \<lparr>sc_name = upstream_scheme_cookie, sc_value = '''', sc_path = ''/'', sc_domain = '''',
     sc_http_only = True, sc_secure = access_request_uses_https rq, sc_same_site = ''Strict'', sc_max_age = - 1,
     sc_expires = Some (seconds 1)\<rparr>"

text \<open>What the exchange reads the grant from: a form navigation or a request of the gateway's page.\<close>

definition form_navigation :: "http_request \<Rightarrow> bool" where
  "form_navigation rq = has_prefix (to_lower (trim_space (header_get (rq_headers rq) ''Content-Type'')))
     ''application/x-www-form-urlencoded''"

definition grant_of_form :: "http_request \<Rightarrow> nat + string" where
  "grant_of_form rq = (let
     mode = trim_space (header_get (rq_headers rq) ''Sec-Fetch-Mode'');
     dest = trim_space (header_get (rq_headers rq) ''Sec-Fetch-Dest'') in
     if mode \<noteq> '''' \<and> mode \<noteq> ''navigate'' then Inl 403
     else if dest \<noteq> '''' \<and> dest \<noteq> ''document'' then Inl 403
     else case rq_form rq of None \<Rightarrow> Inl 400
     | Some form \<Rightarrow> (case map_of form ''grant'' of
         Some [g] \<Rightarrow> if length form \<noteq> 1 then Inl 400 else Inr (trim_space g)
       | _ \<Rightarrow> Inl 400))"

definition grant_of_json :: "http_request \<Rightarrow> nat + string" where
  "grant_of_json rq = (let expected = (if access_request_uses_https rq then ''https://'' else ''http://'') @ rq_host rq in
     if \<not> equal_fold (trim_space (header_get (rq_headers rq) ''Origin'')) expected then Inl 403
     else case rq_json rq of None \<Rightarrow> Inl 400 | Some g \<Rightarrow> Inr (trim_space g))"

text \<open>The cookies it sets and whether it answers with the page that enters the device.\<close>

definition exchange_grant ::
  "gateway_env \<Rightarrow> readings \<Rightarrow> http_request \<Rightarrow> db \<Rightarrow> db \<times> (nat + set_cookie list \<times> bool)" where
  "exchange_grant env rd rq db =
     (if rq_method rq \<noteq> ''POST'' then (db, Inl 405)
      else case (if form_navigation rq then grant_of_form rq else grant_of_json rq) of
        Inl status \<Rightarrow> (db, Inl status)
      | Inr grant \<Rightarrow>
          if \<not> valid_access_token grant then (db, Inl 400)
          else case exchange_access_grant (rd_store rd) (rd_resolve rd) (ge_hash env (rq_token rq))
                 (ge_hash env grant) (rd_gateway rd - ge_idle_ttl env) db of
            (db, Inl _) \<Rightarrow> (db, Inl 410)
          | (db, Inr (session, _)) \<Rightarrow>
              (db, Inr ([grant_cookie rq rd grant ''/'' (if form_navigation rq then ''Lax'' else ''Strict'')
                   (acc_expires_at session), cleared_scheme_cookie rq], form_navigation rq)))"

definition serve_grant_bootstrap :: "http_request \<Rightarrow> nat + bool" where
  "serve_grant_bootstrap rq = (if rq_method rq \<noteq> ''GET'' \<and> rq_method rq \<noteq> ''HEAD'' then Inl 405
     else Inr (rq_method rq = ''HEAD''))"

section \<open>The upstream of a request\<close>

text \<open>The scheme, the port and the path.\<close>

definition gateway_upstream :: "endpoint_route \<Rightarrow> string \<Rightarrow> bool \<Rightarrow> string \<times> int \<times> string" where
  "gateway_upstream route path_value sticky = (let
     trimmed = trim_prefix ''/'' path_value;
     marked = (rt_protocol route = ''http''
       \<and> (trimmed = https_upgrade_path \<or> has_prefix trimmed (https_upgrade_path @ ''/''))) in
     if rt_protocol route = ''http'' \<and> (marked \<or> sticky) then
       (''https'', 443, ''/'' @ (if marked then trim_prefix ''/'' (trim_prefix https_upgrade_path trimmed) else trimmed))
     else (rt_protocol route, rt_target_port route, ''/'' @ trimmed))"

definition default_url_port :: "string \<Rightarrow> string \<Rightarrow> int" where
  "default_url_port scheme explicit =
     (if explicit \<noteq> '''' then (case atoi explicit of Some p \<Rightarrow> p | None \<Rightarrow> 0)
      else if equal_fold scheme ''https'' then 443
      else if equal_fold scheme ''http'' then 80 else 0)"

text \<open>\<open>rewriteLocation\<close>: the new value of a \<open>Location\<close> header.\<close>

definition rewrite_location ::
  "(string \<Rightarrow> url option) \<Rightarrow> string \<Rightarrow> string \<Rightarrow> int \<Rightarrow> string list \<Rightarrow> string \<Rightarrow> string" where
  "rewrite_location parse scheme target_host target_port aliases location =
     (if location = '''' then location
      else case parse location of None \<Rightarrow> location
      | Some u \<Rightarrow> (let
          tail = (if url_path u = '''' then ''/'' else url_path u)
            @ (if url_query u \<noteq> '''' then ''?'' @ url_query u else [])
            @ (if url_fragment u \<noteq> '''' then ''#'' @ url_fragment u else []);
          trusted = (equal_fold (url_hostname u) target_host
            \<or> list_ex (\<lambda>a. trim_space a \<noteq> '''' \<and> equal_fold (url_hostname u) (trim_space a)) aliases);
          port = default_url_port (url_scheme u) (url_port u) in
          if url_scheme u = '''' then tail
          else if \<not> trusted then ''/''
          else if equal_fold (url_scheme u) scheme \<and> port = target_port then tail
          else if scheme = ''http'' \<and> equal_fold (url_scheme u) ''https'' \<and> (port = 443 \<or> port = target_port)
          then ''/'' @ https_upgrade_path @ tail
          else ''/''))"

section \<open>Headers that cross the gateway\<close>

definition stripped_headers :: "string list" where
  "stripped_headers = [''Authorization'', ''Proxy-Authorization'', ''X-CSRF-Token'', ''X-Real-IP'',
     ''X-Forwarded-Host'', ''X-Forwarded-Proto'', ''Forwarded'', ''X-DMP-Access-Subdomain'']"

definition device_cookies :: "headers \<Rightarrow> cookie list" where
  "device_cookies h = filter (\<lambda>c. c_name c \<notin> set reserved_cookies) (cookies_of h)"

definition strip_control_plane_headers :: "headers \<Rightarrow> headers" where
  "strip_control_plane_headers h = (let
     cs = map cookie_text (device_cookies h);
     h = header_del ''Cookie'' h;
     h = (if cs \<noteq> [] then header_set ''Cookie'' (join_cookies cs) h else h);
     h = fold header_del stripped_headers h
     in header_put ''X-Forwarded-For'' [] h)"

definition rewrite_browser_origin :: "gateway_env \<Rightarrow> string \<Rightarrow> string \<Rightarrow> headers \<Rightarrow> headers" where
  "rewrite_browser_origin env scheme authority h = (let
     h = (if header_get h ''Origin'' \<noteq> '''' then header_set ''Origin'' (scheme @ ''://'' @ authority) h else h);
     referer = header_get h ''Referer'' in
     if referer = '''' then h
     else case ge_parse_url env referer of None \<Rightarrow> h
     | Some u \<Rightarrow> header_set ''Referer'' (ge_render_url env
         (u\<lparr>url_scheme := scheme, url_hostname := authority, url_port := '''', url_query := '''', url_fragment := ''''\<rparr>)) h)"

text \<open>The cookies of a response; \<open>rewriteCookies\<close> leaves a response without cookies alone.\<close>

definition rewrite_cookies :: "set_cookie list \<Rightarrow> set_cookie list" where
  "rewrite_cookies cs = map (\<lambda>c. c\<lparr>sc_domain := '''',
       sc_path := (if sc_path c = '''' \<or> sc_path c = ''/'' then ''/'' else ''/'' @ trim_prefix ''/'' (sc_path c))\<rparr>)
     (filter (\<lambda>c. sc_name c \<notin> set reserved_cookies) cs)"

definition trusted_scheme_cookie :: "http_request \<Rightarrow> string \<Rightarrow> string \<Rightarrow> set_cookie list" where
  "trusted_scheme_cookie rq protocol scheme =
     (if protocol \<noteq> ''http'' \<or> scheme \<noteq> ''https'' then []
      else [\<lparr>sc_name = upstream_scheme_cookie, sc_value = ''https'', sc_path = ''/'', sc_domain = '''',
        sc_http_only = True, sc_secure = access_request_uses_https rq, sc_same_site = ''Strict'',
        sc_max_age = 300, sc_expires = None\<rparr>])"

section \<open>Connection pools\<close>

text \<open>
  A transport is a pool of upstream connections: \<open>tp_serial\<close> is its identity, the other fields are
  what its dialer, its tracker and its TLS configuration were made from. The pools are kept per
  random hostname and endpoint and replaced when the configuration changes.
\<close>

record proxy_config =
  pc_session_id :: string
  pc_protocol :: string
  pc_host :: string
  pc_target_port :: int
  pc_tls_name :: string
  pc_socks_addr :: string
  pc_socks_user :: string
  pc_socks_pass :: string

record transport =
  tp_serial :: nat
  tp_socks :: socks_route
  tp_session_id :: string
  tp_server_name :: string

record pool_entry =
  pe_config :: proxy_config
  pe_transport :: transport
  pe_last_used :: instant

record pool_cache =
  pools :: "(string \<times> pool_entry) list"
  next_serial :: nat

definition config_of :: "string \<Rightarrow> endpoint_route \<Rightarrow> socks_route \<Rightarrow> proxy_config" where
  "config_of sid route socks = \<lparr>pc_session_id = sid, pc_protocol = rt_protocol route, pc_host = rt_host route,
     pc_target_port = rt_target_port route, pc_tls_name = rt_tls_server_name route,
     pc_socks_addr = so_address socks, pc_socks_user = so_username socks, pc_socks_pass = so_password socks\<rparr>"

definition endpoint_key :: "endpoint_route \<Rightarrow> string" where
  "endpoint_key route = (if rt_endpoint_id route = ''''
     then rt_protocol route @ ''://'' @ join_host_port (rt_host route) (itoa (rt_target_port route))
     else rt_endpoint_id route)"

definition transport_key :: "string \<Rightarrow> endpoint_route \<Rightarrow> string" where
  "transport_key token route = token @ CHR 0x00 # endpoint_key route"

definition make_transport :: "nat \<Rightarrow> proxy_config \<Rightarrow> transport" where
  "make_transport n c = \<lparr>tp_serial = n, tp_socks = \<lparr>so_address = pc_socks_addr c, so_username = pc_socks_user c,
       so_password = pc_socks_pass c\<rparr>,
     tp_session_id = pc_session_id c, tp_server_name = first_non_empty [pc_tls_name c, pc_host c]\<rparr>"

definition drop_idle :: "int \<Rightarrow> instant \<Rightarrow> (string \<times> pool_entry) list \<Rightarrow> (string \<times> pool_entry) list" where
  "drop_idle idle_ttl now ps = filter (\<lambda>(k, e). \<not> now - pe_last_used e > idle_ttl) ps"

definition proxy_transport ::
  "int \<Rightarrow> instant \<Rightarrow> string \<Rightarrow> string \<Rightarrow> endpoint_route \<Rightarrow> socks_route \<Rightarrow> pool_cache \<Rightarrow> pool_cache \<times> transport" where
  "proxy_transport idle_ttl now token sid route socks cache = (let
     config = config_of sid route socks; key = transport_key token route;
     cache = cache\<lparr>pools := drop_idle idle_ttl now (pools cache)\<rparr>;
     fresh = (let t = make_transport (next_serial cache) config in
       (\<lparr>pools = AList.update key \<lparr>pe_config = config, pe_transport = t, pe_last_used = now\<rparr> (pools cache),
         next_serial = next_serial cache + 1\<rparr>, t)) in
     case map_of (pools cache) key of
       Some e \<Rightarrow> if pe_config e = config
         then (cache\<lparr>pools := AList.update key (e\<lparr>pe_last_used := now\<rparr>) (pools cache)\<rparr>, pe_transport e)
         else fresh
     | None \<Rightarrow> fresh)"

section \<open>Serving a request\<close>

record proxied =
  px_transport :: transport
  px_scheme :: string
  px_authority :: string
  px_path :: string
  px_host :: string
  px_port :: int
  px_headers :: headers

datatype web_reply =
    Refused nat
  | Bootstrap_page bool
  | Grant_accepted "set_cookie list" bool
  | Proxied proxied

record web_state =
  ws_db :: db
  ws_pools :: pool_cache

definition upstream_host :: "endpoint_route \<Rightarrow> string \<Rightarrow> string" where
  "upstream_host route scheme = (if scheme = ''https'' \<and> trim_space (rt_tls_server_name route) \<noteq> ''''
     then trim_space (rt_tls_server_name route) else rt_host route)"

text \<open>\<open>proxy\<close>: the request that \<open>Rewrite\<close> makes of the one \<open>ReverseProxy\<close> hands it.\<close>

definition proxy_request :: "gateway_env \<Rightarrow> readings \<Rightarrow> http_request \<Rightarrow> access_session \<Rightarrow> endpoint_route \<Rightarrow>
    socks_route \<Rightarrow> pool_cache \<Rightarrow> pool_cache \<times> proxied" where
  "proxy_request env rd rq session route socks cache = (let
     sticky = (cookie_named (rq_headers rq) upstream_scheme_cookie = Some ''https'');
     (scheme, port, path) = gateway_upstream route (web_request_path rq) sticky;
     authority = join_host_port (upstream_host route scheme) (itoa port);
     (cache, transport) = proxy_transport (ge_idle_ttl env) (rd_pool rd) (rq_token rq) (acc_id session) route socks cache in
     (cache, \<lparr>px_transport = transport, px_scheme = scheme, px_authority = join_host_port (rt_host route) (itoa port),
       px_path = path, px_host = authority, px_port = port,
       px_headers = rewrite_browser_origin env scheme authority (strip_control_plane_headers (rq_headers rq))\<rparr>))"

text \<open>\<open>ModifyResponse\<close>, on the \<open>Location\<close> header, the cookies and the headers of a response.\<close>

definition modify_response :: "gateway_env \<Rightarrow> http_request \<Rightarrow> endpoint_route \<Rightarrow> string \<Rightarrow> int \<Rightarrow>
    headers \<times> set_cookie list \<Rightarrow> headers \<times> set_cookie list" where
  "modify_response env rq route scheme port response = (case response of (h, cookies) \<Rightarrow> let
     location = header_get h ''Location'';
     new = rewrite_location (ge_parse_url env) scheme (rt_host route) port [rt_tls_server_name route] location;
     h = (if new = location then h else header_set ''Location'' new h);
     h = header_set ''Cache-Control'' ''no-store'' h;
     h = header_set ''Referrer-Policy'' ''no-referrer'' h;
     h = header_set ''X-Robots-Tag'' ''noindex, nofollow, noarchive'' h
     in (h, rewrite_cookies cookies @ trusted_scheme_cookie rq (rt_protocol route) scheme))"

definition web_serve :: "gateway_env \<Rightarrow> readings \<Rightarrow> http_request \<Rightarrow> web_state \<Rightarrow> web_state \<times> web_reply" where
  "web_serve env rd rq st =
     (if \<not> rq_subdomain rq then (st, Refused 404)
      else if \<not> valid_gateway_route_token (rq_token rq) then (st, Refused 404)
      else if web_request_path rq = web_grant_authorize_path then
        (st, case serve_grant_bootstrap rq of Inl status \<Rightarrow> Refused status | Inr head \<Rightarrow> Bootstrap_page head)
      else if web_request_path rq = web_grant_exchange_path then
        (case exchange_grant env rd rq (ws_db st) of
          (db, Inl status) \<Rightarrow> (st\<lparr>ws_db := db\<rparr>, Refused status)
        | (db, Inr (cookies, nav)) \<Rightarrow> (st\<lparr>ws_db := db\<rparr>, Grant_accepted cookies nav))
      else case resolve_authorized_access env rd rq (ws_db st) of
          (db, Inl status) \<Rightarrow> (st\<lparr>ws_db := db\<rparr>, Refused status)
        | (db, Inr (session, route)) \<Rightarrow> (let st = st\<lparr>ws_db := db\<rparr> in
            if acc_source_ip session \<noteq> '''' \<and> acc_source_ip session \<noteq> direct_source_ip rq then (st, Refused 403)
            else if acc_mode session \<noteq> ''web'' \<or> rt_access_type route \<noteq> ''web_proxy''
              \<or> rt_protocol route \<noteq> ''http'' \<and> rt_protocol route \<noteq> ''https'' then (st, Refused 403)
            else case ge_socks_route env (rt_node_id route) (rt_client_id route) of
              None \<Rightarrow> (st, Refused 502)
            | Some socks \<Rightarrow> (case proxy_request env rd rq session route socks (ws_pools st) of
                (cache, p) \<Rightarrow> (st\<lparr>ws_pools := cache\<rparr>, Proxied p))))"

section \<open>Activity of a connection\<close>

record activity_tracker =
  tk_session_id :: string
  tk_idle_ttl :: int
  tk_last_persisted :: "instant option"

text \<open>A connection: open or closed, and its deadline.\<close>

record activity_conn =
  ac_open :: bool
  ac_deadline :: "instant option"

definition new_activity_tracker :: "string \<Rightarrow> int \<Rightarrow> activity_tracker" where
  "new_activity_tracker sid idle_ttl = \<lparr>tk_session_id = sid, tk_idle_ttl = idle_ttl, tk_last_persisted = None\<rparr>"

definition web_activity_persist_interval :: int where
  "web_activity_persist_interval = seconds 30"

definition tracker_touch :: "instant \<Rightarrow> activity_tracker \<Rightarrow> db \<Rightarrow> (activity_tracker \<times> db) \<times> unit res" where
  "tracker_touch now tk db =
     (if tk_session_id tk = '''' then ((tk, db), Inr ())
      else if (case tk_last_persisted tk of None \<Rightarrow> False | Some l \<Rightarrow> now - l < web_activity_persist_interval)
      then ((tk, db), Inr ())
      else case touch_access_session (tk_session_id tk) now (now - tk_idle_ttl tk) db of
        (db, Inl e) \<Rightarrow> ((tk, db), Inl e)
      | (db, Inr _) \<Rightarrow> ((tk\<lparr>tk_last_persisted := Some now\<rparr>, db), Inr ()))"

definition refresh_deadline :: "instant \<Rightarrow> activity_tracker \<Rightarrow> activity_conn \<Rightarrow> activity_conn" where
  "refresh_deadline now tk c = (if tk_idle_ttl tk > 0 then c\<lparr>ac_deadline := Some (now + tk_idle_ttl tk)\<rparr> else c)"

definition close_conn :: "activity_conn \<Rightarrow> activity_conn" where
  "close_conn c = c\<lparr>ac_open := False\<rparr>"

definition new_web_activity_conn :: "instant \<Rightarrow> activity_tracker \<Rightarrow> activity_conn" where
  "new_web_activity_conn now tk = refresh_deadline now tk \<lparr>ac_open = True, ac_deadline = None\<rparr>"

text \<open>\<open>Read\<close> of \<open>count\<close> bytes and an error flag from below; \<open>Write\<close> of \<open>len\<close> bytes, of which \<open>count\<close> are
written below. They return the number of bytes the caller sees, and whether it sees an error.\<close>

definition web_conn_read :: "instant \<Rightarrow> nat \<times> bool \<Rightarrow> (activity_conn \<times> activity_tracker \<times> db) \<Rightarrow>
    (activity_conn \<times> activity_tracker \<times> db) \<times> nat \<times> bool" where
  "web_conn_read now below st = (case (below, st) of ((count, err), (c, tk, db)) \<Rightarrow>
     if count = 0 then ((if err then close_conn c else c, tk, db), (0, err))
     else case tracker_touch now tk db of
       ((tk, db), Inl e) \<Rightarrow> ((close_conn c, tk, db), (0, True))
     | ((tk, db), Inr _) \<Rightarrow> ((refresh_deadline now tk c, tk, db), (count, err)))"

definition web_conn_write :: "instant \<Rightarrow> nat \<Rightarrow> nat \<times> bool \<Rightarrow> (activity_conn \<times> activity_tracker \<times> db) \<Rightarrow>
    (activity_conn \<times> activity_tracker \<times> db) \<times> nat \<times> bool" where
  "web_conn_write now len below st = (case (below, st) of ((count, err), (c, tk, db)) \<Rightarrow>
     if len = 0 then (st, (count, err))
     else case tracker_touch now tk db of
       ((tk, db), Inl e) \<Rightarrow> ((close_conn c, tk, db), (0, True))
     | ((tk, db), Inr _) \<Rightarrow> (let c = (if count > 0 then refresh_deadline now tk c else c) in
         ((if err then close_conn c else c, tk, db), (count, err))))"

section \<open>Lemmas\<close>

lemma resolve_authorized_access_Inr:
  assumes "resolve_authorized_access env rd rq db = (db', Inr (session, route))"
  shows "\<exists>grant s e d p. cookie_named (rq_headers rq) access_grant_cookie = Some grant \<and> valid_access_token grant
    \<and> s \<in> set (t_access_sessions db)
    \<and> resolvable (rd_store rd) (ge_hash env (rq_token rq)) (ge_hash env grant) (rd_gateway rd - ge_idle_ttl env) db s
    \<and> session_join s db = Some (e, d, p) \<and> session = view_session s e d\<lparr>acc_last_seen_at := rd_store rd\<rparr>
    \<and> route = route_of e d p"
  using assms
  by (auto simp: resolve_authorized_access_def split: option.splits if_splits prod.splits sum.splits
      dest!: resolve_access_grant_Inr)

lemma proxy_request_fields:
  assumes "proxy_request env rd rq session route socks cache = (cache', p)"
  shows "px_authority p = join_host_port (rt_host route) (itoa (px_port p))
    \<and> (px_scheme p, px_port p) \<in> {(rt_protocol route, rt_target_port route), (''https'', 443)}
    \<and> ((px_scheme p, px_port p) = (rt_protocol route, rt_target_port route) \<or> rt_protocol route = ''http'')
    \<and> px_headers p = rewrite_browser_origin env (px_scheme p) (px_host p) (strip_control_plane_headers (rq_headers rq))"
  using assms
  by (auto simp: proxy_request_def gateway_upstream_def Let_def split: prod.splits if_splits)

lemma web_serve_Proxied:
  assumes "web_serve env rd rq st = (st', Proxied p)"
  shows "\<exists>db session route socks cache. rq_subdomain rq \<and> valid_gateway_route_token (rq_token rq)
    \<and> resolve_authorized_access env rd rq (ws_db st) = (db, Inr (session, route))
    \<and> acc_source_ip session \<in> {'''', direct_source_ip rq} \<and> acc_mode session = ''web''
    \<and> rt_access_type route = ''web_proxy'' \<and> rt_protocol route \<in> {''http'', ''https''}
    \<and> ge_socks_route env (rt_node_id route) (rt_client_id route) = Some socks
    \<and> proxy_request env rd rq session route socks (ws_pools st) = (cache, p)"
  using assms
  by (auto simp: web_serve_def Let_def split: if_splits prod.splits sum.splits option.splits)

lemma canonical_stripped:
  "canonical_name ''Cookie'' \<notin> canonical_name ` set stripped_headers"
  "canonical_name ''X-Forwarded-For'' \<noteq> canonical_name ''Cookie''"
  "canonical_name ''X-Forwarded-For'' \<notin> canonical_name ` set stripped_headers"
  by code_simp+

lemma header_values_strip:
  "header_values (strip_control_plane_headers h) name =
     (if canonical_name name \<in> canonical_name ` set (''X-Forwarded-For'' # stripped_headers) then []
      else if canonical_name name = canonical_name ''Cookie''
      then (if device_cookies h = [] then [] else [join_cookies (map cookie_text (device_cookies h))])
      else header_values h name)"
  using canonical_stripped
  by (auto simp: strip_control_plane_headers_def Let_def header_values_put header_values_del_all
      header_values_set header_values_del)

lemma cookies_of_cong: "header_values h ''Cookie'' = header_values h' ''Cookie'' \<Longrightarrow> cookies_of h = cookies_of h'"
  by (simp add: cookies_of_def)

lemma device_cookies_ok: "\<forall>c\<in>set (device_cookies h). cookie_ok c"
  using cookies_of_ok by (auto simp: device_cookies_def)

lemma canonical_length_12: "is_current token \<Longrightarrow> length token = 12"
  by (simp add: is_current_def label_prefix_def encoded_digest_bytes_def)

section \<open>The pools\<close>

definition pool_inv :: "pool_cache \<Rightarrow> bool" where
  "pool_inv c \<longleftrightarrow> distinct (map fst (pools c))
     \<and> (\<forall>k e. map_of (pools c) k = Some e \<longrightarrow> tp_serial (pe_transport e) < next_serial c
          \<and> pe_transport e = make_transport (tp_serial (pe_transport e)) (pe_config e))
     \<and> (\<forall>k k' e e'. map_of (pools c) k = Some e \<longrightarrow> map_of (pools c) k' = Some e'
          \<longrightarrow> tp_serial (pe_transport e) = tp_serial (pe_transport e') \<longrightarrow> k = k')"

lemma map_of_drop_idle:
  assumes "distinct (map fst ps)" "map_of (drop_idle ttl now ps) k = Some e" shows "map_of ps k = Some e"
proof -
  have "(k, e) \<in> set ps" using map_of_SomeD[OF assms(2)] by (auto simp: drop_idle_def)
  then show ?thesis using assms(1) by (simp add: map_of_eq_Some_iff)
qed

lemma distinct_drop_idle: "distinct (map fst ps) \<Longrightarrow> distinct (map fst (drop_idle ttl now ps))"
  by (simp add: drop_idle_def distinct_map_filter)

lemma pool_inv_drop_idle: "pool_inv c \<Longrightarrow> pool_inv (c\<lparr>pools := drop_idle ttl now (pools c)\<rparr>)"
  unfolding pool_inv_def by (simp add: distinct_drop_idle del: map_of_eq_Some_iff) (meson map_of_drop_idle)

lemma pool_inv_serial: "pool_inv c \<Longrightarrow> map_of (pools c) k = Some e \<Longrightarrow> tp_serial (pe_transport e) < next_serial c"
  unfolding pool_inv_def by blast

lemma pool_inv_update:
  assumes "pool_inv c" "next_serial c \<le> n" "tp_serial (pe_transport e) < n"
    "pe_transport e = make_transport (tp_serial (pe_transport e)) (pe_config e)"
    "\<And>k' e'. map_of (pools c) k' = Some e' \<Longrightarrow> tp_serial (pe_transport e') = tp_serial (pe_transport e) \<Longrightarrow> k' = k"
  shows "pool_inv \<lparr>pools = AList.update k e (pools c), next_serial = n\<rparr>"
proof -
  have less: "tp_serial (pe_transport e') < n" if "map_of (pools c) k' = Some e'" for k' e'
    using assms(1,2) that unfolding pool_inv_def by (meson less_le_trans)
  show ?thesis
    using assms less unfolding pool_inv_def
    by (auto simp: distinct_update update_conv' split: if_splits)
qed

lemma proxy_transport_step:
  assumes "pool_inv c" "proxy_transport ttl now token sid route socks c = (c', t)"
  shows "pool_inv c'" and "t = make_transport (tp_serial t) (config_of sid route socks)"
    and "\<exists>e. map_of (pools c') (transport_key token route) = Some e \<and> pe_transport e = t
      \<and> pe_config e = config_of sid route socks"
    and "tp_serial t < next_serial c \<Longrightarrow> \<exists>e. map_of (pools c) (transport_key token route) = Some e
      \<and> pe_transport e = t \<and> pe_config e = config_of sid route socks"
    and "next_serial c \<le> next_serial c'"
    and "map_of (pools c') k = Some e \<Longrightarrow> tp_serial (pe_transport e) < next_serial c \<Longrightarrow>
      \<exists>e0. map_of (pools c) k = Some e0 \<and> pe_transport e0 = pe_transport e \<and> pe_config e0 = pe_config e"
proof -
  let ?d = "c\<lparr>pools := drop_idle ttl now (pools c)\<rparr>"
  let ?key = "transport_key token route" and ?config = "config_of sid route socks"
  have d: "pool_inv ?d" by (rule pool_inv_drop_idle[OF assms(1)])
  have dist: "distinct (map fst (pools c))" using assms(1) by (simp add: pool_inv_def)
  have old: "map_of (pools c) k = Some e" if "map_of (drop_idle ttl now (pools c)) k = Some e" for k e
    by (rule map_of_drop_idle[OF dist that])
  have "pool_inv c' \<and> t = make_transport (tp_serial t) ?config
    \<and> (\<exists>e. map_of (pools c') ?key = Some e \<and> pe_transport e = t \<and> pe_config e = ?config)
    \<and> (tp_serial t < next_serial c \<longrightarrow> (\<exists>e. map_of (pools c) ?key = Some e \<and> pe_transport e = t \<and> pe_config e = ?config))
    \<and> next_serial c \<le> next_serial c'
    \<and> (\<forall>k e. map_of (pools c') k = Some e \<longrightarrow> tp_serial (pe_transport e) < next_serial c \<longrightarrow>
        (\<exists>e0. map_of (pools c) k = Some e0 \<and> pe_transport e0 = pe_transport e \<and> pe_config e0 = pe_config e))"
  proof (cases "\<exists>e. map_of (pools ?d) ?key = Some e \<and> pe_config e = ?config")
    case True
    then obtain e where e: "map_of (pools ?d) ?key = Some e" "pe_config e = ?config" by blast
    have c': "c' = \<lparr>pools = AList.update ?key (e\<lparr>pe_last_used := now\<rparr>) (pools ?d), next_serial = next_serial c\<rparr>"
      and t: "t = pe_transport e"
      using assms(2) e by (cases c; force simp add: proxy_transport_def Let_def)+
    have ok: "tp_serial (pe_transport e) < next_serial c" "pe_transport e = make_transport (tp_serial (pe_transport e)) (pe_config e)"
      using d e(1) by (auto simp: pool_inv_def)
    have "pool_inv c'" unfolding c'
    proof (rule pool_inv_update[OF d])
      fix k' e' assume "map_of (pools ?d) k' = Some e'" "tp_serial (pe_transport e') = tp_serial (pe_transport (e\<lparr>pe_last_used := now\<rparr>))"
      then show "k' = ?key" using d e(1) by (simp add: pool_inv_def)
    qed (use ok in simp_all)
    then show ?thesis
      using e ok t old[of ?key e] old by (auto simp: c' update_conv' split: if_splits)
  next
    case False
    then have c': "c' = \<lparr>pools = AList.update ?key \<lparr>pe_config = ?config, pe_transport = make_transport (next_serial c) ?config,
          pe_last_used = now\<rparr> (pools ?d), next_serial = next_serial c + 1\<rparr>"
      and t: "t = make_transport (next_serial c) ?config"
      using assms(2) by (auto simp: proxy_transport_def Let_def split: option.splits if_splits)
    have "pool_inv c'" unfolding c'
    proof (rule pool_inv_update[OF d])
      fix k' e' assume "map_of (pools ?d) k' = Some e'" "tp_serial (pe_transport e')
        = tp_serial (pe_transport \<lparr>pe_config = ?config, pe_transport = make_transport (next_serial c) ?config, pe_last_used = now\<rparr>)"
      with pool_inv_serial[OF d] have "tp_serial (make_transport (next_serial c) ?config) < next_serial c"
        by fastforce
      then show "k' = ?key" by (simp add: make_transport_def)
    qed (simp_all add: make_transport_def)
    then show ?thesis using t old by (auto simp: c' update_conv' make_transport_def split: if_splits)
  qed
  then show "pool_inv c'" and "t = make_transport (tp_serial t) ?config"
    and "\<exists>e. map_of (pools c') ?key = Some e \<and> pe_transport e = t \<and> pe_config e = ?config"
    and "tp_serial t < next_serial c \<Longrightarrow> \<exists>e. map_of (pools c) ?key = Some e \<and> pe_transport e = t \<and> pe_config e = ?config"
    and "next_serial c \<le> next_serial c'"
    and "map_of (pools c') k = Some e \<Longrightarrow> tp_serial (pe_transport e) < next_serial c \<Longrightarrow>
      \<exists>e0. map_of (pools c) k = Some e0 \<and> pe_transport e0 = pe_transport e \<and> pe_config e0 = pe_config e" by blast+
qed

text \<open>A run of requests for transports, with what each was given.\<close>

fun pool_run :: "int \<Rightarrow> (instant \<times> string \<times> string \<times> endpoint_route \<times> socks_route) list \<Rightarrow> pool_cache \<Rightarrow>
    ((string \<times> proxy_config) \<times> transport) list" where
  "pool_run ttl [] c = []"
| "pool_run ttl ((now, token, sid, route, socks) # reqs) c =
     (case proxy_transport ttl now token sid route socks c of
        (c, t) \<Rightarrow> ((transport_key token route, config_of sid route socks), t) # pool_run ttl reqs c)"

lemma pool_run_old:
  assumes "pool_inv c" "((key, config), t) \<in> set (pool_run ttl reqs c)" "tp_serial t < next_serial c"
  shows "\<exists>e. map_of (pools c) key = Some e \<and> pe_transport e = t \<and> pe_config e = config"
  using assms
proof (induction reqs arbitrary: c)
  case (Cons r reqs)
  obtain now token sid route socks where r: "r = (now, token, sid, route, socks)" by (cases r)
  obtain c' t' where s: "proxy_transport ttl now token sid route socks c = (c', t')" by fastforce
  note step = proxy_transport_step[OF Cons.prems(1) s]
  consider "key = transport_key token route" "config = config_of sid route socks" "t = t'"
    | "((key, config), t) \<in> set (pool_run ttl reqs c')"
    using Cons.prems(2) by (auto simp: r s)
  then show ?case
  proof cases
    case 1
    then show ?thesis using step(4) Cons.prems(3) by simp
  next
    case 2
    have "tp_serial t < next_serial c'" using Cons.prems(3) step(5) by simp
    from Cons.IH[OF step(1) 2 this] obtain e where
      "map_of (pools c') key = Some e" "pe_transport e = t" "pe_config e = config" by blast
    then show ?thesis using step(6)[of key e] Cons.prems(3) by auto
  qed
qed simp

lemma pool_run_same:
  assumes "pool_inv c" "((k1, f1), t1) \<in> set (pool_run ttl reqs c)" "((k2, f2), t2) \<in> set (pool_run ttl reqs c)"
    "tp_serial t1 = tp_serial t2"
  shows "k1 = k2 \<and> f1 = f2 \<and> t1 = t2 \<and> t1 = make_transport (tp_serial t1) f1"
  using assms
proof (induction reqs arbitrary: c)
  case (Cons r reqs)
  obtain now token sid route socks where r: "r = (now, token, sid, route, socks)" by (cases r)
  obtain c' t' where s: "proxy_transport ttl now token sid route socks c = (c', t')" by fastforce
  note step = proxy_transport_step[OF Cons.prems(1) s]
  let ?k = "transport_key token route" and ?f = "config_of sid route socks"
  obtain e where e: "map_of (pools c') ?k = Some e" "pe_transport e = t'" "pe_config e = ?f" using step(3) by blast
  have less: "tp_serial t' < next_serial c'" using step(1) e by (auto simp: pool_inv_def)
  have later: "k = ?k \<and> f = ?f \<and> t = t'"
    if x: "((k, f), t) \<in> set (pool_run ttl reqs c')" "tp_serial t = tp_serial t'" for k f t
  proof -
    obtain e' where e': "map_of (pools c') k = Some e'" "pe_transport e' = t" "pe_config e' = f"
      using pool_run_old[OF step(1) x(1)] x(2) less by auto
    then have "k = ?k" using step(1) e x(2) unfolding pool_inv_def by metis
    then show ?thesis using e e' by simp
  qed
  have "x = ((?k, ?f), t') \<or> x \<in> set (pool_run ttl reqs c')" if "x \<in> set (pool_run ttl (r # reqs) c)" for x
    using that by (auto simp: r s)
  note cases1 = this[OF Cons.prems(2)] and cases2 = this[OF Cons.prems(3)]
  show ?case
    using cases1 cases2 later step(2) Cons.prems(4) Cons.IH[OF step(1)]
    by (metis prod.inject)
qed simp

definition no_pools :: pool_cache where
  "no_pools = \<lparr>pools = [], next_serial = 0\<rparr>"

lemma no_pools_inv: "pool_inv no_pools"
  by (simp add: pool_inv_def no_pools_def)

section \<open>Properties\<close>

lemma proxy_request_transport:
  assumes "pool_inv cache" "proxy_request env rd rq session route socks cache = (cache', p)"
  shows "tp_session_id (px_transport p) = acc_id session" and "tp_socks (px_transport p) = socks"
    and "pool_inv cache'"
proof -
  obtain c t where r: "proxy_transport (ge_idle_ttl env) (rd_pool rd) (rq_token rq) (acc_id session) route socks cache = (c, t)"
    by fastforce
  have "px_transport p = t" "cache' = c"
    using assms(2) r by (auto simp: proxy_request_def Let_def split: prod.splits)
  moreover have "tp_session_id t = acc_id session" "tp_socks t = socks"
    by (subst proxy_transport_step(2)[OF assms(1) r], simp add: make_transport_def config_of_def)+
  ultimately show "tp_session_id (px_transport p) = acc_id session" "tp_socks (px_transport p) = socks" "pool_inv cache'"
    using proxy_transport_step(1)[OF assms(1) r] by simp_all
qed

text \<open>C31. What reaches a device is authorized: a request is forwarded only from a live, exchanged Web
session whose token and grant it presents, from the address the session was opened from, to the
registered host of the session's endpoint, at its registered scheme and port or at HTTPS on 443 for an
endpoint registered with HTTP, through the node's tunnel and a pool of that session.\<close>

theorem web_proxied_authorized:
  assumes "snd (web_serve env rd rq st) = Proxied p" "pool_inv (ws_pools st)"
  shows "\<exists>grant s e d pr. rq_subdomain rq \<and> is_current (rq_token rq)
    \<and> cookie_named (rq_headers rq) access_grant_cookie = Some grant
    \<and> s \<in> set (t_access_sessions (ws_db st))
    \<and> acs_token_hash s = ge_hash env (rq_token rq) \<and> acs_grant_hash s = ge_hash env grant
    \<and> acs_grant_exchanged_at s \<noteq> None
    \<and> session_live (rd_store rd) (rd_gateway rd - ge_idle_ttl env) (ws_db st) s
    \<and> acs_mode s = ''web'' \<and> acs_source_ip s \<in> {'''', direct_source_ip rq}
    \<and> session_join s (ws_db st) = Some (e, d, pr) \<and> e_access_type e = ''web_proxy''
    \<and> px_authority p = join_host_port (d_host d) (itoa (px_port p))
    \<and> (px_scheme p, px_port p) \<in> insert (e_protocol e, e_target_port e)
         (if e_protocol e = ''http'' then {(''https'', 443)} else {})
    \<and> tp_session_id (px_transport p) = acs_id s
    \<and> Some (tp_socks (px_transport p)) = ge_socks_route env (p_node_id pr) (rt_client_id (route_of e d pr))"
proof -
  obtain st' where "web_serve env rd rq st = (st', Proxied p)" using assms(1) by (metis prod.collapse)
  from web_serve_Proxied[OF this] obtain db session route socks cache where
    w: "rq_subdomain rq" "valid_gateway_route_token (rq_token rq)"
      "resolve_authorized_access env rd rq (ws_db st) = (db, Inr (session, route))"
      "acc_source_ip session \<in> {'''', direct_source_ip rq}" "acc_mode session = ''web''"
      "rt_access_type route = ''web_proxy''"
      "ge_socks_route env (rt_node_id route) (rt_client_id route) = Some socks"
      "proxy_request env rd rq session route socks (ws_pools st) = (cache, p)" by blast
  from resolve_authorized_access_Inr[OF w(3)] obtain grant s e d pr where
    r: "cookie_named (rq_headers rq) access_grant_cookie = Some grant" "s \<in> set (t_access_sessions (ws_db st))"
      "resolvable (rd_store rd) (ge_hash env (rq_token rq)) (ge_hash env grant) (rd_gateway rd - ge_idle_ttl env) (ws_db st) s"
      "session_join s (ws_db st) = Some (e, d, pr)" "session = view_session s e d\<lparr>acc_last_seen_at := rd_store rd\<rparr>"
      "route = route_of e d pr" by blast
  note fields = proxy_request_fields[OF w(8)] and pool = proxy_request_transport[OF assms(2) w(8)]
  show ?thesis
    using w r fields pool
    by (intro exI[of _ grant] exI[of _ s] exI[of _ e] exI[of _ d] exI[of _ pr])
       (auto simp: resolvable_def valid_gateway_route_token_def view_session_def route_of_def)
qed

definition demo_label :: string where
  "demo_label = ''web-00000000''"

definition demo_grant :: string where
  "demo_grant = replicate 48 CHR ''a''"

definition demo_gateway :: gateway_env where
  "demo_gateway = \<lparr>ge_hash = (\<lambda>x. if x = demo_label then ''k1'' else if x = demo_grant then ''grant'' else ''''),
     ge_socks_route = (\<lambda>n c. if n = ''n1'' \<and> c = 7
       then Some \<lparr>so_address = ''127.0.0.1:1080'', so_username = ''u'', so_password = ''p''\<rparr> else None),
     ge_parse_url = (\<lambda>_. None), ge_render_url = (\<lambda>_. ''''), ge_idle_ttl = 4\<rparr>"

definition demo_readings :: readings where
  "demo_readings = \<lparr>rd_gateway = 3, rd_store = 3, rd_resolve = 3, rd_reply = 3, rd_pool = 3\<rparr>"

definition demo_request :: "string \<Rightarrow> http_request" where
  "demo_request cookies = \<lparr>rq_method = ''GET'', rq_host = ''h'', rq_tls = True, rq_remote_addr = ''192.0.2.1:50000'',
     rq_headers = [(''Cookie'', [cookies]), (''Authorization'', [''Basic x'']), (''Accept'', [''text/html''])],
     rq_subdomain = True, rq_url_path = ''/index.html'', rq_token = demo_label, rq_path = ''/index.html'', rq_query = [], rq_form = None, rq_json = None\<rparr>"

definition demo_served :: "web_state \<times> web_reply" where
  "demo_served = web_serve demo_gateway demo_readings
     (demo_request (''sid=1; dmp_access_grant='' @ demo_grant)) \<lparr>ws_db = demo_exchanged, ws_pools = no_pools\<rparr>"

theorem web_proxied_authorized_witness:
  "\<exists>p s. snd demo_served = Proxied p \<and> px_authority p = ''10.0.0.5:80''
    \<and> s \<in> set (t_access_sessions demo_exchanged) \<and> tp_session_id (px_transport p) = acs_id s"
proof -
  have "case snd demo_served of Proxied p \<Rightarrow> px_authority p = ''10.0.0.5:80'' | _ \<Rightarrow> False"
    by code_simp
  then obtain p where p: "snd demo_served = Proxied p" "px_authority p = ''10.0.0.5:80''"
    by (auto split: web_reply.splits)
  from web_proxied_authorized[OF p(1)[unfolded demo_served_def]] show ?thesis
    using p no_pools_inv by auto
qed

text \<open>Nothing of the platform crosses to a device: the cookies a device sees are those of the browser
without the four of the platform, in order and with their values, the headers that carry credentials or
the origin of the caller are gone, and every other header is as the browser sent it.\<close>

theorem platform_headers_stripped:
  "map (\<lambda>c. (c_name c, c_value c)) (cookies_of (strip_control_plane_headers h))
     = filter (\<lambda>(n, v). n \<notin> {''dmp_session'', ''dmp_csrf'', ''dmp_upstream_scheme'', ''dmp_access_grant''})
         (map (\<lambda>c. (c_name c, c_value c)) (cookies_of h))
   \<and> header_values (strip_control_plane_headers h) name =
     (if canonical_name name \<in> canonical_name ` set (''X-Forwarded-For'' # stripped_headers) then []
      else if canonical_name name = ''Cookie'' then header_values (strip_control_plane_headers h) ''Cookie''
      else header_values h name)"
proof
  have c: "canonical_name ''Cookie'' = ''Cookie''" by code_simp
  let ?g = "\<lambda>c. (c_name c, c_value c)"
  have "filter (\<lambda>(n, v). n \<notin> set reserved_cookies) (map ?g cs) = map ?g (filter (\<lambda>c. c_name c \<notin> set reserved_cookies) cs)"
    for cs by (induction cs) auto
  then have device: "filter (\<lambda>(n, v). n \<notin> set reserved_cookies) (map ?g (cookies_of h)) = map ?g (device_cookies h)"
    by (simp add: device_cookies_def)
  have v: "header_values (strip_control_plane_headers h) ''Cookie''
      = (if device_cookies h = [] then [] else [join_cookies (map cookie_text (device_cookies h))])"
    using canonical_stripped by (simp add: header_values_strip)
  have "map ?g (cookies_of (strip_control_plane_headers h)) = map ?g (device_cookies h)"
  proof (cases "device_cookies h = []")
    case True
    then show ?thesis using v by (simp add: cookies_of_def)
  next
    case False
    then show ?thesis using v by (intro cookies_of_joined[OF device_cookies_ok]) auto
  qed
  then show "map ?g (cookies_of (strip_control_plane_headers h))
     = filter (\<lambda>(n, v). n \<notin> {''dmp_session'', ''dmp_csrf'', ''dmp_upstream_scheme'', ''dmp_access_grant''})
         (map ?g (cookies_of h))"
    using device by (simp add: reserved_cookies_def upstream_scheme_cookie_def access_grant_cookie_def)
  show "header_values (strip_control_plane_headers h) name =
     (if canonical_name name \<in> canonical_name ` set (''X-Forwarded-For'' # stripped_headers) then []
      else if canonical_name name = ''Cookie'' then header_values (strip_control_plane_headers h) ''Cookie''
      else header_values h name)"
    using canonical_stripped by (simp add: header_values_strip c)
qed

text \<open>Sessions never share upstream connections: in any sequence of requests, two that were given the
same connection pool came with the same hostname token for the same session, destination and tunnel
account, and the pool was made for exactly those.\<close>

theorem pools_not_shared:
  assumes "((transport_key tok1 r1, config_of sid1 r1 s1), t1) \<in> set (pool_run ttl reqs no_pools)"
    "((transport_key tok2 r2, config_of sid2 r2 s2), t2) \<in> set (pool_run ttl reqs no_pools)"
    "tp_serial t1 = tp_serial t2" "is_current tok1" "is_current tok2"
  shows "tok1 = tok2 \<and> sid1 = sid2 \<and> endpoint_key r1 = endpoint_key r2
    \<and> (rt_protocol r1, rt_host r1, rt_target_port r1) = (rt_protocol r2, rt_host r2, rt_target_port r2)
    \<and> s1 = s2 \<and> tp_session_id t1 = sid1 \<and> tp_socks t1 = s1"
proof -
  have same: "transport_key tok1 r1 = transport_key tok2 r2" "config_of sid1 r1 s1 = config_of sid2 r2 s2"
    "t1 = make_transport (tp_serial t1) (config_of sid1 r1 s1)"
    using pool_run_same[OF no_pools_inv assms(1-3)] by auto
  have "tok1 = tok2 \<and> endpoint_key r1 = endpoint_key r2"
    using same(1) canonical_length_12[OF assms(4)] canonical_length_12[OF assms(5)] by (simp add: transport_key_def)
  moreover have "s1 = s2" "sid1 = sid2"
    "(rt_protocol r1, rt_host r1, rt_target_port r1) = (rt_protocol r2, rt_host r2, rt_target_port r2)"
    using same(2) by (simp_all add: config_of_def)
  moreover have "tp_session_id t1 = sid1" "tp_socks t1 = s1"
    by (subst same(3), simp add: make_transport_def config_of_def)+
  ultimately show ?thesis by simp
qed

definition demo_route :: endpoint_route where
  "demo_route = route_of (demo_endpoint ''e2'' ''http'' 80 ''web_proxy'') demo_device (demo_project ''p1'' ''AAA'' (Some 7))"

definition demo_socks :: "string \<Rightarrow> socks_route" where
  "demo_socks user = \<lparr>so_address = ''127.0.0.1:1080'', so_username = user, so_password = ''p''\<rparr>"

definition demo_pool_requests :: "(instant \<times> string \<times> string \<times> endpoint_route \<times> socks_route) list" where
  "demo_pool_requests = [(0, demo_label, ''a1'', demo_route, demo_socks ''u''), (1, demo_label, ''a2'', demo_route, demo_socks ''u''),
     (2, demo_label, ''a2'', demo_route, demo_socks ''u'')]"

theorem pools_not_shared_witness:
  "map (\<lambda>(x, t). tp_serial t) (pool_run 100 demo_pool_requests no_pools) = [0, 1, 1]
   \<and> tp_session_id (snd (pool_run 100 demo_pool_requests no_pools ! 1)) = ''a2''"
proof
  show "map (\<lambda>(x, t). tp_serial t) (pool_run 100 demo_pool_requests no_pools) = [0, 1, 1]" by code_simp
  let ?x = "pool_run 100 demo_pool_requests no_pools ! 1"
  have "?x \<in> set (pool_run 100 demo_pool_requests no_pools)" by code_simp
  then have "((transport_key demo_label demo_route, config_of ''a2'' demo_route (demo_socks ''u'')), snd ?x)
      \<in> set (pool_run 100 demo_pool_requests no_pools)"
    by code_simp
  from pools_not_shared[OF this this refl] show "tp_session_id (snd ?x) = ''a2''" by (simp add: demo_label_def) code_simp
qed

text \<open>A device's redirect to its own HTTPS is followed inside the session: for an endpoint registered
with HTTP, a redirect to HTTPS on the same host, at the default or the registered port, comes back to the
gateway, which forwards it to HTTPS on port 443 of the device with the path of the redirect.\<close>

theorem https_redirect_followed:
  assumes "parse location = Some u" "location \<noteq> ''''" "rt_protocol route = ''http''"
    "equal_fold (url_scheme u) ''https''" "equal_fold (url_hostname u) (rt_host route)"
    "default_url_port (url_scheme u) (url_port u) \<in> {443, rt_target_port route}" "url_path u = ''/'' @ path"
  shows "has_prefix (rewrite_location parse ''http'' (rt_host route) (rt_target_port route) [rt_tls_server_name route] location)
      (''/'' @ https_upgrade_path @ url_path u)
    \<and> gateway_upstream route (https_upgrade_path @ url_path u) sticky = (''https'', 443, url_path u)"
proof
  have "\<not> equal_fold (url_scheme u) ''http''" "url_scheme u \<noteq> ''''"
    using assms(4) by (auto simp: equal_fold_def to_lower_def lower_char_def less_eq_char_def)
  then show "has_prefix (rewrite_location parse ''http'' (rt_host route) (rt_target_port route) [rt_tls_server_name route] location)
      (''/'' @ https_upgrade_path @ url_path u)"
    using assms by (auto simp: rewrite_location_def Let_def has_prefix_def)
  have "trim_prefix ''/'' (https_upgrade_path @ ''/'' @ path) = https_upgrade_path @ ''/'' @ path"
    by (simp add: trim_prefix_def has_prefix_def https_upgrade_path_def)
  moreover have "has_prefix (https_upgrade_path @ ''/'' @ path) (https_upgrade_path @ ''/'')"
    by (simp add: has_prefix_def)
  moreover have "trim_prefix ''/'' (''/'' @ path) = path" by (rule trim_prefix_append)
  ultimately show "gateway_upstream route (https_upgrade_path @ url_path u) sticky = (''https'', 443, url_path u)"
    using assms(3) unfolding assms(7) by (simp add: gateway_upstream_def Let_def)
qed

definition demo_redirect :: "string \<Rightarrow> url option" where
  "demo_redirect location = Some \<lparr>url_scheme = ''https'', url_hostname = ''10.0.0.5'', url_port = '''',
     url_path = ''/login'', url_query = ''next=1'', url_fragment = ''''\<rparr>"

theorem https_redirect_followed_witness:
  "rewrite_location demo_redirect ''http'' ''10.0.0.5'' 80 [''''] ''https://10.0.0.5/login?next=1''
     = ''/.dmp-upstream/https/login?next=1''
   \<and> gateway_upstream demo_route ''.dmp-upstream/https/login'' True = (''https'', 443, ''/login'')"
proof
  show "rewrite_location demo_redirect ''http'' ''10.0.0.5'' 80 [''''] ''https://10.0.0.5/login?next=1''
     = ''/.dmp-upstream/https/login?next=1''" by code_simp
  have "gateway_upstream demo_route (https_upgrade_path @ ''/login'') True = (''https'', 443, ''/login'')"
    using https_redirect_followed[where parse = demo_redirect and location = "''x''"
        and u = "the (demo_redirect ''x'')" and route = demo_route and path = "''login''" and sticky = True]
    by (simp add: demo_redirect_def demo_route_def route_of_def demo_defs default_url_port_def equal_fold_def
        to_lower_def lower_char_def)
  then show "gateway_upstream demo_route ''.dmp-upstream/https/login'' True = (''https'', 443, ''/login'')"
    by (simp add: https_upgrade_path_def)
qed

text \<open>The rewriting keeps a path that starts with two slashes, which a browser reads as another host.\<close>

lemma location_leaves_gateway:
  assumes "parse location = Some \<lparr>url_scheme = ''http'', url_hostname = ''10.0.0.5'', url_port = '''',
     url_path = ''//example.org/x'', url_query = '''', url_fragment = ''''\<rparr>" "location \<noteq> ''''"
  shows "rewrite_location parse ''http'' ''10.0.0.5'' 80 aliases location = ''//example.org/x''"
  using assms by (simp add: rewrite_location_def Let_def default_url_port_def equal_fold_def to_lower_def lower_char_def)

lemma tracker_touch_live:
  assumes "tracker_touch now tk db = ((tk', db'), Inr u)" "tk_session_id tk \<noteq> ''''"
  shows "(case tk_last_persisted tk of None \<Rightarrow> False | Some l \<Rightarrow> now - l < seconds 30)
    \<or> (\<exists>s. s \<in> set (t_access_sessions db) \<and> acs_id s = tk_session_id tk \<and> session_live now (now - tk_idle_ttl tk) db s)"
proof (cases "case tk_last_persisted tk of None \<Rightarrow> False | Some l \<Rightarrow> now - l < seconds 30")
  case False
  then have "\<not> (case tk_last_persisted tk of None \<Rightarrow> False | Some l \<Rightarrow> now - l < web_activity_persist_interval)"
    unfolding web_activity_persist_interval_def .
  then obtain db'' u' where t: "touch_access_session (tk_session_id tk) now (now - tk_idle_ttl tk) db = (db'', Inr u')"
    using assms by (simp add: tracker_touch_def split: prod.splits sum.splits)
  have "touch_access_session (tk_session_id tk) now (now - tk_idle_ttl tk) db = (db, Inl ErrNotFound)"
    if "count_where (\<lambda>s. acs_id s = tk_session_id tk \<and> session_live now (now - tk_idle_ttl tk) db s) (t_access_sessions db) = 0"
    using that unfolding touch_access_session_def Let_def by (simp del: count_where_0_iff)
  then have "count_where (\<lambda>s. acs_id s = tk_session_id tk \<and> session_live now (now - tk_idle_ttl tk) db s) (t_access_sessions db) \<noteq> 0"
    using t by auto
  then show ?thesis by auto
qed simp

text \<open>A connection carries bytes only for a live session: when a read hands bytes to the caller or a
write reports some as written, the session was live now, or was recorded as active less than thirty
seconds ago.\<close>

theorem traffic_needs_live_session:
  assumes "0 < fst (snd (web_conn_read now below (c, tk, db))) \<or> 0 < fst (snd (web_conn_write now (Suc n) below (c, tk, db)))"
    "tk_session_id tk \<noteq> ''''"
  shows "(case tk_last_persisted tk of None \<Rightarrow> False | Some l \<Rightarrow> now - l < seconds 30)
    \<or> (\<exists>s. s \<in> set (t_access_sessions db) \<and> acs_id s = tk_session_id tk \<and> session_live now (now - tk_idle_ttl tk) db s)"
proof -
  have "\<exists>tk' db' u. tracker_touch now tk db = ((tk', db'), Inr u)"
    using assms(1) by (cases "tracker_touch now tk db"; cases "snd (tracker_touch now tk db)")
      (auto simp: web_conn_read_def web_conn_write_def Let_def split: prod.splits if_splits)
  then show ?thesis using tracker_touch_live assms(2) by blast
qed

theorem traffic_needs_live_session_witness:
  "web_conn_read 5 (10, False) (new_web_activity_conn 5 (new_activity_tracker ''a1'' 100), new_activity_tracker ''a1'' 100, demo_exchanged)
     = ((\<lparr>ac_open = True, ac_deadline = Some 105\<rparr>, (new_activity_tracker ''a1'' 100)\<lparr>tk_last_persisted := Some 5\<rparr>,
         fst (touch_access_session ''a1'' 5 (- 95) demo_exchanged)), (10, False))
   \<and> (\<exists>s. s \<in> set (t_access_sessions demo_exchanged) \<and> acs_id s = ''a1'' \<and> session_live 5 (- 95) demo_exchanged s)"
proof
  have t: "snd (touch_access_session ''a1'' 5 (- 95) demo_exchanged) = Inr ()" by code_simp
  then show r: "web_conn_read 5 (10, False) (new_web_activity_conn 5 (new_activity_tracker ''a1'' 100), new_activity_tracker ''a1'' 100, demo_exchanged)
     = ((\<lparr>ac_open = True, ac_deadline = Some 105\<rparr>, (new_activity_tracker ''a1'' 100)\<lparr>tk_last_persisted := Some 5\<rparr>,
         fst (touch_access_session ''a1'' 5 (- 95) demo_exchanged)), (10, False))"
    by (simp add: web_conn_read_def tracker_touch_def new_activity_tracker_def new_web_activity_conn_def
        refresh_deadline_def split_beta split: sum.split)
  show "\<exists>s. s \<in> set (t_access_sessions demo_exchanged) \<and> acs_id s = ''a1'' \<and> session_live 5 (- 95) demo_exchanged s"
    using traffic_needs_live_session[of 5 "(10, False)" "new_web_activity_conn 5 (new_activity_tracker ''a1'' 100)"
        "new_activity_tracker ''a1'' 100" demo_exchanged 0] r
    by (simp add: new_activity_tracker_def)
qed

end
