(* ===== verification/Vault.thy ===== *)
theory Vault
  imports StoreProjects
begin

text \<open>
  Sealed credentials: \<open>secrets/node_credentials.go\<close> and \<open>secrets/resolver.go\<close>.

  The vault encrypts the credentials of nodes and of SSH endpoints before they enter the database
  and resolves references to secrets. \<open>credential_db\<close> is the interface \<open>credentialDatabase\<close> the
  vault uses, with the laws of a map; the store provides it. The authenticated cipher (AES-GCM),
  the JSON text of a credential, the environment and the files are arguments (\<open>vault_env\<close>); what
  the properties need of them is a hypothesis of theirs.
\<close>

section \<open>The database the vault uses\<close>

locale credential_db =
  fixes save :: "string \<Rightarrow> string \<Rightarrow> string \<Rightarrow> 'd \<Rightarrow> 'd"
    and load :: "string \<Rightarrow> 'd \<Rightarrow> (string \<times> string) res"
    and remove :: "string \<Rightarrow> 'd \<Rightarrow> 'd"
    and sane :: "'d \<Rightarrow> bool"
  assumes load_save: "load k (save k' n c d) = (if k = k' then Inr (n, c) else load k d)"
    and load_remove: "load k (remove k' d) = (if k = k' then Inl ErrNotFound else load k d)"
    and load_error: "load k d = Inl e \<Longrightarrow> e = ErrNotFound"
    and sane_save: "sane d \<Longrightarrow> sane (save k n c d)"
    and sane_remove: "sane d \<Longrightarrow> sane (remove k d)"

text \<open>What the closure \<open>rollback\<close> does with what was loaded before.\<close>

definition put_back :: "(string \<Rightarrow> string \<Rightarrow> string \<Rightarrow> 'd \<Rightarrow> 'd) \<Rightarrow> (string \<Rightarrow> 'd \<Rightarrow> 'd)
    \<Rightarrow> string \<Rightarrow> (string \<times> string) res \<Rightarrow> 'd \<Rightarrow> 'd" where
  "put_back save remove k old d = (case old of Inr (n, c) \<Rightarrow> save k n c d | Inl _ \<Rightarrow> remove k d)"

context credential_db
begin

lemma load_put_back: "load j (put_back save remove k (load k d) (save k n c d)) = load j d"
proof (cases "load k d")
  case (Inl e)
  then show ?thesis using load_error[OF Inl] by (simp add: put_back_def load_save load_remove)
next
  case (Inr x)
  then show ?thesis by (cases x) (simp add: put_back_def load_save)
qed

lemma sane_put_back: "sane d \<Longrightarrow> sane (put_back save remove k old d)"
  by (auto simp: put_back_def sane_save sane_remove split: sum.splits prod.splits)

lemma load_last: "load k (save k n c d) = Inr (n, c)"
  by (simp add: load_save)

end

lemma row_where_upd:
  assumes "\<And>r. g (f r) = g r"
  shows "row_where (\<lambda>r. g r = k) (upd_where (\<lambda>r. g r = k') f t)
    = (if k = k' then map_option f (row_where (\<lambda>r. g r = k) t) else row_where (\<lambda>r. g r = k) t)"
  using assms by (induction t) (auto simp: row_where_def upd_where_def)

lemma row_where_single: "row_where P [r] = (if P r then Some r else None)"
  by (simp add: row_where_def)

lemma row_where_append: "row_where P (t @ u) = (case row_where P t of None \<Rightarrow> row_where P u | Some r \<Rightarrow> Some r)"
  by (induction t) (auto simp: row_where_def)

lemma row_where_del:
  "row_where (\<lambda>r. g r = k) (del_where (\<lambda>r. g r = k') t) = (if k = k' then None else row_where (\<lambda>r. g r = k) t)"
  by (induction t) (auto simp: row_where_def del_where_def)

lemma node_credential_save:
  "node_credential k (save_node_credential k' n c db) = (if k = k' then Inr (n, c) else node_credential k db)"
proof (cases "exists_row (\<lambda>r. nc_node_id r = k') (t_node_credentials db)")
  case True
  then have "row_where (\<lambda>r. nc_node_id r = k') (t_node_credentials db) \<noteq> None" by simp
  then obtain r where "row_where (\<lambda>r. nc_node_id r = k') (t_node_credentials db) = Some r" by blast
  then show ?thesis using True
    by (simp add: node_credential_def save_node_credential_def row_where_upd)
next
  case False
  then have none: "row_where (\<lambda>r. nc_node_id r = k') (t_node_credentials db) = None" by simp
  show ?thesis
  proof (cases "k = k'")
    case True
    then show ?thesis using False
      by (simp add: node_credential_def save_node_credential_def row_where_append none row_where_single
          del: row_where_None exists_row_iff)
  next
    case k: False
    then show ?thesis using False
      by (cases "row_where (\<lambda>r. nc_node_id r = k) (t_node_credentials db)")
         (simp_all add: node_credential_def save_node_credential_def row_where_append row_where_single
          del: row_where_None exists_row_iff)
  qed
qed

lemma node_credential_delete:
  "node_credential k (delete_node_credential k' db) = (if k = k' then Inl ErrNotFound else node_credential k db)"
  by (simp add: node_credential_def delete_node_credential_def delete_node_credentials_def row_where_del)

interpretation creds: credential_db save_node_credential node_credential delete_node_credential store_inv
proof
  show "e = ErrNotFound" if "node_credential k d = Inl e" for k d e
    using that by (auto simp: node_credential_def attempt_Inl_iff from_row_def split: option.splits)
qed (simp_all add: node_credential_save node_credential_delete save_node_credential_inv delete_node_credential_inv)

section \<open>References\<close>

record node_credential_patch =
  ncp_type :: string
  ncp_auth_key :: string

record ssh_credential_patch =
  shp_username :: string
  shp_password :: string

text \<open>\<open>seal\<close> and \<open>unseal\<close> take the nonce, the text and the additional data of the cipher.\<close>

record vault_env =
  ve_seal :: "string \<Rightarrow> string \<Rightarrow> string \<Rightarrow> string"
  ve_unseal :: "string \<Rightarrow> string \<Rightarrow> string \<Rightarrow> string option"
  ve_marshal_node :: "node_credential_patch \<Rightarrow> string"
  ve_unmarshal_node :: "string \<Rightarrow> node_credential_patch"
  ve_marshal_ssh :: "ssh_credential_patch \<Rightarrow> string"
  ve_unmarshal_ssh :: "string \<Rightarrow> ssh_credential_patch"
  ve_getenv :: "string \<Rightarrow> string"
  ve_read_file :: "string \<Rightarrow> string option"

definition resolve_external :: "vault_env \<Rightarrow> string \<Rightarrow> string res" where
  "resolve_external env reference = (let reference = trim_space reference in
     if has_prefix reference ''env://'' then
       let name = trim_prefix ''env://'' reference in
       if name = '''' then Inl (ErrMsg ''empty environment secret name'')
       else let v = trim_space (ve_getenv env name) in
         if v = '''' then Inl (ErrMsg ''environment secret is not configured'') else Inr v
     else if has_prefix reference ''file://'' then
       let path = trim_prefix ''file://'' reference in
       if path = '''' then Inl (ErrMsg ''empty secret file path'')
       else case ve_read_file env path of
           None \<Rightarrow> Inl (ErrMsg ''read secret file'')
         | Some content \<Rightarrow> let v = trim_space content in
             if v = '''' then Inl (ErrMsg ''secret file is empty'') else Inr v
     else if has_prefix reference ''secret://'' \<or> has_prefix reference ''vault://'' then
       Inl (ErrMsg ''external secret provider is not configured'')
     else Inl (ErrMsg ''unsupported secret reference''))"

definition db_prefix :: string where
  "db_prefix = ''db://node/''"

definition vault_resolve :: "vault_env \<Rightarrow> string \<Rightarrow> db \<Rightarrow> string res" where
  "vault_resolve env reference db =
     (if \<not> has_prefix reference db_prefix then resolve_external env reference
      else let k = trim_prefix db_prefix reference in
        case node_credential k db of
          Inl e \<Rightarrow> Inl (ErrMsg ''read encrypted node credential'')
        | Inr (nonce, ciphertext) \<Rightarrow>
            from_row (ve_unseal env nonce ciphertext k)
              (ErrMsg ''decrypt node credential: master key does not match the database''))"

section \<open>Saving\<close>

datatype rollback = Put_back string "(string \<times> string) res"

fun run_rollback :: "rollback \<Rightarrow> db \<Rightarrow> db" where
  "run_rollback (Put_back k old) db = put_back save_node_credential delete_node_credential k old db"

text \<open>The end that \<open>Save\<close> and \<open>SaveSSH\<close> share: seal, remember the old row, write.\<close>

definition store_sealed :: "vault_env \<Rightarrow> string \<Rightarrow> string \<Rightarrow> string \<Rightarrow> db \<Rightarrow> db \<times> (string \<times> rollback) res" where
  "store_sealed env nonce k plaintext db =
     (save_node_credential k nonce (ve_seal env nonce plaintext k) db,
      Inr (db_prefix @ k, Put_back k (node_credential k db)))"

definition current_secret :: "vault_env \<Rightarrow> string \<Rightarrow> db \<Rightarrow> string option" where
  "current_secret env reference db =
     (if trim_space reference = '''' then None
      else case vault_resolve env reference db of Inl _ \<Rightarrow> None | Inr v \<Rightarrow> Some v)"

definition merged_node :: "vault_env \<Rightarrow> string \<Rightarrow> node_credential_patch \<Rightarrow> db \<Rightarrow> node_credential_patch" where
  "merged_node env reference patch db = (let
     c = (case current_secret env reference db of None \<Rightarrow> \<lparr>ncp_type = '''', ncp_auth_key = ''''\<rparr>
          | Some v \<Rightarrow> ve_unmarshal_node env v);
     c = (if trim_space (ncp_type patch) \<noteq> '''' then c\<lparr>ncp_type := trim_space (ncp_type patch)\<rparr> else c);
     c = (if ncp_auth_key patch \<noteq> '''' then c\<lparr>ncp_auth_key := ncp_auth_key patch, ncp_type := ''signed''\<rparr> else c)
     in if ncp_type c = '''' then c\<lparr>ncp_type := ''signed''\<rparr> else c)"

definition vault_save ::
  "vault_env \<Rightarrow> string \<Rightarrow> string \<Rightarrow> string \<Rightarrow> node_credential_patch \<Rightarrow> db \<Rightarrow> db \<times> (string \<times> rollback) res" where
  "vault_save env nonce nid reference patch db = (let c = merged_node env reference patch db in
     if ncp_type c \<noteq> ''signed'' then (db, Inl (ErrMsg ''session authentication is retired''))
     else if length (ncp_auth_key c) < 32 then (db, Inl (ErrMsg ''API key needs at least 32 bytes''))
     else store_sealed env nonce nid (ve_marshal_node env c) db)"

definition merged_ssh :: "vault_env \<Rightarrow> string \<Rightarrow> ssh_credential_patch \<Rightarrow> db \<Rightarrow> ssh_credential_patch" where
  "merged_ssh env reference patch db = (let
     c = (case current_secret env reference db of None \<Rightarrow> \<lparr>shp_username = '''', shp_password = ''''\<rparr>
          | Some v \<Rightarrow> ve_unmarshal_ssh env v);
     c = (if trim_space (shp_username patch) \<noteq> '''' then c\<lparr>shp_username := trim_space (shp_username patch)\<rparr> else c)
     in if shp_password patch \<noteq> '''' then c\<lparr>shp_password := shp_password patch\<rparr> else c)"

definition vault_save_ssh ::
  "vault_env \<Rightarrow> string \<Rightarrow> string \<Rightarrow> string \<Rightarrow> ssh_credential_patch \<Rightarrow> db \<Rightarrow> db \<times> (string \<times> rollback) res" where
  "vault_save_ssh env nonce eid reference patch db = (let c = merged_ssh env reference patch db in
     if trim_space (shp_username c) = '''' \<or> shp_password c = ''''
     then (db, Inl (ErrMsg ''SSH password login needs a user name and a password''))
     else store_sealed env nonce (''ssh-'' @ eid) (ve_marshal_ssh env c) db)"

definition vault_delete :: "string \<Rightarrow> db \<Rightarrow> db" where
  "vault_delete k db = delete_node_credential k db"

section \<open>What the vault guarantees\<close>

lemma db_reference [simp]: "has_prefix (db_prefix @ k) db_prefix" "trim_prefix db_prefix (db_prefix @ k) = k"
  by (simp_all add: has_prefix_def trim_prefix_def)

lemma vault_resolve_cong:
  "(\<And>k. node_credential k db = node_credential k db') \<Longrightarrow> vault_resolve env r db = vault_resolve env r db'"
  by (simp add: vault_resolve_def)

lemma store_sealed_inv: "store_inv db \<Longrightarrow> store_inv (fst (store_sealed env nonce k p db))"
  by (simp add: store_sealed_def creds.sane_save)

lemma vault_save_inv [on_ok_rules]: "store_inv db \<Longrightarrow> store_inv (fst (vault_save env nonce k r p db))"
  by (simp add: vault_save_def Let_def store_sealed_inv)

lemma vault_save_ssh_inv [on_ok_rules]: "store_inv db \<Longrightarrow> store_inv (fst (vault_save_ssh env nonce k r p db))"
  by (simp add: vault_save_ssh_def Let_def store_sealed_inv)

lemma run_rollback_inv [on_ok_rules]: "store_inv db \<Longrightarrow> store_inv (run_rollback rb db)"
  by (cases rb) (simp add: creds.sane_put_back)

text \<open>C30. A saved credential, of a node or of an SSH endpoint, enters the database only as what the cipher seals, under the
fresh nonce and its name, and nothing else changes there; the returned reference resolves to what was saved, provided the
cipher opens what it sealed under the same nonce and name. A node credential is signed with a key of at least 32 bytes,
an SSH credential has a user name and a password.\<close>

theorem vault_save_resolves:
  fixes env :: vault_env and ssh :: bool
  assumes cipher: "\<And>n p a. ve_unseal env n (ve_seal env n p a) a = Some p"
    and ok: "if ssh then vault_save_ssh env nonce owner reference spatch db = (db', Inr (r, rb)) \<and> k = ''ssh-'' @ owner
          \<and> secret = ve_marshal_ssh env (merged_ssh env reference spatch db)
        else vault_save env nonce owner reference patch db = (db', Inr (r, rb)) \<and> k = owner
          \<and> secret = ve_marshal_node env (merged_node env reference patch db)"
  shows "node_credential k db' = Inr (nonce, ve_seal env nonce secret k)
    \<and> (\<forall>j. j \<noteq> k \<longrightarrow> node_credential j db' = node_credential j db)
    \<and> db'\<lparr>t_node_credentials := []\<rparr> = db\<lparr>t_node_credentials := []\<rparr>
    \<and> vault_resolve env r db' = Inr secret
    \<and> (if ssh then trim_space (shp_username (merged_ssh env reference spatch db)) \<noteq> '''' \<and> shp_password (merged_ssh env reference spatch db) \<noteq> ''''
       else ncp_type (merged_node env reference patch db) = ''signed'' \<and> 32 \<le> length (ncp_auth_key (merged_node env reference patch db)))"
proof -
  have st: "store_sealed env nonce k secret db = (db', Inr (r, rb))"
    and good: "if ssh then trim_space (shp_username (merged_ssh env reference spatch db)) \<noteq> '''' \<and> shp_password (merged_ssh env reference spatch db) \<noteq> ''''
       else ncp_type (merged_node env reference patch db) = ''signed'' \<and> 32 \<le> length (ncp_auth_key (merged_node env reference patch db))"
    using ok by (auto simp: vault_save_def vault_save_ssh_def Let_def split: if_splits)
  then have db': "db' = save_node_credential k nonce (ve_seal env nonce secret k) db" and r: "r = db_prefix @ k"
    by (simp_all add: store_sealed_def)
  have "db'\<lparr>t_node_credentials := []\<rparr> = db\<lparr>t_node_credentials := []\<rparr>"
    by (simp add: db' save_node_credential_def)
  then show ?thesis
    using good by (simp add: r db' vault_resolve_def creds.load_last creds.load_save cipher)
qed

definition demo_env :: vault_env where
  "demo_env = \<lparr>ve_seal = (\<lambda>n p a. n @ a @ p), ve_unseal = (\<lambda>n c a. if has_prefix c (n @ a) then Some (drop (length (n @ a)) c) else None),
     ve_marshal_node = ncp_auth_key, ve_unmarshal_node = (\<lambda>s. \<lparr>ncp_type = ''signed'', ncp_auth_key = s\<rparr>),
     ve_marshal_ssh = (\<lambda>c. shp_username c @ '':'' @ shp_password c),
     ve_unmarshal_ssh = (\<lambda>s. \<lparr>shp_username = s, shp_password = ''''\<rparr>),
     ve_getenv = (\<lambda>k. ''''), ve_read_file = (\<lambda>p. None)\<rparr>"

definition demo_saved :: "db \<times> (string \<times> rollback) res" where
  "demo_saved = vault_save demo_env ''nonce'' ''n1'' '''' \<lparr>ncp_type = '''', ncp_auth_key = replicate 32 CHR ''k''\<rparr> demo_db"

theorem vault_save_resolves_witness:
  "vault_resolve demo_env ''db://node/n1'' (fst demo_saved) = Inr (replicate 32 CHR ''k'')"
proof -
  have "vault_save demo_env ''nonce'' ''n1'' '''' \<lparr>ncp_type = '''', ncp_auth_key = replicate 32 CHR ''k''\<rparr> demo_db
      = (fst demo_saved, Inr (''db://node/n1'', Put_back ''n1'' (node_credential ''n1'' demo_db)))"
    by (simp add: demo_saved_def vault_save_def merged_node_def current_secret_def Let_def store_sealed_def
        db_prefix_def trim_space_def)
  then show ?thesis
    using vault_save_resolves[of demo_env False "''nonce''" "''n1''" "''''"]
    by (simp add: demo_env_def has_prefix_def merged_node_def current_secret_def Let_def trim_space_def)
qed

text \<open>A rollback undoes a save: after it every reference of any kind resolves to what it resolved to
before the save, whether the credential was new or replaced an old one.\<close>

theorem rollback_restores_references:
  assumes "vault_save env nonce nid reference patch db = (db', Inr (r, rb))
    \<or> vault_save_ssh env nonce nid reference ssh_patch db = (db', Inr (r, rb))"
  shows "vault_resolve env x (run_rollback rb db') = vault_resolve env x db"
proof -
  have "\<exists>k p. store_sealed env nonce k p db = (db', Inr (r, rb))"
    using assms by (auto simp: vault_save_def vault_save_ssh_def Let_def split: if_splits)
  then obtain k p where "store_sealed env nonce k p db = (db', Inr (r, rb))" by blast
  then show ?thesis
    by (intro vault_resolve_cong) (auto simp: store_sealed_def creds.load_put_back)
qed

theorem rollback_restores_references_witness:
  "vault_resolve demo_env ''db://node/n1'' (run_rollback (snd (projr (snd demo_saved))) (fst demo_saved))
     = Inl (ErrMsg ''read encrypted node credential'')"
proof -
  have "vault_save demo_env ''nonce'' ''n1'' '''' \<lparr>ncp_type = '''', ncp_auth_key = replicate 32 CHR ''k''\<rparr> demo_db
      = (fst demo_saved, Inr (''db://node/n1'', snd (projr (snd demo_saved))))"
    by (simp add: demo_saved_def vault_save_def merged_node_def current_secret_def Let_def store_sealed_def
        db_prefix_def trim_space_def)
  from rollback_restores_references[OF disjI1, OF this]
  have "vault_resolve demo_env ''db://node/n1'' (run_rollback (snd (projr (snd demo_saved))) (fst demo_saved))
      = vault_resolve demo_env ''db://node/n1'' demo_db" .
  also have "\<dots> = Inl (ErrMsg ''read encrypted node credential'')"
    by (simp add: vault_resolve_def db_prefix_def has_prefix_def node_credential_def demo_db_def empty_db_def
        row_where_def)
  finally show ?thesis .
qed

end
