(* ===== verification/SshGateway.thy ===== *)
theory SshGateway
  imports Gateway Vault
begin

text \<open>
  The SSH gateway: \<open>access/ssh_gateway.go\<close>. It serves the terminal page of an SSH access session and
  the WebSocket behind it, which becomes a terminal on the registered host once the session, the
  credential, the tunnel, the host key and the SSH server have all agreed.

  What the browser and the SSH server do is an argument (\<open>ssh_world\<close>), so are the JSON decoder and
  the key parser (\<open>ssh_env\<close>). \<open>serve_web_socket\<close> is the handler up to the \<open>ready\<close> message,
  \<open>terminal_run\<close> is its loop over the events that follow, and \<open>monitor_ssh\<close> is the goroutine that
  watches for idleness, over the times at which there was activity.
\<close>

record ssh_auth_message =
  sa_type :: string
  sa_method :: string
  sa_username :: string
  sa_password :: string
  sa_columns :: int
  sa_rows :: int

record ssh_client_message =
  sm_type :: string
  sm_data :: string
  sm_columns :: int
  sm_rows :: int

record stored_ssh_credential =
  sk_username :: string
  sk_password :: string
  sk_private_key :: string
  sk_passphrase :: string

record ssh_env =
  se_gateway :: gateway_env
  se_vault :: vault_env
  se_unmarshal :: "string \<Rightarrow> stored_ssh_credential \<Rightarrow> stored_ssh_credential option"
  se_parse_key :: "string \<Rightarrow> string \<Rightarrow> bool"
  se_touch_ttl :: int

section \<open>Credentials\<close>

definition resolve_credential ::
  "ssh_env \<Rightarrow> endpoint_route \<Rightarrow> ssh_auth_message \<Rightarrow> db \<Rightarrow> stored_ssh_credential option" where
  "resolve_credential env route input db = (let
     given = \<lparr>sk_username = sa_username input, sk_password = sa_password input, sk_private_key = '''', sk_passphrase = ''''\<rparr>;
     credential =
       (if sa_method input \<noteq> ''stored'' then Some given
        else if rt_credential_ref route = '''' then None
        else if rt_ssh_auth_method route = ''key'' then
          map_option (\<lambda>key. \<lparr>sk_username = rt_ssh_username route, sk_password = '''', sk_private_key = key,
              sk_passphrase = ''''\<rparr>)
            (ve_read_file (se_vault env) (rt_ssh_key_path route))
        else case vault_resolve (se_vault env) (rt_credential_ref route) db of
            Inl _ \<Rightarrow> None
          | Inr value \<Rightarrow> se_unmarshal env value given)
     in case credential of None \<Rightarrow> None
     | Some c \<Rightarrow> if trim_space (sk_username c) = '''' \<or> sk_password c = '''' \<and> sk_private_key c = '''' then None else Some c)"

text \<open>The authentication methods offered to the server, and whether a host key is accepted.\<close>

record ssh_config =
  cf_user :: string
  cf_password :: "string option"
  cf_key :: "string option"

definition ssh_client_config :: "ssh_env \<Rightarrow> stored_ssh_credential \<Rightarrow> ssh_config option" where
  "ssh_client_config env c =
     (if sk_private_key c \<noteq> '''' \<and> \<not> se_parse_key env (sk_private_key c) (sk_passphrase c) then None
      else Some \<lparr>cf_user = sk_username c,
        cf_password = (if sk_password c \<noteq> '''' then Some (sk_password c) else None),
        cf_key = (if sk_private_key c \<noteq> '''' then Some (sk_private_key c) else None)\<rparr>)"

definition host_key_accepted :: "endpoint_route \<Rightarrow> string \<Rightarrow> bool" where
  "host_key_accepted route fingerprint \<longleftrightarrow>
     rt_ssh_host_key_fingerprint route = '''' \<or> fingerprint = rt_ssh_host_key_fingerprint route"

definition normalize_terminal_size :: "int \<Rightarrow> int \<Rightarrow> int \<times> int" where
  "normalize_terminal_size columns rows =
     (if columns < 20 \<or> columns > 500 then 120 else columns, if rows < 5 \<or> rows > 300 then 30 else rows)"

section \<open>The page and the WebSocket\<close>

text \<open>\<open>resolveAuthorizedAccessWithURLGrant\<close>: a grant in the query is exchanged for the cookie and the
browser is redirected to the address without it.\<close>

datatype access_check =
    Denied nat
  | Redirected set_cookie "(string \<times> string list) list"
  | Allowed access_session endpoint_route

definition query_get :: "http_request \<Rightarrow> string \<Rightarrow> string" where
  "query_get rq name = (case map_of (rq_query rq) name of Some (v # _) \<Rightarrow> v | _ \<Rightarrow> '''')"

definition resolve_with_url_grant ::
  "gateway_env \<Rightarrow> readings \<Rightarrow> http_request \<Rightarrow> string \<Rightarrow> db \<Rightarrow> db \<times> access_check" where
  "resolve_with_url_grant env rd rq cookie_path db = (let grant = trim_space (query_get rq ''grant'') in
     if valid_access_token grant then
       (case exchange_access_grant (rd_store rd) (rd_resolve rd) (ge_hash env (rq_token rq)) (ge_hash env grant)
              (rd_gateway rd - ge_idle_ttl env) db of
         (db, Inl _) \<Rightarrow> (db, Denied 410)
       | (db, Inr (session, _)) \<Rightarrow>
           (db, Redirected (grant_cookie rq rd grant cookie_path ''Strict'' (acc_expires_at session))
             (AList.delete ''grant'' (rq_query rq))))
     else case resolve_authorized_access env rd rq db of
         (db, Inl status) \<Rightarrow> (db, Denied status)
       | (db, Inr (session, route)) \<Rightarrow> (db, Allowed session route))"

text \<open>What the browser and the server do: whether the upgrade succeeds, the first message, whether the
tunnel reaches the host, its key, and which of the steps of SSH succeed.\<close>

record ssh_world =
  sw_accept :: bool
  sw_auth :: "ssh_auth_message option"
  sw_dial :: bool
  sw_fingerprint :: string
  sw_authenticates :: "ssh_config \<Rightarrow> bool"
  sw_session :: bool
  sw_pty :: bool
  sw_shell :: bool
  sw_ready_sent :: bool

record terminal =
  tm_session_id :: string
  tm_connection_id :: "64 word"
  tm_target :: string
  tm_socks :: socks_route
  tm_config :: ssh_config
  tm_columns :: int
  tm_rows :: int
  tm_deadline :: instant

datatype ssh_reply =
    Ssh_refused nat
  | Ssh_redirected set_cookie "(string \<times> string list) list"
  | Terminal_page bool
  | Ssh_dropped
  | Ssh_revoked
  | Ssh_error string
  | is_ready: Ssh_ready terminal

record ssh_state =
  ss_db :: db
  ss_registry :: ssh_registry

definition cookie_path_of :: "http_request \<Rightarrow> string" where
  "cookie_path_of rq = ''/access/ssh/'' @ rq_token rq"

definition serve_terminal_page :: "ssh_env \<Rightarrow> readings \<Rightarrow> http_request \<Rightarrow> ssh_state \<Rightarrow> ssh_state \<times> ssh_reply" where
  "serve_terminal_page env rd rq st =
     (if \<not> valid_access_token (rq_token rq) then (st, Ssh_refused 404)
      else case resolve_with_url_grant (se_gateway env) rd rq (cookie_path_of rq) (ss_db st) of
        (db, Denied status) \<Rightarrow> (st\<lparr>ss_db := db\<rparr>, Ssh_refused status)
      | (db, Redirected cookie query) \<Rightarrow> (st\<lparr>ss_db := db\<rparr>, Ssh_redirected cookie query)
      | (db, Allowed session route) \<Rightarrow>
          (st\<lparr>ss_db := db\<rparr>,
           if acc_source_ip session \<noteq> '''' \<and> acc_source_ip session \<noteq> direct_source_ip rq then Ssh_refused 403
           else Terminal_page (rt_credential_ref route \<noteq> '''')))"

text \<open>The steps after the registration; each failure writes the code of an error message.\<close>

definition open_terminal :: "ssh_env \<Rightarrow> access_session \<Rightarrow> endpoint_route \<Rightarrow> ssh_world \<Rightarrow> 64 word \<Rightarrow> db \<Rightarrow> ssh_reply" where
  "open_terminal env session route world conn_id db =
     (case sw_auth world of None \<Rightarrow> Ssh_error ''invalid_auth_message''
      | Some auth \<Rightarrow>
     if sa_type auth \<noteq> ''auth'' then Ssh_error ''invalid_auth_message''
     else case resolve_credential env route auth db of None \<Rightarrow> Ssh_error ''credential_rejected''
      | Some credential \<Rightarrow>
     case ge_socks_route (se_gateway env) (rt_node_id route) (rt_client_id route) of None \<Rightarrow> Ssh_error ''route_unavailable''
      | Some socks \<Rightarrow>
     if \<not> sw_dial world then Ssh_error ''target_unreachable''
     else case ssh_client_config env credential of None \<Rightarrow> Ssh_error ''credential_rejected''
      | Some config \<Rightarrow>
     if \<not> host_key_accepted route (sw_fingerprint world) \<or> \<not> sw_authenticates world config
     then Ssh_error ''ssh_handshake_failed''
     else if \<not> sw_session world then Ssh_error ''session_failed''
     else if \<not> sw_pty world then Ssh_error ''pty_failed''
     else if \<not> sw_shell world then Ssh_error ''shell_failed''
     else if \<not> sw_ready_sent world then Ssh_dropped
     else case normalize_terminal_size (sa_columns auth) (sa_rows auth) of (columns, rows) \<Rightarrow>
       Ssh_ready \<lparr>tm_session_id = acc_id session, tm_connection_id = conn_id,
         tm_target = join_host_port (rt_host route) (itoa (rt_target_port route)), tm_socks = socks,
         tm_config = config, tm_columns = columns, tm_rows = rows, tm_deadline = acc_expires_at session\<rparr>)"

text \<open>\<open>cancel\<close> names the context of this connection. The deferred \<open>unregister\<close> runs when the handler
returns, so a ready terminal is still registered.\<close>

definition attach_terminal ::
  "ssh_env \<Rightarrow> readings \<Rightarrow> ssh_world \<Rightarrow> cancel_func \<Rightarrow> access_session \<Rightarrow> endpoint_route \<Rightarrow> ssh_state \<Rightarrow> ssh_state \<times> ssh_reply" where
  "attach_terminal env rd world cancel session route st =
     (case ssh_register (rd_pool rd) (acc_id session) cancel (ss_registry st) of
        (g, None) \<Rightarrow> (st\<lparr>ss_registry := g\<rparr>, Ssh_revoked)
      | (g, Some conn_id) \<Rightarrow> (let reply = open_terminal env session route world conn_id (ss_db st) in
          (st\<lparr>ss_registry := if is_ready reply then g else ssh_unregister (acc_id session) conn_id g\<rparr>, reply)))"

definition serve_web_socket ::
  "ssh_env \<Rightarrow> readings \<Rightarrow> http_request \<Rightarrow> ssh_world \<Rightarrow> cancel_func \<Rightarrow> ssh_state \<Rightarrow> ssh_state \<times> ssh_reply" where
  "serve_web_socket env rd rq world cancel st =
     (if \<not> valid_access_token (rq_token rq) then (st, Ssh_refused 404)
      else case resolve_with_url_grant (se_gateway env) rd rq (cookie_path_of rq) (ss_db st) of
        (db, Denied status) \<Rightarrow> (st\<lparr>ss_db := db\<rparr>, Ssh_refused status)
      | (db, Redirected cookie query) \<Rightarrow> (st\<lparr>ss_db := db\<rparr>, Ssh_redirected cookie query)
      | (db, Allowed session route) \<Rightarrow> (let st = st\<lparr>ss_db := db\<rparr> in
          if acc_source_ip session \<noteq> '''' \<and> acc_source_ip session \<noteq> direct_source_ip rq then (st, Ssh_refused 403)
          else if acc_mode session \<noteq> ''ssh'' \<or> rt_access_type route \<noteq> ''web_ssh'' \<or> rt_protocol route \<noteq> ''ssh''
          then (st, Ssh_refused 403)
          else if \<not> sw_accept world then (st, Ssh_dropped)
          else attach_terminal env rd world cancel session route st))"

definition ssh_serve ::
  "ssh_env \<Rightarrow> readings \<Rightarrow> http_request \<Rightarrow> ssh_world \<Rightarrow> cancel_func \<Rightarrow> ssh_state \<Rightarrow> ssh_state \<times> ssh_reply" where
  "ssh_serve env rd rq world cancel st =
     (if has_suffix (rq_url_path rq) ''/ws'' then serve_web_socket env rd rq world cancel st
      else serve_terminal_page env rd rq st)"

section \<open>The terminal\<close>

text \<open>What happens to a ready terminal, in order, and what the gateway does about it.\<close>

datatype terminal_event =
    From_browser ssh_client_message
  | From_shell string
  | Shell_ended
  | Browser_gone
  | Context_done

datatype terminal_action =
    To_shell string
  | Window_change int int
  | To_browser string string
  | Closed_by_policy

fun terminal_run :: "terminal_event list \<Rightarrow> terminal_action list" where
  "terminal_run [] = []"
| "terminal_run (From_browser m # es) =
     (if sm_type m = ''input'' then [To_shell (sm_data m)]
      else if sm_type m = ''resize'' then
        (case normalize_terminal_size (sm_columns m) (sm_rows m) of (columns, rows) \<Rightarrow> [Window_change rows columns])
      else []) @ terminal_run es"
| "terminal_run (From_shell chunk # es) = To_browser ''output'' chunk # terminal_run es"
| "terminal_run (Shell_ended # es) = [To_browser ''closed'' '''']"
| "terminal_run (Browser_gone # es) = []"
| "terminal_run (Context_done # es) = [Closed_by_policy]"

text \<open>The watch over idleness: \<open>deadline\<close> is when the timer fires and \<open>last\<close> is when the activity was last
written to the store. It ends with the time at which it cancelled the terminal, if it did.\<close>

fun monitor_ssh ::
  "ssh_env \<Rightarrow> string \<Rightarrow> instant \<Rightarrow> instant \<Rightarrow> instant list \<Rightarrow> db \<Rightarrow> db \<times> instant option" where
  "monitor_ssh env sid deadline lastp [] db = (db, None)"
| "monitor_ssh env sid deadline lastp (now # nows) db =
     (if now > deadline then (db, Some deadline)
      else let deadline = now + ge_idle_ttl (se_gateway env) in
        if now - lastp < se_touch_ttl env then monitor_ssh env sid deadline lastp nows db
        else case touch_access_session sid now (now - ge_idle_ttl (se_gateway env)) db of
          (db, Inl e) \<Rightarrow> (db, Some now)
        | (db, Inr _) \<Rightarrow> monitor_ssh env sid deadline now nows db)"

definition start_monitor :: "ssh_env \<Rightarrow> string \<Rightarrow> instant \<Rightarrow> instant list \<Rightarrow> db \<Rightarrow> db \<times> instant option" where
  "start_monitor env sid now nows db = monitor_ssh env sid (now + ge_idle_ttl (se_gateway env)) now nows db"

section \<open>Properties\<close>

lemma normalize_terminal_range:
  "normalize_terminal_size c r = (c', r') \<Longrightarrow> c' \<in> {20..500} \<and> r' \<in> {5..300}"
  by (auto simp: normalize_terminal_size_def split: if_splits)

lemma open_terminal_ready:
  assumes "open_terminal env session route world i db = Ssh_ready t"
  shows "tm_session_id t = acc_id session \<and> tm_connection_id t = i
    \<and> tm_target t = join_host_port (rt_host route) (itoa (rt_target_port route))
    \<and> ge_socks_route (se_gateway env) (rt_node_id route) (rt_client_id route) = Some (tm_socks t)
    \<and> host_key_accepted route (sw_fingerprint world) \<and> sw_authenticates world (tm_config t)
    \<and> tm_deadline t = acc_expires_at session
    \<and> tm_columns t \<in> {20..500} \<and> tm_rows t \<in> {5..300}"
  using assms
  by (auto simp: open_terminal_def split: option.splits if_splits prod.splits dest!: normalize_terminal_range)

lemma resolve_with_url_grant_Allowed:
  "resolve_with_url_grant env rd rq path db = (db', Allowed session route) \<Longrightarrow>
     resolve_authorized_access env rd rq db = (db', Inr (session, route))"
  by (auto simp: resolve_with_url_grant_def Let_def split: if_splits prod.splits sum.splits)

lemma attach_terminal_ready:
  assumes "attach_terminal env rd world cancel session route st = (st', Ssh_ready t)"
  shows "ssh_register (rd_pool rd) (acc_id session) cancel (ss_registry st) = (ss_registry st', Some (tm_connection_id t))
    \<and> open_terminal env session route world (tm_connection_id t) (ss_db st) = Ssh_ready t"
proof -
  obtain g x where g: "ssh_register (rd_pool rd) (acc_id session) cancel (ss_registry st) = (g, x)" by fastforce
  obtain i where i: "x = Some i" using assms by (cases x) (auto simp: attach_terminal_def g)
  then have r: "open_terminal env session route world i (ss_db st) = Ssh_ready t" "ss_registry st' = g"
    using assms by (auto simp: attach_terminal_def g Let_def)
  then have "tm_connection_id t = i" using open_terminal_ready by blast
  then show ?thesis using g i r by simp
qed

lemma serve_web_socket_ready:
  assumes "serve_web_socket env rd rq world cancel st = (st', Ssh_ready t)"
  shows "\<exists>db session route. resolve_authorized_access (se_gateway env) rd rq (ss_db st) = (db, Inr (session, route))
    \<and> acc_source_ip session \<in> {'''', direct_source_ip rq} \<and> acc_mode session = ''ssh''
    \<and> rt_access_type route = ''web_ssh'' \<and> rt_protocol route = ''ssh''
    \<and> ssh_register (rd_pool rd) (acc_id session) cancel (ss_registry st) = (ss_registry st', Some (tm_connection_id t))
    \<and> open_terminal env session route world (tm_connection_id t) db = Ssh_ready t"
proof -
  obtain db session route where r: "resolve_with_url_grant (se_gateway env) rd rq (cookie_path_of rq) (ss_db st) = (db, Allowed session route)"
    using assms by (auto simp: serve_web_socket_def split: if_splits prod.splits access_check.splits)
  have ok: "\<not> (acc_source_ip session \<noteq> '''' \<and> acc_source_ip session \<noteq> direct_source_ip rq)"
    "\<not> (acc_mode session \<noteq> ''ssh'' \<or> rt_access_type route \<noteq> ''web_ssh'' \<or> rt_protocol route \<noteq> ''ssh'')"
    and "attach_terminal env rd world cancel session route (st\<lparr>ss_db := db\<rparr>) = (st', Ssh_ready t)"
    using assms by (simp_all add: serve_web_socket_def r Let_def split: if_splits)
  moreover from attach_terminal_ready[OF this(3)] have
    "ssh_register (rd_pool rd) (acc_id session) cancel (ss_registry st) = (ss_registry st', Some (tm_connection_id t))"
    "open_terminal env session route world (tm_connection_id t) db = Ssh_ready t" by simp_all
  moreover have "acc_source_ip session \<in> {'''', direct_source_ip rq}" "acc_mode session = ''ssh''"
    "rt_access_type route = ''web_ssh''" "rt_protocol route = ''ssh''" using ok by auto
  ultimately
  show ?thesis using resolve_with_url_grant_Allowed[OF r] by blast
qed

lemma ssh_register_live:
  "ssh_register now s cancel g = (g', Some i) \<Longrightarrow> keep_tombstone now (sr_revoked g s) = None \<and> (i, cancel) \<in> ssh_live s g'"
  by (auto simp: ssh_register_def ssh_prune_def ssh_live_def Let_def pair_in_update split: if_splits)

text \<open>C33. A terminal is authorized: it is ready only for a live, exchanged SSH session whose token and grant
the browser presents, from the address the session was opened from, that is not revoked; it is connected to
the registered host and port through the node's tunnel, with the pinned host key when there is one, it
ends with the session at the latest, and it is registered, so that revoking the session cancels it.\<close>

theorem ssh_terminal_authorized:
  assumes "serve_web_socket env rd rq world cancel st = (st', Ssh_ready t)"
  shows "\<exists>grant s e d pr. cookie_named (rq_headers rq) access_grant_cookie = Some grant
    \<and> s \<in> set (t_access_sessions (ss_db st)) \<and> acs_token_hash s = ge_hash (se_gateway env) (rq_token rq)
    \<and> acs_grant_hash s = ge_hash (se_gateway env) grant \<and> acs_grant_exchanged_at s \<noteq> None
    \<and> session_live (rd_store rd) (rd_gateway rd - ge_idle_ttl (se_gateway env)) (ss_db st) s
    \<and> acs_mode s = ''ssh'' \<and> acs_source_ip s \<in> {'''', direct_source_ip rq}
    \<and> session_join s (ss_db st) = Some (e, d, pr) \<and> e_access_type e = ''web_ssh'' \<and> e_protocol e = ''ssh''
    \<and> tm_target t = join_host_port (d_host d) (itoa (e_target_port e))
    \<and> Some (tm_socks t) = ge_socks_route (se_gateway env) (p_node_id pr) (rt_client_id (route_of e d pr))
    \<and> e_ssh_host_key_fingerprint e \<in> {'''', sw_fingerprint world} \<and> tm_deadline t = acs_expires_at s
    \<and> (tm_columns t, tm_rows t) \<in> {20..500} \<times> {5..300}
    \<and> keep_tombstone (rd_pool rd) (sr_revoked (ss_registry st) (acs_id s)) = None
    \<and> (tm_connection_id t, cancel) \<in> ssh_live (acs_id s) (ss_registry st')"
proof -
  from serve_web_socket_ready[OF assms] obtain db session route where
    w: "resolve_authorized_access (se_gateway env) rd rq (ss_db st) = (db, Inr (session, route))"
      "acc_source_ip session \<in> {'''', direct_source_ip rq}" "acc_mode session = ''ssh''"
      "rt_access_type route = ''web_ssh''" "rt_protocol route = ''ssh''"
      "ssh_register (rd_pool rd) (acc_id session) cancel (ss_registry st) = (ss_registry st', Some (tm_connection_id t))"
      "open_terminal env session route world (tm_connection_id t) db = Ssh_ready t" by blast
  from resolve_authorized_access_Inr[OF w(1)] obtain grant s e d pr where
    r: "cookie_named (rq_headers rq) access_grant_cookie = Some grant" "s \<in> set (t_access_sessions (ss_db st))"
      "resolvable (rd_store rd) (ge_hash (se_gateway env) (rq_token rq)) (ge_hash (se_gateway env) grant)
        (rd_gateway rd - ge_idle_ttl (se_gateway env)) (ss_db st) s"
      "session_join s (ss_db st) = Some (e, d, pr)" "session = view_session s e d\<lparr>acc_last_seen_at := rd_store rd\<rparr>"
      "route = route_of e d pr" by blast
  have reg: "keep_tombstone (rd_pool rd) (sr_revoked (ss_registry st) (acc_id session)) = None"
    "(tm_connection_id t, cancel) \<in> ssh_live (acc_id session) (ss_registry st')"
    using ssh_register_live[OF w(6)] by auto
  show ?thesis
    using w r open_terminal_ready[OF w(7)] reg
    by (intro exI[of _ grant] exI[of _ s] exI[of _ e] exI[of _ d] exI[of _ pr])
       (auto simp: resolvable_def view_session_def route_of_def host_key_accepted_def)
qed

definition demo_ssh_input :: create_access_input where
  "demo_ssh_input = \<lparr>ca_user_id = Some ''u2'', ca_auth_session_id = ''s2'', ca_project_id = ''p1'', ca_endpoint_id = ''e1'',
     ca_token_hash = ''k9'', ca_route_label = ''ssh'', ca_grant_hash = ''g9'', ca_mode = ''ssh'',
     ca_source_ip = ''192.0.2.1'', ca_expires_at = minutes 60\<rparr>"

definition demo_ssh_state :: ssh_state where
  "demo_ssh_state = \<lparr>ss_db = fst (exchange_access_grant 1 2 ''k9'' ''g9'' (- 1)
     (fst (create_access_session ''a9'' ''l9'' 0 demo_ssh_input demo_audit demo_db))), ss_registry = ssh_started\<rparr>"

definition demo_ssh_env :: ssh_env where
  "demo_ssh_env = \<lparr>se_gateway = demo_gateway\<lparr>ge_hash := (\<lambda>x. if x = replicate 40 CHR ''t'' then ''k9'' else ''g9'')\<rparr>,
     se_vault = demo_env, se_unmarshal = (\<lambda>_ c. Some c), se_parse_key = (\<lambda>_ _. True), se_touch_ttl = 30\<rparr>"

definition demo_ssh_request :: http_request where
  "demo_ssh_request = (demo_request (''dmp_access_grant='' @ demo_grant))\<lparr>rq_token := replicate 40 CHR ''t'', rq_url_path := ''/access/ssh/t/ws''\<rparr>"

definition demo_world :: ssh_world where
  "demo_world = \<lparr>sw_accept = True, sw_auth = Some \<lparr>sa_type = ''auth'', sa_method = '''', sa_username = ''root'', sa_password = ''pw'',
       sa_columns = 80, sa_rows = 1000\<rparr>, sw_dial = True, sw_fingerprint = ''SHA256:x'', sw_authenticates = (\<lambda>_. True),
     sw_session = True, sw_pty = True, sw_shell = True, sw_ready_sent = True\<rparr>"

definition demo_terminal :: "ssh_state \<times> ssh_reply" where
  "demo_terminal = serve_web_socket demo_ssh_env demo_readings demo_ssh_request demo_world 1 demo_ssh_state"

theorem ssh_terminal_authorized_witness:
  "\<exists>st t s. demo_terminal = (st, Ssh_ready t) \<and> tm_target t = ''10.0.0.5:22'' \<and> tm_rows t = 30
    \<and> s \<in> set (t_access_sessions (ss_db demo_ssh_state)) \<and> acs_mode s = ''ssh''
    \<and> (tm_connection_id t, 1) \<in> ssh_live (acs_id s) (ss_registry st)"
proof -
  have "case snd demo_terminal of Ssh_ready t \<Rightarrow> tm_target t = ''10.0.0.5:22'' \<and> tm_rows t = 30 | _ \<Rightarrow> False"
    by code_simp
  then obtain t where t: "snd demo_terminal = Ssh_ready t" "tm_target t = ''10.0.0.5:22''" "tm_rows t = 30"
    by (auto split: ssh_reply.splits)
  then obtain st where r: "demo_terminal = (st, Ssh_ready t)" by (metis prod.collapse)
  from ssh_terminal_authorized[OF r(1)[unfolded demo_terminal_def]] show ?thesis using r t by blast
qed

end
