(* ===== verification/Netip.thy ===== *)
theory Netip
  imports Texts Digits
begin

text \<open>
  IP addresses and prefixes as the program reads and writes them with Go's \<open>net/netip\<close>:
  \<open>ParseAddr\<close>, \<open>ParsePrefix\<close>, \<open>Prefix.Masked\<close>, \<open>Addr.Next\<close> and \<open>Addr.String\<close> for IPv4. An IPv4
  address is a \<open>32 word\<close>, an IPv6 address its sixteen bytes with its zone.
\<close>

datatype addr = V4 "32 word" | V6 "8 word list" string

fun is_4 :: "addr \<Rightarrow> bool" where
  "is_4 (V4 a) = True"
| "is_4 (V6 b z) = False"

section \<open>IPv4\<close>

definition parse_octet :: "string \<Rightarrow> nat option" where
  "parse_octet s = (if s = [] \<or> \<not> list_all is_digit s \<or> hd s = CHR ''0'' \<and> length s > 1 \<or> text_value s > 255
     then None else Some (text_value s))"

fun all_some :: "'a option list \<Rightarrow> 'a list option" where
  "all_some [] = Some []"
| "all_some (x # xs) = (case (x, all_some xs) of (Some a, Some as) \<Rightarrow> Some (a # as) | _ \<Rightarrow> None)"

definition parse_octets :: "string \<Rightarrow> nat list option" where
  "parse_octets s = (case all_some (map parse_octet (split_on CHR ''.'' s)) of
     None \<Rightarrow> None | Some ds \<Rightarrow> if length ds = 4 then Some ds else None)"

definition parse_v4 :: "string \<Rightarrow> 32 word option" where
  "parse_v4 s = map_option (\<lambda>ds. of_nat (digits_value 256 ds)) (parse_octets s)"

definition v4_text :: "32 word \<Rightarrow> string" where
  "v4_text a = join_with CHR ''.'' (map nat_text (digits 256 4 (unat a)))"

lemma all_some_map: "(\<And>x. x \<in> set xs \<Longrightarrow> f (g x) = Some x) \<Longrightarrow> all_some (map f (map g xs)) = Some xs"
  by (induction xs) auto

lemma nat_text_small:
  assumes "d < 256"
  shows "parse_octet (nat_text d) = Some d"
proof -
  have lead: "hd (nat_text d) \<noteq> CHR ''0'' \<or> length (nat_text d) = 1"
  proof (cases "d < 10")
    case True
    then show ?thesis by (subst (2) nat_text.simps) simp
  next
    case False
    have small: "hd (nat_text n) \<noteq> CHR ''0''" if "0 < n" for n
      using that
    proof (induction n rule: nat_text.induct)
      case (1 n)
      show ?case
      proof (cases "n < 10")
        case True
        then have "digit_of (digit_char n) = n" by (rule digit_char_props(2))
        moreover have "digit_of CHR ''0'' = 0" by code_simp
        ultimately have "digit_char n \<noteq> CHR ''0''" using 1 by auto
        then show ?thesis using True by (subst nat_text.simps) simp
      next
        case False
        then have "hd (nat_text (n div 10)) \<noteq> CHR ''0''" using 1 by simp
        then show ?thesis using False nat_text_digits[of "n div 10"] by (subst nat_text.simps) simp
      qed
    qed
    then show ?thesis using False by simp
  qed
  then show ?thesis
    using assms nat_text_digits[of d] by (auto simp: parse_octet_def text_value_nat_text)
qed

lemma nat_text_no_dot: "CHR ''.'' \<notin> set (nat_text n)"
  using nat_text_digits[of n] by (auto simp: list_all_iff is_digit_def less_eq_char_def)

lemma parse_v4_text: "parse_v4 (v4_text a) = Some a"
proof -
  let ?ds = "digits 256 4 (unat a)"
  have small: "\<And>d. d \<in> set ?ds \<Longrightarrow> d < 256" by (rule digits_less) auto
  have ne: "map nat_text ?ds \<noteq> []" using length_digits[of 256 4 "unat a"] by (cases ?ds) auto
  have "split_on CHR ''.'' (v4_text a) = map nat_text ?ds"
    unfolding v4_text_def by (rule split_on_join[OF ne]) (auto simp: nat_text_no_dot)
  moreover have "all_some (map parse_octet (map nat_text ?ds)) = Some ?ds"
    by (rule all_some_map) (simp add: nat_text_small small)
  ultimately have "parse_octets (v4_text a) = Some ?ds" by (simp add: parse_octets_def)
  moreover have "unat a < 256 ^ 4" using unsigned_less[of a, where ?'a = nat] by simp
  ultimately show ?thesis by (simp add: parse_v4_def value_digits_small)
qed

section \<open>IPv6\<close>

definition hex_value :: "char \<Rightarrow> nat option" where
  "hex_value c = (if is_digit c then Some (of_char c - 48)
     else if CHR ''a'' \<le> c \<and> c \<le> CHR ''f'' then Some (of_char c - 87)
     else if CHR ''A'' \<le> c \<and> c \<le> CHR ''F'' then Some (of_char c - 55) else None)"

text \<open>A group: its value and the rest of the string; at least one and at most four hex digits.\<close>

definition take_group :: "string \<Rightarrow> (nat \<times> string) option" where
  "take_group s = (let hs = takeWhile (\<lambda>c. hex_value c \<noteq> None) s in
     if hs = [] \<or> length hs > 4 then None
     else Some (foldl (\<lambda>n c. n * 16 + the (hex_value c)) 0 hs, drop (length hs) s))"

definition group_octets :: "nat \<Rightarrow> 8 word list" where
  "group_octets n = [of_nat (n div 256), of_nat (n mod 256)]"

text \<open>The loop over at most \<open>k\<close> more groups: the bytes so far, the place of the ellipsis among them, and
what is left of the string.\<close>

fun v6_groups :: "nat \<Rightarrow> string \<Rightarrow> 8 word list \<Rightarrow> nat option \<Rightarrow> (8 word list \<times> nat option \<times> string) option" where
  "v6_groups 0 s ip ell = Some (ip, ell, s)"
| "v6_groups (Suc k) s ip ell = (case take_group s of None \<Rightarrow> None
   | Some (n, r) \<Rightarrow>
     if r \<noteq> [] \<and> hd r = CHR ''.'' then
       if ell = None \<and> length ip \<noteq> 12 \<or> length ip + 4 > 16 then None
       else map_option (\<lambda>ds. (ip @ map of_nat ds, ell, [])) (parse_octets s)
     else let ip = ip @ group_octets n in
       case r of [] \<Rightarrow> Some (ip, ell, [])
       | c # r \<Rightarrow> if c \<noteq> CHR '':'' \<or> r = [] then None
         else if hd r = CHR '':'' then
           if ell \<noteq> None then None
           else if tl r = [] then Some (ip, Some (length ip), [])
           else v6_groups k (tl r) ip (Some (length ip))
         else v6_groups k r ip ell)"

definition parse_v6 :: "string \<Rightarrow> addr option" where
  "parse_v6 text = (let
     s = takeWhile (\<lambda>c. c \<noteq> CHR ''%'') text; zone = drop (length s + 1) text;
     lead = has_prefix s ''::'' in
     if CHR ''%'' \<in> set text \<and> zone = [] then None
     else if s = ''::'' then Some (V6 (replicate 16 0) zone)
     else case v6_groups 8 (if lead then drop 2 s else s) [] (if lead then Some 0 else None) of
       None \<Rightarrow> None
     | Some (ip, ell, rest) \<Rightarrow>
         if rest \<noteq> [] then None
         else if length ip < 16 then
           (case ell of None \<Rightarrow> None
            | Some p \<Rightarrow> Some (V6 (take p ip @ replicate (16 - length ip) 0 @ drop p ip) zone))
         else if ell \<noteq> None then None else Some (V6 ip zone))"

text \<open>\<open>ParseAddr\<close> looks for the first of a dot, a colon and a percent sign.\<close>

definition parse_addr :: "string \<Rightarrow> addr option" where
  "parse_addr s = (case dropWhile (\<lambda>c. c \<notin> {CHR ''.'', CHR '':'', CHR ''%''}) s of
     [] \<Rightarrow> None
   | c # _ \<Rightarrow> if c = CHR ''.'' then map_option V4 (parse_v4 s)
       else if c = CHR '':'' then parse_v6 s else None)"

section \<open>Prefixes\<close>

definition split_slash :: "string \<Rightarrow> (string \<times> string) option" where
  "split_slash s = (if CHR ''/'' \<in> set s
     then Some (rev (tl (dropWhile (\<lambda>c. c \<noteq> CHR ''/'') (rev s))), rev (takeWhile (\<lambda>c. c \<noteq> CHR ''/'') (rev s)))
     else None)"

definition parse_prefix :: "string \<Rightarrow> (addr \<times> nat) option" where
  "parse_prefix s = (case split_slash s of None \<Rightarrow> None
   | Some (host, bits) \<Rightarrow> (case parse_addr host of None \<Rightarrow> None
     | Some a \<Rightarrow> if (case a of V6 b z \<Rightarrow> z \<noteq> '''' | V4 x \<Rightarrow> False) then None
       else if length bits > 1 \<and> \<not> (CHR ''1'' \<le> hd bits \<and> hd bits \<le> CHR ''9'') then None
       else (case atoi bits of None \<Rightarrow> None
         | Some n \<Rightarrow> if n < 0 \<or> n > (if is_4 a then 32 else 128) then None else Some (a, nat n))))"

definition mask_v4 :: "nat \<Rightarrow> 32 word \<Rightarrow> 32 word" where
  "mask_v4 bits a = push_bit (32 - bits) (drop_bit (32 - bits) a)"

definition in_prefix :: "32 word \<Rightarrow> nat \<Rightarrow> 32 word \<Rightarrow> bool" where
  "in_prefix base bits a \<longleftrightarrow> drop_bit (32 - bits) a = drop_bit (32 - bits) base"

lemma parse_prefix_bits: "parse_prefix s = Some (V4 a, bits) \<Longrightarrow> bits \<le> 32"
  by (auto simp: parse_prefix_def split: option.splits if_splits)

lemma parse_addr_v4_text: "parse_addr (v4_text a) = Some (V4 a)"
proof -
  let ?ds = "digits 256 4 (unat a)"
  obtain d ds where ds: "?ds = d # ds" and "ds \<noteq> []"
    using length_digits[of 256 4 "unat a"] by (cases ?ds; cases "tl ?ds") auto
  then obtain rest where t: "v4_text a = nat_text d @ CHR ''.'' # rest"
    by (cases ds) (auto simp: v4_text_def join_with_def)
  have "\<forall>c\<in>set (nat_text d). c \<notin> {CHR ''.'', CHR '':'', CHR ''%''}"
    using nat_text_digits[of d] by (auto simp: list_all_iff is_digit_def less_eq_char_def)
  then have "dropWhile (\<lambda>c. c \<notin> {CHR ''.'', CHR '':'', CHR ''%''}) (v4_text a) = CHR ''.'' # rest"
    unfolding t by (subst dropWhile_append2) auto
  then show ?thesis unfolding parse_addr_def by (simp only: list.case if_True parse_v4_text option.map simp_thms)
qed

section \<open>The hosts of a prefix\<close>

text \<open>The addresses of a prefix, counted up from its first.\<close>

definition prefix_hosts :: "32 word \<Rightarrow> nat \<Rightarrow> 32 word list" where
  "prefix_hosts base bits = map (\<lambda>i. mask_v4 bits base + of_nat i) [0..<2 ^ (32 - bits)]"

lemma unat_less_32: "unat (a :: 32 word) < 2 ^ 32"
  by (rule order_less_le_trans[OF unsigned_less]) simp

lemma unat_drop_32: "unat (drop_bit k (a :: 32 word)) = unat a div 2 ^ k"
  unfolding unsigned_drop_bit_eq using unat_less_32[of a] by (simp add: drop_bit_eq_div take_bit_eq_mod)

lemma unat_mask: "unat (mask_v4 bits a) = unat a div 2 ^ (32 - bits) * 2 ^ (32 - bits)"
proof -
  let ?n = "2 ^ (32 - bits) :: nat"
  have "unat a div ?n * ?n \<le> unat a" by (rule div_times_less_eq_dividend)
  then have "unat a div ?n * ?n < 2 ^ 32" using unat_less_32[of a] by linarith
  then show ?thesis
    unfolding mask_v4_def unsigned_push_bit_eq unat_drop_32 by (simp add: push_bit_eq_mult take_bit_eq_mod)
qed

lemma unat_host:
  assumes "bits \<le> 32" "i < 2 ^ (32 - bits)"
  shows "unat (mask_v4 bits base + of_nat i) = unat base div 2 ^ (32 - bits) * 2 ^ (32 - bits) + i"
proof -
  let ?n = "2 ^ (32 - bits) :: nat" and ?q = "unat base div 2 ^ (32 - bits)"
  have "(2 :: nat) ^ bits * ?n = 2 ^ 32" using assms(1) by (simp flip: power_add)
  then have "?q < 2 ^ bits" using unat_less_32[of base] by (intro less_mult_imp_div_less) simp
  then have "?q * ?n + ?n \<le> 2 ^ bits * ?n" by (metis Suc_leI mult.commute mult_Suc_right mult_le_mono2 add.commute)
  then have bound: "?q * ?n + i < 2 ^ 32" using assms(2) \<open>2 ^ bits * ?n = 2 ^ 32\<close> by linarith
  have "unat (of_nat i :: 32 word) = i" using bound by (simp add: unat_of_nat)
  then show ?thesis using bound by (simp add: unat_word_ariths(1) unat_mask)
qed

text \<open>They are the addresses that agree with the base in the bits of the prefix, each once.\<close>

lemma prefix_hosts_exact:
  assumes "bits \<le> 32"
  shows "distinct (prefix_hosts base bits)" and "length (prefix_hosts base bits) = 2 ^ (32 - bits)"
    and "a \<in> set (prefix_hosts base bits) \<longleftrightarrow> in_prefix base bits a"
proof -
  let ?n = "2 ^ (32 - bits) :: nat"
  have "inj_on (\<lambda>i. mask_v4 bits base + of_nat i) {..<?n}"
  proof (rule inj_onI)
    fix i j assume ij: "i \<in> {..<?n}" "j \<in> {..<?n}" "mask_v4 bits base + of_nat i = mask_v4 bits base + of_nat j"
    then have "unat (mask_v4 bits base + of_nat i) = unat (mask_v4 bits base + of_nat j)" by simp
    then show "i = j" using ij(1,2) unat_host[OF assms] by simp
  qed
  then show "distinct (prefix_hosts base bits)"
    by (simp add: prefix_hosts_def distinct_map atLeast0LessThan)
  show "length (prefix_hosts base bits) = 2 ^ (32 - bits)" by (simp add: prefix_hosts_def)
  have in_pre: "in_prefix base bits a \<longleftrightarrow> unat a div ?n = unat base div ?n" for a
    by (simp add: in_prefix_def word_unat_eq_iff unat_drop_32)
  show "a \<in> set (prefix_hosts base bits) \<longleftrightarrow> in_prefix base bits a"
  proof
    assume "a \<in> set (prefix_hosts base bits)"
    then obtain i where "i < ?n" "a = mask_v4 bits base + of_nat i" by (auto simp: prefix_hosts_def)
    then show "in_prefix base bits a" by (simp add: in_pre unat_host[OF assms])
  next
    assume "in_prefix base bits a"
    then have "unat a div ?n = unat base div ?n" by (simp add: in_pre)
    then have "unat a = unat base div ?n * ?n + unat a mod ?n" by (metis div_mult_mod_eq)
    moreover have m: "unat a mod ?n < ?n" by simp
    ultimately have "unat a = unat (mask_v4 bits base + of_nat (unat a mod ?n))" by (simp only: unat_host[OF assms m])
    then have "a = mask_v4 bits base + of_nat (unat a mod ?n)" by (simp only: word_unat_eq_iff)
    then show "a \<in> set (prefix_hosts base bits)" using m by (auto simp: prefix_hosts_def)
  qed
qed

end
