(* ===== verification/Socks.thy ===== *)
theory Socks
  imports Netip Http
begin

text \<open>
  The SOCKS5 client of the gateways and of the discovery: \<open>access/socks.go\<close>.

  The proxy is the list of bytes it sends. \<open>negotiate\<close> returns the bytes the client writes, and
  either an error or what is left of the proxy's bytes, which belong to the target. \<open>read_connect\<close>
  is the CONNECT request as RFC 1928 defines it for a server, the reference the request is checked
  against. \<open>dial_context\<close> adds the checks of \<open>DialContext\<close>, its deadline and its closing of the
  connection when the negotiation fails.
\<close>

type_synonym bytes = "8 word list"

definition bytes_of :: "string \<Rightarrow> bytes" where
  "bytes_of s = map (\<lambda>c. of_nat (of_char c)) s"

definition text_of :: "bytes \<Rightarrow> string" where
  "text_of bs = map (\<lambda>b. char_of (unat b)) bs"

lemma unat_of_char: "unat (of_nat (of_char c) :: 8 word) = of_char c"
  using nat_of_char_less_256[of c] by (simp add: unat_of_nat)

lemma text_of_bytes [simp]: "text_of (bytes_of s) = s"
  by (induction s) (simp_all add: text_of_def bytes_of_def unat_of_char)

lemma length_bytes_of [simp]: "length (bytes_of s) = length s"
  by (simp add: bytes_of_def)

definition read_full :: "nat \<Rightarrow> bytes \<Rightarrow> (bytes \<times> bytes) option" where
  "read_full n bs = (if length bs < n then None else Some (take n bs, drop n bs))"

lemma read_full_Some: "read_full n bs = Some (a, b) \<longleftrightarrow> bs = a @ b \<and> length a = n"
  by (auto simp: read_full_def append_eq_conv_conj)

record socks_dialer =
  sd_proxy_address :: string
  sd_username :: string
  sd_password :: string
  sd_timeout :: int

section \<open>The messages of the client\<close>

definition greeting :: "socks_dialer \<Rightarrow> bytes" where
  "greeting d = (if sd_username d \<noteq> '''' \<or> sd_password d \<noteq> '''' then [5, 1, 2] else [5, 1, 0])"

definition addr_bytes :: "32 word \<Rightarrow> bytes" where
  "addr_bytes a = map of_nat (digits 256 4 (unat a))"

text \<open>The request for an address in the form \<open>host:port\<close>.\<close>

definition connect_request :: "string \<Rightarrow> bytes option" where
  "connect_request address = (case split_host_port address of None \<Rightarrow> None
   | Some (host, port_text) \<Rightarrow> (case atoi port_text of None \<Rightarrow> None
     | Some port \<Rightarrow> if port < 1 \<or> port > 65535 then None
       else let port_bytes = [of_nat (nat port div 256), of_nat (nat port mod 256)] in
       case parse_addr host of
         Some (V4 a) \<Rightarrow> Some ([5, 1, 0, 1] @ addr_bytes a @ port_bytes)
       | Some (V6 b z) \<Rightarrow> Some ([5, 1, 0, 4] @ b @ port_bytes)
       | None \<Rightarrow> if length host = 0 \<or> length host > 255 then None
           else Some ([5, 1, 0, 3, of_nat (length host)] @ bytes_of host @ port_bytes)))"

definition auth_request :: "socks_dialer \<Rightarrow> bytes option" where
  "auth_request d = (if length (sd_username d) > 255 \<or> length (sd_password d) > 255 then None
     else Some ([1, of_nat (length (sd_username d))] @ bytes_of (sd_username d)
       @ [of_nat (length (sd_password d))] @ bytes_of (sd_password d)))"

section \<open>The negotiation\<close>

datatype socks_error = Bad_greeting | Bad_method | Bad_auth | Bad_address | Bad_reply

definition discard_socks_address :: "8 word \<Rightarrow> bytes \<Rightarrow> socks_error + bytes" where
  "discard_socks_address kind input = (let
     length_of = (if kind = 1 then Some (4, input)
       else if kind = 4 then Some (16, input)
       else if kind = 3 then map_option (\<lambda>(n, input). (unat (hd n), input)) (read_full 1 input)
       else None) in
     case length_of of None \<Rightarrow> Inl Bad_reply
     | Some (n, input) \<Rightarrow> (case read_full (n + 2) input of None \<Rightarrow> Inl Bad_reply | Some (_, rest) \<Rightarrow> Inr rest))"

definition authenticate :: "socks_dialer \<Rightarrow> bytes \<Rightarrow> bytes \<times> (socks_error + bytes)" where
  "authenticate d input = (case auth_request d of None \<Rightarrow> ([], Inl Bad_auth)
   | Some request \<Rightarrow> (request, case read_full 2 input of None \<Rightarrow> Inl Bad_auth
     | Some (r, input) \<Rightarrow> if r ! 0 \<noteq> 1 \<or> r ! 1 \<noteq> 0 then Inl Bad_auth else Inr input))"

definition request_target :: "string \<Rightarrow> bytes \<Rightarrow> bytes \<times> (socks_error + bytes)" where
  "request_target address input = (case connect_request address of None \<Rightarrow> ([], Inl Bad_address)
   | Some request \<Rightarrow> (request, case read_full 4 input of None \<Rightarrow> Inl Bad_reply
     | Some (h, input) \<Rightarrow> if h ! 0 \<noteq> 5 \<or> h ! 1 \<noteq> 0 then Inl Bad_reply
         else discard_socks_address (h ! 3) input))"

definition negotiate :: "socks_dialer \<Rightarrow> string \<Rightarrow> bytes \<Rightarrow> bytes \<times> (socks_error + bytes)" where
  "negotiate d address input = (case read_full 2 input of None \<Rightarrow> (greeting d, Inl Bad_greeting)
   | Some (r, input) \<Rightarrow>
     if r ! 0 \<noteq> 5 \<or> r ! 1 = 0xFF then (greeting d, Inl Bad_method)
     else if r ! 1 = 2 then
       (case authenticate d input of
          (sent, Inl e) \<Rightarrow> (greeting d @ sent, Inl e)
        | (sent, Inr input) \<Rightarrow> (case request_target address input of (msg, res) \<Rightarrow> (greeting d @ sent @ msg, res)))
     else if r ! 1 \<noteq> 0 then (greeting d, Inl Bad_method)
     else (case request_target address input of (msg, res) \<Rightarrow> (greeting d @ msg, res)))"

text \<open>What dialing leads to: no connection, a connection that was closed again, or one that is open with
the bytes that follow and no deadline; and the deadline of the negotiation.\<close>

datatype dialed = Not_connected | Closed_again "instant option" socks_error | Connected "instant option" bytes

definition dial_timeout :: "socks_dialer \<Rightarrow> int" where
  "dial_timeout d = (if sd_timeout d \<le> 0 then seconds 12 else sd_timeout d)"

definition dial_context ::
  "(string \<Rightarrow> bytes option) \<Rightarrow> instant \<Rightarrow> instant option \<Rightarrow> socks_dialer \<Rightarrow> string \<Rightarrow> string \<Rightarrow> bytes \<times> dialed" where
  "dial_context reach now ctx_deadline d network address =
     (if network \<notin> {''tcp'', ''tcp4'', ''tcp6''} \<or> sd_proxy_address d = '''' then ([], Not_connected)
      else case reach (sd_proxy_address d) of None \<Rightarrow> ([], Not_connected)
      | Some input \<Rightarrow> (let
          own = now + dial_timeout d;
          deadline = (case ctx_deadline of None \<Rightarrow> own | Some c \<Rightarrow> if c < own then c else own) in
          case negotiate d address input of
            (sent, Inl e) \<Rightarrow> (sent, Closed_again (Some deadline) e)
          | (sent, Inr rest) \<Rightarrow> (sent, Connected None rest)))"

section \<open>The request as a server reads it\<close>

datatype destination = To_v4 "32 word" | To_v6 bytes | To_name string

fun read_connect :: "bytes \<Rightarrow> (destination \<times> nat) option" where
  "read_connect (v # c # r # t # rest) =
     (if v \<noteq> 5 \<or> c \<noteq> 1 \<or> r \<noteq> 0 then None
      else let port = (\<lambda>p. unat (p ! 0) * 256 + unat (p ! 1)) in
      if t = 1 \<and> length rest = 6 then Some (To_v4 (of_nat (digits_value 256 (map unat (take 4 rest)))), port (drop 4 rest))
      else if t = 4 \<and> length rest = 18 then Some (To_v6 (take 16 rest), port (drop 16 rest))
      else if t = 3 \<and> rest \<noteq> [] \<and> length rest = unat (hd rest) + 3
        then Some (To_name (text_of (take (unat (hd rest)) (tl rest))), port (drop (unat (hd rest)) (tl rest)))
      else None)"
| "read_connect _ = None"

definition destination_of :: "string \<Rightarrow> destination" where
  "destination_of host = (case parse_addr host of Some (V4 a) \<Rightarrow> To_v4 a | Some (V6 b z) \<Rightarrow> To_v6 b | None \<Rightarrow> To_name host)"

text \<open>The replies a server gives: its choice of method, the outcome of the authentication, and the reply to
the request with a bound address of any kind.\<close>

definition server_reply :: "8 word \<Rightarrow> bytes \<Rightarrow> bytes" where
  "server_reply kind bound = [5, 0, 0, kind] @ (if kind = 3 then [of_nat (length bound - 2)] else []) @ bound"

section \<open>Lemmas\<close>

lemma v6_groups_length:
  "v6_groups k s ip ell = Some (ip', ell', r) \<Longrightarrow> length ip + 2 * k \<le> 16 \<Longrightarrow> length ip' \<le> 16"
proof (induction k s ip ell rule: v6_groups.induct)
  case (2 k s ip ell)
  then show ?case
    by (auto simp: Let_def group_octets_def parse_octets_def split: option.splits if_splits list.splits)
qed simp

lemma parse_v6_length: "parse_v6 s = Some (V6 b z) \<Longrightarrow> length b = 16"
  by (auto simp: parse_v6_def Let_def dest!: v6_groups_length split: if_splits option.splits)

lemma parse_addr_v6_length: "parse_addr s = Some (V6 b z) \<Longrightarrow> length b = 16"
  by (auto simp: parse_addr_def dest!: parse_v6_length split: list.splits if_splits)

lemma addr_bytes_value: "of_nat (digits_value 256 (map unat (addr_bytes a))) = a"
proof -
  have "map unat (addr_bytes a) = digits 256 4 (unat a)"
    unfolding addr_bytes_def using digits_less[of 256 _ 4 "unat a"]
    by (auto simp: unat_of_nat intro!: map_idI)
  moreover have "unat a < 256 ^ 4" using unat_less_32[of a] by simp
  ultimately show ?thesis by (simp add: value_digits_small)
qed

lemma length_addr_bytes [simp]: "length (addr_bytes a) = 4"
  by (simp add: addr_bytes_def)

lemma port_bytes_value:
  "p < 65536 \<Longrightarrow> unat (of_nat (p div 256) :: 8 word) * 256 + unat (of_nat (p mod 256) :: 8 word) = p"
  by (simp add: unat_of_nat)

lemma connect_request_read:
  assumes "connect_request address = Some bs"
  shows "\<exists>host port_text port. split_host_port address = Some (host, port_text) \<and> atoi port_text = Some port
    \<and> 1 \<le> port \<and> port \<le> 65535 \<and> read_connect bs = Some (destination_of host, nat port)"
proof -
  obtain host port_text port where h: "split_host_port address = Some (host, port_text)" "atoi port_text = Some port"
    "1 \<le> port" "port \<le> 65535"
    using assms by (auto simp: connect_request_def Let_def split: option.splits if_splits)
  let ?pb = "[of_nat (nat port div 256), of_nat (nat port mod 256)] :: bytes"
  have p: "unat (?pb ! 0) * 256 + unat (?pb ! 1) = nat port"
    using port_bytes_value[of "nat port"] h(3,4) by simp
  have "read_connect bs = Some (destination_of host, nat port)"
  proof (cases "parse_addr host")
    case None
    then have len: "0 < length host" "length host < 256"
      and bs: "bs = [5, 1, 0, 3, of_nat (length host)] @ bytes_of host @ ?pb"
      using assms h by (auto simp: connect_request_def Let_def split: if_splits)
    have u: "unat (of_nat (length host) :: 8 word) = length host" using len by (simp add: unat_of_nat)
    show ?thesis using p None unfolding bs by (simp add: u destination_of_def)
  next
    case (Some x)
    show ?thesis
    proof (cases x)
      case (V4 a)
      then have bs: "bs = [5, 1, 0, 1] @ addr_bytes a @ ?pb"
        using assms h Some by (auto simp: connect_request_def Let_def split: if_splits)
      show ?thesis using p Some V4 unfolding bs by (simp add: destination_of_def addr_bytes_value)
    next
      case (V6 b z)
      then have bs: "bs = [5, 1, 0, 4] @ b @ ?pb" and "length b = 16"
        using assms h Some parse_addr_v6_length by (auto simp: connect_request_def Let_def split: if_splits)
      then show ?thesis using p Some V6 unfolding bs by (simp add: destination_of_def)
    qed
  qed
  then show ?thesis using h by blast
qed

lemma discard_exact:
  assumes "discard_socks_address kind input = Inr rest"
  shows "\<exists>bound. input = (if kind = 3 then [of_nat (length bound - 2)] else []) @ bound @ rest
    \<and> (kind, length bound) \<in> {(1, 6), (4, 18)} \<union> {3} \<times> {2..257}"
proof -
  consider "kind = 1" | "kind = 4" | "kind = 3" "kind \<noteq> 1" "kind \<noteq> 4"
    using assms by (auto simp: discard_socks_address_def split: if_splits)
  then show ?thesis
  proof cases
    case 3
    then obtain n r bound where r: "read_full 1 input = Some (n, r)" "read_full (unat (hd n) + 2) r = Some (bound, rest)"
      using assms by (auto simp: discard_socks_address_def Let_def split: option.splits prod.splits)
    then obtain b where b: "n = [b]" by (auto simp: read_full_Some length_Suc_conv)
    have "unat b < 256" by (rule byte_less)
    then show ?thesis using r 3(1) b by (intro exI[of _ bound]) (auto simp: read_full_Some)
  qed (use assms in \<open>auto simp: discard_socks_address_def Let_def read_full_Some split: option.splits prod.splits\<close>)
qed

lemma discard_conforming:
  assumes "(kind, length bound) \<in> {(1, 6), (4, 18)} \<union> {3} \<times> {2..257}"
  shows "discard_socks_address kind ((if kind = 3 then [of_nat (length bound - 2)] else []) @ bound @ rest) = Inr rest"
  using assms by (auto simp: discard_socks_address_def read_full_def Let_def unat_of_nat)

lemma request_target_exact:
  assumes "request_target address input = (sent, Inr rest)"
  shows "\<exists>kind bound h. connect_request address = Some sent \<and> input = h @ (if kind = 3 then [of_nat (length bound - 2)] else []) @ bound @ rest
    \<and> length h = 4 \<and> h ! 0 = 5 \<and> h ! 1 = 0 \<and> h ! 3 = kind \<and> (kind, length bound) \<in> {(1, 6), (4, 18)} \<union> {3} \<times> {2..257}"
proof -
  obtain h r where h: "connect_request address = Some sent" "read_full 4 input = Some (h, r)" "h ! 0 = 5" "h ! 1 = 0"
    "discard_socks_address (h ! 3) r = Inr rest"
    using assms by (auto simp: request_target_def split: option.splits prod.splits if_splits)
  from discard_exact[OF h(5)] obtain bound where
    "r = (if h ! 3 = 3 then [of_nat (length bound - 2)] else []) @ bound @ rest"
    "(h ! 3, length bound) \<in> {(1, 6), (4, 18)} \<union> {3} \<times> {2..257}" by blast
  then show ?thesis using h by (intro exI[of _ "h ! 3"] exI[of _ bound] exI[of _ h]) (auto simp: read_full_Some)
qed

section \<open>Properties\<close>

lemma negotiate_exact:
  assumes "negotiate d address input = (sent, Inr rest)"
  shows "\<exists>a m req inp. connect_request address = Some req \<and> sent = greeting d @ a @ req
    \<and> a \<in> (if m = 2 then {x. auth_request d = Some x} else {[]})
    \<and> input = [5, m] @ (if m = 2 then [1, 0] else []) @ inp \<and> m \<in> {0, 2}
    \<and> request_target address inp = (req, Inr rest)"
proof -
  obtain r inp where r: "read_full 2 input = Some (r, inp)" "r ! 0 = 5" "r ! 1 \<in> {0, 2}"
    using assms by (auto simp: negotiate_def split: option.splits prod.splits sum.splits if_splits)
  then have input: "input = [5, r ! 1] @ inp"
    by (auto simp: read_full_Some length_Suc_conv numeral_2_eq_2)
  show ?thesis
  proof (cases "r ! 1 = 2")
    case True
    then obtain a i2 more where a: "authenticate d inp = (a, Inr i2)" "request_target address i2 = (more, Inr rest)"
      "sent = greeting d @ a @ more"
      using assms r by (auto simp: negotiate_def split: option.splits prod.splits sum.splits if_splits)
    then obtain h where h: "auth_request d = Some a" "read_full 2 inp = Some (h, i2)" "h ! 0 = 1" "h ! 1 = 0"
      by (auto simp: authenticate_def split: option.splits prod.splits if_splits)
    then have "inp = [1, 0] @ i2" by (auto simp: read_full_Some length_Suc_conv numeral_2_eq_2)
    moreover have "connect_request address = Some more"
      using a(2) by (auto simp: request_target_def split: option.splits)
    ultimately show ?thesis using a h True input
      by (intro exI[of _ a] exI[of _ 2] exI[of _ more] exI[of _ i2]) simp
  next
    case False
    then have m: "r ! 1 = 0" using r(3) by simp
    then obtain more where a: "request_target address inp = (more, Inr rest)" "sent = greeting d @ more"
      using assms r by (auto simp: negotiate_def split: option.splits prod.splits sum.splits if_splits)
    moreover have "connect_request address = Some more"
      using a(1) by (auto simp: request_target_def split: option.splits)
    ultimately show ?thesis using input m
      by (intro exI[of _ "[]"] exI[of _ 0] exI[of _ more] exI[of _ inp]) simp
  qed
qed

text \<open>C34. A negotiation that succeeds asked for the right destination: the client sent its greeting, at most its
credentials, and one request that a server reads as exactly the host and port of the address; what it read begins with
the version of the protocol, and the bytes left for the caller are the rest of the input.\<close>

theorem negotiation_reaches_destination:
  assumes "negotiate d address input = (sent, Inr rest)"
  shows "\<exists>host port_text port req auth reply. split_host_port address = Some (host, port_text)
    \<and> atoi port_text = Some port \<and> port \<in> {1..65535}
    \<and> sent = greeting d @ auth @ req \<and> read_connect req = Some (destination_of host, nat port)
    \<and> auth \<in> insert [] (set_option (auth_request d))
    \<and> input = reply @ rest \<and> take 1 reply = [5]"
proof -
  from negotiate_exact[OF assms] obtain a m req inp where n: "connect_request address = Some req"
    "sent = greeting d @ a @ req" "a \<in> (if m = 2 then {x. auth_request d = Some x} else {[]})"
    "input = [5, m] @ (if m = 2 then [1, 0] else []) @ inp" "request_target address inp = (req, Inr rest)" by blast
  from request_target_exact[OF n(5)] obtain used where used: "inp = used @ rest" by auto
  let ?reply = "[5, m] @ (if m = 2 then [1, 0] else []) @ used"
  have r: "input = ?reply @ rest" "take 1 ?reply = [5]" using n(4) used by simp_all
  have a: "a \<in> insert [] (set_option (auth_request d))"
    by (cases "m = 2"; use n(3) in simp)
  from connect_request_read[OF n(1)] obtain host port_text port where
    h: "split_host_port address = Some (host, port_text)" "atoi port_text = Some port" "1 \<le> port" "port \<le> 65535"
      "read_connect req = Some (destination_of host, nat port)" by blast
  then have p: "port \<in> {1..65535}" by simp
  show ?thesis
    by (intro exI conjI) (rule h(1) h(2) p n(2) h(5) a r)+
qed

text \<open>Conversely a conforming server is understood, whatever the kind of its bound address.\<close>

lemma conforming_server_understood:
  assumes "connect_request address = Some req" "(kind, length bound) \<in> {(1, 6), (4, 18)} \<union> {3} \<times> {2..257}"
  shows "negotiate d address ([5, 0] @ server_reply kind bound @ rest) = (greeting d @ req, Inr rest)"
    and "auth_request d = Some a \<Longrightarrow>
      negotiate d address ([5, 2] @ [1, 0] @ server_reply kind bound @ rest) = (greeting d @ a @ req, Inr rest)"
proof -
  have t: "request_target address (server_reply kind bound @ rest) = (req, Inr rest)"
    using discard_conforming[OF assms(2)] assms(1)
    by (simp add: request_target_def server_reply_def read_full_def)
  then show "negotiate d address ([5, 0] @ server_reply kind bound @ rest) = (greeting d @ req, Inr rest)"
    by (simp add: negotiate_def read_full_def)
  show "negotiate d address ([5, 2] @ [1, 0] @ server_reply kind bound @ rest) = (greeting d @ a @ req, Inr rest)"
    if "auth_request d = Some a"
    using t that by (simp add: negotiate_def authenticate_def read_full_def)
qed

definition demo_dialer :: socks_dialer where
  "demo_dialer = \<lparr>sd_proxy_address = ''127.0.0.1:1080'', sd_username = ''u'', sd_password = ''pw'', sd_timeout = 0\<rparr>"

theorem negotiation_reaches_destination_witness:
  "negotiate demo_dialer ''10.0.0.5:80'' ([5, 2, 1, 0] @ server_reply 3 [97, 0, 80] @ [42])
     = ([5, 1, 2] @ [1, 1, 117, 2, 112, 119] @ [5, 1, 0, 1, 10, 0, 0, 5, 0, 80], Inr [42])
   \<and> (\<exists>host port_text port req auth reply. split_host_port ''10.0.0.5:80'' = Some (host, port_text)
    \<and> atoi port_text = Some port \<and> port \<in> {1..65535}
    \<and> [5, 1, 2] @ [1, 1, 117, 2, 112, 119] @ [5, 1, 0, 1, 10, 0, 0, 5, 0, 80] = greeting demo_dialer @ auth @ req
    \<and> read_connect req = Some (destination_of host, nat port))"
proof
  show n: "negotiate demo_dialer ''10.0.0.5:80'' ([5, 2, 1, 0] @ server_reply 3 [97, 0, 80] @ [42])
     = ([5, 1, 2] @ [1, 1, 117, 2, 112, 119] @ [5, 1, 0, 1, 10, 0, 0, 5, 0, 80], Inr [42])"
  proof -
    have "parse_addr ''10.0.0.5'' = Some (V4 167772165)"
      by (simp add: parse_addr_def parse_v4_def parse_octets_def parse_octet_def is_digit_def less_eq_char_def
          text_value_def digit_of_def digits_value_def)
    then have c: "connect_request ''10.0.0.5:80'' = Some [5, 1, 0, 1, 10, 0, 0, 5, 0, 80]"
      by (simp add: connect_request_def split_host_port_def atoi_def parse_digits_def is_digit_def less_eq_char_def
          text_value_def digit_of_def addr_bytes_def digits_numeral)
    have a: "auth_request demo_dialer = Some [1, 1, 117, 2, 112, 119]"
      by (simp add: auth_request_def demo_dialer_def bytes_of_def)
    have "(3 :: 8 word, length ([97, 0, 80] :: bytes)) \<in> {(1, 6), (4, 18)} \<union> {3} \<times> {2..257}" by simp
    from conforming_server_understood(2)[OF c this a, of "[42]"] show ?thesis
      by (simp add: greeting_def demo_dialer_def)
  qed
  from negotiation_reaches_destination[OF this] show "\<exists>host port_text port req auth reply. split_host_port ''10.0.0.5:80'' = Some (host, port_text)
    \<and> atoi port_text = Some port \<and> port \<in> {1..65535}
    \<and> [5, 1, 2] @ [1, 1, 117, 2, 112, 119] @ [5, 1, 0, 1, 10, 0, 0, 5, 0, 80] = greeting demo_dialer @ auth @ req
    \<and> read_connect req = Some (destination_of host, nat port)" by blast
qed

text \<open>The server may choose a method that was not offered.\<close>

lemma unoffered_method_accepted:
  assumes "sd_username d \<noteq> ''''" "connect_request address = Some req"
  shows "negotiate d address ([5, 0] @ server_reply 1 [0, 0, 0, 0, 0, 0]) = ([5, 1, 2] @ req, Inr [])"
proof -
  have "(1 :: 8 word, length ([0, 0, 0, 0, 0, 0] :: bytes)) \<in> {(1, 6), (4, 18)} \<union> {3} \<times> {2..257}" by simp
  from conforming_server_understood(1)[OF assms(2) this, of d "[]"] assms(1) show ?thesis by (simp add: greeting_def)
qed

end
