(* ===== verification/Probes.thy ===== *)
theory Probes
  imports Socks StoreDiscovery Gateway
begin

text \<open>
  The probes of the discovery: \<open>probe\<close> and the functions below it in \<open>discovery/manager.go\<close>.

  A probe dials one host and port through the SOCKS route and decides from the first bytes of the
  target which service it is. What the proxy sends for a target, the first read of a connection,
  the TLS handshake and \<open>http.ReadResponse\<close> are arguments (\<open>probe_env\<close>); the banners, the RTSP, RDP,
  MySQL and PostgreSQL answers are decided here byte by byte.
\<close>

record http_response =
  hr_proto :: string
  hr_status_code :: int
  hr_status :: string
  hr_server :: string

record probe_env =
  pb_reach :: "string \<Rightarrow> string \<Rightarrow> bytes option"
  pb_chunk :: "bytes \<Rightarrow> nat"
  pb_tls :: "string \<Rightarrow> bytes \<Rightarrow> bytes option"
  pb_read_response :: "bytes \<Rightarrow> http_response option"
  pb_timeout :: int

record probe_task =
  pt_host :: string
  pt_port :: discovery_port

text \<open>A fingerprint, a summary and a confidence.\<close>

type_synonym finding = "string \<times> string \<times> int"

definition to_upper :: "string \<Rightarrow> string" where
  "to_upper s = map upper_char s"

definition sanitize_banner :: "string \<Rightarrow> string" where
  "sanitize_banner value = (let v = trim_space (filter (\<lambda>c. \<not> (c < CHR 0x20 \<or> c = CHR 0x7F)) value) in
     if length v > 240 then take 240 v else v)"

definition normalized_protocol :: "discovery_port \<Rightarrow> string" where
  "normalized_protocol port = (let protocol = to_lower (trim_space (dp_protocol port)) in
     if protocol \<noteq> '''' \<and> protocol \<noteq> ''auto'' then protocol
     else if dp_port port \<in> {22, 2222, 22022} then ''ssh''
     else if dp_port port \<in> {443, 8443, 9443} then ''https''
     else if dp_port port \<in> {80, 81, 3000, 3001, 8000, 8080, 8081, 8888, 9000} then ''http''
     else ''auto'')"

definition is_tls_port :: "int \<Rightarrow> bool" where
  "is_tls_port port \<longleftrightarrow> port = 443 \<or> port = 8443 \<or> port = 9443"

definition default_service_name :: "string \<Rightarrow> int \<Rightarrow> string" where
  "default_service_name protocol port = to_upper protocol @ '' '' @ itoa port"

section \<open>The answers\<close>

text \<open>A line of at most \<open>limit\<close> bytes, as \<open>ReadString\<close> returns it: up to its line feed, or all there is.\<close>

definition first_line :: "nat \<Rightarrow> bytes \<Rightarrow> string" where
  "first_line limit input = (let s = text_of (take limit input) in
     takeWhile (\<lambda>c. c \<noteq> CHR 0x0A) s @ take 1 (dropWhile (\<lambda>c. c \<noteq> CHR 0x0A) s))"

definition probe_ssh :: "bytes \<Rightarrow> finding option" where
  "probe_ssh input = (let banner = sanitize_banner (first_line 512 input) in
     if has_prefix banner ''SSH-'' then Some (banner, banner, 98) else None)"

definition probe_rtsp :: "bytes \<Rightarrow> finding option" where
  "probe_rtsp input = (let line = sanitize_banner (first_line 2048 input) in
     if has_prefix line ''RTSP/'' then Some (line, line, 96) else None)"

definition probe_rdp :: "bytes \<Rightarrow> finding option" where
  "probe_rdp input = (case read_full 4 input of None \<Rightarrow> None
   | Some (h, rest) \<Rightarrow> if h ! 0 \<noteq> 3 \<or> h ! 1 \<noteq> 0 then None
     else let length = unat (h ! 2) * 256 + unat (h ! 3) in
       if length < 7 \<or> length > 4096 then None
       else (case read_full (length - 4) rest of None \<Rightarrow> None
         | Some (payload, _) \<Rightarrow> if payload ! 1 \<noteq> 0xD0 then None
             else Some (''RDP X.224'', ''RDP negotiation response'', 97)))"

definition probe_mysql :: "bytes \<Rightarrow> finding option" where
  "probe_mysql input = (case read_full 5 input of None \<Rightarrow> None
   | Some (h, _) \<Rightarrow> (let payload = unat (h ! 0) + unat (h ! 1) * 256 + unat (h ! 2) * 65536 in
     if payload < 1 \<or> payload > 2 ^ 20 \<or> h ! 3 \<noteq> 0 \<or> h ! 4 \<noteq> 9 \<and> h ! 4 \<noteq> 10 then None
     else Some (''MySQL protocol '' @ (if h ! 4 = 9 then ''9'' else ''10''), ''MySQL server handshake'', 98)))"

definition probe_postgresql :: "bytes \<Rightarrow> finding option" where
  "probe_postgresql input = (case read_full 1 input of None \<Rightarrow> None
   | Some (r, _) \<Rightarrow> if text_of r = ''S'' then Some (''PostgreSQL'', ''PostgreSQL SSL supported'', 98)
     else if text_of r = ''N'' then Some (''PostgreSQL'', ''PostgreSQL SSL not supported'', 98) else None)"

definition probe_tcp_banner :: "probe_env \<Rightarrow> bytes \<Rightarrow> finding option" where
  "probe_tcp_banner env input = (if input = [] then None
     else let banner = sanitize_banner (text_of (take (min 512 (pb_chunk env input)) input)) in
       if banner = '''' then None else Some (banner, ''TCP banner: '' @ banner, 80))"

definition web_admin :: string where
  "web_admin = ''Web '' @ map char_of [231 :: nat, 174, 161, 231, 144, 134]"

text \<open>The name, and the finding.\<close>

definition probe_http :: "probe_env \<Rightarrow> string \<Rightarrow> bool \<Rightarrow> bytes \<Rightarrow> (string \<times> finding) option" where
  "probe_http env host secure input =
     (case (if secure then pb_tls env host input else Some input) of None \<Rightarrow> None
      | Some input \<Rightarrow> (case pb_read_response env (take 16384 input) of None \<Rightarrow> None
        | Some r \<Rightarrow> (let server = sanitize_banner (hr_server r);
            fingerprint = trim_space (hr_proto r @ '' '' @ itoa (hr_status_code r) @ '' '' @ server) in
            Some (web_admin, (fingerprint, hr_status r, 95)))))"

section \<open>A probe\<close>

text \<open>The protocol, the name and the finding of an open connection; a protocol that is none of these is
reported as open without a look at it.\<close>

definition identify :: "probe_env \<Rightarrow> probe_task \<Rightarrow> bytes \<Rightarrow> (string \<times> string \<times> finding) option" where
  "identify env task input = (let
     protocol = normalized_protocol (pt_port task);
     name = trim_space (dp_name (pt_port task));
     named = (\<lambda>n. if name = '''' then n else name);
     plain = map_option (\<lambda>f. (protocol, name, f));
     http = (\<lambda>p secure. map_option (\<lambda>(n, f). (p, named n, f)) (probe_http env (pt_host task) secure input)) in
     if protocol = ''ssh'' then map_option (\<lambda>f. (protocol, named ''SSH'', f)) (probe_ssh input)
     else if protocol = ''http'' \<or> protocol = ''https'' then http protocol (protocol = ''https'')
     else if protocol = ''rtsp'' then plain (probe_rtsp input)
     else if protocol = ''rdp'' then plain (probe_rdp input)
     else if protocol = ''mysql'' then plain (probe_mysql input)
     else if protocol = ''postgresql'' then plain (probe_postgresql input)
     else if protocol = ''tcp'' then plain (probe_tcp_banner env input)
     else if protocol = ''auto'' then
       (if is_tls_port (dp_port (pt_port task)) then http ''https'' True else http ''http'' False)
     else Some (protocol, name, ('''', '''', 0)))"

definition probe :: "probe_env \<Rightarrow> instant \<Rightarrow> socks_route \<Rightarrow> probe_task \<Rightarrow> probe_result option" where
  "probe env now route task = (let
     dialer = \<lparr>sd_proxy_address = so_address route, sd_username = so_username route,
       sd_password = so_password route, sd_timeout = pb_timeout env\<rparr>;
     address = join_host_port (pt_host task) (itoa (dp_port (pt_port task))) in
     case dial_context (\<lambda>p. pb_reach env p address) now (Some (now + pb_timeout env)) dialer ''tcp'' address of
       (_, Connected _ input) \<Rightarrow> map_option (\<lambda>(protocol, name, fingerprint, summary, confidence).
         \<lparr>pr_host = pt_host task, pr_port = dp_port (pt_port task), pr_protocol = protocol,
           pr_service_name = (if name = '''' then default_service_name protocol (dp_port (pt_port task)) else name),
           pr_fingerprint = fingerprint, pr_response_summary = summary, pr_confidence = confidence\<rparr>)
         (identify env task input)
     | _ \<Rightarrow> None)"

lemma probe_of_task:
  "probe env now route task = Some r \<Longrightarrow> pr_host r = pt_host task \<and> pr_port r = dp_port (pt_port task)"
  by (auto simp: probe_def Let_def split: prod.splits dialed.splits)

text \<open>A positive answer of a probe with a known protocol is evidence of it.\<close>

lemma probe_ssh_evidence: "probe_ssh input = Some (f, s, c) \<Longrightarrow> has_prefix f ''SSH-'' \<and> length f \<le> 240 \<and> c = 98"
  by (auto simp: probe_ssh_def sanitize_banner_def Let_def split: if_splits)

end
