(* ===== verification/Discovery.thy ===== *)
theory Discovery
  imports Probes
begin

text \<open>
  The discovery manager: \<open>discovery/manager.go\<close>. A job names IPv4 networks and ports; \<open>start\<close> bounds
  it, \<open>job_tasks\<close> is what its producer feeds to the workers, and \<open>run_job\<close> is \<open>run\<close> over the
  results in the order they arrive. The workers run concurrently, so that order is an argument, as
  is whether the context was cancelled. The state of the manager is the set of running jobs.
\<close>

section \<open>The networks of a job\<close>

definition parse_discovery_prefix :: "string \<Rightarrow> (32 word \<times> nat) option" where
  "parse_discovery_prefix value = (let value = trim_space value in
     case parse_addr value of
       Some (V4 a) \<Rightarrow> Some (a, 32)
     | _ \<Rightarrow> (case parse_prefix value of
         Some (V4 a, bits) \<Rightarrow> Some (mask_v4 bits a, bits)
       | _ \<Rightarrow> None))"

fun count_hosts :: "string list \<Rightarrow> int option" where
  "count_hosts [] = Some 0"
| "count_hosts (cidr # cidrs) = (case (parse_discovery_prefix cidr, count_hosts cidrs) of
     (Some (a, bits), Some n) \<Rightarrow> Some (2 ^ (32 - bits) + n) | _ \<Rightarrow> None)"

definition next_addr :: "32 word option \<Rightarrow> 32 word option" where
  "next_addr a = (case a of None \<Rightarrow> None | Some a \<Rightarrow> if a + 1 = 0 then None else Some (a + 1))"

definition addr_text :: "32 word option \<Rightarrow> string" where
  "addr_text a = (case a of None \<Rightarrow> ''invalid IP'' | Some a \<Rightarrow> v4_text a)"

fun host_loop :: "nat \<Rightarrow> 32 word option \<Rightarrow> string list" where
  "host_loop 0 a = []"
| "host_loop (Suc n) a = addr_text a # host_loop n (next_addr a)"

text \<open>\<open>forEachHost\<close>: the hosts it calls its function with, when the function never stops it.\<close>

definition for_each_host :: "string \<Rightarrow> string list" where
  "for_each_host cidr = (case parse_discovery_prefix cidr of None \<Rightarrow> []
   | Some (a, bits) \<Rightarrow> host_loop (2 ^ (32 - bits)) (Some (mask_v4 bits a)))"

definition job_tasks :: "string list \<Rightarrow> discovery_port list \<Rightarrow> probe_task list" where
  "job_tasks networks ports = concat (map (\<lambda>cidr. concat (map (\<lambda>host.
     map (\<lambda>p. \<lparr>pt_host = host, pt_port = p\<rparr>) ports) (for_each_host cidr))) networks)"

section \<open>The manager\<close>

record manager =
  mg_running :: "string list"

definition max_probes :: int where
  "max_probes = 2000000"

text \<open>The total number of probes of a job that was started.\<close>

definition start :: "discovery_job \<Rightarrow> discovery_route \<Rightarrow> manager \<Rightarrow> string + manager \<times> int" where
  "start job route m =
     (if dro_client_id route < 1 then Inl ''project has no bound client''
      else case count_hosts (job_networks job) of None \<Rightarrow> Inl ''invalid IPv4 discovery network''
      | Some hosts \<Rightarrow> (let probes = hosts * int (length (job_ports job)) in
          if hosts = 0 \<or> job_ports job = [] then Inl ''discovery scope has no probes''
          else if probes > max_probes then Inl ''discovery request exceeds 2000000 probes''
          else if job_id job \<in> set (mg_running m) then Inl ''discovery job is already running''
          else Inr (m\<lparr>mg_running := job_id job # mg_running m\<rparr>, probes)))"

definition finish :: "string \<Rightarrow> manager \<Rightarrow> manager" where
  "finish jid m = m\<lparr>mg_running := removeAll jid (mg_running m)\<rparr>"

text \<open>\<open>Cancel\<close> waits until the job has finished; it reports whether the job was running.\<close>

definition cancel :: "string \<Rightarrow> manager \<Rightarrow> manager \<times> bool" where
  "cancel jid m = (finish jid m, jid \<in> set (mg_running m))"





text \<open>\<open>Verify\<close>: the probes of the registered services of one device, in the order of the services.\<close>

definition verify :: "probe_env \<Rightarrow> instant \<Rightarrow> (string \<Rightarrow> int \<Rightarrow> socks_route option) \<Rightarrow> discovery_route \<Rightarrow> string \<Rightarrow>
    discovery_port list \<Rightarrow> string + probe_result list" where
  "verify env now tunnel route host ports =
     (if dro_client_id route < 1 then Inl ''project has no bound client''
      else if parse_addr host = None then Inl ''device host is not a valid IP address''
      else if length ports = 0 \<or> length ports > 256 then Inl ''device verification requires 1-256 registered services''
      else case tunnel (dro_node_id route) (dro_client_id route) of None \<Rightarrow> Inl ''resolve managed tunnel route''
      | Some socks \<Rightarrow> Inr (List.map_filter (\<lambda>p. probe env now socks \<lparr>pt_host = host, pt_port = p\<rparr>) ports))"

section \<open>Lemmas\<close>

lemma parse_discovery_prefix_bits:
  "parse_discovery_prefix s = Some (a, bits) \<Longrightarrow> bits \<le> 32 \<and> mask_v4 bits a = a"
proof -
  assume a: "parse_discovery_prefix s = Some (a, bits)"
  have idem: "mask_v4 b (mask_v4 b x) = mask_v4 b x" for b x
    by (simp add: word_unat_eq_iff unat_mask)
  have "mask_v4 32 x = x" for x by (simp add: mask_v4_def)
  with a idem show ?thesis
    by (auto simp: parse_discovery_prefix_def Let_def split: option.splits addr.splits prod.splits dest!: parse_prefix_bits)
qed

lemma host_loop_hosts:
  assumes "unat a + n \<le> 2 ^ 32"
  shows "host_loop n (if n = 0 then b else Some a) = map (\<lambda>i. v4_text (a + of_nat i)) [0..<n]"
  using assms
proof (induction n arbitrary: a b)
  case (Suc n)
  have step: "unat (a + 1) = unat a + 1" if "0 < n"
    using Suc.prems that by (simp add: unat_word_ariths(1))
  have "next_addr (Some a) = Some (a + 1)" if "0 < n"
  proof -
    have "unat (a + 1) \<noteq> 0" using step[OF that] by simp
    then show ?thesis by (auto simp: next_addr_def)
  qed
  then have nxt: "next_addr (Some a) = (if n = 0 then next_addr (Some a) else Some (a + 1))" by simp
  have "host_loop n (next_addr (Some a)) = map (\<lambda>i. v4_text (a + 1 + of_nat i)) [0..<n]"
  proof (cases "n = 0")
    case False
    then have "host_loop n (if n = 0 then None else Some (a + 1)) = map (\<lambda>i. v4_text (a + 1 + of_nat i)) [0..<n]"
      using Suc.prems step by (intro Suc.IH) simp
    then show ?thesis using False nxt by simp
  qed simp
  then show ?case
    by (simp add: addr_text_def upt_rec[of 0 "Suc n"] map_Suc_upt[symmetric] comp_def add.assoc del: upt_Suc)
qed simp

lemma for_each_host_exact:
  assumes "parse_discovery_prefix cidr = Some (a, bits)"
  shows "for_each_host cidr = map v4_text (prefix_hosts a bits)"
proof -
  have b: "bits \<le> 32" using parse_discovery_prefix_bits[OF assms] by simp
  have "unat (mask_v4 bits a) + 2 ^ (32 - bits) \<le> 2 ^ 32"
  proof -
    have "unat (mask_v4 bits a + of_nat (2 ^ (32 - bits) - 1)) = unat (mask_v4 bits a) + (2 ^ (32 - bits) - 1)"
      using unat_host[OF b, of "2 ^ (32 - bits) - 1" a] by (simp add: unat_mask)
    moreover have "unat (mask_v4 bits a + of_nat (2 ^ (32 - bits) - 1)) < 2 ^ 32" by (rule unat_less_32)
    ultimately show ?thesis by linarith
  qed
  from host_loop_hosts[OF this, of None] show ?thesis
    by (simp add: for_each_host_def assms prefix_hosts_def comp_def)
qed

lemma count_hosts_length:
  "count_hosts cidrs = Some n \<Longrightarrow> n = int (length (concat (map for_each_host cidrs)))
     \<and> (\<forall>cidr\<in>set cidrs. parse_discovery_prefix cidr \<noteq> None)"
proof (induction cidrs arbitrary: n)
  case (Cons cidr cidrs)
  then obtain a bits k where c: "parse_discovery_prefix cidr = Some (a, bits)" "count_hosts cidrs = Some k"
    "n = 2 ^ (32 - bits) + k"
    by (auto split: option.splits prod.splits)
  have "length (for_each_host cidr) = 2 ^ (32 - bits)"
    using parse_discovery_prefix_bits[OF c(1)] by (simp add: for_each_host_exact[OF c(1)] prefix_hosts_exact(2))
  then show ?case using Cons.IH[OF c(2)] c by simp
qed simp

lemma length_job_tasks:
  "length (job_tasks networks ports) = length (concat (map for_each_host networks)) * length ports"
proof (induction networks)
  case (Cons cidr networks)
  have "length (concat (map (\<lambda>h. map (\<lambda>p. \<lparr>pt_host = h, pt_port = p\<rparr>) ports) hs)) = length hs * length ports" for hs
    by (induction hs) simp_all
  then show ?case using Cons by (simp add: job_tasks_def algebra_simps)
qed (simp add: job_tasks_def)

lemma job_tasks_of_hosts:
  "set (job_tasks networks ports) = {t. pt_host t \<in> set (concat (map for_each_host networks)) \<and> pt_port t \<in> set ports}"
proof -
  have "t \<in> set (job_tasks networks ports) \<longleftrightarrow>
      pt_host t \<in> set (concat (map for_each_host networks)) \<and> pt_port t \<in> set ports" for t
    by (cases t) (auto simp: job_tasks_def)
  then show ?thesis by blast
qed

lemma hosts_of_networks:
  "set (concat (map for_each_host networks)) = {v4_text x | x cidr a bits. cidr \<in> set networks
     \<and> parse_discovery_prefix cidr = Some (a, bits) \<and> in_prefix a bits x}"
proof -
  have "set (for_each_host cidr) = {v4_text x | x a bits. parse_discovery_prefix cidr = Some (a, bits) \<and> in_prefix a bits x}"
    for cidr
  proof (cases "parse_discovery_prefix cidr")
    case None
    then show ?thesis by (simp add: for_each_host_def)
  next
    case (Some ab)
    obtain a bits where ab: "ab = (a, bits)" by (cases ab)
    have b: "bits \<le> 32" using parse_discovery_prefix_bits Some ab by blast
    show ?thesis
      using Some ab prefix_hosts_exact(3)[OF b] by (auto simp: for_each_host_exact)
  qed
  then show ?thesis by (simp, blast)
qed

text \<open>C35. A scan stays inside its scope: a job that is started has between one and two million probes, which
are exactly the named ports of the addresses of the named networks, each written as the address it is.\<close>

theorem scan_scope_exact:
  assumes "start job route m = Inr (m', probes)"
  shows "set (job_tasks (job_networks job) (job_ports job)) = {\<lparr>pt_host = v4_text x, pt_port = p\<rparr> | x p cidr a bits.
      p \<in> set (job_ports job) \<and> cidr \<in> set (job_networks job) \<and> parse_discovery_prefix cidr = Some (a, bits)
      \<and> in_prefix a bits x}
    \<and> int (length (job_tasks (job_networks job) (job_ports job))) = probes \<and> probes \<in> {1..2000000}
    \<and> mg_running m' = job_id job # mg_running m \<and> job_id job \<notin> set (mg_running m)"
proof -
  obtain hosts where h: "count_hosts (job_networks job) = Some hosts" "hosts \<noteq> 0" "job_ports job \<noteq> []"
    "probes = hosts * int (length (job_ports job))" "probes \<le> 2000000" "job_id job \<notin> set (mg_running m)"
    "mg_running m' = job_id job # mg_running m"
    using assms by (auto simp: start_def Let_def max_probes_def split: if_splits option.splits)
  note n = count_hosts_length[OF h(1)]
  have len: "int (length (job_tasks (job_networks job) (job_ports job))) = probes"
    using n h(4) by (simp add: length_job_tasks)
  have "0 < hosts" using n h(2) by simp
  then have "0 < probes" using h(3,4) by simp
  moreover have "set (job_tasks (job_networks job) (job_ports job)) = {\<lparr>pt_host = v4_text x, pt_port = p\<rparr> | x p cidr a bits.
      p \<in> set (job_ports job) \<and> cidr \<in> set (job_networks job) \<and> parse_discovery_prefix cidr = Some (a, bits)
      \<and> in_prefix a bits x}"
    unfolding job_tasks_of_hosts hosts_of_networks
    by (auto intro: probe_task.equality) (metis probe_task.surjective old.unit.exhaust, blast)
  ultimately show ?thesis using len h by simp
qed

definition demo_scan :: discovery_job where
  "demo_scan = \<lparr>job_id = ''j1'', job_project_id = ''p1'', job_networks = ['' 10.0.0.6/31'', ''10.0.0.9''],
     job_ports = [\<lparr>dp_port = 80, dp_protocol = ''http'', dp_name = ''''\<rparr>], job_status = ''queued'', job_progress = 0,
     job_created_at = 0, job_started_at = None, job_finished_at = None\<rparr>"

definition demo_discovery_route :: discovery_route where
  "demo_discovery_route = \<lparr>dro_project_id = ''p1'', dro_node_id = ''n1'', dro_client_id = 7, dro_networks = [''10.0.0.0/24'']\<rparr>"

lemma demo_networks:
  "parse_discovery_prefix '' 10.0.0.6/31'' = Some (mask_v4 31 167772166, 31)"
  "parse_discovery_prefix ''10.0.0.9'' = Some (167772169, 32)"
  by (simp_all add: parse_discovery_prefix_def trim_space_def is_space_def parse_addr_def parse_v4_def parse_octets_def
      parse_octet_def is_digit_def less_eq_char_def text_value_def digit_of_def digits_value_def parse_prefix_def
      split_slash_def atoi_def parse_digits_def)

theorem scan_scope_exact_witness:
  "start demo_scan demo_discovery_route \<lparr>mg_running = []\<rparr> = Inr (\<lparr>mg_running = [''j1'']\<rparr>, 3)
   \<and> length (job_tasks (job_networks demo_scan) (job_ports demo_scan)) = 3"
proof
  show s: "start demo_scan demo_discovery_route \<lparr>mg_running = []\<rparr> = Inr (\<lparr>mg_running = [''j1'']\<rparr>, 3)"
    by (simp add: start_def demo_scan_def demo_discovery_route_def demo_networks max_probes_def)
  from scan_scope_exact[OF this] show "length (job_tasks (job_networks demo_scan) (job_ports demo_scan)) = 3"
    by simp
qed

section \<open>The end of a job\<close>


lemma jobs_of_update [simp]: "t_jobs (update_jobs P f db) = upd_where P f (t_jobs db)"
  by (simp add: update_jobs_def)

lemma save_result_jobs [simp]: "t_jobs (fst (save_discovery_result rid now jid r db)) = t_jobs db"
  unfolding save_discovery_result_def Let_def by (rule run_tx_all) (auto simp: attempt_Inr_iff put_Inr)








end
