(* ===== verification/NodeAdapter.thy ===== *)
theory NodeAdapter
  imports Gateway Vault
begin

text \<open>
  The client of the nodes: \<open>nodeadapter/\<close>. A node runs NPS, which is not part of this repository; it
  is reached over HTTP, one signed form request per call. \<open>build_request\<close> is the part of \<open>call\<close> up to
  the request, \<open>call\<close> the whole of it, and every operation is a program over \<open>call\<close>.

  The outside is a state \<open>'w\<close> that a call changes: the nodes, the clock and the source of nonces. What
  a node answers, the decoders of its JSON, SHA-256 and HMAC and the resolution of a URL are functions
  of \<open>node_env\<close>. Waiting for a state polls at most as often as its last argument says, which stands
  for the time that \<open>stateWait\<close> allows.
\<close>

section \<open>Requests and replies\<close>

type_synonym form = "(string \<times> string) list"

record node_request =
  rn_method :: string
  rn_url :: url
  rn_tls_name :: string
  rn_content_type :: string
  rn_body :: string
  rn_timestamp :: string
  rn_nonce :: string
  rn_signature :: string

record node_reply =
  rp_status :: int
  rp_content_type :: string
  rp_payload :: string

record raw_flow =
  fl_inlet :: int
  fl_export :: int
  fl_limit :: int

record raw_config =
  cfg_username :: string
  cfg_password :: string
  cfg_compress :: bool
  cfg_crypt :: bool

record raw_client =
  cl_id :: int
  cl_remark :: string
  cl_addr :: string
  cl_status :: bool
  cl_connected :: bool
  cl_version :: string
  cl_flow :: "raw_flow option"
  cl_config :: "raw_config option"
  cl_verify_key :: string
  cl_rate_limit :: int
  cl_max_conn :: int
  cl_max_tunnel :: int
  cl_web_user :: string
  cl_web_pass :: string
  cl_config_ok :: bool

record raw_tunnel =
  tu_id :: int
  tu_port :: int
  tu_status :: bool
  tu_run_status :: bool
  tu_client :: "raw_client option"
  tu_flow :: "raw_flow option"
  tu_target :: "string option"
  tu_target_addr :: string
  tu_remark :: string

record raw_socks_status =
  st_id :: int
  st_client_id :: int
  st_enabled :: bool
  st_running :: bool
  st_active :: bool
  st_countdown :: bool
  st_last_active_at :: int
  st_idle_seconds :: int
  st_remaining_seconds :: int
  st_auto_close_at :: int
  st_auto_close_timeout :: int
  st_inlet :: int
  st_export :: int

text \<open>The state of the outside with its functions. A decoder returns nothing when the JSON does not fit;
\<open>nv_envelope\<close> reads the fields \<open>status\<close> and \<open>code\<close>.\<close>

record 'w node_env =
  nv_vault :: vault_env
  nv_credential :: "string \<Rightarrow> (string \<times> string) option"
  nv_hmac :: "string \<Rightarrow> string \<Rightarrow> string"
  nv_sha256 :: "string \<Rightarrow> string"
  nv_endpoint :: "string \<Rightarrow> string \<Rightarrow> url option"
  nv_parse_url :: "string \<Rightarrow> url option"
  nv_nonce :: "'w \<Rightarrow> 'w \<times> string"
  nv_now :: "'w \<Rightarrow> instant"
  nv_exchange :: "node_request \<Rightarrow> 'w \<Rightarrow> 'w \<times> node_reply option"
  nv_envelope :: "string \<Rightarrow> (int option \<times> int option) option"
  nv_action :: "string \<Rightarrow> (int \<times> string) option"
  nv_clients :: "string \<Rightarrow> raw_client list option"
  nv_client :: "string \<Rightarrow> (int \<times> raw_client) option"
  nv_tunnels :: "string \<Rightarrow> raw_tunnel list option"
  nv_tunnel :: "string \<Rightarrow> (int \<times> raw_tunnel) option"
  nv_socks_status :: "string \<Rightarrow> (int \<times> raw_socks_status) option"

definition and_then :: "'w \<times> 'a res \<Rightarrow> ('a \<Rightarrow> 'w \<Rightarrow> 'w \<times> 'b res) \<Rightarrow> 'w \<times> 'b res" where
  "and_then r k = (case r of (w, Inl e) \<Rightarrow> (w, Inl e) | (w, Inr a) \<Rightarrow> k a w)"

lemma and_then_simps [simp]:
  "and_then (w, Inl e) k = (w, Inl e)" "and_then (w, Inr a) k = k a w"
  by (simp_all add: and_then_def)

lemma and_then_Inr: "and_then r k = (w', Inr b) \<longleftrightarrow> (\<exists>w a. r = (w, Inr a) \<and> k a w = (w', Inr b))"
  by (cases r; cases "snd r") auto

section \<open>Task references\<close>

record task_ref =
  tr_type :: string
  tr_id :: int

definition allowed_task_types :: "string list" where
  "allowed_task_types = [''portForward'', ''socks5'', ''httpProxy'', ''secret'', ''p2p'', ''file'']"

definition task_ref_validate :: "task_ref \<Rightarrow> unit res" where
  "task_ref_validate ref =
     (if tr_type ref \<notin> set allowed_task_types then Inl (ErrMsg ''unsupported NPS task type'')
      else if tr_id ref < 1 then Inl (ErrMsg ''NPS task id must be positive'') else Inr ())"

definition task_ref_key :: "task_ref \<Rightarrow> string res" where
  "task_ref_key ref = attempt (task_ref_validate ref) (\<lambda>_. Inr (tr_type ref @ '':'' @ itoa (tr_id ref)))"

section \<open>Signing\<close>

definition path_with_raw_query :: "url \<Rightarrow> string" where
  "path_with_raw_query u = (if url_path u = '''' then ''/'' else url_path u)
     @ (if url_query u \<noteq> '''' then ''?'' @ url_query u else [])"

definition ascii_upper :: "string \<Rightarrow> string" where
  "ascii_upper s = map upper_char s"

definition canonical_request :: "(string \<Rightarrow> string) \<Rightarrow> string \<Rightarrow> string \<Rightarrow> string \<Rightarrow> string \<Rightarrow> string \<Rightarrow> string" where
  "canonical_request sha method path timestamp nonce body =
     join_with CHR 0x0A [ascii_upper method, path, timestamp, nonce, sha body]"

definition sign_nps_request ::
  "'w node_env \<Rightarrow> string \<Rightarrow> string \<Rightarrow> string \<Rightarrow> string \<Rightarrow> string \<Rightarrow> string \<Rightarrow> string" where
  "sign_nps_request env method path timestamp nonce body secret =
     nv_hmac env secret (canonical_request (nv_sha256 env) method path timestamp nonce body)"

definition apply_nps_signature :: "'w node_env \<Rightarrow> string \<Rightarrow> string \<Rightarrow> instant \<Rightarrow> node_request \<Rightarrow> node_request" where
  "apply_nps_signature env secret nonce now q = (let timestamp = itoa (now div 1000000000) in
     q\<lparr>rn_timestamp := timestamp, rn_nonce := nonce,
       rn_signature := sign_nps_request env (rn_method q) (path_with_raw_query (rn_url q)) timestamp nonce (rn_body q) secret\<rparr>)"

section \<open>A call\<close>

text \<open>\<open>url.Values.Encode\<close>: sorted by name, each name and value escaped.\<close>

definition hex_digit :: "nat \<Rightarrow> char" where
  "hex_digit n = ''0123456789ABCDEF'' ! n"

definition query_escape :: "string \<Rightarrow> string" where
  "query_escape s = concat (map (\<lambda>c. if is_alpha c \<or> is_digit c \<or> c \<in> set ''-_.~'' then [c]
     else if c = CHR '' '' then ''+'' else [CHR ''%'', hex_digit (of_char c div 16), hex_digit (of_char c mod 16)]) s)"

definition form_encode :: "form \<Rightarrow> string" where
  "form_encode f = join_with CHR ''&'' (map (\<lambda>(k, v). query_escape k @ ''='' @ query_escape v) (sort_key fst f))"

definition build_request :: "'w node_env \<Rightarrow> db \<Rightarrow> string \<Rightarrow> string \<Rightarrow> form \<Rightarrow> 'w \<Rightarrow> 'w \<times> node_request res" where
  "build_request env db nid path form w =
     (case get_node_connection nid db of Inl e \<Rightarrow> (w, Inl e)
      | Inr node \<Rightarrow>
      if \<not> nx_enabled node then (w, Inl (ErrMsg ''node is disabled''))
      else case vault_resolve (nv_vault env) (nx_credential_ref node) db of Inl e \<Rightarrow> (w, Inl (ErrMsg ''resolve node credential''))
      | Inr secret \<Rightarrow>
      case nv_credential env secret of None \<Rightarrow> (w, Inl (ErrMsg ''decode node credential bundle''))
      | Some (kind, key) \<Rightarrow>
      case nv_endpoint env (nx_api_url node) path of None \<Rightarrow> (w, Inl (ErrMsg ''url''))
      | Some u \<Rightarrow>
      if length (form_encode form) > 2 ^ 20 then (w, Inl (ErrMsg ''NPS request body exceeds 1 MiB limit''))
      else if kind \<noteq> ''signed'' then (w, Inl (ErrMsg ''unsupported node credential type''))
      else if trim_space key = '''' then (w, Inl (ErrMsg ''signed credential requires a non-empty auth key''))
      else case nv_nonce env w of (w, nonce) \<Rightarrow>
        (w, Inr (apply_nps_signature env key nonce (nv_now env w)
          \<lparr>rn_method = ''POST'', rn_url = u, rn_tls_name = nx_tls_server_name node,
            rn_content_type = ''application/x-www-form-urlencoded'', rn_body = form_encode form,
            rn_timestamp = '''', rn_nonce = '''', rn_signature = ''''\<rparr>)))"

datatype error_kind = ErrorAuthentication | ErrorMethod | ErrorBusiness | ErrorHTTP

definition classify_nps_http_error :: "int \<Rightarrow> error_kind" where
  "classify_nps_http_error status = (if status = 401 then ErrorAuthentication
     else if status = 405 then ErrorMethod else ErrorHTTP)"

definition api_error :: "error_kind \<Rightarrow> store_error" where
  "api_error k = ErrMsg (case k of ErrorAuthentication \<Rightarrow> ''authentication'' | ErrorMethod \<Rightarrow> ''method''
     | ErrorBusiness \<Rightarrow> ''business'' | ErrorHTTP \<Rightarrow> ''http'')"

definition validate_nps_business_response :: "'w node_env \<Rightarrow> string \<Rightarrow> unit res" where
  "validate_nps_business_response env payload =
     (case nv_envelope env payload of None \<Rightarrow> Inl (ErrMsg ''decode node response'')
      | Some (status, code) \<Rightarrow> if status = Some 0 \<or> code = Some 0 then Inl (api_error ErrorBusiness) else Inr ())"

definition read_reply :: "'w node_env \<Rightarrow> (string \<Rightarrow> 'a option) \<Rightarrow> node_reply \<Rightarrow> 'a res" where
  "read_reply env decode reply = (let payload = take (2 ^ 24) (rp_payload reply) in
     if rp_status reply \<noteq> 200 then Inl (api_error (classify_nps_http_error (rp_status reply)))
     else if contains_str (rp_content_type reply) ''text/html''
       then Inl (ErrMsg ''node returned HTML instead of JSON; authentication may have failed'')
     else attempt (validate_nps_business_response env payload) (\<lambda>_.
       from_row (decode payload) (ErrMsg ''decode node response'')))"

definition call :: "'w node_env \<Rightarrow> db \<Rightarrow> string \<Rightarrow> string \<Rightarrow> form \<Rightarrow> (string \<Rightarrow> 'a option) \<Rightarrow> 'w \<Rightarrow> 'w \<times> 'a res" where
  "call env db nid path form decode w = and_then (build_request env db nid path form w) (\<lambda>q w.
     case nv_exchange env q w of
       (w, None) \<Rightarrow> (w, Inl (ErrMsg ''node request''))
     | (w, Some reply) \<Rightarrow> (w, read_reply env decode reply))"

section \<open>Clients\<close>

record node_client =
  nc_client_id :: int
  nc_remark :: string
  nc_address :: string
  nc_client_enabled :: bool
  nc_connected :: bool
  nc_version :: string
  nc_inlet :: int
  nc_export :: int

record client_credentials =
  cc_username :: string
  cc_password :: string
  cc_verify_key :: string

record client_update =
  up_remark :: "string option"
  up_verify_key :: "string option"
  up_username :: "string option"
  up_password :: "string option"
  up_compress :: "bool option"
  up_crypt :: "bool option"
  up_config_conn_allow :: "bool option"
  up_rate_limit :: "int option"
  up_flow_limit :: "int option"
  up_max_conn :: "int option"
  up_max_tunnel :: "int option"
  up_web_username :: "string option"
  up_web_password :: "string option"

definition all_rows :: form where
  "all_rows = [(''offset'', ''0''), (''limit'', ''10000'')]"

definition client_of_raw :: "raw_client \<Rightarrow> node_client" where
  "client_of_raw c = \<lparr>nc_client_id = cl_id c, nc_remark = cl_remark c, nc_address = cl_addr c,
     nc_client_enabled = cl_status c, nc_connected = cl_connected c, nc_version = cl_version c,
     nc_inlet = (case cl_flow c of None \<Rightarrow> 0 | Some f \<Rightarrow> fl_inlet f),
     nc_export = (case cl_flow c of None \<Rightarrow> 0 | Some f \<Rightarrow> fl_export f)\<rparr>"

definition raw_clients :: "'w node_env \<Rightarrow> db \<Rightarrow> string \<Rightarrow> 'w \<Rightarrow> 'w \<times> raw_client list res" where
  "raw_clients env db nid w = call env db nid ''/client/list/'' all_rows (nv_clients env) w"

definition list_clients :: "'w node_env \<Rightarrow> db \<Rightarrow> string \<Rightarrow> 'w \<Rightarrow> 'w \<times> node_client list res" where
  "list_clients env db nid w = and_then (raw_clients env db nid w) (\<lambda>rows w. (w, Inr (map client_of_raw rows)))"

text \<open>Whether the node answered, and what is recorded of it.\<close>

definition health :: "'w node_env \<Rightarrow> string \<Rightarrow> 'w \<Rightarrow> db \<Rightarrow> ('w \<times> db) \<times> bool" where
  "health env nid w db = (case list_clients env db nid w of (w, r) \<Rightarrow>
     ((w, fst (update_node_health nid (if isl r then ''unreachable'' else ''healthy'') (nv_now env w) db)), \<not> isl r))"

definition get_raw_client :: "'w node_env \<Rightarrow> db \<Rightarrow> string \<Rightarrow> int \<Rightarrow> 'w \<Rightarrow> 'w \<times> raw_client res" where
  "get_raw_client env db nid cid w =
     (if cid < 1 then (w, Inl (ErrMsg ''client id must be positive''))
      else and_then (call env db nid ''/client/getclient/'' [(''id'', itoa cid)] (nv_client env) w) (\<lambda>(code, c) w.
        if code \<noteq> 1 \<or> cl_id c \<noteq> cid then (w, Inl (ErrMsg ''client was not found on node'')) else (w, Inr c)))"

definition client_credentials_of :: "'w node_env \<Rightarrow> db \<Rightarrow> string \<Rightarrow> int \<Rightarrow> 'w \<Rightarrow> 'w \<times> client_credentials res" where
  "client_credentials_of env db nid cid w = and_then (get_raw_client env db nid cid w) (\<lambda>c w. (w, Inr
     \<lparr>cc_username = (case cl_config c of None \<Rightarrow> '''' | Some f \<Rightarrow> cfg_username f),
       cc_password = (case cl_config c of None \<Rightarrow> '''' | Some f \<Rightarrow> cfg_password f),
       cc_verify_key = cl_verify_key c\<rparr>))"

definition bool_form :: "bool \<Rightarrow> string" where
  "bool_form b = (if b then ''1'' else ''0'')"

definition complete_client_form :: "raw_client \<Rightarrow> form" where
  "complete_client_form c = [(''id'', itoa (cl_id c)), (''remark'', cl_remark c), (''vkey'', cl_verify_key c),
     (''rate_limit'', itoa (cl_rate_limit c)), (''max_conn'', itoa (cl_max_conn c)),
     (''max_tunnel'', itoa (cl_max_tunnel c)), (''web_username'', cl_web_user c),
     (''web_password'', cl_web_pass c), (''config_conn_allow'', bool_form (cl_config_ok c))]
   @ (case cl_config c of
        Some f \<Rightarrow> [(''u'', cfg_username f), (''p'', cfg_password f), (''compress'', bool_form (cfg_compress f)),
          (''crypt'', bool_form (cfg_crypt f))]
      | None \<Rightarrow> [(''u'', ''''), (''p'', ''''), (''compress'', ''0''), (''crypt'', ''0'')])
   @ [(''flow_limit'', itoa (case cl_flow c of None \<Rightarrow> 0 | Some f \<Rightarrow> fl_limit f))]"

definition given :: "'a option \<Rightarrow> ('a \<Rightarrow> 's \<Rightarrow> 's) \<Rightarrow> 's \<Rightarrow> 's" where
  "given x f s = (case x of None \<Rightarrow> s | Some a \<Rightarrow> f a s)"

definition apply_client_update :: "client_update \<Rightarrow> raw_client \<Rightarrow> raw_client" where
  "apply_client_update u c = (let
     config = (case cl_config c of Some f \<Rightarrow> f | None \<Rightarrow> \<lparr>cfg_username = '''', cfg_password = '''', cfg_compress = False, cfg_crypt = False\<rparr>);
     flow = (case cl_flow c of Some f \<Rightarrow> f | None \<Rightarrow> \<lparr>fl_inlet = 0, fl_export = 0, fl_limit = 0\<rparr>);
     c = given (up_remark u) (\<lambda>x c. c\<lparr>cl_remark := x\<rparr>) c;
     c = given (up_verify_key u) (\<lambda>x c. c\<lparr>cl_verify_key := x\<rparr>) c;
     config = given (up_username u) (\<lambda>x f. f\<lparr>cfg_username := x\<rparr>) config;
     config = given (up_password u) (\<lambda>x f. f\<lparr>cfg_password := x\<rparr>) config;
     config = given (up_compress u) (\<lambda>x f. f\<lparr>cfg_compress := x\<rparr>) config;
     config = given (up_crypt u) (\<lambda>x f. f\<lparr>cfg_crypt := x\<rparr>) config;
     c = given (up_config_conn_allow u) (\<lambda>x c. c\<lparr>cl_config_ok := x\<rparr>) c;
     c = given (up_rate_limit u) (\<lambda>x c. c\<lparr>cl_rate_limit := x\<rparr>) c;
     flow = given (up_flow_limit u) (\<lambda>x f. f\<lparr>fl_limit := x\<rparr>) flow;
     c = given (up_max_conn u) (\<lambda>x c. c\<lparr>cl_max_conn := x\<rparr>) c;
     c = given (up_max_tunnel u) (\<lambda>x c. c\<lparr>cl_max_tunnel := x\<rparr>) c;
     c = given (up_web_username u) (\<lambda>x c. c\<lparr>cl_web_user := x\<rparr>) c;
     c = given (up_web_password u) (\<lambda>x c. c\<lparr>cl_web_pass := x\<rparr>) c
     in c\<lparr>cl_config := Some config, cl_flow := Some flow\<rparr>)"

definition update_client :: "'w node_env \<Rightarrow> db \<Rightarrow> string \<Rightarrow> int \<Rightarrow> client_update \<Rightarrow> 'w \<Rightarrow> 'w \<times> unit res" where
  "update_client env db nid cid u w = and_then (get_raw_client env db nid cid w) (\<lambda>c w.
     and_then (call env db nid ''/client/edit/'' (complete_client_form (apply_client_update u c)) (nv_action env) w)
       (\<lambda>_ w. (w, Inr ())))"

definition update_client_basic ::
  "'w node_env \<Rightarrow> db \<Rightarrow> string \<Rightarrow> int list \<Rightarrow> string \<Rightarrow> string \<Rightarrow> 'w \<Rightarrow> 'w \<times> unit res" where
  "update_client_basic env db nid ids username password w =
     (if ids = [] then (w, Inl (ErrMsg ''at least one client id is required''))
      else if list_ex (\<lambda>i. i < 1) ids then (w, Inl (ErrMsg ''client id must be positive''))
      else and_then (call env db nid ''/client/basic/'' [(''ids'', join_with CHR '','' (map itoa ids)), (''u'', username), (''p'', password)]
        (nv_action env) w) (\<lambda>_ w. (w, Inr ())))"

text \<open>The actions that are confirmed by the status one.\<close>

definition confirmed :: "'w node_env \<Rightarrow> db \<Rightarrow> string \<Rightarrow> string \<Rightarrow> form \<Rightarrow> 'w \<Rightarrow> 'w \<times> unit res" where
  "confirmed env db nid path form w = and_then (call env db nid path form (nv_action env) w) (\<lambda>(status, msg) w.
     if status \<noteq> 1 then (w, Inl (ErrMsg (''node rejected the operation: '' @ msg))) else (w, Inr ()))"

definition new_client_form :: "string \<Rightarrow> string \<Rightarrow> string \<Rightarrow> string \<Rightarrow> form" where
  "new_client_form remark key username password = [(''remark'', remark), (''vkey'', key), (''u'', username), (''p'', password),
     (''compress'', ''0''), (''crypt'', ''1''), (''config_conn_allow'', ''0''), (''rate_limit'', ''0''), (''flow_limit'', ''0''),
     (''max_conn'', ''0''), (''max_tunnel'', ''0''), (''web_username'', ''''), (''web_password'', '''')]"

definition duplicate_verify_key :: store_error where
  "duplicate_verify_key = ErrMsg ''client verify key already exists''"

definition create_client ::
  "'w node_env \<Rightarrow> db \<Rightarrow> string \<Rightarrow> string \<Rightarrow> string \<Rightarrow> string \<Rightarrow> string \<Rightarrow> 'w \<Rightarrow> 'w \<times> node_client res" where
  "create_client env db nid remark key username password w =
     (if trim_space remark = '''' \<or> trim_space key = '''' \<or> username = '''' \<or> password = ''''
      then (w, Inl (ErrMsg ''client remark and generated credentials are required''))
      else and_then (raw_clients env db nid w) (\<lambda>existing w.
        if list_ex (\<lambda>c. cl_verify_key c = key) existing then (w, Inl duplicate_verify_key)
        else and_then (confirmed env db nid ''/client/add/'' (new_client_form remark key username password) w) (\<lambda>_ w.
          and_then (raw_clients env db nid w) (\<lambda>rows w.
            case List.find (\<lambda>c. cl_verify_key c = key) rows of
              Some c \<Rightarrow> (w, Inr ((client_of_raw c)\<lparr>nc_inlet := 0, nc_export := 0\<rparr>))
            | None \<Rightarrow> (w, Inl (ErrMsg ''node accepted client but it was not returned by verification query''))))))"

definition delete_client :: "'w node_env \<Rightarrow> db \<Rightarrow> string \<Rightarrow> int \<Rightarrow> 'w \<Rightarrow> 'w \<times> unit res" where
  "delete_client env db nid cid w =
     (if cid < 1 then (w, Inl (ErrMsg ''client id must be positive''))
      else confirmed env db nid ''/client/del/'' [(''id'', itoa cid)] w)"

section \<open>Managed tunnels\<close>

record managed_tunnel =
  mt_id :: int
  mt_client_id :: int
  mt_client_name :: string
  mt_port :: int
  mt_configured :: bool
  mt_running :: bool
  mt_active :: bool
  mt_countdown :: bool
  mt_last_active_at :: int
  mt_idle_seconds :: int
  mt_remaining_seconds :: int
  mt_auto_close_at :: int
  mt_auto_close_timeout :: int
  mt_inlet :: int
  mt_export :: int
  mt_observed_at :: instant

definition tunnel_of_status :: "instant \<Rightarrow> raw_socks_status \<Rightarrow> managed_tunnel" where
  "tunnel_of_status now s = \<lparr>mt_id = st_id s, mt_client_id = st_client_id s, mt_client_name = '''', mt_port = 0,
     mt_configured = st_enabled s, mt_running = st_running s, mt_active = st_active s, mt_countdown = st_countdown s,
     mt_last_active_at = st_last_active_at s, mt_idle_seconds = st_idle_seconds s,
     mt_remaining_seconds = st_remaining_seconds s, mt_auto_close_at = st_auto_close_at s,
     mt_auto_close_timeout = st_auto_close_timeout s, mt_inlet = st_inlet s, mt_export = st_export s,
     mt_observed_at = now\<rparr>"

definition managed_tunnel_status :: "'w node_env \<Rightarrow> db \<Rightarrow> string \<Rightarrow> int \<Rightarrow> 'w \<Rightarrow> 'w \<times> managed_tunnel res" where
  "managed_tunnel_status env db nid cid w =
     (if cid < 1 then (w, Inl (ErrMsg ''client id must be positive''))
      else and_then (call env db nid ''/index/socksstatus/'' [(''client_id'', itoa cid)] (nv_socks_status env) w) (\<lambda>(code, s) w.
        if code \<noteq> 1 \<or> st_client_id s \<noteq> cid then (w, Inl (ErrMsg ''managed tunnel was not found''))
        else (w, Inr (tunnel_of_status (nv_now env w) s))))"

fun tunnel_rows :: "'w node_env \<Rightarrow> db \<Rightarrow> string \<Rightarrow> raw_tunnel list \<Rightarrow> 'w \<Rightarrow> 'w \<times> managed_tunnel list res" where
  "tunnel_rows env db nid [] w = (w, Inr [])"
| "tunnel_rows env db nid (t # ts) w = (let
     cid = (case tu_client t of None \<Rightarrow> 0 | Some c \<Rightarrow> cl_id c);
     name = (case tu_client t of None \<Rightarrow> '''' | Some c \<Rightarrow> cl_remark c) in
     and_then (managed_tunnel_status env db nid (if cid = 0 then tu_id t else cid) w) (\<lambda>s w.
     and_then (tunnel_rows env db nid ts w) (\<lambda>rest w.
       (w, Inr (s\<lparr>mt_id := tu_id t, mt_client_id := cid, mt_client_name := name, mt_port := tu_port t\<rparr> # rest)))))"

definition list_managed_tunnels :: "'w node_env \<Rightarrow> db \<Rightarrow> string \<Rightarrow> 'w \<Rightarrow> 'w \<times> managed_tunnel list res" where
  "list_managed_tunnels env db nid w =
     and_then (call env db nid ''/index/gettunnel/'' (all_rows @ [(''type'', ''socks5'')]) (nv_tunnels env) w) (tunnel_rows env db nid)"

text \<open>The loop that polls until the state is reached or the time is over.\<close>

fun wait_until :: "nat \<Rightarrow> ('w \<Rightarrow> 'w \<times> bool) \<Rightarrow> 'w \<Rightarrow> 'w \<times> unit res" where
  "wait_until 0 poll w = (w, Inl (ErrMsg ''did not reach requested state''))"
| "wait_until (Suc n) poll w = (case poll w of (w, ok) \<Rightarrow> if ok then (w, Inr ()) else wait_until n poll w)"

definition action_path :: "bool \<Rightarrow> string" where
  "action_path running = (if running then ''/index/start/'' else ''/index/stop/'')"

definition set_managed_tunnel :: "'w node_env \<Rightarrow> nat \<Rightarrow> db \<Rightarrow> string \<Rightarrow> int \<Rightarrow> bool \<Rightarrow> 'w \<Rightarrow> 'w \<times> unit res" where
  "set_managed_tunnel env polls db nid cid running w =
     (if cid < 1 then (w, Inl (ErrMsg ''client id must be positive''))
      else and_then (managed_tunnel_status env db nid cid w) (\<lambda>s w.
        if mt_running s = running then (w, Inr ())
        else and_then (confirmed env db nid (action_path running) [(''id'', itoa cid), (''type'', ''socks5'')] w) (\<lambda>_ w.
          wait_until polls (\<lambda>w. case managed_tunnel_status env db nid cid w of
              (w, Inr s) \<Rightarrow> (w, mt_running s = running) | (w, Inl _) \<Rightarrow> (w, False)) w)))"

section \<open>Port forwards of a node\<close>

record node_forward =
  nf_id :: int
  nf_client_id :: int
  nf_client_name :: string
  nf_port :: int
  nf_target :: string
  nf_remark :: string
  nf_configured :: bool
  nf_running :: bool
  nf_inlet :: int
  nf_export :: int

definition forward_of_raw :: "raw_tunnel \<Rightarrow> node_forward" where
  "forward_of_raw t = \<lparr>nf_id = tu_id t,
     nf_client_id = (case tu_client t of None \<Rightarrow> 0 | Some c \<Rightarrow> cl_id c),
     nf_client_name = (case tu_client t of None \<Rightarrow> '''' | Some c \<Rightarrow> cl_remark c),
     nf_port = tu_port t,
     nf_target = (case tu_target t of None \<Rightarrow> tu_target_addr t | Some x \<Rightarrow> if x \<noteq> '''' then x else tu_target_addr t),
     nf_remark = tu_remark t, nf_configured = tu_status t, nf_running = tu_run_status t,
     nf_inlet = (case tu_flow t of None \<Rightarrow> 0 | Some f \<Rightarrow> fl_inlet f),
     nf_export = (case tu_flow t of None \<Rightarrow> 0 | Some f \<Rightarrow> fl_export f)\<rparr>"

definition node_port_forwards :: "'w node_env \<Rightarrow> db \<Rightarrow> string \<Rightarrow> int \<Rightarrow> 'w \<Rightarrow> 'w \<times> node_forward list res" where
  "node_port_forwards env db nid cid w = and_then
     (call env db nid ''/index/gettunnel/'' (all_rows @ [(''type'', ''portForward'')]
        @ (if cid > 0 then [(''client_id'', itoa cid)] else [])) (nv_tunnels env) w)
     (\<lambda>rows w. (w, Inr (map forward_of_raw rows)))"

definition wait_for_port_forward_state :: "'w node_env \<Rightarrow> nat \<Rightarrow> db \<Rightarrow> string \<Rightarrow> int \<Rightarrow> bool \<Rightarrow> 'w \<Rightarrow> 'w \<times> unit res" where
  "wait_for_port_forward_state env polls db nid tid running w = wait_until polls (\<lambda>w.
     case node_port_forwards env db nid 0 w of
       (w, Inr fs) \<Rightarrow> (w, list_ex (\<lambda>f. nf_id f = tid \<and> nf_running f = running) fs) | (w, Inl _) \<Rightarrow> (w, False)) w"

definition set_port_forward :: "'w node_env \<Rightarrow> nat \<Rightarrow> db \<Rightarrow> string \<Rightarrow> int \<Rightarrow> bool \<Rightarrow> 'w \<Rightarrow> 'w \<times> unit res" where
  "set_port_forward env polls db nid tid running w =
     (if tid < 1 then (w, Inl (ErrMsg ''task id must be positive''))
      else and_then (confirmed env db nid (action_path running) [(''id'', itoa tid), (''type'', ''portForward'')] w) (\<lambda>_.
        wait_for_port_forward_state env polls db nid tid running))"

text \<open>A forward that exists is started when it does not run.\<close>

definition ensure_running :: "'w node_env \<Rightarrow> nat \<Rightarrow> db \<Rightarrow> string \<Rightarrow> node_forward \<Rightarrow> 'w \<Rightarrow> 'w \<times> node_forward res" where
  "ensure_running env polls db nid f w =
     (if nf_running f then (w, Inr f)
      else and_then (set_port_forward env polls db nid (nf_id f) True w) (\<lambda>_ w. (w, Inr (f\<lparr>nf_running := True\<rparr>))))"

definition create_port_forward ::
  "'w node_env \<Rightarrow> nat \<Rightarrow> db \<Rightarrow> string \<Rightarrow> int \<Rightarrow> int \<Rightarrow> string \<Rightarrow> string \<Rightarrow> 'w \<Rightarrow> 'w \<times> node_forward res" where
  "create_port_forward env polls db nid cid port target remark w =
     (if cid < 1 \<or> port < 1 \<or> port > 65535 \<or> trim_space target = '''' then (w, Inl (ErrMsg ''invalid port forward configuration''))
      else and_then (node_port_forwards env db nid 0 w) (\<lambda>existing w.
        case List.find (\<lambda>f. nf_port f = port) existing of
          Some f \<Rightarrow> if nf_target f = target \<and> nf_client_id f = cid then ensure_running env polls db nid f w
            else (w, Inl (ErrMsg ''server port is already in use''))
        | None \<Rightarrow> and_then (confirmed env db nid ''/index/add/'' [(''type'', ''portForward''), (''client_id'', itoa cid),
              (''port'', itoa port), (''target'', target), (''remark'', remark), (''server_ip'', ''0.0.0.0'')] w) (\<lambda>_ w.
            and_then (node_port_forwards env db nid cid w) (\<lambda>created w.
              case List.find (\<lambda>f. nf_port f = port \<and> nf_target f = target \<and> nf_client_id f = cid) created of
                Some f \<Rightarrow> ensure_running env polls db nid f w
              | None \<Rightarrow> (w, Inl (ErrMsg ''node accepted port forward but it was not returned by verification query''))))))"

definition node_delete_port_forward :: "'w node_env \<Rightarrow> db \<Rightarrow> string \<Rightarrow> int \<Rightarrow> 'w \<Rightarrow> 'w \<times> unit res" where
  "node_delete_port_forward env db nid tid w =
     (if tid < 1 then (w, Inl (ErrMsg ''task id must be positive''))
      else confirmed env db nid ''/index/del/'' [(''id'', itoa tid), (''type'', ''portForward'')] w)"

definition node_socks_route :: "'w node_env \<Rightarrow> db \<Rightarrow> string \<Rightarrow> int \<Rightarrow> 'w \<Rightarrow> 'w \<times> socks_route res" where
  "node_socks_route env db nid cid w =
     (if cid < 1 then (w, Inl (ErrMsg ''client id must be positive''))
      else case get_node_connection nid db of Inl e \<Rightarrow> (w, Inl e)
      | Inr node \<Rightarrow>
      if \<not> nx_enabled node then (w, Inl (ErrMsg ''node is disabled''))
      else case nv_parse_url env (nx_api_url node) of None \<Rightarrow> (w, Inl (ErrMsg ''node API host is invalid''))
      | Some u \<Rightarrow>
      if trim_space (url_hostname u) = '''' then (w, Inl (ErrMsg ''node API host is invalid''))
      else and_then (get_raw_client env db nid cid w) (\<lambda>c w.
        case cl_config c of None \<Rightarrow> (w, Inl (ErrMsg ''client has no SOCKS credential configuration''))
        | Some config \<Rightarrow> and_then (call env db nid ''/index/getonetunnel/'' [(''id'', itoa cid), (''type'', ''socks5'')] (nv_tunnel env) w)
          (\<lambda>(code, t) w. if code \<noteq> 1 \<or> tu_id t \<noteq> cid \<or> tu_port t < 1 \<or> tu_port t > 65535
             then (w, Inl (ErrMsg ''managed tunnel has no valid route''))
             else (w, Inr \<lparr>so_address = join_host_port (url_hostname u) (itoa (tu_port t)),
               so_username = cfg_username config, so_password = cfg_password config\<rparr>))))"

section \<open>Properties\<close>

text \<open>The fields of the edit form that an update names, with their new texts.\<close>

definition opt_field :: "string \<Rightarrow> ('a \<Rightarrow> string) \<Rightarrow> 'a option \<Rightarrow> form" where
  "opt_field name text x = (case x of None \<Rightarrow> [] | Some a \<Rightarrow> [(name, text a)])"

definition update_fields :: "client_update \<Rightarrow> form" where
  "update_fields u = opt_field ''remark'' id (up_remark u) @ opt_field ''vkey'' id (up_verify_key u)
     @ opt_field ''u'' id (up_username u) @ opt_field ''p'' id (up_password u)
     @ opt_field ''compress'' bool_form (up_compress u) @ opt_field ''crypt'' bool_form (up_crypt u)
     @ opt_field ''config_conn_allow'' bool_form (up_config_conn_allow u)
     @ opt_field ''rate_limit'' itoa (up_rate_limit u) @ opt_field ''flow_limit'' itoa (up_flow_limit u)
     @ opt_field ''max_conn'' itoa (up_max_conn u) @ opt_field ''max_tunnel'' itoa (up_max_tunnel u)
     @ opt_field ''web_username'' id (up_web_username u) @ opt_field ''web_password'' id (up_web_password u)"

definition field_or :: "string \<Rightarrow> form \<Rightarrow> string \<Rightarrow> string" where
  "field_or name f current = (case map_of f name of None \<Rightarrow> current | Some v \<Rightarrow> v)"






lemma field_or_fields:
  "field_or k (update_fields u) v = (case map_of (update_fields u) k of None \<Rightarrow> v | Some x \<Rightarrow> x)"
  by (simp add: field_or_def)








lemma find_SomeD: "List.find P xs = Some x \<Longrightarrow> P x"
  by (auto simp: find_Some_iff)

lemma ensure_running_exact:
  "ensure_running env polls db nid f w = (w', Inr g) \<Longrightarrow> g = f\<lparr>nf_running := True\<rparr>"
  by (auto simp: ensure_running_def and_then_Inr split: if_splits)

text \<open>A forward that is returned is the one that was asked for, and it runs.\<close>

lemma forward_created_matches:
  assumes "create_port_forward env polls db nid cid port target remark w = (w', Inr f)"
  shows "nf_port f = port \<and> nf_target f = target \<and> nf_client_id f = cid \<and> nf_running f \<and> port \<in> {1..65535}"
proof -
  have range: "1 \<le> cid" "1 \<le> port" "port \<le> 65535" "trim_space target \<noteq> ''''"
    using assms by (auto simp: create_port_forward_def split: if_splits)
  then obtain w1 existing where steps:
    "(case List.find (\<lambda>f. nf_port f = port) existing of
       Some f \<Rightarrow> if nf_target f = target \<and> nf_client_id f = cid then ensure_running env polls db nid f w1
         else (w1, Inl (ErrMsg ''server port is already in use''))
     | None \<Rightarrow> and_then (confirmed env db nid ''/index/add/'' [(''type'', ''portForward''), (''client_id'', itoa cid),
           (''port'', itoa port), (''target'', target), (''remark'', remark), (''server_ip'', ''0.0.0.0'')] w1) (\<lambda>_ w.
         and_then (node_port_forwards env db nid cid w) (\<lambda>created w.
           case List.find (\<lambda>f. nf_port f = port \<and> nf_target f = target \<and> nf_client_id f = cid) created of
             Some f \<Rightarrow> ensure_running env polls db nid f w
           | None \<Rightarrow> (w, Inl (ErrMsg ''node accepted port forward but it was not returned by verification query'')))))
     = (w', Inr f)"
    using assms by (simp add: create_port_forward_def and_then_Inr) blast
  have "\<exists>g u. ensure_running env polls db nid g u = (w', Inr f)
      \<and> nf_port g = port \<and> nf_target g = target \<and> nf_client_id g = cid"
  proof (cases "List.find (\<lambda>f. nf_port f = port) existing")
    case None
    then obtain w3 created where
      "(case List.find (\<lambda>f. nf_port f = port \<and> nf_target f = target \<and> nf_client_id f = cid) created of
         Some f \<Rightarrow> ensure_running env polls db nid f w3
       | None \<Rightarrow> (w3, Inl (ErrMsg ''node accepted port forward but it was not returned by verification query'')))
       = (w', Inr f)"
      using steps by (simp add: and_then_Inr) blast
    then show ?thesis by (auto dest: find_SomeD split: option.splits)
  next
    case (Some g) then show ?thesis using steps by (auto dest: find_SomeD split: if_splits)
  qed
  then show ?thesis using ensure_running_exact range by fastforce
qed

end
