(* ===== verification/Lifecycle.thy ===== *)
theory Lifecycle
  imports StoreForwards NodeAdapter
begin

text \<open>
  The periodic cleanup of \<open>lifecycle/manager.go\<close>: \<open>sweep\<close> is \<open>Sweep\<close>. For every expired port
  forward the task on the node is deleted first and the row only after the node has confirmed it;
  when it has not, the row is kept as \<open>cleanup_failed\<close> and the next sweep finds it again. Then the
  access sessions are expired and the login sessions cleaned up. The node is the parameter
  \<open>sv_delete\<close>, which is \<open>node_delete_port_forward\<close> in the program; \<open>sv_audit_id\<close> and \<open>sv_clock\<close>
  are the identifier and the time of the audit row that is written for a forward.
\<close>

section \<open>The sweep\<close>

record 'w sweep_env =
  sv_delete :: "db \<Rightarrow> string \<Rightarrow> int \<Rightarrow> 'w \<Rightarrow> 'w \<times> unit res"
  sv_audit_id :: "string \<Rightarrow> string"
  sv_clock :: "string \<Rightarrow> instant"

definition node_sweep_env :: "'w node_env \<Rightarrow> (string \<Rightarrow> string) \<Rightarrow> (string \<Rightarrow> instant) \<Rightarrow> 'w sweep_env" where
  "node_sweep_env env aid clk = \<lparr>sv_delete = node_delete_port_forward env, sv_audit_id = aid, sv_clock = clk\<rparr>"

definition system_audit :: "string \<Rightarrow> string \<Rightarrow> string \<Rightarrow> string \<Rightarrow> audit_input" where
  "system_audit action resource_type resource_id result = \<lparr>ai_actor = ''system'', ai_action = action,
     ai_resource_type = resource_type, ai_resource_id = resource_id, ai_result = result,
     ai_request_id = '''', ai_source_ip = '''', ai_metadata = Blank\<rparr>"

definition keep_for_retry :: "'w sweep_env \<Rightarrow> string \<Rightarrow> db \<Rightarrow> db" where
  "keep_for_retry env fid db = fst (set_port_forward_status (sv_audit_id env fid) (sv_clock env fid) fid ''cleanup_failed''
     (system_audit ''port_forward.expire_cleanup_failed'' ''port_forward'' fid ''failed'') db)"

definition release_forward :: "'w sweep_env \<Rightarrow> string \<Rightarrow> db \<Rightarrow> db" where
  "release_forward env fid db = fst (delete_port_forward (sv_audit_id env fid) (sv_clock env fid) fid
     (system_audit ''port_forward.expire'' ''port_forward'' fid ''success'') db)"

definition sweep_forward :: "'w sweep_env \<Rightarrow> port_forward \<Rightarrow> 'w \<times> db \<Rightarrow> 'w \<times> db" where
  "sweep_forward env v = (\<lambda>(w, db). case fwd_node_task_id v of
       None \<Rightarrow> (w, release_forward env (fwd_id v) db)
     | Some task \<Rightarrow>
         if fwd_node_task_type v \<noteq> ''portForward'' then (w, keep_for_retry env (fwd_id v) db)
         else (case sv_delete env db (fwd_node_id v) task w of
             (w, Inl e) \<Rightarrow> (w, keep_for_retry env (fwd_id v) db)
           | (w, Inr _) \<Rightarrow> (w, release_forward env (fwd_id v) db)))"

definition sweep :: "'w sweep_env \<Rightarrow> instant \<Rightarrow> instant \<Rightarrow> 'w \<times> db \<Rightarrow> 'w \<times> db" where
  "sweep env idle_ttl now = (\<lambda>(w, db). case fold (sweep_forward env) (list_expired_port_forwards now db) (w, db) of
     (w, db) \<Rightarrow> (w, fst (cleanup_auth_sessions now (fst (expire_access_sessions now (now - idle_ttl) db)))))"

section \<open>What a step does to the rows\<close>

text \<open>The other tables of the join are untouched, and every row that is left is an old one, up to its status.\<close>

definition same_forward :: "forward_row \<Rightarrow> forward_row \<Rightarrow> bool" where
  "same_forward f g \<longleftrightarrow> f\<lparr>pf_status := '''', pf_updated_at := 0\<rparr> = g\<lparr>pf_status := '''', pf_updated_at := 0\<rparr>"

definition swept :: "db \<Rightarrow> db \<Rightarrow> bool" where
  "swept db db' \<longleftrightarrow> t_endpoints db' = t_endpoints db \<and> t_devices db' = t_devices db \<and> t_projects db' = t_projects db
     \<and> (\<forall>g\<in>set (t_forwards db'). \<exists>f\<in>set (t_forwards db). same_forward f g)"

definition joined :: "db \<Rightarrow> port_forward list" where
  "joined db = List.map_filter (joined_forward db) (t_forwards db)"

text \<open>The tasks on the nodes that the rows account for.\<close>

definition tracked :: "db \<Rightarrow> (string \<times> int) set" where
  "tracked db = {(fwd_node_id v, t) | v t. v \<in> set (joined db) \<and> fwd_node_task_id v = Some t}"

lemma same_forward_fields:
  "same_forward f g \<Longrightarrow> pf_id f = pf_id g \<and> pf_endpoint_id f = pf_endpoint_id g
     \<and> pf_node_task_id f = pf_node_task_id g \<and> pf_node_task_type f = pf_node_task_type g
     \<and> pf_expires_at f = pf_expires_at g"
  by (cases f; cases g) (simp add: same_forward_def)

lemma same_forward_refl [simp]: "same_forward f f"
  by (simp add: same_forward_def)

lemma same_forward_trans: "same_forward f g \<Longrightarrow> same_forward g h \<Longrightarrow> same_forward f h"
  by (simp add: same_forward_def)

lemma swept_refl [simp]: "swept db db"
  by (auto simp: swept_def intro: same_forward_refl)

lemma swept_trans: "swept a b \<Longrightarrow> swept b c \<Longrightarrow> swept a c"
  unfolding swept_def by (metis same_forward_trans)

lemma keep_for_retry_cases:
  obtains "keep_for_retry env fid db = db"
  | r where "keep_for_retry env fid db = db\<lparr>t_forwards := upd_where (\<lambda>f. pf_id f = fid)
      (\<lambda>f. f\<lparr>pf_status := ''cleanup_failed'', pf_updated_at := sv_clock env fid\<rparr>) (t_forwards db),
      t_audit_logs := t_audit_logs db @ [r]\<rparr>"
proof -
  have "keep_for_retry env fid db = db \<or> (\<exists>r. keep_for_retry env fid db = db\<lparr>t_forwards := upd_where (\<lambda>f. pf_id f = fid)
      (\<lambda>f. f\<lparr>pf_status := ''cleanup_failed'', pf_updated_at := sv_clock env fid\<rparr>) (t_forwards db),
      t_audit_logs := t_audit_logs db @ [r]\<rparr>)"
    unfolding keep_for_retry_def set_port_forward_status_def
    by (rule run_tx_cases[of db]) (auto simp: attempt_Inr_iff update_forwards_def dest!: insert_audit_Inr)
  then show ?thesis using that by blast
qed

lemma release_forward_cases:
  obtains "release_forward env fid db = db"
  | r where "release_forward env fid db = db\<lparr>t_forwards := del_where (\<lambda>f. pf_id f = fid) (t_forwards db),
      t_audit_logs := t_audit_logs db @ [r]\<rparr>"
proof -
  have "release_forward env fid db = db \<or> (\<exists>r. release_forward env fid db
      = db\<lparr>t_forwards := del_where (\<lambda>f. pf_id f = fid) (t_forwards db), t_audit_logs := t_audit_logs db @ [r]\<rparr>)"
    unfolding release_forward_def delete_port_forward_def
    by (rule run_tx_cases[of db]) (auto simp: attempt_Inr_iff delete_forwards_def dest!: insert_audit_Inr)
  then show ?thesis using that by blast
qed

lemma keep_for_retry_swept: "swept db (keep_for_retry env fid db)"
  by (rule keep_for_retry_cases[of env fid db])
     (auto simp: swept_def same_forward_def upd_where_def)

lemma release_forward_swept: "swept db (release_forward env fid db)"
  by (rule release_forward_cases[of env fid db]) (auto simp: swept_def same_forward_def)

lemma sweep_forward_swept: "swept db (snd (sweep_forward env v (w, db)))"
  by (auto simp: sweep_forward_def keep_for_retry_swept release_forward_swept split: option.split prod.split sum.split)

lemma swept_join: "swept db db' \<Longrightarrow> endpoint_join e db' = endpoint_join e db"
  by (simp add: swept_def endpoint_join_def cong: option.case_cong)

lemma in_map_filter: "y \<in> set (List.map_filter f xs) \<longleftrightarrow> (\<exists>x\<in>set xs. f x = Some y)"
  by (induction xs) (auto simp: List.map_filter_def)

text \<open>A row and the view of it in the join.\<close>

lemma joined_forward_Some:
  "joined_forward db f = Some v \<longleftrightarrow> (\<exists>e d p. endpoint_join (pf_endpoint_id f) db = Some (e, d, p) \<and> v = forward_view f e d p)"
  by (auto simp: joined_forward_def split: option.splits prod.splits)

lemma tracked_iff:
  "(n, t) \<in> tracked db \<longleftrightarrow> (\<exists>f\<in>set (t_forwards db). \<exists>e d p. endpoint_join (pf_endpoint_id f) db = Some (e, d, p)
     \<and> p_node_id p = n \<and> pf_node_task_id f = Some t)"
proof
  assume "(n, t) \<in> tracked db"
  then show "\<exists>f\<in>set (t_forwards db). \<exists>e d p. endpoint_join (pf_endpoint_id f) db = Some (e, d, p)
     \<and> p_node_id p = n \<and> pf_node_task_id f = Some t"
    by (auto simp: tracked_def joined_def in_map_filter joined_forward_Some forward_view_def) blast
next
  assume "\<exists>f\<in>set (t_forwards db). \<exists>e d p. endpoint_join (pf_endpoint_id f) db = Some (e, d, p)
     \<and> p_node_id p = n \<and> pf_node_task_id f = Some t"
  then obtain f e d p where f: "f \<in> set (t_forwards db)" "endpoint_join (pf_endpoint_id f) db = Some (e, d, p)"
    "p_node_id p = n" "pf_node_task_id f = Some t" by blast
  then have "forward_view f e d p \<in> set (joined db)" by (auto simp: joined_def in_map_filter joined_forward_Some)
  moreover have "fwd_node_id (forward_view f e d p) = n" "fwd_node_task_id (forward_view f e d p) = Some t"
    using f by (simp_all add: forward_view_def)
  ultimately show "(n, t) \<in> tracked db" unfolding tracked_def by blast
qed

lemma tracked_keep: "tracked (keep_for_retry env fid db) = tracked db"
proof -
  have "(n, t) \<in> tracked (keep_for_retry env fid db) \<longleftrightarrow> (n, t) \<in> tracked db" for n t
  proof (rule keep_for_retry_cases[of env fid db])
    fix r
    assume k: "keep_for_retry env fid db = db\<lparr>t_forwards := upd_where (\<lambda>f. pf_id f = fid)
      (\<lambda>f. f\<lparr>pf_status := ''cleanup_failed'', pf_updated_at := sv_clock env fid\<rparr>) (t_forwards db),
      t_audit_logs := t_audit_logs db @ [r]\<rparr>"
    show ?thesis unfolding tracked_iff swept_join[OF keep_for_retry_swept] by (auto simp: k bex_upd_where)
  qed simp
  then show ?thesis by (auto simp: set_eq_iff)
qed

lemma release_keeps_others:
  "f \<in> set (t_forwards db) \<Longrightarrow> pf_id f \<noteq> fid \<Longrightarrow> f \<in> set (t_forwards (release_forward env fid db))"
  by (rule release_forward_cases[of env fid db]) simp_all

lemma tracked_release:
  "(n, t) \<in> tracked db \<Longrightarrow> (n, t) \<in> tracked (release_forward env fid db)
     \<or> (\<exists>f\<in>set (t_forwards db). pf_id f = fid \<and> pf_node_task_id f = Some t
          \<and> (\<exists>e d p. endpoint_join (pf_endpoint_id f) db = Some (e, d, p) \<and> p_node_id p = n))"
  unfolding tracked_iff swept_join[OF release_forward_swept] using release_keeps_others by blast

section \<open>No task is lost\<close>

text \<open>What a node is relied on for: it never starts a task by itself, and a task whose deletion it
confirmed does not run. \<open>tasks\<close> is what runs on the nodes.\<close>

definition deletes_reliably :: "(db \<Rightarrow> string \<Rightarrow> int \<Rightarrow> 'w \<Rightarrow> 'w \<times> unit res) \<Rightarrow> ('w \<Rightarrow> (string \<times> int) set) \<Rightarrow> bool" where
  "deletes_reliably delete tasks \<longleftrightarrow> (\<forall>db n t w w' r. delete db n t w = (w', r) \<longrightarrow>
     tasks w' \<subseteq> tasks w \<and> (r = Inr () \<longrightarrow> (n, t) \<notin> tasks w'))"

lemma deletes_reliablyD:
  "deletes_reliably delete tasks \<Longrightarrow> delete db n t w = (w', r) \<Longrightarrow>
     tasks w' \<subseteq> tasks w \<and> (r = Inr () \<longrightarrow> (n, t) \<notin> tasks w')"
  unfolding deletes_reliably_def by blast

text \<open>The row that a listed forward is a view of stays the only one with its identifier.\<close>

lemma listed_row:
  assumes "distinct (map pf_id (t_forwards db0))" "swept db0 db" "v \<in> set (joined db0)"
    and "f \<in> set (t_forwards db)" "pf_id f = fwd_id v"
  shows "pf_node_task_id f = fwd_node_task_id v \<and> pf_node_task_type f = fwd_node_task_type v
    \<and> (endpoint_join (pf_endpoint_id f) db = Some (e, d, p) \<longrightarrow> p_node_id p = fwd_node_id v)"
proof -
  obtain f0 where f0: "f0 \<in> set (t_forwards db0)" "same_forward f0 f" using assms by (auto simp: swept_def)
  obtain g e' d' p' where g: "g \<in> set (t_forwards db0)" "endpoint_join (pf_endpoint_id g) db0 = Some (e', d', p')"
      "v = forward_view g e' d' p'"
    using assms(3) by (auto simp: joined_def in_map_filter joined_forward_Some)
  have "pf_id f0 = pf_id g" using f0(2) assms(5) g(3) by (auto dest!: same_forward_fields simp: forward_view_def)
  then have "f0 = g" using key_inj[OF assms(1) f0(1) g(1)] by simp
  then show ?thesis using f0(2) g swept_join[OF assms(2)] by (auto dest!: same_forward_fields simp: forward_view_def)
qed

lemma release_loses_only:
  assumes "distinct (map pf_id (t_forwards db0))" "swept db0 db" "v \<in> set (joined db0)"
    and "(n, t) \<in> tracked db" "fwd_node_task_id v = Some t \<longrightarrow> n \<noteq> fwd_node_id v"
  shows "(n, t) \<in> tracked (release_forward env (fwd_id v) db)"
  using tracked_release[OF assms(4), of env "fwd_id v"] listed_row[OF assms(1,2,3)] assms(5) by fastforce

lemma sweep_forward_tracked:
  assumes "deletes_reliably (sv_delete env) tasks"
    and "distinct (map pf_id (t_forwards db0))" "swept db0 db" "v \<in> set (joined db0)"
    and "tasks w \<subseteq> tracked db" "sweep_forward env v (w, db) = (w', db')"
  shows "tasks w' \<subseteq> tracked db'"
proof (cases "fwd_node_task_id v")
  case None
  then show ?thesis using assms(5,6) release_loses_only[OF assms(2,3,4)] by (auto simp: sweep_forward_def)
next
  case (Some t)
  show ?thesis
  proof (cases "fwd_node_task_type v = ''portForward''")
    case True
    obtain w1 r where r: "sv_delete env db (fwd_node_id v) t w = (w1, r)" by fastforce
    note d = deletes_reliablyD[OF assms(1) r]
    show ?thesis
    proof (cases r)
      case (Inl e)
      then show ?thesis using assms(5,6) Some True d by (auto simp: sweep_forward_def r tracked_keep)
    next
      case (Inr u)
      then have "(fwd_node_id v, t) \<notin> tasks w1" "w' = w1" "db' = release_forward env (fwd_id v) db"
        using assms(6) Some True d by (auto simp: sweep_forward_def r)
      then show ?thesis using d assms(5) release_loses_only[OF assms(2,3,4)] Some by fastforce
    qed
  qed (use assms(5,6) Some in \<open>auto simp: sweep_forward_def tracked_keep\<close>)
qed

lemma sweep_forwards_tracked:
  assumes "deletes_reliably (sv_delete env) tasks" "distinct (map pf_id (t_forwards db0))"
    and "swept db0 db" "set vs \<subseteq> set (joined db0)" "tasks w \<subseteq> tracked db"
  shows "tasks (fst (fold (sweep_forward env) vs (w, db))) \<subseteq> tracked (snd (fold (sweep_forward env) vs (w, db)))"
  using assms(3-5)
proof (induction vs arbitrary: w db)
  case (Cons v vs)
  obtain w' db' where s: "sweep_forward env v (w, db) = (w', db')" by fastforce
  have "swept db0 db'" using swept_trans[OF Cons.prems(1)] sweep_forward_swept[of db env v w] by (simp add: s)
  then show ?case using Cons.IH[of db' w'] Cons.prems sweep_forward_tracked[OF assms(1,2) Cons.prems(1) _ _ s]
    by (simp add: s)
qed simp

lemma listed_joined: "set (list_expired_port_forwards now db) \<subseteq> set (joined db)"
  by (auto simp: list_expired_port_forwards_def joined_def in_map_filter)

lemma tracked_frame:
  assumes "t_forwards db' = t_forwards db" "t_endpoints db' = t_endpoints db" "t_devices db' = t_devices db"
    "t_projects db' = t_projects db"
  shows "tracked db' = tracked db"
  by (rule set_eqI, clarify, simp only: tracked_iff endpoint_join_def assms)

lemma expire_frame:
  "t_forwards (fst (expire_access_sessions now c db)) = t_forwards db"
  "t_endpoints (fst (expire_access_sessions now c db)) = t_endpoints db"
  "t_devices (fst (expire_access_sessions now c db)) = t_devices db"
  "t_projects (fst (expire_access_sessions now c db)) = t_projects db"
  by (simp_all add: expire_access_sessions_def update_access_sessions_def Let_def)

lemma cleanup_frame:
  "t_forwards (fst (cleanup_auth_sessions now db)) = t_forwards db"
  "t_endpoints (fst (cleanup_auth_sessions now db)) = t_endpoints db"
  "t_devices (fst (cleanup_auth_sessions now db)) = t_devices db"
  "t_projects (fst (cleanup_auth_sessions now db)) = t_projects db"
  by (simp_all add: cleanup_auth_sessions_def delete_challenges_def delete_auth_sessions_def Let_def)

lemma tracked_after_expiry:
  "tracked (fst (cleanup_auth_sessions now (fst (expire_access_sessions now c db)))) = tracked db"
  by (rule trans[OF tracked_frame[OF cleanup_frame] tracked_frame[OF expire_frame]])

text \<open>C38. The cleanup never loses a running forward: when every task that runs on a node has a row in the
store before a sweep, every task that still runs afterwards has one, whatever the nodes answered, so a task
whose deletion failed is found again by the next sweep.\<close>

theorem sweep_loses_no_task:
  assumes "deletes_reliably (sv_delete env) tasks" "store_inv db" "tasks w \<subseteq> tracked db"
    and "sweep env idle_ttl now (w, db) = (w', db')"
  shows "tasks w' \<subseteq> tracked db'"
proof -
  obtain w1 db1 where f: "fold (sweep_forward env) (list_expired_port_forwards now db) (w, db) = (w1, db1)" by fastforce
  have "distinct (map pf_id (t_forwards db))" using assms(2) by (auto simp: store_inv_def db_ok_def rules_defs)
  then have "tasks w1 \<subseteq> tracked db1"
    using sweep_forwards_tracked[OF assms(1) _ swept_refl listed_joined assms(3), of now] by (simp add: f)
  moreover have "w' = w1" "tracked db' = tracked db1"
    using assms(4) by (auto simp: sweep_def f tracked_after_expiry)
  ultimately show ?thesis by simp
qed

section \<open>Every expired forward is settled\<close>

definition settled :: "string \<Rightarrow> db \<Rightarrow> bool" where
  "settled fid db \<longleftrightarrow> (\<forall>f\<in>set (t_forwards db). pf_id f = fid \<longrightarrow> pf_status f = ''cleanup_failed'')"

definition audit_ids :: "db \<Rightarrow> string set" where
  "audit_ids db = al_id ` set (t_audit_logs db)"

lemma insert_audit_fresh:
  assumes "distinct (map al_id (t_audit_logs db))" "i \<notin> audit_ids db"
  shows "\<exists>r. insert_audit i a now db = Inr (db\<lparr>t_audit_logs := t_audit_logs db @ [r]\<rparr>) \<and> al_id r = i"
  using assms
  by (auto simp: insert_audit_def put_audit_logs_def audit_logs_rules_def audit_ids_def rules_defs checked_Inr_iff
      intro!: checked_holds)

lemma steps_audit_ids:
  assumes "x \<in> {keep_for_retry env fid db, release_forward env fid db}"
  shows "audit_ids x \<subseteq> insert (sv_audit_id env fid) (audit_ids db)
    \<and> (distinct (map al_id (t_audit_logs db)) \<longrightarrow> distinct (map al_id (t_audit_logs x)))"
  using assms
  unfolding keep_for_retry_def set_port_forward_status_def release_forward_def delete_port_forward_def run_tx_def
  by (auto simp: attempt_def insert_audit_def put_audit_logs_def audit_logs_rules_def audit_ids_def rules_defs
      update_forwards_def delete_forwards_def split: sum.splits if_splits)

lemma steps_keep_settled:
  assumes "x \<in> {keep_for_retry env fid db, release_forward env fid db}" "settled k db"
  shows "settled k x"
proof -
  have "settled k (keep_for_retry env fid db)"
    by (rule keep_for_retry_cases[of env fid db]) (use assms(2) in \<open>auto simp: settled_def upd_where_def\<close>)
  moreover have "settled k (release_forward env fid db)"
    by (rule release_forward_cases[of env fid db]) (use assms(2) in \<open>auto simp: settled_def\<close>)
  ultimately show ?thesis using assms(1) by blast
qed

lemma count_one_or_none:
  "distinct (map pf_id t) \<Longrightarrow> count_where (\<lambda>f. pf_id f = fid) t \<noteq> 1 \<Longrightarrow> f \<in> set t \<Longrightarrow> pf_id f \<noteq> fid"
proof -
  assume a: "distinct (map pf_id t)" "count_where (\<lambda>f. pf_id f = fid) t \<noteq> 1" "f \<in> set t"
  have "count_where (\<lambda>f. pf_id f = fid) t \<le> 1" using a(1) by (rule count_where_key_le_1) simp
  then have "count_where (\<lambda>f. pf_id f = fid) t = 0" using a(2) by linarith
  then show ?thesis using a(3) by simp
qed

lemma steps_settle:
  assumes "x \<in> {keep_for_retry env fid db, release_forward env fid db}"
    and "distinct (map pf_id (t_forwards db))" "distinct (map al_id (t_audit_logs db))"
    and "sv_audit_id env fid \<notin> audit_ids db"
  shows "settled fid x"
proof (cases "count_where (\<lambda>f. pf_id f = fid) (t_forwards db) = 1")
  case False
  then have "settled fid db" using count_one_or_none[OF assms(2)] by (auto simp: settled_def)
  then show ?thesis using steps_keep_settled[OF assms(1)] by simp
next
  case True
  define updated where "updated = update_forwards (\<lambda>f. pf_id f = fid)
    (\<lambda>f. f\<lparr>pf_status := ''cleanup_failed'', pf_updated_at := sv_clock env fid\<rparr>) db"
  define deleted where "deleted = delete_forwards (\<lambda>f. pf_id f = fid) db"
  have same: "t_audit_logs updated = t_audit_logs db" "t_audit_logs deleted = t_audit_logs db"
    by (simp_all add: updated_def deleted_def update_forwards_def delete_forwards_def)
  have ok: "distinct (map al_id (t_audit_logs d)) \<and> sv_audit_id env fid \<notin> audit_ids d" if "t_audit_logs d = t_audit_logs db" for d
    using assms(3,4) that by (simp add: audit_ids_def)
  have "\<exists>r. keep_for_retry env fid db = updated\<lparr>t_audit_logs := t_audit_logs updated @ [r]\<rparr>"
  proof -
    let ?a = "(system_audit ''port_forward.expire_cleanup_failed'' ''port_forward'' fid ''failed'')\<lparr>ai_resource_id := fid\<rparr>"
    obtain r where "insert_audit (sv_audit_id env fid) ?a (sv_clock env fid) updated
        = Inr (updated\<lparr>t_audit_logs := t_audit_logs updated @ [r]\<rparr>)"
      using insert_audit_fresh[of updated "sv_audit_id env fid" ?a "sv_clock env fid"] ok[OF same(1)] by blast
    then show ?thesis
      by (simp only: keep_for_retry_def set_port_forward_status_def updated_def[symmetric] True demand_eq attempt_simps
          refl run_tx_simps fst_conv) blast
  qed
  moreover have "\<exists>r. release_forward env fid db = deleted\<lparr>t_audit_logs := t_audit_logs deleted @ [r]\<rparr>"
  proof -
    let ?a = "(system_audit ''port_forward.expire'' ''port_forward'' fid ''success'')\<lparr>ai_resource_id := fid\<rparr>"
    obtain r where "insert_audit (sv_audit_id env fid) ?a (sv_clock env fid) deleted
        = Inr (deleted\<lparr>t_audit_logs := t_audit_logs deleted @ [r]\<rparr>)"
      using insert_audit_fresh[of deleted "sv_audit_id env fid" ?a "sv_clock env fid"] ok[OF same(2)] by blast
    then show ?thesis
      by (simp only: release_forward_def delete_port_forward_def deleted_def[symmetric] True demand_eq attempt_simps
          refl run_tx_simps fst_conv) blast
  qed
  moreover have "settled fid (updated\<lparr>t_audit_logs := l\<rparr>)" "settled fid (deleted\<lparr>t_audit_logs := l\<rparr>)" for l
    by (simp_all add: settled_def updated_def deleted_def update_forwards_def delete_forwards_def ball_upd_where)
  ultimately show ?thesis using assms(1) by auto
qed

lemma sweep_forward_step:
  "snd (sweep_forward env v (w, db)) \<in> {keep_for_retry env (fwd_id v) db, release_forward env (fwd_id v) db}"
  by (auto simp: sweep_forward_def split: option.split prod.split sum.split)

lemma steps_forward_ids:
  "distinct (map pf_id (t_forwards db)) \<Longrightarrow> x \<in> {keep_for_retry env fid db, release_forward env fid db} \<Longrightarrow>
     distinct (map pf_id (t_forwards x))"
  by (auto intro: keep_for_retry_cases[of env fid db] release_forward_cases[of env fid db]
      simp: distinct_del_where map_upd_where_same)

lemma fold_keeps_settled: "settled k (snd s) \<Longrightarrow> settled k (snd (fold (sweep_forward env) vs s))"
proof (induction vs arbitrary: s)
  case (Cons v vs)
  then have "settled k (snd (sweep_forward env v s))"
    using steps_keep_settled[OF sweep_forward_step[of env v "fst s" "snd s"]] by simp
  then show ?case using Cons.IH by simp
qed simp

lemma disjoint_grow: "A \<subseteq> insert x B \<Longrightarrow> B \<inter> C = {} \<Longrightarrow> x \<notin> C \<Longrightarrow> A \<inter> C = {}"
  by blast

lemma fold_settles:
  assumes "v \<in> set vs" "distinct (map fwd_id vs)" "inj_on (sv_audit_id env) (fwd_id ` set vs)"
    and "audit_ids db \<inter> sv_audit_id env ` fwd_id ` set vs = {}"
    and "distinct (map pf_id (t_forwards db))" "distinct (map al_id (t_audit_logs db))"
  shows "settled (fwd_id v) (snd (fold (sweep_forward env) vs (w, db)))"
  using assms
proof (induction vs arbitrary: w db)
  case (Cons u vs)
  obtain w1 db1 where s: "sweep_forward env u (w, db) = (w1, db1)" by fastforce
  have step: "db1 \<in> {keep_for_retry env (fwd_id u) db, release_forward env (fwd_id u) db}"
    using sweep_forward_step[of env u w db] by (simp add: s)
  note ids = steps_audit_ids[OF step] steps_forward_ids[OF Cons.prems(5) step]
  show ?case
  proof (cases "v = u")
    case True
    have "settled (fwd_id u) db1" using steps_settle[OF step Cons.prems(5,6)] Cons.prems(4) by auto
    then show ?thesis using True fold_keeps_settled[of "fwd_id u" "(w1, db1)"] by (simp add: s)
  next
    case False
    have fresh: "sv_audit_id env (fwd_id u) \<notin> sv_audit_id env ` fwd_id ` set vs"
      using Cons.prems(2,3) by (auto simp: inj_on_def)
    have "audit_ids db1 \<inter> sv_audit_id env ` fwd_id ` set vs = {}"
    proof -
      have "audit_ids db1 \<subseteq> insert (sv_audit_id env (fwd_id u)) (audit_ids db)" using ids(1) by simp
      moreover have "audit_ids db \<inter> sv_audit_id env ` fwd_id ` set vs = {}"
        using Cons.prems(4) by (simp add: Int_insert_right split: if_splits)
      ultimately show ?thesis using fresh by (rule disjoint_grow)
    qed
    moreover have "v \<in> set vs" "distinct (map fwd_id vs)" "inj_on (sv_audit_id env) (fwd_id ` set vs)"
      using False Cons.prems(1-3) by (simp_all add: inj_on_insert)
    ultimately have "settled (fwd_id v) (snd (fold (sweep_forward env) vs (w1, db1)))"
      using Cons.IH[of db1 w1] ids Cons.prems(6) by simp
    then show ?thesis by (simp add: s)
  qed
qed simp

lemma listed_ids:
  "distinct (map pf_id fs) \<Longrightarrow> distinct (map fwd_id (List.map_filter (joined_forward db) fs))"
proof (induction fs)
  case (Cons f fs)
  have "fwd_id v = pf_id g" if "joined_forward db g = Some v" for v g
    using that by (auto simp: joined_forward_Some forward_view_def)
  then show ?case using Cons by (fastforce simp: List.map_filter_def split: option.splits)
qed (simp add: List.map_filter_def)

lemma sweep_swept: "swept db (snd (fold (sweep_forward env) vs (w, db)))"
proof (induction vs arbitrary: w db)
  case (Cons v vs)
  obtain w1 db1 where s: "sweep_forward env v (w, db) = (w1, db1)" by fastforce
  then show ?case using swept_trans[OF _ Cons.IH[of db1 w1]] sweep_forward_swept[of db env v w] by (simp add: s)
qed simp

text \<open>Every forward that has expired is settled by the sweep: afterwards its row is gone, or it is marked
as one whose cleanup failed and every later sweep lists it again.\<close>

theorem expired_forwards_settled:
  assumes "store_inv db" "v \<in> set (list_expired_port_forwards now db)"
    and "inj (sv_audit_id env)" "range (sv_audit_id env) \<inter> al_id ` set (t_audit_logs db) = {}"
    and "sweep env idle_ttl now (w, db) = (w', db')"
    and "f \<in> set (t_forwards db')" "pf_id f = fwd_id v"
  shows "pf_status f = ''cleanup_failed'' \<and> expired_forward now f"
proof -
  let ?vs = "list_expired_port_forwards now db"
  obtain w1 db1 where d: "fold (sweep_forward env) ?vs (w, db) = (w1, db1)" by fastforce
  have ids: "distinct (map pf_id (t_forwards db))" "distinct (map al_id (t_audit_logs db))"
    using assms(1) by (auto simp: store_inv_def db_ok_def rules_defs)
  have "distinct (map fwd_id ?vs)"
    unfolding list_expired_port_forwards_def order_asc_def
    by (rule listed_ids) (use ids(1) in \<open>simp add: distinct_map inj_on_def\<close>)
  then have "settled (fwd_id v) db1"
    using fold_settles[OF assms(2) _ _ _ ids, of env w] assms(3,4) d by (force simp: inj_on_def audit_ids_def)
  moreover have rows: "t_forwards db' = t_forwards db1" using assms(5) by (auto simp: sweep_def d expire_frame cleanup_frame)
  ultimately have status: "pf_status f = ''cleanup_failed''" using assms(6,7) by (simp add: settled_def)
  obtain f0 where f0: "f0 \<in> set (t_forwards db)" "same_forward f0 f"
    using sweep_swept[of db env ?vs w] assms(6) by (auto simp: d rows swept_def)
  obtain g where g: "g \<in> set (t_forwards db)" "expired_forward now g" "fwd_id v = pf_id g"
    using assms(2) by (auto simp: list_expired_port_forwards_def in_map_filter joined_forward_Some forward_view_def order_asc_def)
  have "pf_id f0 = pf_id g" using f0(2) g(3) assms(7) same_forward_fields by metis
  then have "f0 = g" using key_inj[OF ids(1) f0(1) g(1)] by simp
  then have "pf_expires_at f = pf_expires_at g" using f0(2) same_forward_fields by metis
  then show ?thesis using status g(2) by (simp add: expired_forward_def)
qed

section \<open>Witnesses\<close>

definition demo_task :: "string \<Rightarrow> string \<Rightarrow> int \<Rightarrow> int \<Rightarrow> forward_row" where
  "demo_task i eid port task = \<lparr>pf_id = i, pf_endpoint_id = eid, pf_node_id = Some ''n1'',
     pf_node_task_type = ''portForward'', pf_node_task_id = Some task, pf_server_port = port,
     pf_status = ''running'', pf_expires_at = Some 0, pf_created_at = 0, pf_updated_at = 0\<rparr>"

definition demo_tasks_db :: db where
  "demo_tasks_db = demo_db\<lparr>t_forwards := [demo_task ''f1'' ''e1'' 20000 5, demo_task ''f2'' ''e2'' 20001 6]\<rparr>"

text \<open>A node that refuses to delete task 6.\<close>

definition demo_delete :: "db \<Rightarrow> string \<Rightarrow> int \<Rightarrow> (string \<times> int) set \<Rightarrow> (string \<times> int) set \<times> unit res" where
  "demo_delete db n t w = (if t = 6 then (w, Inl (ErrMsg ''refused'')) else (w - {(n, t)}, Inr ()))"

definition demo_sweep :: "(string \<times> int) set sweep_env" where
  "demo_sweep = \<lparr>sv_delete = demo_delete, sv_audit_id = (\<lambda>f. ''sweep-'' @ f), sv_clock = (\<lambda>_. 0)\<rparr>"

definition demo_swept :: "(string \<times> int) set \<times> db" where
  "demo_swept = sweep demo_sweep (minutes 30) 0 ({(''n1'', 5), (''n1'', 6)}, demo_tasks_db)"

lemma demo_reliable: "deletes_reliably (sv_delete demo_sweep) (\<lambda>w. w)"
  by (auto simp: deletes_reliably_def demo_sweep_def demo_delete_def split: if_splits)

lemma demo_tasks_inv: "store_inv demo_tasks_db"
  by code_simp

lemma demo_joined: "map (\<lambda>v. (fwd_id v, fwd_node_id v, fwd_node_task_id v)) (joined demo_tasks_db)
    = [(''f1'', ''n1'', Some 5), (''f2'', ''n1'', Some 6)]"
  by code_simp

lemma demo_listed: "map fwd_id (list_expired_port_forwards 0 demo_tasks_db) = [''f1'', ''f2'']"
  by code_simp

lemma tracked_of_joined:
  "(i, n, Some t) \<in> set (map (\<lambda>v. (fwd_id v, fwd_node_id v, fwd_node_task_id v)) (joined db)) \<Longrightarrow> (n, t) \<in> tracked db"
  by (force simp: tracked_def)

theorem sweep_loses_no_task_witness: "fst demo_swept \<subseteq> tracked (snd demo_swept)"
proof (rule sweep_loses_no_task[OF demo_reliable demo_tasks_inv])
  show "{(''n1'', 5), (''n1'', 6)} \<subseteq> tracked demo_tasks_db"
    using tracked_of_joined[of "''f1''" "''n1''" 5 demo_tasks_db] tracked_of_joined[of "''f2''" "''n1''" 6 demo_tasks_db]
    unfolding demo_joined by simp
  show "sweep demo_sweep (minutes 30) 0 ({(''n1'', 5), (''n1'', 6)}, demo_tasks_db) = (fst demo_swept, snd demo_swept)"
    by (simp add: demo_swept_def)
qed

theorem expired_forwards_settled_witness:
  "map (\<lambda>f. (pf_id f, pf_status f)) (t_forwards (snd demo_swept)) = [(''f2'', ''cleanup_failed'')]
   \<and> pf_status (hd (t_forwards (snd demo_swept))) = ''cleanup_failed''
   \<and> expired_forward 0 (hd (t_forwards (snd demo_swept)))"
proof -
  have rows: "map (\<lambda>f. (pf_id f, pf_status f)) (t_forwards (snd demo_swept)) = [(''f2'', ''cleanup_failed'')]"
    by code_simp
  then obtain f where f: "t_forwards (snd demo_swept) = [f]" "pf_id f = ''f2''" by auto
  have "''f2'' \<in> set (map fwd_id (list_expired_port_forwards 0 demo_tasks_db))" unfolding demo_listed by simp
  then obtain v where v: "v \<in> set (list_expired_port_forwards 0 demo_tasks_db)" "fwd_id v = ''f2''" by auto
  have fresh: "inj (sv_audit_id demo_sweep)" "range (sv_audit_id demo_sweep) \<inter> al_id ` set (t_audit_logs demo_tasks_db) = {}"
    by (auto simp: demo_sweep_def inj_def demo_tasks_db_def demo_db_def empty_db_def)
  have run: "sweep demo_sweep (minutes 30) 0 ({(''n1'', 5), (''n1'', 6)}, demo_tasks_db) = (fst demo_swept, snd demo_swept)"
    by (simp add: demo_swept_def)
  show ?thesis using expired_forwards_settled[OF demo_tasks_inv v(1) fresh run, of f] rows f v(2) by simp
qed

end
