(* ===== verification/ApiAuth.thy ===== *)
theory ApiAuth
  imports Gateway Netip StorePolicies StoreForwards StoreDiscovery
begin

text \<open>
  The middleware of \<open>api/api.go\<close>, in the order a request passes it: \<open>trusted_proxy_source\<close>,
  \<open>access_domain_routing\<close>, \<open>security_headers\<close>, and for every path of the API \<open>require_auth\<close> with
  \<open>authorize_request\<close>, which make a \<open>principal\<close> of the request or refuse it.

  \<open>api_env\<close> is the \<open>server\<close> as far as they use it; SHA-256 (\<open>digestString\<close>) is its argument
  \<open>ae_hash\<close>. The values of the path wildcards that \<open>http.ServeMux\<close> matched are \<open>ar_values\<close>. A refusal
  is the status and the code of the JSON error; its message is left out.
\<close>

section \<open>The server, requests and principals\<close>

record api_env =
  ae_hash :: "string \<Rightarrow> string"
  ae_api_token :: string
  ae_idle_ttl :: int
  ae_trusted_proxies :: "(addr \<times> nat) list"
  ae_panel_domain :: string
  ae_access_domain :: string

record api_request =
  ar_http :: http_request
  ar_values :: "(string \<times> string) list"

definition path_value :: "api_request \<Rightarrow> string \<Rightarrow> string" where
  "path_value r name = (case map_of (ar_values r) name of None \<Rightarrow> '''' | Some v \<Rightarrow> v)"

record principal =
  pr_user_id :: string
  pr_auth_session_id :: string
  pr_auth_expires_at :: "instant option"
  pr_username :: string
  pr_display_name :: string
  pr_role :: string
  pr_project_ids :: "string list"
  pr_bootstrap :: bool

type_synonym refusal = "nat \<times> string"

definition auth_cookie_name :: string where
  "auth_cookie_name = ''dmp_session''"

definition csrf_cookie_name :: string where
  "csrf_cookie_name = ''dmp_csrf''"

definition bootstrap_principal :: principal where
  "bootstrap_principal = \<lparr>pr_user_id = '''', pr_auth_session_id = '''', pr_auth_expires_at = None,
     pr_username = ''bootstrap-admin'', pr_display_name = ''Bootstrap Admin'', pr_role = ''system_admin'',
     pr_project_ids = [], pr_bootstrap = True\<rparr>"

definition principal_of :: "auth_session \<Rightarrow> principal" where
  "principal_of s = \<lparr>pr_user_id = usr_id (ses_user s), pr_auth_session_id = ses_id s,
     pr_auth_expires_at = Some (ses_expires_at s), pr_username = usr_username (ses_user s),
     pr_display_name = usr_display_name (ses_user s), pr_role = usr_role (ses_user s),
     pr_project_ids = usr_project_ids (ses_user s), pr_bootstrap = False\<rparr>"

definition valid_role :: "string \<Rightarrow> bool" where
  "valid_role role \<longleftrightarrow> role = ''system_admin'' \<or> role = ''project_admin'' \<or> role = ''operator'' \<or> role = ''temporary''"

definition is_system_admin :: "principal \<Rightarrow> bool" where
  "is_system_admin p \<longleftrightarrow> pr_bootstrap p \<or> pr_role p = ''system_admin''"

definition require_system_admin :: "principal \<Rightarrow> refusal + unit" where
  "require_system_admin p = (if is_system_admin p then Inr () else Inl (403, ''forbidden''))"

definition can_access_project :: "principal \<Rightarrow> string \<Rightarrow> bool" where
  "can_access_project p project_id \<longleftrightarrow> is_system_admin p
     \<or> project_id \<in> set (pr_project_ids p) \<and> (pr_role p = ''project_admin'' \<or> pr_role p = ''operator'')"

section \<open>The address a request comes from\<close>

definition request_source_ip :: "http_request \<Rightarrow> string" where
  "request_source_ip rq = direct_source_ip rq"

definition is_4in6 :: "8 word list \<Rightarrow> bool" where
  "is_4in6 bs \<longleftrightarrow> take 12 bs = replicate 10 0 @ [255, 255]"

fun unmap :: "addr \<Rightarrow> addr" where
  "unmap (V4 a) = V4 a"
| "unmap (V6 bs z) = (if is_4in6 bs then V4 (of_nat (digits_value 256 (map unat (drop 12 bs)))) else V6 bs z)"

text \<open>\<open>Prefix.Contains\<close>.\<close>

fun prefix_contains :: "addr \<times> nat \<Rightarrow> addr \<Rightarrow> bool" where
  "prefix_contains (V4 base, bits) (V4 a) = in_prefix base bits a"
| "prefix_contains (V6 base bz, bits) (V6 bs z) = (z = ''''
     \<and> digits_value 256 (map unat bs) div 2 ^ (128 - bits) = digits_value 256 (map unat base) div 2 ^ (128 - bits))"
| "prefix_contains _ _ = False"

text \<open>\<open>Addr.String\<close> for IPv6: the longest run of at least two zero groups becomes \<open>::\<close>.\<close>

fun hex_text :: "nat \<Rightarrow> string" where
  "hex_text n = (if n < 16 then [''0123456789abcdef'' ! n] else hex_text (n div 16) @ [''0123456789abcdef'' ! (n mod 16)])"

declare hex_text.simps [simp del]

fun zero_run :: "nat list \<Rightarrow> nat" where
  "zero_run [] = 0"
| "zero_run (g # gs) = (if g = 0 then Suc (zero_run gs) else 0)"

definition longest_zero_run :: "nat list \<Rightarrow> nat \<times> nat" where
  "longest_zero_run gs = fold (\<lambda>i (start, len). let l = zero_run (drop i gs) in
     if l \<ge> 2 \<and> l > len then (i, l) else (start, len)) [0..<length gs] (length gs, 0)"

definition v6_text :: "8 word list \<Rightarrow> string \<Rightarrow> string" where
  "v6_text bs zone = (let
     gs = map (\<lambda>i. unat (bs ! (2 * i)) * 256 + unat (bs ! (2 * i + 1))) [0..<8];
     (start, len) = longest_zero_run gs;
     joined = (\<lambda>ns. join_with CHR '':'' (map hex_text ns)) in
     (if len = 0 then joined gs
      else (if start = 0 then [] else joined (take start gs)) @ ''::''
        @ (if start + len = 8 then [] else joined (drop (start + len) gs)))
     @ (if zone = '''' then [] else CHR ''%'' # zone))"

fun addr_to_text :: "addr \<Rightarrow> string" where
  "addr_to_text (V4 a) = v4_text a"
| "addr_to_text (V6 bs z) = v6_text bs z"

definition forwarding_headers :: "string list" where
  "forwarding_headers = [''Forwarded'', ''X-Forwarded-For'', ''X-Forwarded-Host'', ''X-Forwarded-Port'',
     ''X-Forwarded-Proto'', ''X-Real-IP'']"

definition drop_untrusted_forwarding_headers :: "headers \<Rightarrow> headers" where
  "drop_untrusted_forwarding_headers h = fold header_del forwarding_headers h"

definition trusted_proxy_source :: "api_env \<Rightarrow> http_request \<Rightarrow> http_request" where
  "trusted_proxy_source env rq = (let
     dropped = rq\<lparr>rq_headers := drop_untrusted_forwarding_headers (rq_headers rq)\<rparr> in
     if ae_trusted_proxies env = [] then dropped
     else case parse_addr (request_source_ip rq) of None \<Rightarrow> dropped
     | Some peer \<Rightarrow>
       if \<not> list_ex (\<lambda>p. prefix_contains p (unmap peer)) (ae_trusted_proxies env) then dropped
       else case parse_addr (trim_space (hd (split_on CHR '','' (header_get (rq_headers rq) ''X-Forwarded-For'')))) of
         None \<Rightarrow> dropped
       | Some client \<Rightarrow> rq\<lparr>rq_remote_addr := addr_to_text (unmap client)\<rparr>)"

section \<open>The host a request is for\<close>

definition trim_chars :: "char set \<Rightarrow> string \<Rightarrow> string" where
  "trim_chars cs s = rev (dropWhile (\<lambda>c. c \<in> cs) (rev (dropWhile (\<lambda>c. c \<in> cs) s)))"

definition normalize_configured_domain :: "string \<Rightarrow> string" where
  "normalize_configured_domain value = to_lower (trim_chars {CHR ''.''} (trim_space value))"

definition request_hostname :: "string \<Rightarrow> string" where
  "request_hostname authority = (let host = trim_space authority;
     host = (case split_host_port host of Some (h, _) \<Rightarrow> h | None \<Rightarrow> host) in
     to_lower (trim_chars {CHR ''.''} (trim_space host)))"

fun is_loopback :: "addr \<Rightarrow> bool" where
  "is_loopback (V4 a) \<longleftrightarrow> unat a div 2 ^ 24 = 127"
| "is_loopback (V6 bs z) \<longleftrightarrow> z = '''' \<and> (bs = replicate 15 0 @ [1] \<or> is_4in6 bs \<and> bs ! 12 = 127)"

definition is_loopback_health_request :: "http_request \<Rightarrow> string \<Rightarrow> bool" where
  "is_loopback_health_request rq host \<longleftrightarrow>
     (rq_url_path rq = ''/health/live'' \<or> rq_url_path rq = ''/health/ready'')
     \<and> (host = ''localhost'' \<or> (case parse_addr (trim_chars {CHR ''['', CHR '']''} host) of
          None \<Rightarrow> False | Some a \<Rightarrow> is_loopback a))"

definition valid_access_route_label :: "string \<Rightarrow> bool" where
  "valid_access_route_label token = is_current token"

definition trim_suffix :: "string \<Rightarrow> string \<Rightarrow> string" where
  "trim_suffix p s = (if has_suffix s p then take (length s - length p) s else s)"

text \<open>\<open>None\<close> is the answer 404.\<close>

definition access_domain_routing :: "api_env \<Rightarrow> http_request \<Rightarrow> http_request option" where
  "access_domain_routing env rq = (let host = request_hostname (rq_host rq); suffix = CHR ''.'' # ae_access_domain env in
     if ae_access_domain env \<noteq> '''' \<and> host = ae_access_domain env then None
     else if ae_access_domain env \<noteq> '''' \<and> has_suffix host suffix then
       (let token = trim_suffix suffix host in
        if \<not> valid_access_route_label token then None
        else Some (rq\<lparr>rq_url_path := ''/access/web/'' @ token @ ''/'' @ trim_prefix ''/'' (rq_url_path rq),
          rq_subdomain := True\<rparr>))
     else if has_prefix (rq_url_path rq) ''/access/web/'' then None
     else if ae_panel_domain env \<noteq> '''' \<and> host \<noteq> ae_panel_domain env \<and> \<not> is_loopback_health_request rq host then None
     else Some rq)"

section \<open>Headers of the replies\<close>

definition sensitive_prefixes :: "string list" where
  "sensitive_prefixes = [''/api/v1/auth/'', ''/api/v1/users'', ''/api/v1/access-policies'',
     ''/api/v1/access-sessions'', ''/api/v1/access-logs'', ''/api/v1/audit-logs'', ''/api/v1/data/'',
     ''/api/v1/settings/'']"

definition sensitive_api_response :: "string \<Rightarrow> bool" where
  "sensitive_api_response path \<longleftrightarrow> contains_str path ''/credentials'' \<or> list_ex (has_prefix path) sensitive_prefixes"

definition content_security_policy :: string where
  "content_security_policy = ''default-src 'self'; base-uri 'none'; object-src 'none'; frame-ancestors 'none'; form-action 'self'; script-src 'self'; style-src 'self' 'unsafe-inline'; img-src 'self' data:; connect-src 'self' ws: wss:''"

definition strict_transport :: "http_request \<Rightarrow> headers \<Rightarrow> headers" where
  "strict_transport rq h = (if rq_tls rq
     then header_set ''Strict-Transport-Security'' ''max-age=31536000; includeSubDomains'' h else h)"

definition security_headers :: "http_request \<Rightarrow> headers \<Rightarrow> headers" where
  "security_headers rq h = (if has_prefix (rq_url_path rq) ''/access/web/'' then strict_transport rq h
     else let
       h = header_set ''X-Content-Type-Options'' ''nosniff'' h;
       h = header_set ''X-Frame-Options'' ''DENY'' h;
       h = header_set ''Referrer-Policy'' ''no-referrer'' h;
       h = header_set ''Permissions-Policy'' ''camera=(), microphone=(), geolocation=(), payment=(), usb=()'' h;
       h = (if sensitive_api_response (rq_url_path rq)
         then header_add ''Vary'' ''Authorization'' (header_add ''Vary'' ''Cookie''
           (header_set ''Pragma'' ''no-cache'' (header_set ''Cache-Control'' ''no-store'' h))) else h);
       h = (if has_prefix (rq_url_path rq) ''/access/ssh/'' then h
         else header_set ''Content-Security-Policy'' content_security_policy h)
       in strict_transport rq h)"

definition valid_request_id :: "string \<Rightarrow> bool" where
  "valid_request_id value \<longleftrightarrow> length value \<noteq> 0 \<and> length value \<le> 128
     \<and> list_all (\<lambda>c. is_alpha c \<or> is_digit c \<or> c \<in> set ''._:-'') value"

text \<open>\<open>requestContext\<close>: the identifier a request is known by; \<open>fresh\<close> is a new random one.\<close>

definition request_id_of :: "string \<Rightarrow> http_request \<Rightarrow> string" where
  "request_id_of fresh rq = (let rid = trim_space (header_get (rq_headers rq) ''X-Request-ID'') in
     if valid_request_id rid then rid else fresh)"

section \<open>What a principal may do\<close>

text \<open>\<open>at\<close> is the time at which the policies are looked up.\<close>

definition temporary_capability :: "instant \<Rightarrow> principal \<Rightarrow> string \<Rightarrow> db \<Rightarrow> bool" where
  "temporary_capability at p project_id db \<longleftrightarrow> has_policy_capability (pr_user_id p) project_id ''web'' at db
     \<or> has_policy_capability (pr_user_id p) project_id ''webssh'' at db"

definition authorize_project :: "instant \<Rightarrow> http_request \<Rightarrow> principal \<Rightarrow> string \<Rightarrow> db \<Rightarrow> bool" where
  "authorize_project at rq p project_id db =
     (if pr_role p = ''temporary'' then
        rq_method rq = ''GET'' \<and> has_suffix (rq_url_path rq) ''/devices'' \<and> temporary_capability at p project_id db
      else can_access_project p project_id \<and> (pr_role p = ''project_admin'' \<or> rq_method rq = ''GET''))"

definition authorize_request :: "instant \<Rightarrow> api_request \<Rightarrow> principal \<Rightarrow> db \<Rightarrow> bool" where
  "authorize_request at r p db = (let rq = ar_http r; path = rq_url_path rq in
     if is_system_admin p then True
     else if has_prefix path ''/api/v1/auth/'' \<or> path = ''/api/v1/meta'' then True
     else if has_prefix path ''/api/v1/users'' then False
     else if path = ''/api/v1/nodes'' then rq_method rq = ''GET''
     else if has_prefix path ''/api/v1/nodes/'' then False
     else if has_prefix path ''/api/v1/access-policies'' then False
     else if path = ''/api/v1/projects'' then rq_method rq = ''GET''
     else if path_value r ''projectID'' \<noteq> '''' then authorize_project at rq p (path_value r ''projectID'') db
     else if path_value r ''endpointID'' \<noteq> '''' then
       (case endpoint_route_of (path_value r ''endpointID'') db of Inl e \<Rightarrow> False
        | Inr route \<Rightarrow> can_access_project p (rt_project_id route) \<and> pr_role p = ''project_admin'')
     else if path_value r ''forwardID'' \<noteq> '''' then
       (case port_forward_by_id (path_value r ''forwardID'') db of Inl e \<Rightarrow> False
        | Inr f \<Rightarrow> pr_role p = ''project_admin'' \<and> can_access_project p (fwd_project_id f))
     else if path_value r ''jobID'' \<noteq> '''' then
       (case discovery_job_by_id (path_value r ''jobID'') db of Inl e \<Rightarrow> False
        | Inr j \<Rightarrow> pr_role p = ''project_admin'' \<and> can_access_project p (job_project_id j))
     else if (path = ''/api/v1/access-sessions'' \<or> path = ''/api/v1/access-sessions/launch'') \<and> rq_method rq = ''POST'' then
       pr_role p = ''project_admin'' \<or> pr_role p = ''operator'' \<or> pr_role p = ''temporary''
     else False)"

section \<open>Who makes a request\<close>

text \<open>The readings of the clock: in \<open>ResolveAuthSession\<close>, after it, and for the policies.\<close>

record auth_times =
  at_resolve :: instant
  at_now :: instant
  at_policy :: instant

definition safe_method :: "http_request \<Rightarrow> bool" where
  "safe_method rq \<longleftrightarrow> rq_method rq = ''GET'' \<or> rq_method rq = ''HEAD'' \<or> rq_method rq = ''OPTIONS''"

text \<open>\<open>PostForm\<close> holds the body of a \<open>POST\<close>, \<open>PUT\<close> or \<open>PATCH\<close> request only.\<close>

definition post_form :: "http_request \<Rightarrow> (string \<times> string list) list option" where
  "post_form rq = (if rq_method rq \<in> {''POST'', ''PUT'', ''PATCH''} then rq_form rq else Some [])"

definition provided_csrf :: "http_request \<Rightarrow> string" where
  "provided_csrf rq = (let token = trim_space (header_get (rq_headers rq) ''X-CSRF-Token'') in
     if token = '''' \<and> form_navigation rq then
       (case post_form rq of None \<Rightarrow> token
        | Some form \<Rightarrow> (case map_of form ''csrfToken'' of Some [v] \<Rightarrow> trim_space v | _ \<Rightarrow> token))
     else token)"

definition bearer_accepted :: "api_env \<Rightarrow> http_request \<Rightarrow> bool" where
  "bearer_accepted env rq \<longleftrightarrow> (let authorization = header_get (rq_headers rq) ''Authorization'' in
     ae_api_token env \<noteq> '''' \<and> has_prefix authorization ''Bearer ''
     \<and> trim_prefix ''Bearer '' authorization = ae_api_token env)"

definition idle_too_long :: "api_env \<Rightarrow> instant \<Rightarrow> auth_session \<Rightarrow> bool" where
  "idle_too_long env now s \<longleftrightarrow> (case ses_last_seen_at s of None \<Rightarrow> False | Some seen \<Rightarrow> now - seen > ae_idle_ttl env)"

definition user_was_active :: "http_request \<Rightarrow> bool" where
  "user_was_active rq \<longleftrightarrow> \<not> safe_method rq \<or> header_get (rq_headers rq) ''X-DMP-User-Activity'' = ''1''"

definition require_auth :: "api_env \<Rightarrow> auth_times \<Rightarrow> api_request \<Rightarrow> db \<Rightarrow> db \<times> (refusal + principal)" where
  "require_auth env tm r db = (let rq = ar_http r in
     if bearer_accepted env rq then (db, Inr bootstrap_principal)
     else case cookie_named (rq_headers rq) auth_cookie_name of None \<Rightarrow> (db, Inl (401, ''unauthorized''))
     | Some token \<Rightarrow>
     if token = '''' then (db, Inl (401, ''unauthorized''))
     else case resolve_auth_session (at_resolve tm) (ae_hash env token) db of
       Inl e \<Rightarrow> (db, Inl (401, ''session_expired''))
     | Inr s \<Rightarrow>
     if idle_too_long env (at_now tm) s
     then (fst (revoke_auth_session (ae_hash env token) db), Inl (401, ''session_idle_timeout''))
     else if \<not> safe_method rq \<and> ae_hash env (provided_csrf rq) \<noteq> ses_csrf_hash s then (db, Inl (403, ''csrf_failed''))
     else if \<not> authorize_request (at_policy tm) r (principal_of s) db then (db, Inl (403, ''forbidden''))
     else (if user_was_active rq then touch_auth_session (ses_id s) (at_now tm) db else db, Inr (principal_of s)))"

section \<open>Properties\<close>

lemma not_admin_role: "\<not> is_system_admin p \<Longrightarrow> pr_role p \<noteq> ''system_admin'' \<and> \<not> pr_bootstrap p"
  by (simp add: is_system_admin_def)

lemma can_access_project_member:
  "can_access_project p k \<Longrightarrow> \<not> is_system_admin p \<Longrightarrow> k \<in> set (pr_project_ids p)"
  by (simp add: can_access_project_def)

text \<open>The project a request is about, found through the wildcard of its path.\<close>

definition request_project :: "api_request \<Rightarrow> db \<Rightarrow> string option" where
  "request_project r db =
     (if path_value r ''projectID'' \<noteq> '''' then Some (path_value r ''projectID'')
      else if path_value r ''endpointID'' \<noteq> '''' then
        (case endpoint_route_of (path_value r ''endpointID'') db of Inl e \<Rightarrow> None | Inr x \<Rightarrow> Some (rt_project_id x))
      else if path_value r ''forwardID'' \<noteq> '''' then
        (case port_forward_by_id (path_value r ''forwardID'') db of Inl e \<Rightarrow> None | Inr x \<Rightarrow> Some (fwd_project_id x))
      else if path_value r ''jobID'' \<noteq> '''' then
        (case discovery_job_by_id (path_value r ''jobID'') db of Inl e \<Rightarrow> None | Inr x \<Rightarrow> Some (job_project_id x))
      else None)"

definition own_account_path :: "string \<Rightarrow> bool" where
  "own_account_path path \<longleftrightarrow> has_prefix path ''/api/v1/auth/'' \<or> path = ''/api/v1/meta''"

definition opens_access :: "http_request \<Rightarrow> bool" where
  "opens_access rq \<longleftrightarrow> rq_method rq = ''POST''
     \<and> (rq_url_path rq = ''/api/v1/access-sessions'' \<or> rq_url_path rq = ''/api/v1/access-sessions/launch'')"

text \<open>C5. Only administrators change anything: a request of another account that is not a \<open>GET\<close> is let
through only for the account's own data, for opening an access session, or when the account is a project
administrator and the resource that the path names belongs to one of its projects.\<close>

theorem changes_need_project_admin:
  assumes "authorize_request at r p db" "\<not> is_system_admin p" "rq_method (ar_http r) \<noteq> ''GET''"
  shows "own_account_path (rq_url_path (ar_http r)) \<or> opens_access (ar_http r)
    \<or> pr_role p = ''project_admin'' \<and> (\<exists>k\<in>set (pr_project_ids p). request_project r db = Some k)"
  using assms
  by (auto simp: authorize_request_def Let_def own_account_path_def opens_access_def request_project_def
      authorize_project_def dest: can_access_project_member split: if_splits sum.splits)

text \<open>C3. A request is let through only for the person it names: it carries the API token, or the cookie of a
login that is active, unexpired and not idle for an enabled user whose role and projects the principal has;
a request that changes something then also carries the CSRF token of that login.\<close>

theorem request_authenticated:
  assumes "require_auth env tm r db = (db', Inr p)" "\<not> bearer_accepted env (ar_http r)"
  shows "\<exists>token. cookie_named (rq_headers (ar_http r)) auth_cookie_name = Some token
    \<and> (\<exists>s\<in>set (t_auth_sessions db). \<exists>u\<in>set (t_users db).
         s_token_hash s = ae_hash env token \<and> s_status s = ''active'' \<and> sql_less (at_resolve tm) (s_expires_at s)
         \<and> at_now tm - s_last_seen_at s \<le> ae_idle_ttl env
         \<and> (safe_method (ar_http r) \<or> ae_hash env (provided_csrf (ar_http r)) = s_csrf_hash s)
         \<and> u_id u = s_user_id s \<and> u_enabled u
         \<and> pr_user_id p = u_id u \<and> pr_auth_session_id p = s_id s \<and> pr_role p = u_role u
         \<and> pr_project_ids p = usr_project_ids (user_of_row u db))
    \<and> authorize_request (at_policy tm) r p db"
proof -
  let ?rq = "ar_http r"
  obtain token s where t: "cookie_named (rq_headers ?rq) auth_cookie_name = Some token"
    and s: "resolve_auth_session (at_resolve tm) (ae_hash env token) db = Inr s"
    and idle: "\<not> idle_too_long env (at_now tm) s"
    and csrf: "safe_method ?rq \<or> ae_hash env (provided_csrf ?rq) = ses_csrf_hash s"
    and auth: "authorize_request (at_policy tm) r (principal_of s) db" and p: "p = principal_of s"
    using assms by (auto simp: require_auth_def Let_def split: option.splits if_splits sum.splits)
  from resolve_auth_session_Inr[OF s] obtain x u where x: "x \<in> set (t_auth_sessions db)" "u \<in> set (t_users db)"
    "s_token_hash x = ae_hash env token" "s_status x = ''active''" "sql_less (at_resolve tm) (s_expires_at x)"
    "u_id u = s_user_id x" "u_enabled u"
    and ses: "s = \<lparr>ses_id = s_id x, ses_user = user_of_row u db, ses_expires_at = s_expires_at x,
        ses_last_seen_at = Some (s_last_seen_at x), ses_csrf_hash = s_csrf_hash x\<rparr>" by blast
  have "at_now tm - s_last_seen_at x \<le> ae_idle_ttl env" using idle by (simp add: ses idle_too_long_def)
  moreover have "safe_method ?rq \<or> ae_hash env (provided_csrf ?rq) = s_csrf_hash x" using csrf by (simp add: ses)
  moreover have "pr_user_id p = u_id u" "pr_auth_session_id p = s_id x" "pr_role p = u_role u"
    "pr_project_ids p = usr_project_ids (user_of_row u db)"
    by (simp_all add: p ses principal_of_def) (simp_all add: user_of_row_def)
  ultimately show ?thesis using t x auth p by blast
qed

lemma header_values_fold_del:
  "header_values (fold header_del ns h) n = (if canonical_name n \<in> canonical_name ` set ns then [] else header_values h n)"
  by (induction ns arbitrary: h) (auto simp: header_values_del)

text \<open>C9. A client cannot choose its address: unless it connects from a configured proxy, the address its
request is taken to come from is the one of its connection, and no forwarding header of it is read.\<close>

theorem untrusted_peer_not_believed:
  assumes "\<not> (\<exists>peer. parse_addr (request_source_ip rq) = Some peer
      \<and> (\<exists>p\<in>set (ae_trusted_proxies env). prefix_contains p (unmap peer)))"
    and "n \<in> set forwarding_headers"
  shows "request_source_ip (trusted_proxy_source env rq) = request_source_ip rq
    \<and> header_values (rq_headers (trusted_proxy_source env rq)) n = []"
proof -
  have "trusted_proxy_source env rq = rq\<lparr>rq_headers := drop_untrusted_forwarding_headers (rq_headers rq)\<rparr>"
    using assms(1) by (auto simp: trusted_proxy_source_def Let_def list_ex_iff split: option.splits)
  then show ?thesis using assms(2)
    by (auto simp: drop_untrusted_forwarding_headers_def header_values_fold_del request_source_ip_def
        direct_source_ip_def split: option.split)
qed

text \<open>The first entry of \<open>X-Forwarded-For\<close> is believed, which is the one a client can write itself when
the proxy appends to the header.\<close>

lemma first_entry_believed:
  assumes "parse_addr (request_source_ip rq) = Some peer" "p \<in> set (ae_trusted_proxies env)"
    "prefix_contains p (unmap peer)"
    and "header_get (rq_headers rq) ''X-Forwarded-For'' = forged @ CHR '','' # appended" "CHR '','' \<notin> set forged"
    and "parse_addr (trim_space forged) = Some a"
  shows "rq_remote_addr (trusted_proxy_source env rq) = addr_to_text (unmap a)"
proof -
  have "list_ex (\<lambda>p. prefix_contains p (unmap peer)) (ae_trusted_proxies env)" "ae_trusted_proxies env \<noteq> []"
    using assms(2,3) by (auto simp: list_ex_iff)
  then show ?thesis using assms(1,4-6) by (simp add: trusted_proxy_source_def Let_def split_on_append)
qed

text \<open>C8. Devices and the platform are kept apart by the host name: a request reaches the web gateway exactly when its
host is a well-formed label under the access domain, and then it passes with that label before its own path; every other
request under the domain, and one that names the path of the gateway itself, is refused.\<close>

theorem hosts_isolated:
  fixes env :: api_env and rq :: http_request
  assumes "\<not> rq_subdomain rq"
  defines "reaches \<equiv> \<lambda>rq'. access_domain_routing env rq = Some rq' \<and> has_prefix (rq_url_path rq') ''/access/web/''"
    and "labelled \<equiv> \<lambda>label. ae_access_domain env \<noteq> '''' \<and> is_current label
      \<and> request_hostname (rq_host rq) = label @ CHR ''.'' # ae_access_domain env"
  shows "((\<exists>rq'. reaches rq') \<longleftrightarrow> (\<exists>label. labelled label))
    \<and> (\<forall>label. labelled label \<longrightarrow> access_domain_routing env rq = Some (rq\<lparr>rq_url_path := ''/access/web/'' @ label @ ''/''
          @ trim_prefix ''/'' (rq_url_path rq), rq_subdomain := True\<rparr>))
    \<and> (\<forall>rq'. access_domain_routing env rq = Some rq' \<longrightarrow> (rq_subdomain rq' \<longleftrightarrow> reaches rq') \<and> (\<not> rq_subdomain rq' \<longrightarrow> rq' = rq
          \<and> (ae_access_domain env \<noteq> '''' \<longrightarrow> \<not> has_suffix (request_hostname (rq_host rq)) (CHR ''.'' # ae_access_domain env))))"
proof -
  let ?host = "request_hostname (rq_host rq)" and ?suffix = "CHR ''.'' # ae_access_domain env"
  have routed: "access_domain_routing env rq = Some (rq\<lparr>rq_url_path := ''/access/web/'' @ label @ ''/''
      @ trim_prefix ''/'' (rq_url_path rq), rq_subdomain := True\<rparr>)" if "labelled label" for label
  proof -
    have "has_suffix ?host ?suffix" "trim_suffix ?suffix ?host = label" "?host \<noteq> ae_access_domain env"
      using that by (auto simp: labelled_def has_suffix_def suffix_def trim_suffix_def)
    then show ?thesis using that
      by (simp add: access_domain_routing_def Let_def valid_access_route_label_def labelled_def)
  qed
  have passed: "if rq_subdomain rq' then \<exists>label. labelled label
      else rq' = rq \<and> \<not> has_prefix (rq_url_path rq) ''/access/web/'' \<and> (ae_access_domain env \<noteq> '''' \<longrightarrow> \<not> has_suffix ?host ?suffix)"
    if r: "access_domain_routing env rq = Some rq'" for rq'
  proof (cases "ae_access_domain env \<noteq> '''' \<and> has_suffix ?host ?suffix")
    case True
    then have "?host = trim_suffix ?suffix ?host @ ?suffix"
      by (auto simp: trim_suffix_def has_suffix_def suffix_def)
    moreover have "is_current (trim_suffix ?suffix ?host)" "rq_subdomain rq'"
      using r True by (auto simp: access_domain_routing_def Let_def valid_access_route_label_def split: if_splits)
    ultimately show ?thesis using True by (auto simp: labelled_def)
  next
    case False
    then show ?thesis using r assms(1) by (auto simp: access_domain_routing_def Let_def split: if_splits)
  qed
  have gateway: "reaches rq' \<longleftrightarrow> access_domain_routing env rq = Some rq' \<and> rq_subdomain rq'" for rq'
    using passed [of rq'] routed assms(1) by (auto simp: reaches_def has_prefix_def split: if_splits)
  show ?thesis
    using passed routed gateway by (fastforce split: if_splits)
qed

section \<open>Witnesses\<close>

definition demo_http :: "string \<Rightarrow> string \<Rightarrow> headers \<Rightarrow> http_request" where
  "demo_http meth path h = \<lparr>rq_method = meth, rq_host = ''panel.example'', rq_tls = True,
     rq_remote_addr = ''192.0.2.1:50000'', rq_headers = h, rq_subdomain = False, rq_url_path = path,
     rq_token = '''', rq_path = '''', rq_query = [], rq_form = None, rq_json = None\<rparr>"

definition demo_api :: api_env where
  "demo_api = \<lparr>ae_hash = (\<lambda>s. s), ae_api_token = ''token'', ae_idle_ttl = minutes 15,
     ae_trusted_proxies = [(V4 0x0A000001, 32)], ae_panel_domain = ''panel.example'', ae_access_domain = ''apps.example''\<rparr>"

definition demo_times :: auth_times where
  "demo_times = \<lparr>at_resolve = 0, at_now = 0, at_policy = 0\<rparr>"

text \<open>The operator opens an access session.\<close>

definition demo_post :: api_request where
  "demo_post = \<lparr>ar_http = demo_http ''POST'' ''/api/v1/access-sessions''
     [(''Cookie'', [''dmp_session=t2'']), (''X-Csrf-Token'', [''c''])], ar_values = []\<rparr>"

definition project_admin :: principal where
  "project_admin = \<lparr>pr_user_id = ''u4'', pr_auth_session_id = ''s4'', pr_auth_expires_at = None, pr_username = ''pa'',
     pr_display_name = '''', pr_role = ''project_admin'', pr_project_ids = [''p1''], pr_bootstrap = False\<rparr>"

definition demo_patch :: api_request where
  "demo_patch = \<lparr>ar_http = demo_http ''PATCH'' ''/api/v1/projects/p1'' [], ar_values = [(''projectID'', ''p1'')]\<rparr>"

theorem changes_need_project_admin_witness:
  "authorize_request 0 demo_patch project_admin demo_db \<and> request_project demo_patch demo_db = Some ''p1''
   \<and> \<not> authorize_request 0 demo_patch (project_admin\<lparr>pr_project_ids := [''p2'']\<rparr>) demo_db
   \<and> \<not> authorize_request 0 demo_patch (project_admin\<lparr>pr_role := ''operator''\<rparr>) demo_db"
proof (intro conjI)
  show ok: "authorize_request 0 demo_patch project_admin demo_db" by code_simp
  have path: "\<not> own_account_path (rq_url_path (ar_http demo_patch))" "\<not> opens_access (ar_http demo_patch)" by code_simp+
  have get: "rq_method (ar_http demo_patch) \<noteq> ''GET''" by code_simp
  have "\<not> is_system_admin project_admin" by code_simp
  from changes_need_project_admin[OF ok this get] path
  show "request_project demo_patch demo_db = Some ''p1''" by (simp add: project_admin_def)
  have "request_project demo_patch demo_db \<noteq> Some ''p2''" by code_simp
  moreover have "\<not> is_system_admin (project_admin\<lparr>pr_project_ids := [''p2'']\<rparr>)" by code_simp
  ultimately show "\<not> authorize_request 0 demo_patch (project_admin\<lparr>pr_project_ids := [''p2'']\<rparr>) demo_db"
    using changes_need_project_admin[OF _ _ get] path by fastforce
  show "\<not> authorize_request 0 demo_patch (project_admin\<lparr>pr_role := ''operator''\<rparr>) demo_db" by code_simp
qed

lemma demo_post_accepted: "map_sum id pr_user_id (snd (require_auth demo_api demo_times demo_post demo_db)) = Inr ''u2''"
  by code_simp

theorem request_authenticated_witness:
  "\<exists>p. snd (require_auth demo_api demo_times demo_post demo_db) = Inr p \<and> pr_user_id p = ''u2''
     \<and> authorize_request 0 demo_post p demo_db"
proof -
  obtain p where p: "snd (require_auth demo_api demo_times demo_post demo_db) = Inr p" "pr_user_id p = ''u2''"
    using demo_post_accepted by (cases "snd (require_auth demo_api demo_times demo_post demo_db)") auto
  then have "require_auth demo_api demo_times demo_post demo_db
      = (fst (require_auth demo_api demo_times demo_post demo_db), Inr p)" by (simp add: prod_eq_iff)
  moreover have "\<not> bearer_accepted demo_api (ar_http demo_post)" by code_simp
  ultimately have "authorize_request (at_policy demo_times) demo_post p demo_db"
    using request_authenticated by blast
  then show ?thesis using p by (auto simp: demo_times_def)
qed

theorem untrusted_peer_not_believed_witness:
  "request_source_ip (trusted_proxy_source demo_api (demo_http ''GET'' ''/'' [(''X-Forwarded-For'', [''203.0.113.9''])])) = ''192.0.2.1''
   \<and> header_values (rq_headers (trusted_proxy_source demo_api (demo_http ''GET'' ''/'' [(''X-Forwarded-For'', [''203.0.113.9''])]))) ''X-Forwarded-For'' = []"
proof -
  let ?rq = "demo_http ''GET'' ''/'' [(''X-Forwarded-For'', [''203.0.113.9''])]"
  have ip: "request_source_ip ?rq = ''192.0.2.1''" by code_simp
  have "parse_octets ''192.0.2.1'' = Some [192, 0, 2, 1]" by code_simp
  moreover have "dropWhile (\<lambda>c. c \<notin> {CHR ''.'', CHR '':'', CHR ''%''}) ''192.0.2.1'' = ''.0.2.1''" by simp
  ultimately have "parse_addr ''192.0.2.1'' = Some (V4 0xC0000201)"
    by (simp add: parse_addr_def parse_v4_def digits_value_def)
  then have "\<not> (\<exists>peer. parse_addr (request_source_ip ?rq) = Some peer
      \<and> (\<exists>p\<in>set (ae_trusted_proxies demo_api). prefix_contains p (unmap peer)))"
    by (simp add: ip demo_api_def in_prefix_def)
  moreover have "''X-Forwarded-For'' \<in> set forwarding_headers" by (simp add: forwarding_headers_def)
  ultimately show ?thesis using untrusted_peer_not_believed[of ?rq demo_api] ip by simp
qed

theorem hosts_isolated_witness:
  "\<exists>rq'. access_domain_routing demo_api ((demo_http ''GET'' ''/x'' [])\<lparr>rq_host := ''web-00000000.apps.example''\<rparr>) = Some rq'
     \<and> rq_subdomain rq' \<and> has_prefix (rq_url_path rq') ''/access/web/''"
proof -
  let ?rq = "(demo_http ''GET'' ''/x'' [])\<lparr>rq_host := ''web-00000000.apps.example''\<rparr>"
  have "map_option rq_subdomain (access_domain_routing demo_api ?rq) = Some True" by code_simp
  then obtain rq' where r: "access_domain_routing demo_api ?rq = Some rq'" "rq_subdomain rq'" by auto
  moreover have "\<not> rq_subdomain ?rq" by (simp add: demo_http_def)
  ultimately show ?thesis using hosts_isolated[of ?rq demo_api] by blast
qed

end
