(* ===== verification/Encodings.thy ===== *)
theory Encodings
  imports Texts Digits
begin

text \<open>
  Base64 and base32 without padding and hexadecimal, as Go's \<open>encoding/base64\<close>, \<open>encoding/base32\<close> and
  \<open>encoding/hex\<close> write and read them. A group of bytes is a number in base 256 and a group of symbols
  the same number in base 64 or 32, with zero bits after it in the last group. \<open>unpad_encode\<close> holds for
  both encodings: what was written is read back.
\<close>

type_synonym bytes = "8 word list"

function groups_of :: "nat \<Rightarrow> 'a list \<Rightarrow> 'a list list" where
  "groups_of k xs = (if xs = [] \<or> k = 0 then [] else take k xs # groups_of k (drop k xs))"
  by auto

termination by (relation "measure (\<lambda>(k, xs). length xs)") auto

declare groups_of.simps [simp del]

lemma groups_of_Nil [simp]: "groups_of k [] = []"
  by (simp add: groups_of.simps)

lemma groups_of_append: "length xs = k \<Longrightarrow> 0 < k \<Longrightarrow> groups_of k (xs @ ys) = xs # groups_of k ys"
  by (subst groups_of.simps) auto

lemma groups_of_short: "xs \<noteq> [] \<Longrightarrow> length xs \<le> k \<Longrightarrow> groups_of k xs = [xs]"
  by (cases "k = 0") (auto simp: groups_of.simps[of k xs])

section \<open>One group\<close>

text \<open>The number of symbols of \<open>k\<close> bits that hold \<open>m\<close> bytes.\<close>

definition symbols_for :: "nat \<Rightarrow> nat \<Rightarrow> nat" where
  "symbols_for k m = (m * 8 + k - 1) div k"

lemma symbols_for_bounds:
  assumes "0 < k" shows "m * 8 \<le> symbols_for k m * k" "symbols_for k m * k < m * 8 + k"
proof -
  have "symbols_for k m * k + (m * 8 + k - 1) mod k = m * 8 + k - 1" by (simp add: symbols_for_def)
  moreover have "(m * 8 + k - 1) mod k < k" using assms by simp
  ultimately show "m * 8 \<le> symbols_for k m * k" "symbols_for k m * k < m * 8 + k" by linarith+
qed

definition encode_group :: "nat \<Rightarrow> nat list \<Rightarrow> nat list" where
  "encode_group k ds = (let s = symbols_for k (length ds) in
     digits (2 ^ k) s (digits_value 256 ds * 2 ^ (s * k - length ds * 8)))"

definition decode_group :: "nat \<Rightarrow> nat list \<Rightarrow> nat list" where
  "decode_group k ss = (let n = length ss * k div 8 in
     digits 256 n (digits_value (2 ^ k) ss div 2 ^ (length ss * k - n * 8)))"

lemma decode_encode_group:
  assumes "0 < k" "k \<le> 8" "\<forall>d\<in>set ds. d < 256"
  shows "decode_group k (encode_group k ds) = ds"
proof -
  define m where "m = length ds"
  define s where "s = symbols_for k m"
  note low = symbols_for_bounds(1)[OF assms(1), of m, folded s_def]
    and high = symbols_for_bounds(2)[OF assms(1), of m, folded s_def]
  then have n: "s * k div 8 = m" using assms(2) by (intro div_nat_eqI) auto
  let ?v = "digits_value 256 ds"
  have "?v < 256 ^ m" unfolding m_def using assms(3) by (rule value_less)
  then have "?v * 2 ^ (s * k - m * 8) < 256 ^ m * 2 ^ (s * k - m * 8)" by simp
  also have "256 ^ m * 2 ^ (s * k - m * 8) = (2 :: nat) ^ (m * 8 + (s * k - m * 8))"
  proof -
    have "(256 :: nat) ^ m = 2 ^ (8 * m)" by (subst power_mult) simp
    then show ?thesis by (simp add: power_add mult.commute)
  qed
  also have "m * 8 + (s * k - m * 8) = k * s" using low by simp
  finally have "digits_value (2 ^ k) (digits (2 ^ k) s (?v * 2 ^ (s * k - m * 8))) = ?v * 2 ^ (s * k - m * 8)"
    by (simp add: value_digits_small power_mult)
  then show ?thesis
    using digits_of_value[OF assms(3)]
    by (simp add: decode_group_def encode_group_def Let_def n flip: m_def s_def)
qed

lemma length_encode_group: "length (encode_group k ds) = symbols_for k (length ds)"
  by (simp add: encode_group_def Let_def)

lemma encode_group_less: "s \<in> set (encode_group k ds) \<Longrightarrow> s < 2 ^ k"
  by (simp add: encode_group_def Let_def digits_less)

section \<open>Alphabets\<close>

definition index_in :: "string \<Rightarrow> char \<Rightarrow> nat option" where
  "index_in alphabet c = List.find (\<lambda>i. alphabet ! i = c) [0..<length alphabet]"

fun indices_in :: "string \<Rightarrow> string \<Rightarrow> nat list option" where
  "indices_in alphabet [] = Some []"
| "indices_in alphabet (c # s) = (case (index_in alphabet c, indices_in alphabet s) of
     (Some d, Some ds) \<Rightarrow> Some (d # ds) | _ \<Rightarrow> None)"

lemma index_in_nth: "distinct alphabet \<Longrightarrow> d < length alphabet \<Longrightarrow> index_in alphabet (alphabet ! d) = Some d"
  by (auto simp: index_in_def find_Some_iff nth_eq_iff_index_eq intro!: exI[of _ d])

lemma indices_in_map:
  "distinct alphabet \<Longrightarrow> \<forall>d\<in>set ds. d < length alphabet \<Longrightarrow> indices_in alphabet (map ((!) alphabet) ds) = Some ds"
  by (induction ds) (auto simp: index_in_nth)

section \<open>Whole texts\<close>

text \<open>The decoders skip line feeds and carriage returns.\<close>

definition skip_newlines :: "string \<Rightarrow> string" where
  "skip_newlines s = filter (\<lambda>c. c \<noteq> CHR 0x0A \<and> c \<noteq> CHR 0x0D) s"

definition unpadded_encode :: "nat \<Rightarrow> nat \<Rightarrow> string \<Rightarrow> bytes \<Rightarrow> string" where
  "unpadded_encode k per_group alphabet bs =
     map ((!) alphabet) (concat (map (encode_group k) (groups_of per_group (map unat bs))))"

definition std64 :: string where
  "std64 = ''ABCDEFGHIJKLMNOPQRSTUVWXYZabcdefghijklmnopqrstuvwxyz0123456789+/''"

definition url64 :: string where
  "url64 = ''ABCDEFGHIJKLMNOPQRSTUVWXYZabcdefghijklmnopqrstuvwxyz0123456789-_''"

definition std32 :: string where
  "std32 = ''ABCDEFGHIJKLMNOPQRSTUVWXYZ234567''"

definition base64_text :: "string \<Rightarrow> bytes \<Rightarrow> string" where
  "base64_text alphabet bs = unpadded_encode 6 3 alphabet bs"

definition base32_text :: "bytes \<Rightarrow> string" where
  "base32_text bs = unpadded_encode 5 5 std32 bs"

text \<open>A last group of one symbol is an error in base64; base32 reads the groups an encoder never leaves over
as no bytes.\<close>

definition base64_bytes :: "string \<Rightarrow> string \<Rightarrow> bytes option" where
  "base64_bytes alphabet s = (case indices_in alphabet (skip_newlines s) of None \<Rightarrow> None
   | Some ds \<Rightarrow> if length ds mod 4 = 1 then None
       else Some (map of_nat (concat (map (decode_group 6) (groups_of 4 ds)))))"

definition decode_group32 :: "nat list \<Rightarrow> nat list" where
  "decode_group32 ss = (if length ss \<in> {1, 3, 6} then [] else decode_group 5 ss)"

definition base32_bytes :: "string \<Rightarrow> bytes option" where
  "base32_bytes s = map_option (\<lambda>ds. map of_nat (concat (map decode_group32 (groups_of 8 ds))))
     (indices_in std32 (skip_newlines s))"

lemma groups_induct [consumes 1, case_names Nil last group]:
  assumes "0 < k" "P []" "\<And>xs. xs \<noteq> [] \<Longrightarrow> length xs < k \<Longrightarrow> P xs"
    "\<And>xs ys. length xs = k \<Longrightarrow> P ys \<Longrightarrow> P (xs @ ys)"
  shows "P xs"
proof (induction "length xs" arbitrary: xs rule: less_induct)
  case less
  consider "xs = []" | "xs \<noteq> []" "length xs < k" | "k \<le> length xs" by fastforce
  then show ?case
  proof cases
    case 3
    then have "P (drop k xs)" "length (take k xs) = k" using less[of "drop k xs"] assms(1) by auto
    then have "P (take k xs @ drop k xs)" by (rule assms(4)[rotated])
    then show ?thesis by simp
  qed (use assms in auto)
qed

lemma unpad_encode:
  assumes "0 < k" "k \<le> 8" "0 < p" "p * 8 = q * k" "\<forall>d\<in>set ds. d < 256"
    and decode: "\<And>g. g \<noteq> [] \<Longrightarrow> length g \<le> p \<Longrightarrow> \<forall>d\<in>set g. d < 256 \<Longrightarrow> dec (encode_group k g) = g"
  shows "concat (map dec (groups_of q (concat (map (encode_group k) (groups_of p ds))))) = ds"
  using assms(3) assms(5)
proof (induction ds rule: groups_induct)
  case (last ds)
  have small: "length (encode_group k ds) \<le> q"
  proof -
    have "length ds * 8 < q * k" using last(2) assms(4) by linarith
    then have "symbols_for k (length ds) * k < (q + 1) * k" using symbols_for_bounds(2)[OF assms(1), of "length ds"] by simp
    then have "symbols_for k (length ds) < q + 1" using mult_less_cancel2 by blast
    then show ?thesis by (simp add: length_encode_group)
  qed
  have "dec (encode_group k ds) = ds" using last by (intro decode) auto
  moreover have "encode_group k ds \<noteq> []"
  proof -
    have "0 < length ds" using last(1) by simp
    then have "symbols_for k (length ds) \<noteq> 0"
      using symbols_for_bounds(1)[OF assms(1), of "length ds"] by (metis mult_0 mult_is_0 le_zero_eq not_gr_zero zero_neq_numeral)
    then show ?thesis using length_encode_group[of k ds] by auto
  qed
  ultimately show ?case using small last by (simp add: groups_of_short)
next
  case (group g ds)
  have len: "length (encode_group k g) = q"
  proof -
    have "q * k \<le> symbols_for k p * k" "symbols_for k p * k < (q + 1) * k"
      using symbols_for_bounds[OF assms(1), of p] assms(4) by simp_all
    then have "q \<le> symbols_for k p" "symbols_for k p < q + 1" using assms(1) mult_less_cancel2 by (simp, blast)
    then show ?thesis using group(1) by (simp add: length_encode_group)
  qed
  have "0 < q" using assms(3,4) by (cases q) auto
  moreover have "dec (encode_group k g) = g" using group assms(3) by (intro decode) auto
  ultimately show ?case using group assms(3) len by (simp add: groups_of_append)
qed simp

lemma bytes_nat: "\<forall>d\<in>set (map unat (bs :: bytes)). d < 256"
  by (auto simp: byte_less)

lemma encode_symbols_less:
  "\<forall>d\<in>set (concat (map (encode_group k) gs)). d < 2 ^ k"
  by (auto dest: encode_group_less)

lemma skip_newlines_none: "CHR 0x0A \<notin> set s \<Longrightarrow> CHR 0x0D \<notin> set s \<Longrightarrow> skip_newlines s = s"
  by (auto simp: skip_newlines_def filter_id_conv)

lemma unpadded_symbols:
  assumes "distinct alphabet" "length alphabet = 2 ^ k" "CHR 0x0A \<notin> set alphabet" "CHR 0x0D \<notin> set alphabet"
  shows "indices_in alphabet (skip_newlines (unpadded_encode k p alphabet bs))
    = Some (concat (map (encode_group k) (groups_of p (map unat bs))))"
proof -
  let ?ds = "concat (map (encode_group k) (groups_of p (map unat bs)))"
  have less: "\<forall>d\<in>set ?ds. d < length alphabet" using encode_symbols_less[of k] assms(2) by metis
  then have "set (map ((!) alphabet) ?ds) \<subseteq> set alphabet" by auto
  then have "skip_newlines (map ((!) alphabet) ?ds) = map ((!) alphabet) ?ds" using assms(3,4) by (intro skip_newlines_none) auto
  then show ?thesis using indices_in_map[OF assms(1) less] by (simp only: unpadded_encode_def)
qed

lemma symbols_mod_4: "length (concat (map (encode_group 6) (groups_of 3 ds))) mod 4 \<noteq> 1"
proof (induction ds rule: groups_induct[of 3, simplified])
  case (2 ds)
  then have "length ds \<noteq> 0" "length ds < 3" by simp_all
  then have "length ds = 1 \<or> length ds = 2" by linarith
  then show ?case using 2 by (auto simp: groups_of_short length_encode_group symbols_for_def)
next
  case (3 g ds)
  then show ?case by (simp add: groups_of_append length_encode_group symbols_for_def)
qed simp

lemma alphabets:
  "distinct std64" "length std64 = 2 ^ 6" "distinct url64" "length url64 = 2 ^ 6"
  "distinct std32" "length std32 = 2 ^ 5"
  by (simp_all add: std64_def url64_def std32_def)

lemma alphabets_no_newline:
  "CHR 0x0A \<notin> set std64" "CHR 0x0D \<notin> set std64" "CHR 0x0A \<notin> set url64" "CHR 0x0D \<notin> set url64"
  "CHR 0x0A \<notin> set std32" "CHR 0x0D \<notin> set std32"
  by (simp_all add: std64_def url64_def std32_def)

lemma map_of_nat_unat: "map of_nat (map unat (bs :: bytes)) = bs"
  by (simp add: map_idI)

lemma base64_roundtrip:
  assumes "alphabet = std64 \<or> alphabet = url64"
  shows "base64_bytes alphabet (base64_text alphabet bs) = Some bs"
proof -
  let ?ds = "concat (map (encode_group 6) (groups_of 3 (map unat bs)))"
  have "indices_in alphabet (skip_newlines (base64_text alphabet bs)) = Some ?ds"
    unfolding base64_text_def
    by (rule unpadded_symbols) (use assms alphabets alphabets_no_newline in auto)
  moreover have "concat (map (decode_group 6) (groups_of 4 ?ds)) = map unat bs"
    by (rule unpad_encode) (auto simp: bytes_nat byte_less intro!: decode_encode_group)
  moreover have "length ?ds mod 4 \<noteq> 1" by (rule symbols_mod_4)
  ultimately show ?thesis by (simp only: base64_bytes_def option.case if_False map_of_nat_unat)
qed

lemma base32_roundtrip: "base32_bytes (base32_text bs) = Some bs"
proof -
  let ?ds = "concat (map (encode_group 5) (groups_of 5 (map unat bs)))"
  have "indices_in std32 (skip_newlines (base32_text bs)) = Some ?ds"
    unfolding base32_text_def by (rule unpadded_symbols) (use alphabets alphabets_no_newline in auto)
  moreover have "concat (map decode_group32 (groups_of 8 ?ds)) = map unat bs"
  proof (rule unpad_encode)
    fix g :: "nat list" assume g: "g \<noteq> []" "length g \<le> 5" "\<forall>d\<in>set g. d < 256"
    then have "length g \<noteq> 0" by simp
    then have "length g = 1 \<or> length g = 2 \<or> length g = 3 \<or> length g = 4 \<or> length g = 5" using g(2) by linarith
    then have "length (encode_group 5 g) \<notin> {1, 3, 6}" by (auto simp: length_encode_group symbols_for_def)
    then show "decode_group32 (encode_group 5 g) = g" using g by (simp add: decode_group32_def decode_encode_group)
  qed (auto simp: byte_less)
  ultimately show ?thesis by (simp only: base32_bytes_def option.map map_of_nat_unat)
qed

section \<open>Hexadecimal\<close>

definition hex_alphabet :: string where
  "hex_alphabet = ''0123456789abcdef''"

definition hex_encode :: "bytes \<Rightarrow> string" where
  "hex_encode bs = concat (map (\<lambda>b. map ((!) hex_alphabet) (digits 16 2 (unat b))) bs)"

lemma length_hex_encode [simp]: "length (hex_encode bs) = 2 * length bs"
  by (induction bs) (simp_all add: hex_encode_def)

lemma hex_encode_inj: "hex_encode a = hex_encode b \<longleftrightarrow> a = b"
proof
  assume eq: "hex_encode a = hex_encode b"
  then have "length a = length b" using length_hex_encode[of a] length_hex_encode[of b] by simp
  then show "a = b" using eq
  proof (induction a b rule: list_induct2)
    case (Cons x xs y ys)
    let ?h = "\<lambda>b. map ((!) hex_alphabet) (digits 16 2 (unat (b :: 8 word)))"
    have "?h x = ?h y" "hex_encode xs = hex_encode ys" using Cons.prems by (simp_all add: hex_encode_def append_eq_append_conv)
    moreover have "inj_on ((!) hex_alphabet) {..<16}" by (auto simp: hex_alphabet_def intro!: inj_on_nth)
    moreover have "set (digits 16 2 n) \<subseteq> {..<16}" for n using digits_less[of 16] by auto
    ultimately have "digits 16 2 (unat x) = digits 16 2 (unat y)"
      using inj_on_mapI map_inj_on[of "(!) hex_alphabet"] by (metis (no_types, lifting) inj_on_subset Un_least)
    then have "unat x = unat y" by (rule digits_inj) (use byte_less[of x] byte_less[of y] in simp_all)
    then show ?case using Cons.IH \<open>hex_encode xs = hex_encode ys\<close> by (simp add: word_unat_eq_iff)
  qed simp
qed simp

end
