(* ===== verification/Auth.thy ===== *)
theory Auth
  imports Encodings Http
begin

text \<open>
  Passwords, one-time codes and identifiers: \<open>auth/password.go\<close>, \<open>auth/mfa.go\<close>, the codes of
  \<open>auth/email.go\<close>, and \<open>id/id.go\<close>. The hash functions, PBKDF2 and the authenticated cipher are
  arguments (\<open>mfa_env\<close>), and so are the bytes read from the system's random source; everything around
  them is here: formats, bounds, truncation, the window of a TOTP code and the texts they are kept in.
\<close>

section \<open>Passwords\<close>

record mfa_env =
  me_pbkdf2 :: "string \<Rightarrow> bytes \<Rightarrow> int \<Rightarrow> bytes"
  me_hmac_sha1 :: "bytes \<Rightarrow> bytes \<Rightarrow> bytes"
  me_hmac_key :: "string \<Rightarrow> bytes"
  me_seal :: "bytes \<Rightarrow> string \<Rightarrow> string \<Rightarrow> bytes"
  me_open :: "bytes \<Rightarrow> bytes \<Rightarrow> string \<Rightarrow> string option"

definition password_iterations :: int where
  "password_iterations = 600000"

definition hash_password :: "mfa_env \<Rightarrow> bytes \<Rightarrow> string \<Rightarrow> string option" where
  "hash_password env salt password = (if length password < 12 \<or> length password > 1024 then None
     else Some (''pbkdf2_sha256$'' @ itoa password_iterations @ ''$'' @ base64_text std64 salt @ ''$''
       @ base64_text std64 (me_pbkdf2 env password salt password_iterations)))"

definition verify_password :: "mfa_env \<Rightarrow> string \<Rightarrow> string \<Rightarrow> bool" where
  "verify_password env encoded password = (case split_on CHR ''$'' encoded of
     [scheme, iterations, salt, digest] \<Rightarrow>
       scheme = ''pbkdf2_sha256'' \<and> (case (atoi iterations, base64_bytes std64 salt, base64_bytes std64 digest) of
         (Some n, Some salt, Some want) \<Rightarrow> 100000 \<le> n \<and> n \<le> 2000000 \<and> 16 \<le> length salt \<and> length want = 32
           \<and> me_pbkdf2 env password salt n = want
       | _ \<Rightarrow> False)
   | _ \<Rightarrow> False)"

section \<open>Time-based codes\<close>

definition totp_period :: int where
  "totp_period = 30"

definition upper_text :: "string \<Rightarrow> string" where
  "upper_text s = map upper_char s"

definition six_digits :: "nat \<Rightarrow> string" where
  "six_digits n = map digit_char (digits 10 6 n)"

text \<open>The dynamic truncation of RFC 4226: 31 bits of the digest from the offset that its last nibble names.\<close>

definition truncated :: "bytes \<Rightarrow> 32 word" where
  "truncated digest = (let offset = unat (last digest) mod 16 in
     of_nat (digits_value 256 [unat (digest ! offset) mod 128, unat (digest ! (offset + 1)),
       unat (digest ! (offset + 2)), unat (digest ! (offset + 3))]))"

definition counter_bytes :: "int \<Rightarrow> bytes" where
  "counter_bytes counter = map of_nat (digits 256 8 (unat (word_of_int counter :: 64 word)))"

definition totp_code :: "mfa_env \<Rightarrow> string \<Rightarrow> int \<Rightarrow> string" where
  "totp_code env secret counter = (case base32_bytes (upper_text (trim_space secret)) of None \<Rightarrow> ''''
     | Some key \<Rightarrow> six_digits (unat (truncated (me_hmac_sha1 env key (counter_bytes counter))) mod 1000000))"

text \<open>The time step of an instant; the division of Go truncates.\<close>

definition time_step :: "instant \<Rightarrow> int" where
  "time_step now = (let unix = now div nanos_per_second in
     if unix < 0 then - ((- unix) div totp_period) else unix div totp_period)"

definition validate_totp :: "mfa_env \<Rightarrow> string \<Rightarrow> string \<Rightarrow> instant \<Rightarrow> int option" where
  "validate_totp env secret code now = (let code = trim_space code in
     if length code \<noteq> 6 \<or> \<not> list_all is_digit code then None
     else List.find (\<lambda>c. 0 \<le> c \<and> totp_code env secret c = code)
       (map (\<lambda>offset. time_step now + offset) [-1, 0, 1]))"

definition new_secret :: "bytes \<Rightarrow> string" where
  "new_secret random = base32_text random"

definition encrypt_secret :: "mfa_env \<Rightarrow> bytes \<Rightarrow> string \<Rightarrow> string \<Rightarrow> string" where
  "encrypt_secret env nonce user_id secret = base64_text url64 (nonce @ me_seal env nonce secret user_id)"

definition nonce_size :: nat where
  "nonce_size = 12"

definition decrypt_secret :: "mfa_env \<Rightarrow> string \<Rightarrow> string \<Rightarrow> string option" where
  "decrypt_secret env user_id encoded = (case base64_bytes url64 encoded of None \<Rightarrow> None
     | Some payload \<Rightarrow> if length payload < nonce_size then None
         else me_open env (take nonce_size payload) (drop nonce_size payload) user_id)"

section \<open>Recovery codes and codes by email\<close>

definition recovery_code_size :: nat where
  "recovery_code_size = 12"

definition recovery_alphabet :: string where
  "recovery_alphabet = ''23456789ABCDEFGHJKLMNPQRSTUVWXYZ''"

definition recovery_code :: "bytes \<Rightarrow> string" where
  "recovery_code random = (let plain = map (\<lambda>b. recovery_alphabet ! (unat b mod length recovery_alphabet)) random in
     take 4 plain @ ''-'' @ take 4 (drop 4 plain) @ ''-'' @ drop 8 plain)"

definition without_hyphens :: "string \<Rightarrow> string" where
  "without_hyphens s = filter (\<lambda>c. c \<noteq> CHR ''-'') s"

definition recovery_code_hash :: "mfa_env \<Rightarrow> string \<Rightarrow> string" where
  "recovery_code_hash env code = base64_text url64 (me_hmac_key env (upper_text (without_hyphens (trim_space code))))"

definition new_recovery_codes :: "mfa_env \<Rightarrow> bytes list \<Rightarrow> string list \<times> string list" where
  "new_recovery_codes env random = (map recovery_code random, map (recovery_code_hash env \<circ> recovery_code) random)"

definition looks_like_recovery_code :: "string \<Rightarrow> bool" where
  "looks_like_recovery_code code \<longleftrightarrow> length (without_hyphens (trim_space code)) = recovery_code_size"

definition email_code_hash :: "mfa_env \<Rightarrow> string \<Rightarrow> string \<Rightarrow> string" where
  "email_code_hash env challenge_id code =
     base64_text url64 (me_hmac_key env (''email:'' @ challenge_id @ '':'' @ trim_space code))"

definition new_email_code :: "bytes \<Rightarrow> string" where
  "new_email_code random = six_digits (digits_value 256 (map unat random) mod 1000000)"

definition mask_email :: "string \<Rightarrow> string" where
  "mask_email value = (case split_on CHR ''@'' value of
     [name, domain] \<Rightarrow> if length name < 2 then ''***''
       else take 1 name @ replicate (min 6 (length name - 1)) CHR ''*'' @ ''@'' @ domain
   | _ \<Rightarrow> ''***'')"

section \<open>Identifiers\<close>

text \<open>Version 4 UUIDs: sixteen random bytes with the version and the variant set in two of them.\<close>

definition uuid_bytes :: "bytes \<Rightarrow> bytes" where
  "uuid_bytes v = v[6 := of_nat (unat (v ! 6) mod 16 + 64), 8 := of_nat (unat (v ! 8) mod 64 + 128)]"

definition new_id :: "bytes \<Rightarrow> string" where
  "new_id random = (let v = uuid_bytes random in
     hex_encode (take 4 v) @ ''-'' @ hex_encode (take 2 (drop 4 v)) @ ''-'' @ hex_encode (take 2 (drop 6 v)) @ ''-''
     @ hex_encode (take 2 (drop 8 v)) @ ''-'' @ hex_encode (take 6 (drop 10 v)))"

section \<open>Properties\<close>

lemma base64_std_chars: "set (base64_text std64 bs) \<subseteq> set std64"
proof -
  have "\<forall>d\<in>set (concat (map (encode_group 6) (groups_of 3 (map unat bs)))). d < length std64"
    using encode_symbols_less[of 6] alphabets(2) by metis
  then show ?thesis by (auto simp: base64_text_def unpadded_encode_def)
qed

lemma split_four_fields:
  assumes "c \<notin> set a" "c \<notin> set b" "c \<notin> set d" "c \<notin> set e"
  shows "split_on c (a @ c # b @ c # d @ c # e) = [a, b, d, e]"
  using assms by (simp add: split_on_append split_on_no_sep)

lemma no_dollar: "CHR ''$'' \<notin> set (base64_text std64 bs)" "CHR ''$'' \<notin> set (itoa password_iterations)"
proof -
  have "CHR ''$'' \<notin> set std64" by (simp add: std64_def)
  then show "CHR ''$'' \<notin> set (base64_text std64 bs)" using base64_std_chars by blast
  have "CHR ''$'' \<notin> set (nat_text n)" for n
    using nat_text_digits[of n] by (auto simp: list_all_iff is_digit_def less_eq_char_def)
  then show "CHR ''$'' \<notin> set (itoa password_iterations)" by (simp add: itoa_def password_iterations_def)
qed

lemma made_hash_verifies:
  assumes "hash_password env salt password = Some encoded" "length salt = 16"
    and "\<And>p s n. length (me_pbkdf2 env p s n) = 32"
  shows "verify_password env encoded candidate = (me_pbkdf2 env candidate salt password_iterations = me_pbkdf2 env password salt password_iterations)"
proof -
  have "encoded = ''pbkdf2_sha256'' @ CHR ''$'' # itoa password_iterations @ CHR ''$'' # base64_text std64 salt @ CHR ''$''
        # base64_text std64 (me_pbkdf2 env password salt password_iterations)"
    using assms(1) by (auto simp: hash_password_def split: if_splits)
  moreover have "CHR ''$'' \<notin> set ''pbkdf2_sha256''" by simp
  ultimately have "split_on CHR ''$'' encoded = [''pbkdf2_sha256'', itoa password_iterations, base64_text std64 salt,
      base64_text std64 (me_pbkdf2 env password salt password_iterations)]"
    using split_four_fields no_dollar by blast
  moreover have "atoi (itoa password_iterations) = Some password_iterations"
    by (rule atoi_itoa) (simp_all add: password_iterations_def)
  ultimately show ?thesis using assms(2,3)
    by (simp add: verify_password_def base64_roundtrip) (simp add: password_iterations_def)
qed

text \<open>A stored password accepts exactly what it was made from: a hash is made only of 12 to 1024 bytes, and
it is accepted for the passwords with the same derived key, and only for them.\<close>

theorem password_hash_verifies:
  assumes "hash_password env salt password = Some encoded" "length salt = 16"
    and "\<And>p s n. length (me_pbkdf2 env p s n) = 32"
  shows "12 \<le> length password \<and> length password \<le> 1024
    \<and> (\<forall>candidate. verify_password env encoded candidate
        \<longleftrightarrow> me_pbkdf2 env candidate salt password_iterations = me_pbkdf2 env password salt password_iterations)"
  using made_hash_verifies[OF assms] assms(1) by (simp add: hash_password_def split: if_splits)

text \<open>A TOTP code is accepted for at most three time steps: the one that the counter names and its two
neighbours, ninety seconds in all, and never for a negative counter.\<close>

lemma time_step_bounds:
  assumes "0 \<le> now"
  shows "totp_period * time_step now \<le> now div nanos_per_second"
    and "now div nanos_per_second < totp_period * (time_step now + 1)"
proof -
  have "0 \<le> now div nanos_per_second" using assms by (simp add: pos_imp_zdiv_nonneg_iff)
  then have "time_step now = now div nanos_per_second div totp_period" by (simp add: time_step_def Let_def)
  then show "totp_period * time_step now \<le> now div nanos_per_second"
    and "now div nanos_per_second < totp_period * (time_step now + 1)"
    by (simp_all add: totp_period_def)
qed

text \<open>C40. A time-based code is accepted only for the counter of its own time step or a neighbouring one: what
\<open>ValidateTOTP\<close> returns is a counter that is not negative, whose code is the text that was sent, and whose
step is at most one period away from the clock, so that a code lives ninety seconds at most.\<close>

theorem totp_window:
  assumes "validate_totp env secret code now = Some counter" "0 \<le> now"
  shows "0 \<le> counter \<and> totp_code env secret counter = trim_space code \<and> length (trim_space code) = 6
    \<and> totp_period * (counter - 1) \<le> now div nanos_per_second
    \<and> now div nanos_per_second < totp_period * (counter + 2)"
proof -
  have "0 \<le> counter \<and> totp_code env secret counter = trim_space code \<and> length (trim_space code) = 6"
    and near: "counter \<in> {time_step now - 1, time_step now, time_step now + 1}"
    using assms(1) by (auto simp: validate_totp_def Let_def find_Some_iff nth_Cons' less_Suc_eq_0_disj split: if_splits)
  then show ?thesis using time_step_bounds[OF assms(2)] by (auto simp: totp_period_def)
qed

definition demo_mfa :: mfa_env where
  "demo_mfa = \<lparr> me_pbkdf2 = (\<lambda>p s n. replicate 31 7 @ [of_nat (length p)]), me_hmac_sha1 = (\<lambda>_ _. replicate 20 0),
     me_hmac_key = (\<lambda>s. replicate 31 0 @ [of_nat (length s)]),
     me_seal = (\<lambda>n s u. map (\<lambda>c. of_nat (of_char c)) s), me_open = (\<lambda>n c u. Some (map (\<lambda>b. char_of (unat b)) c)) \<rparr>"

theorem password_hash_verifies_witness:
  "verify_password demo_mfa (the (hash_password demo_mfa (replicate 16 0) ''correct horse'')) ''correct horse''
    \<and> \<not> verify_password demo_mfa (the (hash_password demo_mfa (replicate 16 0) ''correct horse'')) ''other''"
proof -
  let ?h = "the (hash_password demo_mfa (replicate 16 0) ''correct horse'')"
  have h: "hash_password demo_mfa (replicate 16 0) ''correct horse'' = Some ?h" by (simp add: hash_password_def)
  have size: "length (me_pbkdf2 demo_mfa p s n) = 32" for p s n by (simp add: demo_mfa_def)
  show ?thesis using password_hash_verifies[OF h _ size] by (simp add: demo_mfa_def)
qed

theorem totp_window_witness:
  "\<exists>c. validate_totp demo_mfa ''MFRGG'' '' 000000'' (90 * nanos_per_second) = Some c \<and> 0 \<le> c
    \<and> totp_period * (c - 1) \<le> 90"
proof -
  have "upper_text (trim_space ''MFRGG'') = ''MFRGG''" by code_simp
  moreover have "indices_in std32 (skip_newlines ''MFRGG'') = Some [12, 5, 17, 6, 6]"
    by (simp add: skip_newlines_def index_in_def std32_def upt_conv_Cons)
  ultimately have "base32_bytes (upper_text (trim_space ''MFRGG'')) \<noteq> None" by (simp add: base32_bytes_def)
  then obtain key where key: "base32_bytes (upper_text (trim_space ''MFRGG'')) = Some key" by blast
  have "truncated (replicate 20 0) = 0" by (simp add: truncated_def Let_def digits_value_def)
  moreover have "six_digits 0 = ''000000''" by code_simp
  ultimately have "totp_code demo_mfa ''MFRGG'' c = ''000000''" for c
    by (simp add: totp_code_def key demo_mfa_def)
  then have v: "validate_totp demo_mfa ''MFRGG'' '' 000000'' (90 * nanos_per_second) = Some 2"
    by (simp add: validate_totp_def time_step_def totp_period_def Let_def trim_space_def is_digit_def is_space_def)
  show ?thesis using totp_window[OF v] v by simp
qed

text \<open>A recovery code is recognised as one, and its hash does not depend on the case or the hyphens typed.\<close>

lemma recovery_code_hash_normalises:
  "upper_text (without_hyphens (trim_space typed)) = upper_text (without_hyphens (trim_space code))
    \<Longrightarrow> recovery_code_hash env typed = recovery_code_hash env code"
  by (simp add: recovery_code_hash_def)

lemma recovery_char:
  "recovery_alphabet ! (unat b mod length recovery_alphabet) \<in> set recovery_alphabet"
proof -
  have "0 < length recovery_alphabet" by (simp add: recovery_alphabet_def)
  then show ?thesis by (intro nth_mem mod_less_divisor)
qed

text \<open>Under the law of an authenticated cipher, what is opened is what was sealed for the same user.\<close>

lemma secret_round_trip:
  assumes "\<And>n s u. me_open env n (me_seal env n s u) u = Some s" "length nonce = nonce_size"
  shows "decrypt_secret env user (encrypt_secret env nonce user secret) = Some secret"
  using assms by (simp add: decrypt_secret_def encrypt_secret_def base64_roundtrip)

end
