(* ===== verification/ApiLogin.thy ===== *)
theory ApiLogin
  imports ApiAuth Auth LoginLimiter StoreMfa
begin

text \<open>
  Setup and login in \<open>api/api.go\<close>: the first administrator, passwords, the onboarding of a new account, the
  second factor, and the change of a password.

  The state of the server is the database with the three limiters; codes that were mailed are kept in
  \<open>sv_outbox\<close>. \<open>login_env\<close> is the configuration. \<open>draws\<close> holds the random bytes and identifiers one handler
  draws, \<open>clock\<close> the readings of the clock in its order; \<open>rand.Read\<close> does not fail in the Go version of
  \<open>go.mod\<close>, so the branches for its error are left out. The body of a request arrives decoded, \<open>None\<close> where
  \<open>decodeJSON\<close> refuses it. A nil \<open>s.mfa\<close> is \<open>le_mfa_loaded = False\<close>, a nil \<open>emailSender\<close> is \<open>le_send = None\<close>,
  and the use of a nil \<open>s.mfa\<close> is the reply \<open>Panicked\<close>.
\<close>

section \<open>The server, requests and replies\<close>

record login_env =
  le_api :: api_env
  le_crypto :: mfa_env
  le_mfa_loaded :: bool
  le_mfa_enabled :: bool
  le_mfa_methods :: "string list"
  le_session_ttl :: int
  le_email_ttl :: int
  le_send :: "(string \<Rightarrow> string \<Rightarrow> bool) option"
  le_parse_address :: "string \<Rightarrow> string option"
  le_qr_code :: "string \<Rightarrow> string option"

record server =
  sv_db :: db
  sv_login :: login_limiter
  sv_ip :: login_limiter
  sv_password :: login_limiter
  sv_outbox :: "(string \<times> string) list"

record call =
  cl_request :: api_request
  cl_request_id :: string
  cl_principal :: principal

record draws =
  dr_token :: bytes
  dr_csrf :: bytes
  dr_salt :: bytes
  dr_email_code :: bytes
  dr_secret :: bytes
  dr_nonce :: bytes
  dr_recovery :: "bytes list"
  dr_id :: string
  dr_audit_id :: string
  dr_login_audit_id :: string
  dr_code_id :: "nat \<Rightarrow> string"

record clock =
  ck_now :: instant
  ck_expiry :: instant
  ck_store :: instant
  ck_read :: instant
  ck_method :: instant
  ck_audit :: instant

record challenge_reply =
  cr_next :: string
  cr_token :: string
  cr_methods :: "string list"
  cr_preferred :: "string option"
  cr_steps :: "string list"
  cr_expires_at :: instant

text \<open>What a login leaves at the client: the cookies with their \<open>Secure\<close> flag, and the recovery codes.\<close>

record issued =
  is_user :: user
  is_token :: string
  is_csrf :: string
  is_expires_at :: instant
  is_secure :: bool
  is_recovery_codes :: "string list"
  is_recovery_used :: bool
  is_recovery_remaining :: nat

datatype reply =
    Refused refusal
  | RateLimited string int
  | Panicked
  | SetupStatus bool
  | Saved nat user
  | Challenged challenge_reply
  | Issued issued
  | NextStep string
  | CodeSent string instant
  | TotpStarted "(string \<times> string) option" instant
  | Users "user list"
  | Account principal string bool bool
  | NoContent

definition source_ip :: "call \<Rightarrow> string" where
  "source_ip c = request_source_ip (ar_http (cl_request c))"

definition new_opaque_secret :: "bytes \<Rightarrow> string" where
  "new_opaque_secret raw = base64_text url64 raw"

definition digest_string :: "login_env \<Rightarrow> string \<Rightarrow> string" where
  "digest_string env s = ae_hash (le_api env) s"

definition decode_json :: "server \<Rightarrow> 'i option \<Rightarrow> ('i \<Rightarrow> server \<times> reply) \<Rightarrow> server \<times> reply" where
  "decode_json sv body k = (case body of None \<Rightarrow> (sv, Refused (400, ''invalid_json'')) | Some input \<Rightarrow> k input)"

text \<open>The seconds of \<open>Retry-After\<close>: \<open>Duration.Round\<close> rounds half away from zero.\<close>

definition retry_after :: "int \<Rightarrow> int" where
  "retry_after d = (d + nanos_per_second div 2) div nanos_per_second"

definition request_uses_https :: "http_request \<Rightarrow> bool" where
  "request_uses_https rq \<longleftrightarrow> rq_tls rq
     \<or> equal_fold (trim_space (hd (split_on CHR '','' (header_get (rq_headers rq) ''X-Forwarded-Proto'')))) ''https''"

definition call_audit :: "call \<Rightarrow> string \<Rightarrow> string \<Rightarrow> string \<Rightarrow> string \<Rightarrow> audit_input" where
  "call_audit c actor action type result = \<lparr>ai_actor = actor, ai_action = action, ai_resource_type = type,
     ai_resource_id = '''', ai_result = result, ai_request_id = cl_request_id c, ai_source_ip = source_ip c,
     ai_metadata = Blank\<rparr>"

definition audit_from_request :: "call \<Rightarrow> string \<Rightarrow> string \<Rightarrow> audit_input" where
  "audit_from_request c action type = (let actor = pr_username (cl_principal c) in
     call_audit c (if actor = '''' then ''unauthenticated'' else actor) action type ''success'')"

definition audit_login :: "draws \<Rightarrow> clock \<Rightarrow> call \<Rightarrow> string \<Rightarrow> string \<Rightarrow> db \<Rightarrow> db" where
  "audit_login d k c username result db = fst (append_audit (dr_login_audit_id d) (ck_audit k)
     ((call_audit c username ''auth.login'' ''auth_session'' result)
       \<lparr>ai_metadata := Parsed (JObject [(''username'', JString username)])\<rparr>) db)"

section \<open>The first administrator\<close>

definition setup_status :: "server \<Rightarrow> server \<times> reply" where
  "setup_status sv = (sv, SetupStatus (has_users (sv_db sv)))"

definition valid_username :: "string \<Rightarrow> bool" where
  "valid_username name \<longleftrightarrow> 3 \<le> length name \<and> length name \<le> 64
     \<and> \<not> list_ex (\<lambda>ch. ch \<in> set [CHR '' '', CHR ''/'', CHR 0x5C, CHR ''@'', CHR '':'']) name"

record setup_input =
  si_username :: string
  si_display_name :: string
  si_password :: string

definition setup_platform :: "login_env \<Rightarrow> draws \<Rightarrow> clock \<Rightarrow> call \<Rightarrow> setup_input option \<Rightarrow> server \<Rightarrow> server \<times> reply" where
  "setup_platform env d k c body sv = decode_json sv body (\<lambda>input. let
     username = trim_space (si_username input); display = trim_space (si_display_name input);
     hash = hash_password (le_crypto env) (dr_salt d) (si_password input) in
     if \<not> valid_username username \<or> display = '''' \<or> hash = None then (sv, Refused (422, ''validation_failed''))
     else case create_initial_admin (dr_id d) (dr_audit_id d) (ck_store k)
         \<lparr>cu_username = username, cu_display_name = display, cu_password_hash = the hash, cu_role = ''system_admin'',
           cu_enabled = True, cu_project_ids = []\<rparr>
         (call_audit c username ''platform.initialize'' ''user'' ''success'') (sv_db sv) of
       (db, Inr user) \<Rightarrow> (sv\<lparr>sv_db := db\<rparr>, Saved 201 user)
     | (db, Inl e) \<Rightarrow> (sv\<lparr>sv_db := db\<rparr>,
         Refused (if e = ErrAlreadyInitialized then (409, ''already_initialized'') else (500, ''setup_failed''))))"

section \<open>The password\<close>

record login_input =
  li_username :: string
  li_password :: string

definition limiter_key :: "call \<Rightarrow> string \<Rightarrow> string" where
  "limiter_key c username = source_ip c @ CHR 0x00 # to_lower username"

definition issue :: "call \<Rightarrow> string \<Rightarrow> string \<Rightarrow> instant \<Rightarrow> auth_session \<Rightarrow> issued" where
  "issue c token csrf expires s = \<lparr>is_user = ses_user s, is_token = token, is_csrf = csrf, is_expires_at = expires,
     is_secure = request_uses_https (ar_http (cl_request c)), is_recovery_codes = [], is_recovery_used = False,
     is_recovery_remaining = 0\<rparr>"

definition create_password_session ::
  "login_env \<Rightarrow> draws \<Rightarrow> clock \<Rightarrow> call \<Rightarrow> user_credential \<Rightarrow> server \<Rightarrow> server \<times> reply" where
  "create_password_session env d k c cred sv = (let
     token = new_opaque_secret (dr_token d); csrf = new_opaque_secret (dr_csrf d);
     expires = ck_expiry k + le_session_ttl env in
     case create_auth_session (dr_id d) (ck_store k) (usr_id (cred_user cred)) (digest_string env token)
         (digest_string env csrf) expires (sv_db sv) of
       (db, Inl e) \<Rightarrow> (sv\<lparr>sv_db := db\<rparr>, Refused (500, ''session_create_failed''))
     | (db, Inr s) \<Rightarrow> (sv\<lparr>sv_db := audit_login d k c (usr_username (cred_user cred)) ''success'' db\<rparr>,
         Issued (issue c token csrf expires s)))"

definition count_login_failure :: "draws \<Rightarrow> clock \<Rightarrow> call \<Rightarrow> string \<Rightarrow> server \<Rightarrow> server \<times> reply" where
  "count_login_failure d k c username sv = (sv\<lparr>sv_login := failure (limiter_key c username) (ck_now k) (sv_login sv),
     sv_ip := failure (source_ip c) (ck_now k) (sv_ip sv),
     sv_db := audit_login d k c username ''failed'' (sv_db sv)\<rparr>, Refused (401, ''login_failed''))"

text \<open>The challenge after the password: \<open>verify\<close> for an account with a second factor, \<open>onboard\<close> for one
without, \<open>password\<close> where only the password must be changed.\<close>

definition challenge_purpose :: "login_env \<Rightarrow> user \<Rightarrow> string" where
  "challenge_purpose env u = (if \<not> le_mfa_enabled env then ''password''
     else if usr_password_change_required u \<or> usr_email u = '''' \<or> \<not> usr_mfa_enabled u then ''onboard''
     else ''verify'')"

definition challenge_answer :: "login_env \<Rightarrow> user_credential \<Rightarrow> string \<Rightarrow> instant \<Rightarrow> challenge_reply" where
  "challenge_answer env cred token expires = (case challenge_purpose env (cred_user cred) of purpose \<Rightarrow>
     \<lparr>cr_next = (if purpose = ''verify'' then ''verify'' else ''onboard''), cr_token = token,
       cr_methods = (if purpose = ''password'' then [] else if purpose = ''onboard'' then le_mfa_methods env
         else [cred_mfa_method cred]),
       cr_preferred = (if purpose = ''verify'' then Some (cred_mfa_method cred) else None),
       cr_steps = (if purpose = ''password'' then [''password'']
         else if purpose = ''onboard'' then [''password'', ''email'', ''mfa''] else []),
       cr_expires_at = expires\<rparr>)"

definition open_challenge ::
  "login_env \<Rightarrow> draws \<Rightarrow> clock \<Rightarrow> call \<Rightarrow> string \<Rightarrow> user_credential \<Rightarrow> server \<Rightarrow> server \<times> reply" where
  "open_challenge env d k c username cred sv = (let
     token = new_opaque_secret (dr_token d); expires = ck_expiry k + minutes 10;
     purpose = challenge_purpose env (cred_user cred) in
     case create_mfa_challenge (dr_id d) (ck_store k) (ck_read k) (usr_id (cred_user cred)) (digest_string env token)
         purpose '''' (source_ip c) expires (sv_db sv) of
       (db, Inl e) \<Rightarrow> (sv\<lparr>sv_db := db\<rparr>, Refused (500, ''challenge_create_failed''))
     | (db, Inr ch) \<Rightarrow>
       (case if le_mfa_enabled env \<and> usr_mfa_enabled (cred_user cred) \<and> cred_mfa_method cred = ''totp''
             then set_mfa_challenge_method (ck_method k) (ch_id ch) ''totp'' '''' '''' expires db else (db, Inr ()) of
          (db, Inl e) \<Rightarrow> (sv\<lparr>sv_db := db\<rparr>, Refused (500, ''challenge_create_failed''))
        | (db, Inr _) \<Rightarrow>
          (sv\<lparr>sv_login := success (limiter_key c username) (sv_login sv),
              sv_db := audit_login d k c username
                (if purpose = ''password'' then ''password_change_required'' else ''mfa_required'') db\<rparr>,
           Challenged (challenge_answer env cred token expires))))"

text \<open>Up to the comparison of the password: the answer, or the account that has proved it.\<close>

definition check_password ::
  "login_env \<Rightarrow> draws \<Rightarrow> clock \<Rightarrow> call \<Rightarrow> string \<Rightarrow> string \<Rightarrow> server \<Rightarrow> server \<times> (reply + user_credential)" where
  "check_password env d k c username password sv = (let
     ip = source_ip c; key = limiter_key c username; now = ck_now k;
     (ipl, (ip_blocked, ip_retry)) = blocked ip now (sv_ip sv); sv = sv\<lparr>sv_ip := ipl\<rparr> in
     if ip_blocked then (sv, Inl (RateLimited ''login_rate_limited'' (retry_after ip_retry)))
     else let (ll, (key_blocked, retry)) = blocked key now (sv_login sv); sv = sv\<lparr>sv_login := ll\<rparr> in
     if key_blocked then (sv\<lparr>sv_ip := failure ip now (sv_ip sv)\<rparr>,
       Inl (RateLimited ''login_rate_limited'' (retry_after retry)))
     else case user_credential_by_username username (sv_db sv) of
       Inl e \<Rightarrow> if e = ErrNotFound then (case count_login_failure d k c username sv of (sv, r) \<Rightarrow> (sv, Inl r))
                else (sv, Inl (Refused (500, ''database_error'')))
     | Inr cred \<Rightarrow>
       if \<not> usr_enabled (cred_user cred) \<or> \<not> verify_password (le_crypto env) (cred_password_hash cred) password
       then (case count_login_failure d k c username sv of (sv, r) \<Rightarrow> (sv, Inl r))
       else (sv, Inr cred))"

definition login ::
  "login_env \<Rightarrow> draws \<Rightarrow> clock \<Rightarrow> call \<Rightarrow> login_input option \<Rightarrow> server \<Rightarrow> server \<times> reply" where
  "login env d k c body sv = decode_json sv body (\<lambda>input. let username = trim_space (li_username input) in
     if length username > 256 \<or> length (li_password input) > 4096 then (sv, Refused (400, ''invalid_credentials''))
     else case check_password env d k c username (li_password input) sv of
       (sv, Inl r) \<Rightarrow> (sv, r)
     | (sv, Inr cred) \<Rightarrow>
       if \<not> le_mfa_enabled env \<and> \<not> usr_password_change_required (cred_user cred)
       then create_password_session env d k c cred (sv\<lparr>sv_login := success (limiter_key c username) (sv_login sv)\<rparr>)
       else if le_mfa_enabled env \<and> \<not> le_mfa_loaded env then (sv, Refused (503, ''mfa_unavailable''))
       else open_challenge env d k c username cred sv)"

section \<open>Challenges\<close>

text \<open>\<open>loadOnboardingChallenge\<close> and \<open>loadPasswordChallenge\<close>: the challenge of a token with one of the purposes.\<close>

definition load_challenge :: "login_env \<Rightarrow> clock \<Rightarrow> string list \<Rightarrow> string \<Rightarrow> server \<Rightarrow> mfa_challenge option" where
  "load_challenge env k purposes token sv =
     (case challenge_by_token (ck_read k) (digest_string env (trim_space token)) (sv_db sv) of
        Inl e \<Rightarrow> None | Inr ch \<Rightarrow> if ch_purpose ch \<in> set purposes then Some ch else None)"

definition expired :: refusal where
  "expired = (410, ''mfa_challenge_expired'')"

definition login_completion ::
  "login_env \<Rightarrow> draws \<Rightarrow> clock \<Rightarrow> call \<Rightarrow> mfa_challenge \<Rightarrow> string \<Rightarrow> complete_mfa_input" where
  "login_completion env d k c ch action = \<lparr>ci_challenge_id = ch_id ch, ci_password_hash = '''', ci_method = '''',
     ci_counter = 0, ci_code_hash = '''', ci_token_hash = digest_string env (new_opaque_secret (dr_token d)),
     ci_csrf_hash = digest_string env (new_opaque_secret (dr_csrf d)),
     ci_expires_at = ck_expiry k + le_session_ttl env, ci_recovery = [], ci_method_bound = '''',
     ci_audit = call_audit c (usr_username (ch_user ch)) action ''auth_session'' ''success''\<rparr>"

definition issue_drawn :: "login_env \<Rightarrow> draws \<Rightarrow> clock \<Rightarrow> call \<Rightarrow> auth_session \<Rightarrow> issued" where
  "issue_drawn env d k c s = issue c (new_opaque_secret (dr_token d)) (new_opaque_secret (dr_csrf d))
     (ck_expiry k + le_session_ttl env) s"

record onboarding_password_input =
  oi_token :: string
  oi_new_password :: string

definition onboarding_password ::
  "login_env \<Rightarrow> draws \<Rightarrow> clock \<Rightarrow> call \<Rightarrow> onboarding_password_input option \<Rightarrow> server \<Rightarrow> server \<times> reply" where
  "onboarding_password env d k c body sv = decode_json sv body (\<lambda>input.
     case load_challenge env k [''onboard'', ''password''] (oi_token input) sv of
       None \<Rightarrow> (sv, Refused expired)
     | Some ch \<Rightarrow>
     case user_credential_by_username (usr_username (ch_user ch)) (sv_db sv) of
       Inl e \<Rightarrow> (sv, Refused (500, ''database_error''))
     | Inr cred \<Rightarrow>
     case hash_password (le_crypto env) (dr_salt d) (oi_new_password input) of
       None \<Rightarrow> (sv, Refused (422, ''validation_failed''))
     | Some hash \<Rightarrow>
     if verify_password (le_crypto env) (cred_password_hash cred) (oi_new_password input)
     then (sv, Refused (422, ''password_unchanged''))
     else if ch_purpose ch = ''password'' then
       (case complete_password_change (dr_id d) (dr_audit_id d) (ck_store k)
           ((login_completion env d k c ch ''auth.password_change'')\<lparr>ci_password_hash := hash\<rparr>) (sv_db sv) of
          (db, Inl e) \<Rightarrow> (sv\<lparr>sv_db := db\<rparr>,
            Refused (if e = ErrMFAChallenge then expired else (500, ''session_create_failed'')))
        | (db, Inr s) \<Rightarrow> (sv\<lparr>sv_db := db\<rparr>, Issued (issue_drawn env d k c s)))
     else (case set_onboarding_password (ck_store k) (ch_id ch) hash (sv_db sv) of
         (db, Inl e) \<Rightarrow> (sv\<lparr>sv_db := db\<rparr>, Refused expired)
       | (db, Inr _) \<Rightarrow> (sv\<lparr>sv_db := db\<rparr>, NextStep ''email'')))"

section \<open>The onboarding's email\<close>

definition normalize_email :: "login_env \<Rightarrow> string \<Rightarrow> string option" where
  "normalize_email env value = (case le_parse_address env (trim_space value) of None \<Rightarrow> None
     | Some a \<Rightarrow> if a = '''' \<or> CHR ''@'' \<notin> set a then None else Some (to_lower a))"

text \<open>A mail that is delivered is in the outbox; a failed delivery is taken back.\<close>

definition deliver_code ::
  "(string \<Rightarrow> string \<Rightarrow> bool) \<Rightarrow> string \<Rightarrow> string \<Rightarrow> string \<Rightarrow> string \<Rightarrow> instant \<Rightarrow> server \<Rightarrow> server \<times> reply" where
  "deliver_code send challenge_id email code code_hash expires sv =
     (if send email code then (sv\<lparr>sv_outbox := sv_outbox sv @ [(email, code)]\<rparr>, CodeSent (mask_email email) expires)
      else (sv\<lparr>sv_db := clear_mfa_email_delivery challenge_id code_hash (sv_db sv)\<rparr>,
        Refused (502, ''smtp_delivery_failed'')))"

record onboarding_email_input =
  oe_token :: string
  oe_email :: string
  oe_code :: string

definition send_onboarding_email ::
  "login_env \<Rightarrow> draws \<Rightarrow> clock \<Rightarrow> onboarding_email_input option \<Rightarrow> server \<Rightarrow> server \<times> reply" where
  "send_onboarding_email env d k body sv = (case le_send env of
     None \<Rightarrow> (sv, Refused (503, ''smtp_unavailable''))
   | Some send \<Rightarrow> decode_json sv body (\<lambda>input.
     case load_challenge env k [''onboard''] (oe_token input) sv of
       None \<Rightarrow> (sv, Refused expired)
     | Some ch \<Rightarrow>
     if ch_new_password_hash ch = '''' then (sv, Refused (409, ''onboarding_step_required''))
     else case normalize_email env (oe_email input) of
       None \<Rightarrow> (sv, Refused (422, ''invalid_email''))
     | Some email \<Rightarrow>
     if \<not> le_mfa_loaded env then (sv, Panicked)
     else let code = new_email_code (dr_email_code d);
        code_hash = email_code_hash (le_crypto env) (ch_id ch) code; expires = ck_expiry k + le_email_ttl env in
     case set_onboarding_email_delivery (ck_store k) (ch_id ch) email code_hash expires (sv_db sv) of
       (db, Inl e) \<Rightarrow> (sv\<lparr>sv_db := db\<rparr>,
         Refused (if e = ErrMFACooldown then (429, ''email_rate_limited'') else expired))
     | (db, Inr _) \<Rightarrow> deliver_code send (ch_id ch) email code code_hash expires (sv\<lparr>sv_db := db\<rparr>)))"

definition check_onboarding_email ::
  "login_env \<Rightarrow> clock \<Rightarrow> onboarding_email_input option \<Rightarrow> server \<Rightarrow> server \<times> reply" where
  "check_onboarding_email env k body sv = decode_json sv body (\<lambda>input.
     case load_challenge env k [''onboard''] (oe_token input) sv of
       None \<Rightarrow> (sv, Refused expired)
     | Some ch \<Rightarrow>
     if \<not> le_mfa_loaded env then (sv, Panicked)
     else case verify_onboarding_email (ch_id ch) (email_code_hash (le_crypto env) (ch_id ch) (oe_code input)) (sv_db sv) of
       (db, Inl e) \<Rightarrow> (sv\<lparr>sv_db := fst (fail_mfa_challenge (ch_id ch) db)\<rparr>, Refused (401, ''invalid_email_code''))
     | (db, Inr _) \<Rightarrow> (sv\<lparr>sv_db := db\<rparr>, NextStep ''mfa''))"

section \<open>The second factor\<close>

record start_mfa_input =
  sm_token :: string
  sm_method :: string

text \<open>The authenticator's link: \<open>url.PathEscape\<close> of a user name after the name of the platform, which is UTF-8
and written here escaped, and the query with its keys in order.\<close>

definition path_segment_char :: "char \<Rightarrow> bool" where
  "path_segment_char ch \<longleftrightarrow> is_digit ch \<or> CHR ''a'' \<le> ch \<and> ch \<le> CHR ''z'' \<or> CHR ''A'' \<le> ch \<and> ch \<le> CHR ''Z''
     \<or> ch \<in> set ''-_.~$&+=:@''"

definition path_escape :: "string \<Rightarrow> string" where
  "path_escape s = concat (map (\<lambda>ch. if path_segment_char ch then [ch]
     else CHR ''%'' # upper_text (hex_encode [of_nat (of_char ch)])) s)"

definition platform_name :: string where
  "platform_name = ''%E8%AE%BE%E5%A4%87%E7%AE%A1%E7%90%86%E5%B9%B3%E5%8F%B0''"

definition otpauth_uri :: "string \<Rightarrow> string \<Rightarrow> string" where
  "otpauth_uri username secret = ''otpauth://totp/'' @ platform_name @ '':'' @ path_escape username
     @ ''?algorithm=SHA1&digits=6&issuer='' @ platform_name @ ''&period=30&secret='' @ secret"

text \<open>The secret, its link and the image, whose encoder is a library.\<close>

definition new_enrollment :: "login_env \<Rightarrow> draws \<Rightarrow> string \<Rightarrow> (string \<times> string \<times> string) option" where
  "new_enrollment env d username = (let secret = new_secret (dr_secret d); uri = otpauth_uri username secret in
     map_option (\<lambda>image. (secret, uri, ''data:image/png;base64,'' @ image)) (le_qr_code env uri))"

definition start_totp ::
  "login_env \<Rightarrow> draws \<Rightarrow> clock \<Rightarrow> mfa_challenge \<Rightarrow> server \<Rightarrow> server \<times> reply" where
  "start_totp env d k ch sv = (let expires = ck_expiry k + minutes 10; onboard = (ch_purpose ch = ''onboard'');
     enrollment = (if onboard then new_enrollment env d (usr_username (ch_user ch)) else None) in
     if onboard \<and> enrollment = None then (sv, Refused (500, ''mfa_enrollment_failed''))
     else case set_mfa_challenge_method (ck_method k) (ch_id ch) ''totp''
         (case enrollment of None \<Rightarrow> ''''
          | Some (secret, _) \<Rightarrow> encrypt_secret (le_crypto env) (dr_nonce d) (usr_id (ch_user ch)) secret)
         '''' expires (sv_db sv) of
       (db, Inl e) \<Rightarrow> (sv\<lparr>sv_db := db\<rparr>, Refused expired)
     | (db, Inr _) \<Rightarrow> (sv\<lparr>sv_db := db\<rparr>, TotpStarted (map_option (\<lambda>(secret, _, image). (image, secret)) enrollment) expires))"

definition start_email ::
  "login_env \<Rightarrow> draws \<Rightarrow> clock \<Rightarrow> mfa_challenge \<Rightarrow> server \<Rightarrow> server \<times> reply" where
  "start_email env d k ch sv = (case le_send env of
     None \<Rightarrow> (sv, Refused (503, ''smtp_unavailable''))
   | Some send \<Rightarrow> let expires = ck_expiry k + minutes 10;
       email = (if ch_purpose ch = ''onboard'' then ch_email ch else usr_email (ch_user ch));
       code = new_email_code (dr_email_code d); code_hash = email_code_hash (le_crypto env) (ch_id ch) code in
     case set_mfa_challenge_method (ck_method k) (ch_id ch) ''email'' '''' code_hash expires (sv_db sv) of
       (db, Inl e) \<Rightarrow> (sv\<lparr>sv_db := db\<rparr>,
         Refused (if e = ErrMFACooldown then (429, ''email_rate_limited'') else expired))
     | (db, Inr _) \<Rightarrow> deliver_code send (ch_id ch) email code code_hash expires (sv\<lparr>sv_db := db\<rparr>))"

definition mfa_method_allowed :: "login_env \<Rightarrow> string \<Rightarrow> bool" where
  "mfa_method_allowed env method \<longleftrightarrow> list_ex (\<lambda>allowed. method = allowed) (le_mfa_methods env)"

definition start_mfa ::
  "login_env \<Rightarrow> draws \<Rightarrow> clock \<Rightarrow> start_mfa_input option \<Rightarrow> server \<Rightarrow> server \<times> reply" where
  "start_mfa env d k body sv = (if \<not> le_mfa_loaded env then (sv, Refused (503, ''mfa_unavailable''))
     else decode_json sv body (\<lambda>input.
     case challenge_by_token (ck_read k) (digest_string env (trim_space (sm_token input))) (sv_db sv) of
       Inl e \<Rightarrow> (sv, Refused expired)
     | Inr ch \<Rightarrow> let method = to_lower (trim_space (sm_method input)) in
     if \<not> mfa_method_allowed env method then (sv, Refused (422, ''mfa_method_unavailable''))
     else if ch_purpose ch = ''onboard'' \<and> (ch_new_password_hash ch = '''' \<or> \<not> ch_email_verified ch)
     then (sv, Refused (409, ''onboarding_step_required''))
     else if ch_purpose ch = ''verify'' \<and> method \<noteq> ch_mfa_method ch then (sv, Refused (422, ''mfa_method_unavailable''))
     else if method = ''totp'' then start_totp env d k ch sv else start_email env d k ch sv))"

text \<open>What the code that was sent proves: the method, counter and hash with which the login is completed,
or the reply.\<close>

definition factor_failed :: "refusal \<Rightarrow> draws \<Rightarrow> clock \<Rightarrow> call \<Rightarrow> mfa_challenge \<Rightarrow> server \<Rightarrow> server \<times> reply" where
  "factor_failed refused d k c ch sv = (sv\<lparr>sv_db := audit_login d k c (usr_username (ch_user ch)) ''mfa_failed''
     (fst (fail_mfa_challenge (ch_id ch) (sv_db sv)))\<rparr>, Refused refused)"

definition check_factor ::
  "login_env \<Rightarrow> draws \<Rightarrow> clock \<Rightarrow> call \<Rightarrow> mfa_challenge \<Rightarrow> string \<Rightarrow> server
     \<Rightarrow> (server \<times> reply) + (string \<times> int \<times> string)" where
  "check_factor env d k c ch code sv =
     (if looks_like_recovery_code code \<and> ch_purpose ch = ''verify''
      then Inr (''recovery'', 0, recovery_code_hash (le_crypto env) code)
      else if ch_method ch = ''email'' then
        (if ch_email_code_hash ch = '''' \<or> email_code_hash (le_crypto env) (ch_id ch) code \<noteq> ch_email_code_hash ch
         then Inl (factor_failed (401, ''invalid_mfa_code'') d k c ch sv) else Inr (''email'', 0, ''''))
      else if ch_method ch = ''totp'' then
        (case decrypt_secret (le_crypto env) (usr_id (ch_user ch))
            (if ch_purpose ch = ''onboard'' then ch_secret ch else ch_mfa_secret ch) of
           None \<Rightarrow> Inl (sv, Refused (409, ''mfa_key_unavailable''))
         | Some secret \<Rightarrow>
           (case validate_totp (le_crypto env) secret code (ck_now k) of
              None \<Rightarrow> Inl (factor_failed (401, ''invalid_mfa_code'') d k c ch sv)
            | Some counter \<Rightarrow> Inr (''totp'', counter, '''')))
      else Inl (factor_failed (409, ''mfa_start_required'') d k c ch sv))"

record complete_input =
  co_token :: string
  co_code :: string

definition complete_with ::
  "login_env \<Rightarrow> draws \<Rightarrow> clock \<Rightarrow> call \<Rightarrow> mfa_challenge \<Rightarrow> string \<Rightarrow> int \<Rightarrow> string \<Rightarrow> server \<Rightarrow> server \<times> reply" where
  "complete_with env d k c ch method counter code_hash sv = (let
     onboard = (ch_purpose ch = ''onboard'');
     (codes, hashes) = new_recovery_codes (le_crypto env) (dr_recovery d);
     base = (login_completion env d k c ch (if onboard then ''auth.onboarding_complete'' else ''auth.login''))
       \<lparr>ci_method := method, ci_counter := counter, ci_code_hash := code_hash\<rparr>;
     input = (if onboard then base\<lparr>ci_recovery := hashes, ci_method_bound := ch_method ch\<rparr> else base) in
     case (if onboard then complete_mfa_enrollment else complete_mfa_authentication)
         (dr_id d) (dr_audit_id d) (dr_code_id d) (ck_store k) input (sv_db sv) of
       (db, Inl e) \<Rightarrow> if e = ErrMFAChallenge \<or> e = ErrMFAReplay
         then factor_failed (401, ''invalid_mfa_code'') d k c ch (sv\<lparr>sv_db := db\<rparr>)
         else (sv\<lparr>sv_db := db\<rparr>, Refused (500, ''session_create_failed''))
     | (db, Inr s) \<Rightarrow> (sv\<lparr>sv_db := db\<rparr>, Issued ((issue_drawn env d k c s)
         \<lparr>is_recovery_codes := (if onboard then codes else []), is_recovery_used := (method = ''recovery''),
           is_recovery_remaining := recovery_code_count (usr_id (ch_user ch)) db\<rparr>)))"

definition complete_login ::
  "login_env \<Rightarrow> draws \<Rightarrow> clock \<Rightarrow> call \<Rightarrow> complete_input option \<Rightarrow> server \<Rightarrow> server \<times> reply" where
  "complete_login env d k c body sv = (if \<not> le_mfa_loaded env then (sv, Refused (503, ''mfa_unavailable''))
     else decode_json sv body (\<lambda>input. let token = trim_space (co_token input); code = trim_space (co_code input) in
     if length token < 32 \<or> length token > 256 \<or> length code < 6 \<or> length code > 64
     then (sv, Refused (400, ''invalid_mfa_request''))
     else case challenge_by_token (ck_read k) (digest_string env token) (sv_db sv) of
       Inl e \<Rightarrow> (sv, Refused (if e = ErrMFAChallenge then expired else (500, ''database_error'')))
     | Inr ch \<Rightarrow> (case check_factor env d k c ch code sv of
         Inl r \<Rightarrow> r
       | Inr (method, counter, code_hash) \<Rightarrow> complete_with env d k c ch method counter code_hash sv)))"

section \<open>The account of a login\<close>

definition me :: "call \<Rightarrow> server \<Rightarrow> server \<times> reply" where
  "me c sv = (let p = cl_principal c in case user_credential_by_username (pr_username p) (sv_db sv) of
     Inl e \<Rightarrow> (sv, if pr_bootstrap p then Account p '''' True False else Refused (500, ''database_error''))
   | Inr cred \<Rightarrow> (sv, Account p (usr_email (cred_user cred)) (pr_bootstrap p \<or> usr_mfa_enabled (cred_user cred))
       (\<not> pr_bootstrap p \<and> usr_password_change_required (cred_user cred))))"

record change_input =
  ch_current_password :: string
  ch_new_password :: string

definition password_limiter_key :: "call \<Rightarrow> string" where
  "password_limiter_key c = source_ip c @ CHR 0x00 # ''password-change'' @ CHR 0x00 # pr_user_id (cl_principal c)"

definition change_own_password ::
  "login_env \<Rightarrow> draws \<Rightarrow> clock \<Rightarrow> call \<Rightarrow> change_input option \<Rightarrow> server \<Rightarrow> server \<times> reply" where
  "change_own_password env d k c body sv = (let p = cl_principal c in
     if pr_bootstrap p \<or> pr_user_id p = '''' then (sv, Refused (403, ''bootstrap_password_unsupported''))
     else decode_json sv body (\<lambda>input.
     if length (ch_current_password input) > 4096 \<or> length (ch_new_password input) > 4096
     then (sv, Refused (400, ''invalid_password_input''))
     else let now = ck_now k; key = password_limiter_key c;
       (pl, (is_blocked, retry)) = blocked key now (sv_password sv); sv = sv\<lparr>sv_password := pl\<rparr> in
     if is_blocked then (sv, RateLimited ''password_change_rate_limited'' (retry_after retry))
     else case user_credential_by_username (pr_username p) (sv_db sv) of
       Inl e \<Rightarrow> (sv, Refused (500, ''database_error''))
     | Inr cred \<Rightarrow>
     if \<not> verify_password (le_crypto env) (cred_password_hash cred) (ch_current_password input)
     then (sv\<lparr>sv_password := failure key now (sv_password sv),
         sv_db := fst (append_audit (dr_login_audit_id d) (ck_audit k)
           ((call_audit c (pr_username p) ''auth.password_change'' ''auth_session'' ''failed'')
             \<lparr>ai_resource_id := pr_user_id p\<rparr>) (sv_db sv))\<rparr>,
       Refused (401, ''current_password_invalid''))
     else case hash_password (le_crypto env) (dr_salt d) (ch_new_password input) of
       None \<Rightarrow> (sv, Refused (422, ''validation_failed''))
     | Some hash \<Rightarrow>
     if verify_password (le_crypto env) (cred_password_hash cred) (ch_new_password input)
     then (sv, Refused (422, ''password_unchanged''))
     else let token = new_opaque_secret (dr_token d); csrf = new_opaque_secret (dr_csrf d);
       expires = now + le_session_ttl env in
     case change_password (dr_id d) (dr_audit_id d) (ck_store k)
         \<lparr>cp_user_id = pr_user_id p, cp_password_hash = hash, cp_token_hash = digest_string env token,
           cp_csrf_hash = digest_string env csrf, cp_expires_at = expires,
           cp_audit = call_audit c (pr_username p) ''auth.password_change'' ''auth_session'' ''success''\<rparr> (sv_db sv) of
       (db, Inl e) \<Rightarrow> (sv\<lparr>sv_db := db\<rparr>, Refused (500, ''password_change_failed''))
     | (db, Inr s) \<Rightarrow> (sv\<lparr>sv_password := success key (sv_password sv), sv_db := db\<rparr>,
         Issued (issue c token csrf expires s))))"

definition logout :: "login_env \<Rightarrow> call \<Rightarrow> server \<Rightarrow> server \<times> reply" where
  "logout env c sv = (case cookie_named (rq_headers (ar_http (cl_request c))) auth_cookie_name of
     None \<Rightarrow> (sv, NoContent)
   | Some token \<Rightarrow> (sv\<lparr>sv_db := fst (revoke_auth_session (digest_string env token) (sv_db sv))\<rparr>, NoContent))"

section \<open>Accounts\<close>

definition for_admin :: "call \<Rightarrow> server \<Rightarrow> server \<times> reply \<Rightarrow> server \<times> reply" where
  "for_admin c sv r = (case require_system_admin (cl_principal c) of Inl e \<Rightarrow> (sv, Refused e) | Inr _ \<Rightarrow> r)"

definition list_users_handler :: "call \<Rightarrow> server \<Rightarrow> server \<times> reply" where
  "list_users_handler c sv = for_admin c sv (sv, Users (list_users (sv_db sv)))"

record create_request =
  cq_username :: string
  cq_display_name :: string
  cq_password :: string
  cq_role :: string
  cq_enabled :: "bool option"
  cq_project_ids :: "string list"

definition enabled_or_default :: "bool option \<Rightarrow> bool" where
  "enabled_or_default e = (case e of None \<Rightarrow> True | Some b \<Rightarrow> b)"

definition create_user_handler ::
  "login_env \<Rightarrow> draws \<Rightarrow> clock \<Rightarrow> call \<Rightarrow> create_request option \<Rightarrow> server \<Rightarrow> server \<times> reply" where
  "create_user_handler env d k c body sv = for_admin c sv (decode_json sv body (\<lambda>input. let
     username = trim_space (cq_username input);
     hash = hash_password (le_crypto env) (dr_salt d) (cq_password input) in
     if \<not> valid_username username \<or> trim_space (cq_display_name input) = '''' \<or> \<not> valid_role (cq_role input) \<or> hash = None
     then (sv, Refused (422, ''validation_failed''))
     else case create_user (dr_id d) (dr_audit_id d) (ck_store k)
         \<lparr>cu_username = username, cu_display_name = cq_display_name input, cu_password_hash = the hash,
           cu_role = cq_role input, cu_enabled = enabled_or_default (cq_enabled input),
           cu_project_ids = cq_project_ids input\<rparr>
         (audit_from_request c ''user.create'' ''user'') (sv_db sv) of
       (db, Inl e) \<Rightarrow> (sv\<lparr>sv_db := db\<rparr>, Refused (409, ''user_create_failed''))
     | (db, Inr u) \<Rightarrow> (sv\<lparr>sv_db := db\<rparr>, Saved 201 u)))"

record update_request =
  uq_display_name :: string
  uq_password :: string
  uq_role :: string
  uq_enabled :: "bool option"
  uq_project_ids :: "string list"

text \<open>An empty password leaves the password as it is.\<close>

definition new_password_hash :: "login_env \<Rightarrow> draws \<Rightarrow> string \<Rightarrow> string option" where
  "new_password_hash env d password =
     (if password = '''' then Some '''' else hash_password (le_crypto env) (dr_salt d) password)"

definition user_refusal :: "store_error \<Rightarrow> string \<Rightarrow> refusal \<Rightarrow> refusal" where
  "user_refusal e last_admin_code otherwise = (if e = ErrNotFound then (404, ''user_not_found'')
     else if e = ErrLastAdmin then (409, last_admin_code) else otherwise)"

definition update_user_handler ::
  "login_env \<Rightarrow> draws \<Rightarrow> clock \<Rightarrow> call \<Rightarrow> update_request option \<Rightarrow> server \<Rightarrow> server \<times> reply" where
  "update_user_handler env d k c body sv = for_admin c sv (decode_json sv body (\<lambda>input. let
     display = trim_space (uq_display_name input); hash = new_password_hash env d (uq_password input) in
     if display = '''' \<or> \<not> valid_role (uq_role input) \<or> hash = None then (sv, Refused (422, ''validation_failed''))
     else case update_user (dr_audit_id d) (ck_store k) (path_value (cl_request c) ''userID'')
         \<lparr>uu_display_name = display, uu_password_hash = the hash, uu_role = uq_role input,
           uu_enabled = enabled_or_default (uq_enabled input), uu_project_ids = uq_project_ids input\<rparr>
         (audit_from_request c ''user.update'' ''user'') (sv_db sv) of
       (db, Inl e) \<Rightarrow> (sv\<lparr>sv_db := db\<rparr>, Refused (user_refusal e ''last_admin'' (409, ''user_update_failed'')))
     | (db, Inr u) \<Rightarrow> (sv\<lparr>sv_db := db\<rparr>, Saved 200 u)))"

definition is_own_account :: "call \<Rightarrow> bool" where
  "is_own_account c \<longleftrightarrow> \<not> pr_bootstrap (cl_principal c)
     \<and> pr_user_id (cl_principal c) = path_value (cl_request c) ''userID''"

definition delete_user_handler :: "draws \<Rightarrow> clock \<Rightarrow> call \<Rightarrow> server \<Rightarrow> server \<times> reply" where
  "delete_user_handler d k c sv = for_admin c sv (
     if is_own_account c then (sv, Refused (409, ''cannot_delete_self''))
     else case delete_user_op (dr_audit_id d) (ck_store k) (path_value (cl_request c) ''userID'')
         (audit_from_request c ''user.delete'' ''user'') (sv_db sv) of
       (db, Inl e) \<Rightarrow> (sv\<lparr>sv_db := db\<rparr>, Refused (user_refusal e ''last_admin'' (500, ''user_delete_failed'')))
     | (db, Inr _) \<Rightarrow> (sv\<lparr>sv_db := db\<rparr>, NoContent))"

definition reset_user_mfa_handler :: "draws \<Rightarrow> clock \<Rightarrow> call \<Rightarrow> server \<Rightarrow> server \<times> reply" where
  "reset_user_mfa_handler d k c sv = for_admin c sv (
     if is_own_account c then (sv, Refused (409, ''cannot_reset_own_mfa''))
     else case reset_user_mfa (dr_audit_id d) (ck_store k) (path_value (cl_request c) ''userID'')
         (audit_from_request c ''user.mfa_reset'' ''user'') (sv_db sv) of
       (db, Inl e) \<Rightarrow> (sv\<lparr>sv_db := db\<rparr>,
         Refused (if e = ErrNotFound then (404, ''user_not_found'') else (500, ''mfa_reset_failed'')))
     | (db, Inr _) \<Rightarrow> (sv\<lparr>sv_db := db\<rparr>, NoContent))"

section \<open>What a login proves\<close>

definition credential_row :: "string \<Rightarrow> db \<Rightarrow> user_row \<Rightarrow> bool" where
  "credential_row username db u \<longleftrightarrow> u \<in> set (t_users db) \<and> u_username u = username \<and> u_enabled u"

lemma user_credential_Inr:
  "user_credential_by_username username db = Inr cred \<Longrightarrow> \<exists>u\<in>set (t_users db). u_username u = username
     \<and> cred_user cred = user_of_row u db \<and> cred_password_hash cred = u_password_hash u"
  by (auto simp: user_credential_by_username_def attempt_Inr_iff from_row_Inr_iff dest!: row_where_Some)

lemma check_password_Inr:
  assumes "check_password env d k c username password sv = (sv', Inr cred)"
  shows "\<exists>u. credential_row username (sv_db sv) u \<and> verify_password (le_crypto env) (u_password_hash u) password
      \<and> cred_user cred = user_of_row u (sv_db sv)"
    and "sv_db sv' = sv_db sv"
    and "\<not> fst (snd (blocked (source_ip c) (ck_now k) (sv_ip sv)))"
    and "\<not> fst (snd (blocked (limiter_key c username) (ck_now k) (sv_login sv)))"
  using assms
  by (auto simp: check_password_def Let_def count_login_failure_def credential_row_def user_of_row_def
      dest!: user_credential_Inr split: prod.splits if_splits sum.splits)

text \<open>C6. Nobody passes the login without the password: a login or a challenge is handed out only for an account
that exists under the name, is enabled, and whose stored hash the password matches, while neither the address
nor the account at that address is blocked.\<close>

theorem login_needs_password:
  assumes "snd (login env d k c (Some input) sv) = Issued i \<or> snd (login env d k c (Some input) sv) = Challenged a"
  shows "(\<exists>u\<in>set (t_users (sv_db sv)). u_username u = trim_space (li_username input) \<and> u_enabled u
      \<and> verify_password (le_crypto env) (u_password_hash u) (li_password input))
    \<and> \<not> fst (snd (blocked (source_ip c) (ck_now k) (sv_ip sv)))
    \<and> \<not> fst (snd (blocked (limiter_key c (trim_space (li_username input))) (ck_now k) (sv_login sv)))"
proof -
  let ?r = "check_password env d k c (trim_space (li_username input)) (li_password input) sv"
  have "\<exists>sv' cred. ?r = (sv', Inr cred)"
    using assms
    by (auto simp: login_def decode_json_def Let_def check_password_def count_login_failure_def
        split: if_splits prod.splits sum.splits)
  then obtain sv' cred where "?r = (sv', Inr cred)" by blast
  from check_password_Inr[OF this] show ?thesis by (auto simp: credential_row_def)
qed

lemma append_audit_sessions [simp]: "t_auth_sessions (fst (append_audit aid now input db)) = t_auth_sessions db"
  by (auto simp: append_audit_def run_tx_def attempt_def dest!: insert_audit_Inr split: sum.splits)

lemma audit_login_sessions [simp]: "t_auth_sessions (audit_login d k c username result db) = t_auth_sessions db"
  by (simp add: audit_login_def)

lemma check_password_sessions:
  "t_auth_sessions (sv_db (fst (check_password env d k c username password sv))) = t_auth_sessions (sv_db sv)"
  by (auto simp: check_password_def count_login_failure_def Let_def split: prod.splits sum.splits)

lemma challenge_sessions [simp]:
  "t_auth_sessions (fst (create_mfa_challenge cid now rnow uid token purpose secret ip expires db)) = t_auth_sessions db"
  "t_auth_sessions (fst (set_mfa_challenge_method now cid method secret code expires db)) = t_auth_sessions db"
  by (auto simp: create_mfa_challenge_def run_tx_def attempt_def put_Inr revoke_user_challenges_def
      update_challenges_def set_mfa_challenge_method_def Let_def split: sum.splits)

lemma open_challenge_sessions:
  "t_auth_sessions (sv_db (fst (open_challenge env d k c username cred sv))) = t_auth_sessions (sv_db sv)"
proof -
  have "create_mfa_challenge cid n rn uid t p s ip e db = (db2, r) \<Longrightarrow> t_auth_sessions db2 = t_auth_sessions db"
    for cid n rn uid t p s ip e db db2 r
    using challenge_sessions(1) by (metis fst_conv)
  moreover have "set_mfa_challenge_method (ck_method k) cid m s h e db = (db2, r) \<Longrightarrow> t_auth_sessions db2 = t_auth_sessions db"
    for cid m s h e db db2 r
    using challenge_sessions(2) by (metis fst_conv)
  ultimately show ?thesis
    by (auto simp: open_challenge_def Let_def split: sum.splits prod.splits if_splits)
qed

text \<open>With the second factor switched on, the password alone opens no session: whatever is sent to the
login, the sessions of the database stay as they are.\<close>

theorem password_opens_no_session:
  assumes "le_mfa_enabled env"
  shows "t_auth_sessions (sv_db (fst (login env d k c body sv))) = t_auth_sessions (sv_db sv)"
proof -
  have "check_password env d k c n p sv = (sv1, r) \<Longrightarrow> t_auth_sessions (sv_db sv1) = t_auth_sessions (sv_db sv)"
    for n p sv1 r
    using check_password_sessions by (metis fst_conv)
  then show ?thesis using assms
    by (auto simp: login_def decode_json_def Let_def open_challenge_sessions split: option.splits prod.splits sum.splits)
qed

lemma challenge_by_token_Inr:
  assumes "challenge_by_token now token db = Inr ch"
  shows "\<exists>row\<in>set (t_challenges db). \<exists>u\<in>set (t_users db).
    mc_token_hash row = token \<and> mc_status row = ''active'' \<and> sql_less now (mc_expires_at row) \<and> mc_attempts row < 5
    \<and> u_id u = mc_user_id row \<and> u_enabled u \<and> ch_id ch = mc_id row \<and> ch_user ch = user_of_row u db
    \<and> ch_purpose ch = mc_purpose row \<and> ch_method ch = mc_method row \<and> ch_secret ch = mc_secret_ciphertext row
    \<and> ch_email_code_hash ch = mc_email_code_hash row
    \<and> ch_mfa_secret ch = (case mfa_of (u_id u) db of None \<Rightarrow> '''' | Some m \<Rightarrow> um_secret_ciphertext m)"
proof -
  obtain row u where *: "row \<in> set (t_challenges db)" "u \<in> set (t_users db)" "mc_token_hash row = token"
    "mc_status row = ''active''" "sql_less now (mc_expires_at row)" "mc_attempts row < 5" "u_id u = mc_user_id row" "u_enabled u"
    and ch: "ch = \<lparr>ch_id = mc_id row, ch_user = user_of_row u db, ch_purpose = mc_purpose row,
       ch_method = mc_method row, ch_secret = mc_secret_ciphertext row, ch_email = mc_email row,
       ch_email_code_hash = mc_email_code_hash row, ch_email_verified = mc_email_verified row,
       ch_new_password_hash = mc_new_password_hash row,
       ch_mfa_secret = (case mfa_of (u_id u) db of None \<Rightarrow> '''' | Some m \<Rightarrow> um_secret_ciphertext m),
       ch_mfa_method = (case mfa_of (u_id u) db of None \<Rightarrow> '''' | Some m \<Rightarrow> um_preferred_method m),
       ch_attempts = mc_attempts row, ch_expires_at = mc_expires_at row\<rparr>"
    using assms by (auto simp: challenge_by_token_def attempt_Inr_iff from_row_Inr_iff simp del: exists_row_iff dest!: row_where_Some)
  show ?thesis by (rule bexI[OF _ *(1)], rule bexI[OF _ *(2)]) (simp add: * ch)
qed

text \<open>The factor that a completed login used up, in the database it started from.\<close>

lemma completion_uses_factor:
  assumes inv: "store_inv db" and r: "snd (complete_mfa sid aid ids now input False db) = Inr s"
    and row: "row \<in> set (t_challenges db)" "mc_id row = ci_challenge_id input"
  shows "mc_purpose row \<noteq> ''onboard''"
    and "ci_method input = ''totp'' \<Longrightarrow> \<exists>m\<in>set (t_user_mfa db). um_user_id m = mc_user_id row \<and> um_last_totp_counter m < ci_counter input"
    and "ci_method input = ''recovery'' \<Longrightarrow> \<exists>x\<in>set (t_recovery_codes db). rc_user_id x = mc_user_id row
      \<and> rc_code_hash x = ci_code_hash input \<and> rc_used_at x = None"
proof -
  let ?used = "update_challenges (\<lambda>c. mc_id c = ci_challenge_id input \<and> mc_status c = ''active'')
           (\<lambda>c. c\<lparr>mc_status := ''consumed''\<rparr>) db"
  have "succeeded (complete_mfa sid aid ids now input False db)" using r by (simp add: succeeded_iff)
  then obtain c u db2 where c: "live_challenge_row now (ci_challenge_id input) db = Inr (c, u)"
    "mc_purpose c \<noteq> ''onboard''" "use_factor now input (mc_user_id c) ?used = Inr db2"
    using complete_mfa_effect[of sid aid ids now input False db, unfolded Let_def] by (auto simp: completed_with_def)
  have "c = row"
    using live_challenge_row_Inr[OF c(1)] row key_inj[OF challenge_ids[OF inv]] by metis
  then show "mc_purpose row \<noteq> ''onboard''" using c(2) by simp
  have tables: "t_user_mfa ?used = t_user_mfa db" "t_recovery_codes ?used = t_recovery_codes db"
    by (simp_all add: update_challenges_def)
  show "ci_method input = ''totp'' \<Longrightarrow> \<exists>m\<in>set (t_user_mfa db). um_user_id m = mc_user_id row \<and> um_last_totp_counter m < ci_counter input"
    using c(3) count_where_1_ex tables unfolding \<open>c = row\<close>
    by (fastforce simp: use_factor_def use_totp_counter_def Let_def attempt_Inr_iff demand_Inr_iff)
  show "ci_method input = ''recovery'' \<Longrightarrow> \<exists>x\<in>set (t_recovery_codes db). rc_user_id x = mc_user_id row
      \<and> rc_code_hash x = ci_code_hash input \<and> rc_used_at x = None"
    using c(3) count_where_1_ex tables unfolding \<open>c = row\<close>
    by (fastforce simp: use_factor_def use_recovery_code_def Let_def attempt_Inr_iff demand_Inr_iff)
qed

definition factor_shown :: "login_env \<Rightarrow> clock \<Rightarrow> string \<Rightarrow> db \<Rightarrow> challenge_row \<Rightarrow> bool" where
  "factor_shown env k code db row \<longleftrightarrow>
     mc_purpose row = ''verify'' \<and> exists_row (\<lambda>x. rc_user_id x = mc_user_id row \<and> rc_used_at x = None
         \<and> rc_code_hash x = recovery_code_hash (le_crypto env) code) (t_recovery_codes db)
     \<or> mc_method row = ''email'' \<and> mc_email_code_hash row \<noteq> ''''
         \<and> email_code_hash (le_crypto env) (mc_id row) code = mc_email_code_hash row
     \<or> mc_method row = ''totp'' \<and> mc_purpose row = ''onboard''
         \<and> (\<exists>secret counter. decrypt_secret (le_crypto env) (mc_user_id row) (mc_secret_ciphertext row) = Some secret
            \<and> validate_totp (le_crypto env) secret code (ck_now k) = Some counter)
     \<or> mc_method row = ''totp'' \<and> exists_row (\<lambda>m. um_user_id m = mc_user_id row
         \<and> (\<exists>secret counter. decrypt_secret (le_crypto env) (mc_user_id row) (um_secret_ciphertext m) = Some secret
            \<and> validate_totp (le_crypto env) secret code (ck_now k) = Some counter
            \<and> um_last_totp_counter m < counter)) (t_user_mfa db)"

lemma mfa_of_unique:
  "store_inv db \<Longrightarrow> m \<in> set (t_user_mfa db) \<Longrightarrow> mfa_of (um_user_id m) db = Some m"
  unfolding mfa_of_def by (rule row_where_key[where g = um_user_id]) (auto intro: mfa_users)

lemma check_factor_Inr:
  assumes "check_factor env d k c ch code sv = Inr (method, counter, code_hash)"
  shows "method = ''recovery'' \<and> ch_purpose ch = ''verify'' \<and> code_hash = recovery_code_hash (le_crypto env) code
    \<or> method = ''email'' \<and> ch_method ch = ''email'' \<and> ch_email_code_hash ch \<noteq> ''''
       \<and> email_code_hash (le_crypto env) (ch_id ch) code = ch_email_code_hash ch
    \<or> method = ''totp'' \<and> ch_method ch = ''totp''
       \<and> (\<exists>secret. decrypt_secret (le_crypto env) (usr_id (ch_user ch))
              (if ch_purpose ch = ''onboard'' then ch_secret ch else ch_mfa_secret ch) = Some secret
            \<and> validate_totp (le_crypto env) secret code (ck_now k) = Some counter)"
  using assms by (auto simp: check_factor_def split: if_splits option.splits)

lemma complete_with_login:
  assumes "snd (complete_with env d k c ch m n h sv) = Issued i" "ch_purpose ch \<noteq> ''onboard''"
  shows "\<exists>s. snd (complete_mfa (dr_id d) (dr_audit_id d) (dr_code_id d) (ck_store k)
    ((login_completion env d k c ch ''auth.login'')\<lparr>ci_method := m, ci_counter := n, ci_code_hash := h\<rparr>) False (sv_db sv)) = Inr s"
  using assms
  by (auto simp: complete_with_def Let_def complete_mfa_authentication_def factor_failed_def
      split: prod.splits sum.splits if_splits)

text \<open>C7. A login is completed only with the second factor: the token names a challenge that is active, not
expired and has failed less than five times, for an account that is enabled; and the code is an unused recovery
code of that account, the code that was mailed for this challenge, or a time-based code of the account's secret
whose counter was not used before (while enrolling: of the secret just handed out).\<close>

theorem second_factor_shown:
  assumes inv: "store_inv (sv_db sv)" and issued: "snd (complete_login env d k c (Some input) sv) = Issued i"
  shows "\<exists>row\<in>set (t_challenges (sv_db sv)). \<exists>u\<in>set (t_users (sv_db sv)).
    mc_token_hash row = digest_string env (trim_space (co_token input)) \<and> mc_status row = ''active''
    \<and> sql_less (ck_read k) (mc_expires_at row) \<and> mc_attempts row < 5 \<and> u_id u = mc_user_id row \<and> u_enabled u
    \<and> factor_shown env k (trim_space (co_code input)) (sv_db sv) row"
proof -
  let ?db = "sv_db sv" and ?code = "trim_space (co_code input)"
  obtain ch m n h where ch: "challenge_by_token (ck_read k) (digest_string env (trim_space (co_token input))) ?db = Inr ch"
    and factor: "check_factor env d k c ch ?code sv = Inr (m, n, h)"
    and fin: "snd (complete_with env d k c ch m n h sv) = Issued i"
    using issued by (auto simp: complete_login_def decode_json_def Let_def check_factor_def factor_failed_def
        split: if_splits sum.splits option.splits)
  from challenge_by_token_Inr[OF ch] obtain row u where row: "row \<in> set (t_challenges ?db)" "u \<in> set (t_users ?db)"
    "mc_token_hash row = digest_string env (trim_space (co_token input))" "mc_status row = ''active''"
    "sql_less (ck_read k) (mc_expires_at row)" "mc_attempts row < 5" "u_id u = mc_user_id row" "u_enabled u"
    and at: "ch_id ch = mc_id row" "ch_user ch = user_of_row u ?db" "ch_purpose ch = mc_purpose row"
      "ch_method ch = mc_method row" "ch_secret ch = mc_secret_ciphertext row"
      "ch_email_code_hash ch = mc_email_code_hash row"
      "ch_mfa_secret ch = (case mfa_of (u_id u) ?db of None \<Rightarrow> '''' | Some m \<Rightarrow> um_secret_ciphertext m)" by blast
  have uid: "usr_id (user_of_row u ?db) = mc_user_id row" using row(7) by (simp add: user_of_row_def)
  have "factor_shown env k ?code ?db row"
  proof (cases "mc_purpose row = ''onboard''")
    case True
    then show ?thesis using check_factor_Inr[OF factor] by (auto simp: factor_shown_def at uid)
  next
    case False
    define input' where "input' = (login_completion env d k c ch ''auth.login'')\<lparr>ci_method := m, ci_counter := n, ci_code_hash := h\<rparr>"
    obtain s where s: "snd (complete_mfa (dr_id d) (dr_audit_id d) (dr_code_id d) (ck_store k) input' False ?db) = Inr s"
      using complete_with_login[OF fin] False at(3) unfolding input'_def by auto
    have i': "ci_challenge_id input' = mc_id row" "ci_method input' = m" "ci_counter input' = n" "ci_code_hash input' = h"
      by (simp_all add: input'_def login_completion_def at)
    note used = completion_uses_factor(2,3)[OF inv s row(1), unfolded i', OF refl]
    show ?thesis using check_factor_Inr[OF factor]
    proof (elim disjE conjE)
      assume "m = ''recovery''" "ch_purpose ch = ''verify''" "h = recovery_code_hash (le_crypto env) ?code"
      then show ?thesis using used(2) by (auto simp: factor_shown_def at)
    next
      assume "m = ''email''" "ch_method ch = ''email''" "ch_email_code_hash ch \<noteq> ''''"
        "email_code_hash (le_crypto env) (ch_id ch) ?code = ch_email_code_hash ch"
      then show ?thesis by (simp add: factor_shown_def at)
    next
      assume *: "m = ''totp''" "ch_method ch = ''totp''" "\<exists>secret. decrypt_secret (le_crypto env) (usr_id (ch_user ch))
              (if ch_purpose ch = ''onboard'' then ch_secret ch else ch_mfa_secret ch) = Some secret
            \<and> validate_totp (le_crypto env) secret ?code (ck_now k) = Some n"
      from used(1)[OF *(1)] obtain x where x: "x \<in> set (t_user_mfa ?db)" "um_user_id x = mc_user_id row"
        "um_last_totp_counter x < n" by blast
      have "mfa_of (mc_user_id row) ?db = Some x" using mfa_of_unique[OF inv x(1)] x(2) by simp
      then show ?thesis using * x False by (auto simp: factor_shown_def at uid row(7))
    qed
  qed
  then show ?thesis using row by blast
qed

section \<open>Witnesses\<close>

definition demo_login_env :: login_env where
  "demo_login_env = \<lparr>le_api = demo_api\<lparr>ae_hash := (\<lambda>_. ''k'')\<rparr>, le_crypto = demo_mfa, le_mfa_loaded = True,
     le_mfa_enabled = True, le_mfa_methods = [''totp'', ''email''], le_session_ttl = minutes 720,
     le_email_ttl = minutes 10, le_send = Some (\<lambda>_ _. True), le_parse_address = Some, le_qr_code = Some\<rparr>"

definition demo_draws :: draws where
  "demo_draws = \<lparr>dr_token = [], dr_csrf = [], dr_salt = replicate 16 0, dr_email_code = [0, 0, 0, 0], dr_secret = [],
     dr_nonce = replicate 12 0, dr_recovery = [], dr_id = ''new'', dr_audit_id = ''x1'', dr_login_audit_id = ''x2'',
     dr_code_id = (\<lambda>_. ''r'')\<rparr>"

definition demo_clock :: clock where
  "demo_clock = \<lparr>ck_now = 0, ck_expiry = 0, ck_store = 0, ck_read = 0, ck_method = 0, ck_audit = 0\<rparr>"

definition demo_call :: call where
  "demo_call = \<lparr>cl_request = demo_post, cl_request_id = ''r'', cl_principal = project_admin\<rparr>"

definition demo_server :: "db \<Rightarrow> server" where
  "demo_server db = \<lparr>sv_db = db, sv_login = new_login_limiter 5 (minutes 10) [],
     sv_ip = new_login_limiter 30 (minutes 10) [], sv_password = new_login_limiter 5 (minutes 10) [], sv_outbox = []\<rparr>"

definition login_db :: "string \<Rightarrow> db" where
  "login_db hash = empty_db\<lparr>t_users := [(demo_user ''u2'' ''operator'')\<lparr>u_password_hash := hash\<rparr>]\<rparr>"

definition demo_login :: login_input where
  "demo_login = \<lparr>li_username = '' user-u2'', li_password = ''correct horse''\<rparr>"

definition stored_hash :: string where
  "stored_hash = the (hash_password demo_mfa (replicate 16 0) ''correct horse'')"

lemma stored_hash_verifies: "verify_password demo_mfa stored_hash ''correct horse''"
proof -
  have "hash_password demo_mfa (replicate 16 0) ''correct horse'' = Some stored_hash"
    by (simp add: stored_hash_def hash_password_def)
  from made_hash_verifies[OF this] show ?thesis by (simp add: demo_mfa_def)
qed

lemma demo_admitted:
  "check_password demo_login_env demo_draws demo_clock demo_call ''user-u2'' ''correct horse'' (demo_server (login_db stored_hash))
    = (demo_server (login_db stored_hash), Inr \<lparr>cred_user = user_of_row ((demo_user ''u2'' ''operator'')\<lparr>u_password_hash := stored_hash\<rparr>)
        (login_db stored_hash), cred_password_hash = stored_hash, cred_mfa_secret = '''', cred_mfa_method = ''''\<rparr>)"
  by (simp add: check_password_def demo_server_def demo_login_env_def blocked_def cleanup_def attempt_of_def
      new_login_limiter_def user_credential_by_username_def login_db_def row_where_def demo_user_def mfa_of_def
      empty_db_def user_of_row_def stored_hash_verifies)

theorem login_needs_password_witness:
  "(\<exists>i. snd (login (demo_login_env\<lparr>le_mfa_enabled := False\<rparr>) demo_draws demo_clock demo_call (Some demo_login)
      (demo_server (login_db stored_hash))) = Issued i)
    \<and> (\<exists>u. u \<in> set (t_users (login_db stored_hash)) \<and> u_username u = ''user-u2''
        \<and> verify_password demo_mfa (u_password_hash u) ''correct horse'')"
proof -
  let ?env = "demo_login_env\<lparr>le_mfa_enabled := False\<rparr>" and ?sv = "demo_server (login_db stored_hash)"
  have name: "trim_space (li_username demo_login) = ''user-u2''" "li_password demo_login = ''correct horse''"
    by (simp_all add: demo_login_def trim_space_def is_space_def)
  have crypto: "le_crypto ?env = le_crypto demo_login_env" by simp
  have "check_password ?env demo_draws demo_clock demo_call ''user-u2'' ''correct horse'' ?sv
      = check_password demo_login_env demo_draws demo_clock demo_call ''user-u2'' ''correct horse'' ?sv"
    unfolding check_password_def crypto ..
  note admitted = this[unfolded demo_admitted]
  have "\<exists>sv1 cred. login ?env demo_draws demo_clock demo_call (Some demo_login) ?sv
      = create_password_session ?env demo_draws demo_clock demo_call cred sv1
    \<and> sv_db sv1 = login_db stored_hash \<and> usr_id (cred_user cred) = ''u2''"
    by (simp add: login_def decode_json_def Let_def name admitted user_of_row_def demo_user_def)
      (rule exI, rule exI, rule conjI, rule refl, simp add: demo_server_def)
  then obtain sv1 cred where step: "login ?env demo_draws demo_clock demo_call (Some demo_login) ?sv
      = create_password_session ?env demo_draws demo_clock demo_call cred sv1"
    and sv1: "sv_db sv1 = login_db stored_hash" "usr_id (cred_user cred) = ''u2''" by blast
  have "\<exists>i. snd (login ?env demo_draws demo_clock demo_call (Some demo_login) ?sv) = Issued i"
    unfolding step by (simp add: sv1 demo_user_def create_password_session_def
      Let_def refs_in_def user_by_id_def row_where_def create_auth_session_def insert_auth_session_def new_auth_session_def put_auth_sessions_def rules_defs auth_session_check_def login_db_def
      empty_db_def demo_server_def demo_login_env_def digest_string_def demo_draws_def demo_clock_def)
  then obtain i where i: "snd (login ?env demo_draws demo_clock demo_call (Some demo_login) ?sv) = Issued i" by blast
  from login_needs_password[OF disjI1[OF i]] show ?thesis
    using i by (auto simp: name) (auto simp: demo_login_env_def demo_server_def)
qed

theorem password_opens_no_session_witness:
  "le_mfa_enabled demo_login_env \<and> t_auth_sessions (sv_db (fst (login demo_login_env demo_draws demo_clock demo_call
     (Some demo_login) (demo_server (login_db stored_hash))))) = []"
proof -
  have on: "le_mfa_enabled demo_login_env" by (simp add: demo_login_env_def)
  show ?thesis using password_opens_no_session[OF on] on by (simp add: demo_server_def login_db_def empty_db_def)
qed

definition mailed_hash :: string where
  "mailed_hash = email_code_hash demo_mfa ''m2'' ''123456''"

lemma mailed_hash_not_empty: "mailed_hash \<noteq> ''''"
proof
  assume "mailed_hash = ''''"
  then have "base64_bytes url64 '''' = Some (me_hmac_key demo_mfa (''email:m2:123456''))"
    using base64_roundtrip[of url64 "me_hmac_key demo_mfa ''email:m2:123456''"]
    by (simp add: mailed_hash_def email_code_hash_def trim_space_def is_space_def)
  then show False by (simp add: base64_bytes_def skip_newlines_def demo_mfa_def)
qed

definition mailed_challenge :: challenge_row where
  "mailed_challenge = (demo_challenge ''m2'' ''u2'' ''verify'')
     \<lparr>mc_token_hash := ''k'', mc_method := ''email'', mc_email_code_hash := mailed_hash\<rparr>"

definition mailed_db :: db where
  "mailed_db = (login_db ''h'')\<lparr>t_challenges := [mailed_challenge]\<rparr>"

definition demo_complete_input :: complete_input where
  "demo_complete_input = \<lparr>co_token = replicate 32 (CHR ''a''), co_code = '' 123456''\<rparr>"

lemma mailed_db_inv: "store_inv mailed_db"
  by (simp add: store_inv_def db_ok_def rules_defs mailed_db_def login_db_def mailed_challenge_def demo_challenge_def
      demo_user_def empty_db_def logs_ok_def challenges_ok_def distinct_present_def refs_in_def challenge_check_def user_check_def)

lemma ten_minutes_ahead: "sql_less 0 (seconds 600)"
  by code_simp

lemma mailed_challenge_found:
  "\<exists>ch. challenge_by_token 0 ''k'' mailed_db = Inr ch \<and> ch_id ch = ''m2'' \<and> ch_purpose ch = ''verify''
    \<and> ch_method ch = ''email'' \<and> ch_email_code_hash ch = mailed_hash"
  by (simp add: challenge_by_token_def row_where_def mailed_db_def mailed_challenge_def demo_challenge_def login_db_def
      demo_user_def empty_db_def ten_minutes_ahead)

lemma mailed_login_completes:
  assumes "ci_challenge_id input = ''m2''" "ci_method input = ''email''" "ci_token_hash input = ''k''" "ci_csrf_hash input = ''k''"
  shows "\<exists>s. snd (complete_mfa ''new'' ''x1'' code_id 0 input False mailed_db) = Inr s"
proof -
  have live: "live_challenge_row 0 ''m2'' mailed_db
      = Inr (mailed_challenge, (demo_user ''u2'' ''operator'')\<lparr>u_password_hash := ''h''\<rparr>)"
    by (simp add: live_challenge_row_def row_where_def mailed_db_def mailed_challenge_def demo_challenge_def login_db_def
        demo_user_def empty_db_def ten_minutes_ahead)
  have "\<exists>db2. consume_challenge ''m2'' mailed_db = Inr db2 \<and> t_users db2 = t_users mailed_db
      \<and> t_auth_sessions db2 = [] \<and> t_audit_logs db2 = []"
    by (simp add: consume_challenge_def Let_def count_where_def mailed_db_def mailed_challenge_def demo_challenge_def
        update_challenges_def login_db_def empty_db_def)
  then obtain db2 where db2: "consume_challenge ''m2'' mailed_db = Inr db2" "t_users db2 = t_users mailed_db"
    "t_auth_sessions db2 = []" "t_audit_logs db2 = []" by blast
  have "\<exists>db3. open_session ''new'' ''x1'' 0 ''u2'' input db2 = Inr (''u2'', db3) \<and> t_users db3 = t_users mailed_db"
    using assms db2 by (simp add: open_session_def insert_auth_session_def new_auth_session_def put_auth_sessions_def rules_defs
        auth_session_check_def refs_in_def revoke_user_sessions_def update_auth_sessions_def insert_audit_def put_audit_logs_def
        mailed_db_def login_db_def empty_db_def demo_user_def)
  then obtain db3 where db3: "open_session ''new'' ''x1'' 0 ''u2'' input db2 = Inr (''u2'', db3)" "t_users db3 = t_users mailed_db"
    by blast
  have "mc_user_id mailed_challenge = ''u2''" "mc_purpose mailed_challenge = ''verify''" "u_enabled (demo_user ''u2'' ''operator'')"
    by (simp_all add: mailed_challenge_def demo_challenge_def demo_user_def)
  moreover have "\<exists>u. user_by_id ''u2'' db3 = Inr u"
    by (simp add: user_by_id_def row_where_def db3(2)) (simp add: mailed_db_def login_db_def demo_user_def)
  ultimately show ?thesis using assms db2(1) db3(1)
    by (auto simp: complete_mfa_def live use_factor_def opened_session_def)
qed

theorem second_factor_shown_witness:
  "\<exists>i row. snd (complete_login demo_login_env demo_draws demo_clock demo_call (Some demo_complete_input)
        (demo_server mailed_db)) = Issued i
    \<and> row \<in> set (t_challenges mailed_db) \<and> mc_status row = ''active''
    \<and> factor_shown demo_login_env demo_clock ''123456'' mailed_db row"
proof -
  let ?sv = "demo_server mailed_db"
  have code: "trim_space (co_code demo_complete_input) = ''123456''"
    and token: "length (trim_space (co_token demo_complete_input)) = 32"
    by (simp_all add: demo_complete_input_def trim_space_def is_space_def numeral_eq_Suc)
  have env: "digest_string demo_login_env t = ''k''" for t by (simp add: digest_string_def demo_login_env_def)
  have clock: "ck_read demo_clock = 0" "ck_store demo_clock = 0" by (simp_all add: demo_clock_def)
  obtain ch where ch: "challenge_by_token 0 ''k'' mailed_db = Inr ch" "ch_id ch = ''m2''" "ch_purpose ch = ''verify''"
    "ch_method ch = ''email''" "ch_email_code_hash ch = mailed_hash" using mailed_challenge_found by blast
  have factor: "check_factor demo_login_env demo_draws demo_clock demo_call ch ''123456'' ?sv = Inr (''email'', 0, '''')"
    using mailed_hash_not_empty
    by (simp add: check_factor_def ch looks_like_recovery_code_def without_hyphens_def trim_space_def is_space_def
        recovery_code_size_def demo_login_env_def flip: mailed_hash_def)
  define input where "input = (login_completion demo_login_env demo_draws demo_clock demo_call ch ''auth.login'')
    \<lparr>ci_method := ''email'', ci_counter := 0, ci_code_hash := ''''\<rparr>"
  have "ci_challenge_id input = ''m2''" "ci_method input = ''email''" "ci_token_hash input = ''k''" "ci_csrf_hash input = ''k''"
    by (simp_all add: input_def login_completion_def ch env)
  from mailed_login_completes[OF this] obtain db' s
    where r: "complete_mfa ''new'' ''x1'' (dr_code_id demo_draws) 0 input False mailed_db = (db', Inr s)"
    by (metis prod.collapse)
  have "\<exists>i. snd (complete_with demo_login_env demo_draws demo_clock demo_call ch ''email'' 0 '''' ?sv) = Issued i"
    using r unfolding input_def
    by (simp add: complete_with_def Let_def ch clock complete_mfa_authentication_def demo_server_def new_recovery_codes_def)
      (simp add: demo_draws_def)
  then obtain i where i: "snd (complete_with demo_login_env demo_draws demo_clock demo_call ch ''email'' 0 '''' ?sv) = Issued i" by blast
  have "le_mfa_loaded demo_login_env" "sv_db ?sv = mailed_db" by (simp_all add: demo_login_env_def demo_server_def)
  then have "snd (complete_login demo_login_env demo_draws demo_clock demo_call (Some demo_complete_input) ?sv) = Issued i"
    by (simp add: complete_login_def decode_json_def Let_def code token env clock ch(1) factor i)
  moreover from second_factor_shown[OF _ this] have "\<exists>row\<in>set (t_challenges mailed_db). mc_status row = ''active''
      \<and> factor_shown demo_login_env demo_clock ''123456'' mailed_db row"
    using mailed_db_inv by (auto simp: demo_server_def code)
  ultimately show ?thesis by blast
qed

end
