(* ===== verification/ApiAccess.thy ===== *)
theory ApiAccess
  imports ApiLogin Registry NodeAdapter
begin

text \<open>
  Access sessions in \<open>api/api.go\<close>: opening one for an endpoint of a device, the address at which the browser
  is sent to it, the list of active sessions and the revocation of one.

  The handler that opens a session holds \<open>resourceMu\<close> and is one step. \<open>ax_set_tunnel\<close> is the answer of the
  node that is asked to start the managed tunnel of a client; \<open>None\<close> where the server has no node adapter.
\<close>

section \<open>Opening a session\<close>

record access_env =
  ax_login :: login_env
  ax_set_tunnel :: "(string \<Rightarrow> int \<Rightarrow> bool) option"
  ax_scheme :: string
  ax_mode :: string
  ax_http_port :: int
  ax_https_port :: int
  ax_access_http_port :: int
  ax_access_https_port :: int
  ax_idle_ttl :: int

record access_request =
  ar_endpoint_id :: string
  ar_mode :: string

text \<open>One attempt to create a session draws a token (a label, or 24 bytes), two identifiers and a time.\<close>

record candidate =
  cd_token :: bytes
  cd_id :: string
  cd_audit_id :: string
  cd_now :: instant

record access_draws =
  ad_grant :: bytes
  ad_candidates :: "candidate list"
  ad_policy :: instant
  ad_expiry :: instant

record created_session =
  cs_session :: access_session
  cs_launch_url :: string
  cs_web_base_url :: string
  cs_grant :: string
  cs_device_name :: string
  cs_endpoint_name :: string

definition access_domain_of :: "access_env \<Rightarrow> string" where
  "access_domain_of env = ae_access_domain (le_api (ax_login env))"

definition access_token_hash :: "access_env \<Rightarrow> string \<Rightarrow> string" where
  "access_token_hash env token = ae_hash (le_api (ax_login env)) token"

definition new_access_token :: "access_env \<Rightarrow> bytes \<Rightarrow> string \<times> string" where
  "new_access_token env raw = (let token = hex_encode raw in (token, access_token_hash env token))"

definition capability_of_mode :: "string \<Rightarrow> string" where
  "capability_of_mode mode = (if mode = ''ssh'' then ''webssh'' else ''web'')"

definition access_allowed :: "principal \<Rightarrow> instant \<Rightarrow> string \<Rightarrow> string \<Rightarrow> db \<Rightarrow> bool" where
  "access_allowed p at project mode db \<longleftrightarrow> can_access_project p project
     \<or> pr_role p = ''temporary'' \<and> has_policy_capability (pr_user_id p) project (capability_of_mode mode) at db"

text \<open>The checks before anything is changed: the refusal, or the route of the endpoint.\<close>

definition check_access ::
  "access_env \<Rightarrow> access_draws \<Rightarrow> principal \<Rightarrow> access_request \<Rightarrow> db \<Rightarrow> refusal + endpoint_route" where
  "check_access env d p input db =
     (case ax_set_tunnel env of None \<Rightarrow> Inl (503, ''node_adapter_unavailable'')
      | Some set_tunnel \<Rightarrow>
      if ar_mode input \<noteq> ''web'' \<and> ar_mode input \<noteq> ''ssh'' then Inl (422, ''validation_failed'')
      else case endpoint_route_of (ar_endpoint_id input) db of
        Inl e \<Rightarrow> Inl (if e = ErrNotFound then (404, ''endpoint_not_found'') else (500, ''database_error''))
      | Inr route \<Rightarrow>
      if pr_bootstrap p \<or> pr_user_id p = '''' \<or> pr_auth_session_id p = '''' then Inl (403, ''browser_session_required'')
      else if \<not> access_allowed p (ad_policy d) (rt_project_id route) (ar_mode input) db then Inl (403, ''forbidden'')
      else if ar_mode input = ''web'' \<and> rt_access_type route \<noteq> ''web_proxy''
        \<or> ar_mode input = ''ssh'' \<and> rt_access_type route \<noteq> ''web_ssh'' then Inl (422, ''mode_mismatch'')
      else if ar_mode input = ''web'' \<and> access_domain_of env = '''' then Inl (409, ''access_domain_required'')
      else if rt_client_id route < 1 then Inl (409, ''gateway_not_bound'')
      else if \<not> set_tunnel (rt_node_id route) (rt_client_id route) then Inl (502, ''managed_tunnel_unavailable'')
      else Inr route)"

text \<open>A Web session tries a few labels, since two may collide; an SSH session has a long token.\<close>

fun allocate_web ::
  "access_env \<Rightarrow> create_access_input \<Rightarrow> audit_input \<Rightarrow> candidate list \<Rightarrow> db \<Rightarrow> db \<times> (string \<times> access_session) res" where
  "allocate_web env input audit [] db = (db, Inl ErrInUse)"
| "allocate_web env input audit (c # cs) db = (let label = new_route_label (cd_token c) in
     case create_access_session (cd_id c) (cd_audit_id c) (cd_now c)
         (input\<lparr>ca_token_hash := access_token_hash env label, ca_route_label := label\<rparr>) audit db of
       (db, Inr s) \<Rightarrow> (db, Inr (label, s))
     | (db, Inl e) \<Rightarrow> if e = ErrInUse then allocate_web env input audit cs db else (db, Inl e))"

definition allocate_ssh ::
  "access_env \<Rightarrow> create_access_input \<Rightarrow> audit_input \<Rightarrow> candidate \<Rightarrow> db \<Rightarrow> db \<times> (string \<times> access_session) res" where
  "allocate_ssh env input audit c db = (let (token, hash) = new_access_token env (cd_token c) in
     case create_access_session (cd_id c) (cd_audit_id c) (cd_now c) (input\<lparr>ca_token_hash := hash\<rparr>) audit db of
       (db, Inr s) \<Rightarrow> (db, Inr (token, s)) | (db, Inl e) \<Rightarrow> (db, Inl e))"

definition collision_candidate_count :: nat where
  "collision_candidate_count = 4"

definition access_input ::
  "access_env \<Rightarrow> access_draws \<Rightarrow> call \<Rightarrow> access_request \<Rightarrow> endpoint_route \<Rightarrow> string \<Rightarrow> create_access_input" where
  "access_input env d c input route grant_hash = (let p = cl_principal c in
     \<lparr>ca_user_id = Some (pr_user_id p), ca_auth_session_id = pr_auth_session_id p, ca_project_id = rt_project_id route,
      ca_endpoint_id = rt_endpoint_id route, ca_token_hash = '''', ca_route_label = '''', ca_grant_hash = grant_hash,
      ca_mode = ar_mode input, ca_source_ip = source_ip c,
      ca_expires_at = (case pr_auth_expires_at p of Some t \<Rightarrow> t
        | None \<Rightarrow> ad_expiry d + le_session_ttl (ax_login env))\<rparr>)"

section \<open>The address of a Web session\<close>

definition local_access :: "string \<Rightarrow> string \<Rightarrow> bool" where
  "local_access mode domain \<longleftrightarrow> mode = ''dev'' \<or> domain = ''localhost'' \<or> has_suffix domain ''.localhost''
     \<or> has_suffix domain ''.127.0.0.1.nip.io''"

definition request_port :: "http_request \<Rightarrow> string" where
  "request_port rq = (case split_host_port (rq_host rq) of Some (_, port) \<Rightarrow> port | None \<Rightarrow> '''')"

definition web_access_launch_url ::
  "http_request \<Rightarrow> string \<Rightarrow> string \<Rightarrow> string \<Rightarrow> string \<Rightarrow> int \<Rightarrow> bool \<Rightarrow> string" where
  "web_access_launch_url rq scheme domain mode token configured_port reuse = (let
     authority = token @ ''.'' @ domain; port = request_port rq;
     with_port = (if port = '''' then authority else join_host_port authority port);
     url = (\<lambda>a. scheme @ ''://'' @ a @ ''/'');
     scheme_matches = (scheme = ''https'' \<and> request_uses_https rq \<or> scheme = ''http'' \<and> \<not> request_uses_https rq);
     default_port = (if scheme = ''https'' then 443 else 80) in
     if reuse \<and> scheme_matches then url with_port
     else if reuse \<and> local_access mode domain \<and> port \<noteq> '''' then url with_port
     else if configured_port \<noteq> 0 \<and> configured_port \<noteq> default_port
       then url (join_host_port authority (itoa configured_port))
     else url authority)"

definition web_base_url :: "access_env \<Rightarrow> http_request \<Rightarrow> string \<Rightarrow> string" where
  "web_base_url env rq token = (let
     https = (ax_scheme env = ''https'');
     configured = (if https then ax_access_https_port env else ax_access_http_port env);
     panel = (if https then ax_https_port env else ax_http_port env) in
     web_access_launch_url rq (ax_scheme env) (access_domain_of env) (ax_mode env) token
       (if configured = 0 then panel else configured) (configured = 0))"

definition launch_urls :: "access_env \<Rightarrow> http_request \<Rightarrow> string \<Rightarrow> string \<Rightarrow> string \<Rightarrow> string \<times> string" where
  "launch_urls env rq mode token grant =
     (if mode = ''ssh'' then (''/access/ssh/'' @ token @ ''?grant='' @ query_escape grant, '''')
      else let base = web_base_url env rq token in (trim_suffix ''/'' base @ ''/.dmp/authorize#grant='' @ grant, base))"

definition create_access_session_for_request ::
  "access_env \<Rightarrow> access_draws \<Rightarrow> call \<Rightarrow> access_request \<Rightarrow> db \<Rightarrow> db \<times> (refusal + created_session)" where
  "create_access_session_for_request env d c input db =
     (case check_access env d (cl_principal c) input db of
        Inl e \<Rightarrow> (db, Inl e)
      | Inr route \<Rightarrow> let
          (grant, grant_hash) = new_access_token env (ad_grant d);
          web = (ar_mode input = ''web'');
          create = access_input env d c input route grant_hash;
          audit = audit_from_request c ''access_session.create'' ''access_session'' in
        case (if web then allocate_web env create audit (take collision_candidate_count (ad_candidates d)) db
              else allocate_ssh env create audit (hd (ad_candidates d)) db) of
          (db, Inl e) \<Rightarrow> (db, Inl (500, if web \<and> e = ErrInUse then ''web_route_collision'' else ''session_create_failed''))
        | (db, Inr (token, s)) \<Rightarrow>
            (case launch_urls env (ar_http (cl_request c)) (ar_mode input) token grant of (launch, base) \<Rightarrow>
             (db, Inr \<lparr>cs_session = s, cs_launch_url = launch, cs_web_base_url = base, cs_grant = grant,
               cs_device_name = rt_device_name route, cs_endpoint_name = rt_endpoint_name route\<rparr>)))"

definition create_access_session_handler ::
  "access_env \<Rightarrow> access_draws \<Rightarrow> call \<Rightarrow> access_request option \<Rightarrow> db \<Rightarrow> db \<times> (refusal + string \<times> string \<times> instant)" where
  "create_access_session_handler env d c body db = (case body of None \<Rightarrow> (db, Inl (400, ''invalid_json''))
     | Some input \<Rightarrow> (case create_access_session_for_request env d c input db of
         (db, Inl e) \<Rightarrow> (db, Inl e)
       | (db, Inr r) \<Rightarrow> (db, Inr (acc_id (cs_session r), cs_launch_url r, acc_expires_at (cs_session r)))))"

section \<open>The page that launches a Web session\<close>

definition html_escape :: "string \<Rightarrow> string" where
  "html_escape s = concat (map (\<lambda>ch. if ch = CHR ''<'' then ''&lt;'' else if ch = CHR ''>'' then ''&gt;''
     else if ch = CHR ''&'' then ''&amp;'' else if ch = CHR 0x27 then ''&#39;'' else if ch = CHR 0x22 then ''&#34;''
     else [ch]) s)"

record launch_page =
  lp_headers :: headers
  lp_label :: string
  lp_action :: string
  lp_grant :: string

text \<open>The middle dot between the names is UTF-8, and the label without names is a text of the platform.\<close>

definition launch_label :: "string \<Rightarrow> string \<Rightarrow> string \<Rightarrow> string" where
  "launch_label fallback device endpoint = (let label = trim_space device; endpoint = trim_space endpoint;
     label = (if endpoint = '''' then label
       else (if label = '''' then '''' else label @ [CHR 0x20, CHR 0xC2, CHR 0xB7, CHR 0x20]) @ endpoint) in
     if label = '''' then fallback else label)"

definition launch_policy :: "string \<Rightarrow> string" where
  "launch_policy origin = ''default-src 'none'; script-src 'unsafe-inline'; style-src 'unsafe-inline'; form-action ''
     @ origin @ ''; base-uri 'none'; frame-ancestors 'none'' @ [CHR 0x27]"

definition serve_web_access_launch_page ::
  "(string \<Rightarrow> url option) \<Rightarrow> (url \<Rightarrow> string) \<Rightarrow> string \<Rightarrow> created_session \<Rightarrow> refusal + launch_page" where
  "serve_web_access_launch_page parse host fallback r = (let action = trim_suffix ''/'' (cs_web_base_url r) @ ''/.dmp/session'' in
     case parse action of None \<Rightarrow> Inl (500, '''')
     | Some u \<Rightarrow> if url_scheme u \<noteq> ''http'' \<and> url_scheme u \<noteq> ''https'' \<or> host u = '''' then Inl (500, '''')
       else Inr \<lparr>lp_headers = [(''Content-Type'', [''text/html; charset=utf-8'']), (''Cache-Control'', [''no-store'']),
           (''Referrer-Policy'', [''no-referrer'']), (''X-Robots-Tag'', [''noindex, nofollow, noarchive'']),
           (''Content-Security-Policy'', [launch_policy (url_scheme u @ ''://'' @ host u)])],
         lp_label = html_escape (launch_label fallback (cs_device_name r) (cs_endpoint_name r)),
         lp_action = html_escape action, lp_grant = html_escape (cs_grant r)\<rparr>)"

definition launch_web_access_session ::
  "access_env \<Rightarrow> access_draws \<Rightarrow> call \<Rightarrow> (string \<Rightarrow> url option) \<Rightarrow> (url \<Rightarrow> string) \<Rightarrow> string \<Rightarrow> db
     \<Rightarrow> db \<times> (refusal + launch_page)" where
  "launch_web_access_session env d c parse host fallback db =
     (case post_form (ar_http (cl_request c)) of None \<Rightarrow> (db, Inl (400, ''invalid_form''))
      | Some form \<Rightarrow> (case map_of form ''endpointId'' of
          Some [endpoint] \<Rightarrow>
            (case create_access_session_for_request env d c \<lparr>ar_endpoint_id = trim_space endpoint, ar_mode = ''web''\<rparr> db of
               (db, Inl e) \<Rightarrow> (db, Inl e)
             | (db, Inr r) \<Rightarrow> (db, serve_web_access_launch_page parse host fallback r))
        | _ \<Rightarrow> (db, Inl (400, ''invalid_form''))))"

section \<open>Active sessions and their revocation\<close>

definition managed_socks_idle_ttl :: int where
  "managed_socks_idle_ttl = minutes 30"

definition access_session_idle_ttl :: "access_env \<Rightarrow> int" where
  "access_session_idle_ttl env = min (ax_idle_ttl env) managed_socks_idle_ttl"

definition access_session_domain_prefix :: "access_env \<Rightarrow> access_session \<Rightarrow> string" where
  "access_session_domain_prefix env s = (if acc_mode s \<noteq> ''web'' \<or> acc_token_hash s = '''' then ''''
     else let label = trim_space (acc_domain_prefix s) in
       if is_current label \<and> access_token_hash env label = acc_token_hash s then label else '''')"

definition list_access_sessions :: "access_env \<Rightarrow> instant \<Rightarrow> instant \<Rightarrow> db \<Rightarrow> access_session list" where
  "list_access_sessions env now store_now db = map (\<lambda>s. s\<lparr>acc_domain_prefix := access_session_domain_prefix env s\<rparr>)
     (list_active_access_sessions store_now (now - access_session_idle_ttl env) db)"

record panel =
  pn_db :: db
  pn_web :: web_registry
  pn_ssh :: ssh_registry

text \<open>The readings of the clock: in the store, and when the gateways prune and mark.\<close>

definition revoke_session ::
  "string \<Rightarrow> instant \<Rightarrow> instant \<Rightarrow> instant \<Rightarrow> call \<Rightarrow> panel \<Rightarrow> panel \<times> (refusal + cancel_func list)" where
  "revoke_session audit_id now pruned closed_at c pn = (let sid = path_value (cl_request c) ''sessionID'' in
     case revoke_access_session audit_id now sid (audit_from_request c ''access_session.revoke'' ''access_session'') (pn_db pn) of
       (db, Inl e) \<Rightarrow> (pn\<lparr>pn_db := db\<rparr>,
         Inl (if e = ErrNotFound then (404, ''session_not_found'') else (500, ''session_revoke_failed'')))
     | (db, Inr _) \<Rightarrow> (case ssh_revoke pruned closed_at sid (pn_ssh pn) of (ssh, cancelled, _) \<Rightarrow>
         (pn\<lparr>pn_db := db, pn_web := fst (web_revoke pruned closed_at sid (pn_web pn)), pn_ssh := ssh\<rparr>, Inr cancelled)))"

section \<open>What opening a session needs and gives\<close>

lemma create_access_session_Inr:
  assumes "create_access_session sid aid now input audit db = (db', Inr s)"
  shows "t_access_sessions db' = t_access_sessions db @ [new_access_session sid now input]
    \<and> t_users db' = t_users db \<and> t_auth_sessions db' = t_auth_sessions db \<and> t_endpoints db' = t_endpoints db
    \<and> t_devices db' = t_devices db \<and> t_projects db' = t_projects db
    \<and> acc_id s = sid \<and> acc_expires_at s = ca_expires_at input"
proof -
  have map: "map_sum f id m = Inr a \<Longrightarrow> m = Inr a" for f :: "store_error \<Rightarrow> store_error" and m :: "db res" and a
    by (cases m) auto
  obtain db1 where 1: "insert_access_session (new_access_session sid now input) db = Inr db1"
    and 2: "insert_audit aid (audit\<lparr>ai_resource_id := sid\<rparr>) now db1 = Inr db'"
    and s: "acc_id s = sid" "acc_expires_at s = ca_expires_at input"
    using assms by (auto simp: create_access_session_def run_tx_Inr_iff attempt_Inr_iff dest!: map)
  from 1 have "t_access_sessions db1 = t_access_sessions db @ [new_access_session sid now input]
    \<and> t_users db1 = t_users db \<and> t_auth_sessions db1 = t_auth_sessions db \<and> t_endpoints db1 = t_endpoints db
    \<and> t_devices db1 = t_devices db \<and> t_projects db1 = t_projects db"
    by (auto simp: insert_access_session_def attempt_Inr_iff put_Inr split: option.splits)
  with 2 s show ?thesis by (auto dest!: insert_audit_Inr)
qed

lemma create_access_session_Inl:
  "create_access_session sid aid now input audit db = (db', Inl e) \<Longrightarrow> db' = db"
  by (simp add: create_access_session_def run_tx_Inl_iff)

lemma allocate_web_Inr:
  assumes "allocate_web env input audit cs db = (db', Inr (token, s))"
  shows "\<exists>c\<in>set cs. token = new_route_label (cd_token c)
    \<and> create_access_session (cd_id c) (cd_audit_id c) (cd_now c)
         (input\<lparr>ca_token_hash := access_token_hash env token, ca_route_label := token\<rparr>) audit db = (db', Inr s)"
  using assms
proof (induction cs)
  case (Cons c cs)
  then show ?case
    by (fastforce simp: Let_def split: prod.splits sum.splits if_splits dest: create_access_session_Inl)
qed simp

lemma allocate_ssh_Inr:
  "allocate_ssh env input audit c db = (db', Inr (token, s)) \<Longrightarrow>
    create_access_session (cd_id c) (cd_audit_id c) (cd_now c)
      (input\<lparr>ca_token_hash := access_token_hash env token\<rparr>) audit db = (db', Inr s)"
  by (auto simp: allocate_ssh_def new_access_token_def Let_def split: prod.splits sum.splits)

definition mode_fits :: "string \<Rightarrow> endpoint_route \<Rightarrow> bool" where
  "mode_fits mode route \<longleftrightarrow> mode = ''web'' \<and> rt_access_type route = ''web_proxy''
     \<or> mode = ''ssh'' \<and> rt_access_type route = ''web_ssh''"

definition tunnel_started :: "access_env \<Rightarrow> endpoint_route \<Rightarrow> bool" where
  "tunnel_started env route \<longleftrightarrow> (case ax_set_tunnel env of None \<Rightarrow> False
     | Some f \<Rightarrow> f (rt_node_id route) (rt_client_id route))"

lemma check_access_Inr:
  assumes "check_access env d p input db = Inr route"
  shows "endpoint_route_of (ar_endpoint_id input) db = Inr route \<and> mode_fits (ar_mode input) route
    \<and> \<not> pr_bootstrap p \<and> pr_user_id p \<noteq> '''' \<and> pr_auth_session_id p \<noteq> '''' \<and> 1 \<le> rt_client_id route
    \<and> access_allowed p (ad_policy d) (rt_project_id route) (ar_mode input) db \<and> tunnel_started env route"
  using assms by (auto simp: check_access_def mode_fits_def tunnel_started_def split: option.splits if_splits sum.splits)

text \<open>The row a success leaves.\<close>

lemma created_row:
  assumes "create_access_session_for_request env d c input db = (db', Inr r)"
  shows "\<exists>route cand token. check_access env d (cl_principal c) input db = Inr route
    \<and> cs_grant r = hex_encode (ad_grant d)
    \<and> (cs_launch_url r, cs_web_base_url r) = launch_urls env (ar_http (cl_request c)) (ar_mode input) token (cs_grant r)
    \<and> (ar_mode input = ''web'' \<longrightarrow> cand \<in> set (ad_candidates d) \<and> token = new_route_label (cd_token cand))
    \<and> (\<exists>create. create_access_session (cd_id cand) (cd_audit_id cand) (cd_now cand) create
          (audit_from_request c ''access_session.create'' ''access_session'') db = (db', Inr (cs_session r))
        \<and> ca_token_hash create = access_token_hash env token
        \<and> create\<lparr>ca_token_hash := '''', ca_route_label := ''''\<rparr>
          = access_input env d c input route (access_token_hash env (cs_grant r)))"
proof -
  obtain route where route: "check_access env d (cl_principal c) input db = Inr route"
    using assms by (auto simp: create_access_session_for_request_def split: sum.splits)
  let ?grant = "hex_encode (ad_grant d)"
  let ?create = "access_input env d c input route (access_token_hash env ?grant)"
  let ?audit = "audit_from_request c ''access_session.create'' ''access_session''"
  have r: "cs_grant r = ?grant"
    using assms by (auto simp: create_access_session_for_request_def route new_access_token_def Let_def
        split: prod.splits sum.splits if_splits)
  obtain token s where made: "(if ar_mode input = ''web''
        then allocate_web env ?create ?audit (take collision_candidate_count (ad_candidates d)) db
        else allocate_ssh env ?create ?audit (hd (ad_candidates d)) db) = (db', Inr (token, s))"
    and urls: "(cs_launch_url r, cs_web_base_url r) = launch_urls env (ar_http (cl_request c)) (ar_mode input) token ?grant"
    and s: "cs_session r = s"
    using assms by (auto simp: create_access_session_for_request_def route new_access_token_def Let_def
        split: prod.splits sum.splits if_splits)
  have plain: "?create\<lparr>ca_token_hash := '''', ca_route_label := ''''\<rparr> = ?create" by (simp add: access_input_def Let_def)
  show ?thesis
  proof (cases "ar_mode input = ''web''")
    case True
    with made obtain cand where c: "cand \<in> set (take collision_candidate_count (ad_candidates d))"
      "token = new_route_label (cd_token cand)"
      "create_access_session (cd_id cand) (cd_audit_id cand) (cd_now cand)
         (?create\<lparr>ca_token_hash := access_token_hash env token, ca_route_label := token\<rparr>) ?audit db = (db', Inr s)"
      using allocate_web_Inr by fastforce
    show ?thesis
      using route r urls s c(2,3) in_set_takeD[OF c(1)] plain
      by (intro exI[of _ route] exI[of _ cand] exI[of _ token] conjI impI exI[of _ "?create\<lparr>ca_token_hash := access_token_hash env token, ca_route_label := token\<rparr>"])
        simp_all
  next
    case False
    with made have c: "create_access_session (cd_id (hd (ad_candidates d))) (cd_audit_id (hd (ad_candidates d))) (cd_now (hd (ad_candidates d)))
         (?create\<lparr>ca_token_hash := access_token_hash env token\<rparr>) ?audit db = (db', Inr s)"
      using allocate_ssh_Inr by simp
    show ?thesis
      using route r urls s c plain False
      by (intro exI[of _ route] exI[of _ "hd (ad_candidates d)"] exI[of _ token] conjI impI exI[of _ "?create\<lparr>ca_token_hash := access_token_hash env token\<rparr>"])
        simp_all
  qed
qed

text \<open>C10. An access session is opened only for someone who may use the endpoint: a logged-in account (not the API
token) that belongs to the project as project administrator or operator, or is an administrator, or a temporary
account with a policy for this kind of access now; the mode is the endpoint's, the tunnel of its client was
started, and the one new row belongs to that account, login, project and endpoint and ends with the login.\<close>

theorem access_session_authorized:
  assumes "create_access_session_for_request env d c input db = (db', Inr r)"
  defines "p \<equiv> cl_principal c"
  shows "\<exists>route s. endpoint_route_of (ar_endpoint_id input) db = Inr route \<and> mode_fits (ar_mode input) route
    \<and> \<not> pr_bootstrap p \<and> access_allowed p (ad_policy d) (rt_project_id route) (ar_mode input) db
    \<and> tunnel_started env route \<and> t_access_sessions db' = t_access_sessions db @ [s]
    \<and> acs_id s = acc_id (cs_session r) \<and> acs_user_id s = Some (pr_user_id p)
    \<and> acs_auth_session_id s = Some (pr_auth_session_id p) \<and> acs_project_id s = rt_project_id route
    \<and> acs_endpoint_id s = rt_endpoint_id route \<and> acs_grant_hash s = access_token_hash env (cs_grant r)
    \<and> acs_grant_exchanged_at s = None \<and> pr_auth_expires_at p \<in> {None, Some (acs_expires_at s)}"
proof -
  obtain route and cand :: candidate and token and create :: create_access_input where route: "check_access env d (cl_principal c) input db = Inr route"
    and made: "create_access_session (cd_id cand) (cd_audit_id cand) (cd_now cand) create
          (audit_from_request c ''access_session.create'' ''access_session'') db = (db', Inr (cs_session r))"
    and create: "create\<lparr>ca_token_hash := '''', ca_route_label := ''''\<rparr>
          = access_input env d c input route (access_token_hash env (cs_grant r))"
    using created_row[OF assms(1)] by blast
  have fields: "ca_user_id create = Some (pr_user_id p)" "ca_auth_session_id create = pr_auth_session_id p"
    "ca_project_id create = rt_project_id route" "ca_endpoint_id create = rt_endpoint_id route"
    "ca_grant_hash create = access_token_hash env (cs_grant r)"
    "pr_auth_expires_at p \<in> {None, Some (ca_expires_at create)}"
    using create by (cases create, auto simp: access_input_def Let_def p_def split: option.splits)+
  show ?thesis
    using check_access_Inr[OF route, folded p_def] create_access_session_Inr[OF made] fields
    by (intro exI[of _ route] exI[of _ "new_access_session (cd_id cand) (cd_now cand) create"])
      (simp add: new_access_session_def)
qed

lemma endpoint_route_join:
  assumes "endpoint_route_of eid db = Inr route"
  shows "\<exists>e d p. e \<in> set (t_endpoints db) \<and> e_id e = rt_endpoint_id route \<and> d \<in> set (t_devices db)
    \<and> d_id d = e_device_id e \<and> p \<in> set (t_projects db) \<and> p_id p = rt_project_id route \<and> d_project_id d = rt_project_id route"
proof -
  obtain e d p where "endpoint_join eid db = Some (e, d, p)" and route: "route = route_of e d p"
    using assms by (auto simp: endpoint_route_of_def attempt_Inr_iff from_row_Inr_iff)
  then have "e \<in> set (t_endpoints db)" "d \<in> set (t_devices db)" "d_id d = e_device_id e" "p \<in> set (t_projects db)"
    "p_id p = d_project_id d"
    by (auto simp: endpoint_join_def split: option.splits dest!: row_where_Some)
  then show ?thesis by (intro exI[of _ e] exI[of _ d] exI[of _ p]) (simp add: route route_of_def)
qed

text \<open>C11. The address that is handed out opens the session: while the login of the account is live, the label and
the grant of the address are exchanged for the very session that was created, of the account that asked, and for the
endpoint that was asked for.\<close>

theorem launched_grant_opens:
  assumes inv: "store_inv db" and r: "create_access_session_for_request env d c input db = (db', Inr r)" "ar_mode input = ''web''"
    and raw: "\<forall>cand\<in>set (ad_candidates d). length (cd_token cand) = 5"
    and live: "\<And>s t. s = last (t_access_sessions db') \<Longrightarrow> t \<in> {now, rnow} \<Longrightarrow> session_live t cutoff db' s"
  shows "\<exists>token. is_current token \<and> cs_web_base_url r = web_base_url env (ar_http (cl_request c)) token
    \<and> cs_launch_url r = trim_suffix ''/'' (cs_web_base_url r) @ ''/.dmp/authorize#grant='' @ cs_grant r
    \<and> (\<exists>db2 s route. exchange_access_grant now rnow (access_token_hash env token) (access_token_hash env (cs_grant r)) cutoff db'
          = (db2, Inr (s, route))
        \<and> acc_id s = acc_id (cs_session r) \<and> acc_user_id s = Some (pr_user_id (cl_principal c))
        \<and> acc_endpoint_id s = ar_endpoint_id input \<and> rt_endpoint_id route = ar_endpoint_id input)"
proof -
  obtain route cand token create where route: "check_access env d (cl_principal c) input db = Inr route"
    and cand: "cand \<in> set (ad_candidates d)" "token = new_route_label (cd_token cand)"
    and urls: "(cs_launch_url r, cs_web_base_url r) = launch_urls env (ar_http (cl_request c)) (ar_mode input) token (cs_grant r)"
    and made: "create_access_session (cd_id cand) (cd_audit_id cand) (cd_now cand) create
          (audit_from_request c ''access_session.create'' ''access_session'') db = (db', Inr (cs_session r))"
    and token: "ca_token_hash create = access_token_hash env token"
    and create: "create\<lparr>ca_token_hash := '''', ca_route_label := ''''\<rparr>
          = access_input env d c input route (access_token_hash env (cs_grant r))"
    using created_row[OF r(1)] r(2) by blast
  let ?s = "new_access_session (cd_id cand) (cd_now cand) create"
  let ?tok = "access_token_hash env token" and ?gr = "access_token_hash env (cs_grant r)"
  note db' = create_access_session_Inr[OF made]
  have fields: "ca_project_id create = rt_project_id route" "ca_endpoint_id create = rt_endpoint_id route" "ca_grant_hash create = ?gr"
    "ca_user_id create = Some (pr_user_id (cl_principal c))"
    using create by (cases create, auto simp: access_input_def Let_def)+
  have s: "acs_token_hash ?s = ?tok" "acs_grant_hash ?s = ?gr" "acs_grant_exchanged_at ?s = None"
    "acs_endpoint_id ?s = rt_endpoint_id route" "acs_project_id ?s = rt_project_id route"
    "acs_user_id ?s = Some (pr_user_id (cl_principal c))" "acs_id ?s = cd_id cand"
    by (simp_all add: new_access_session_def token fields)
  have inv': "store_inv db'" using create_access_session_inv[OF inv] made by (metis fst_conv)
  define hit where "hit = (\<lambda>s. acs_token_hash s = ?tok \<and> acs_grant_hash s = ?gr \<and> acs_grant_exchanged_at s = None
    \<and> session_live now cutoff db' s)"
  let ?x = "?s\<lparr>acs_grant_exchanged_at := Some now\<rparr>"
  have "hit ?s" using live db' s by (simp add: hit_def)
  moreover have "?tok \<notin> acs_token_hash ` set (t_access_sessions db)"
    using access_tokens[OF inv'] db' s(1) by simp
  then have "\<not> hit x" if "x \<in> set (t_access_sessions db)" for x
    using that by (metis hit_def image_eqI)
  ultimately have one: "count_where hit (t_access_sessions db') = 1"
    using db' by (simp add: count_where_def filter_empty_conv)
  let ?db1 = "update_access_sessions hit (\<lambda>s. s\<lparr>acs_grant_exchanged_at := Some now\<rparr>) db'"
  have x: "?x \<in> set (t_access_sessions ?db1)" using db' \<open>hit ?s\<close> by (auto simp: upd_where_def)
  obtain e dv p where join: "e \<in> set (t_endpoints db)" "e_id e = rt_endpoint_id route" "dv \<in> set (t_devices db)"
    "d_id dv = e_device_id e" "p \<in> set (t_projects db)" "p_id p = rt_project_id route" "d_project_id dv = rt_project_id route"
    using endpoint_route_join check_access_Inr[OF route] by blast
  have keys: "distinct (map e_id (t_endpoints db))" using inv by (simp add: store_inv_def db_ok_def rules_defs)
  obtain e2 d2 p2 where joined: "session_join ?x ?db1 = Some (e2, d2, p2)" "e_id e2 = rt_endpoint_id route"
  proof -
    have e: "row_where (\<lambda>e. e_id e = rt_endpoint_id route) (t_endpoints db) = Some e"
      by (rule row_where_key[OF keys join(1)]) (simp_all add: join(2))
    obtain d2 where "row_where (\<lambda>d. d_id d = e_device_id e \<and> d_project_id d = rt_project_id route) (t_devices db) = Some d2"
      using join(3,4,7) row_where_None by (metis (mono_tags, lifting) not_None_eq)
    moreover obtain p2 where "row_where (\<lambda>p. p_id p = rt_project_id route) (t_projects db) = Some p2"
      using join(5,6) row_where_None by (metis (mono_tags, lifting) not_None_eq)
    ultimately have "session_join ?x ?db1 = Some (e, d2, p2)" using e s(4,5) db' by (simp add: session_join_def)
    with that join(2) show ?thesis by blast
  qed
  then have "session_join ?x ?db1 \<noteq> None" by simp
  moreover have "session_live rnow cutoff ?db1 ?x"
    using live[of ?s rnow] db' by (simp add: session_live_def auth_live_def new_access_session_def)
  ultimately have found: "resolvable rnow ?tok ?gr cutoff ?db1 ?x" using s by (simp add: resolvable_def)
  have "map acs_token_hash (t_access_sessions ?db1) = map acs_token_hash (t_access_sessions db')"
    by (simp add: upd_where_def)
  then have "distinct (map acs_token_hash (t_access_sessions ?db1))" using access_tokens[OF inv'] by simp
  then have "row_where (resolvable rnow ?tok ?gr cutoff ?db1) (t_access_sessions ?db1) = Some ?x"
    by (rule row_where_key) (use x found s(1) in \<open>auto simp: resolvable_def\<close>)
  then have "\<exists>db2. resolve_access_grant rnow ?tok ?gr cutoff ?db1
      = (db2, Inr (view_session ?x e2 d2\<lparr>acc_last_seen_at := rnow\<rparr>, route_of e2 d2 p2))"
    by (simp add: resolve_access_grant_def joined(1))
  then obtain db2 where "exchange_access_grant now rnow ?tok ?gr cutoff db'
      = (db2, Inr (view_session ?x e2 d2\<lparr>acc_last_seen_at := rnow\<rparr>, route_of e2 d2 p2))"
    using one unfolding exchange_access_grant_def Let_def hit_def by auto
  moreover have "rt_endpoint_id route = ar_endpoint_id input"
    using check_access_Inr[OF route] by (auto simp: endpoint_route_of_def attempt_Inr_iff from_row_Inr_iff endpoint_join_def
        route_of_def split: option.splits dest!: row_where_Some)
  ultimately have "\<exists>db2 s route. exchange_access_grant now rnow ?tok ?gr cutoff db' = (db2, Inr (s, route))
      \<and> acc_id s = acc_id (cs_session r) \<and> acc_user_id s = Some (pr_user_id (cl_principal c))
      \<and> acc_endpoint_id s = ar_endpoint_id input \<and> rt_endpoint_id route = ar_endpoint_id input"
    using db' s joined(2) by (auto simp: view_session_def route_of_def)
  moreover have "is_current token" using new_labels_current[of "cd_token cand" "cd_token cand"] raw cand by simp
  ultimately show ?thesis using urls r(2) by (auto simp: launch_urls_def Let_def)
qed

section \<open>Revocation\<close>

lemma web_revoke_final:
  fixes g :: web_registry and s :: string and pruned :: instant
  assumes "web_sane g" "later \<in> {closed_at..closed_at + minutes 10}"
  shows "web_live s (fst (web_revoke pruned closed_at s g)) = {}
    \<and> snd (web_track later s (fst (web_revoke pruned closed_at s g))) = None"
proof -
  obtain h cs where m: "web_mark pruned closed_at s g = (h, cs)" by fastforce
  let ?es = "map (\<lambda>c. Forget (wc_session c) (wc_id c)) cs :: (64 word, unit) registry_event list"
  have g': "fst (web_revoke pruned closed_at s g) = run_web ?es h" by (simp add: web_revoke_def m run_web_closes)
  have times: "run_instants ?es \<subseteq> {closed_at..closed_at + tombstone_ttl}" by simp
  have "web_live s (run_web ?es h) \<subseteq> {p \<in> web_live s g. Forget s (fst p) \<notin> set ?es}"
    unfolding run_web_def by (rule web.revocation_window(1)[OF assms(1) m times])
  moreover have "Forget s (fst p) \<in> set ?es" if "p \<in> web_live s g" for p
  proof -
    have "snd p \<in> set cs" using that web.mark_live[OF m] by auto
    moreover have "snd p = \<lparr>wc_session = s, wc_id = fst p\<rparr>"
      using that assms(1) by (cases p) (auto simp: web_sane_def web_live_def)
    ultimately show ?thesis by force
  qed
  moreover have "snd (web_step_track later s () (run_web ?es h)) = None"
    unfolding run_web_def
    by (rule web.revocation_window(3)[OF assms(1) m times]) (use assms(2) in \<open>simp add: tombstone_ttl_def\<close>)
  ultimately show ?thesis unfolding g' by (auto simp: split_beta)
qed

text \<open>C12. A revocation closes a session everywhere at once: when it is answered, no active row of the session is
left, so that its token and grant resolve nothing at any time, no connection of it is open in the web gateway
and every terminal of it was cancelled, and for ten minutes neither gateway registers a new one.\<close>

theorem revocation_closes_everywhere:
  assumes inv: "store_inv (pn_db pn)" and sane: "web_sane (pn_web pn)" "ssh_sane (pn_ssh pn)"
    and r: "revoke_session aid now pruned closed_at c pn = (pn', Inr cancelled)"
    and later: "later \<in> {closed_at..closed_at + minutes 10}"
    and s: "s \<in> set (t_access_sessions (pn_db pn))" "acs_id s = path_value (cl_request c) ''sessionID''"
  shows "\<not> succeeded (resolve_access_grant t (acs_token_hash s) grant cutoff (pn_db pn'))
    \<and> \<not> succeeded (exchange_access_grant t t2 (acs_token_hash s) grant cutoff (pn_db pn'))
    \<and> web_live (acs_id s) (pn_web pn') = {} \<and> snd (web_track later (acs_id s) (pn_web pn')) = None
    \<and> snd ` ssh_live (acs_id s) (pn_ssh pn) \<subseteq> set cancelled \<and> snd (ssh_register later (acs_id s) cancel (pn_ssh pn')) = None"
proof -
  let ?sid = "acs_id s"
  let ?hit = "\<lambda>x. acs_id x = ?sid \<and> acs_status x = ''active''"
  let ?ended = "end_session ''revoked'' now"
  obtain db' ssh b where db': "revoke_access_session aid now ?sid (audit_from_request c ''access_session.revoke'' ''access_session'')
      (pn_db pn) = (db', Inr ())" and ssh: "ssh_revoke pruned closed_at ?sid (pn_ssh pn) = (ssh, cancelled, b)"
    and pn': "pn_db pn' = db'" "pn_web pn' = fst (web_revoke pruned closed_at ?sid (pn_web pn))" "pn_ssh pn' = ssh"
    using r s(2) by (auto simp: revoke_session_def Let_def split: prod.splits sum.splits)
  have rows: "t_access_sessions db' = upd_where ?hit ?ended (t_access_sessions (pn_db pn))"
    using db' by (auto simp: revoke_access_session_def Let_def run_tx_Inr_iff attempt_Inr_iff dest!: insert_audit_Inr)
  have "acs_status x \<noteq> ''active''" if x: "x \<in> set (t_access_sessions db')" "acs_token_hash x = acs_token_hash s" for x
  proof -
    from x(1) rows obtain y where y: "y \<in> set (t_access_sessions (pn_db pn))" "x = (if ?hit y then ?ended y else y)"
      by (auto simp: upd_where_def)
    then have "acs_token_hash y = acs_token_hash s" using x(2) by (auto split: if_splits)
    then have "y = s" using key_inj[OF access_tokens[OF inv] y(1) s(1)] by simp
    then show ?thesis using y(2) by (auto simp: end_session_def)
  qed
  then have none: "\<not> session_live u cutoff db' x" if "x \<in> set (t_access_sessions db')" "acs_token_hash x = acs_token_hash s" for x u
    using that by (auto simp: session_live_def)
  then have "\<not> succeeded (resolve_access_grant t (acs_token_hash s) grant cutoff db')"
    by (auto simp: resolve_succeeds_iff resolvable_def)
  moreover define hit where "hit = (\<lambda>x. acs_token_hash x = acs_token_hash s \<and> acs_grant_hash x = grant
            \<and> acs_grant_exchanged_at x = None \<and> session_live t cutoff db' x)"
  then have "count_where hit (t_access_sessions db') = 0"
    using none by (auto simp: count_where_def filter_empty_conv)
  then have "count_where hit (t_access_sessions db') \<noteq> Suc 0" by linarith
  then have "\<not> succeeded (exchange_access_grant t t2 (acs_token_hash s) grant cutoff db')"
    unfolding exchange_access_grant_def Let_def hit_def[symmetric] by (simp add: succeeded_def)
  moreover have "snd ` ssh_live ?sid (pn_ssh pn) \<subseteq> set cancelled" "snd (ssh_register later ?sid cancel ssh) = None"
  proof -
    obtain h where m: "ssh_mark pruned closed_at ?sid (pn_ssh pn) = (h, cancelled)" "ssh = h"
      using ssh by (auto simp: ssh_revoke_def split: prod.splits)
    show "snd ` ssh_live ?sid (pn_ssh pn) \<subseteq> set cancelled" using ssh.mark_live[OF m(1)] by auto
    show "snd (ssh_register later ?sid cancel ssh) = None"
      using ssh.revocation_window(3)[OF sane(2) m(1), of "[]" later cancel] later
      by (simp add: m(2) run_registry_def run_instants_def tombstone_ttl_def)
  qed
  ultimately show ?thesis using web_revoke_final[OF sane(1) later] unfolding pn' by blast
qed

section \<open>Witnesses\<close>

definition demo_access_env :: access_env where
  "demo_access_env = \<lparr>ax_login = demo_login_env, ax_set_tunnel = Some (\<lambda>n c. n = ''n1'' \<and> c = 7), ax_scheme = ''https'',
     ax_mode = ''pro'', ax_http_port = 80, ax_https_port = 443, ax_access_http_port = 0, ax_access_https_port = 0,
     ax_idle_ttl = minutes 15\<rparr>"

definition demo_candidate :: candidate where
  "demo_candidate = \<lparr>cd_token = [1, 2, 3, 4, 255], cd_id = ''a9'', cd_audit_id = ''x9'', cd_now = 0\<rparr>"

definition demo_access_draws :: access_draws where
  "demo_access_draws = \<lparr>ad_grant = [], ad_candidates = [demo_candidate], ad_policy = 0, ad_expiry = 0\<rparr>"

definition demo_operator :: principal where
  "demo_operator = \<lparr>pr_user_id = ''u2'', pr_auth_session_id = ''s2'', pr_auth_expires_at = Some (minutes 600),
     pr_username = ''user-u2'', pr_display_name = '''', pr_role = ''operator'', pr_project_ids = [''p1''], pr_bootstrap = False\<rparr>"

definition operator_call :: call where
  "operator_call = \<lparr>cl_request = demo_post, cl_request_id = ''r'', cl_principal = demo_operator\<rparr>"

definition demo_access_request :: access_request where
  "demo_access_request = \<lparr>ar_endpoint_id = ''e2'', ar_mode = ''web''\<rparr>"

definition demo_create :: "string \<Rightarrow> create_access_input" where
  "demo_create label = \<lparr>ca_user_id = Some ''u2'', ca_auth_session_id = ''s2'', ca_project_id = ''p1'', ca_endpoint_id = ''e2'',
     ca_token_hash = ''k'', ca_route_label = label, ca_grant_hash = ''k'', ca_mode = ''web'', ca_source_ip = ''192.0.2.1'',
     ca_expires_at = minutes 600\<rparr>"

lemma demo_route:
  "\<exists>route. check_access demo_access_env demo_access_draws demo_operator demo_access_request demo_db = Inr route
    \<and> rt_project_id route = ''p1'' \<and> rt_endpoint_id route = ''e2''"
proof -
  have "isl (check_access demo_access_env demo_access_draws demo_operator demo_access_request demo_db) = False" by code_simp
  moreover have "map_sum id (\<lambda>r. (rt_project_id r, rt_endpoint_id r))
      (check_access demo_access_env demo_access_draws demo_operator demo_access_request demo_db) = Inr (''p1'', ''e2'')" by code_simp
  ultimately show ?thesis
    by (cases "check_access demo_access_env demo_access_draws demo_operator demo_access_request demo_db") auto
qed

lemma demo_session_created:
  "succeeded (create_access_session ''a9'' ''x9'' 0 (demo_create label)
     (audit_from_request operator_call ''access_session.create'' ''access_session'') demo_db)"
  by code_simp

lemma demo_opened:
  "\<exists>db' r. create_access_session_for_request demo_access_env demo_access_draws operator_call demo_access_request demo_db = (db', Inr r)
    \<and> create_access_session ''a9'' ''x9'' 0 (demo_create (new_route_label [1, 2, 3, 4, 255]))
       (audit_from_request operator_call ''access_session.create'' ''access_session'') demo_db = (db', Inr (cs_session r))"
proof -
  obtain route where route: "check_access demo_access_env demo_access_draws demo_operator demo_access_request demo_db = Inr route"
    "rt_project_id route = ''p1''" "rt_endpoint_id route = ''e2''" using demo_route by blast
  let ?label = "new_route_label [1, 2, 3, 4, 255]"
  let ?audit = "audit_from_request operator_call ''access_session.create'' ''access_session''"
  have hash: "access_token_hash demo_access_env t = ''k''" for t
    by (simp add: access_token_hash_def demo_access_env_def demo_login_env_def)
  have source: "source_ip operator_call = ''192.0.2.1''" by code_simp
  have "(access_input demo_access_env demo_access_draws operator_call demo_access_request route ''k'')
      \<lparr>ca_token_hash := ''k'', ca_route_label := ?label\<rparr> = demo_create ?label"
    by (simp add: access_input_def demo_create_def source route(2,3)) (simp add: operator_call_def demo_operator_def demo_access_request_def)
  moreover obtain db' s where made: "create_access_session ''a9'' ''x9'' 0 (demo_create ?label) ?audit demo_db = (db', Inr s)"
    using demo_session_created[of ?label] by (metis prod.collapse succeeded_iff)
  ultimately have "allocate_web demo_access_env (access_input demo_access_env demo_access_draws operator_call demo_access_request route ''k'')
      ?audit (take collision_candidate_count (ad_candidates demo_access_draws)) demo_db = (db', Inr (?label, s))"
    by (simp add: demo_access_draws_def demo_candidate_def collision_candidate_count_def hash)
  moreover have "cl_principal operator_call = demo_operator" "ar_mode demo_access_request = ''web''"
    by (simp_all add: operator_call_def demo_access_request_def)
  ultimately show ?thesis
    by (simp add: create_access_session_for_request_def route(1) new_access_token_def hash split_beta made)
qed

theorem access_session_authorized_witness:
  "\<exists>db' r route s. create_access_session_for_request demo_access_env demo_access_draws operator_call demo_access_request demo_db = (db', Inr r)
    \<and> endpoint_route_of ''e2'' demo_db = Inr route \<and> t_access_sessions db' = t_access_sessions demo_db @ [s]
    \<and> acs_user_id s = Some ''u2''"
proof -
  obtain db' r where r: "create_access_session_for_request demo_access_env demo_access_draws operator_call demo_access_request demo_db
    = (db', Inr r)" using demo_opened by blast
  from access_session_authorized[OF this] r show ?thesis
    by (auto simp: operator_call_def demo_operator_def demo_access_request_def)
qed

lemma demo_row_live:
  assumes "t \<in> {1, 2}" "s = (new_access_session ''a9'' 0 (demo_create label))" "t_users db' = t_users demo_db"
    "t_auth_sessions db' = t_auth_sessions demo_db"
  shows "session_live t (- 1) db' s"
proof -
  have "session_live 1 (- 1) demo_db (new_access_session ''a9'' 0 (demo_create label))"
    "session_live 2 (- 1) demo_db (new_access_session ''a9'' 0 (demo_create label))" by code_simp+
  then have "session_live t (- 1) demo_db s" using assms(1,2) by auto
  then show ?thesis using assms(3,4) by (simp add: session_live_def auth_live_def)
qed

theorem launched_grant_opens_witness:
  "\<exists>db' r token. create_access_session_for_request demo_access_env demo_access_draws operator_call demo_access_request demo_db = (db', Inr r)
    \<and> is_current token \<and> (\<exists>db2 s route. exchange_access_grant 1 2 (access_token_hash demo_access_env token)
         (access_token_hash demo_access_env (cs_grant r)) (- 1) db' = (db2, Inr (s, route)) \<and> acc_id s = acc_id (cs_session r))"
proof -
  let ?create = "demo_create (new_route_label [1, 2, 3, 4, 255])"
  obtain db' r where r: "create_access_session_for_request demo_access_env demo_access_draws operator_call demo_access_request demo_db
      = (db', Inr r)"
    and made: "create_access_session ''a9'' ''x9'' 0 ?create
      (audit_from_request operator_call ''access_session.create'' ''access_session'') demo_db = (db', Inr (cs_session r))"
    using demo_opened by blast
  have mode: "ar_mode demo_access_request = ''web''" by (simp add: demo_access_request_def)
  have raw: "\<forall>cand\<in>set (ad_candidates demo_access_draws). length (cd_token cand) = 5"
    by (simp add: demo_access_draws_def demo_candidate_def)
  have live: "session_live t (- 1) db' s" if "s = last (t_access_sessions db')" "t \<in> {1, 2}" for s t
    using demo_row_live[OF that(2), of s "new_route_label [1, 2, 3, 4, 255]" db'] that(1) create_access_session_Inr[OF made] by simp
  obtain token db2 s route where "is_current token"
    "exchange_access_grant 1 2 (access_token_hash demo_access_env token) (access_token_hash demo_access_env (cs_grant r)) (- 1) db'
      = (db2, Inr (s, route))" "acc_id s = acc_id (cs_session r)"
    by (rule exE[OF launched_grant_opens[where now = 1 and rnow = 2 and cutoff = "- 1", OF demo_inv r mode raw live]],
      assumption, assumption, elim exE conjE, rule that)
  then show ?thesis using r by blast
qed

definition demo_panel :: panel where
  "demo_panel = \<lparr>pn_db = demo_db, pn_web = fst (web_track 0 ''a1'' web_started), pn_ssh = fst (ssh_register 0 ''a1'' 4 ssh_started)\<rparr>"

definition revoke_call :: call where
  "revoke_call = operator_call\<lparr>cl_request := demo_post\<lparr>ar_values := [(''sessionID'', ''a1'')]\<rparr>\<rparr>"

theorem revocation_closes_everywhere_witness:
  "\<exists>pn' cancelled. revoke_session ''x9'' 1 1 1 revoke_call demo_panel = (pn', Inr cancelled)
    \<and> \<not> succeeded (exchange_access_grant 2 2 ''k1'' ''grant'' (- 1) (pn_db pn'))
    \<and> web_live ''a1'' (pn_web demo_panel) \<noteq> {} \<and> web_live ''a1'' (pn_web pn') = {}"
proof -
  have id: "path_value (cl_request revoke_call) ''sessionID'' = ''a1''" by (simp add: revoke_call_def path_value_def)
  have "succeeded (revoke_access_session ''x9'' 1 ''a1'' (audit_from_request revoke_call ''access_session.revoke'' ''access_session'') demo_db)"
    by code_simp
  then obtain db' u where revoked: "revoke_access_session ''x9'' 1 ''a1'' (audit_from_request revoke_call ''access_session.revoke'' ''access_session'')
      demo_db = (db', Inr u)" by (metis prod.collapse succeeded_iff)
  have db: "pn_db demo_panel = demo_db" by (simp add: demo_panel_def)
  have "\<exists>pn' cancelled. revoke_session ''x9'' 1 1 1 revoke_call demo_panel = (pn', Inr cancelled)"
    by (simp add: revoke_session_def Let_def id db revoked split_beta)
  then obtain pn' cancelled where r: "revoke_session ''x9'' 1 1 1 revoke_call demo_panel = (pn', Inr cancelled)" by blast
  have web: "web_sane (pn_web demo_panel)" using web_sane_track[OF web_started_sane] by (simp add: demo_panel_def)
  have ssh: "ssh_sane (pn_ssh demo_panel)"
    using ssh_sane_steps[OF ssh_started_sane, of "Track 0 ''a1'' 4"] by (simp add: demo_panel_def)
  have inv: "store_inv (pn_db demo_panel)" using demo_inv by (simp add: demo_panel_def)
  have row: "demo_access_session ''a1'' ''u2'' ''s2'' ''k1'' \<in> set (t_access_sessions (pn_db demo_panel))"
    "acs_id (demo_access_session ''a1'' ''u2'' ''s2'' ''k1'') = path_value (cl_request revoke_call) ''sessionID''"
    "acs_token_hash (demo_access_session ''a1'' ''u2'' ''s2'' ''k1'') = ''k1''"
    unfolding id by (simp_all add: demo_panel_def demo_defs)
  have later: "(1::instant) \<in> {1..1 + minutes 10}" by (simp add: seconds_def)
  have "web_live ''a1'' (pn_web demo_panel) \<noteq> {}"
    by (simp add: Let_def demo_panel_def web_live_def web_track_def web_prune_def web_started_def keep_tombstone_def put_inner_def inner_def)
  moreover have "\<not> succeeded (exchange_access_grant 2 2 ''k1'' ''grant'' (- 1) (pn_db pn')) \<and> web_live ''a1'' (pn_web pn') = {}"
    using revocation_closes_everywhere[OF inv web ssh r later row(1,2)] row(3) row(2)[unfolded id] by metis
  ultimately show ?thesis using r by blast
qed

end
