(* ===== verification/ApiValidate.thy ===== *)
theory ApiValidate
  imports ApiAuth Discovery
begin

text \<open>
  The validators of \<open>api/api.go\<close>: the checks a node, a project, a device and a discovery request must
  pass before the store sees them, the canonical form of network lists, the generator of node
  credentials, and the guard on CSV cells.

  A validator returns a Go map from field names to messages; the model keeps the names, in the order
  they are set, and a field set twice is listed twice. \<open>url.ParseRequestURI\<close> is an argument: the
  scheme and the host of a URL, or None where it fails.
\<close>

section \<open>Networks\<close>

definition address_allowed_by_cidrs :: "string \<Rightarrow> string list \<Rightarrow> bool" where
  "address_allowed_by_cidrs host cidrs = (case parse_addr host of None \<Rightarrow> False
     | Some a \<Rightarrow> list_ex (\<lambda>c. case parse_prefix c of None \<Rightarrow> False | Some p \<Rightarrow> prefix_contains p a) cidrs)"

definition canonical_cidr :: "string \<Rightarrow> string" where
  "canonical_cidr value = (case parse_addr value of
     Some (V4 a) \<Rightarrow> v4_text a @ ''/32''
   | _ \<Rightarrow> (case parse_prefix value of
       Some (V4 a, bits) \<Rightarrow> v4_text (mask_v4 bits a) @ ''/'' @ nat_text bits
     | _ \<Rightarrow> value))"

fun canonical_loop :: "string list \<Rightarrow> string list \<Rightarrow> string list" where
  "canonical_loop [] result = result"
| "canonical_loop (v # vs) result = (let v = trim_space v in
     if v = '''' then canonical_loop vs result
     else let c = canonical_cidr v in
       if c \<in> set result then canonical_loop vs result else canonical_loop vs (result @ [c]))"

definition canonical_cidrs :: "string list \<Rightarrow> string list" where
  "canonical_cidrs values = canonical_loop values []"

section \<open>Nodes and projects\<close>

definition named :: "bool \<Rightarrow> string \<Rightarrow> string list" where
  "named bad field = (if bad then [field] else [])"

definition blank :: "string \<Rightarrow> bool" where
  "blank s \<longleftrightarrow> trim_space s = ''''"

definition valid_node_credential_reference :: "string \<Rightarrow> bool" where
  "valid_node_credential_reference value = (let trimmed = trim_space value in
     has_prefix trimmed ''db://node/'' \<and> length trimmed > length ''db://node/'')"

definition validate_node :: "(string \<Rightarrow> (string \<times> string) option) \<Rightarrow> create_node_input \<Rightarrow> string list" where
  "validate_node parse_uri i = (let u = parse_uri (cn_api_url i) in
     named (blank (cn_name i)) ''name''
   @ named (case u of None \<Rightarrow> True | Some (scheme, host) \<Rightarrow> host = '''' \<or> scheme \<noteq> ''https'') ''apiUrl''
   @ named (case u of None \<Rightarrow> False | Some (scheme, host) \<Rightarrow> scheme = ''https'' \<and> blank (cn_tls_server_name i))
       ''tlsServerName''
   @ named (\<not> valid_node_credential_reference (cn_credential_ref i)) ''credential''
   @ named (cn_port_start i < 1 \<or> cn_port_end i > 65535 \<or> cn_port_end i < cn_port_start i) ''portRange'')"

definition ipv4_prefix :: "string \<Rightarrow> bool" where
  "ipv4_prefix s = (case parse_prefix s of Some (a, bits) \<Rightarrow> is_4 a | None \<Rightarrow> False)"

definition validate_project :: "create_project_input \<Rightarrow> string list" where
  "validate_project i =
     named (blank (cpr_name i)) ''name''
   @ named (blank (cpr_node_id i)) ''nodeId''
   @ named (blank (cpr_owner_name i)) ''ownerName''
   @ named (case cpr_client_id i of None \<Rightarrow> True | Some c \<Rightarrow> c < 1) ''clientId''
   @ named (\<not> list_all ipv4_prefix (cpr_networks i)) ''networks''"

section \<open>Devices\<close>

definition valid_credential_reference :: "string \<Rightarrow> bool" where
  "valid_credential_reference value = list_ex (\<lambda>p. has_prefix (trim_space value) p
     \<and> length (trim_space value) > length p) [''file://'', ''db://ssh/'']"

definition supported_endpoint_protocol :: "string \<Rightarrow> bool" where
  "supported_endpoint_protocol p \<longleftrightarrow>
     p \<in> {''http'', ''https'', ''ssh'', ''rtsp'', ''tcp'', ''rdp'', ''mysql'', ''postgresql''}"

definition port_key :: "string \<Rightarrow> int \<Rightarrow> string" where
  "port_key protocol port = protocol @ '':'' @ itoa port"

definition indexed :: "string \<Rightarrow> nat \<Rightarrow> string" where
  "indexed list n = list @ ''['' @ nat_text n @ '']''"

definition endpoint_faults :: "string \<Rightarrow> create_endpoint_input \<Rightarrow> string list" where
  "endpoint_faults entry e =
     named (blank (ce_name e)) (entry @ ''.name'')
   @ named (\<not> supported_endpoint_protocol (ce_protocol e)) (entry @ ''.protocol'')
   @ named (ce_target_port e < 1 \<or> ce_target_port e > 65535) (entry @ ''.targetPort'')
   @ named (ce_protocol e \<noteq> ''https'' \<and> \<not> blank (ce_tls_server_name e)) (entry @ ''.tls'')
   @ named (ce_protocol e \<noteq> ''ssh'' \<and> (\<not> blank (ce_credential_ref e)
       \<or> \<not> blank (ce_ssh_host_key_fingerprint e))) (entry @ ''.ssh'')
   @ named (ce_protocol e = ''ssh'' \<and> \<not> blank (ce_credential_ref e)
       \<and> \<not> valid_credential_reference (ce_credential_ref e)) (entry @ ''.credentialRef'')"

fun validate_endpoints :: "nat \<Rightarrow> string list \<Rightarrow> create_endpoint_input list \<Rightarrow> string list" where
  "validate_endpoints n seen [] = []"
| "validate_endpoints n seen (e # es) = (let key = port_key (ce_protocol e) (ce_target_port e) in
     endpoint_faults (indexed ''endpoints'' n) e
     @ named (key \<in> set seen) (indexed ''endpoints'' n)
     @ validate_endpoints (Suc n) (key # seen) es)"

definition validate_device :: "create_device_input \<Rightarrow> string list" where
  "validate_device i =
     named (blank (cd_name i)) ''name''
   @ named (case parse_addr (trim_space (cd_host i)) of None \<Rightarrow> True | Some a \<Rightarrow> \<not> is_4 a) ''host''
   @ named (cd_source i \<noteq> ''manual'' \<and> cd_source i \<noteq> ''import'' \<and> cd_source i \<noteq> ''discovery'') ''source''
   @ validate_endpoints 0 [] (cd_endpoints i)"

section \<open>Discovery requests\<close>

definition supported_discovery_protocol :: "string \<Rightarrow> bool" where
  "supported_discovery_protocol p \<longleftrightarrow> to_lower (trim_space p) \<in>
     {'''', ''auto'', ''http'', ''https'', ''ssh'', ''rtsp'', ''tcp'', ''rdp'', ''mysql'', ''postgresql''}"

fun validate_port_list :: "nat \<Rightarrow> string list \<Rightarrow> discovery_port list \<Rightarrow> string list" where
  "validate_port_list n seen [] = []"
| "validate_port_list n seen (p # ps) = (let key = port_key (dp_protocol p) (dp_port p) in
     named (blank (dp_name p)) (indexed ''ports'' n @ ''.name'')
   @ named (dp_port p < 1 \<or> dp_port p > 65535) (indexed ''ports'' n @ ''.port'')
   @ named (\<not> supported_discovery_protocol (dp_protocol p)) (indexed ''ports'' n @ ''.protocol'')
   @ named (key \<in> set seen) (indexed ''ports'' n)
   @ validate_port_list (Suc n) (key # seen) ps)"

definition validate_discovery_ports :: "discovery_port list \<Rightarrow> string list" where
  "validate_discovery_ports ports =
     named (ports = [] \<or> length ports > 64) ''ports'' @ validate_port_list 0 [] ports"

definition network_allowed :: "string list \<Rightarrow> addr \<times> nat \<Rightarrow> bool" where
  "network_allowed allowed = (\<lambda>(a, bits). list_ex (\<lambda>v. case parse_prefix v of None \<Rightarrow> False
     | Some (b, parent_bits) \<Rightarrow> bits \<ge> parent_bits \<and> prefix_contains (b, parent_bits) a) allowed)"

definition validate_discovery_input :: "string list \<Rightarrow> discovery_port list \<Rightarrow> string list \<Rightarrow> string list" where
  "validate_discovery_input networks ports allowed =
     named (networks = []) ''networks''
   @ named (\<not> list_all (\<lambda>n. case parse_prefix n of None \<Rightarrow> False
       | Some (a, bits) \<Rightarrow> is_4 a \<and> network_allowed allowed (a, bits)) networks) ''networks''
   @ validate_discovery_ports ports"

section \<open>Generated credentials\<close>

definition nps_alphabet :: string where
  "nps_alphabet = ''0123456789abcdefghijklmnopqrstuvwxyz''"

text \<open>One pass over a buffer: bytes from 252 on are rejected, and a full result ends the pass.\<close>

fun take_symbols :: "nat \<Rightarrow> 8 word list \<Rightarrow> string \<Rightarrow> string" where
  "take_symbols n [] result = result"
| "take_symbols n (v # vs) result =
     (if v \<ge> 252 then take_symbols n vs result
      else let result = result @ [nps_alphabet ! (unat v mod 36)] in
        if length result = n then result else take_symbols n vs result)"

text \<open>The outer loop: \<open>rand k\<close> is the k-th buffer that \<open>rand.Read\<close> fills, or its error. It may reject
every byte for ever, in which case the loop has no value.\<close>

partial_function (option) nps_loop :: "(nat \<Rightarrow> 8 word list res) \<Rightarrow> nat \<Rightarrow> nat \<Rightarrow> string \<Rightarrow> string res option" where
  "nps_loop rand n k result = (if length result < n
     then (case rand k of Inl e \<Rightarrow> Some (Inl e)
       | Inr buffer \<Rightarrow> nps_loop rand n (Suc k) (take_symbols n buffer result))
     else Some (Inr result))"

definition new_nps_compatible_secret :: "(nat \<Rightarrow> 8 word list res) \<Rightarrow> nat \<Rightarrow> string res option" where
  "new_nps_compatible_secret rand n = nps_loop rand n 0 ''''"

section \<open>Numbers with their errors ignored\<close>

text \<open>The number that \<open>strconv.Atoi\<close> returns beside its error: 0, or the bound that a number out of range passes.\<close>

definition atoi_or_bound :: "string \<Rightarrow> int" where
  "atoi_or_bound s = (case atoi s of Some i \<Rightarrow> i
     | None \<Rightarrow> (let (neg, body) = (case s of ch # r \<Rightarrow>
           if ch = CHR ''-'' then (True, r) else if ch = CHR ''+'' then (False, r) else (False, s) | [] \<Rightarrow> (False, s)) in
         case parse_digits body of None \<Rightarrow> 0 | Some n \<Rightarrow> if neg then - (2 ^ 63) else 2 ^ 63 - 1))"

section \<open>CSV cells\<close>

text \<open>The leading white space of a UTF-8 text: control characters and the runes of \<open>unicode.IsSpace\<close>.\<close>

definition wide_spaces :: "string list" where
  "wide_spaces = [[CHR 0xC2, CHR 0x85], [CHR 0xC2, CHR 0xA0], [CHR 0xE1, CHR 0x9A, CHR 0x80]]
     @ map (\<lambda>c. [CHR 0xE2, CHR 0x80, c]) [CHR 0x80, CHR 0x81, CHR 0x82, CHR 0x83, CHR 0x84, CHR 0x85,
         CHR 0x86, CHR 0x87, CHR 0x88, CHR 0x89, CHR 0x8A, CHR 0xA8, CHR 0xA9, CHR 0xAF]
     @ [[CHR 0xE2, CHR 0x81, CHR 0x9F], [CHR 0xE3, CHR 0x80, CHR 0x80]]"

function trim_left_space :: "string \<Rightarrow> string" where
  "trim_left_space s = (case s of [] \<Rightarrow> []
     | c # r \<Rightarrow> if c \<le> CHR '' '' then trim_left_space r
         else case List.find (has_prefix s) wide_spaces of
             Some w \<Rightarrow> if w = [] then s else trim_left_space (drop (length w) s)
           | None \<Rightarrow> s)"
  by auto

termination by (relation "measure length") auto

declare trim_left_space.simps [simp del]

definition safe_csv_cell :: "string \<Rightarrow> string" where
  "safe_csv_cell value = (if value = '''' then value
     else let trimmed = trim_left_space value in
       if hd value = CHR 0x09 \<or> hd value = CHR 0x0D
         \<or> trimmed \<noteq> '''' \<and> hd trimmed \<in> set ''=+-@'' then CHR 0x27 # value
       else value)"

section \<open>Canonical networks\<close>

lemma trim_fixed: "s = '''' \<or> \<not> is_space (hd s) \<and> \<not> is_space (last s) \<Longrightarrow> trim_space s = s"
proof -
  assume s: "s = '''' \<or> \<not> is_space (hd s) \<and> \<not> is_space (last s)"
  then have "dropWhile is_space s = s" "dropWhile is_space (rev s) = rev s"
    by (auto simp: dropWhile_eq_self_iff hd_rev)
  then show "trim_space s = s" by (simp add: trim_space_def)
qed

lemma trim_ends:
  "trim_space s = '''' \<or> \<not> is_space (hd (trim_space s)) \<and> \<not> is_space (last (trim_space s))"
proof (cases "trim_space s = ''''")
  case False
  let ?d = "dropWhile is_space s"
  let ?t = "rev (dropWhile is_space (rev ?d))"
  have t: "?t \<noteq> []" using False by (simp add: trim_space_def)
  have "rev (rev ?d) = ?t @ rev (takeWhile is_space (rev ?d))"
    by (metis rev_append takeWhile_dropWhile_id)
  then have d: "?d = ?t @ rev (takeWhile is_space (rev ?d))" by simp
  have ne: "?d \<noteq> []"
  proof
    assume "?d = []"
    then show False using t by (simp only: rev.simps dropWhile.simps)
  qed
  have "hd ?d = hd ?t" using t d by (metis hd_append2)
  moreover have "\<not> is_space (hd ?d)" using ne by (rule hd_dropWhile)
  moreover have "\<not> is_space (last ?t)" using t hd_dropWhile[of is_space "rev ?d"] by (simp add: last_rev)
  ultimately show ?thesis by (simp add: trim_space_def)
qed simp

lemma trim_idem [simp]: "trim_space (trim_space s) = trim_space s"
  by (rule trim_fixed) (rule trim_ends)

lemma digit_not_space: "is_digit c \<Longrightarrow> \<not> is_space c"
  by (auto simp: is_digit_def is_space_def less_eq_char_def)

lemma split_on_keeps: "c \<in> set s \<Longrightarrow> c \<noteq> sep \<Longrightarrow> \<exists>w\<in>set (split_on sep s). c \<in> set w"
  by (induction s) (auto split: list.splits)

lemma all_some_None: "None \<in> set xs \<Longrightarrow> all_some xs = None"
  by (induction xs) (auto split: option.splits)

lemma parse_v4_chars:
  assumes "c \<in> set s" "\<not> is_digit c" "c \<noteq> CHR ''.''" shows "parse_v4 s = None"
proof -
  obtain w where w: "w \<in> set (split_on CHR ''.'' s)" "c \<in> set w" using split_on_keeps[OF assms(1,3)] by blast
  then have "parse_octet w = None" using assms(2) by (auto simp: parse_octet_def list_all_iff)
  then have "all_some (map parse_octet (split_on CHR ''.'' s)) = None" using w by (intro all_some_None) force
  then show ?thesis by (simp add: parse_v4_def parse_octets_def)
qed

lemma parse_v6_not_v4: "parse_v6 s \<noteq> Some (V4 a)"
  by (auto simp: parse_v6_def Let_def split: option.splits if_splits)

lemma parse_addr_V4: "parse_addr s = Some (V4 a) \<Longrightarrow> parse_v4 s = Some a"
  by (auto simp: parse_addr_def parse_v6_not_v4 split: list.splits if_splits)

lemma slash_not_digit: "\<not> is_digit CHR ''/''"
  by (simp add: is_digit_def less_eq_char_def)

lemma nat_text_no_slash: "CHR ''/'' \<notin> set (nat_text n)"
  using nat_text_digits[of n] slash_not_digit by (auto simp: list_all_iff)

lemma split_slash_append: "CHR ''/'' \<notin> set t \<Longrightarrow> split_slash (h @ CHR ''/'' # t) = Some (h, t)"
  by (simp add: split_slash_def takeWhile_append dropWhile_append takeWhile_eq_all_conv dropWhile_eq_Nil_conv)

lemma atoi_nat_text: "n < 2 ^ 63 \<Longrightarrow> atoi (nat_text n) = Some (int n)"
  using atoi_itoa[of "int n"] by (simp add: itoa_def)

lemma hd_nat_text_small:
  assumes "d < 256" "1 < length (nat_text d)"
  shows "CHR ''1'' \<le> hd (nat_text d) \<and> hd (nat_text d) \<le> CHR ''9''"
proof -
  have "is_digit (hd (nat_text d))" using nat_text_digits[of d] by (cases "nat_text d") auto
  moreover have "hd (nat_text d) \<noteq> CHR ''0''"
    using nat_text_small[OF assms(1)] assms(2) by (auto simp: parse_octet_def split: if_splits)
  ultimately have d: "48 \<le> (of_char (hd (nat_text d)) :: nat)" "(of_char (hd (nat_text d)) :: nat) \<le> 57"
      "hd (nat_text d) \<noteq> CHR ''0''"
    by (auto simp: is_digit_def less_eq_char_def)
  then have "(of_char (hd (nat_text d)) :: nat) \<noteq> of_char CHR ''0''" by (simp only: of_char_eq_iff not_False_eq_True)
  then show ?thesis using d by (simp add: less_eq_char_def)
qed

lemma parse_prefix_text:
  assumes "bits \<le> 32" shows "parse_prefix (v4_text a @ CHR ''/'' # nat_text bits) = Some (V4 a, bits)"
proof -
  have "\<not> (1 < length (nat_text bits)
      \<and> \<not> (CHR ''1'' \<le> hd (nat_text bits) \<and> hd (nat_text bits) \<le> CHR ''9''))"
    using hd_nat_text_small[of bits] assms by auto
  then show ?thesis using assms
    by (simp add: parse_prefix_def split_slash_append nat_text_no_slash parse_addr_v4_text atoi_nat_text
        del: One_nat_def)
qed

lemma mask_v4_32: "mask_v4 32 a = a"
  by (simp add: mask_v4_def)

lemma mask_v4_idem: "mask_v4 b (mask_v4 b x) = mask_v4 b x"
  unfolding word_unat_eq_iff unat_mask by simp

lemma in_prefix_mask: "in_prefix (mask_v4 b x) b y = in_prefix x b y"
  unfolding in_prefix_def word_unat_eq_iff unat_drop_32 unat_mask by simp

lemma in_prefix_32: "in_prefix a 32 b \<longleftrightarrow> b = a"
  by (simp add: in_prefix_def)

lemma nat_text_ends: "is_digit (hd (nat_text n))" "is_digit (last (nat_text n))" "nat_text n \<noteq> []"
  using nat_text_digits[of n] by (cases "nat_text n"; auto simp: list_all_iff)+

lemma v4_text_hd: "v4_text a \<noteq> [] \<and> is_digit (hd (v4_text a))"
proof -
  obtain d ds where "digits 256 4 (unat a) = d # ds"
    using length_digits[of 256 4 "unat a"] by (cases "digits 256 4 (unat a)") auto
  then show ?thesis using nat_text_ends(1,3)[of d] by (auto simp: v4_text_def join_with_def)
qed

definition cidr_text :: "32 word \<Rightarrow> nat \<Rightarrow> string" where
  "cidr_text a bits = v4_text a @ ''/'' @ nat_text bits"

lemma cidr_text_trim: "trim_space (cidr_text a bits) = cidr_text a bits" "cidr_text a bits \<noteq> ''''"
  using v4_text_hd[of a] nat_text_ends[of bits]
  by (auto simp: cidr_text_def digit_not_space intro!: trim_fixed)

lemma cidr_text_not_addr: "parse_addr (cidr_text a bits) \<noteq> Some (V4 b)"
  using parse_v4_chars[of "CHR ''/''" "cidr_text a bits"] slash_not_digit parse_addr_V4[of "cidr_text a bits" b]
  by (auto simp: cidr_text_def)

lemma parse_cidr_text: "bits \<le> 32 \<Longrightarrow> parse_prefix (cidr_text a bits) = Some (V4 a, bits)"
  by (simp add: cidr_text_def parse_prefix_text)

text \<open>What a network in a list stands for: itself when it is an address, and the addresses of a prefix.\<close>

definition network_covers :: "string \<Rightarrow> addr \<Rightarrow> bool" where
  "network_covers v a \<longleftrightarrow> (\<exists>x. a = V4 x \<and> parse_addr v = Some (V4 x))
     \<or> (\<exists>p. parse_prefix v = Some p \<and> prefix_contains p a)"

lemma canonical_cases:
  obtains (addr) a where "parse_addr v = Some (V4 a)" "canonical_cidr v = cidr_text a 32"
  | (net) a bits where "\<forall>b. parse_addr v \<noteq> Some (V4 b)" "parse_prefix v = Some (V4 a, bits)" "bits \<le> 32"
      "canonical_cidr v = cidr_text (mask_v4 bits a) bits"
  | (other) "\<forall>b. parse_addr v \<noteq> Some (V4 b)" "\<forall>b n. parse_prefix v \<noteq> Some (V4 b, n)" "canonical_cidr v = v"
proof (cases "\<exists>a. parse_addr v = Some (V4 a)")
  case True
  then obtain a where a: "parse_addr v = Some (V4 a)" by blast
  have "nat_text 32 = ''32''" by code_simp
  then show thesis using a by (intro addr[OF a]) (simp add: canonical_cidr_def cidr_text_def)
next
  case no: False
  show thesis
  proof (cases "\<exists>a bits. parse_prefix v = Some (V4 a, bits)")
    case True
    then obtain a bits where p: "parse_prefix v = Some (V4 a, bits)" by blast
    show thesis using no p parse_prefix_bits[OF p]
      by (intro net[of a bits]) (auto simp: canonical_cidr_def cidr_text_def split: option.splits addr.splits)
  next
    case False
    then show thesis using no
      by (intro other) (auto simp: canonical_cidr_def split: option.splits addr.splits)
  qed
qed

lemma canonical_fixed: "canonical_cidr (canonical_cidr v) = canonical_cidr v"
proof (cases v rule: canonical_cases)
  case (addr a)
  show ?thesis unfolding addr(2)
    by (cases "cidr_text a 32" rule: canonical_cases) (simp_all add: cidr_text_not_addr parse_cidr_text mask_v4_32)
next
  case (net a bits)
  show ?thesis unfolding net(4)
    using net(3) by (cases "cidr_text (mask_v4 bits a) bits" rule: canonical_cases)
      (auto simp: cidr_text_not_addr parse_cidr_text mask_v4_idem)
next
  case other
  then show ?thesis by simp
qed

lemma canonical_trimmed:
  assumes "v \<noteq> ''''" "trim_space v = v"
  shows "trim_space (canonical_cidr v) = canonical_cidr v \<and> canonical_cidr v \<noteq> ''''"
  by (cases v rule: canonical_cases) (simp_all add: cidr_text_trim assms)

definition canonical_form :: "string \<Rightarrow> bool" where
  "canonical_form c \<longleftrightarrow> c \<noteq> '''' \<and> trim_space c = c \<and> canonical_cidr c = c"

lemma canonical_loop_set:
  "set (canonical_loop vs acc) = set acc \<union> {canonical_cidr (trim_space v) | v. v \<in> set vs \<and> trim_space v \<noteq> ''''}"
  by (induction vs acc rule: canonical_loop.induct) (auto simp: Let_def)

lemma canonical_loop_distinct: "distinct acc \<Longrightarrow> distinct (canonical_loop vs acc)"
  by (induction vs acc rule: canonical_loop.induct) (auto simp: Let_def)

lemma canonical_loop_fixed:
  "list_all canonical_form vs \<Longrightarrow> distinct (acc @ vs) \<Longrightarrow> canonical_loop vs acc = acc @ vs"
  by (induction vs acc rule: canonical_loop.induct) (auto simp: Let_def canonical_form_def)

lemma canonical_loop_forms: "list_all canonical_form (canonical_cidrs vs)"
  by (auto simp: list_all_iff canonical_cidrs_def canonical_loop_set canonical_form_def canonical_fixed
      canonical_trimmed)

lemma case_some_ex: "(case m of None \<Rightarrow> False | Some p \<Rightarrow> Q p) \<longleftrightarrow> (\<exists>p. m = Some p \<and> Q p)"
  by (cases m) auto

lemma v4_addr_no_prefix:
  assumes "parse_addr v = Some (V4 x)"
  shows "parse_prefix v = None"
proof (cases "CHR ''/'' \<in> set v")
  case True
  then have "parse_v4 v = None" by (rule parse_v4_chars) (simp_all add: slash_not_digit)
  then show ?thesis using parse_addr_V4[OF assms] by simp
qed (simp add: parse_prefix_def split_slash_def)

lemma covers_canonical:
  "(\<exists>p. parse_prefix (canonical_cidr v) = Some p \<and> prefix_contains p a) \<longleftrightarrow> network_covers v a"
proof (cases v rule: canonical_cases)
  case (addr x)
  show ?thesis using addr v4_addr_no_prefix[OF addr(1)]
    by (cases a) (auto simp: network_covers_def parse_cidr_text in_prefix_32)
next
  case (net x bits)
  then show ?thesis
    by (cases a) (auto simp: network_covers_def parse_cidr_text in_prefix_mask)
next
  case other
  then show ?thesis by (auto simp: network_covers_def)
qed

text \<open>A network list that a project or a discovery request names is stored in canonical form:
  each entry once, and canonical already, so that a list read back and saved again does not change. The form
  keeps the meaning: an address is inside the stored list exactly if it is one of the addresses or lies
  in one of the prefixes that were given.\<close>

theorem canonical_cidrs_exact:
  "canonical_cidrs (canonical_cidrs vs) = canonical_cidrs vs \<and> distinct (canonical_cidrs vs)
   \<and> (address_allowed_by_cidrs host (canonical_cidrs vs)
        = (case parse_addr host of None \<Rightarrow> False | Some a \<Rightarrow> list_ex (\<lambda>v. network_covers (trim_space v) a) vs))"
proof (intro conjI)
  show d: "distinct (canonical_cidrs vs)" by (simp add: canonical_cidrs_def canonical_loop_distinct)
  show "canonical_cidrs (canonical_cidrs vs) = canonical_cidrs vs"
    using canonical_loop_fixed[OF canonical_loop_forms[of vs], of "[]"] d by (simp add: canonical_cidrs_def)
  have none: "\<not> network_covers '''' a" for a
    by (simp add: network_covers_def parse_addr_def parse_prefix_def split_slash_def)
  show "address_allowed_by_cidrs host (canonical_cidrs vs)
      = (case parse_addr host of None \<Rightarrow> False | Some a \<Rightarrow> list_ex (\<lambda>v. network_covers (trim_space v) a) vs)"
  proof (cases "parse_addr host")
    case (Some a)
    have "address_allowed_by_cidrs host (canonical_cidrs vs) \<longleftrightarrow>
        (\<exists>c\<in>set (canonical_cidrs vs). \<exists>p. parse_prefix c = Some p \<and> prefix_contains p a)"
      unfolding address_allowed_by_cidrs_def Some option.case list_ex_iff case_some_ex ..
    also have "\<dots> \<longleftrightarrow> (\<exists>v\<in>set vs. trim_space v \<noteq> '''' \<and> network_covers (trim_space v) a)"
      unfolding canonical_cidrs_def canonical_loop_set covers_canonical[symmetric] by auto
    finally show ?thesis using none by (simp add: Some list_ex_iff) metis
  qed (simp add: address_allowed_by_cidrs_def)
qed

lemma request_network_in_scope:
  assumes "validate_discovery_input networks ports allowed = []" "n \<in> set networks"
    "parse_prefix n = Some (V4 base, bits)" "in_prefix base bits x"
  shows "address_allowed_by_cidrs (v4_text x) allowed"
proof -
  have bad: "named b f = [] \<longleftrightarrow> \<not> b" for b f by (simp add: named_def)
  have "network_allowed allowed (V4 base, bits)"
    using assms by (auto simp: validate_discovery_input_def bad list_all_iff)
  then obtain v b parent where v: "v \<in> set allowed" "parse_prefix v = Some (b, parent)" "parent \<le> bits"
      "prefix_contains (b, parent) (V4 base)"
    by (auto simp: network_allowed_def list_ex_iff split: option.splits)
  then obtain c where c: "b = V4 c" "in_prefix c parent base" by (cases b) auto
  have "in_prefix c parent x"
  proof -
    have sub: "drop_bit (32 - parent) w = drop_bit (bits - parent) (drop_bit (32 - bits) w)" for w :: "32 word"
      using v(3) parse_prefix_bits[OF assms(3)] by (simp add: drop_bit_drop_bit)
    show ?thesis using assms(4) c(2) by (simp add: in_prefix_def sub)
  qed
  then show ?thesis
    using v(1,2) c(1) by (auto simp: address_allowed_by_cidrs_def parse_addr_v4_text list_ex_iff intro!: bexI[of _ v])
qed

text \<open>A discovery request that is accepted names IPv4 networks only, and every address of every
  network it names lies inside one of the project's own scan networks; the ports are between one and
  sixty-four, each a port number with a supported protocol and a name.\<close>

theorem discovery_request_in_scope:
  assumes "validate_discovery_input networks ports allowed = []" "n \<in> set networks"
    "parse_prefix n = Some (V4 base, bits)" "in_prefix base bits x"
  shows "address_allowed_by_cidrs (v4_text x) allowed \<and> ports \<noteq> [] \<and> length ports \<le> 64
    \<and> list_all (\<lambda>p. dp_name p \<noteq> '''' \<and> 1 \<le> dp_port p \<and> dp_port p \<le> 65535
         \<and> supported_discovery_protocol (dp_protocol p)) ports"
proof -
  have bad: "named b f = [] \<longleftrightarrow> \<not> b" for b f by (simp add: named_def)
  have blank0: "blank ''''" by (simp add: blank_def trim_space_def)
  have "list_all (\<lambda>p. dp_name p \<noteq> '''' \<and> 1 \<le> dp_port p \<and> dp_port p \<le> 65535
      \<and> supported_discovery_protocol (dp_protocol p)) ps"
    if "validate_port_list k seen ps = []" for k seen ps
    using that by (induction k seen ps rule: validate_port_list.induct) (auto simp: Let_def bad blank0)
  then show ?thesis using assms(1) request_network_in_scope[OF assms]
    by (auto simp: validate_discovery_input_def validate_discovery_ports_def bad)
qed

lemma demo_prefixes:
  "parse_prefix ''10.0.0.0/24'' = Some (V4 167772160, 24)" "parse_prefix ''10.0.0.4/30'' = Some (V4 167772164, 30)"
  by (simp_all add: parse_addr_def parse_v4_def parse_octets_def parse_octet_def is_digit_def less_eq_char_def
      text_value_def digit_of_def digits_value_def parse_prefix_def split_slash_def atoi_def parse_digits_def)

theorem discovery_request_in_scope_witness:
  "address_allowed_by_cidrs (v4_text 167772167) [''10.0.0.0/24'']
    \<and> [\<lparr>dp_port = 22, dp_protocol = ''ssh'', dp_name = ''SSH''\<rparr>] \<noteq> []
    \<and> length [\<lparr>dp_port = 22, dp_protocol = ''ssh'', dp_name = ''SSH''\<rparr>] \<le> 64
    \<and> list_all (\<lambda>p. dp_name p \<noteq> '''' \<and> 1 \<le> dp_port p \<and> dp_port p \<le> 65535
         \<and> supported_discovery_protocol (dp_protocol p)) [\<lparr>dp_port = 22, dp_protocol = ''ssh'', dp_name = ''SSH''\<rparr>]"
proof (rule discovery_request_in_scope[OF _ _ demo_prefixes(2)])
  show "validate_discovery_input [''10.0.0.4/30''] [\<lparr>dp_port = 22, dp_protocol = ''ssh'', dp_name = ''SSH''\<rparr>]
      [''10.0.0.0/24''] = []"
    by (simp add: validate_discovery_input_def demo_prefixes network_allowed_def in_prefix_def named_def blank_def
        validate_discovery_ports_def supported_discovery_protocol_def to_lower_def lower_char_def trim_space_def
        is_space_def less_eq_char_def)
qed (simp_all add: in_prefix_def)

section \<open>Generated credentials\<close>

definition symbol_of :: "8 word \<Rightarrow> char" where
  "symbol_of v = nps_alphabet ! (unat v mod 36)"

definition accepted_bytes :: "(nat \<Rightarrow> 8 word list res) \<Rightarrow> nat \<Rightarrow> 8 word list" where
  "accepted_bytes rand k = (case rand k of Inl e \<Rightarrow> [] | Inr b \<Rightarrow> filter (\<lambda>v. v < 252) b)"

lemma take_symbols_spec: "length r < n \<Longrightarrow>
   take_symbols n vs r = r @ take (n - length r) (map symbol_of (filter (\<lambda>v. v < 252) vs))"
proof (induction n vs r rule: take_symbols.induct)
  case (2 n v vs r)
  show ?case
  proof (cases "v < 252 \<and> Suc (length r) < n")
    case True
    then have "n - length r = Suc (n - Suc (length r))" by auto
    moreover have "\<not> 252 \<le> v" using True by (simp add: not_le)
    ultimately show ?thesis using 2 True by (simp add: symbol_of_def Let_def)
  next
    case False
    then show ?thesis using 2 by (cases "Suc (length r) = n") (auto simp: symbol_of_def not_le Let_def)
  qed
qed simp

declare nps_loop.simps [simp del]

lemma nps_loop_returns:
  assumes "length r \<le> n" "\<forall>i\<in>{k..<k + m}. \<exists>b. rand i = Inr b"
    "n \<le> length r + length (concat (map (accepted_bytes rand) [k..<k + m]))"
  shows "nps_loop rand n k r = Some (Inr (r @ take (n - length r)
     (map symbol_of (concat (map (accepted_bytes rand) [k..<k + m])))))"
  using assms
proof (induction m arbitrary: k r)
  case 0
  then show ?case by (subst nps_loop.simps) simp
next
  case (Suc m)
  show ?case
  proof (cases "length r < n")
    case False
    then show ?thesis using Suc.prems by (subst nps_loop.simps) simp
  next
    case True
    obtain b where b: "rand k = Inr b" using Suc.prems(2) by (auto dest: bspec[of _ _ k])
    let ?acc = "map symbol_of (filter (\<lambda>v. v < 252) b)" and ?rest = "map (accepted_bytes rand) [Suc k..<Suc k + m]"
    let ?r = "r @ take (n - length r) ?acc"
    have bytes: "map (accepted_bytes rand) [k..<k + Suc m] = filter (\<lambda>v. v < 252) b # ?rest"
      using b by (simp add: upt_conv_Cons accepted_bytes_def del: upt_Suc)
    have "nps_loop rand n k r = nps_loop rand n (Suc k) ?r"
      using True b by (subst nps_loop.simps) (simp add: take_symbols_spec)
    also have "\<dots> = Some (Inr (?r @ take (n - length ?r) (map symbol_of (concat ?rest))))"
      using Suc.prems True unfolding bytes by (intro Suc.IH) auto
    also have "\<dots> = Some (Inr (r @ take (n - length r) (?acc @ map symbol_of (concat ?rest))))"
      by (simp add: take_append min_def)
    finally show ?thesis unfolding bytes by simp
  qed
qed

lemma nps_alphabet_symbols: "distinct nps_alphabet" "length nps_alphabet = 36"
  by code_simp+

lemma symbol_evenly: "c \<in> set nps_alphabet \<Longrightarrow> card {v. v < 252 \<and> symbol_of v = c} = 7"
proof -
  assume "c \<in> set nps_alphabet"
  then obtain j where j: "j < 36" "c = nps_alphabet ! j" by (metis in_set_conv_nth nps_alphabet_symbols(2))
  have sym: "nps_alphabet ! (i mod 36) = c \<longleftrightarrow> i mod 36 = j" for i
    using j nps_alphabet_symbols by (simp add: nth_eq_iff_index_eq)
  let ?f = "\<lambda>q. of_nat (j + 36 * q) :: 8 word"
  have small: "q < 7 \<Longrightarrow> unat (?f q) = j + 36 * q" for q using j by (simp add: unat_of_nat del: of_nat_add)
  have "{v. v < 252 \<and> symbol_of v = c} = ?f ` {..<7}"
  proof (rule set_eqI)
    fix v :: "8 word"
    have "v \<in> ?f ` {..<7} \<longleftrightarrow> (\<exists>q<7. unat v = j + 36 * q)"
      unfolding image_iff word_unat_eq_iff using small by auto
    also have "\<dots> \<longleftrightarrow> unat v < 252 \<and> unat v mod 36 = j"
    proof
      assume "unat v < 252 \<and> unat v mod 36 = j"
      then show "\<exists>q<7. unat v = j + 36 * q" by (intro exI[of _ "unat v div 36"]) (auto intro: less_mult_imp_div_less)
    qed (use j in auto)
    finally show "v \<in> {v. v < 252 \<and> symbol_of v = c} \<longleftrightarrow> v \<in> ?f ` {..<7}"
      by (simp add: symbol_of_def sym word_less_nat_alt)
  qed
  moreover have "inj_on ?f {..<7}"
  proof (rule inj_onI)
    fix p q assume "p \<in> {..<7}" "q \<in> {..<7}" "?f p = ?f q"
    then have "unat (?f p) = unat (?f q)" "p < 7" "q < 7" by auto
    then show "p = q" by (simp only: small)
  qed
  ultimately show ?thesis by (simp add: card_image)
qed

text \<open>C39. Generating a node credential ends as soon as the random source has given enough bytes that are not
  rejected, however many buffers that takes: it then has exactly the asked length, its symbols are those bytes
  in order, and the rejection leaves no symbol favoured: each of the thirty-six comes from exactly seven
  of the accepted bytes.\<close>

theorem nps_secret_returns:
  assumes "\<forall>i<m. \<exists>b. rand i = Inr b" "n \<le> length (concat (map (accepted_bytes rand) [0..<m]))"
  shows "new_nps_compatible_secret rand n
       = Some (Inr (take n (map symbol_of (concat (map (accepted_bytes rand) [0..<m])))))
     \<and> length (take n (map symbol_of (concat (map (accepted_bytes rand) [0..<m])))) = n
     \<and> (\<forall>c. c \<in> set nps_alphabet \<longrightarrow> card {v. v < 252 \<and> symbol_of v = c} = 7)"
  using nps_loop_returns[of "''''" n 0 m rand] assms by (auto simp: new_nps_compatible_secret_def symbol_evenly)

theorem nps_secret_returns_witness:
  "new_nps_compatible_secret (\<lambda>k. if k = 0 then Inr [255, 252, 253, 254] else Inr [10, 251, 35, 7]) 2 = Some (Inr ''az'')
   \<and> length ''az'' = 2"
  using nps_secret_returns[of 2 "\<lambda>k. if k = 0 then Inr [255, 252, 253, 254] else Inr [10, 251, 35, 7]" 2]
  by (simp add: accepted_bytes_def symbol_of_def nps_alphabet_def upt_rec)

section \<open>Cells\<close>

lemma csv_cell_inert:
  "safe_csv_cell v \<noteq> [] \<Longrightarrow> hd (safe_csv_cell v) \<notin> {CHR 0x09, CHR 0x0D} \<and> (trim_left_space (safe_csv_cell v) = []
     \<or> hd (trim_left_space (safe_csv_cell v)) \<notin> set ''=+-@'')"
proof -
  have quote: "trim_left_space (CHR 0x27 # v) = CHR 0x27 # v"
    by (subst trim_left_space.simps) (simp add: wide_spaces_def has_prefix_def less_eq_char_def)
  assume "safe_csv_cell v \<noteq> []"
  then show ?thesis by (auto simp: safe_csv_cell_def Let_def quote)
qed

section \<open>What validation gives the store\<close>

text \<open>The keys of two endpoints agree only when protocol and port do.\<close>

lemma itoa_no_colon: "CHR '':'' \<notin> set (itoa i)"
  using nat_text_digits[of "nat i"] nat_text_digits[of "nat (- i)"]
  by (auto simp: itoa_def list_all_iff is_digit_def less_eq_char_def)

lemma itoa_inj: "itoa i = itoa j \<Longrightarrow> i = j"
proof -
  assume e: "itoa i = itoa j"
  have neg: "hd (itoa k) = CHR ''-'' \<longleftrightarrow> k < 0" for k
    using nat_text_ends[of "nat k"] by (auto simp: itoa_def is_digit_def less_eq_char_def)
  have "(i < 0) = (j < 0)" using neg[of i] neg[of j] e by simp
  then show ?thesis using e by (auto simp: itoa_def split: if_splits dest: nat_text_inj)
qed

lemma port_key_inj: "port_key p i = port_key q j \<longleftrightarrow> p = q \<and> i = j"
proof
  assume "port_key p i = port_key q j"
  then have r: "rev (itoa i) @ CHR '':'' # rev p = rev (itoa j) @ CHR '':'' # rev q"
    by (metis port_key_def append.assoc append_Cons append_Nil rev_append rev.simps(2) rev_is_Nil_conv)
  have front: "takeWhile (\<lambda>c. c \<noteq> CHR '':'') (rev (itoa k) @ CHR '':'' # s) = rev (itoa k)" for k s
    using itoa_no_colon[of k] by (simp add: takeWhile_tail takeWhile_append takeWhile_eq_all_conv)
  have "rev (itoa i) = rev (itoa j)" using front[of i "rev p"] front[of j "rev q"] r by simp
  then show "p = q \<and> i = j" using r by (auto dest: itoa_inj)
qed simp

definition endpoint_key :: "create_endpoint_input \<Rightarrow> string \<times> int" where
  "endpoint_key e = (ce_protocol e, ce_target_port e)"

lemma named_Nil [simp]: "named b f = [] \<longleftrightarrow> \<not> b"
  by (simp add: named_def)

definition endpoint_valid :: "create_endpoint_input \<Rightarrow> bool" where
  "endpoint_valid e \<longleftrightarrow> ce_protocol e \<in> set endpoint_protocols \<and> port_number (ce_target_port e)"

lemma faultless_valid: "endpoint_faults entry e = [] \<Longrightarrow> endpoint_valid e"
  by (simp add: endpoint_faults_def supported_endpoint_protocol_def endpoint_protocols_def endpoint_valid_def
      port_number_def)

abbreviation key_text :: "create_endpoint_input \<Rightarrow> string" where
  "key_text e \<equiv> port_key (ce_protocol e) (ce_target_port e)"

lemma valid_endpoints:
  "validate_endpoints n seen es = [] \<Longrightarrow>
     distinct (map key_text es) \<and> list_all endpoint_valid es \<and> (\<forall>e\<in>set es. key_text e \<notin> set seen)"
proof (induction n seen es rule: validate_endpoints.induct)
  case (2 n seen e es)
  have parts: "endpoint_faults (indexed ''endpoints'' n) e = []" "key_text e \<notin> set seen"
      "validate_endpoints (Suc n) (key_text e # seen) es = []"
    using 2(2) by (simp_all add: Let_def)
  then show ?case using 2(1)[OF refl parts(3)] faultless_valid[OF parts(1)] by auto
qed simp

lemma distinct_keys: "distinct (map key_text es) \<Longrightarrow> distinct (map endpoint_key es)"
  by (induction es) (auto simp: endpoint_key_def port_key_inj image_iff)

definition endpoint_row_at :: "(nat \<Rightarrow> string) \<Rightarrow> string \<Rightarrow> instant \<Rightarrow> nat \<times> create_endpoint_input \<Rightarrow> endpoint_row" where
  "endpoint_row_at ids did now = (\<lambda>(n, i). new_endpoint_row (if ce_id i = '''' then ids n else ce_id i) did now i)"

lemma each_insert_endpoint_holds:
  "holds (endpoints_rules db (t_endpoints db @ map (endpoint_row_at ids did now) xs)) \<Longrightarrow>
   each (insert_endpoint ids did now) xs db
     = Inr (db\<lparr>t_endpoints := t_endpoints db @ map (endpoint_row_at ids did now) xs\<rparr>)"
proof (induction xs arbitrary: db)
  case (Cons x xs)
  let ?db = "db\<lparr>t_endpoints := t_endpoints db @ [endpoint_row_at ids did now x]\<rparr>"
  have "holds (endpoints_rules db (t_endpoints db @ [endpoint_row_at ids did now x]))"
    using Cons.prems by (auto simp: endpoints_rules_def refs_in_def)
  then have one: "insert_endpoint ids did now x db = Inr ?db"
    by (cases x) (simp add: insert_endpoint_def put_endpoints_def endpoint_row_at_def checked_holds)
  have "holds (endpoints_rules ?db (t_endpoints ?db @ map (endpoint_row_at ids did now) xs))"
    using Cons.prems by (simp add: endpoints_rules_def)
  from Cons.IH[OF this] show ?case by (simp add: one)
qed simp

lemma endpoint_row_valid:
  assumes "endpoint_valid i" "ce_ssh_auth_method i \<in> {'''', ''password'', ''key''}"
  shows "endpoint_check (new_endpoint_row eid did now i)"
  using assms by (simp add: endpoint_check_def new_endpoint_row_def endpoint_valid_def endpoint_access_type_def)

definition fresh_in :: "('r \<Rightarrow> 'k) \<Rightarrow> 'r list \<Rightarrow> 'k \<Rightarrow> bool" where
  "fresh_in g t k \<longleftrightarrow> k \<notin> g ` set t"

lemma new_endpoints_hold:
  assumes "db_ok db" "fresh_in d_id (t_devices db) did"
    "list_all endpoint_valid es" "distinct (map endpoint_key es)"
    "list_all (\<lambda>i. ce_ssh_auth_method i \<in> {'''', ''password'', ''key''}) es"
    "distinct (map e_id (map (endpoint_row_at ids did now) (enumerate 0 es)))"
    "list_all (fresh_in e_id (t_endpoints db)) (map e_id (map (endpoint_row_at ids did now) (enumerate 0 es)))"
    "t_devices db1 = t_devices db @ [d]" "d_id d = did" "t_endpoints db1 = t_endpoints db"
  shows "holds (endpoints_rules db1 (t_endpoints db1 @ map (endpoint_row_at ids did now) (enumerate 0 es)))"
proof -
  let ?new = "map (endpoint_row_at ids did now) (enumerate 0 es)"
  have old: "holds (endpoints_rules db (t_endpoints db))" using assms(1) by (simp add: db_ok_def)
  have in_new: "\<exists>i\<in>set es. \<exists>eid. r = new_endpoint_row eid did now i" if "r \<in> set ?new" for r
    using that by (auto simp: endpoint_row_at_def in_set_enumerate_eq intro!: nth_mem)
  have check: "list_all endpoint_check ?new"
    using in_new assms(3,5) by (fastforce simp: list_all_iff intro!: endpoint_row_valid)
  have keys: "map (\<lambda>r. (e_device_id r, e_protocol r, e_target_port r)) ?new = map (\<lambda>i. (did, endpoint_key i)) es"
    by (rule nth_equalityI) (simp_all add: endpoint_row_at_def new_endpoint_row_def endpoint_key_def nth_enumerate_eq)
  have "map (\<lambda>i. (did, endpoint_key i)) es = map (Pair did) (map endpoint_key es)" by simp
  then have dk: "distinct (map (\<lambda>r. (e_device_id r, e_protocol r, e_target_port r)) ?new)"
    unfolding keys using assms(4) by (simp add: distinct_map inj_on_def)
  have dev_new: "e_device_id r = did" if "r \<in> set ?new" for r
    using in_new[OF that] by (auto simp: new_endpoint_row_def)
  have dev_old: "e_device_id r \<noteq> did" if "r \<in> set (t_endpoints db)" for r
    using old that assms(2) by (auto simp: endpoints_rules_def refs_in_def fresh_in_def)
  have old_rules: "list_all endpoint_check (t_endpoints db)" "distinct (map e_id (t_endpoints db))"
      "distinct (map (\<lambda>r. (e_device_id r, e_protocol r, e_target_port r)) (t_endpoints db))"
      "\<forall>r\<in>set (t_endpoints db). e_device_id r \<in> d_id ` set (t_devices db)"
    using old by (auto simp: endpoints_rules_def refs_in_def)
  have ids_apart: "e_id ` set (t_endpoints db) \<inter> e_id ` set ?new = {}"
    using assms(7) unfolding list_all_iff fresh_in_def set_map by blast
  have keys_apart: "(\<lambda>r. (e_device_id r, e_protocol r, e_target_port r)) ` set (t_endpoints db)
      \<inter> (\<lambda>r. (e_device_id r, e_protocol r, e_target_port r)) ` set ?new = {}"
  proof -
    have "False" if "(e_device_id r, e_protocol r, e_target_port r) = (e_device_id s, e_protocol s, e_target_port s)"
        "r \<in> set (t_endpoints db)" "s \<in> set ?new" for r s
      using that dev_old[OF that(2)] dev_new[OF that(3)] by simp
    then show ?thesis by blast
  qed
  have refs: "refs_in e_device_id (t_endpoints db @ ?new) d_id (t_devices db1)"
    using old_rules(4) dev_new by (auto simp: refs_in_def assms(8,9))
  have "distinct (map e_id (t_endpoints db @ ?new))"
    using old_rules(2) assms(6) ids_apart by (simp only: map_append distinct_append set_map simp_thms)
  moreover have "distinct (map (\<lambda>r. (e_device_id r, e_protocol r, e_target_port r)) (t_endpoints db @ ?new))"
    using old_rules(3) dk keys_apart by (simp only: map_append distinct_append set_map simp_thms)
  ultimately show ?thesis
    unfolding endpoints_rules_def assms(10) holds_simps list_all_append using refs old_rules(1) check by (simp only: simp_thms holds_simps)
qed

text \<open>C25. A device that passes validation is accepted by the database: with the login methods the handler
  prepares, a project that exists, an address not yet registered in it and fresh identifiers, no CHECK, key or
  reference rule of the schema can refuse it, however many endpoints it has. The device and one row per endpoint,
  in the order given, are what the transaction adds.\<close>

theorem validated_device_accepted:
  assumes "validate_device input = []"
    "list_all (\<lambda>i. ce_ssh_auth_method i \<in> {'''', ''password'', ''key''}) (cd_endpoints input)"
    "db_ok db" "k \<in> p_id ` set (t_projects db)"
    "fresh_in (\<lambda>d. (d_project_id d, d_host d)) (t_devices db) (k, cd_host input)"
    "fresh_in d_id (t_devices db) did" "fresh_in al_id (t_audit_logs db) aid"
    "distinct (map e_id (map (endpoint_row_at ids did now) (enumerate 0 (cd_endpoints input))))"
    "list_all (fresh_in e_id (t_endpoints db)) (map e_id (map (endpoint_row_at ids did now) (enumerate 0 (cd_endpoints input))))"
  shows "\<exists>db' dev. create_device did aid ids now k input audit db = (db', Inr dev)
    \<and> t_devices db' = t_devices db @ [new_device_row did k now input]
    \<and> t_endpoints db' = t_endpoints db @ map (endpoint_row_at ids did now) (enumerate 0 (cd_endpoints input))"
proof -
  let ?d = "new_device_row did k now input"
  let ?es = "cd_endpoints input"
  define db1 where "db1 = db\<lparr>t_devices := t_devices db @ [?d]\<rparr>"
  define db2 where "db2 = db1\<lparr>t_endpoints := t_endpoints db1 @ map (endpoint_row_at ids did now) (enumerate 0 ?es)\<rparr>"
  note v = valid_endpoints[of 0 "[]" ?es]
  have es: "list_all endpoint_valid ?es" "distinct (map endpoint_key ?es)" "cd_source input \<in> {''manual'', ''discovery'', ''import''}"
    using assms(1) v by (auto simp: validate_device_def distinct_keys)
  have "holds (devices_rules db (t_devices db @ [?d]))"
    using assms(3-6) es(3)
    by (auto simp: db_ok_def devices_rules_def refs_in_def fresh_in_def device_check_def new_device_row_def image_iff)
  then have 1: "put_devices (t_devices db @ [?d]) db = Inr db1"
    by (simp add: put_devices_def checked_holds db1_def)
  have "holds (endpoints_rules db1 (t_endpoints db1 @ map (endpoint_row_at ids did now) (enumerate 0 ?es)))"
    by (rule new_endpoints_hold[OF assms(3,6) es(1,2) assms(2,8,9), of _ ?d]) (simp_all add: db1_def new_device_row_def)
  from each_insert_endpoint_holds[OF this] have 2: "each (insert_endpoint ids did now) (enumerate 0 ?es) db1 = Inr db2"
    by (simp add: db2_def)
  obtain db3 where 3: "insert_audit aid (audit\<lparr>ai_resource_id := did\<rparr>) now db2 = Inr db3"
      "t_devices db3 = t_devices db2" "t_endpoints db3 = t_endpoints db2"
  proof -
    have "holds (audit_logs_rules db2 (t_audit_logs db2 @ [r]))" if "al_id r = aid" for r
      using assms(3,7) that by (auto simp: db_ok_def audit_logs_rules_def fresh_in_def db1_def db2_def image_iff)
    then show thesis using that
      by (simp add: insert_audit_def put_audit_logs_def checked_holds)
  qed
  show ?thesis
    by (simp add: create_device_def insert_device_tx_def 1 2 3) (simp add: db1_def db2_def)
qed

definition demo_new_device :: create_device_input where
  "demo_new_device = \<lparr>cd_host = ''10.0.0.9'', cd_name = ''cam'', cd_device_type = ''camera'', cd_vendor = '''',
     cd_source = ''manual'', cd_endpoints = [demo_endpoint_input '''' ''http'' 80, demo_endpoint_input '''' ''rtsp'' 554]\<rparr>"

lemma demo_new_device_valid: "validate_device demo_new_device = []"
  by (simp add: validate_device_def demo_new_device_def demo_endpoint_input_def endpoint_faults_def blank_def trim_space_def
      is_space_def parse_addr_def parse_v4_def parse_octets_def parse_octet_def is_digit_def less_eq_char_def
      text_value_def digit_of_def supported_endpoint_protocol_def port_key_inj Let_def)

theorem validated_device_accepted_witness:
  "\<exists>db' dev. create_device ''d9'' ''x'' (\<lambda>n. ''e'' @ nat_text (n + 8)) 5 ''p1'' demo_new_device demo_audit demo_db = (db', Inr dev)
    \<and> t_devices db' = t_devices demo_db @ [new_device_row ''d9'' ''p1'' 5 demo_new_device]
    \<and> t_endpoints db' = t_endpoints demo_db
        @ map (endpoint_row_at (\<lambda>n. ''e'' @ nat_text (n + 8)) ''d9'' 5) (enumerate 0 (cd_endpoints demo_new_device))"
proof (rule validated_device_accepted[OF demo_new_device_valid])
  show "db_ok demo_db" using demo_inv by (simp add: store_inv_def)
qed (code_simp)+

end
