(* ===== verification/ApiForwards.thy ===== *)
theory ApiForwards
  imports ApiAccess ApiValidate Lifecycle
begin

text \<open>
  The handlers of port forwards of \<open>api/api.go\<close>, and \<open>closeResourceSessions\<close>, which ends everything that
  goes through a device or a project before it is changed or deleted.

  \<open>node_port\<close> is the interface \<open>nodeControl\<close>, over the state \<open>'w\<close> of what it reaches; \<open>adapter_port\<close> is
  its implementation in \<open>nodeadapter\<close>, and \<open>None\<close> stands for a server without an adapter. The identifiers
  and clock readings of a handler are drawn by the name of the step that needs them.
\<close>

section \<open>The node interface\<close>

record 'w node_port =
  np_health :: "db \<Rightarrow> string \<Rightarrow> 'w \<Rightarrow> ('w \<times> db) \<times> bool"
  np_clients :: "db \<Rightarrow> string \<Rightarrow> 'w \<Rightarrow> 'w \<times> node_client list res"
  np_credentials :: "db \<Rightarrow> string \<Rightarrow> int \<Rightarrow> 'w \<Rightarrow> 'w \<times> client_credentials res"
  np_tunnels :: "db \<Rightarrow> string \<Rightarrow> 'w \<Rightarrow> 'w \<times> managed_tunnel list res"
  np_tunnel_status :: "db \<Rightarrow> string \<Rightarrow> int \<Rightarrow> 'w \<Rightarrow> 'w \<times> managed_tunnel res"
  np_set_tunnel :: "db \<Rightarrow> string \<Rightarrow> int \<Rightarrow> bool \<Rightarrow> 'w \<Rightarrow> 'w \<times> unit res"
  np_create_forward :: "db \<Rightarrow> string \<Rightarrow> int \<Rightarrow> int \<Rightarrow> string \<Rightarrow> string \<Rightarrow> 'w \<Rightarrow> 'w \<times> node_forward res"
  np_set_forward :: "db \<Rightarrow> string \<Rightarrow> int \<Rightarrow> bool \<Rightarrow> 'w \<Rightarrow> 'w \<times> unit res"
  np_delete_forward :: "db \<Rightarrow> string \<Rightarrow> int \<Rightarrow> 'w \<Rightarrow> 'w \<times> unit res"
  np_create_client :: "db \<Rightarrow> string \<Rightarrow> string \<Rightarrow> string \<Rightarrow> string \<Rightarrow> string \<Rightarrow> 'w \<Rightarrow> 'w \<times> node_client res"
  np_delete_client :: "db \<Rightarrow> string \<Rightarrow> int \<Rightarrow> 'w \<Rightarrow> 'w \<times> unit res"

definition adapter_port :: "'w node_env \<Rightarrow> nat \<Rightarrow> 'w node_port" where
  "adapter_port env polls = \<lparr>np_health = (\<lambda>db nid w. health env nid w db), np_clients = list_clients env,
     np_credentials = client_credentials_of env, np_tunnels = list_managed_tunnels env,
     np_tunnel_status = managed_tunnel_status env, np_set_tunnel = set_managed_tunnel env polls,
     np_create_forward = create_port_forward env polls, np_set_forward = set_port_forward env polls,
     np_delete_forward = node_delete_port_forward env, np_create_client = create_client env,
     np_delete_client = delete_client env\<rparr>"

record drawn =
  dw_id :: "string \<Rightarrow> string"
  dw_at :: "string \<Rightarrow> instant"

type_synonym 'a answer = "refusal + 'a"

definition wildcard :: "call \<Rightarrow> string \<Rightarrow> string" where
  "wildcard c name = path_value (cl_request c) name"

section \<open>The handlers of forwards\<close>

record forward_request =
  fr_endpoint_id :: string
  fr_server_port :: int
  fr_expires_at :: "instant option"

definition list_forwards_handler :: "call \<Rightarrow> db \<Rightarrow> port_forward list" where
  "list_forwards_handler c db = list_port_forwards (wildcard c ''projectID'') db"

definition forward_faults :: "instant \<Rightarrow> forward_request \<Rightarrow> string list" where
  "forward_faults now i = named (blank (fr_endpoint_id i)) ''endpointId''
     @ named (fr_server_port i < 0 \<or> fr_server_port i > 65535) ''serverPort''
     @ named (case fr_expires_at i of None \<Rightarrow> False | Some t \<Rightarrow> \<not> now < t) ''expiresAt''"

definition give_back :: "drawn \<Rightarrow> call \<Rightarrow> string \<Rightarrow> port_forward \<Rightarrow> db \<Rightarrow> db" where
  "give_back d c action f db = fst (delete_port_forward (dw_id d ''give back'') (dw_at d ''give back'') (fwd_id f)
     (audit_from_request c action ''port_forward'') db)"

definition provision :: "'w node_port \<Rightarrow> drawn \<Rightarrow> call \<Rightarrow> port_forward \<Rightarrow> 'w \<times> db \<Rightarrow> ('w \<times> db) \<times> port_forward answer" where
  "provision np d c f = (\<lambda>(w, db).
     case np_create_forward np db (fwd_node_id f) (fwd_client_id f) (fwd_server_port f) (fwd_target f) (fwd_endpoint_name f) w of
       (w, Inl e) \<Rightarrow> ((w, give_back d c ''port_forward.provision_failed'' f db), Inl (502, ''node_port_forward_failed''))
     | (w, Inr t) \<Rightarrow> (case activate_port_forward (dw_at d ''activate'') (fwd_id f) ''portForward'' (nf_id t) db of
         (db, Inl e) \<Rightarrow> ((fst (np_delete_forward np db (fwd_node_id f) (nf_id t) w),
             give_back d c ''port_forward.rollback'' f db), Inl (500, ''port_forward_commit_failed''))
       | (db, Inr _) \<Rightarrow> ((w, db), Inr (f\<lparr>fwd_node_task_id := Some (nf_id t), fwd_node_task_type := ''portForward'',
             fwd_status := ''running''\<rparr>))))"

definition create_forward_handler ::
  "'w node_port option \<Rightarrow> drawn \<Rightarrow> call \<Rightarrow> forward_request option \<Rightarrow> 'w \<times> db \<Rightarrow> ('w \<times> db) \<times> port_forward answer" where
  "create_forward_handler nodes d c body = (\<lambda>(w, db).
     case nodes of None \<Rightarrow> ((w, db), Inl (503, ''node_adapter_unavailable''))
     | Some np \<Rightarrow> (case body of None \<Rightarrow> ((w, db), Inl (400, ''invalid_json''))
     | Some input \<Rightarrow> if forward_faults (dw_at d ''check'') input \<noteq> [] then ((w, db), Inl (422, ''validation_failed''))
         else case reserve_port_forward (dw_id d ''forward'') (dw_id d ''reserve'') (dw_at d ''reserve'')
             \<lparr>rf_project_id = wildcard c ''projectID'', rf_endpoint_id = fr_endpoint_id input,
               rf_server_port = fr_server_port input, rf_expires_at = fr_expires_at input\<rparr>
             (audit_from_request c ''port_forward.reserve'' ''port_forward'') db of
           (db, Inl e) \<Rightarrow> ((w, db), Inl (if e = ErrNotFound then (404, ''endpoint_not_found'') else (409, ''port_reservation_failed'')))
         | (db, Inr f) \<Rightarrow> provision np d c f (w, db)))"

text \<open>A forward without a task of this type cannot be started or stopped; it reads as not found.\<close>

definition set_forward_handler ::
  "'w node_port option \<Rightarrow> drawn \<Rightarrow> call \<Rightarrow> 'w \<times> db \<Rightarrow> ('w \<times> db) \<times> (string \<times> string) answer" where
  "set_forward_handler nodes d c = (\<lambda>(w, db). let action = wildcard c ''action'' in
     case nodes of None \<Rightarrow> ((w, db), Inl (503, ''node_adapter_unavailable''))
     | Some np \<Rightarrow> if action \<noteq> ''start'' \<and> action \<noteq> ''stop'' then ((w, db), Inl (404, ''not_found''))
       else case port_forward_by_id (wildcard c ''forwardID'') db of
         Inl e \<Rightarrow> ((w, db), Inl (404, ''port_forward_not_found''))
       | Inr f \<Rightarrow> (case fwd_node_task_id f of None \<Rightarrow> ((w, db), Inl (404, ''port_forward_not_found''))
         | Some t \<Rightarrow> if fwd_node_task_type f \<noteq> ''portForward'' then ((w, db), Inl (404, ''port_forward_not_found''))
           else case np_set_forward np db (fwd_node_id f) t (action = ''start'') w of
             (w, Inl e) \<Rightarrow> ((w, db), Inl (502, ''node_port_forward_failed''))
           | (w, Inr _) \<Rightarrow> let status = (if action = ''start'' then ''running'' else ''stopped'') in
               (case set_port_forward_status (dw_id d ''set'') (dw_at d ''set'') (fwd_id f) status
                   (audit_from_request c (''port_forward.'' @ action) ''port_forward'') db of
                 (db, Inl e) \<Rightarrow> ((w, db), Inl (500, ''database_error''))
               | (db, Inr _) \<Rightarrow> ((w, db), Inr (fwd_id f, status)))))"

definition delete_forward_row :: "drawn \<Rightarrow> call \<Rightarrow> string \<Rightarrow> port_forward \<Rightarrow> 'w \<times> db \<Rightarrow> ('w \<times> db) \<times> unit answer" where
  "delete_forward_row d c step f = (\<lambda>(w, db). case delete_port_forward (dw_id d step) (dw_at d step) (fwd_id f)
       (audit_from_request c ''port_forward.delete'' ''port_forward'') db of
     (db, Inl e) \<Rightarrow> ((w, db), Inl (500, ''database_error'')) | (db, Inr _) \<Rightarrow> ((w, db), Inr ()))"

definition delete_forward_handler :: "'w node_port option \<Rightarrow> drawn \<Rightarrow> call \<Rightarrow> 'w \<times> db \<Rightarrow> ('w \<times> db) \<times> unit answer" where
  "delete_forward_handler nodes d c = (\<lambda>(w, db).
     case nodes of None \<Rightarrow> ((w, db), Inl (503, ''node_adapter_unavailable''))
     | Some np \<Rightarrow> (case port_forward_by_id (wildcard c ''forwardID'') db of
         Inl e \<Rightarrow> ((w, db), Inl (if e = ErrNotFound then (404, ''port_forward_not_found'') else (500, ''database_error'')))
       | Inr f \<Rightarrow> (case fwd_node_task_id f of None \<Rightarrow> delete_forward_row d c ''delete'' f (w, db)
         | Some t \<Rightarrow> if fwd_node_task_type f \<noteq> ''portForward'' then ((w, db), Inl (409, ''invalid_task_reference''))
           else case np_delete_forward np db (fwd_node_id f) t w of
             (w, Inl e) \<Rightarrow> ((w, db), Inl (502, ''node_port_forward_failed''))
           | (w, Inr _) \<Rightarrow> delete_forward_row d c ''delete'' f (w, db))))"

section \<open>Closing what goes through a resource\<close>

definition remove_resource_forward ::
  "'w node_port option \<Rightarrow> drawn \<Rightarrow> call \<Rightarrow> port_forward \<Rightarrow> 'w \<times> db \<Rightarrow> ('w \<times> db) \<times> unit answer" where
  "remove_resource_forward nodes d c f = (\<lambda>(w, db). case fwd_node_task_id f of
       None \<Rightarrow> delete_forward_row d c (fwd_id f) f (w, db)
     | Some t \<Rightarrow> (case nodes of None \<Rightarrow> ((w, db), Inl (409, ''invalid_task_reference''))
       | Some np \<Rightarrow> if fwd_node_task_type f \<noteq> ''portForward'' then ((w, db), Inl (409, ''invalid_task_reference''))
         else case np_delete_forward np db (fwd_node_id f) t w of
           (w, Inl e) \<Rightarrow> ((w, db), Inl (502, ''node_port_forward_failed''))
         | (w, Inr _) \<Rightarrow> delete_forward_row d c (fwd_id f) f (w, db)))"

fun close_forwards ::
  "'w node_port option \<Rightarrow> drawn \<Rightarrow> call \<Rightarrow> string \<Rightarrow> port_forward list \<Rightarrow> 'w \<times> db \<Rightarrow> ('w \<times> db) \<times> unit answer" where
  "close_forwards nodes d c did [] s = (s, Inr ())"
| "close_forwards nodes d c did (f # fs) s = (case endpoint_route_of (fwd_endpoint_id f) (snd s) of
     Inl e \<Rightarrow> (s, Inl (500, ''database_error''))
   | Inr route \<Rightarrow> if did = '''' \<or> rt_device_id route = did
       then (case remove_resource_forward nodes d c f s of
           (s, Inl e) \<Rightarrow> (s, Inl e) | (s, Inr _) \<Rightarrow> close_forwards nodes d c did fs s)
       else close_forwards nodes d c did fs s)"

fun audit_revoked :: "drawn \<Rightarrow> call \<Rightarrow> string list \<Rightarrow> db \<Rightarrow> db \<times> unit answer" where
  "audit_revoked d c [] db = (db, Inr ())"
| "audit_revoked d c (sid # sids) db = (case append_audit (dw_id d (''audit '' @ sid)) (dw_at d (''audit '' @ sid))
       ((audit_from_request c ''access_session.revoke'' ''access_session'')\<lparr>ai_resource_id := sid\<rparr>) db of
     (db, Inl e) \<Rightarrow> (db, Inl (500, ''audit_failed'')) | (db, Inr _) \<Rightarrow> audit_revoked d c sids db)"

text \<open>Both gateways revoke every session; the readings of the clock are those of their registries.\<close>

definition revoke_web_all :: "drawn \<Rightarrow> string list \<Rightarrow> web_registry \<Rightarrow> web_registry" where
  "revoke_web_all d = fold (\<lambda>sid g. fst (web_revoke (dw_at d ''prune'') (dw_at d ''closed'') sid g))"

fun revoke_ssh_all :: "drawn \<Rightarrow> string list \<Rightarrow> ssh_registry \<Rightarrow> ssh_registry \<times> cancel_func list" where
  "revoke_ssh_all d [] g = (g, [])"
| "revoke_ssh_all d (sid # sids) g = (case ssh_revoke (dw_at d ''prune'') (dw_at d ''closed'') sid g of
     (g, cs, _) \<Rightarrow> case revoke_ssh_all d sids g of (g, more_cs) \<Rightarrow> (g, cs @ more_cs))"

definition close_resource_sessions ::
  "'w node_port option \<Rightarrow> drawn \<Rightarrow> call \<Rightarrow> string \<Rightarrow> string \<Rightarrow> 'w \<times> panel \<Rightarrow> ('w \<times> panel) \<times> cancel_func list answer" where
  "close_resource_sessions nodes d c pid did = (\<lambda>(w, pn).
     case close_forwards nodes d c did (list_port_forwards pid (pn_db pn)) (w, pn_db pn) of
       ((w, db), Inl e) \<Rightarrow> ((w, pn\<lparr>pn_db := db\<rparr>), Inl e)
     | ((w, db), Inr _) \<Rightarrow> (case revoke_resource_sessions (dw_at d ''revoke'') pid did db of (db, sids) \<Rightarrow>
         case revoke_ssh_all d sids (pn_ssh pn) of (ssh, cancelled) \<Rightarrow>
         case audit_revoked d c sids db of (db, r) \<Rightarrow>
           ((w, \<lparr>pn_db = db, pn_web = revoke_web_all d sids (pn_web pn), pn_ssh = ssh\<rparr>),
            case r of Inl e \<Rightarrow> Inl e | Inr _ \<Rightarrow> Inr cancelled)))"

section \<open>What a removal keeps\<close>

text \<open>Forward rows only go, and nothing that the joins, the sessions or the projects read changes.\<close>

definition pruned_forwards :: "db \<Rightarrow> db \<Rightarrow> bool" where
  "pruned_forwards db db' \<longleftrightarrow> set (t_forwards db') \<subseteq> set (t_forwards db) \<and> t_endpoints db' = t_endpoints db
     \<and> t_devices db' = t_devices db \<and> t_projects db' = t_projects db \<and> t_access_sessions db' = t_access_sessions db"

lemma pruned_refl [simp]: "pruned_forwards db db"
  by (simp add: pruned_forwards_def)

lemma pruned_trans: "pruned_forwards a b \<Longrightarrow> pruned_forwards b c \<Longrightarrow> pruned_forwards a c"
  by (auto simp: pruned_forwards_def)

lemma pruned_swept: "pruned_forwards db db' \<Longrightarrow> swept db db'"
  by (auto simp: pruned_forwards_def swept_def intro: same_forward_refl)

lemma pruned_route: "pruned_forwards db db' \<Longrightarrow> endpoint_route_of e db' = endpoint_route_of e db"
  by (simp add: endpoint_route_of_def swept_join[OF pruned_swept])

lemma delete_port_forward_cases:
  assumes "delete_port_forward aid now fid audit db = (db', r)"
  obtains (kept) e where "r = Inl e" "db' = db"
  | (gone) a where "r = Inr ()" "db' = db\<lparr>t_forwards := del_where (\<lambda>f. pf_id f = fid) (t_forwards db),
      t_audit_logs := t_audit_logs db @ [a]\<rparr>"
proof -
  have "(\<exists>e. r = Inl e \<and> db' = db) \<or> (\<exists>a. r = Inr () \<and> db' = db\<lparr>t_forwards := del_where (\<lambda>f. pf_id f = fid) (t_forwards db),
      t_audit_logs := t_audit_logs db @ [a]\<rparr>)"
    using assms unfolding delete_port_forward_def
    by (cases r) (auto simp: run_tx_Inl_iff run_tx_Inr_iff attempt_Inr_iff delete_forwards_def dest!: insert_audit_Inr)
  then show thesis using kept gone by blast
qed

lemma delete_port_forward_pruned:
  assumes "delete_port_forward aid now fid audit db = (db', r)"
  shows "pruned_forwards db db'" and "r = Inr () \<Longrightarrow> fid \<notin> pf_id ` set (t_forwards db')"
    and "f \<in> set (t_forwards db) \<Longrightarrow> pf_id f \<noteq> fid \<Longrightarrow> f \<in> set (t_forwards db')"
  by (rule delete_port_forward_cases[OF assms]; auto simp: pruned_forwards_def)+

lemma delete_port_forward_tracked:
  assumes "delete_port_forward aid now (fwd_id v) audit db = (db', r)"
    and "distinct (map pf_id (t_forwards db0))" "swept db0 db" "v \<in> set (joined db0)"
    and "(n, t) \<in> tracked db" "fwd_node_task_id v = Some t \<longrightarrow> n \<noteq> fwd_node_id v"
  shows "(n, t) \<in> tracked db'"
proof -
  note del = delete_port_forward_pruned[OF assms(1)]
  obtain f e d p where f: "f \<in> set (t_forwards db)" "endpoint_join (pf_endpoint_id f) db = Some (e, d, p)"
      "p_node_id p = n" "pf_node_task_id f = Some t" using assms(5) unfolding tracked_iff by blast
  have "pf_id f \<noteq> fwd_id v" using listed_row[OF assms(2,3,4) f(1)] f(2-4) assms(6) by fastforce
  from del(3)[OF f(1) this] show ?thesis
    using f unfolding tracked_iff swept_join[OF pruned_swept[OF del(1)]] by blast
qed

lemma delete_forward_row_result:
  assumes "delete_forward_row d c step f (w, db) = ((w', db'), r)"
  obtains r0 where "w' = w" "delete_port_forward (dw_id d step) (dw_at d step) (fwd_id f)
      (audit_from_request c ''port_forward.delete'' ''port_forward'') db = (db', r0)" "r = Inr () \<longleftrightarrow> r0 = Inr ()"
  using assms by (auto simp: delete_forward_row_def split: prod.splits sum.splits)

text \<open>What a node is relied on for when it creates a task: what it reports as started is the one task that was added.\<close>

definition starts_what_it_names ::
  "(db \<Rightarrow> string \<Rightarrow> int \<Rightarrow> int \<Rightarrow> string \<Rightarrow> string \<Rightarrow> 'w \<Rightarrow> 'w \<times> node_forward res) \<Rightarrow> ('w \<Rightarrow> (string \<times> int) set) \<Rightarrow> bool" where
  "starts_what_it_names create tasks \<longleftrightarrow> (\<forall>db n c p t x w w' r. create db n c p t x w = (w', r) \<longrightarrow>
     (case r of Inl e \<Rightarrow> True | Inr f \<Rightarrow> 1 \<le> nf_id f \<and> tasks w' = insert (n, nf_id f) (tasks w)))"

definition nodes_delete :: "'w node_port option \<Rightarrow> ('w \<Rightarrow> (string \<times> int) set) \<Rightarrow> bool" where
  "nodes_delete nodes tasks \<longleftrightarrow> (\<forall>np. nodes = Some np \<longrightarrow> deletes_reliably (np_delete_forward np) tasks)"

lemma remove_tracked:
  assumes "nodes_delete nodes tasks" "distinct (map pf_id (t_forwards db0))" "swept db0 db" "v \<in> set (joined db0)"
    and "tasks w \<subseteq> tracked db" "remove_resource_forward nodes d c v (w, db) = ((w', db'), r)"
  shows "tasks w' \<subseteq> tracked db'"
proof -
  have row: "tasks w2 \<subseteq> tracked db2"
    if "delete_forward_row d c (fwd_id v) v (w1, db) = ((w2, db2), r)" "tasks w1 \<subseteq> tasks w"
      "\<And>t. fwd_node_task_id v = Some t \<Longrightarrow> (fwd_node_id v, t) \<notin> tasks w1" for w1 w2 db2
  proof (rule delete_forward_row_result[OF that(1)])
    fix r0 assume del: "w2 = w1" "delete_port_forward (dw_id d (fwd_id v)) (dw_at d (fwd_id v)) (fwd_id v)
      (audit_from_request c ''port_forward.delete'' ''port_forward'') db = (db2, r0)"
    show ?thesis
    proof
      fix x assume x: "x \<in> tasks w2"
      obtain n t where nt: "x = (n, t)" by (cases x)
      have "(n, t) \<in> tracked db" "fwd_node_task_id v = Some t \<longrightarrow> n \<noteq> fwd_node_id v"
        using x del(1) that(2,3) assms(5) nt by auto
      then show "x \<in> tracked db2" unfolding nt by (rule delete_port_forward_tracked[OF del(2) assms(2-4)])
    qed
  qed
  show ?thesis
  proof (cases "fwd_node_task_id v")
    case None
    then show ?thesis using assms(6) row[of w w' db'] by (simp add: remove_resource_forward_def)
  next
    case (Some t)
    show ?thesis
    proof (cases "\<exists>np. nodes = Some np \<and> fwd_node_task_type v = ''portForward''")
      case True
      then obtain np where np: "nodes = Some np" "fwd_node_task_type v = ''portForward''" by blast
      obtain w1 r1 where call: "np_delete_forward np db (fwd_node_id v) t w = (w1, r1)" by fastforce
      note rel = deletes_reliablyD[OF assms(1)[unfolded nodes_delete_def, rule_format, OF np(1)] call]
      show ?thesis
      proof (cases r1)
        case (Inl e)
        then show ?thesis using assms(5,6) Some np call rel by (auto simp: remove_resource_forward_def)
      next
        case (Inr u)
        then show ?thesis using assms(6) Some np call rel row[of w1 w' db'] by (auto simp: remove_resource_forward_def)
      qed
    next
      case False
      then show ?thesis using assms(5,6) Some by (auto simp: remove_resource_forward_def split: option.splits)
    qed
  qed
qed

lemma remove_pruned:
  assumes "remove_resource_forward nodes d c v (w, db) = ((w', db'), r)"
  shows "pruned_forwards db db' \<and> (r = Inr () \<longrightarrow> fwd_id v \<notin> pf_id ` set (t_forwards db'))"
proof -
  have row: "pruned_forwards db db' \<and> (r = Inr () \<longrightarrow> fwd_id v \<notin> pf_id ` set (t_forwards db'))"
    if "delete_forward_row d c (fwd_id v) v (w1, db) = ((w2, db'), r)" for w1 w2
    by (rule delete_forward_row_result[OF that]) (metis delete_port_forward_pruned(1,2))
  then show ?thesis using assms
    by (fastforce simp: remove_resource_forward_def split: option.splits prod.splits sum.splits if_splits)
qed

lemma close_forwards_tracked:
  assumes "nodes_delete nodes tasks" "distinct (map pf_id (t_forwards db0))"
    and "swept db0 db" "set fs \<subseteq> set (joined db0)" "tasks w \<subseteq> tracked db"
    and "close_forwards nodes d c did fs (w, db) = ((w', db'), r)"
  shows "tasks w' \<subseteq> tracked db'"
  using assms(3-6)
proof (induction fs arbitrary: w db)
  case (Cons v fs)
  show ?case
  proof (cases "endpoint_route_of (fwd_endpoint_id v) db")
    case (Inl e)
    then show ?thesis using Cons.prems by auto
  next
    case (Inr route)
    obtain w1 db1 r1 where rm: "remove_resource_forward nodes d c v (w, db) = ((w1, db1), r1)" by (metis prod.collapse)
    have step: "tasks w1 \<subseteq> tracked db1" "swept db0 db1"
      using remove_tracked[OF assms(1,2) Cons.prems(1) _ Cons.prems(3) rm] Cons.prems(2)
        swept_trans[OF Cons.prems(1) pruned_swept] remove_pruned[OF rm] by auto
    then show ?thesis using Cons Inr rm by (auto split: if_splits sum.splits)
  qed
qed simp

lemma close_forwards_pruned:
  "close_forwards nodes d c did fs (w, db) = ((w', db'), r) \<Longrightarrow> pruned_forwards db db'
     \<and> (r = Inr () \<longrightarrow> (\<forall>v\<in>set fs. \<exists>route. endpoint_route_of (fwd_endpoint_id v) db = Inr route
           \<and> ((did = '''' \<or> rt_device_id route = did) \<longrightarrow> fwd_id v \<notin> pf_id ` set (t_forwards db'))))"
proof (induction fs arbitrary: w db)
  case (Cons v fs)
  show ?case
  proof (cases "endpoint_route_of (fwd_endpoint_id v) db")
    case (Inl e)
    then show ?thesis using Cons.prems by auto
  next
    case (Inr route)
    show ?thesis
    proof (cases "did = '''' \<or> rt_device_id route = did")
      case False
      then show ?thesis using Cons Inr by auto
    next
      case True
      obtain w1 db1 r1 where rm: "remove_resource_forward nodes d c v (w, db) = ((w1, db1), r1)" by (metis prod.collapse)
      note one = remove_pruned[OF rm]
      show ?thesis
      proof (cases r1)
        case (Inl e)
        then show ?thesis using Cons.prems Inr True rm one by auto
      next
        case (Inr u)
        then have "close_forwards nodes d c did fs (w1, db1) = ((w', db'), r)"
          using Cons.prems \<open>endpoint_route_of (fwd_endpoint_id v) db = Inr route\<close> True rm by simp
        from Cons.IH[OF this] have rest: "pruned_forwards db1 db'" and gone: "r = Inr () \<Longrightarrow> v' \<in> set fs \<Longrightarrow>
            \<exists>route. endpoint_route_of (fwd_endpoint_id v') db1 = Inr route
              \<and> ((did = '''' \<or> rt_device_id route = did) \<longrightarrow> fwd_id v' \<notin> pf_id ` set (t_forwards db'))" for v'
          by blast+
        have "fwd_id v \<notin> pf_id ` set (t_forwards db')" using one Inr rest by (auto simp: pruned_forwards_def)
        then show ?thesis
          using pruned_trans[OF _ rest] one gone pruned_route[of db db1] \<open>endpoint_route_of (fwd_endpoint_id v) db = Inr route\<close>
          by auto
      qed
    qed
  qed
qed simp

section \<open>Creating and deleting a forward\<close>

lemma join_frame:
  "t_endpoints db' = t_endpoints db \<Longrightarrow> t_devices db' = t_devices db \<Longrightarrow> t_projects db' = t_projects db \<Longrightarrow>
    endpoint_join e db' = endpoint_join e db"
  by (simp add: endpoint_join_def cong: option.case_cong)

lemma tracked_mono:
  assumes "t_endpoints db' = t_endpoints db" "t_devices db' = t_devices db" "t_projects db' = t_projects db"
    and "\<And>f t. f \<in> set (t_forwards db) \<Longrightarrow> pf_node_task_id f = Some t \<Longrightarrow> f \<in> set (t_forwards db')"
  shows "tracked db \<subseteq> tracked db'"
proof
  fix x assume x: "x \<in> tracked db"
  obtain n t where nt: "x = (n, t)" by (cases x)
  have join: "endpoint_join e db' = endpoint_join e db" for e
    by (rule join_frame[OF assms(1-3)])
  show "x \<in> tracked db'" using x assms(4) unfolding nt tracked_iff join by blast
qed

lemma give_back_tracked:
  assumes "distinct (map pf_id (t_forwards db))" "\<forall>f\<in>set (t_forwards db). pf_id f = fwd_id v \<longrightarrow> pf_node_task_id f = None"
  shows "tracked db \<subseteq> tracked (give_back d c action v db)"
proof -
  obtain db' r where del: "delete_port_forward (dw_id d ''give back'') (dw_at d ''give back'') (fwd_id v)
      (audit_from_request c action ''port_forward'') db = (db', r)" by fastforce
  note p = delete_port_forward_pruned[OF del]
  have "tracked db \<subseteq> tracked db'"
    using p(1,3) assms(2) by (intro tracked_mono) (auto simp: pruned_forwards_def)
  then show ?thesis by (simp add: give_back_def del)
qed

lemma reserved_new_row:
  assumes "reserve_port_forward fid aid now input audit db = (db1, Inr v)"
  shows "\<exists>row e dv p a. endpoint_join (pf_endpoint_id row) db = Some (e, dv, p) \<and> pf_id row = fid \<and> pf_node_task_id row = None
    \<and> pf_status row = ''provisioning'' \<and> holds (forwards_rules db (t_forwards db @ [row])) \<and> fwd_id v = fid
    \<and> fwd_node_id v = p_node_id p \<and> db1 = db\<lparr>t_forwards := t_forwards db @ [row], t_audit_logs := t_audit_logs db @ [a]\<rparr>"
proof (rule reserve_port_forward_effect[OF assms])
  fix e dv p n port a
  assume "endpoint_join (rf_endpoint_id input) db = Some (e, dv, p)"
    "holds (forwards_rules db (t_forwards db @ [reserved_row fid now input (p_node_id p) port]))"
    "v = forward_view (reserved_row fid now input (p_node_id p) port) e dv p"
    "db1 = db\<lparr>t_forwards := t_forwards db @ [reserved_row fid now input (p_node_id p) port], t_audit_logs := t_audit_logs db @ [a]\<rparr>"
  then show ?thesis
    by (intro exI[of _ "reserved_row fid now input (p_node_id p) port"] exI[of _ e] exI[of _ dv] exI[of _ p] exI[of _ a])
      (simp add: reserved_row_def forward_view_def del: holds_simps)
qed

text \<open>C14. A forward that is handed out runs: when the handler answers with a forward, exactly the task it names was added
on its node, its row is running and keeps the reference of that task, and every task of the nodes has its row; every
refusal keeps the tasks and the rows in step as well, except the one for a node that reports a failure. It rests on a
node that reports success having started exactly the task it names; of a failure it asks nothing.\<close>

theorem created_forward_tracked:
  assumes node: "starts_what_it_names (np_create_forward np) tasks" and inv: "store_inv db" and pre: "tasks w \<subseteq> tracked db"
    and step: "create_forward_handler (Some np) d c body (w, db) = ((w', db'), r)"
  shows "case r of Inr f \<Rightarrow> (\<exists>t. fwd_node_task_id f = Some t \<and> tasks w' = insert (fwd_node_id f, t) (tasks w) \<and> tasks w' \<subseteq> tracked db'
      \<and> (\<exists>row\<in>set (t_forwards db'). pf_id row = fwd_id f \<and> pf_status row = ''running'' \<and> pf_node_task_type row = ''portForward''
          \<and> pf_node_task_id row = Some t))
    | Inl e \<Rightarrow> e = (502, ''node_port_forward_failed'') \<or> tasks w' \<subseteq> tracked db'"
proof (cases "\<exists>input db1 f. body = Some input \<and> forward_faults (dw_at d ''check'') input = []
    \<and> reserve_port_forward (dw_id d ''forward'') (dw_id d ''reserve'') (dw_at d ''reserve'')
             \<lparr>rf_project_id = wildcard c ''projectID'', rf_endpoint_id = fr_endpoint_id input,
               rf_server_port = fr_server_port input, rf_expires_at = fr_expires_at input\<rparr>
             (audit_from_request c ''port_forward.reserve'' ''port_forward'') db = (db1, Inr f)")
  case False
  then have "w' = w \<and> db' = db \<and> isl r"
    using step by (auto simp: create_forward_handler_def reserve_port_forward_def run_tx_Inl_iff
        split: option.splits if_splits prod.splits sum.splits)
  then show ?thesis using pre by (cases r) auto
next
  case True
  then obtain input db1 v where res: "reserve_port_forward (dw_id d ''forward'') (dw_id d ''reserve'') (dw_at d ''reserve'')
             \<lparr>rf_project_id = wildcard c ''projectID'', rf_endpoint_id = fr_endpoint_id input,
               rf_server_port = fr_server_port input, rf_expires_at = fr_expires_at input\<rparr>
             (audit_from_request c ''port_forward.reserve'' ''port_forward'') db = (db1, Inr v)"
    and body: "body = Some input" "forward_faults (dw_at d ''check'') input = []" by blast
  let ?fid = "dw_id d ''forward''"
  from reserved_new_row[OF res] obtain e dv p row a where
    join: "endpoint_join (pf_endpoint_id row) db = Some (e, dv, p)" and row: "pf_id row = ?fid" "pf_node_task_id row = None"
      "pf_status row = ''provisioning''" and rules: "holds (forwards_rules db (t_forwards db @ [row]))"
    and v: "fwd_id v = ?fid" "fwd_node_id v = p_node_id p"
    and db1: "db1 = db\<lparr>t_forwards := t_forwards db @ [row], t_audit_logs := t_audit_logs db @ [a]\<rparr>"
    by blast
  have keys: "distinct (map pf_id (t_forwards db1))" using rules by (simp add: forwards_rules_def db1)
  have only: "f = row" if "f \<in> set (t_forwards db1)" "pf_id f = ?fid" for f
    using key_inj[OF keys that(1), of row] that(2) row(1) by (simp add: db1)
  have pre1: "tasks w \<subseteq> tracked db1" using pre tracked_mono[of db1 db] by (auto simp: db1)
  obtain w1 x where call: "np_create_forward np db1 (fwd_node_id v) (fwd_client_id v) (fwd_server_port v) (fwd_target v)
      (fwd_endpoint_name v) w = (w1, x)" by fastforce
  note rel = node[unfolded starts_what_it_names_def, rule_format, OF call]
  have run: "provision np d c v (w, db1) = ((w', db'), r)"
    using step res body by (simp add: create_forward_handler_def)
  show ?thesis
  proof (cases x)
    case (Inl err)
    then show ?thesis using run by (auto simp: provision_def call)
  next
    case (Inr t)
    let ?pending = "\<lambda>f. pf_id f = ?fid \<and> pf_status f = ''provisioning''"
    let ?g = "\<lambda>f. f\<lparr>pf_node_task_type := ''portForward'', pf_node_task_id := Some (nf_id t), pf_status := ''running'',
        pf_updated_at := dw_at d ''activate''\<rparr>"
    have in1: "row \<in> set (t_forwards db1)" by (simp add: db1)
    have "count_where ?pending (t_forwards db1) \<le> 1"
      by (rule count_where_key_le_1[OF keys]) auto
    moreover have "0 < count_where ?pending (t_forwards db1)" using in1 row by auto
    ultimately have one: "count_where ?pending (t_forwards db1) = 1" by linarith
    have id1: "1 \<le> nf_id t" "tasks w1 = insert (fwd_node_id v, nf_id t) (tasks w)" using rel by (simp_all add: Inr)
    have act: "activate_port_forward (dw_at d ''activate'') (fwd_id v) ''portForward'' (nf_id t) db1
        = (update_forwards ?pending ?g db1, Inr ())"
      using one id1(1) by (simp add: activate_port_forward_def v(1) Let_def)
    then have out: "w' = w1" "db' = update_forwards ?pending ?g db1"
        "r = Inr (v\<lparr>fwd_node_task_id := Some (nf_id t), fwd_node_task_type := ''portForward'', fwd_status := ''running''\<rparr>)"
      using run by (simp_all add: provision_def call Inr)
    have rows: "t_forwards db' = upd_where ?pending ?g (t_forwards db1)" by (simp add: out(2) update_forwards_def)
    have join': "endpoint_join q db' = endpoint_join q db" for q
      by (rule join_frame) (simp_all add: out(2) update_forwards_def db1)
    have kept: "?g row \<in> set (t_forwards db')" using in1 row unfolding rows set_upd_where by force
    then have new: "(fwd_node_id v, nf_id t) \<in> tracked db'"
      unfolding tracked_iff join' using join v(2) by (intro bexI[of _ "?g row"]) auto
    have "tracked db1 \<subseteq> tracked db'"
    proof (rule tracked_mono)
      fix f u assume f: "f \<in> set (t_forwards db1)" "pf_node_task_id f = Some u"
      then have "\<not> ?pending f" using only row(2) by auto
      then show "f \<in> set (t_forwards db')" unfolding rows set_upd_where using f(1) by force
    qed (simp_all add: out(2) update_forwards_def)
    then have "tasks w' \<subseteq> tracked db'" using id1(2) pre1 new unfolding out(1) by auto
    moreover have "\<exists>row\<in>set (t_forwards db'). pf_id row = fwd_id v \<and> pf_status row = ''running''
        \<and> pf_node_task_type row = ''portForward'' \<and> pf_node_task_id row = Some (nf_id t)"
      using row(1) v(1) by (intro bexI[OF _ kept]) simp
    ultimately show ?thesis using id1(2) unfolding out(1,3) by simp
  qed
qed

lemma deleted_forward_tracked:
  assumes node: "deletes_reliably (np_delete_forward np) tasks" and inv: "store_inv db" and pre: "tasks w \<subseteq> tracked db"
    and step: "delete_forward_handler (Some np) d c (w, db) = ((w', db'), r)"
  shows "tasks w' \<subseteq> tracked db'"
proof (cases "port_forward_by_id (wildcard c ''forwardID'') db")
  case (Inl e)
  then show ?thesis using step pre by (simp add: delete_forward_handler_def)
next
  case (Inr v)
  have keys: "distinct (map pf_id (t_forwards db))" using inv by (simp add: store_inv_def db_ok_def rules_defs)
  obtain f where f: "f \<in> set (t_forwards db)" "joined_forward db f = Some v"
    using Inr by (auto simp: port_forward_by_id_def attempt_Inr_iff from_row_Inr_iff dest!: row_where_Some)
  then have v: "v \<in> set (joined db)" by (auto simp: joined_def in_map_filter)
  have row: "tasks w' \<subseteq> tracked db'"
    if "delete_forward_row d c ''delete'' v (w1, db) = ((w', db'), r)" "tasks w1 \<subseteq> tasks w"
      "\<And>t. fwd_node_task_id v = Some t \<Longrightarrow> (fwd_node_id v, t) \<notin> tasks w1" for w1
  proof (rule delete_forward_row_result[OF that(1)], rule subsetI)
    fix r0 x assume del: "w' = w1" "delete_port_forward (dw_id d ''delete'') (dw_at d ''delete'') (fwd_id v)
      (audit_from_request c ''port_forward.delete'' ''port_forward'') db = (db', r0)" and x: "x \<in> tasks w'"
    obtain n t where nt: "x = (n, t)" by (cases x)
    have "(n, t) \<in> tracked db" "fwd_node_task_id v = Some t \<longrightarrow> n \<noteq> fwd_node_id v"
      using x del(1) that(2,3) pre nt by auto
    then show "x \<in> tracked db'" unfolding nt by (rule delete_port_forward_tracked[OF del(2) keys swept_refl v])
  qed
  show ?thesis
  proof (cases "fwd_node_task_id v")
    case None
    then show ?thesis using step Inr row[of w] by (simp add: delete_forward_handler_def)
  next
    case (Some t)
    obtain w1 r1 where call: "np_delete_forward np db (fwd_node_id v) t w = (w1, r1)" by fastforce
    note rel = deletes_reliablyD[OF node call]
    show ?thesis using step Inr Some call rel row[of w1] pre
      by (auto simp: delete_forward_handler_def split: if_splits sum.splits)
  qed
qed

section \<open>Closing is complete\<close>

lemma web_revoke_keeps:
  assumes "web_sane g"
  shows "web_sane (fst (web_revoke pruned now s g)) \<and> web_live x (fst (web_revoke pruned now s g)) \<subseteq> web_live x g"
proof -
  obtain h cs where m: "web_mark pruned now s g = (h, cs)" by fastforce
  have h: "web_sane h" "web_live x h = web_live x g"
    using web_sane_mark[OF assms, of pruned now s] web.mark_live[OF m, of x] by (simp_all add: m)
  have "web_sane (fold web_close cs h) \<and> web_live x (fold web_close cs h) \<subseteq> web_live x h" if "web_sane h" for cs h
    using that
  proof (induction cs arbitrary: h)
    case (Cons a cs)
    have "web_sane (web_close a h)" "web_live x (web_close a h) \<subseteq> web_live x h"
      using web_sane_forget[OF Cons.prems] web.forget_live[OF Cons.prems, of x "wc_session a" "wc_id a"]
      by (auto simp: web_close_def split: if_splits)
    then show ?case using Cons.IH[of "web_close a h"] by auto
  qed simp
  from this[OF h(1)] show ?thesis using h(2) by (simp add: web_revoke_def m)
qed

lemma revoke_web_all_closes:
  assumes "web_sane g" shows "web_live x (revoke_web_all d sids g) \<subseteq> web_live x g"
    and "x \<in> set sids \<Longrightarrow> web_live x (revoke_web_all d sids g) = {}"
proof -
  have "web_live x (revoke_web_all d sids g) \<subseteq> web_live x g \<and> (x \<in> set sids \<longrightarrow> web_live x (revoke_web_all d sids g) = {})"
    using assms
  proof (induction sids arbitrary: g)
    case (Cons s sids)
    let ?g = "fst (web_revoke (dw_at d ''prune'') (dw_at d ''closed'') s g)"
    note k = web_revoke_keeps[OF Cons.prems, of "dw_at d ''prune''" "dw_at d ''closed''" s x]
    have run: "revoke_web_all d (s # sids) g = revoke_web_all d sids ?g" by (simp add: revoke_web_all_def)
    have "web_live s ?g = {}"
      using web_revoke_final[OF Cons.prems, of "dw_at d ''closed''" "dw_at d ''closed''"] by (simp add: seconds_def)
    then show ?case using k Cons.IH[of ?g] unfolding run by auto
  qed (simp add: revoke_web_all_def)
  then show "web_live x (revoke_web_all d sids g) \<subseteq> web_live x g"
    "x \<in> set sids \<Longrightarrow> web_live x (revoke_web_all d sids g) = {}" by auto
qed

lemma revoke_ssh_all_cancels:
  "revoke_ssh_all d sids g = (g', cs) \<Longrightarrow> x \<in> set sids \<Longrightarrow> snd ` ssh_live x g \<subseteq> set cs"
proof (induction sids arbitrary: g cs)
  case (Cons s sids)
  obtain h c1 where m: "ssh_mark (dw_at d ''prune'') (dw_at d ''closed'') s g = (h, c1)" by fastforce
  obtain c2 where rest: "revoke_ssh_all d sids h = (g', c2)" "cs = c1 @ c2"
    using Cons.prems(1) by (auto simp: ssh_revoke_def m split: prod.splits)
  have live: "ssh_live x h = ssh_live x g" "set c1 = snd ` ssh_live s g" using ssh.mark_live[OF m, of x] by simp_all
  show ?case
  proof (cases "x = s")
    case False
    then show ?thesis using Cons.IH[OF rest(1)] Cons.prems(2) live(1) rest(2) by auto
  qed (use live rest in auto)
qed simp

lemma audit_revoked_only:
  "audit_revoked d c sids db = (db', r) \<Longrightarrow> \<exists>log. db' = db\<lparr>t_audit_logs := log\<rparr>"
proof (induction sids arbitrary: db)
  case (Cons s sids)
  obtain db1 r1 where a: "append_audit (dw_id d (''audit '' @ s)) (dw_at d (''audit '' @ s))
      ((audit_from_request c ''access_session.revoke'' ''access_session'')\<lparr>ai_resource_id := s\<rparr>) db = (db1, r1)" by fastforce
  have 1: "\<exists>log. db1 = db\<lparr>t_audit_logs := log\<rparr>"
  proof (cases r1)
    case (Inl e)
    then have "db1 = db" using a by (simp add: append_audit_def run_tx_Inl_iff)
    then show ?thesis by (intro exI[of _ "t_audit_logs db"]) simp
  next
    case (Inr u)
    then show ?thesis using a by (auto simp: append_audit_def run_tx_Inr_iff attempt_Inr_iff dest!: insert_audit_Inr)
  qed
  show ?case
  proof (cases r1)
    case (Inl e)
    then show ?thesis using 1 Cons.prems a by auto
  next
    case (Inr u)
    then have "\<exists>log. db' = db1\<lparr>t_audit_logs := log\<rparr>" using Cons.IH[of db1] Cons.prems a by simp
    then show ?thesis using 1 by auto
  qed
next
  case Nil
  then show ?case by (intro exI[of _ "t_audit_logs db"]) simp
qed

definition goes_through :: "string \<Rightarrow> string \<Rightarrow> db \<Rightarrow> port_forward \<Rightarrow> bool" where
  "goes_through pid did db v \<longleftrightarrow> fwd_project_id v = pid \<and> (did = ''''
     \<or> (case endpoint_route_of (fwd_endpoint_id v) db of Inl e \<Rightarrow> False | Inr route \<Rightarrow> rt_device_id route = did))"

definition session_of :: "string \<Rightarrow> string \<Rightarrow> db \<Rightarrow> access_session_row \<Rightarrow> bool" where
  "session_of pid did db s \<longleftrightarrow> acs_project_id s = pid \<and> (did = '''' \<or> of_device did db s)"

lemma close_parts:
  assumes "close_resource_sessions nodes d c pid did (w, pn) = ((w', pn'), r)"
  obtains (failed) db1 e where "close_forwards nodes d c did (list_port_forwards pid (pn_db pn)) (w, pn_db pn) = ((w', db1), Inl e)"
      "pn' = pn\<lparr>pn_db := db1\<rparr>" "r = Inl e"
  | (passed) db1 db2 sids cs log where
      "close_forwards nodes d c did (list_port_forwards pid (pn_db pn)) (w, pn_db pn) = ((w', db1), Inr ())"
      "revoke_resource_sessions (dw_at d ''revoke'') pid did db1 = (db2, sids)" "pn_db pn' = db2\<lparr>t_audit_logs := log\<rparr>"
      "pn_web pn' = revoke_web_all d sids (pn_web pn)" "revoke_ssh_all d sids (pn_ssh pn) = (pn_ssh pn', cs)"
      "r = Inr cs \<or> isl r"
proof -
  obtain w1 db1 r1 where f: "close_forwards nodes d c did (list_port_forwards pid (pn_db pn)) (w, pn_db pn) = ((w1, db1), r1)"
    by (metis prod.collapse)
  show thesis
  proof (cases r1)
    case (Inl e)
    then show thesis using failed[of db1 e] assms f by (simp add: close_resource_sessions_def)
  next
    case (Inr u)
    obtain db2 sids where rv: "revoke_resource_sessions (dw_at d ''revoke'') pid did db1 = (db2, sids)" by fastforce
    obtain g cs where ssh: "revoke_ssh_all d sids (pn_ssh pn) = (g, cs)" by fastforce
    obtain db3 r3 where au: "audit_revoked d c sids db2 = (db3, r3)" by fastforce
    obtain log where log: "db3 = db2\<lparr>t_audit_logs := log\<rparr>" using audit_revoked_only[OF au] by blast
    have out: "w' = w1" "pn' = \<lparr>pn_db = db3, pn_web = revoke_web_all d sids (pn_web pn), pn_ssh = g\<rparr>"
        "r = (case r3 of Inl e \<Rightarrow> Inl e | Inr _ \<Rightarrow> Inr cs)"
      using assms by (simp_all add: close_resource_sessions_def f Inr rv ssh au)
    show thesis
      by (rule passed[of db1 db2 sids log cs]) (use f Inr rv ssh out log in \<open>auto split: sum.splits\<close>)
  qed
qed

lemma revoke_resource_frame:
  assumes "revoke_resource_sessions now pid did db = (db', sids)"
  shows "t_forwards db' = t_forwards db" "t_endpoints db' = t_endpoints db" "t_devices db' = t_devices db"
    "t_projects db' = t_projects db"
    "t_access_sessions db' = upd_where (\<lambda>s. acs_status s = ''active'' \<and> session_of pid did db s) (end_session ''revoked'' now) (t_access_sessions db)"
    "sids = map acs_id (filter (\<lambda>s. acs_status s = ''active'' \<and> session_of pid did db s) (t_access_sessions db))"
  using assms by (auto simp: revoke_resource_sessions_def update_access_sessions_def Let_def session_of_def conj_commute
      intro!: arg_cong[where f = "\<lambda>P. upd_where P _ _"] filter_cong)

text \<open>C13. Before a project or a device is changed or deleted, everything that goes through it ends: when the
closing succeeds, no forward of the resource is left and none of the tasks still running lost its row; no session of
it is active, no connection of one is open in the web gateway, and every terminal of one was cancelled.\<close>

theorem resource_closed:
  assumes node: "nodes_delete nodes tasks" and inv: "store_inv (pn_db pn)" "web_sane (pn_web pn)"
    and pre: "tasks w \<subseteq> tracked (pn_db pn)"
    and step: "close_resource_sessions nodes d c pid did (w, pn) = ((w', pn'), Inr cancelled)"
  shows "tasks w' \<subseteq> tracked (pn_db pn')
    \<and> \<not> (\<exists>v\<in>set (joined (pn_db pn')). goes_through pid did (pn_db pn') v)
    \<and> \<not> (\<exists>s\<in>set (t_access_sessions (pn_db pn')). session_of pid did (pn_db pn') s \<and> acs_status s = ''active'')
    \<and> (\<forall>s\<in>set (t_access_sessions (pn_db pn)). session_of pid did (pn_db pn) s \<and> acs_status s = ''active'' \<longrightarrow>
        web_live (acs_id s) (pn_web pn') = {} \<and> snd ` ssh_live (acs_id s) (pn_ssh pn) \<subseteq> set cancelled)"
proof (cases rule: close_parts[OF step])
  case (1 db1 e)
  then show ?thesis by simp
next
  case (2 db1 db2 sids cs log)
  let ?db = "pn_db pn" and ?db' = "pn_db pn'"
  note rv = revoke_resource_frame[OF 2(2)]
  have keys: "distinct (map pf_id (t_forwards ?db))" using inv(1) by (simp add: store_inv_def db_ok_def rules_defs)
  have listed: "set (list_port_forwards pid ?db) \<subseteq> set (joined ?db)"
    by (auto simp: list_port_forwards_def joined_def in_map_filter)
  have t1: "tasks w' \<subseteq> tracked db1" by (rule close_forwards_tracked[OF node keys swept_refl listed pre 2(1)])
  note p = close_forwards_pruned[OF 2(1)]
  have frame: "t_forwards ?db' = t_forwards db1" "t_endpoints ?db' = t_endpoints db1" "t_devices ?db' = t_devices db1"
      "t_projects ?db' = t_projects db1" "t_access_sessions ?db' = t_access_sessions db2"
    using rv(1-4) by (simp_all add: 2(3))
  have join1: "endpoint_join e ?db' = endpoint_join e ?db" for e
    using p by (intro join_frame) (auto simp: frame pruned_forwards_def)
  have tasks: "tasks w' \<subseteq> tracked ?db'" using t1 tracked_frame[OF frame(1-4)] by simp
  have no_forward: "\<not> goes_through pid did ?db' v" if v: "v \<in> set (joined ?db')" for v
  proof
    assume g: "goes_through pid did ?db' v"
    obtain f where f: "f \<in> set (t_forwards ?db')" "joined_forward ?db' f = Some v" using v by (auto simp: joined_def in_map_filter)
    have "joined_forward ?db f = Some v" using f(2) by (simp add: joined_forward_def join1)
    moreover have "f \<in> set (t_forwards ?db)" using f(1) p by (auto simp: frame(1) pruned_forwards_def)
    ultimately have "v \<in> set (list_port_forwards pid ?db)"
      using g by (auto simp: list_port_forwards_def in_map_filter goes_through_def)
    then obtain route where "endpoint_route_of (fwd_endpoint_id v) ?db = Inr route"
        "(did = '''' \<or> rt_device_id route = did) \<longrightarrow> fwd_id v \<notin> pf_id ` set (t_forwards db1)" using p by auto
    moreover have "endpoint_route_of (fwd_endpoint_id v) ?db' = endpoint_route_of (fwd_endpoint_id v) ?db"
      by (simp add: endpoint_route_of_def join1)
    ultimately have "fwd_id v \<notin> pf_id ` set (t_forwards ?db')" using g by (auto simp: goes_through_def frame(1))
    moreover have "fwd_id v = pf_id f" using f(2) by (auto simp: joined_forward_Some forward_view_def)
    ultimately show False using f(1) by auto
  qed
  have of1: "session_of pid did ?db' s = session_of pid did db1 s" "session_of pid did db1 s = session_of pid did ?db s" for s
    using p by (simp_all add: session_of_def of_device_def frame pruned_forwards_def)
  have no_session: "acs_status s \<noteq> ''active''" if "s \<in> set (t_access_sessions ?db')" "session_of pid did ?db' s" for s
  proof -
    have "\<exists>y\<in>set (t_access_sessions db1).
        s = (if acs_status y = ''active'' \<and> session_of pid did db1 y then end_session ''revoked'' (dw_at d ''revoke'') y else y)"
      using that(1) unfolding frame(5) rv(5) upd_where_def set_map image_iff .
    then obtain y where y: "y \<in> set (t_access_sessions db1)"
        "s = (if acs_status y = ''active'' \<and> session_of pid did db1 y then end_session ''revoked'' (dw_at d ''revoke'') y else y)"
      by blast
    then have "session_of pid did db1 y" using that(2) unfolding of1(1)
      by (auto simp: session_of_def of_device_def end_session_def split: if_splits)
    then show ?thesis using y(2) by (auto simp: end_session_def)
  qed
  have cut: "web_live (acs_id s) (pn_web pn') = {} \<and> snd ` ssh_live (acs_id s) (pn_ssh pn) \<subseteq> set cancelled"
    if s: "s \<in> set (t_access_sessions ?db)" "session_of pid did ?db s" "acs_status s = ''active''" for s
  proof -
    have "t_access_sessions db1 = t_access_sessions ?db" using p by (simp add: pruned_forwards_def)
    then have "acs_id s \<in> set sids" using s by (auto simp: rv(6) of1(2))
    then show ?thesis
      using revoke_web_all_closes(2)[OF inv(2)] revoke_ssh_all_cancels[OF 2(5)] 2(4,6) by auto
  qed
  show ?thesis using tasks no_forward no_session cut by blast
qed

section \<open>Witnesses\<close>

text \<open>A node that keeps the list of its tasks and does what it is told.\<close>

definition demo_node_forward :: "int \<Rightarrow> node_forward" where
  "demo_node_forward i = \<lparr>nf_id = i, nf_client_id = 7, nf_client_name = '''', nf_port = 20000, nf_target = '''',
     nf_remark = '''', nf_configured = True, nf_running = True, nf_inlet = 0, nf_export = 0\<rparr>"

definition demo_port :: "(string \<times> int) list node_port" where
  "demo_port = \<lparr>np_health = (\<lambda>db n w. ((w, db), True)), np_clients = (\<lambda>db n w. (w, Inr [])),
     np_credentials = (\<lambda>db n i w. (w, Inl (ErrMsg ''none''))), np_tunnels = (\<lambda>db n w. (w, Inr [])),
     np_tunnel_status = (\<lambda>db n i w. (w, Inl (ErrMsg ''none''))), np_set_tunnel = (\<lambda>db n i b w. (w, Inr ())),
     np_create_forward = (\<lambda>db n cl p t x w. ((n, 9) # w, Inr (demo_node_forward 9))),
     np_set_forward = (\<lambda>db n i b w. (w, Inr ())), np_delete_forward = (\<lambda>db n i w. (removeAll (n, i) w, Inr ())),
     np_create_client = (\<lambda>db n r k u p w. (w, Inl duplicate_verify_key)), np_delete_client = (\<lambda>db n i w. (w, Inr ()))\<rparr>"

lemma demo_port_reliable:
  "starts_what_it_names (np_create_forward demo_port) set" "deletes_reliably (np_delete_forward demo_port) set"
  by (auto simp: starts_what_it_names_def deletes_reliably_def demo_port_def demo_node_forward_def)

definition demo_drawn :: drawn where
  "demo_drawn = \<lparr>dw_id = (\<lambda>s. s), dw_at = (\<lambda>_. 1)\<rparr>"

definition resource_call :: call where
  "resource_call = operator_call\<lparr>cl_request := demo_post\<lparr>ar_values := [(''projectID'', ''p1''), (''deviceID'', ''d1'')]\<rparr>\<rparr>"

definition demo_forward_request :: forward_request where
  "demo_forward_request = \<lparr>fr_endpoint_id = ''e1'', fr_server_port = 0, fr_expires_at = Some 5\<rparr>"

theorem created_forward_tracked_witness:
  "\<exists>w' db' f. create_forward_handler (Some demo_port) demo_drawn resource_call (Some demo_forward_request) ([], demo_db)
      = ((w', db'), Inr f) \<and> w' = [(''n1'', 9)] \<and> (''n1'', 9) \<in> tracked db'
      \<and> (\<exists>row\<in>set (t_forwards db'). pf_id row = fwd_id f \<and> pf_status row = ''running'' \<and> pf_node_task_id row = Some 9)"
proof -
  let ?r = "create_forward_handler (Some demo_port) demo_drawn resource_call (Some demo_forward_request) ([], demo_db)"
  have "\<not> isl (snd ?r) \<and> fst (fst ?r) = [(''n1'', 9)]" by code_simp
  then obtain db' f where r: "?r = (([(''n1'', 9)], db'), Inr f)"
    by (cases ?r; cases "fst ?r"; cases "snd ?r") auto
  from created_forward_tracked[OF demo_port_reliable(1) demo_inv _ r]
  have "(''n1'', 9) \<in> tracked db' \<and> (\<exists>row\<in>set (t_forwards db'). pf_id row = fwd_id f \<and> pf_status row = ''running''
      \<and> pf_node_task_id row = Some 9)" by fastforce
  then show ?thesis using r by blast
qed

definition forwarded_db :: db where
  "forwarded_db = demo_db\<lparr>t_forwards := [\<lparr>pf_id = ''f1'', pf_endpoint_id = ''e1'', pf_node_id = Some ''n1'',
     pf_node_task_type = ''portForward'', pf_node_task_id = Some 9, pf_server_port = 20000, pf_status = ''running'',
     pf_expires_at = None, pf_created_at = 0, pf_updated_at = 0\<rparr>]\<rparr>"

lemma forwarded_inv: "store_inv forwarded_db"
  by code_simp

lemma forwarded_tracked: "(''n1'', 9) \<in> tracked forwarded_db"
proof -
  have "map (\<lambda>v. (fwd_node_id v, fwd_node_task_id v)) (joined forwarded_db) = [(''n1'', Some 9)]" by code_simp
  then obtain v where "v \<in> set (joined forwarded_db)" "fwd_node_id v = ''n1''" "fwd_node_task_id v = Some 9" by auto
  then show ?thesis unfolding tracked_def by force
qed

definition forwarded_panel :: panel where
  "forwarded_panel = demo_panel\<lparr>pn_db := forwarded_db\<rparr>"

theorem resource_closed_witness:
  "\<exists>w' pn' cancelled. close_resource_sessions (Some demo_port) demo_drawn resource_call ''p1'' ''d1'' ([(''n1'', 9)], forwarded_panel)
      = ((w', pn'), Inr cancelled) \<and> w' = [] \<and> t_forwards (pn_db pn') = []
      \<and> web_live ''a1'' (pn_web forwarded_panel) \<noteq> {} \<and> web_live ''a1'' (pn_web pn') = {}"
proof -
  let ?r = "close_resource_sessions (Some demo_port) demo_drawn resource_call ''p1'' ''d1'' ([(''n1'', 9)], forwarded_panel)"
  have "\<not> isl (snd ?r) \<and> fst (fst ?r) = [] \<and> t_forwards (pn_db (snd (fst ?r))) = []" by code_simp
  then obtain pn' cancelled where r: "?r = (([], pn'), Inr cancelled)" "t_forwards (pn_db pn') = []"
    by (cases ?r; cases "fst ?r"; cases "snd ?r") auto
  have node: "nodes_delete (Some demo_port) set" using demo_port_reliable(2) by (simp add: nodes_delete_def)
  have inv: "store_inv (pn_db forwarded_panel)" "web_sane (pn_web forwarded_panel)"
    using forwarded_inv web_sane_track[OF web_started_sane] by (simp_all add: forwarded_panel_def demo_panel_def)
  have pre: "set [(''n1'', 9)] \<subseteq> tracked (pn_db forwarded_panel)" using forwarded_tracked by (simp add: forwarded_panel_def)
  let ?s = "demo_access_session ''a1'' ''u2'' ''s2'' ''k1''"
  have s: "?s \<in> set (t_access_sessions (pn_db forwarded_panel))" "session_of ''p1'' ''d1'' (pn_db forwarded_panel) ?s"
    "acs_status ?s = ''active''" "acs_id ?s = ''a1''"
    by (auto simp: forwarded_panel_def forwarded_db_def session_of_def of_device_def demo_defs)
  have "web_live ''a1'' (pn_web pn') = {}" using resource_closed[OF node inv pre r(1)] s by metis
  moreover have "web_live ''a1'' (pn_web forwarded_panel) \<noteq> {}"
    by (simp add: Let_def forwarded_panel_def demo_panel_def web_live_def web_track_def web_prune_def web_started_def
        keep_tombstone_def put_inner_def inner_def)
  ultimately show ?thesis using r by blast
qed

text \<open>The exception is real: a node that accepts a forward and then cannot be queried answers with an error, the reservation
is released, and the task runs on without a row.\<close>

lemma half_created_forward_lost:
  fixes np :: "(string \<times> int) list node_port"
  assumes "np_create_forward np = (\<lambda>db n cl p t x w. ((n, 9) # w, Inl (ErrMsg ''not returned by verification query'')))"
  shows "\<exists>db'. create_forward_handler (Some np) demo_drawn resource_call (Some demo_forward_request) ([], demo_db)
      = (([(''n1'', 9)], db'), Inl (502, ''node_port_forward_failed'')) \<and> t_forwards db' = []"
proof -
  let ?np = "demo_port\<lparr>np_create_forward := \<lambda>db n cl p t x w. ((n, 9) # w, Inl (ErrMsg ''not returned by verification query''))\<rparr>"
  let ?r = "\<lambda>np. create_forward_handler (Some np) demo_drawn resource_call (Some demo_forward_request) ([], demo_db)"
  have same: "?r np = ?r ?np"
  proof -
    obtain db1 v where res: "reserve_port_forward (dw_id demo_drawn ''forward'') (dw_id demo_drawn ''reserve'') (dw_at demo_drawn ''reserve'')
        \<lparr>rf_project_id = wildcard resource_call ''projectID'', rf_endpoint_id = fr_endpoint_id demo_forward_request,
         rf_server_port = fr_server_port demo_forward_request, rf_expires_at = fr_expires_at demo_forward_request\<rparr>
        (audit_from_request resource_call ''port_forward.reserve'' ''port_forward'') demo_db = (db1, v)" by fastforce
    show ?thesis by (cases v) (simp_all add: create_forward_handler_def res provision_def assms)
  qed
  have "snd (?r ?np) = Inl (502, ''node_port_forward_failed'') \<and> fst (fst (?r ?np)) = [(''n1'', 9)] \<and> t_forwards (snd (fst (?r ?np))) = []"
    by code_simp
  then show ?thesis unfolding same by (cases "?r ?np"; cases "fst (?r ?np)") auto
qed

end
