(* ===== verification/ApiResources.thy ===== *)
theory ApiResources
  imports ApiForwards
begin

text \<open>
  The handlers of projects and devices of \<open>api/api.go\<close>. Deleting a project or a device and changing a
  device first closes what goes through it (\<open>close_resource_sessions\<close>); the sealed SSH credentials of a
  device are written before the store is asked and put back when it refuses.

  The vault, the discovery manager and the node adapter are optional, as the fields of \<open>server\<close> may be nil.
  \<open>files\<close> tells the absolute paths of regular files (\<open>os.Stat\<close>); \<open>year\<close> is the year of the clock as text.
\<close>

section \<open>Projects\<close>

definition temporary_access :: "instant \<Rightarrow> string \<Rightarrow> string \<Rightarrow> db \<Rightarrow> bool" where
  "temporary_access now uid pid db \<longleftrightarrow> has_policy_capability uid pid ''web'' now db
     \<or> has_policy_capability uid pid ''webssh'' now db"

definition hide_scope :: "project \<Rightarrow> project" where
  "hide_scope p = p\<lparr>pr_owner_name := '''', pr_client_id := None, pr_networks := []\<rparr>"

definition list_projects_handler :: "drawn \<Rightarrow> call \<Rightarrow> db \<Rightarrow> project list" where
  "list_projects_handler d c db = (let p = cl_principal c; ps = list_projects db in
     if is_system_admin p then ps
     else let temporary = (pr_role p = ''temporary'');
         allowed = (\<lambda>x. pr_id x \<in> set (pr_project_ids p)
           \<or> temporary \<and> temporary_access (dw_at d (''policy '' @ pr_id x)) (pr_user_id p) (pr_id x) db) in
       map (\<lambda>x. if temporary then hide_scope x else x) (filter allowed ps))"

definition project_code :: "string \<Rightarrow> string \<Rightarrow> string" where
  "project_code year fresh = ''PRJ-'' @ year @ ''-'' @ to_upper (filter (\<lambda>ch. ch \<noteq> CHR ''-'') (take 8 fresh))"

definition client_usable :: "int option \<Rightarrow> node_client list \<Rightarrow> bool" where
  "client_usable client cs \<longleftrightarrow> list_ex (\<lambda>c. client = Some (nc_client_id c)) cs"

definition tunnel_usable :: "int option \<Rightarrow> managed_tunnel list \<Rightarrow> bool" where
  "tunnel_usable client ts \<longleftrightarrow> list_ex (\<lambda>t. client = Some (mt_id t) \<and> client = Some (mt_client_id t)) ts"

definition create_project_handler ::
  "'w node_port option \<Rightarrow> string \<Rightarrow> drawn \<Rightarrow> call \<Rightarrow> create_project_input option \<Rightarrow> 'w \<times> db \<Rightarrow> ('w \<times> db) \<times> project answer" where
  "create_project_handler nodes year d c body = (\<lambda>(w, db).
     case body of None \<Rightarrow> ((w, db), Inl (400, ''invalid_json''))
     | Some input \<Rightarrow> (let input = input\<lparr>cpr_networks := canonical_cidrs (cpr_networks input)\<rparr> in
       if validate_project input \<noteq> [] then ((w, db), Inl (422, ''validation_failed''))
       else case nodes of None \<Rightarrow> ((w, db), Inl (503, ''node_adapter_unavailable''))
       | Some np \<Rightarrow> (case np_clients np db (cpr_node_id input) w of
           (w, Inl e) \<Rightarrow> ((w, db), Inl (502, ''client_lookup_failed''))
         | (w, Inr cs) \<Rightarrow> if \<not> client_usable (cpr_client_id input) cs then ((w, db), Inl (422, ''client_not_found''))
           else case np_tunnels np db (cpr_node_id input) w of
             (w, Inl e) \<Rightarrow> ((w, db), Inl (502, ''tunnel_lookup_failed''))
           | (w, Inr ts) \<Rightarrow> if \<not> tunnel_usable (cpr_client_id input) ts then ((w, db), Inl (422, ''tunnel_not_found''))
             else case create_project (dw_id d ''project'') (dw_id d ''audit'') (\<lambda>i. dw_id d (indexed ''network'' i))
                 (dw_at d ''create'') (project_code year (dw_id d ''suffix'')) input
                 (audit_from_request c ''project.create'' ''project'') db of
               (db, Inl e) \<Rightarrow> ((w, db), Inl (409, ''project_create_failed''))
             | (db, Inr p) \<Rightarrow> ((w, db), Inr p))))"

definition project_update_faults :: "update_project_input \<Rightarrow> string list" where
  "project_update_faults i = named (blank (upr_name i)) ''name'' @ named (blank (upr_owner_name i)) ''ownerName''
     @ named (\<not> list_all ipv4_prefix (upr_networks i)) ''networks''"

definition update_project_handler ::
  "drawn \<Rightarrow> call \<Rightarrow> update_project_input option \<Rightarrow> db \<Rightarrow> db \<times> project answer" where
  "update_project_handler d c body db = (case body of None \<Rightarrow> (db, Inl (400, ''invalid_json''))
     | Some input \<Rightarrow> (let input = input\<lparr>upr_networks := canonical_cidrs (upr_networks input)\<rparr> in
       if project_update_faults input \<noteq> [] then (db, Inl (422, ''validation_failed''))
       else case update_project (dw_id d ''audit'') (\<lambda>i. dw_id d (indexed ''network'' i)) (dw_at d ''update'')
           (wildcard c ''projectID'') input (audit_from_request c ''project.update'' ''project'') db of
         (db, Inl e) \<Rightarrow> (db, Inl (409, ''project_update_failed'')) | (db, Inr p) \<Rightarrow> (db, Inr p)))"

text \<open>The unfinished scans of a project are cancelled in the manager and in the store, until one write fails.\<close>

fun cancel_jobs :: "drawn \<Rightarrow> discovery_job list \<Rightarrow> manager option \<times> db \<Rightarrow> (manager option \<times> db) \<times> unit answer" where
  "cancel_jobs d [] s = (s, Inr ())"
| "cancel_jobs d (j # js) (m, db) = (if job_status j = ''queued'' \<or> job_status j = ''running''
     then (let m = map_option (\<lambda>m. fst (cancel (job_id j) m)) m in
       case set_discovery_job_state (dw_at d (''cancel '' @ job_id j)) (job_id j) ''canceled'' (job_progress j) db of
         (db, Inl e) \<Rightarrow> ((m, db), Inl (500, ''discovery_cancel_failed''))
       | (db, Inr _) \<Rightarrow> cancel_jobs d js (m, db))
     else cancel_jobs d js (m, db))"

definition stop_project_tunnel :: "'w node_port option \<Rightarrow> project \<Rightarrow> 'w \<times> db \<Rightarrow> 'w \<times> unit answer" where
  "stop_project_tunnel nodes p = (\<lambda>(w, db). case (nodes, pr_client_id p) of
       (Some np, Some client) \<Rightarrow> (case np_set_tunnel np db (pr_node_id p) client False w of
           (w, Inl e) \<Rightarrow> (w, Inl (502, ''tunnel_stop_failed'')) | (w, Inr _) \<Rightarrow> (w, Inr ()))
     | _ \<Rightarrow> (w, Inr ()))"

definition delete_project_row :: "drawn \<Rightarrow> call \<Rightarrow> string \<Rightarrow> db \<Rightarrow> db \<times> unit answer" where
  "delete_project_row d c pid db = (case delete_project_op (dw_id d ''audit'') (dw_at d ''delete'') pid
       (audit_from_request c ''project.delete'' ''project'') db of
     (db, Inl e) \<Rightarrow> (db, Inl (if e = ErrInUse then (409, ''project_in_use'')
       else if e = ErrNotFound then (404, ''project_not_found'') else (500, ''project_delete_failed'')))
   | (db, Inr _) \<Rightarrow> (db, Inr ()))"

definition delete_project_handler ::
  "'w node_port option \<Rightarrow> drawn \<Rightarrow> call \<Rightarrow> 'w \<times> panel \<times> manager option
     \<Rightarrow> ('w \<times> panel \<times> manager option) \<times> cancel_func list answer" where
  "delete_project_handler nodes d c = (\<lambda>(w, pn, m). let pid = wildcard c ''projectID'' in
     case require_system_admin (cl_principal c) of Inl e \<Rightarrow> ((w, pn, m), Inl e)
     | Inr _ \<Rightarrow> (case project_by_id pid (pn_db pn) of
       Inl e \<Rightarrow> ((w, pn, m), Inl (if e = ErrNotFound then (404, ''project_not_found'') else (500, ''database_error'')))
     | Inr _ \<Rightarrow> (case close_resource_sessions nodes d c pid '''' (w, pn) of
       ((w, pn), Inl e) \<Rightarrow> ((w, pn, m), Inl e)
     | ((w, pn), Inr cancelled) \<Rightarrow> (case list_discovery_jobs pid (pn_db pn) of
       Inl e \<Rightarrow> ((w, pn, m), Inl (500, ''database_error''))
     | Inr jobs \<Rightarrow> (case cancel_jobs d jobs (m, pn_db pn) of
       ((m, db), Inl e) \<Rightarrow> ((w, pn\<lparr>pn_db := db\<rparr>, m), Inl e)
     | ((m, db), Inr _) \<Rightarrow> (case project_by_id pid db of
       Inl e \<Rightarrow> ((w, pn\<lparr>pn_db := db\<rparr>, m), Inl (500, ''database_error''))
     | Inr p \<Rightarrow> (case stop_project_tunnel nodes p (w, db) of
       (w, Inl e) \<Rightarrow> ((w, pn\<lparr>pn_db := db\<rparr>, m), Inl e)
     | (w, Inr _) \<Rightarrow> (case delete_project_row d c pid db of
       (db, r) \<Rightarrow> ((w, pn\<lparr>pn_db := db\<rparr>, m), map_sum id (\<lambda>_. cancelled) r)))))))))"

section \<open>Devices\<close>

definition shown_endpoint :: "bool \<Rightarrow> bool \<Rightarrow> device_endpoint \<Rightarrow> bool" where
  "shown_endpoint web ssh e \<longleftrightarrow>
     \<not> (de_access_type e = ''web_proxy'' \<and> \<not> web \<or> de_access_type e = ''web_ssh'' \<and> \<not> ssh)
     \<and> \<not> (de_access_type e \<noteq> ''web_proxy'' \<and> de_access_type e \<noteq> ''web_ssh'')"

definition hide_target :: "device_endpoint \<Rightarrow> device_endpoint" where
  "hide_target e = e\<lparr>de_target_port := 0, de_tls_server_name := '''', de_credential_configured := False,
     de_ssh_auth_method := '''', de_ssh_username := '''', de_ssh_key_path := '''', de_ssh_host_key_fingerprint := ''''\<rparr>"

definition list_devices_handler :: "drawn \<Rightarrow> call \<Rightarrow> db \<Rightarrow> device list answer" where
  "list_devices_handler d c db = (let p = cl_principal c; pid = wildcard c ''projectID'' in
     case list_devices pid db of
       Inl e \<Rightarrow> Inl (if e = ErrNotFound then (404, ''project_not_found'') else (500, ''database_error''))
     | Inr ds \<Rightarrow> if pr_bootstrap p \<or> pr_role p \<noteq> ''temporary'' then Inr ds
       else let web = has_policy_capability (pr_user_id p) pid ''web'' (dw_at d ''web'') db;
           ssh = has_policy_capability (pr_user_id p) pid ''webssh'' (dw_at d ''webssh'') db in
         Inr (filter (\<lambda>x. dv_endpoints x \<noteq> []) (map (\<lambda>x. x\<lparr>dv_host := '''',
           dv_endpoints := map hide_target (filter (shown_endpoint web ssh) (dv_endpoints x))\<rparr>) ds)))"

definition run_rollbacks :: "rollback list \<Rightarrow> db \<Rightarrow> db" where
  "run_rollbacks rbs db = fold run_rollback (rev rbs) db"

definition ssh_error :: "string \<Rightarrow> store_error" where
  "ssh_error why = ErrMsg (''ssh credential: '' @ why)"

definition with_credential :: "create_endpoint_input \<Rightarrow> string \<Rightarrow> string \<Rightarrow> string \<Rightarrow> string \<Rightarrow> create_endpoint_input" where
  "with_credential e reference kind username path = e\<lparr>ce_credential_ref := reference, ce_ssh_auth_method := kind,
     ce_ssh_username := username, ce_ssh_key_path := path, ce_ssh_credential := None\<rparr>"

text \<open>One endpoint: None where it brings no credential.\<close>

definition prepare_endpoint ::
  "vault_env option \<Rightarrow> (string \<Rightarrow> bool) \<Rightarrow> drawn \<Rightarrow> nat \<Rightarrow> create_endpoint_input \<Rightarrow> ssh_credential_input \<Rightarrow> db
     \<Rightarrow> db \<times> (create_endpoint_input \<times> rollback list) res" where
  "prepare_endpoint vault files d n e cred db = (let kind = trim_space (sc_method cred); username = trim_space (sc_username cred) in
     if username = '''' then (db, Inl (ssh_error ''user name is empty''))
     else let e = (if ce_id e = '''' then e\<lparr>ce_id := dw_id d (indexed ''endpoint'' n), ce_is_new := True\<rparr> else e);
         reference = (case endpoint_route_of (ce_id e) db of Inl _ \<Rightarrow> '''' | Inr r \<Rightarrow> rt_credential_ref r) in
     if kind = ''password'' then
       (case vault of None \<Rightarrow> (db, Inl (ssh_error ''vault is unavailable''))
        | Some v \<Rightarrow> (case vault_save_ssh v (dw_id d (indexed ''nonce'' n)) (ce_id e) reference
              \<lparr>shp_username = username, shp_password = sc_password cred\<rparr> db of
            (db, Inl err) \<Rightarrow> (db, Inl err)
          | (db, Inr (saved, rb)) \<Rightarrow> (db, Inr (with_credential e saved ''password'' username '''', [rb]))))
     else if kind = ''key'' then
       (let path = trim_space (sc_key_path cred) in
        if \<not> has_prefix path ''/'' then (db, Inl (ssh_error ''key path is not absolute''))
        else if \<not> files path then (db, Inl (ssh_error ''key file is not readable''))
        else (db, Inr (with_credential e (''file://'' @ path) ''key'' username path, [])))
     else (db, Inl (ssh_error ''kind method'')))"

fun prepare_ssh_credentials ::
  "vault_env option \<Rightarrow> (string \<Rightarrow> bool) \<Rightarrow> drawn \<Rightarrow> nat \<Rightarrow> create_endpoint_input list \<Rightarrow> rollback list \<Rightarrow> db
     \<Rightarrow> db \<times> (create_endpoint_input list \<times> rollback list) res" where
  "prepare_ssh_credentials vault files d n [] rbs db = (db, Inr ([], rbs))"
| "prepare_ssh_credentials vault files d n (e # es) rbs db =
     (case (if ce_protocol e \<noteq> ''ssh'' then None else ce_ssh_credential e) of
        None \<Rightarrow> (case prepare_ssh_credentials vault files d (Suc n) es rbs db of
            (db, Inl err) \<Rightarrow> (db, Inl err) | (db, Inr (es, rbs)) \<Rightarrow> (db, Inr (e # es, rbs)))
      | Some cred \<Rightarrow> (case prepare_endpoint vault files d n e cred db of
            (db, Inl err) \<Rightarrow> (run_rollbacks rbs db, Inl err)
          | (db, Inr (e, rb)) \<Rightarrow> (case prepare_ssh_credentials vault files d (Suc n) es (rbs @ rb) db of
              (db, Inl err) \<Rightarrow> (db, Inl err) | (db, Inr (es, rbs)) \<Rightarrow> (db, Inr (e # es, rbs)))))"

definition create_device_handler ::
  "vault_env option \<Rightarrow> (string \<Rightarrow> bool) \<Rightarrow> drawn \<Rightarrow> call \<Rightarrow> create_device_input option \<Rightarrow> db \<Rightarrow> db \<times> device answer" where
  "create_device_handler vault files d c body db = (let pid = wildcard c ''projectID'' in
     case body of None \<Rightarrow> (db, Inl (400, ''invalid_json''))
     | Some input \<Rightarrow> (let input = (if cd_source input = '''' then input\<lparr>cd_source := ''manual''\<rparr> else input) in
       case project_networks_of pid db of
         Inl e \<Rightarrow> (db, Inl (if e = ErrNotFound then (404, ''project_not_found'') else (500, ''database_error'')))
       | Inr _ \<Rightarrow> if validate_device input \<noteq> [] then (db, Inl (422, ''validation_failed''))
         else case prepare_ssh_credentials vault files d 0 (cd_endpoints input) [] db of
           (db, Inl e) \<Rightarrow> (db, Inl (422, ''ssh_credential_invalid''))
         | (db, Inr (es, rbs)) \<Rightarrow> (case create_device (dw_id d ''device'') (dw_id d ''audit'')
               (\<lambda>i. dw_id d (indexed ''fresh'' i)) (dw_at d ''create'') pid (input\<lparr>cd_endpoints := es\<rparr>)
               (audit_from_request c ''device.create'' ''device'') db of
             (db, Inl e) \<Rightarrow> (run_rollbacks rbs db, Inl (409, ''device_create_failed''))
           | (db, Inr dev) \<Rightarrow> (db, Inr dev))))"

text \<open>The loop over a batch; \<open>hosts\<close> are the addresses seen so far.\<close>

fun batch_faults :: "nat \<Rightarrow> string list \<Rightarrow> create_device_input list \<Rightarrow> string list" where
  "batch_faults n hosts [] = []"
| "batch_faults n hosts (x # xs) = map (\<lambda>k. indexed ''items'' n @ ''.'' @ k) (validate_device x)
     @ named (cd_host x \<in> set hosts) (indexed ''items'' n @ ''.host'')
     @ batch_faults (Suc n) (cd_host x # hosts) xs"

definition create_batch_handler ::
  "(nat \<Rightarrow> device_ids) \<Rightarrow> call \<Rightarrow> create_device_input list option \<Rightarrow> db \<Rightarrow> db \<times> device list answer" where
  "create_batch_handler ids c body db = (let pid = wildcard c ''projectID'' in
     case body of None \<Rightarrow> (db, Inl (400, ''invalid_json''))
     | Some items \<Rightarrow> if length items < 1 \<or> length items > 500 then (db, Inl (422, ''validation_failed''))
       else case project_networks_of pid db of
         Inl e \<Rightarrow> (db, Inl (if e = ErrNotFound then (404, ''project_not_found'') else (500, ''database_error'')))
       | Inr _ \<Rightarrow> (let items = map (\<lambda>x. if cd_source x = '''' then x\<lparr>cd_source := ''import''\<rparr> else x) items in
         if batch_faults 0 [] items \<noteq> [] then (db, Inl (422, ''validation_failed''))
         else case create_devices ids pid items (audit_from_request c ''device.batch_create'' ''device'') db of
           (db, Inl e) \<Rightarrow> (db, Inl (409, ''device_batch_create_failed'')) | (db, Inr ds) \<Rightarrow> (db, Inr ds)))"

text \<open>\<open>net.ParseIP\<close>: an address of either family without a zone.\<close>

definition valid_ip :: "string \<Rightarrow> bool" where
  "valid_ip s \<longleftrightarrow> (case parse_addr s of None \<Rightarrow> False | Some (V4 a) \<Rightarrow> True | Some (V6 b z) \<Rightarrow> z = '''')"

definition device_update_faults :: "update_device_input \<Rightarrow> string list" where
  "device_update_faults i = named (blank (ud_name i)) ''name''
     @ named (ud_host i \<noteq> '''' \<and> \<not> valid_ip (ud_host i)) ''host''
     @ (case ud_endpoints i of None \<Rightarrow> []
        | Some es \<Rightarrow> filter (\<lambda>k. k \<noteq> ''host'' \<and> k \<noteq> ''name'') (validate_device \<lparr>cd_host = ''127.0.0.1'', cd_name = ud_name i,
            cd_device_type = '''', cd_vendor = '''', cd_source = ''manual'', cd_endpoints = es\<rparr>))"

definition foreign_endpoint :: "device \<Rightarrow> update_device_input \<Rightarrow> bool" where
  "foreign_endpoint dev i \<longleftrightarrow> (case ud_endpoints i of None \<Rightarrow> False
     | Some es \<Rightarrow> list_ex (\<lambda>e. ce_id e \<noteq> '''' \<and> ce_id e \<notin> set (map de_id (dv_endpoints dev))) es)"

definition prepare_update ::
  "vault_env option \<Rightarrow> (string \<Rightarrow> bool) \<Rightarrow> drawn \<Rightarrow> update_device_input \<Rightarrow> db \<Rightarrow> db \<times> (update_device_input \<times> rollback list) res" where
  "prepare_update vault files d i db = (case ud_endpoints i of None \<Rightarrow> (db, Inr (i, []))
     | Some es \<Rightarrow> (case prepare_ssh_credentials vault files d 0 es [] db of
         (db, Inl e) \<Rightarrow> (db, Inl e) | (db, Inr (es, rbs)) \<Rightarrow> (db, Inr (i\<lparr>ud_endpoints := Some es\<rparr>, rbs))))"

definition update_device_handler ::
  "'w node_port option \<Rightarrow> vault_env option \<Rightarrow> (string \<Rightarrow> bool) \<Rightarrow> drawn \<Rightarrow> call \<Rightarrow> update_device_input option \<Rightarrow> 'w \<times> panel
     \<Rightarrow> ('w \<times> panel) \<times> (device \<times> cancel_func list) answer" where
  "update_device_handler nodes vault files d c body = (\<lambda>(w, pn). let pid = wildcard c ''projectID''; did = wildcard c ''deviceID'' in
     case body of None \<Rightarrow> ((w, pn), Inl (400, ''invalid_json''))
     | Some input \<Rightarrow> if device_update_faults input \<noteq> [] then ((w, pn), Inl (422, ''validation_failed''))
     else case list_devices pid (pn_db pn) of Inl e \<Rightarrow> ((w, pn), Inl (500, ''database_error''))
     | Inr ds \<Rightarrow> (case List.find (\<lambda>x. dv_id x = did) ds of None \<Rightarrow> ((w, pn), Inl (404, ''device_not_found''))
     | Some dev \<Rightarrow> if foreign_endpoint dev input then ((w, pn), Inl (422, ''invalid_endpoint''))
     else case prepare_update vault files d input (pn_db pn) of
       (db, Inl e) \<Rightarrow> ((w, pn\<lparr>pn_db := db\<rparr>), Inl (422, ''ssh_credential_invalid''))
     | (db, Inr (input, rbs)) \<Rightarrow> (case close_resource_sessions nodes d c pid did (w, pn\<lparr>pn_db := db\<rparr>) of
       ((w, pn), Inl e) \<Rightarrow> ((w, pn\<lparr>pn_db := run_rollbacks rbs (pn_db pn)\<rparr>), Inl e)
     | ((w, pn), Inr cancelled) \<Rightarrow> (case update_device (dw_id d ''audit'') (\<lambda>i. dw_id d (indexed ''fresh'' i)) (dw_at d ''update'')
           pid did input (audit_from_request c ''device.update'' ''device'') (pn_db pn) of
         (db, Inl e) \<Rightarrow> ((w, pn\<lparr>pn_db := run_rollbacks rbs db\<rparr>),
           Inl (if e = ErrNotFound then (404, ''device_not_found'') else (409, ''device_update_failed'')))
       | (db, Inr dev) \<Rightarrow> ((w, pn\<lparr>pn_db := db\<rparr>), Inr (dev, cancelled))))))"

definition delete_device_handler ::
  "'w node_port option \<Rightarrow> drawn \<Rightarrow> call \<Rightarrow> 'w \<times> panel \<Rightarrow> ('w \<times> panel) \<times> cancel_func list answer" where
  "delete_device_handler nodes d c s = (let pid = wildcard c ''projectID''; did = wildcard c ''deviceID'' in
     case close_resource_sessions nodes d c pid did s of
       (s, Inl e) \<Rightarrow> (s, Inl e)
     | ((w, pn), Inr cancelled) \<Rightarrow> (case delete_device_op (dw_id d ''audit'') (dw_at d ''delete'') pid did
           (audit_from_request c ''device.delete'' ''device'') (pn_db pn) of
         (db, Inl e) \<Rightarrow> ((w, pn\<lparr>pn_db := db\<rparr>), Inl (if e = ErrNotFound then (404, ''device_not_found'') else (409, ''device_in_use'')))
       | (db, Inr _) \<Rightarrow> ((w, pn\<lparr>pn_db := db\<rparr>), Inr cancelled)))"

text \<open>\<open>probe\<close> is \<open>Verify\<close> of the discovery manager. An endpoint is verified when a result has its protocol and port.\<close>

definition probed_statuses :: "device \<Rightarrow> probe_result list \<Rightarrow> (string \<times> bool) list" where
  "probed_statuses dev rs = (let keys = map (\<lambda>r. port_key (pr_protocol r) (pr_port r)) rs in
     map (\<lambda>e. (de_id e, port_key (de_protocol e) (de_target_port e) \<in> set keys)) (dv_endpoints dev))"

definition verify_device_handler ::
  "(discovery_route \<Rightarrow> string \<Rightarrow> discovery_port list \<Rightarrow> string + probe_result list) option \<Rightarrow> drawn \<Rightarrow> call \<Rightarrow> db
     \<Rightarrow> db \<times> (device \<times> nat \<times> int) answer" where
  "verify_device_handler prober d c db = (let pid = wildcard c ''projectID''; did = wildcard c ''deviceID'' in
     case prober of None \<Rightarrow> (db, Inl (503, ''discovery_unavailable''))
     | Some prober \<Rightarrow> (case list_devices pid db of
       Inl e \<Rightarrow> (db, Inl (if e = ErrNotFound then (404, ''project_not_found'') else (500, ''database_error'')))
     | Inr ds \<Rightarrow> (case List.find (\<lambda>x. dv_id x = did) ds of None \<Rightarrow> (db, Inl (404, ''device_not_found''))
     | Some dev \<Rightarrow> if dv_endpoints dev = [] then (db, Inl (422, ''device_has_no_endpoints''))
     else case discovery_route_of pid db of Inl e \<Rightarrow> (db, Inl (409, ''gateway_not_bound''))
     | Inr route \<Rightarrow> (case prober route (dv_host dev) (map (\<lambda>e. \<lparr>dp_port = de_target_port e, dp_protocol = de_protocol e,
           dp_name = de_name e\<rparr>) (dv_endpoints dev)) of
       Inl why \<Rightarrow> (db, Inl (502, ''device_verify_failed''))
     | Inr rs \<Rightarrow> (case verify_device_endpoints (dw_id d ''audit'') (dw_at d ''verify'') pid did (probed_statuses dev rs)
           (audit_from_request c ''device.verify'' ''device'') db of
         (db, Inl e) \<Rightarrow> (db, Inl (if e = ErrNotFound then (404, ''device_not_found'') else (500, ''device_verify_store_failed'')))
       | (db, Inr dev') \<Rightarrow> (db, Inr (dev', length rs, int (length (dv_endpoints dev)) - int (length rs))))))))"

section \<open>A refused device leaves no credential behind\<close>

definition without_credentials :: "db \<Rightarrow> db" where
  "without_credentials db = db\<lparr>t_node_credentials := []\<rparr>"

definition same_content :: "db \<Rightarrow> db \<Rightarrow> bool" where
  "same_content db db' \<longleftrightarrow> (\<forall>k. node_credential k db' = node_credential k db)
     \<and> without_credentials db' = without_credentials db"

text \<open>From every database with the content of \<open>db\<close> the rollbacks lead back to the content of \<open>db0\<close>.\<close>

definition undoes :: "rollback list \<Rightarrow> db \<Rightarrow> db \<Rightarrow> bool" where
  "undoes rbs db0 db \<longleftrightarrow> (\<forall>db'. same_content db db' \<longrightarrow> same_content db0 (run_rollbacks rbs db'))"

lemma same_content_refl [simp]: "same_content db db"
  by (simp add: same_content_def)

lemma undoes_Nil [simp]: "undoes [] db db"
  by (simp add: undoes_def run_rollbacks_def)

lemma without_credentials_simps [simp]:
  "without_credentials (save_node_credential k n c db) = without_credentials db"
  "without_credentials (delete_node_credential k db) = without_credentials db"
  by (simp_all add: without_credentials_def save_node_credential_def delete_node_credential_def delete_node_credentials_def)

lemma rollback_of_save:
  assumes "same_content (save_node_credential k n c db) db'"
  shows "same_content db (run_rollback (Put_back k (node_credential k db)) db')"
proof -
  have same: "node_credential j db' = (if j = k then Inr (n, c) else node_credential j db)" for j
    using assms by (simp add: same_content_def node_credential_save)
  have "node_credential j (run_rollback (Put_back k (node_credential k db)) db') = node_credential j db" for j
    by (cases "node_credential k db")
       (auto simp: put_back_def node_credential_save node_credential_delete same dest: creds.load_error)
  moreover have "without_credentials (run_rollback (Put_back k (node_credential k db)) db') = without_credentials db"
    using assms by (simp add: put_back_def same_content_def split: sum.splits prod.splits)
  ultimately show ?thesis by (simp add: same_content_def)
qed

lemma undoes_more:
  assumes "undoes rbs db0 db" and "\<And>x. same_content db' x \<Longrightarrow> same_content db (run_rollback rb x)"
  shows "undoes (rbs @ [rb]) db0 db'"
  using assms by (simp add: undoes_def run_rollbacks_def)

lemma prepare_endpoint_undone:
  assumes "undoes rbs db0 db" "prepare_endpoint vault files d n e cred db = (db', r)"
  shows "case r of Inl err \<Rightarrow> same_content db0 (run_rollbacks rbs db') | Inr (e', rb) \<Rightarrow> undoes (rbs @ rb) db0 db'"
proof -
  have "r = Inl err \<Longrightarrow> db' = db" for err
    using assms(2) by (auto simp: prepare_endpoint_def Let_def vault_save_ssh_def store_sealed_def
        split: if_splits option.splits prod.splits sum.splits)
  moreover have "db' = db \<and> rb = [] \<or> (\<exists>k n c. db' = save_node_credential k n c db \<and> rb = [Put_back k (node_credential k db)])"
    if "r = Inr (e', rb)" for e' rb
    using assms(2) that by (auto simp: prepare_endpoint_def Let_def vault_save_ssh_def store_sealed_def
        split: if_splits option.splits prod.splits sum.splits)
  moreover have "same_content db0 (run_rollbacks rbs db)" using assms(1) by (simp add: undoes_def)
  moreover have "undoes (rbs @ [Put_back k (node_credential k db)]) db0 (save_node_credential k n c db)" for k n c
    by (rule undoes_more[OF assms(1) rollback_of_save])
  ultimately show ?thesis using assms(1) by (cases r) (fastforce)+
qed

lemma prepare_ssh_credentials_undone:
  "undoes rbs db0 db \<Longrightarrow> prepare_ssh_credentials vault files d n es rbs db = (db', r)
    \<Longrightarrow> case r of Inl err \<Rightarrow> same_content db0 db' | Inr (es', rbs') \<Rightarrow> undoes rbs' db0 db'"
proof (induction es arbitrary: n rbs db db' r)
  case (Cons e es)
  show ?case
  proof (cases "if ce_protocol e \<noteq> ''ssh'' then None else ce_ssh_credential e")
    case None
    obtain db1 r1 where step: "prepare_ssh_credentials vault files d (Suc n) es rbs db = (db1, r1)" by fastforce
    show ?thesis using Cons.IH[OF Cons.prems(1) step] Cons.prems(2) None step
      by (cases r1) (auto split: prod.splits)
  next
    case (Some cred)
    obtain db1 r1 where first: "prepare_endpoint vault files d n e cred db = (db1, r1)" by fastforce
    note one = prepare_endpoint_undone[OF Cons.prems(1) first]
    show ?thesis
    proof (cases r1)
      case (Inl err)
      then show ?thesis using one Cons.prems(2) Some first by auto
    next
      case (Inr x)
      obtain e' rb where x: "x = (e', rb)" by fastforce
      obtain db2 r2 where step: "prepare_ssh_credentials vault files d (Suc n) es (rbs @ rb) db1 = (db2, r2)" by fastforce
      have "undoes (rbs @ rb) db0 db1" using one Inr x by simp
      from Cons.IH[OF this step] show ?thesis using Cons.prems(2) Some first Inr x step
        by (cases r2) (auto split: prod.splits)
    qed
  qed
qed (simp)

text \<open>C15. A refused creation of a device leaves the database as it was: every reference to a credential finds
what it found before, also where an SSH credential of the request replaced one in between, and the other tables
are unchanged.\<close>

theorem refused_device_undone:
  assumes "create_device_handler vault files d c body db = (db', Inl refused)"
  shows "(\<forall>k. node_credential k db' = node_credential k db) \<and> without_credentials db' = without_credentials db"
proof -
  have half: "same_content db db1" if "prepare_ssh_credentials vault files d 0 es [] db = (db1, Inl e)" for es db1 e
    using prepare_ssh_credentials_undone[OF undoes_Nil that] by simp
  have full: "same_content db (run_rollbacks rbs db1)"
    if "prepare_ssh_credentials vault files d 0 es [] db = (db1, Inr (es', rbs))" for es es' rbs db1
    using prepare_ssh_credentials_undone[OF undoes_Nil that] by (simp add: undoes_def)
  have "same_content db db'"
    using assms by (auto simp: create_device_handler_def Let_def create_device_def run_tx_Inl_iff intro: half full
        split: option.splits sum.splits if_splits prod.splits)
  then show ?thesis by (simp add: same_content_def)
qed

definition taken_device :: create_device_input where
  "taken_device = demo_new_device\<lparr>cd_host := ''10.0.0.5'', cd_endpoints := [(demo_endpoint_input ''e1'' ''ssh'' 22)
     \<lparr>ce_ssh_credential := Some \<lparr>sc_method = ''password'', sc_username = ''root'', sc_password = ''new'', sc_key_path = ''''\<rparr>\<rparr>]\<rparr>"

definition sealed_db :: db where
  "sealed_db = save_node_credential ''ssh-e1'' ''n'' ''old'' demo_db"

lemma taken_device_valid: "validate_device taken_device = []"
  by (simp add: validate_device_def taken_device_def demo_new_device_def demo_endpoint_input_def endpoint_faults_def blank_def
      trim_space_def is_space_def parse_addr_def parse_v4_def parse_octets_def parse_octet_def is_digit_def less_eq_char_def
      text_value_def digit_of_def supported_endpoint_protocol_def port_key_inj Let_def)

lemma taken_prepared:
  "(case prepare_ssh_credentials (Some demo_env) (\<lambda>_. False) demo_drawn 0 (cd_endpoints taken_device) [] sealed_db of
     (db1, Inl e) \<Rightarrow> False
   | (db1, Inr (es, rbs)) \<Rightarrow> isl (snd (create_device (dw_id demo_drawn ''device'') (dw_id demo_drawn ''audit'')
        (\<lambda>i. dw_id demo_drawn (indexed ''fresh'' i)) (dw_at demo_drawn ''create'') ''p1'' (taken_device\<lparr>cd_endpoints := es\<rparr>)
        (audit_from_request resource_call ''device.create'' ''device'') db1)))"
  by code_simp

theorem refused_device_undone_witness:
  "node_credential ''ssh-e1'' (fst (prepare_ssh_credentials (Some demo_env) (\<lambda>_. False) demo_drawn 0 (cd_endpoints taken_device) []
       sealed_db)) \<noteq> Inr (''n'', ''old'')
   \<and> node_credential ''ssh-e1'' (fst (create_device_handler (Some demo_env) (\<lambda>_. False) demo_drawn resource_call
       (Some taken_device) sealed_db)) = Inr (''n'', ''old'')"
proof -
  obtain db' r where outcome: "create_device_handler (Some demo_env) (\<lambda>_. False) demo_drawn resource_call (Some taken_device) sealed_db
      = (db', r)" by fastforce
  have "\<not> isl (project_networks_of ''p1'' sealed_db)" "wildcard resource_call ''projectID'' = ''p1''"
    "cd_source taken_device \<noteq> ''''" by code_simp+
  then have "isl r" using outcome taken_device_valid taken_prepared
    by (auto simp: create_device_handler_def Let_def split: sum.splits prod.splits)
  then obtain e where "r = Inl e" by (cases r) auto
  from refused_device_undone[OF outcome[unfolded this]]
  have "node_credential ''ssh-e1'' db' = Inr (''n'', ''old'')" by (simp add: sealed_db_def node_credential_save)
  moreover have "node_credential ''ssh-e1'' (fst (prepare_ssh_credentials (Some demo_env) (\<lambda>_. False) demo_drawn 0
      (cd_endpoints taken_device) [] sealed_db)) \<noteq> Inr (''n'', ''old'')" by code_simp
  ultimately show ?thesis using outcome by simp
qed

end
