(* ===== verification/ApiNodes.thy ===== *)
theory ApiNodes
  imports ApiResources
begin

text \<open>
  The handlers of nodes, their clients and their tunnels of \<open>api/api.go\<close>, and the snapshot of the monitor.

  The vault may be absent, as \<open>nodeCredentials\<close> may be nil. \<open>parse_uri\<close> is \<open>url.ParseRequestURI\<close>, scheme and
  host of what it accepts. A generated secret is that of \<open>new_nps_compatible_secret\<close>, so a handler that needs one
  has no value when the random source rejects every byte for ever.
\<close>

section \<open>Nodes\<close>

definition hide_topology :: "node \<Rightarrow> node" where
  "hide_topology n = n\<lparr>nd_api_url := '''', nd_tls_server_name := '''', nd_credential_configured := False,
     nd_port_start := 0, nd_port_end := 0\<rparr>"

definition sees_project :: "drawn \<Rightarrow> principal \<Rightarrow> db \<Rightarrow> project \<Rightarrow> bool" where
  "sees_project d p db x \<longleftrightarrow> (if pr_role p = ''temporary''
     then temporary_access (dw_at d (''policy '' @ pr_id x)) (pr_user_id p) (pr_id x) db
     else can_access_project p (pr_id x))"

definition list_nodes_handler :: "drawn \<Rightarrow> call \<Rightarrow> db \<Rightarrow> node list" where
  "list_nodes_handler d c db = (let p = cl_principal c in
     if is_system_admin p then list_nodes db
     else let allowed = map pr_node_id (filter (sees_project d p db) (list_projects db)) in
       map hide_topology (filter (\<lambda>n. nd_id n \<in> set allowed) (list_nodes db)))"

record save_node_request =
  sn_input :: create_node_input
  sn_enabled :: "bool option"
  sn_credential :: "node_credential_patch option"

text \<open>The credential of a request: the reference it gets and its rollback; None where it brings none.\<close>

definition save_credential ::
  "vault_env option \<Rightarrow> drawn \<Rightarrow> string \<Rightarrow> string \<Rightarrow> node_credential_patch \<Rightarrow> db \<Rightarrow> db \<times> (string \<times> rollback) answer" where
  "save_credential vault d nid reference patch db = (case vault of
       None \<Rightarrow> (db, Inl (503, ''credential_store_unavailable''))
     | Some v \<Rightarrow> (case vault_save v (dw_id d ''nonce'') nid reference patch db of
         (db, Inl e) \<Rightarrow> (db, Inl (422, ''credential_invalid'')) | (db, Inr x) \<Rightarrow> (db, Inr x)))"

definition create_node_handler ::
  "vault_env option \<Rightarrow> (string \<Rightarrow> (string \<times> string) option) \<Rightarrow> drawn \<Rightarrow> call \<Rightarrow> save_node_request option \<Rightarrow> db
     \<Rightarrow> db \<times> node answer" where
  "create_node_handler vault parse_uri d c body db = (case body of None \<Rightarrow> (db, Inl (400, ''invalid_json''))
     | Some request \<Rightarrow> (let input = (sn_input request)\<lparr>cn_id := dw_id d ''node''\<rparr> in
       case (case sn_credential request of None \<Rightarrow> (db, Inr (cn_credential_ref input, []))
           | Some patch \<Rightarrow> (case save_credential vault d (cn_id input) '''' patch db of
               (db, Inl e) \<Rightarrow> (db, Inl e) | (db, Inr (reference, rb)) \<Rightarrow> (db, Inr (reference, [rb])))) of
         (db, Inl e) \<Rightarrow> (db, Inl e)
       | (db, Inr (reference, rbs)) \<Rightarrow> (let input = input\<lparr>cn_credential_ref := reference\<rparr> in
           if validate_node parse_uri input \<noteq> [] then (run_rollbacks rbs db, Inl (422, ''validation_failed''))
           else case create_node (dw_id d ''fresh'') (dw_id d ''audit'') (dw_at d ''create'') input
               (audit_from_request c ''node.create'' ''node'') db of
             (db, Inl e) \<Rightarrow> (run_rollbacks rbs db, Inl (409, ''node_create_failed''))
           | (db, Inr n) \<Rightarrow> (db, Inr n))))"

text \<open>The check of an update reads the own reference of the node where the request brings no credential.\<close>

definition update_credential ::
  "vault_env option \<Rightarrow> drawn \<Rightarrow> string \<Rightarrow> save_node_request \<Rightarrow> db \<Rightarrow> db \<times> (string \<times> rollback list) answer" where
  "update_credential vault d nid request db = (case sn_credential request of
       None \<Rightarrow> (db, Inr (cn_credential_ref (sn_input request), []))
     | Some patch \<Rightarrow> if vault = None then (db, Inl (503, ''credential_store_unavailable''))
       else case node_credential_reference nid db of
         Inl e \<Rightarrow> (db, Inl (if e = ErrNotFound then (404, ''node_not_found'') else (500, ''database_error'')))
       | Inr reference \<Rightarrow> (case save_credential vault d nid reference patch db of
           (db, Inl e) \<Rightarrow> (db, Inl e) | (db, Inr (reference, rb)) \<Rightarrow> (db, Inr (reference, [rb]))))"

definition update_node_handler ::
  "vault_env option \<Rightarrow> (string \<Rightarrow> (string \<times> string) option) \<Rightarrow> drawn \<Rightarrow> call \<Rightarrow> save_node_request option \<Rightarrow> db
     \<Rightarrow> db \<times> node answer" where
  "update_node_handler vault parse_uri d c body db = (let nid = wildcard c ''nodeID'' in
     case body of None \<Rightarrow> (db, Inl (400, ''invalid_json''))
     | Some request \<Rightarrow> (case update_credential vault d nid request db of
         (db, Inl e) \<Rightarrow> (db, Inl e)
       | (db, Inr (reference, rbs)) \<Rightarrow> (let input = (sn_input request)\<lparr>cn_credential_ref := reference\<rparr>;
             examined = (if reference = '''' then input\<lparr>cn_credential_ref := ''db://node/'' @ nid\<rparr> else input) in
           if validate_node parse_uri examined \<noteq> [] then (run_rollbacks rbs db, Inl (422, ''validation_failed''))
           else case update_node (dw_id d ''audit'') (dw_at d ''update'') nid input (sn_enabled request)
               (audit_from_request c ''node.update'' ''node'') db of
             (db, Inl e) \<Rightarrow> (run_rollbacks rbs db,
               Inl (if e = ErrNotFound then (404, ''node_not_found'') else (409, ''node_update_failed'')))
           | (db, Inr n) \<Rightarrow> (db, Inr n))))"

definition delete_node_handler :: "vault_env option \<Rightarrow> drawn \<Rightarrow> call \<Rightarrow> db \<Rightarrow> db \<times> unit answer" where
  "delete_node_handler vault d c db = (let nid = wildcard c ''nodeID'' in
     case delete_node_op (dw_id d ''audit'') (dw_at d ''delete'') nid (audit_from_request c ''node.delete'' ''node'') db of
       (db, Inl e) \<Rightarrow> (db, Inl (if e = ErrNotFound then (404, ''node_not_found'') else (409, ''node_in_use'')))
     | (db, Inr _) \<Rightarrow> (if vault = None then db else vault_delete nid db, Inr ()))"

definition node_health_handler :: "'w node_port option \<Rightarrow> call \<Rightarrow> 'w \<times> db \<Rightarrow> ('w \<times> db) \<times> bool answer" where
  "node_health_handler nodes c = (\<lambda>(w, db). case nodes of
       None \<Rightarrow> ((w, db), Inl (503, ''node_adapter_unavailable''))
     | Some np \<Rightarrow> (case np_health np db (wildcard c ''nodeID'') w of (s, reachable) \<Rightarrow> (s, Inr reachable)))"

section \<open>The monitor\<close>

record node_snapshot =
  ns_node_id :: string
  ns_name :: string
  ns_status :: string
  ns_reachable :: bool
  ns_latency :: int
  ns_tunnel_count :: nat
  ns_running_tunnels :: nat
  ns_inlet :: int
  ns_export :: int
  ns_checked_at :: instant

record monitor_snapshot =
  ms_collected_at :: instant
  ms_database_status :: string
  ms_node_total :: nat
  ms_node_reachable :: nat
  ms_tunnel_total :: nat
  ms_tunnel_running :: nat
  ms_active_sessions :: nat
  ms_running_forwards :: nat
  ms_inlet :: int
  ms_export :: int
  ms_nodes :: "node_snapshot list"

text \<open>\<open>ask\<close> is what the concurrent request to a node finds: its tunnels or the error, when it started and when it
ended. Each request writes only the entry of its node.\<close>

definition snapshot_of_node ::
  "(string \<Rightarrow> managed_tunnel list res \<times> instant \<times> instant) option \<Rightarrow> instant \<Rightarrow> node \<Rightarrow> node_snapshot" where
  "snapshot_of_node ask collected n = (let
     e = \<lparr>ns_node_id = nd_id n, ns_name = nd_name n, ns_status = ''maintenance'', ns_reachable = False, ns_latency = 0,
       ns_tunnel_count = 0, ns_running_tunnels = 0, ns_inlet = 0, ns_export = 0, ns_checked_at = collected\<rparr> in
     if \<not> nd_enabled n then e
     else case ask of None \<Rightarrow> e\<lparr>ns_status := ''unavailable''\<rparr>
     | Some ask \<Rightarrow> (case ask (nd_id n) of (r, started, ended) \<Rightarrow>
       (let e = e\<lparr>ns_checked_at := ended, ns_latency := (ended - started) div 1000000\<rparr> in
        case r of Inl why \<Rightarrow> e\<lparr>ns_status := ''unreachable''\<rparr>
        | Inr ts \<Rightarrow> e\<lparr>ns_status := ''healthy'', ns_reachable := True, ns_tunnel_count := length ts,
            ns_running_tunnels := length (filter mt_running ts), ns_inlet := sum_list (map mt_inlet ts),
            ns_export := sum_list (map mt_export ts)\<rparr>)))"

definition monitor_snapshot_handler ::
  "access_env \<Rightarrow> (string \<Rightarrow> managed_tunnel list res \<times> instant \<times> instant) option \<Rightarrow> drawn \<Rightarrow> call \<Rightarrow> db \<Rightarrow> monitor_snapshot answer" where
  "monitor_snapshot_handler env ask d c db = (case require_system_admin (cl_principal c) of Inl e \<Rightarrow> Inl e
     | Inr _ \<Rightarrow> (let ns = list_nodes db;
         sessions = list_active_access_sessions (dw_at d ''store'') (dw_at d ''sessions'' - access_session_idle_ttl env) db;
         forwards = concat (map (\<lambda>p. list_port_forwards (pr_id p) db) (list_projects db));
         collected = dw_at d ''collected'';
         es = map (snapshot_of_node ask collected) ns in
       Inr \<lparr>ms_collected_at = collected, ms_database_status = ''ready'', ms_node_total = length ns,
         ms_node_reachable = length (filter ns_reachable es), ms_tunnel_total = sum_list (map ns_tunnel_count es),
         ms_tunnel_running = sum_list (map ns_running_tunnels es), ms_active_sessions = length sessions,
         ms_running_forwards = length (filter (\<lambda>f. fwd_status f = ''running'') forwards),
         ms_inlet = sum_list (map ns_inlet es), ms_export = sum_list (map ns_export es), ms_nodes = es\<rparr>))"

section \<open>Clients\<close>

definition node_clients_handler :: "'w node_port option \<Rightarrow> call \<Rightarrow> 'w \<times> db \<Rightarrow> 'w \<times> node_client list answer" where
  "node_clients_handler nodes c = (\<lambda>(w, db). case nodes of None \<Rightarrow> (w, Inl (503, ''node_adapter_unavailable''))
     | Some np \<Rightarrow> (case np_clients np db (wildcard c ''nodeID'') w of
         (w, Inl e) \<Rightarrow> (w, Inl (502, ''node_request_failed'')) | (w, Inr cs) \<Rightarrow> (w, Inr cs)))"

definition client_id_of :: "call \<Rightarrow> int option" where
  "client_id_of c = (case atoi (wildcard c ''clientID'') of None \<Rightarrow> None | Some i \<Rightarrow> if i < 1 then None else Some i)"

definition client_credentials_handler ::
  "'w node_port option \<Rightarrow> drawn \<Rightarrow> call \<Rightarrow> 'w \<times> db \<Rightarrow> ('w \<times> db) \<times> client_credentials answer" where
  "client_credentials_handler nodes d c = (\<lambda>(w, db). let nid = wildcard c ''nodeID'' in
     case require_system_admin (cl_principal c) of Inl e \<Rightarrow> ((w, db), Inl e)
     | Inr _ \<Rightarrow> (case nodes of None \<Rightarrow> ((w, db), Inl (503, ''node_adapter_unavailable''))
     | Some np \<Rightarrow> (case client_id_of c of None \<Rightarrow> ((w, db), Inl (422, ''validation_failed''))
     | Some client \<Rightarrow> (case np_credentials np db nid client w of
         (w, Inl e) \<Rightarrow> ((w, db), Inl (502, ''node_request_failed''))
       | (w, Inr creds) \<Rightarrow> (case append_audit (dw_id d ''audit'') (dw_at d ''audit'')
             ((audit_from_request c ''node_client.credentials.read'' ''node_client'')
               \<lparr>ai_resource_id := nid @ '':'' @ itoa client\<rparr>) db of
           (db, Inl e) \<Rightarrow> ((w, db), Inl (500, ''audit_write_failed''))
         | (db, Inr _) \<Rightarrow> ((w, db), Inr creds))))))"

record new_client_request =
  kq_remark :: string
  kq_username :: string
  kq_password :: string
  kq_verify_key :: string

text \<open>The number of runes of a UTF-8 text: the bytes that continue no rune.\<close>

definition rune_count :: "string \<Rightarrow> nat" where
  "rune_count s = length (filter (\<lambda>ch. of_char ch div 64 \<noteq> (2::nat)) s)"

definition client_faulty :: "new_client_request \<Rightarrow> bool" where
  "client_faulty i \<longleftrightarrow> kq_remark i = '''' \<or> rune_count (kq_remark i) > 120
     \<or> kq_username i = '''' \<or> rune_count (kq_username i) > 120 \<or> rune_count (kq_password i) > 256
     \<or> kq_verify_key i \<noteq> '''' \<and> rune_count (kq_verify_key i) < 8 \<or> rune_count (kq_verify_key i) > 256"

definition zero_client :: node_client where
  "zero_client = \<lparr>nc_client_id = 0, nc_remark = '''', nc_address = '''', nc_client_enabled = False, nc_connected = False,
     nc_version = '''', nc_inlet = 0, nc_export = 0\<rparr>"

text \<open>The attempts: the key, and what the variables \<open>client\<close> and \<open>err\<close> hold after the loop. Drawing a new key
overwrites the error of the attempt before.\<close>

fun client_attempts ::
  "(string \<Rightarrow> 'w \<Rightarrow> 'w \<times> node_client res) \<Rightarrow> bool \<Rightarrow> (nat \<Rightarrow> nat \<Rightarrow> 8 word list res) \<Rightarrow> nat \<Rightarrow> nat \<Rightarrow> string
     \<Rightarrow> node_client res \<Rightarrow> 'w \<Rightarrow> ('w \<times> string \<times> node_client res) option" where
  "client_attempts create generated rand n 0 key held w = Some (w, key, held)"
| "client_attempts create generated rand n (Suc left) key held w = (case create key w of (w, r) \<Rightarrow>
     if r \<noteq> Inl duplicate_verify_key \<or> \<not> generated then Some (w, key, r)
     else case new_nps_compatible_secret (rand n) 16 of
       None \<Rightarrow> None
     | Some (Inl e) \<Rightarrow> Some (w, '''', Inl e)
     | Some (Inr key) \<Rightarrow> client_attempts create generated rand (Suc n) left key (Inr zero_client) w)"

definition record_client ::
  "'w node_port \<Rightarrow> drawn \<Rightarrow> call \<Rightarrow> new_client_request \<Rightarrow> string \<Rightarrow> node_client \<Rightarrow> 'w \<times> db
     \<Rightarrow> ('w \<times> db) \<times> (node_client \<times> client_credentials) answer" where
  "record_client np d c i key client = (\<lambda>(w, db). let nid = wildcard c ''nodeID'' in
     case append_audit (dw_id d ''audit'') (dw_at d ''audit'') ((audit_from_request c ''node_client.create'' ''node_client'')
         \<lparr>ai_resource_id := nid @ '':'' @ itoa (nc_client_id client), ai_metadata := Parsed (JObject
           [(''clientId'', JNumber (itoa (nc_client_id client))), (''nodeId'', JString nid), (''remark'', JString (kq_remark i))])\<rparr>) db of
       (db, Inl e) \<Rightarrow> ((fst (np_delete_client np db nid (nc_client_id client) w), db), Inl (500, ''audit_write_failed''))
     | (db, Inr _) \<Rightarrow> ((w, db), Inr (client, \<lparr>cc_username = kq_username i, cc_password = kq_password i, cc_verify_key = key\<rparr>)))"

definition secret_if :: "bool \<Rightarrow> (nat \<Rightarrow> 8 word list res) \<Rightarrow> string \<Rightarrow> string res option" where
  "secret_if wanted rand own = (if wanted then new_nps_compatible_secret rand 16 else Some (Inr own))"

text \<open>The buffers \<open>rand 0\<close> serve the password, \<open>rand 1\<close> the first key and \<open>rand 2\<close> on the later keys.\<close>

definition create_client_handler ::
  "'w node_port option \<Rightarrow> (nat \<Rightarrow> nat \<Rightarrow> 8 word list res) \<Rightarrow> drawn \<Rightarrow> call \<Rightarrow> new_client_request option \<Rightarrow> 'w \<times> db
     \<Rightarrow> (('w \<times> db) \<times> (node_client \<times> client_credentials) answer) option" where
  "create_client_handler nodes rand d c body = (\<lambda>(w, db). let nid = wildcard c ''nodeID'' in
     case require_system_admin (cl_principal c) of Inl e \<Rightarrow> Some ((w, db), Inl e)
     | Inr _ \<Rightarrow> (case nodes of None \<Rightarrow> Some ((w, db), Inl (503, ''node_adapter_unavailable''))
     | Some np \<Rightarrow> (case body of None \<Rightarrow> Some ((w, db), Inl (400, ''invalid_json''))
     | Some i \<Rightarrow> (let i = i\<lparr>kq_remark := trim_space (kq_remark i), kq_username := trim_space (kq_username i),
           kq_verify_key := trim_space (kq_verify_key i)\<rparr>; generated = (kq_verify_key i = '''') in
       if client_faulty i then Some ((w, db), Inl (422, ''validation_failed''))
       else case secret_if (kq_password i = '''') (rand 0) (kq_password i) of
         None \<Rightarrow> None
       | Some (Inl e) \<Rightarrow> Some ((w, db), Inl (500, ''credential_generation_failed''))
       | Some (Inr password) \<Rightarrow> (case secret_if generated (rand 1) (kq_verify_key i) of
         None \<Rightarrow> None
       | Some (Inl e) \<Rightarrow> Some ((w, db), Inl (500, ''credential_generation_failed''))
       | Some (Inr key) \<Rightarrow> (case client_attempts
             (\<lambda>key. np_create_client np db nid (kq_remark i) key (kq_username i) password) generated rand 2 5 key (Inr zero_client) w of
         None \<Rightarrow> None
       | Some (w, key, Inl e) \<Rightarrow> Some ((w, db), Inl (if e = duplicate_verify_key then (409, ''verify_key_conflict'')
             else (502, ''client_create_failed'')))
       | Some (w, key, Inr client) \<Rightarrow> Some (record_client np d c (i\<lparr>kq_password := password\<rparr>) key client (w, db))))))))"

section \<open>Tunnels\<close>

definition managed_tunnels_handler :: "'w node_port option \<Rightarrow> call \<Rightarrow> 'w \<times> db \<Rightarrow> 'w \<times> managed_tunnel list answer" where
  "managed_tunnels_handler nodes c = (\<lambda>(w, db). case nodes of None \<Rightarrow> (w, Inl (503, ''node_adapter_unavailable''))
     | Some np \<Rightarrow> (case np_tunnels np db (wildcard c ''nodeID'') w of
         (w, Inl e) \<Rightarrow> (w, Inl (502, ''node_request_failed'')) | (w, Inr ts) \<Rightarrow> (w, Inr ts)))"

definition set_tunnel_handler ::
  "'w node_port option \<Rightarrow> drawn \<Rightarrow> call \<Rightarrow> 'w \<times> db \<Rightarrow> ('w \<times> db) \<times> managed_tunnel answer" where
  "set_tunnel_handler nodes d c = (\<lambda>(w, db). let nid = wildcard c ''nodeID''; action = wildcard c ''action'' in
     case nodes of None \<Rightarrow> ((w, db), Inl (503, ''node_adapter_unavailable''))
     | Some np \<Rightarrow> (case client_id_of c of None \<Rightarrow> ((w, db), Inl (422, ''validation_failed''))
     | Some client \<Rightarrow> if action \<noteq> ''start'' \<and> action \<noteq> ''stop'' then ((w, db), Inl (404, ''not_found''))
       else case np_set_tunnel np db nid client (action = ''start'') w of
         (w, Inl e) \<Rightarrow> ((w, db), Inl (502, ''tunnel_operation_failed''))
       | (w, Inr _) \<Rightarrow> (case append_audit (dw_id d ''audit'') (dw_at d ''audit'')
             ((audit_from_request c (''managed_tunnel.'' @ action) ''managed_tunnel'')
               \<lparr>ai_resource_id := nid @ '':socks5:'' @ itoa client\<rparr>) db of
           (db, Inl e) \<Rightarrow> ((w, db), Inl (500, ''audit_write_failed''))
         | (db, Inr _) \<Rightarrow> (case np_tunnel_status np db nid client w of
             (w, Inl e) \<Rightarrow> ((w, db), Inl (502, ''tunnel_status_failed'')) | (w, Inr t) \<Rightarrow> ((w, db), Inr t)))))"

section \<open>What is answered about a new client\<close>

lemma client_attempts_known:
  assumes "client_attempts create generated rand n left key held w = Some (w', key', Inr client)" "left > 0"
  shows "(\<exists>w1. snd (create key' w1) = Inr client) \<or> generated \<and> client = zero_client"
  using assms
proof (induction left arbitrary: n key held w)
  case (Suc left)
  obtain w1 r where r: "create key w = (w1, r)" by fastforce
  show ?case
  proof (cases "r \<noteq> Inl duplicate_verify_key \<or> \<not> generated")
    case True
    then have "key' = key \<and> r = Inr client" using Suc.prems(1) r by auto
    then have "snd (create key' w) = Inr client" using r by simp
    then show ?thesis by blast
  next
    case False
    then obtain next_key where "client_attempts create generated rand (Suc n) left next_key (Inr zero_client) w1
        = Some (w', key', Inr client)"
      using Suc.prems(1) r by (auto split: option.splits sum.splits)
    then show ?thesis using Suc.IH False by (cases "left = 0") auto
  qed
qed simp

text \<open>A key is drawn again only while the node calls the last one a duplicate; each later key of the fixed buffers
is the secret they give.\<close>

lemma client_attempts_duplicates:
  assumes "\<And>key w. create key w = (w, Inl duplicate_verify_key)"
    and "\<And>k. k < left \<Longrightarrow> new_nps_compatible_secret (rand (n + k)) 16 = Some (Inr (secrets k))" "left > 0"
  shows "client_attempts create True rand n left key held w = Some (w, secrets (left - 1), Inr zero_client)"
  using assms(2,3)
proof (induction left arbitrary: n key held secrets)
  case (Suc left)
  have now: "new_nps_compatible_secret (rand n) 16 = Some (Inr (secrets 0))" using Suc.prems(1)[of 0] by simp
  show ?case
  proof (cases "left = 0")
    case True
    then show ?thesis using now assms(1) by simp
  next
    case False
    have "client_attempts create True rand (Suc n) left (secrets 0) (Inr zero_client) w
        = Some (w, secrets (Suc (left - 1)), Inr zero_client)"
      using Suc.IH[of "Suc n" "\<lambda>k. secrets (Suc k)" "secrets 0" "Inr zero_client"] Suc.prems(1)[of "Suc _"] False by simp
    moreover have "client_attempts create True rand n (Suc left) key held w
        = client_attempts create True rand (Suc n) left (secrets 0) (Inr zero_client) w"
      using now assms(1)[of key w] by simp
    ultimately show ?thesis using False by simp
  qed
qed simp

lemma append_audit_fresh: "distinct (aid # map al_id (t_audit_logs db)) \<Longrightarrow> succeeded (append_audit aid at a db)"
  by (auto simp: append_audit_def insert_audit_def put_audit_logs_def audit_logs_rules_def succeeded_iff)

lemma record_client_Inr:
  "record_client np d c i key client (w, db) = ((w', db'), Inr (client', creds))
    \<Longrightarrow> client' = client \<and> creds = \<lparr>cc_username = kq_username i, cc_password = kq_password i, cc_verify_key = key\<rparr>"
  by (auto simp: record_client_def Let_def split: prod.splits sum.splits)

text \<open>Who may create a client, and what the answer says: a client that the node returned for the key, the user name
and the password handed out, unless all attempts with generated keys failed.\<close>

theorem created_client_known:
  assumes "create_client_handler (Some np) rand d c (Some i) (w, db) = Some ((w', db'), Inr (client, creds))"
  shows "is_system_admin (cl_principal c)
    \<and> ((\<exists>w1. snd (np_create_client np db (wildcard c ''nodeID'') (trim_space (kq_remark i)) (cc_verify_key creds)
          (cc_username creds) (cc_password creds) w1) = Inr client)
       \<or> client = zero_client \<and> trim_space (kq_verify_key i) = '''')"
  using assms
  by (auto simp: create_client_handler_def Let_def require_system_admin_def split: option.splits sum.splits if_splits
      dest!: record_client_Inr client_attempts_known)

text \<open>C16. After five generated keys in a row that the node knows already, the handler answers that a client was
created: drawing the key for a sixth attempt, which is never made, clears the error. No client exists under the
credentials it hands out, and the audit log records client 0.\<close>

theorem five_duplicates_reported_created:
  assumes admin: "is_system_admin (cl_principal c)" and ok: "\<not> client_faulty i"
    and given: "trim_space (kq_remark i) = kq_remark i" "trim_space (kq_username i) = kq_username i"
      "kq_verify_key i = ''''" "kq_password i \<noteq> ''''"
    and refuses: "\<And>key w. np_create_client np db (wildcard c ''nodeID'') (kq_remark i) key (kq_username i) (kq_password i) w
      = (w, Inl duplicate_verify_key)"
    and drawn: "\<And>k. k < 6 \<Longrightarrow> new_nps_compatible_secret (rand (Suc k)) 16 = Some (Inr (secrets k))"
    and audit: "distinct (dw_id d ''audit'' # map al_id (t_audit_logs db))"
  shows "\<exists>db'. create_client_handler (Some np) rand d c (Some i) (w, db) = Some ((w, db'), Inr (zero_client,
    \<lparr>cc_username = kq_username i, cc_password = kq_password i, cc_verify_key = secrets 5\<rparr>))"
proof -
  have same: "i\<lparr>kq_verify_key := ''''\<rparr> = i" using given(3) by (cases i) simp
  have blank: "trim_space '''' = ''''" by (simp add: trim_space_def)
  have "client_attempts (\<lambda>key. np_create_client np db (wildcard c ''nodeID'') (kq_remark i) key (kq_username i) (kq_password i))
      True rand 2 5 key held w = Some (w, secrets 5, Inr zero_client)" for key held
    using client_attempts_duplicates[OF refuses, of 5 rand 2 "\<lambda>k. secrets (Suc k)"] drawn[of "Suc _"] by simp
  moreover have "\<exists>db'. record_client np d c (i\<lparr>kq_password := kq_password i\<rparr>) key zero_client (w, db) = ((w, db'), Inr (zero_client,
      \<lparr>cc_username = kq_username i, cc_password = kq_password i, cc_verify_key = key\<rparr>))" for key
    using append_audit_fresh[OF audit]
    by (auto simp: record_client_def Let_def succeeded_iff split: prod.splits sum.splits) (metis Inl_Inr_False snd_conv)
  ultimately show ?thesis
    using admin ok given drawn[of 0]
    by (simp add: create_client_handler_def require_system_admin_def secret_if_def Let_def same blank)
qed

definition full_node_request :: new_client_request where
  "full_node_request = \<lparr>kq_remark = ''site'', kq_username = ''user'', kq_password = ''pw'', kq_verify_key = ''''\<rparr>"

definition full_node_call :: call where
  "full_node_call = resource_call\<lparr>cl_principal := bootstrap_principal\<rparr>"

theorem five_duplicates_reported_created_witness:
  "\<exists>db'. create_client_handler (Some demo_port) (\<lambda>k j. Inr (replicate 16 0)) demo_drawn full_node_call (Some full_node_request)
      ([], demo_db) = Some (([], db'), Inr (zero_client, \<lparr>cc_username = ''user'', cc_password = ''pw'',
      cc_verify_key = replicate 16 CHR ''0''\<rparr>))"
proof -
  have "new_nps_compatible_secret (\<lambda>j. Inr (replicate 16 0)) 16 = Some (Inr (replicate 16 CHR ''0''))"
    using nps_loop_returns[of "''''" 16 0 1 "\<lambda>j. Inr (replicate 16 0)"]
    by (simp add: new_nps_compatible_secret_def accepted_bytes_def symbol_of_def nps_alphabet_def)
  moreover have "is_system_admin (cl_principal full_node_call)" "\<not> client_faulty full_node_request"
    "distinct (dw_id demo_drawn ''audit'' # map al_id (t_audit_logs demo_db))" by code_simp+
  ultimately show ?thesis
    using five_duplicates_reported_created[of full_node_call full_node_request demo_port demo_db
        "\<lambda>k j. Inr (replicate 16 0)" "\<lambda>k. replicate 16 CHR ''0''" demo_drawn "[]"]
    by (simp add: full_node_request_def demo_port_def trim_space_def is_space_def)
qed

end
