(* ===== verification/ApiDiscovery.thy ===== *)
theory ApiDiscovery
  imports ApiForwards
begin

text \<open>
  The handlers of scan ports and of discovery of \<open>api/api.go\<close>. A job is created in the store and then started in
  the discovery manager, which refuses scopes that are too large.
\<close>

section \<open>Scan ports\<close>

definition get_scan_ports_handler :: "call \<Rightarrow> db \<Rightarrow> discovery_port list answer" where
  "get_scan_ports_handler c db = (case project_scan_ports (wildcard c ''projectID'') db of
     Inl e \<Rightarrow> Inl (if e = ErrNotFound then (404, ''project_not_found'') else (500, ''database_error''))
   | Inr ps \<Rightarrow> Inr ps)"

definition update_scan_ports_handler ::
  "drawn \<Rightarrow> call \<Rightarrow> discovery_port list option \<Rightarrow> db \<Rightarrow> db \<times> discovery_port list answer" where
  "update_scan_ports_handler d c body db = (case body of None \<Rightarrow> (db, Inl (400, ''invalid_json''))
     | Some ports \<Rightarrow> if validate_discovery_ports ports \<noteq> [] then (db, Inl (422, ''validation_failed''))
       else case replace_project_scan_ports (dw_id d ''audit'') (dw_at d ''update'') (wildcard c ''projectID'') ports
           (audit_from_request c ''project.scan_ports.update'' ''project'') db of
         (db, Inl e) \<Rightarrow> (db, Inl (if e = ErrNotFound then (404, ''project_not_found'') else (409, ''scan_ports_update_failed'')))
       | (db, Inr _) \<Rightarrow> (db, Inr ports))"

section \<open>Jobs\<close>

record discovery_request =
  dq_networks :: "string list"
  dq_ports :: "discovery_port list"

text \<open>What the request leaves out is taken from the project.\<close>

definition completed_request :: "string \<Rightarrow> discovery_route \<Rightarrow> discovery_request \<Rightarrow> db \<Rightarrow> discovery_request res" where
  "completed_request pid route input db = (let
     networks = canonical_cidrs (if dq_networks input = [] then dro_networks route else dq_networks input) in
     if dq_ports input = [] then attempt (project_scan_ports pid db) (\<lambda>ps. Inr \<lparr>dq_networks = networks, dq_ports = ps\<rparr>)
     else Inr \<lparr>dq_networks = networks, dq_ports = dq_ports input\<rparr>)"

definition create_discovery_handler ::
  "drawn \<Rightarrow> call \<Rightarrow> discovery_request option \<Rightarrow> manager option \<times> db \<Rightarrow> (manager option \<times> db) \<times> discovery_job answer" where
  "create_discovery_handler d c body = (\<lambda>(mgr, db). let pid = wildcard c ''projectID'' in
     case mgr of None \<Rightarrow> ((None, db), Inl (503, ''discovery_unavailable''))
     | Some m \<Rightarrow> (case discovery_route_of pid db of
       Inl e \<Rightarrow> ((mgr, db), Inl (if e = ErrNotFound then (404, ''project_not_found'') else (500, ''database_error'')))
     | Inr route \<Rightarrow> (case body of None \<Rightarrow> ((mgr, db), Inl (400, ''invalid_json''))
     | Some input \<Rightarrow> (case completed_request pid route input db of
       Inl e \<Rightarrow> ((mgr, db), Inl (500, ''database_error''))
     | Inr input \<Rightarrow>
       if validate_discovery_input (dq_networks input) (dq_ports input) (dro_networks route) \<noteq> []
       then ((mgr, db), Inl (422, ''validation_failed''))
       else case create_discovery_job (dw_id d ''job'') (dw_id d ''audit'') (dw_at d ''create'') pid (dq_networks input)
           (dq_ports input) (audit_from_request c ''discovery.create'' ''discovery_job'') db of
         (db, Inl e) \<Rightarrow> ((mgr, db), Inl (409, ''discovery_create_failed''))
       | (db, Inr job) \<Rightarrow> (case start job route m of
           Inl why \<Rightarrow> ((mgr, fst (set_discovery_job_state (dw_at d ''failed'') (job_id job) ''failed'' 0 db)),
             Inl (422, ''discovery_start_failed''))
         | Inr (m, probes) \<Rightarrow> ((Some m, db), Inr job))))))"

definition list_discovery_handler :: "call \<Rightarrow> db \<Rightarrow> discovery_job list answer" where
  "list_discovery_handler c db = (case list_discovery_jobs (wildcard c ''projectID'') db of
     Inl e \<Rightarrow> Inl (500, ''database_error'') | Inr js \<Rightarrow> Inr js)"

definition get_discovery_handler :: "call \<Rightarrow> db \<Rightarrow> (discovery_job \<times> discovery_result list) answer" where
  "get_discovery_handler c db = (case discovery_job_by_id (wildcard c ''jobID'') db of
     Inl e \<Rightarrow> Inl (if e = ErrNotFound then (404, ''discovery_not_found'') else (500, ''database_error''))
   | Inr job \<Rightarrow> Inr (job, list_discovery_results (job_id job) db))"

definition cancel_discovery_handler ::
  "drawn \<Rightarrow> call \<Rightarrow> manager option \<times> db \<Rightarrow> (manager option \<times> db) \<times> string answer" where
  "cancel_discovery_handler d c = (\<lambda>(mgr, db). let jid = wildcard c ''jobID'' in
     case discovery_job_by_id jid db of
       Inl e \<Rightarrow> ((mgr, db), Inl (if e = ErrNotFound then (404, ''discovery_not_found'') else (500, ''database_error'')))
     | Inr job \<Rightarrow> (let mgr = map_option (\<lambda>m. fst (cancel jid m)) mgr in
         case set_discovery_job_state (dw_at d ''cancel'') jid ''canceled'' 0 db of
           (db, Inl e) \<Rightarrow> if e = ErrNotFound then ((mgr, db), Inr jid) else ((mgr, db), Inl (500, ''database_error''))
         | (db, Inr _) \<Rightarrow> ((mgr, db), Inr jid)))"

definition import_faults :: "discovery_job \<Rightarrow> create_device_input \<Rightarrow> string list" where
  "import_faults job i = (let fields = validate_device i in
     fields @ named (''host'' \<notin> set fields \<and> \<not> address_allowed_by_cidrs (cd_host i) (job_networks job)) ''host''
     @ named (cd_endpoints i = []) ''endpoints'')"

definition import_discovery_handler :: "drawn \<Rightarrow> call \<Rightarrow> create_device_input option \<Rightarrow> db \<Rightarrow> db \<times> device answer" where
  "import_discovery_handler d c body db = (case discovery_job_by_id (wildcard c ''jobID'') db of
       Inl e \<Rightarrow> (db, Inl (if e = ErrNotFound then (404, ''discovery_not_found'') else (500, ''database_error'')))
     | Inr job \<Rightarrow> (case body of None \<Rightarrow> (db, Inl (400, ''invalid_json''))
     | Some input \<Rightarrow> (let input = input\<lparr>cd_source := ''discovery''\<rparr> in
       if import_faults job input \<noteq> [] then (db, Inl (422, ''validation_failed''))
       else case import_discovery_device (dw_id d ''device'') (dw_id d ''audit'') (\<lambda>i. dw_id d (indexed ''fresh'' i))
           (dw_at d ''import'') (job_id job) input (audit_from_request c ''discovery.import'' ''device'') db of
         (db, Inl e) \<Rightarrow> (db, Inl (if e = ErrNotFound then (404, ''discovery_result_not_found'')
           else (409, ''discovery_import_failed'')))
       | (db, Inr dev) \<Rightarrow> (db, Inr dev))))"

section \<open>A scan stays inside the networks of its project\<close>

lemma scanned_network:
  assumes "canonical_form n" "parse_prefix n = Some (V4 base, bits)"
  shows "parse_discovery_prefix n = Some (mask_v4 bits base, bits)"
proof -
  have "parse_addr n \<noteq> Some (V4 a)" for a using v4_addr_no_prefix[of n a] assms(2) by auto
  then show ?thesis using assms
    by (auto simp: parse_discovery_prefix_def canonical_form_def Let_def split: option.splits addr.splits)
qed

lemma accepted_task_in_scope:
  assumes "validate_discovery_input networks ports allowed = []" "list_all canonical_form networks"
    and "t \<in> set (job_tasks networks ports)"
  shows "\<exists>x. pt_host t = v4_text x \<and> address_allowed_by_cidrs (v4_text x) allowed"
proof -
  from assms(3) obtain x n a bits where t: "pt_host t = v4_text x" "n \<in> set networks"
      "parse_discovery_prefix n = Some (a, bits)" "in_prefix a bits x"
    unfolding job_tasks_of_hosts hosts_of_networks by blast
  have "list_all (\<lambda>n. case parse_prefix n of None \<Rightarrow> False | Some (a, bits) \<Rightarrow> is_4 a \<and> network_allowed allowed (a, bits)) networks"
    using assms(1) by (simp add: validate_discovery_input_def named_def split: if_splits)
  then obtain b bits' where p: "parse_prefix n = Some (b, bits')" "is_4 b"
    using t(2) by (auto simp: list_all_iff split: option.splits)
  then obtain base where base: "parse_prefix n = Some (V4 base, bits')" by (cases b) auto
  have "canonical_form n" using assms(2) t(2) by (simp add: list_all_iff)
  then have "in_prefix base bits' x" using scanned_network[OF _ base] t(3,4) by (simp add: in_prefix_mask)
  with request_network_in_scope[OF assms(1) t(2) base this] t(1) show ?thesis by blast
qed

text \<open>C17. A discovery job that the handler starts belongs to the project of the request, is queued, and probes at most
two million combinations of an address and a port, each address inside the scan networks of the project at that time,
whether the request named the networks or left them to the project.\<close>

theorem started_scan_in_project:
  assumes "create_discovery_handler d c body (mgr, db) = ((mgr', db'), Inr job)"
    and "discovery_route_of (wildcard c ''projectID'') db = Inr route"
  shows "job_project_id job = wildcard c ''projectID''
    \<and> exists_row (\<lambda>r. dj_id r = job_id job \<and> dj_project_id r = job_project_id job \<and> dj_status r = ''queued'') (t_jobs db')
    \<and> length (job_tasks (job_networks job) (job_ports job)) \<le> 2000000
    \<and> (\<forall>t\<in>set (job_tasks (job_networks job) (job_ports job)).
         \<exists>x. pt_host t = v4_text x \<and> address_allowed_by_cidrs (v4_text x) (dro_networks route))"
proof -
  obtain m input0 input m' probes where s: "completed_request (wildcard c ''projectID'') route input0 db = Inr input"
    "validate_discovery_input (dq_networks input) (dq_ports input) (dro_networks route) = []"
    "create_discovery_job (dw_id d ''job'') (dw_id d ''audit'') (dw_at d ''create'') (wildcard c ''projectID'')
       (dq_networks input) (dq_ports input) (audit_from_request c ''discovery.create'' ''discovery_job'') db = (db', Inr job)"
    "start job route m = Inr (m', probes)"
    using assms by (auto simp: create_discovery_handler_def Let_def split: option.splits sum.splits prod.splits if_splits)
  have job: "job_networks job = dq_networks input" "job_ports job = dq_ports input" "job_project_id job = wildcard c ''projectID''"
    and row: "exists_row (\<lambda>r. dj_id r = job_id job \<and> dj_project_id r = job_project_id job \<and> dj_status r = ''queued'') (t_jobs db')"
    using s(3) by (auto simp: create_discovery_job_def run_tx_Inr_iff attempt_Inr_iff put_Inr insert_audit_def)
  have canon: "list_all canonical_form (dq_networks input)"
    using s(1) canonical_loop_forms by (auto simp: completed_request_def Let_def attempt_Inr_iff split: if_splits)
  obtain hosts where h: "count_hosts (job_networks job) = Some hosts" "probes = hosts * int (length (job_ports job))" "probes \<le> 2000000"
    using s(4) by (auto simp: start_def Let_def max_probes_def split: if_splits option.splits)
  have "int (length (job_tasks (job_networks job) (job_ports job))) = probes"
    using count_hosts_length[OF h(1)] h(2) by (simp add: length_job_tasks)
  then have "length (job_tasks (job_networks job) (job_ports job)) \<le> 2000000" using h(3) by linarith
  then show ?thesis using job row accepted_task_in_scope[OF s(2) canon] by simp
qed

definition demo_scan_request :: discovery_request where
  "demo_scan_request = \<lparr>dq_networks = [''10.0.0.7''], dq_ports = [\<lparr>dp_port = 22, dp_protocol = ''ssh'', dp_name = ''SSH''\<rparr>]\<rparr>"

lemma demo_canonical:
  "parse_addr ''10.0.0.7'' = Some (V4 167772167)" "v4_text 167772167 = ''10.0.0.7''"
  "parse_prefix ''10.0.0.7/32'' = Some (V4 167772167, 32)" "parse_addr ''10.0.0.7/32'' = None"
proof -
  have "char_of (48::nat) = CHR ''0''" "char_of (49::nat) = CHR ''1''" "char_of (55::nat) = CHR ''7''" by code_simp+
  then show "parse_addr ''10.0.0.7'' = Some (V4 167772167)" "v4_text 167772167 = ''10.0.0.7''"
    "parse_prefix ''10.0.0.7/32'' = Some (V4 167772167, 32)" "parse_addr ''10.0.0.7/32'' = None"
    by (simp_all add: parse_addr_def parse_v4_def parse_octets_def parse_octet_def is_digit_def less_eq_char_def
        text_value_def digit_of_def digits_value_def parse_prefix_def split_slash_def atoi_def parse_digits_def v4_text_def
        digits_numeral nat_text.simps digit_char_def join_with_def)
qed

lemma demo_scan_accepted:
  "canonical_cidrs [''10.0.0.7''] = [''10.0.0.7/32'']"
  "validate_discovery_input [''10.0.0.7/32''] (dq_ports demo_scan_request) [''10.0.0.0/24''] = []"
  "count_hosts [''10.0.0.7/32''] = Some 1"
  by (simp_all add: canonical_cidrs_def canonical_cidr_def demo_canonical demo_prefixes trim_space_def is_space_def
      validate_discovery_input_def network_allowed_def in_prefix_def named_def blank_def validate_discovery_ports_def
      supported_discovery_protocol_def to_lower_def lower_char_def less_eq_char_def demo_scan_request_def
      parse_discovery_prefix_def Let_def)

lemma demo_scan_created:
  "case create_discovery_job ''job'' ''audit'' 1 ''p1'' [''10.0.0.7/32''] (dq_ports demo_scan_request)
       (audit_from_request resource_call ''discovery.create'' ''discovery_job'') demo_db of
     (db', Inl e) \<Rightarrow> False
   | (db', Inr job) \<Rightarrow> job_networks job = [''10.0.0.7/32''] \<and> job_ports job = dq_ports demo_scan_request \<and> job_id job = ''job''"
  by code_simp

theorem started_scan_in_project_witness:
  "\<exists>m' db' job. create_discovery_handler demo_drawn resource_call (Some demo_scan_request) (Some \<lparr>mg_running = []\<rparr>, demo_db)
      = ((m', db'), Inr job) \<and> job_tasks (job_networks job) (job_ports job) \<noteq> []
    \<and> (\<exists>t\<in>set (job_tasks (job_networks job) (job_ports job)). \<exists>x. pt_host t = v4_text x \<and> address_allowed_by_cidrs (v4_text x) [''10.0.0.0/24''])"
proof -
  have route: "discovery_route_of (wildcard resource_call ''projectID'') demo_db
      = Inr \<lparr>dro_project_id = ''p1'', dro_node_id = ''n1'', dro_client_id = 7, dro_networks = [''10.0.0.0/24'']\<rparr>"
    and pid: "wildcard resource_call ''projectID'' = ''p1''" by code_simp+
  have drawn: "dw_id demo_drawn = (\<lambda>s. s)" "dw_at demo_drawn = (\<lambda>_. 1)" by (simp_all add: demo_drawn_def)
  have req: "dq_networks demo_scan_request = [''10.0.0.7'']" "dq_ports demo_scan_request \<noteq> []" by (simp_all add: demo_scan_request_def)
  obtain db' job where created: "create_discovery_job ''job'' ''audit'' 1 ''p1'' [''10.0.0.7/32''] (dq_ports demo_scan_request)
       (audit_from_request resource_call ''discovery.create'' ''discovery_job'') demo_db = (db', Inr job)"
    "job_networks job = [''10.0.0.7/32'']" "job_ports job = dq_ports demo_scan_request" "job_id job = ''job''"
    using demo_scan_created by (auto split: prod.splits sum.splits)
  have one: "length (job_ports job) = 1" by (simp add: created(3) demo_scan_request_def)
  have run: "create_discovery_handler demo_drawn resource_call (Some demo_scan_request) (Some \<lparr>mg_running = []\<rparr>, demo_db)
      = ((Some \<lparr>mg_running = [''job'']\<rparr>, db'), Inr job)"
  proof -
    have "start job \<lparr>dro_project_id = ''p1'', dro_node_id = ''n1'', dro_client_id = 7, dro_networks = [''10.0.0.0/24'']\<rparr>
        \<lparr>mg_running = []\<rparr> = Inr (\<lparr>mg_running = [''job'']\<rparr>, 1)"
      using one req(2) by (simp add: start_def created(2-4) demo_scan_accepted max_probes_def del: count_hosts.simps)
    moreover have "completed_request ''p1'' \<lparr>dro_project_id = ''p1'', dro_node_id = ''n1'', dro_client_id = 7,
        dro_networks = [''10.0.0.0/24'']\<rparr> demo_scan_request demo_db
        = Inr \<lparr>dq_networks = [''10.0.0.7/32''], dq_ports = dq_ports demo_scan_request\<rparr>"
      using req by (simp add: completed_request_def demo_scan_accepted)
    ultimately show ?thesis
      by (simp add: create_discovery_handler_def route[unfolded pid] pid drawn demo_scan_accepted created(1))
  qed
  have "job_tasks (job_networks job) (job_ports job) \<noteq> []"
    using count_hosts_length[OF demo_scan_accepted(3)] one by (simp add: created(2) length_job_tasks flip: length_greater_0_conv)
  then obtain t where t: "t \<in> set (job_tasks (job_networks job) (job_ports job))" by fastforce
  with started_scan_in_project[OF run route] have "\<exists>x. pt_host t = v4_text x \<and> address_allowed_by_cidrs (v4_text x) [''10.0.0.0/24'']"
    by simp
  then show ?thesis using run t by fastforce
qed

end
