(* ===== verification/ApiPolicies.thy ===== *)
theory ApiPolicies
  imports ApiForwards
begin

text \<open>
  The handlers of access policies and of the two logs of \<open>api/api.go\<close>, with their export as CSV.

  \<open>csv_text\<close> is what \<open>encoding/csv\<close> writes and \<open>csv_read\<close> a reader of RFC 4180; \<open>stamp\<close> is \<open>time.Format\<close> with
  RFC 3339 and \<open>metadata_text\<close> the stored JSON text of an entry.
\<close>

section \<open>Policies\<close>

record policy_request =
  po_name :: string
  po_project_ids :: "string list"
  po_user_ids :: "string list"
  po_capabilities :: "string list"
  po_valid_from :: "instant option"
  po_valid_until :: "instant option"
  po_enabled :: "bool option"

definition list_policies_handler :: "call \<Rightarrow> db \<Rightarrow> access_policy list answer" where
  "list_policies_handler c db = (case require_system_admin (cl_principal c) of Inl e \<Rightarrow> Inl e
     | Inr _ \<Rightarrow> (case list_access_policies db of Inl e \<Rightarrow> Inl (500, ''database_error'') | Inr ps \<Rightarrow> Inr ps))"

text \<open>The role of a user, empty where there is none.\<close>

definition role_of_user :: "db \<Rightarrow> string \<Rightarrow> string" where
  "role_of_user db uid = (case List.find (\<lambda>u. usr_id u = uid) (list_users db) of None \<Rightarrow> '''' | Some u \<Rightarrow> usr_role u)"

definition policy_faults :: "policy_request \<Rightarrow> db \<Rightarrow> string list" where
  "policy_faults i db =
     named (blank (po_name i)) ''name''
   @ named (po_project_ids i = []) ''projectIds''
   @ named (po_user_ids i = []) ''userIds''
   @ named (po_capabilities i = []) ''capabilities''
   @ named (\<not> list_all (\<lambda>k. k = ''web'' \<or> k = ''webssh'') (po_capabilities i) \<or> \<not> distinct (po_capabilities i)) ''capabilities''
   @ named (list_ex (\<lambda>u. role_of_user db u \<noteq> ''temporary'') (po_user_ids i)) ''userIds''
   @ named (case (po_valid_from i, po_valid_until i) of (Some a, Some b) \<Rightarrow> \<not> a < b | _ \<Rightarrow> False) ''validUntil''"

definition policy_input :: "policy_request \<Rightarrow> save_policy_input" where
  "policy_input i = \<lparr>si_name = po_name i, si_project_ids = po_project_ids i, si_user_ids = po_user_ids i,
     si_capabilities = po_capabilities i, si_valid_from = po_valid_from i, si_valid_until = po_valid_until i,
     si_enabled = (case po_enabled i of None \<Rightarrow> True | Some b \<Rightarrow> b)\<rparr>"

definition save_policy_handler ::
  "drawn \<Rightarrow> call \<Rightarrow> string \<Rightarrow> policy_request option \<Rightarrow> db \<Rightarrow> db \<times> access_policy answer" where
  "save_policy_handler d c policy_id body db = (case require_system_admin (cl_principal c) of Inl e \<Rightarrow> (db, Inl e)
     | Inr _ \<Rightarrow> (case body of None \<Rightarrow> (db, Inl (400, ''invalid_json''))
     | Some i \<Rightarrow> if policy_faults i db \<noteq> [] then (db, Inl (422, ''validation_failed''))
       else case (if policy_id = '''' then create_access_policy (dw_id d ''policy'') (dw_id d ''audit'') (dw_at d ''save'')
               (policy_input i) (audit_from_request c ''access_policy.create'' ''access_policy'') db
           else update_access_policy (dw_id d ''audit'') (dw_at d ''save'') policy_id (policy_input i)
               (audit_from_request c ''access_policy.update'' ''access_policy'') db) of
         (db, Inl e) \<Rightarrow> (db, Inl (if e = ErrNotFound then (404, ''policy_not_found'') else (409, ''policy_save_failed'')))
       | (db, Inr p) \<Rightarrow> (db, Inr p)))"

definition create_policy_handler :: "drawn \<Rightarrow> call \<Rightarrow> policy_request option \<Rightarrow> db \<Rightarrow> db \<times> access_policy answer" where
  "create_policy_handler d c = save_policy_handler d c ''''"

definition update_policy_handler :: "drawn \<Rightarrow> call \<Rightarrow> policy_request option \<Rightarrow> db \<Rightarrow> db \<times> access_policy answer" where
  "update_policy_handler d c = save_policy_handler d c (wildcard c ''policyID'')"

definition delete_policy_handler :: "drawn \<Rightarrow> call \<Rightarrow> db \<Rightarrow> db \<times> unit answer" where
  "delete_policy_handler d c db = (case require_system_admin (cl_principal c) of Inl e \<Rightarrow> (db, Inl e)
     | Inr _ \<Rightarrow> (case delete_access_policy (dw_id d ''audit'') (dw_at d ''delete'') (wildcard c ''policyID'')
         (audit_from_request c ''access_policy.delete'' ''access_policy'') db of
       (db, Inl e) \<Rightarrow> (db, Inl (if e = ErrNotFound then (404, ''policy_not_found'') else (500, ''policy_delete_failed'')))
     | (db, Inr _) \<Rightarrow> (db, Inr ())))"

section \<open>Listing the logs\<close>

definition query_get :: "call \<Rightarrow> string \<Rightarrow> string" where
  "query_get c name = (case map_of (rq_query (ar_http (cl_request c))) name of Some (v # vs) \<Rightarrow> v | _ \<Rightarrow> '''')"

record 'r log_page =
  lp_items :: "'r list"
  lp_limit :: int
  lp_offset :: int

definition list_audit_handler :: "call \<Rightarrow> db \<Rightarrow> audit_row log_page answer" where
  "list_audit_handler c db = (case require_system_admin (cl_principal c) of Inl e \<Rightarrow> Inl e
     | Inr _ \<Rightarrow> (let limit = atoi_or_bound (query_get c ''limit''); offset = atoi_or_bound (query_get c ''offset'') in
       Inr \<lparr>lp_items = list_audit_logs (trim_space (query_get c ''search'')) (trim_space (query_get c ''category'')) limit offset db,
         lp_limit = limit, lp_offset = offset\<rparr>))"

definition list_access_logs_handler :: "call \<Rightarrow> db \<Rightarrow> access_log_row log_page answer" where
  "list_access_logs_handler c db = (case require_system_admin (cl_principal c) of Inl e \<Rightarrow> Inl e
     | Inr _ \<Rightarrow> (let limit = atoi_or_bound (query_get c ''limit''); offset = atoi_or_bound (query_get c ''offset'') in
       Inr \<lparr>lp_items = list_access_logs (trim_space (query_get c ''search'')) limit offset db,
         lp_limit = limit, lp_offset = offset\<rparr>))"

section \<open>CSV\<close>

definition starts_with_space :: "string \<Rightarrow> bool" where
  "starts_with_space s \<longleftrightarrow> (case s of [] \<Rightarrow> False | ch # r \<Rightarrow> is_space ch \<or> list_ex (has_prefix s) wide_spaces)"

definition field_needs_quotes :: "string \<Rightarrow> bool" where
  "field_needs_quotes f \<longleftrightarrow> f \<noteq> '''' \<and> (f = [CHR 0x5C, CHR ''.''] \<or> list_ex (\<lambda>ch. ch \<in> {CHR '','', CHR 0x22, CHR 0x0D, CHR 0x0A}) f
     \<or> starts_with_space f)"

definition csv_field :: "string \<Rightarrow> string" where
  "csv_field f = (if field_needs_quotes f
     then CHR 0x22 # concat (map (\<lambda>ch. if ch = CHR 0x22 then [CHR 0x22, CHR 0x22] else [ch]) f) @ [CHR 0x22] else f)"

definition csv_line :: "string list \<Rightarrow> string" where
  "csv_line fs = join_with CHR '','' (map csv_field fs) @ [CHR 0x0A]"

definition csv_text :: "string list list \<Rightarrow> string" where
  "csv_text rows = concat (map csv_line rows)"

text \<open>The three bytes of the byte order mark, the header and the cells made safe.\<close>

definition csv_export :: "string list \<Rightarrow> string list list \<Rightarrow> string" where
  "csv_export header rows = [CHR 0xEF, CHR 0xBB, CHR 0xBF] @ csv_text (header # map (map safe_csv_cell) rows)"

definition audit_cells :: "(instant \<Rightarrow> string) \<Rightarrow> (json \<Rightarrow> string) \<Rightarrow> audit_row \<Rightarrow> string list" where
  "audit_cells stamp metadata_text r = [stamp (al_created_at r), al_actor r, al_action r, al_resource_type r, al_resource_id r,
     al_result r, al_request_id r, al_source_ip r, metadata_text (al_metadata r)]"

definition audit_header :: "string list" where
  "audit_header = [''time'', ''actor'', ''action'', ''resource_type'', ''resource_id'', ''result'', ''request_id'', ''source_ip'', ''metadata'']"

definition export_audit_handler :: "(instant \<Rightarrow> string) \<Rightarrow> (json \<Rightarrow> string) \<Rightarrow> call \<Rightarrow> db \<Rightarrow> string answer" where
  "export_audit_handler stamp metadata_text c db = (case require_system_admin (cl_principal c) of Inl e \<Rightarrow> Inl e
     | Inr _ \<Rightarrow> Inr (csv_export audit_header (map (audit_cells stamp metadata_text)
         (list_audit_logs (trim_space (query_get c ''search'')) (trim_space (query_get c ''category'')) 1000 0 db))))"

definition access_cells :: "(instant \<Rightarrow> string) \<Rightarrow> access_log_row \<Rightarrow> string list" where
  "access_cells stamp l = (let opt = (\<lambda>t. case t of None \<Rightarrow> '''' | Some t \<Rightarrow> stamp t) in
     [stamp (lg_started_at l), opt (lg_accessed_at l), stamp (lg_last_seen_at l), opt (lg_ended_at l), lg_username l,
      lg_project_name l, lg_device_name l, lg_endpoint_name l, lg_mode l, lg_source_ip l, lg_status l, lg_id l])"

definition access_header :: "string list" where
  "access_header = [''started_at'', ''accessed_at'', ''last_seen_at'', ''ended_at'', ''username'', ''project'', ''device'',
     ''service'', ''mode'', ''source_ip'', ''status'', ''session_id'']"

definition export_access_handler :: "(instant \<Rightarrow> string) \<Rightarrow> call \<Rightarrow> db \<Rightarrow> string answer" where
  "export_access_handler stamp c db = (case require_system_admin (cl_principal c) of Inl e \<Rightarrow> Inl e
     | Inr _ \<Rightarrow> Inr (csv_export access_header (map (access_cells stamp)
         (list_access_logs (trim_space (query_get c ''search'')) 1000 0 db))))"

section \<open>Reading an export\<close>

datatype csv_mode = Start | Bare | Quoted | Quote_seen

fun csv_read :: "csv_mode \<Rightarrow> string \<Rightarrow> string list \<Rightarrow> string \<Rightarrow> string list list option" where
  "csv_read Start cell row [] = (if row = [] then Some [] else None)"
| "csv_read m cell row [] = None"
| "csv_read Quoted cell row (ch # r) = (if ch = CHR 0x22 then csv_read Quote_seen cell row r
     else csv_read Quoted (cell @ [ch]) row r)"
| "csv_read m cell row (ch # r) =
     (if ch = CHR '','' then csv_read Start '''' (row @ [cell]) r
      else if ch = CHR 0x0A then map_option (\<lambda>rows. (row @ [cell]) # rows) (csv_read Start '''' [] r)
      else if ch = CHR 0x22 then (case m of Start \<Rightarrow> csv_read Quoted '''' row r
        | Quote_seen \<Rightarrow> csv_read Quoted (cell @ [ch]) row r | _ \<Rightarrow> None)
      else if m = Quote_seen then None else csv_read Bare (cell @ [ch]) row r)"

lemma read_quoted:
  "csv_read Quoted cell row (concat (map (\<lambda>ch. if ch = CHR 0x22 then [CHR 0x22, CHR 0x22] else [ch]) f) @ CHR 0x22 # r)
   = csv_read Quote_seen (cell @ f) row r"
  by (induction f arbitrary: cell) auto

lemma read_bare:
  assumes "list_all (\<lambda>ch. ch \<notin> {CHR '','', CHR 0x22, CHR 0x0A}) f" "m = Start \<and> cell = '''' \<and> f \<noteq> '''' \<or> m = Bare"
  shows "csv_read m cell row (f @ r) = csv_read Bare (cell @ f) row r"
  using assms
proof (induction f arbitrary: m cell)
  case (Cons ch f)
  have "csv_read m cell row ((ch # f) @ r) = csv_read Bare (cell @ [ch]) row (f @ r)" using Cons.prems by auto
  also have "\<dots> = csv_read Bare ((cell @ [ch]) @ f) row r" using Cons.prems by (intro Cons.IH) auto
  finally show ?case by simp
qed simp

lemma read_field:
  "\<exists>m. csv_read Start '''' row (csv_field f @ r) = csv_read m f row r \<and> m \<noteq> Quoted \<and> (m = Start \<longrightarrow> f = '''')"
proof (cases "field_needs_quotes f")
  case True
  then show ?thesis using read_quoted[of "''''" row f r] by (intro exI[of _ Quote_seen]) (simp add: csv_field_def)
next
  case no: False
  show ?thesis
  proof (cases "f = ''''")
    case True
    then show ?thesis using no by (intro exI[of _ Start]) (simp add: csv_field_def)
  next
    case False
    then have "list_all (\<lambda>ch. ch \<notin> {CHR '','', CHR 0x22, CHR 0x0A}) f"
      using no by (auto simp: field_needs_quotes_def list_all_iff list_ex_iff)
    then show ?thesis using read_bare[of f Start "''''" row r] False no
      by (intro exI[of _ Bare]) (simp add: csv_field_def)
  qed
qed

lemma read_separator:
  assumes "m \<noteq> Quoted"
  shows "csv_read m cell row (CHR '','' # r) = csv_read Start '''' (row @ [cell]) r"
    and "csv_read m cell row (CHR 0x0A # r) = map_option (\<lambda>rows. (row @ [cell]) # rows) (csv_read Start '''' [] r)"
  using assms by (cases m; simp)+

lemma read_line:
  "fs \<noteq> [] \<Longrightarrow> csv_read Start '''' row (csv_line fs @ r) = map_option (\<lambda>rows. (row @ fs) # rows) (csv_read Start '''' [] r)"
proof (induction fs arbitrary: row)
  case (Cons f fs)
  show ?case
  proof (cases "fs = []")
    case True
    obtain m where "csv_read Start '''' row (csv_field f @ CHR 0x0A # r) = csv_read m f row (CHR 0x0A # r)" "m \<noteq> Quoted"
      using read_field by blast
    then show ?thesis by (simp add: True csv_line_def join_with_def read_separator)
  next
    case False
    have line: "csv_line (f # fs) @ r = csv_field f @ CHR '','' # csv_line fs @ r"
      using False by (cases fs) (simp_all add: csv_line_def join_with_def)
    obtain m where "csv_read Start '''' row (csv_field f @ CHR '','' # csv_line fs @ r)
        = csv_read m f row (CHR '','' # csv_line fs @ r)" "m \<noteq> Quoted"
      using read_field by blast
    then show ?thesis using Cons.IH[OF False, of "row @ [f]"] by (simp add: line read_separator)
  qed
qed simp

lemma read_text: "list_all (\<lambda>fs. fs \<noteq> []) rows \<Longrightarrow> csv_read Start '''' [] (csv_text rows) = Some rows"
  by (induction rows) (simp_all add: csv_text_def read_line)

text \<open>A cell that no spreadsheet takes for a formula.\<close>

definition inert_cell :: "string \<Rightarrow> bool" where
  "inert_cell v \<longleftrightarrow> v = '''' \<or> hd v \<notin> {CHR 0x09, CHR 0x0D}
     \<and> (trim_left_space v = '''' \<or> hd (trim_left_space v) \<notin> set ''=+-@'')"

text \<open>What a reader gets back from an export: the header and the rows of the log, every cell inert.\<close>

definition export_of :: "string list \<Rightarrow> string list list \<Rightarrow> string \<Rightarrow> bool" where
  "export_of header rows t \<longleftrightarrow> take 3 t = [CHR 0xEF, CHR 0xBB, CHR 0xBF]
     \<and> csv_read Start '''' [] (drop 3 t) = Some (header # map (map safe_csv_cell) rows)
     \<and> (\<forall>row\<in>set rows. \<forall>v\<in>set row. inert_cell (safe_csv_cell v))"

lemma csv_export_of: "header \<noteq> [] \<Longrightarrow> list_all (\<lambda>row. row \<noteq> []) rows \<Longrightarrow> export_of header rows (csv_export header rows)"
  using read_text[of "header # map (map safe_csv_cell) rows"] csv_cell_inert
  by (auto simp: export_of_def csv_export_def inert_cell_def list_all_iff)

text \<open>C18. Both exports are read back as they were listed: a reader of RFC 4180 finds the header and one row per entry
in the order of the list, with the cells the writer was given, whatever commas, quotes and line breaks the entries
contain, and no cell starts with a character that makes a spreadsheet evaluate it.\<close>

theorem exports_read_back:
  assumes "is_system_admin (cl_principal c)"
  shows "\<exists>audit access. export_audit_handler stamp metadata_text c db = Inr audit
    \<and> export_access_handler stamp c db = Inr access
    \<and> export_of audit_header (map (audit_cells stamp metadata_text)
        (list_audit_logs (trim_space (query_get c ''search'')) (trim_space (query_get c ''category'')) 1000 0 db)) audit
    \<and> export_of access_header (map (access_cells stamp) (list_access_logs (trim_space (query_get c ''search'')) 1000 0 db)) access"
  using assms
  by (auto simp: export_audit_handler_def export_access_handler_def require_system_admin_def audit_header_def access_header_def
      audit_cells_def access_cells_def Let_def list_all_iff intro!: csv_export_of)

definition log_call :: call where
  "log_call = resource_call\<lparr>cl_principal := bootstrap_principal\<rparr>"

definition formula_db :: db where
  "formula_db = demo_db\<lparr>t_access_logs := map (\<lambda>l. l\<lparr>lg_username := ''=1+1,2''\<rparr>) (t_access_logs demo_db)\<rparr>"

theorem exports_read_back_witness:
  "\<exists>access row. export_access_handler (\<lambda>_. ''now'') log_call formula_db = Inr access
    \<and> csv_read Start '''' [] (drop 3 access) = Some [access_header, row] \<and> row ! 4 = CHR 0x27 # ''=1+1,2''"
proof -
  have admin: "is_system_admin (cl_principal log_call)" by code_simp
  have logs: "map (access_cells (\<lambda>_. ''now'')) (list_access_logs (trim_space (query_get log_call ''search'')) 1000 0 formula_db)
      = [[''now'', '''', ''now'', '''', ''=1+1,2'', ''plant'', ''gw'', ''http'', ''web'', ''192.0.2.1'', ''active'', ''a1'']]"
    by code_simp
  from exports_read_back[OF admin, of "\<lambda>_. ''now''" "\<lambda>_. ''''" formula_db] obtain access where
    "export_access_handler (\<lambda>_. ''now'') log_call formula_db = Inr access"
    "csv_read Start '''' [] (drop 3 access) = Some (access_header # map (map safe_csv_cell)
       [[''now'', '''', ''now'', '''', ''=1+1,2'', ''plant'', ''gw'', ''http'', ''web'', ''192.0.2.1'', ''active'', ''a1'']])"
    unfolding logs export_of_def by blast
  moreover have "trim_left_space ''=1+1,2'' = ''=1+1,2''"
    by (subst trim_left_space.simps) (simp add: wide_spaces_def has_prefix_def less_eq_char_def)
  then have "safe_csv_cell ''=1+1,2'' = CHR 0x27 # ''=1+1,2''" by (simp add: safe_csv_cell_def)
  ultimately show ?thesis by (auto simp: nth_Cons')
qed

end
