(* ===== verification/Routes.thy ===== *)
theory Routes
  imports ApiAuth
begin

text \<open>
  The routes of the panel: the patterns that \<open>New\<close> of \<open>api/api.go\<close> registers, how \<open>http.ServeMux\<close> finds the one of
  a request, and the way of a request through the middleware to its handler.

  A path is the list of its segments, decoded one by one as \<open>ServeMux\<close> does, so a segment may contain a slash;
  \<open>URL.Path\<close> is \<open>path_of\<close> of them. Handlers are named as in the code. Redirects to a cleaned path are not modelled.
\<close>

section \<open>The table\<close>

datatype segment = Lit string | Wild string | Rest string

record route =
  ro_handler :: string
  ro_method :: string
  ro_segments :: "segment list"
  ro_auth :: bool

definition make_route :: "bool \<Rightarrow> string \<times> string \<times> segment list \<Rightarrow> route" where
  "make_route auth = (\<lambda>(h, m, ps). \<lparr>ro_handler = h, ro_method = m, ro_segments = ps, ro_auth = auth\<rparr>)"

text \<open>Registered as they are, and behind \<open>requireAuth\<close>.\<close>

definition public_routes :: "route list" where
  "public_routes = map (make_route False) [
     (''live'', ''GET'', [Lit ''health'', Lit ''live'']),
     (''ready'', ''GET'', [Lit ''health'', Lit ''ready'']),
     (''login'', ''POST'', [Lit ''api'', Lit ''v1'', Lit ''auth'', Lit ''login'']),
     (''completeMFA'', ''POST'', [Lit ''api'', Lit ''v1'', Lit ''auth'', Lit ''mfa'', Lit ''complete'']),
     (''startMFA'', ''POST'', [Lit ''api'', Lit ''v1'', Lit ''auth'', Lit ''mfa'', Lit ''start'']),
     (''setOnboardingPassword'', ''POST'', [Lit ''api'', Lit ''v1'', Lit ''auth'', Lit ''onboarding'', Lit ''password'']),
     (''sendOnboardingEmail'', ''POST'', [Lit ''api'', Lit ''v1'', Lit ''auth'', Lit ''onboarding'', Lit ''email'', Lit ''send'']),
     (''verifyOnboardingEmail'', ''POST'', [Lit ''api'', Lit ''v1'', Lit ''auth'', Lit ''onboarding'', Lit ''email'', Lit ''verify'']),
     (''setupStatus'', ''GET'', [Lit ''api'', Lit ''v1'', Lit ''setup'', Lit ''status'']),
     (''setup'', ''POST'', [Lit ''api'', Lit ''v1'', Lit ''setup''])]"

definition api_routes :: "route list" where
  "api_routes = map (make_route True) [
     (''me'', ''GET'', [Lit ''api'', Lit ''v1'', Lit ''auth'', Lit ''me'']),
     (''changePassword'', ''PUT'', [Lit ''api'', Lit ''v1'', Lit ''auth'', Lit ''password'']),
     (''logout'', ''POST'', [Lit ''api'', Lit ''v1'', Lit ''auth'', Lit ''logout'']),
     (''listUsers'', ''GET'', [Lit ''api'', Lit ''v1'', Lit ''users'']),
     (''createUser'', ''POST'', [Lit ''api'', Lit ''v1'', Lit ''users'']),
     (''updateUser'', ''PATCH'', [Lit ''api'', Lit ''v1'', Lit ''users'', Wild ''userID'']),
     (''deleteUser'', ''DELETE'', [Lit ''api'', Lit ''v1'', Lit ''users'', Wild ''userID'']),
     (''resetUserMFA'', ''POST'', [Lit ''api'', Lit ''v1'', Lit ''users'', Wild ''userID'', Lit ''mfa'', Lit ''reset'']),
     (''listAccessPolicies'', ''GET'', [Lit ''api'', Lit ''v1'', Lit ''access-policies'']),
     (''createAccessPolicy'', ''POST'', [Lit ''api'', Lit ''v1'', Lit ''access-policies'']),
     (''updateAccessPolicy'', ''PATCH'', [Lit ''api'', Lit ''v1'', Lit ''access-policies'', Wild ''policyID'']),
     (''deleteAccessPolicy'', ''DELETE'', [Lit ''api'', Lit ''v1'', Lit ''access-policies'', Wild ''policyID'']),
     (''listAuditLogs'', ''GET'', [Lit ''api'', Lit ''v1'', Lit ''audit-logs'']),
     (''exportAuditLogs'', ''GET'', [Lit ''api'', Lit ''v1'', Lit ''audit-logs'', Lit ''export'']),
     (''listAccessLogs'', ''GET'', [Lit ''api'', Lit ''v1'', Lit ''access-logs'']),
     (''exportAccessLogs'', ''GET'', [Lit ''api'', Lit ''v1'', Lit ''access-logs'', Lit ''export'']),
     (''backupData'', ''GET'', [Lit ''api'', Lit ''v1'', Lit ''data'', Lit ''backup'']),
     (''meta'', ''GET'', [Lit ''api'', Lit ''v1'', Lit ''meta'']),
     (''securitySettings'', ''GET'', [Lit ''api'', Lit ''v1'', Lit ''settings'', Lit ''security'']),
     (''updateSecuritySettings'', ''PUT'', [Lit ''api'', Lit ''v1'', Lit ''settings'', Lit ''security'']),
     (''restartPanel'', ''POST'', [Lit ''api'', Lit ''v1'', Lit ''system'', Lit ''restart'']),
     (''listNodes'', ''GET'', [Lit ''api'', Lit ''v1'', Lit ''nodes'']),
     (''createNode'', ''POST'', [Lit ''api'', Lit ''v1'', Lit ''nodes'']),
     (''updateNode'', ''PATCH'', [Lit ''api'', Lit ''v1'', Lit ''nodes'', Wild ''nodeID'']),
     (''deleteNode'', ''DELETE'', [Lit ''api'', Lit ''v1'', Lit ''nodes'', Wild ''nodeID'']),
     (''nodeHealth'', ''GET'', [Lit ''api'', Lit ''v1'', Lit ''nodes'', Wild ''nodeID'', Lit ''health'']),
     (''nodeClients'', ''GET'', [Lit ''api'', Lit ''v1'', Lit ''nodes'', Wild ''nodeID'', Lit ''clients'']),
     (''createNodeClient'', ''POST'', [Lit ''api'', Lit ''v1'', Lit ''nodes'', Wild ''nodeID'', Lit ''clients'']),
     (''nodeClientCredentials'', ''GET'', [Lit ''api'', Lit ''v1'', Lit ''nodes'', Wild ''nodeID'', Lit ''clients'', Wild ''clientID'', Lit ''credentials'']),
     (''managedTunnels'', ''GET'', [Lit ''api'', Lit ''v1'', Lit ''nodes'', Wild ''nodeID'', Lit ''managed-tunnels'']),
     (''setManagedTunnel'', ''POST'', [Lit ''api'', Lit ''v1'', Lit ''nodes'', Wild ''nodeID'', Lit ''managed-tunnels'', Wild ''clientID'', Wild ''action'']),
     (''listProjects'', ''GET'', [Lit ''api'', Lit ''v1'', Lit ''projects'']),
     (''createProject'', ''POST'', [Lit ''api'', Lit ''v1'', Lit ''projects'']),
     (''updateProject'', ''PATCH'', [Lit ''api'', Lit ''v1'', Lit ''projects'', Wild ''projectID'']),
     (''deleteProject'', ''DELETE'', [Lit ''api'', Lit ''v1'', Lit ''projects'', Wild ''projectID'']),
     (''listDevices'', ''GET'', [Lit ''api'', Lit ''v1'', Lit ''projects'', Wild ''projectID'', Lit ''devices'']),
     (''createDevice'', ''POST'', [Lit ''api'', Lit ''v1'', Lit ''projects'', Wild ''projectID'', Lit ''devices'']),
     (''createDeviceBatch'', ''POST'', [Lit ''api'', Lit ''v1'', Lit ''projects'', Wild ''projectID'', Lit ''devices'', Lit ''batch'']),
     (''updateDevice'', ''PATCH'', [Lit ''api'', Lit ''v1'', Lit ''projects'', Wild ''projectID'', Lit ''devices'', Wild ''deviceID'']),
     (''deleteDevice'', ''DELETE'', [Lit ''api'', Lit ''v1'', Lit ''projects'', Wild ''projectID'', Lit ''devices'', Wild ''deviceID'']),
     (''verifyDevice'', ''POST'', [Lit ''api'', Lit ''v1'', Lit ''projects'', Wild ''projectID'', Lit ''devices'', Wild ''deviceID'', Lit ''verify'']),
     (''listAccessSessions'', ''GET'', [Lit ''api'', Lit ''v1'', Lit ''access-sessions'']),
     (''monitorSnapshot'', ''GET'', [Lit ''api'', Lit ''v1'', Lit ''monitor'', Lit ''snapshot'']),
     (''createAccessSession'', ''POST'', [Lit ''api'', Lit ''v1'', Lit ''access-sessions'']),
     (''launchWebAccessSession'', ''POST'', [Lit ''api'', Lit ''v1'', Lit ''access-sessions'', Lit ''launch'']),
     (''revokeAccessSession'', ''DELETE'', [Lit ''api'', Lit ''v1'', Lit ''access-sessions'', Wild ''sessionID'']),
     (''listPortForwards'', ''GET'', [Lit ''api'', Lit ''v1'', Lit ''projects'', Wild ''projectID'', Lit ''port-forwards'']),
     (''createPortForward'', ''POST'', [Lit ''api'', Lit ''v1'', Lit ''projects'', Wild ''projectID'', Lit ''port-forwards'']),
     (''setPortForward'', ''POST'', [Lit ''api'', Lit ''v1'', Lit ''port-forwards'', Wild ''forwardID'', Wild ''action'']),
     (''deletePortForward'', ''DELETE'', [Lit ''api'', Lit ''v1'', Lit ''port-forwards'', Wild ''forwardID'']),
     (''listDiscoveryJobs'', ''GET'', [Lit ''api'', Lit ''v1'', Lit ''projects'', Wild ''projectID'', Lit ''discovery-jobs'']),
     (''createDiscoveryJob'', ''POST'', [Lit ''api'', Lit ''v1'', Lit ''projects'', Wild ''projectID'', Lit ''discovery-jobs'']),
     (''getProjectScanPorts'', ''GET'', [Lit ''api'', Lit ''v1'', Lit ''projects'', Wild ''projectID'', Lit ''scan-ports'']),
     (''updateProjectScanPorts'', ''PUT'', [Lit ''api'', Lit ''v1'', Lit ''projects'', Wild ''projectID'', Lit ''scan-ports'']),
     (''getDiscoveryJob'', ''GET'', [Lit ''api'', Lit ''v1'', Lit ''discovery-jobs'', Wild ''jobID'']),
     (''cancelDiscoveryJob'', ''POST'', [Lit ''api'', Lit ''v1'', Lit ''discovery-jobs'', Wild ''jobID'', Lit ''cancel'']),
     (''importDiscoveryDevice'', ''POST'', [Lit ''api'', Lit ''v1'', Lit ''discovery-jobs'', Wild ''jobID'', Lit ''import''])]"

text \<open>The gateways and the user interface, where the server has them.\<close>

record parts =
  pt_nodes :: bool
  pt_ssh :: bool
  pt_ui :: bool

definition gateway_routes :: "parts \<Rightarrow> route list" where
  "gateway_routes s =
     (if pt_nodes s then [make_route False (''webGateway'', '''', [Lit ''access'', Lit ''web'', Wild ''token'', Rest ''path''])] else [])
   @ (if pt_ssh s then map (make_route False) [
        (''sshGateway'', ''GET'', [Lit ''access'', Lit ''ssh'', Wild ''token'']),
        (''sshGateway'', ''GET'', [Lit ''access'', Lit ''ssh'', Wild ''token'', Lit ''ws''])] else [])
   @ (if pt_ui s then [make_route False (''ui'', '''', [Rest ''''])] else [])"

definition routes :: "parts \<Rightarrow> route list" where
  "routes s = public_routes @ api_routes @ gateway_routes s"

section \<open>Finding the route\<close>

definition path_of :: "string list \<Rightarrow> string" where
  "path_of segs = concat (map (\<lambda>s. CHR ''/'' # s) segs)"

fun match_segments :: "segment list \<Rightarrow> string list \<Rightarrow> (string \<times> string) list option" where
  "match_segments [] [] = Some []"
| "match_segments (Lit l # ps) (s # ss) = (if s = l then match_segments ps ss else None)"
| "match_segments (Wild n # ps) (s # ss) = (if s = '''' then None
     else map_option (\<lambda>vs. (n, s) # vs) (match_segments ps ss))"
| "match_segments (Rest n # ps) (s # ss) = Some [(n, tl (path_of (s # ss)))]"
| "match_segments _ _ = None"

definition method_fits :: "string \<Rightarrow> string \<Rightarrow> bool" where
  "method_fits pattern method \<longleftrightarrow> pattern = '''' \<or> pattern = method \<or> pattern = ''GET'' \<and> method = ''HEAD''"

definition match_route :: "string \<Rightarrow> string list \<Rightarrow> route \<Rightarrow> (string \<times> string) list option" where
  "match_route method segs r = (if method_fits (ro_method r) method then match_segments (ro_segments r) segs else None)"

text \<open>The user interface is last: every other route is more specific. \<open>None\<close> is the answer 404 or 405.\<close>

fun first_match :: "string \<Rightarrow> string list \<Rightarrow> route list \<Rightarrow> (route \<times> (string \<times> string) list) option" where
  "first_match method segs [] = None"
| "first_match method segs (r # rs) = (case match_route method segs r of
     Some vs \<Rightarrow> Some (r, vs) | None \<Rightarrow> first_match method segs rs)"

definition dispatch :: "parts \<Rightarrow> string \<Rightarrow> string list \<Rightarrow> (route \<times> (string \<times> string) list) option" where
  "dispatch s method segs = first_match method segs (routes s)"

section \<open>The way of a request\<close>

datatype served =
    Not_served
  | Refused_with refusal
  | Handled string "(string \<times> string) list" "principal option"

text \<open>\<open>rewritten\<close> is what the segments become when the access domain sends the request to the web gateway.\<close>

definition rewritten :: "http_request \<Rightarrow> http_request \<Rightarrow> string list \<Rightarrow> string list" where
  "rewritten rq rq' segs = (if rq_url_path rq' = rq_url_path rq then segs else split_on CHR ''/'' (trim_prefix ''/'' (rq_url_path rq')))"

definition serve :: "api_env \<Rightarrow> parts \<Rightarrow> auth_times \<Rightarrow> http_request \<Rightarrow> string list \<Rightarrow> db \<Rightarrow> db \<times> served" where
  "serve env s tm rq segs db = (case access_domain_routing env (trusted_proxy_source env rq) of
     None \<Rightarrow> (db, Not_served)
   | Some rq' \<Rightarrow> (case dispatch s (rq_method rq') (rewritten rq rq' segs) of
       None \<Rightarrow> (db, Not_served)
     | Some (r, vs) \<Rightarrow> if \<not> ro_auth r then (db, Handled (ro_handler r) vs None)
       else case require_auth env tm \<lparr>ar_http = rq', ar_values = vs\<rparr> db of
         (db, Inl e) \<Rightarrow> (db, Refused_with e)
       | (db, Inr p) \<Rightarrow> (db, Handled (ro_handler r) vs (Some p))))"

section \<open>No request has two routes\<close>

fun may_meet :: "segment list \<Rightarrow> segment list \<Rightarrow> bool" where
  "may_meet [] [] = True"
| "may_meet (Rest n # ps) qs = True"
| "may_meet ps (Rest n # qs) = True"
| "may_meet (Lit a # ps) (Lit b # qs) = (a = b \<and> may_meet ps qs)"
| "may_meet (p # ps) (q # qs) = may_meet ps qs"
| "may_meet _ _ = False"

lemma may_meet_match: "match_segments ps ss = Some vs \<Longrightarrow> match_segments qs ss = Some ws \<Longrightarrow> may_meet ps qs"
proof (induction ss arbitrary: ps qs vs ws)
  case Nil
  then show ?case by (cases ps; cases qs) auto
next
  case (Cons s ss)
  then obtain p ps' q qs' where "ps = p # ps'" "qs = q # qs'" by (cases ps; cases qs) auto
  with Cons show ?case by (cases p; cases q) (auto split: if_splits)
qed

definition may_both :: "route \<Rightarrow> route \<Rightarrow> bool" where
  "may_both a b \<longleftrightarrow> (ro_method a \<in> {'''', ''HEAD''} \<or> ro_method b \<in> {'''', ''HEAD''} \<or> ro_method a = ro_method b)
     \<and> may_meet (ro_segments a) (ro_segments b)"

fun apart :: "route list \<Rightarrow> bool" where
  "apart [] = True"
| "apart (r # rs) = (\<not> list_ex (may_both r) rs \<and> apart rs)"

lemma may_both_match: "match_route m segs a = Some vs \<Longrightarrow> match_route m segs b = Some ws \<Longrightarrow> may_both a b"
  by (auto simp: match_route_def may_both_def method_fits_def may_meet_match split: if_splits)

definition specific_routes :: "route list" where
  "specific_routes = public_routes @ api_routes @ gateway_routes \<lparr>pt_nodes = True, pt_ssh = True, pt_ui = False\<rparr>"

lemma specific_apart: "apart specific_routes"
  by code_simp

lemma first_match_Some: "first_match m segs rs = Some (r, vs) \<Longrightarrow> r \<in> set rs \<and> match_route m segs r = Some vs"
  by (induction rs) (auto split: option.splits)

lemma apart_match:
  "apart rs \<Longrightarrow> a \<in> set rs \<Longrightarrow> b \<in> set rs \<Longrightarrow> match_route m segs a = Some vs \<Longrightarrow> match_route m segs b = Some ws \<Longrightarrow> a = b"
  by (induction rs) (auto simp: list_ex_iff dest: may_both_match)

section \<open>Which handlers a role reaches\<close>

definition account_handlers :: "string list" where
  "account_handlers = [''me'', ''changePassword'', ''logout'', ''meta'']"

definition viewer_handlers :: "string list" where
  "viewer_handlers = [''listNodes'', ''listProjects'', ''listDevices'', ''createAccessSession'', ''launchWebAccessSession'']"

definition operator_handlers :: "string list" where
  "operator_handlers = [''listPortForwards'', ''listDiscoveryJobs'', ''getProjectScanPorts'']"

definition project_admin_handlers :: "string list" where
  "project_admin_handlers = [''updateProject'', ''deleteProject'', ''createDevice'', ''createDeviceBatch'', ''updateDevice'',
     ''deleteDevice'', ''verifyDevice'', ''createPortForward'', ''setPortForward'', ''deletePortForward'', ''createDiscoveryJob'',
     ''updateProjectScanPorts'', ''getDiscoveryJob'', ''cancelDiscoveryJob'', ''importDiscoveryDevice'']"

definition role_handlers :: "string \<Rightarrow> string list" where
  "role_handlers role = account_handlers
     @ (if role = ''temporary'' \<or> role = ''operator'' \<or> role = ''project_admin'' then viewer_handlers else [''listNodes'', ''listProjects''])
     @ (if role = ''operator'' \<or> role = ''project_admin'' then operator_handlers else [])
     @ (if role = ''project_admin'' then project_admin_handlers else [])"

lemma segments_Cons:
  "match_segments (Lit l # ps) segs = Some vs \<longleftrightarrow> (\<exists>ss. segs = l # ss \<and> match_segments ps ss = Some vs)"
  "match_segments (Wild n # ps) segs = Some vs \<longleftrightarrow>
     (\<exists>s ss us. segs = s # ss \<and> s \<noteq> '''' \<and> match_segments ps ss = Some us \<and> vs = (n, s) # us)"
  "match_segments [] segs = Some vs \<longleftrightarrow> segs = [] \<and> vs = []"
  by (cases segs; auto split: if_splits)+

lemma has_suffix_append: "length p \<le> length t \<Longrightarrow> has_suffix (s @ t) p \<longleftrightarrow> has_suffix t p"
  by (auto simp: has_suffix_def suffix_append)

lemma has_suffix_Cons: "length p \<le> length s \<Longrightarrow> has_suffix (ch # s) p \<longleftrightarrow> has_suffix s p"
  using has_suffix_append[of p s "[ch]"] by simp

lemma has_suffix_full: "length p = length s \<Longrightarrow> has_suffix s p \<longleftrightarrow> s = p"
  by (auto simp: has_suffix_def suffix_def)

text \<open>What \<open>authorizeRequest\<close> asks of an account that is no administrator, by the path and its wildcards.\<close>

definition lets_through :: "string \<Rightarrow> string \<Rightarrow> string \<Rightarrow> (string \<Rightarrow> string) \<Rightarrow> bool" where
  "lets_through role method path wild \<longleftrightarrow> has_prefix path ''/api/v1/auth/'' \<or> path = ''/api/v1/meta''
     \<or> method = ''GET'' \<and> (path = ''/api/v1/nodes'' \<or> path = ''/api/v1/projects'')
     \<or> wild ''projectID'' \<noteq> '''' \<and> (role = ''temporary'' \<and> method = ''GET'' \<and> has_suffix path ''/devices''
         \<or> role = ''project_admin'' \<or> role = ''operator'' \<and> method = ''GET'')
     \<or> role = ''project_admin'' \<and> (wild ''endpointID'' \<noteq> '''' \<or> wild ''forwardID'' \<noteq> '''' \<or> wild ''jobID'' \<noteq> '''')
     \<or> method = ''POST'' \<and> (path = ''/api/v1/access-sessions'' \<or> path = ''/api/v1/access-sessions/launch'')
         \<and> role \<in> {''project_admin'', ''operator'', ''temporary''}"

lemma authorize_lets_through:
  assumes "authorize_request at r p db" "\<not> is_system_admin p"
  shows "lets_through (pr_role p) (rq_method (ar_http r)) (rq_url_path (ar_http r)) (path_value r)"
proof -
  have project: "authorize_project at rq p k db \<Longrightarrow> pr_role p = ''temporary'' \<and> rq_method rq = ''GET'' \<and> has_suffix (rq_url_path rq) ''/devices''
      \<or> pr_role p = ''project_admin'' \<or> pr_role p = ''operator'' \<and> rq_method rq = ''GET''" for rq k
    using assms(2) by (auto simp: authorize_project_def can_access_project_def split: if_splits)
  show ?thesis using assms(1) project
    unfolding authorize_request_def lets_through_def Let_def if_not_P[OF assms(2)]
    by (simp split: if_splits sum.splits) auto
qed

definition wild_values :: "(string \<times> string) list \<Rightarrow> string \<Rightarrow> string" where
  "wild_values vs n = (case map_of vs n of None \<Rightarrow> '''' | Some v \<Rightarrow> v)"

lemma wild_values_simps [simp]:
  "wild_values [] n = ''''" "wild_values ((k, v) # vs) n = (if n = k then v else wild_values vs n)"
  by (simp_all add: wild_values_def)

definition reached :: "string \<Rightarrow> string \<Rightarrow> string list \<Rightarrow> (string \<times> string) list \<Rightarrow> route \<Rightarrow> bool" where
  "reached role m segs vs r \<longleftrightarrow> match_route m segs r = Some vs \<and> lets_through role m (path_of segs) (wild_values vs)"

lemma reached_make:
  "reached role m segs vs (make_route auth (h, pm, ps)) \<longleftrightarrow>
     method_fits pm m \<and> match_segments ps segs = Some vs \<and> lets_through role m (path_of segs) (wild_values vs)"
  by (simp add: reached_def match_route_def make_route_def)

lemma handler_make: "ro_handler (make_route auth (h, pm, ps)) = h"
  by (simp add: make_route_def)

lemma route_reached:
  "\<forall>r\<in>set api_routes. reached role m segs vs r \<longrightarrow> ro_handler r \<in> set (role_handlers role)"
  unfolding api_routes_def list.map list.set ball_simps reached_make handler_make
  by (intro conjI impI; simp only: segments_Cons; clarify; auto simp: role_handlers_def account_handlers_def
     viewer_handlers_def operator_handlers_def project_admin_handlers_def lets_through_def path_of_def has_prefix_def
     has_suffix_Cons has_suffix_append has_suffix_full method_fits_def)

lemma path_of_split: "path_of (split_on CHR ''/'' s) = CHR ''/'' # s"
  by (induction s) (auto simp: path_of_def split: list.splits)

lemma path_of_rewritten:
  assumes "access_domain_routing env (trusted_proxy_source env rq) = Some rq'" "rq_url_path rq = path_of segs"
  shows "path_of (rewritten rq rq' segs) = rq_url_path rq'"
proof (cases "rq_url_path rq' = rq_url_path rq")
  case False
  have "rq_url_path (trusted_proxy_source env rq) = rq_url_path rq"
    by (auto simp: trusted_proxy_source_def Let_def split: option.splits)
  with False assms(1) obtain x where "rq_url_path rq' = CHR ''/'' # x"
    by (auto simp: access_domain_routing_def Let_def split: if_splits)
  then show ?thesis using False by (simp add: rewritten_def path_of_split trim_prefix_def has_prefix_def)
qed (simp add: rewritten_def assms(2))

definition open_handlers :: "string list" where
  "open_handlers = [''live'', ''ready'', ''login'', ''completeMFA'', ''startMFA'', ''setOnboardingPassword'', ''sendOnboardingEmail'',
     ''verifyOnboardingEmail'', ''setupStatus'', ''setup'', ''webGateway'', ''sshGateway'', ''ui'']"

lemma open_route: "r \<in> set (routes s) \<Longrightarrow> \<not> ro_auth r \<Longrightarrow> ro_handler r \<in> set open_handlers"
  by (auto simp: routes_def public_routes_def api_routes_def gateway_routes_def make_route_def open_handlers_def)

lemma auth_route: "r \<in> set (routes s) \<Longrightarrow> ro_auth r \<Longrightarrow> r \<in> set api_routes"
  by (auto simp: routes_def public_routes_def gateway_routes_def make_route_def split: if_splits)

text \<open>C4. Who reaches which handler, through all of the middleware: without a login only the checks of health, the
login with its second factor, the setup, the two gateways and the user interface; an account that is no
administrator only the handlers of its role, however the path is written.\<close>

theorem handlers_reached:
  assumes "serve env s tm rq segs db = (db', Handled h vs who)" "rq_url_path rq = path_of segs"
  shows "case who of None \<Rightarrow> h \<in> set open_handlers
    | Some p \<Rightarrow> is_system_admin p \<or> h \<in> set (role_handlers (pr_role p))"
proof -
  from assms(1) obtain rq' r where rq': "access_domain_routing env (trusted_proxy_source env rq) = Some rq'"
    and r: "dispatch s (rq_method rq') (rewritten rq rq' segs) = Some (r, vs)"
    and run: "(if \<not> ro_auth r then (db, Handled (ro_handler r) vs None)
       else case require_auth env tm \<lparr>ar_http = rq', ar_values = vs\<rparr> db of
         (db, Inl e) \<Rightarrow> (db, Refused_with e)
       | (db, Inr p) \<Rightarrow> (db, Handled (ro_handler r) vs (Some p))) = (db', Handled h vs who)"
    by (auto simp: serve_def split: option.splits prod.splits sum.splits if_splits)
  note path = path_of_rewritten[OF rq' assms(2)]
  have found: "r \<in> set (routes s)" "match_route (rq_method rq') (rewritten rq rq' segs) r = Some vs"
    using first_match_Some r by (auto simp: dispatch_def)
  show ?thesis
  proof (cases "ro_auth r")
    case False
    then show ?thesis using run open_route[OF found(1)] by auto
  next
    case True
    then obtain p where p: "require_auth env tm \<lparr>ar_http = rq', ar_values = vs\<rparr> db = (db', Inr p)" "who = Some p" "h = ro_handler r"
      using run by (auto split: prod.splits sum.splits)
    have "h \<in> set (role_handlers (pr_role p))" if other: "\<not> is_system_admin p"
    proof -
      have "authorize_request (at_policy tm) \<lparr>ar_http = rq', ar_values = vs\<rparr> p db"
        using p(1) other by (auto simp: require_auth_def Let_def bootstrap_principal_def is_system_admin_def
            split: if_splits option.splits sum.splits)
      from authorize_lets_through[OF this other]
      have "reached (pr_role p) (rq_method rq') (rewritten rq rq' segs) vs r"
        using found(2) by (simp add: reached_def path path_value_def[abs_def] wild_values_def[abs_def])
      then show ?thesis using route_reached auth_route[OF found(1) True] p(3) by blast
    qed
    then show ?thesis by (auto simp: p(2))
  qed
qed

definition demo_parts :: parts where
  "demo_parts = \<lparr>pt_nodes = True, pt_ssh = True, pt_ui = True\<rparr>"

definition demo_access_segments :: "string list" where
  "demo_access_segments = [''api'', ''v1'', ''access-sessions'']"

lemma demo_served:
  "case serve (demo_api\<lparr>ae_trusted_proxies := []\<rparr>) demo_parts demo_times (ar_http demo_post) demo_access_segments demo_db of
     (db', Handled h vs (Some p)) \<Rightarrow> h = ''createAccessSession'' \<and> pr_role p = ''operator'' \<and> \<not> is_system_admin p
   | (db', _) \<Rightarrow> False"
  by code_simp

theorem handlers_reached_witness:
  "\<exists>db' vs p. serve (demo_api\<lparr>ae_trusted_proxies := []\<rparr>) demo_parts demo_times (ar_http demo_post) demo_access_segments demo_db
      = (db', Handled ''createAccessSession'' vs (Some p))
    \<and> pr_role p = ''operator'' \<and> ''createAccessSession'' \<in> set (role_handlers ''operator'') \<and> ''createUser'' \<notin> set (role_handlers ''operator'')"
proof -
  obtain db' vs p where s: "serve (demo_api\<lparr>ae_trusted_proxies := []\<rparr>) demo_parts demo_times (ar_http demo_post)
      demo_access_segments demo_db = (db', Handled ''createAccessSession'' vs (Some p))" "pr_role p = ''operator''" "\<not> is_system_admin p"
    using demo_served by (auto split: prod.splits served.splits option.splits)
  have "rq_url_path (ar_http demo_post) = path_of demo_access_segments" by code_simp
  from handlers_reached[OF s(1) this] s(2,3) have "''createAccessSession'' \<in> set (role_handlers ''operator'')" by simp
  moreover have "''createUser'' \<notin> set (role_handlers ''operator'')" by code_simp
  ultimately show ?thesis using s(1,2) by blast
qed

end
