(* ===== verification/Config.thy ===== *)
theory Config
  imports ApiAuth
begin

text \<open>
  The configuration at the start of the panel: \<open>config/config.go\<close>.

  A value comes from the environment, else from the settings override, else from the configuration file, else from a
  fallback. \<open>fs\<close> is what the files hold. Paths (\<open>path/filepath\<close>), durations (\<open>time\<close>), addresses of mail
  (\<open>net/mail\<close>), the random source and the permission to write are arguments, in \<open>config_env\<close>.
\<close>

section \<open>Files and environment\<close>

datatype stored = Missing | Unreadable | Content string

type_synonym fs = "string \<Rightarrow> stored"

record config_env =
  cv_getenv :: "string \<Rightarrow> string"
  cv_join :: "string \<Rightarrow> string \<Rightarrow> string"
  cv_dir :: "string \<Rightarrow> string"
  cv_parse_duration :: "string \<Rightarrow> int option"
  cv_duration_text :: "int \<Rightarrow> string"
  cv_mail_address :: "string \<Rightarrow> bool"
  cv_fresh_token :: "string option"
  cv_can_write :: "string \<Rightarrow> bool"

record config =
  cf_config_file :: string
  cf_override_file :: string
  cf_mode :: string
  cf_listen :: string
  cf_https_listen :: string
  cf_data_dir :: string
  cf_database_path :: string
  cf_api_token :: string
  cf_mfa_enabled :: bool
  cf_mfa_methods :: "string list"
  cf_mfa_key_file :: string
  cf_email_code_ttl :: int
  cf_session_ttl :: int
  cf_idle_ttl :: int
  cf_smtp_host :: string
  cf_smtp_port :: int
  cf_smtp_username :: string
  cf_smtp_password :: string
  cf_smtp_from :: string
  cf_smtp_tls_mode :: string
  cf_tls_cert :: string
  cf_tls_key :: string
  cf_access_tls_cert :: string
  cf_access_tls_key :: string
  cf_access_http_port :: int
  cf_access_https_port :: int
  cf_panel_domain :: string
  cf_access_domain :: string
  cf_access_scheme :: string
  cf_trusted_proxies :: "string list"

section \<open>The configuration file\<close>

text \<open>The lines of \<open>bufio.Scanner\<close>, without their ends; None is a line that does not fit its buffer of 64 KB.\<close>

definition drop_cr :: "string \<Rightarrow> string" where
  "drop_cr l = (if l \<noteq> '''' \<and> last l = CHR 0x0D then butlast l else l)"

definition scan_lines :: "string \<Rightarrow> string list option" where
  "scan_lines content = (let ls = split_on CHR 0x0A content; ls = (if last ls = '''' then butlast ls else ls) in
     if list_ex (\<lambda>l. length l \<ge> 65536) ls then None else Some (map drop_cr ls))"

definition unquote :: "string \<Rightarrow> string" where
  "unquote v = (if length v \<ge> 2 \<and> (hd v = CHR 0x22 \<and> last v = CHR 0x22 \<or> hd v = CHR 0x27 \<and> last v = CHR 0x27)
     then butlast (tl v) else v)"

text \<open>A line: None is a line without a key, \<open>Some None\<close> one that is skipped.\<close>

definition parse_line :: "string \<Rightarrow> (string \<times> string) option option" where
  "parse_line raw = (let line = trim_space raw in
     if line = '''' \<or> hd line = CHR ''#'' \<or> hd line = CHR '';'' then Some None
     else if CHR ''='' \<notin> set line then None
     else let key = takeWhile (\<lambda>ch. ch \<noteq> CHR ''='') line; rest = tl (dropWhile (\<lambda>ch. ch \<noteq> CHR ''='') line) in
       if trim_space key = '''' then None
       else Some (Some (to_lower (trim_space key), unquote (trim_space rest))))"

text \<open>The values read so far, the last line of a key first.\<close>

type_synonym settings = "(string \<times> string) list"

fun parse_lines :: "string list \<Rightarrow> settings \<Rightarrow> settings res" where
  "parse_lines [] values = Inr values"
| "parse_lines (l # ls) values = (case parse_line l of
     None \<Rightarrow> Inl (ErrMsg ''invalid config line'')
   | Some None \<Rightarrow> parse_lines ls values
   | Some (Some (k, v)) \<Rightarrow> parse_lines ls ((k, v) # values))"

definition read_config_file :: "fs \<Rightarrow> string \<Rightarrow> settings res" where
  "read_config_file fs path = (case fs path of
     Missing \<Rightarrow> Inr []
   | Unreadable \<Rightarrow> Inl (ErrMsg ''open config file'')
   | Content c \<Rightarrow> (case scan_lines c of None \<Rightarrow> Inl (ErrMsg ''read config file'') | Some ls \<Rightarrow> parse_lines ls []))"

section \<open>Values\<close>

definition first_configured :: "string list \<Rightarrow> string" where
  "first_configured vs = (case List.find (\<lambda>v. trim_space v \<noteq> '''') vs of None \<Rightarrow> '''' | Some v \<Rightarrow> trim_space v)"

definition smtp_tls_mode_for_port :: "int \<Rightarrow> string" where
  "smtp_tls_mode_for_port port = (if port = 465 then ''tls'' else ''starttls'')"

fun fields_of :: "(char \<Rightarrow> bool) \<Rightarrow> string \<Rightarrow> string \<Rightarrow> string list" where
  "fields_of sep w [] = (if w = '''' then [] else [w])"
| "fields_of sep w (ch # s) = (if sep ch then (if w = '''' then [] else [w]) @ fields_of sep '''' s else fields_of sep (w @ [ch]) s)"

definition split_list :: "string \<Rightarrow> string list" where
  "split_list value = fields_of (\<lambda>ch. ch \<in> {CHR '','', CHR '';'', CHR '' '', CHR 0x0A, CHR 0x09}) '''' (to_lower value)"

definition go_parse_bool :: "string \<Rightarrow> bool option" where
  "go_parse_bool s = (if s \<in> {''1'', ''t'', ''T'', ''TRUE'', ''true'', ''True''} then Some True
     else if s \<in> {''0'', ''f'', ''F'', ''FALSE'', ''false'', ''False''} then Some False else None)"

definition parse_bool :: "string \<Rightarrow> string \<Rightarrow> bool res" where
  "parse_bool value name = (if trim_space value = '''' then Inr False
     else from_row (go_parse_bool (trim_space value)) (ErrMsg (name @ '' must be true or false'')))"

definition port_number :: "int \<Rightarrow> bool" where
  "port_number i \<longleftrightarrow> 1 \<le> i \<and> i \<le> 65535"

definition parse_port :: "string \<Rightarrow> string \<Rightarrow> int res" where
  "parse_port value name = (case atoi (trim_space value) of
     Some i \<Rightarrow> if port_number i then Inr i else Inl (ErrMsg (name @ '' must be between 1 and 65535''))
   | None \<Rightarrow> Inl (ErrMsg (name @ '' must be between 1 and 65535'')))"

definition parse_optional_port :: "string \<Rightarrow> string \<Rightarrow> int res" where
  "parse_optional_port value name = (if trim_space value = '''' \<or> trim_space value = ''0'' then Inr 0 else parse_port value name)"

definition load_configured_secret ::
  "config_env \<Rightarrow> fs \<Rightarrow> string \<Rightarrow> string \<Rightarrow> string option \<Rightarrow> string option \<Rightarrow> string res" where
  "load_configured_secret env fs value_name file_name configured configured_file = (let
     direct = trim_space (cv_getenv env value_name);
     secret = trim_space (case configured of None \<Rightarrow> '''' | Some v \<Rightarrow> v);
     path = first_configured [cv_getenv env file_name, case configured_file of None \<Rightarrow> '''' | Some v \<Rightarrow> v] in
     if direct \<noteq> '''' then Inr direct
     else if secret \<noteq> '''' then Inr secret
     else if path = '''' then Inr ''''
     else case fs path of
         Content c \<Rightarrow> if trim_space c = '''' then Inl (ErrMsg (file_name @ '' points to an empty secret'')) else Inr (trim_space c)
       | _ \<Rightarrow> Inl (ErrMsg (''read '' @ file_name)))"

definition load_or_create_api_token :: "config_env \<Rightarrow> string \<Rightarrow> fs \<Rightarrow> fs \<times> string res" where
  "load_or_create_api_token env path fs = (case fs path of
     Content c \<Rightarrow> if length (trim_space c) < 32 then (fs, Inl (ErrMsg ''generated API token file is invalid''))
       else if \<not> cv_can_write env path then (fs, Inl (ErrMsg ''secure generated API token file''))
       else (fs, Inr (trim_space c))
   | Unreadable \<Rightarrow> (fs, Inl (ErrMsg ''read generated API token''))
   | Missing \<Rightarrow> (case cv_fresh_token env of
       None \<Rightarrow> (fs, Inl (ErrMsg ''generate API token''))
     | Some token \<Rightarrow> if \<not> cv_can_write env path then (fs, Inl (ErrMsg ''install generated API token''))
         else (fs(path := Content (token @ [CHR 0x0A])), Inr token)))"

definition is_local_access_domain :: "string \<Rightarrow> bool" where
  "is_local_access_domain domain \<longleftrightarrow> domain = ''localhost'' \<or> has_suffix domain ''.localhost''
     \<or> has_suffix domain ''.127.0.0.1.nip.io''"

section \<open>Validation\<close>

definition port_text :: "string \<Rightarrow> string option" where
  "port_text address = map_option snd (split_host_port address)"

definition listens :: "string \<Rightarrow> bool" where
  "listens address \<longleftrightarrow> (case port_text address of None \<Rightarrow> False | Some p \<Rightarrow> \<not> isl (parse_port p ''''))"

text \<open>The port of an address as \<open>validate\<close> compares it: the number, 0 where there is none.\<close>

definition port_value :: "string \<Rightarrow> int" where
  "port_value address = (case port_text address of None \<Rightarrow> 0 | Some p \<Rightarrow> case atoi p of None \<Rightarrow> 0 | Some i \<Rightarrow> i)"

definition plain_domain :: "string \<Rightarrow> bool" where
  "plain_domain d \<longleftrightarrow> set d \<inter> {CHR ''/'', CHR '':'', CHR '' ''} = {}"

definition base_rules :: "config \<Rightarrow> rules" where
  "base_rules c = [
     (cf_mode c = ''dev'' \<or> cf_mode c = ''pro'', ErrMsg ''run_mode must be dev or pro''),
     (\<not> (cf_mode c = ''pro'' \<and> length (cf_api_token c) < 32), ErrMsg ''api_token must contain at least 32 characters in pro mode''),
     (cf_access_scheme c = ''http'' \<or> cf_access_scheme c = ''https'', ErrMsg ''access_scheme must be http or https''),
     (plain_domain (cf_access_domain c), ErrMsg ''access_domain must be a DNS name''),
     (plain_domain (cf_panel_domain c), ErrMsg ''panel_domain must be a DNS name''),
     (\<not> (cf_panel_domain c \<noteq> '''' \<and> cf_access_domain c \<noteq> '''' \<and> (cf_panel_domain c = cf_access_domain c
         \<or> has_suffix (cf_panel_domain c) (CHR ''.'' # cf_access_domain c))),
       ErrMsg ''panel_domain must not equal or be a subdomain of access_domain''),
     (list_all (\<lambda>n. parse_prefix n \<noteq> None) (cf_trusted_proxies c), ErrMsg ''trusted_proxy_cidrs contains invalid CIDR'')]"

definition listen_rules :: "config \<Rightarrow> rules" where
  "listen_rules c = [
     (\<not> (trim_space (cf_listen c) = '''' \<or> trim_space (cf_https_listen c) = '''' \<or> trim_space (cf_database_path c) = ''''
         \<or> trim_space (cf_mfa_key_file c) = ''''), ErrMsg ''addresses and paths cannot be empty''),
     (listens (cf_listen c), ErrMsg ''listen_addr''),
     (listens (cf_https_listen c), ErrMsg ''https_listen_addr''),
     (port_text (cf_listen c) \<noteq> port_text (cf_https_listen c), ErrMsg ''listen_addr and https_listen_addr must use different ports''),
     ((cf_access_http_port c = 0) = (cf_access_https_port c = 0), ErrMsg ''access ports must both be zero or both be configured''),
     (cf_access_http_port c = 0 \<or> cf_access_domain c \<noteq> '''', ErrMsg ''access_domain is required for access ports''),
     (cf_access_http_port c = 0 \<or> cf_access_http_port c \<noteq> cf_access_https_port c, ErrMsg ''access ports must differ''),
     (cf_access_http_port c = 0 \<or> {cf_access_http_port c, cf_access_https_port c}
         \<inter> {port_value (cf_listen c), port_value (cf_https_listen c)} = {}, ErrMsg ''access ports conflict with panel ports'')]"

definition tls_rules :: "config \<Rightarrow> rules" where
  "tls_rules c = [
     ((cf_tls_cert c = '''') = (cf_tls_key c = ''''), ErrMsg ''tls_cert_file and tls_key_file must be configured together''),
     ((cf_access_tls_cert c = '''') = (cf_access_tls_key c = ''''), ErrMsg ''access_tls files must be configured together''),
     (cf_access_tls_cert c = '''' \<or> cf_tls_cert c \<noteq> '''', ErrMsg ''panel TLS certificate must be configured first''),
     (cf_access_tls_cert c = '''' \<or> cf_access_domain c \<noteq> '''', ErrMsg ''access_domain is required for an access certificate'')]"

definition mfa_rules :: "config_env \<Rightarrow> config \<Rightarrow> rules" where
  "mfa_rules env c = [
     (list_all (\<lambda>m. m = ''totp'' \<or> m = ''email'') (cf_mfa_methods c) \<and> distinct (cf_mfa_methods c),
       ErrMsg ''mfa_methods supports unique values totp and email''),
     (\<not> (cf_mfa_enabled c \<and> cf_mfa_methods c = []), ErrMsg ''mfa_methods cannot be empty''),
     (\<not> (cf_mfa_enabled c \<and> (cf_smtp_host c = '''' \<or> cf_smtp_from c = '''')), ErrMsg ''smtp_host and smtp_from are required''),
     (\<not> cf_mfa_enabled c \<or> cv_mail_address env (cf_smtp_from c), ErrMsg ''smtp_from is invalid''),
     (\<not> (cf_mode c = ''pro'' \<and> cf_access_domain c \<noteq> '''' \<and> cf_access_scheme c \<noteq> ''https''
         \<and> \<not> is_local_access_domain (cf_access_domain c)), ErrMsg ''access_scheme must be https'')]"

definition validate_config :: "config_env \<Rightarrow> config \<Rightarrow> unit res" where
  "validate_config env c = checked (base_rules c @ listen_rules c @ tls_rules c @ mfa_rules env c) ()"

section \<open>Loading\<close>

definition configured_value :: "config_env \<Rightarrow> settings \<Rightarrow> string \<Rightarrow> string \<Rightarrow> string \<Rightarrow> string" where
  "configured_value env values name key fallback = (let v = trim_space (cv_getenv env name) in
     if v \<noteq> '''' then v else case map_of values key of Some w \<Rightarrow> trim_space w | None \<Rightarrow> fallback)"

definition duration_between :: "config_env \<Rightarrow> int \<Rightarrow> int \<Rightarrow> string \<Rightarrow> string \<Rightarrow> int res" where
  "duration_between env low high name text = (case cv_parse_duration env text of
     Some t \<Rightarrow> if t < low \<or> t > high then Inl (ErrMsg (name @ '' is out of range'')) else Inr t
   | None \<Rightarrow> Inl (ErrMsg (name @ '' is out of range'')))"

text \<open>The files: the values of the configuration with those of the override over them, and where the override is.\<close>

definition read_settings :: "config_env \<Rightarrow> fs \<Rightarrow> (string \<times> string \<times> string \<times> settings) res" where
  "read_settings env fs = (let path = (let p = trim_space (cv_getenv env ''DMP_CONFIG_FILE'') in
       if p = '''' then ''./conf/device-management-platform.conf'' else p) in
     attempt (read_config_file fs path) (\<lambda>values.
     let from_file = (\<lambda>k. case map_of values k of None \<Rightarrow> '''' | Some v \<Rightarrow> v);
       data = first_configured [cv_getenv env ''DMP_DATA_DIR'', from_file ''data_dir'', ''./data''];
       override = first_configured [cv_getenv env ''DMP_SETTINGS_OVERRIDE_FILE'', from_file ''settings_override_file'',
         cv_join env data ''settings.override.conf''] in
     attempt (read_config_file fs override) (\<lambda>overrides. Inr (path, override, data, overrides @ values))))"

text \<open>The numbers and durations, in the order they are checked.\<close>

record config_numbers =
  cn_mfa_enabled :: bool
  cn_smtp_port :: int
  cn_access_http :: int
  cn_access_https :: int
  cn_email_ttl :: int
  cn_session_ttl :: int
  cn_idle_ttl :: int

definition load_numbers :: "config_env \<Rightarrow> (string \<Rightarrow> string \<Rightarrow> string \<Rightarrow> string) \<Rightarrow> config_numbers res" where
  "load_numbers env value =
     attempt (parse_bool (value ''DMP_MFA_ENABLED'' ''mfa_enabled'' ''false'') ''mfa_enabled'') (\<lambda>mfa.
     attempt (parse_port (value ''DMP_SMTP_PORT'' ''smtp_port'' ''587'') ''smtp_port'') (\<lambda>smtp.
     attempt (parse_optional_port (value ''DMP_ACCESS_HTTP_PORT'' ''access_http_port'' ''0'') ''access_http_port'') (\<lambda>http.
     attempt (parse_optional_port (value ''DMP_ACCESS_HTTPS_PORT'' ''access_https_port'' ''0'') ''access_https_port'') (\<lambda>https.
     attempt (duration_between env (minutes 1) (minutes 30) ''mfa_email_code_ttl''
       (value ''DMP_MFA_EMAIL_CODE_TTL'' ''mfa_email_code_ttl'' ''10m'')) (\<lambda>email.
     attempt (duration_between env (minutes 60) (minutes 43200) ''auth_session_ttl''
       (value ''DMP_AUTH_SESSION_TTL'' ''auth_session_ttl'' ''12h'')) (\<lambda>session.
     attempt (duration_between env (minutes 5) (min (minutes 1440) session) ''auth_session_idle_ttl''
       (value ''DMP_AUTH_SESSION_IDLE_TTL'' ''auth_session_idle_ttl'' ''15m'')) (\<lambda>idle.
     Inr \<lparr>cn_mfa_enabled = mfa, cn_smtp_port = smtp, cn_access_http = http, cn_access_https = https, cn_email_ttl = email,
       cn_session_ttl = session, cn_idle_ttl = idle\<rparr>)))))))"

text \<open>The token of the API, created where the mode needs one and none is configured.\<close>

definition load_token :: "config_env \<Rightarrow> string \<Rightarrow> string \<Rightarrow> settings \<Rightarrow> fs \<Rightarrow> fs \<times> string res" where
  "load_token env mode data values fs =
     (case load_configured_secret env fs ''DMP_API_TOKEN'' ''DMP_API_TOKEN_FILE'' (map_of values ''api_token'') (map_of values ''api_token_file'') of
       Inl e \<Rightarrow> (fs, Inl e)
     | Inr token \<Rightarrow> if mode = ''pro'' \<and> token = '''' then load_or_create_api_token env (cv_join env data ''api.token'') fs
         else (fs, Inr token))"

definition trim_dots :: "string \<Rightarrow> string" where
  "trim_dots s = to_lower (trim_chars {CHR ''.''} s)"

definition assemble :: "config_env \<Rightarrow> (string \<Rightarrow> string \<Rightarrow> string \<Rightarrow> string) \<Rightarrow> string \<Rightarrow> string \<Rightarrow> string \<Rightarrow> string \<Rightarrow> string \<Rightarrow> config_numbers \<Rightarrow> config" where
  "assemble env value path override data token password n = (let database = value ''DMP_DB_PATH'' ''database_path'' (cv_join env data ''platform.db'') in
     \<lparr>cf_config_file = path, cf_override_file = override, cf_mode = to_lower (value ''DMP_MODE'' ''run_mode'' ''pro''),
      cf_listen = value ''DMP_LISTEN_ADDR'' ''listen_addr'' ''0.0.0.0:80'',
      cf_https_listen = value ''DMP_HTTPS_LISTEN_ADDR'' ''https_listen_addr'' ''0.0.0.0:443'',
      cf_data_dir = data, cf_database_path = database, cf_api_token = token,
      cf_mfa_enabled = cn_mfa_enabled n, cf_mfa_methods = split_list (value ''DMP_MFA_METHODS'' ''mfa_methods'' ''totp''),
      cf_mfa_key_file = value ''DMP_MFA_KEY_FILE'' ''mfa_key_file'' (cv_join env (cv_dir env database) ''mfa.key''),
      cf_email_code_ttl = cn_email_ttl n, cf_session_ttl = cn_session_ttl n, cf_idle_ttl = cn_idle_ttl n,
      cf_smtp_host = value ''DMP_SMTP_HOST'' ''smtp_host'' '''', cf_smtp_port = cn_smtp_port n,
      cf_smtp_username = value ''DMP_SMTP_USERNAME'' ''smtp_username'' '''', cf_smtp_password = password,
      cf_smtp_from = value ''DMP_SMTP_FROM'' ''smtp_from'' '''', cf_smtp_tls_mode = smtp_tls_mode_for_port (cn_smtp_port n),
      cf_tls_cert = value ''DMP_TLS_CERT_FILE'' ''tls_cert_file'' '''', cf_tls_key = value ''DMP_TLS_KEY_FILE'' ''tls_key_file'' '''',
      cf_access_tls_cert = value ''DMP_ACCESS_TLS_CERT_FILE'' ''access_tls_cert_file'' '''',
      cf_access_tls_key = value ''DMP_ACCESS_TLS_KEY_FILE'' ''access_tls_key_file'' '''',
      cf_access_http_port = cn_access_http n, cf_access_https_port = cn_access_https n,
      cf_panel_domain = trim_dots (value ''DMP_PANEL_DOMAIN'' ''panel_domain'' ''''),
      cf_access_domain = trim_dots (value ''DMP_ACCESS_DOMAIN'' ''access_domain'' ''''),
      cf_access_scheme = to_lower (value ''DMP_ACCESS_SCHEME'' ''access_scheme'' ''https''),
      cf_trusted_proxies = split_list (value ''DMP_TRUSTED_PROXY_CIDRS'' ''trusted_proxy_cidrs'' '''')\<rparr>)"

definition load_config :: "config_env \<Rightarrow> fs \<Rightarrow> fs \<times> config res" where
  "load_config env fs = (case read_settings env fs of Inl e \<Rightarrow> (fs, Inl e)
     | Inr (path, override, data, values) \<Rightarrow> (let value = configured_value env values; data = value ''DMP_DATA_DIR'' ''data_dir'' data in
       case load_token env (to_lower (value ''DMP_MODE'' ''run_mode'' ''pro'')) data values fs of
         (fs, Inl e) \<Rightarrow> (fs, Inl e)
       | (fs, Inr token) \<Rightarrow> (fs,
           attempt (load_configured_secret env fs ''DMP_SMTP_PASSWORD'' ''DMP_SMTP_PASSWORD_FILE'' (map_of values ''smtp_password'')
             (map_of values ''smtp_password_file'')) (\<lambda>password.
           attempt (load_numbers env value) (\<lambda>n.
           let c = assemble env value path override data token password n in
           attempt (validate_config env c) (\<lambda>_. Inr c))))))"

end
