(* ===== verification/Settings.thy ===== *)
theory Settings
  imports Config ApiForwards
begin

text \<open>
  The settings that an administrator edits in the panel: \<open>config/settings.go\<close>, and their handlers in \<open>api/api.go\<close>.

  The manager keeps the configuration the panel runs with; a save writes the override file, which the next start
  reads. Fields that the environment controls are locked.
\<close>

section \<open>Panel settings\<close>

record panel_settings =
  ps_mfa_enabled :: bool
  ps_mfa_methods :: "string list"
  ps_email_code_ttl :: string
  ps_session_ttl :: string
  ps_idle_ttl :: string
  ps_mfa_key_file :: string
  ps_smtp_host :: string
  ps_smtp_port :: int
  ps_smtp_username :: string
  ps_smtp_password :: string
  ps_smtp_password_configured :: bool
  ps_clear_smtp_password :: bool
  ps_smtp_configured :: bool
  ps_smtp_from :: string
  ps_tls_cert :: string
  ps_tls_key :: string
  ps_tls_configured :: bool
  ps_access_tls_cert :: string
  ps_access_tls_key :: string
  ps_access_tls_configured :: bool
  ps_reuse_panel_ports :: bool
  ps_access_http_port :: int
  ps_access_https_port :: int
  ps_http_port :: int
  ps_https_port :: int
  ps_panel_domain :: string
  ps_access_domain :: string
  ps_restart_required :: bool
  ps_locked_fields :: "string list"
  ps_source :: string

definition new_settings_manager :: "config \<Rightarrow> config" where
  "new_settings_manager active = active\<lparr>
     cf_listen := (if trim_space (cf_listen active) = '''' then ''0.0.0.0:80'' else cf_listen active),
     cf_https_listen := (if trim_space (cf_https_listen active) = '''' then ''0.0.0.0:443'' else cf_https_listen active),
     cf_session_ttl := (if cf_session_ttl active = 0 then minutes 720 else cf_session_ttl active),
     cf_idle_ttl := (if cf_idle_ttl active = 0 then minutes 15 else cf_idle_ttl active)\<rparr>"

section \<open>Locked fields\<close>

definition editable_environment :: "(string \<times> string list) list" where
  "editable_environment = [
     (''mfaEnabled'', [''DMP_MFA_ENABLED'']), (''mfaMethods'', [''DMP_MFA_METHODS'']),
     (''emailCodeTTL'', [''DMP_MFA_EMAIL_CODE_TTL'']), (''authSessionTTL'', [''DMP_AUTH_SESSION_TTL'']),
     (''authSessionIdleTTL'', [''DMP_AUTH_SESSION_IDLE_TTL'']), (''smtpHost'', [''DMP_SMTP_HOST'']),
     (''smtpPort'', [''DMP_SMTP_PORT'']), (''smtpUsername'', [''DMP_SMTP_USERNAME'']),
     (''smtpPassword'', [''DMP_SMTP_PASSWORD'']), (''smtpFrom'', [''DMP_SMTP_FROM'']),
     (''tlsCertFile'', [''DMP_TLS_CERT_FILE'']), (''tlsKeyFile'', [''DMP_TLS_KEY_FILE'']),
     (''accessTlsCertFile'', [''DMP_ACCESS_TLS_CERT_FILE'']), (''accessTlsKeyFile'', [''DMP_ACCESS_TLS_KEY_FILE'']),
     (''reusePanelPorts'', [''DMP_ACCESS_HTTP_PORT'', ''DMP_ACCESS_HTTPS_PORT'']),
     (''accessHttpPort'', [''DMP_ACCESS_HTTP_PORT'']), (''accessHttpsPort'', [''DMP_ACCESS_HTTPS_PORT'']),
     (''panelDomain'', [''DMP_PANEL_DOMAIN'']), (''accessDomain'', [''DMP_ACCESS_DOMAIN'']),
     (''httpPort'', [''DMP_LISTEN_ADDR'']), (''httpsPort'', [''DMP_HTTPS_LISTEN_ADDR''])]"

definition set_in :: "config_env \<Rightarrow> string \<Rightarrow> bool" where
  "set_in env name \<longleftrightarrow> trim_space (cv_getenv env name) \<noteq> ''''"

definition environment_locked_fields :: "config_env \<Rightarrow> string list" where
  "environment_locked_fields env = sort (map fst (filter (\<lambda>(f, names). list_ex (set_in env) names) editable_environment)
     @ (if set_in env ''DMP_SMTP_PASSWORD_FILE'' then [''smtpPassword''] else []))"

definition field_locked :: "config_env \<Rightarrow> string \<Rightarrow> bool" where
  "field_locked env f \<longleftrightarrow> f \<in> set (environment_locked_fields env)"

definition normalized_methods :: "string list \<Rightarrow> string list" where
  "normalized_methods vs = sort (remdups (filter (\<lambda>v. v \<noteq> '''') (map (\<lambda>v. to_lower (trim_space v)) vs)))"

definition methods_key :: "string list \<Rightarrow> string" where
  "methods_key ms = join_with CHR '','' (sort ms)"

definition same_editable_config :: "config \<Rightarrow> config \<Rightarrow> bool" where
  "same_editable_config a b \<longleftrightarrow> cf_mfa_enabled a = cf_mfa_enabled b \<and> methods_key (cf_mfa_methods a) = methods_key (cf_mfa_methods b)
     \<and> cf_email_code_ttl a = cf_email_code_ttl b \<and> cf_session_ttl a = cf_session_ttl b \<and> cf_idle_ttl a = cf_idle_ttl b
     \<and> cf_smtp_host a = cf_smtp_host b \<and> cf_smtp_port a = cf_smtp_port b \<and> cf_smtp_username a = cf_smtp_username b
     \<and> cf_smtp_password a = cf_smtp_password b \<and> cf_smtp_from a = cf_smtp_from b
     \<and> cf_tls_cert a = cf_tls_cert b \<and> cf_tls_key a = cf_tls_key b
     \<and> cf_access_tls_cert a = cf_access_tls_cert b \<and> cf_access_tls_key a = cf_access_tls_key b
     \<and> cf_access_http_port a = cf_access_http_port b \<and> cf_access_https_port a = cf_access_https_port b
     \<and> cf_listen a = cf_listen b \<and> cf_https_listen a = cf_https_listen b
     \<and> cf_panel_domain a = cf_panel_domain b \<and> cf_access_domain a = cf_access_domain b \<and> cf_access_scheme a = cf_access_scheme b"

text \<open>The checks of \<open>rejectLockedChanges\<close>: a field and whether it changes.\<close>

definition field_changes :: "config \<Rightarrow> config \<Rightarrow> (string \<times> bool) list" where
  "field_changes a c = [
     (''mfaEnabled'', cf_mfa_enabled a \<noteq> cf_mfa_enabled c),
     (''mfaMethods'', methods_key (cf_mfa_methods a) \<noteq> methods_key (cf_mfa_methods c)),
     (''emailCodeTTL'', cf_email_code_ttl a \<noteq> cf_email_code_ttl c), (''smtpHost'', cf_smtp_host a \<noteq> cf_smtp_host c),
     (''authSessionTTL'', cf_session_ttl a \<noteq> cf_session_ttl c), (''authSessionIdleTTL'', cf_idle_ttl a \<noteq> cf_idle_ttl c),
     (''smtpPort'', cf_smtp_port a \<noteq> cf_smtp_port c), (''smtpUsername'', cf_smtp_username a \<noteq> cf_smtp_username c),
     (''smtpFrom'', cf_smtp_from a \<noteq> cf_smtp_from c), (''tlsCertFile'', cf_tls_cert a \<noteq> cf_tls_cert c),
     (''tlsKeyFile'', cf_tls_key a \<noteq> cf_tls_key c), (''accessTlsCertFile'', cf_access_tls_cert a \<noteq> cf_access_tls_cert c),
     (''accessTlsKeyFile'', cf_access_tls_key a \<noteq> cf_access_tls_key c),
     (''reusePanelPorts'', (cf_access_http_port a = 0 \<and> cf_access_https_port a = 0)
        \<noteq> (cf_access_http_port c = 0 \<and> cf_access_https_port c = 0)),
     (''accessHttpPort'', cf_access_http_port a \<noteq> cf_access_http_port c),
     (''accessHttpsPort'', cf_access_https_port a \<noteq> cf_access_https_port c),
     (''httpPort'', cf_listen a \<noteq> cf_listen c), (''httpsPort'', cf_https_listen a \<noteq> cf_https_listen c),
     (''panelDomain'', cf_panel_domain a \<noteq> cf_panel_domain c), (''accessDomain'', cf_access_domain a \<noteq> cf_access_domain c)]"

definition reject_locked_changes :: "config_env \<Rightarrow> config \<Rightarrow> config \<Rightarrow> unit res" where
  "reject_locked_changes env a c =
     demand (\<not> list_ex (\<lambda>(f, changed). field_locked env f \<and> changed) (field_changes a c)) (ErrMsg ''controlled by an environment variable'')"

section \<open>The pending configuration\<close>

definition preserve_environment :: "config_env \<Rightarrow> config \<Rightarrow> config \<Rightarrow> config" where
  "preserve_environment env a d = (let
     kept = (\<lambda>f old new. if field_locked env f then old else new);
     ports = field_locked env ''reusePanelPorts'' \<or> field_locked env ''accessHttpPort'' \<or> field_locked env ''accessHttpsPort'' in
     d\<lparr>cf_mfa_enabled := (if field_locked env ''mfaEnabled'' then cf_mfa_enabled a else cf_mfa_enabled d),
       cf_mfa_methods := (if field_locked env ''mfaMethods'' then cf_mfa_methods a else cf_mfa_methods d),
       cf_email_code_ttl := (if field_locked env ''emailCodeTTL'' then cf_email_code_ttl a else cf_email_code_ttl d),
       cf_session_ttl := (if field_locked env ''authSessionTTL'' then cf_session_ttl a else cf_session_ttl d),
       cf_idle_ttl := (if field_locked env ''authSessionIdleTTL'' then cf_idle_ttl a else cf_idle_ttl d),
       cf_smtp_host := kept ''smtpHost'' (cf_smtp_host a) (cf_smtp_host d),
       cf_smtp_port := (if field_locked env ''smtpPort'' then cf_smtp_port a else cf_smtp_port d),
       cf_smtp_tls_mode := kept ''smtpPort'' (cf_smtp_tls_mode a) (cf_smtp_tls_mode d),
       cf_smtp_username := kept ''smtpUsername'' (cf_smtp_username a) (cf_smtp_username d),
       cf_smtp_password := kept ''smtpPassword'' (cf_smtp_password a) (cf_smtp_password d),
       cf_smtp_from := kept ''smtpFrom'' (cf_smtp_from a) (cf_smtp_from d),
       cf_tls_cert := kept ''tlsCertFile'' (cf_tls_cert a) (cf_tls_cert d),
       cf_tls_key := kept ''tlsKeyFile'' (cf_tls_key a) (cf_tls_key d),
       cf_access_tls_cert := kept ''accessTlsCertFile'' (cf_access_tls_cert a) (cf_access_tls_cert d),
       cf_access_tls_key := kept ''accessTlsKeyFile'' (cf_access_tls_key a) (cf_access_tls_key d),
       cf_access_http_port := (if ports then cf_access_http_port a else cf_access_http_port d),
       cf_access_https_port := (if ports then cf_access_https_port a else cf_access_https_port d),
       cf_listen := kept ''httpPort'' (cf_listen a) (cf_listen d),
       cf_https_listen := kept ''httpsPort'' (cf_https_listen a) (cf_https_listen d),
       cf_panel_domain := kept ''panelDomain'' (cf_panel_domain a) (cf_panel_domain d),
       cf_access_domain := kept ''accessDomain'' (cf_access_domain a) (cf_access_domain d),
       cf_access_scheme := (if field_locked env ''accessDomain'' \<or> set_in env ''DMP_ACCESS_SCHEME''
         then cf_access_scheme a else cf_access_scheme d)\<rparr>)"

definition or_old :: "'a \<Rightarrow> (string \<Rightarrow> 'a option) \<Rightarrow> string option \<Rightarrow> 'a" where
  "or_old old parse v = (case v of None \<Rightarrow> old | Some t \<Rightarrow> case parse t of None \<Rightarrow> old | Some x \<Rightarrow> x)"

definition optional_port_or_zero :: "string \<Rightarrow> int option" where
  "optional_port_or_zero t = Some (case parse_optional_port t '''' of Inl e \<Rightarrow> 0 | Inr i \<Rightarrow> i)"

definition apply_editable_values :: "config_env \<Rightarrow> fs \<Rightarrow> settings \<Rightarrow> config \<Rightarrow> config" where
  "apply_editable_values env fs values c = (let port = or_old (cf_smtp_port c) atoi (map_of values ''smtp_port'') in
     c\<lparr>cf_mfa_enabled := or_old (cf_mfa_enabled c) (\<lambda>t. Some (go_parse_bool t = Some True)) (map_of values ''mfa_enabled''),
       cf_mfa_methods := or_old (cf_mfa_methods c) (\<lambda>t. Some (split_list t)) (map_of values ''mfa_methods''),
       cf_email_code_ttl := or_old (cf_email_code_ttl c) (cv_parse_duration env) (map_of values ''mfa_email_code_ttl''),
       cf_session_ttl := or_old (cf_session_ttl c) (cv_parse_duration env) (map_of values ''auth_session_ttl''),
       cf_idle_ttl := or_old (cf_idle_ttl c) (cv_parse_duration env) (map_of values ''auth_session_idle_ttl''),
       cf_smtp_host := or_old (cf_smtp_host c) Some (map_of values ''smtp_host''),
       cf_smtp_port := port, cf_smtp_tls_mode := smtp_tls_mode_for_port port,
       cf_smtp_username := or_old (cf_smtp_username c) Some (map_of values ''smtp_username''),
       cf_smtp_from := or_old (cf_smtp_from c) Some (map_of values ''smtp_from''),
       cf_tls_cert := or_old (cf_tls_cert c) Some (map_of values ''tls_cert_file''),
       cf_tls_key := or_old (cf_tls_key c) Some (map_of values ''tls_key_file''),
       cf_access_tls_cert := or_old (cf_access_tls_cert c) Some (map_of values ''access_tls_cert_file''),
       cf_access_tls_key := or_old (cf_access_tls_key c) Some (map_of values ''access_tls_key_file''),
       cf_access_http_port := or_old (cf_access_http_port c) optional_port_or_zero (map_of values ''access_http_port''),
       cf_access_https_port := or_old (cf_access_https_port c) optional_port_or_zero (map_of values ''access_https_port''),
       cf_listen := or_old (cf_listen c) Some (map_of values ''listen_addr''),
       cf_https_listen := or_old (cf_https_listen c) Some (map_of values ''https_listen_addr''),
       cf_panel_domain := or_old (cf_panel_domain c) Some (map_of values ''panel_domain''),
       cf_access_domain := or_old (cf_access_domain c) Some (map_of values ''access_domain''),
       cf_access_scheme := or_old (cf_access_scheme c) Some (map_of values ''access_scheme''),
       cf_smtp_password := or_old (cf_smtp_password c) (\<lambda>t. if trim_space t = '''' then None
         else case fs (trim_space t) of Content p \<Rightarrow> Some (trim_space p) | _ \<Rightarrow> None) (map_of values ''smtp_password_file'')\<rparr>)"

definition desired_config :: "config_env \<Rightarrow> fs \<Rightarrow> config \<Rightarrow> config" where
  "desired_config env fs active = preserve_environment env active (case read_config_file fs (cf_override_file active) of
     Inl e \<Rightarrow> active
   | Inr values \<Rightarrow> if values = [] then active else apply_editable_values env fs values active)"

section \<open>What is shown\<close>

definition go_div :: "int \<Rightarrow> int \<Rightarrow> int" where
  "go_div a b = (if a < 0 then - (- a div b) else a div b)"

definition format_duration_minutes :: "int \<Rightarrow> string" where
  "format_duration_minutes t = itoa (go_div t (minutes 1)) @ ''m''"

definition format_duration_compact :: "config_env \<Rightarrow> int \<Rightarrow> string" where
  "format_duration_compact env t = (if t mod minutes 60 = 0 then itoa (go_div t (minutes 60)) @ ''h''
     else if t mod minutes 1 = 0 then itoa (go_div t (minutes 1)) @ ''m'' else cv_duration_text env t)"

definition listen_port :: "string \<Rightarrow> int" where
  "listen_port address = (case split_host_port address of None \<Rightarrow> 0 | Some (h, p) \<Rightarrow> atoi_or_bound p)"

definition listen_address_with_port :: "string \<Rightarrow> int \<Rightarrow> string" where
  "listen_address_with_port address port =
     join_host_port (case split_host_port address of None \<Rightarrow> ''0.0.0.0'' | Some (h, p) \<Rightarrow> h) (itoa port)"

definition panel_settings_from_config :: "config_env \<Rightarrow> config \<Rightarrow> panel_settings" where
  "panel_settings_from_config env c = \<lparr>ps_mfa_enabled = cf_mfa_enabled c, ps_mfa_methods = cf_mfa_methods c,
     ps_email_code_ttl = format_duration_minutes (cf_email_code_ttl c),
     ps_session_ttl = format_duration_compact env (cf_session_ttl c), ps_idle_ttl = format_duration_compact env (cf_idle_ttl c),
     ps_mfa_key_file = cf_mfa_key_file c, ps_smtp_host = cf_smtp_host c, ps_smtp_port = cf_smtp_port c,
     ps_smtp_username = cf_smtp_username c, ps_smtp_password = '''', ps_smtp_password_configured = (cf_smtp_password c \<noteq> ''''),
     ps_clear_smtp_password = False, ps_smtp_configured = (cf_smtp_host c \<noteq> '''' \<and> cf_smtp_from c \<noteq> ''''),
     ps_smtp_from = cf_smtp_from c, ps_tls_cert = cf_tls_cert c, ps_tls_key = cf_tls_key c,
     ps_tls_configured = (cf_tls_cert c \<noteq> '''' \<and> cf_tls_key c \<noteq> ''''), ps_access_tls_cert = cf_access_tls_cert c,
     ps_access_tls_key = cf_access_tls_key c,
     ps_access_tls_configured = (cf_access_tls_cert c \<noteq> '''' \<and> cf_access_tls_key c \<noteq> ''''),
     ps_reuse_panel_ports = (cf_access_http_port c = 0 \<and> cf_access_https_port c = 0),
     ps_access_http_port = cf_access_http_port c, ps_access_https_port = cf_access_https_port c,
     ps_http_port = listen_port (cf_listen c), ps_https_port = listen_port (cf_https_listen c),
     ps_panel_domain = cf_panel_domain c, ps_access_domain = cf_access_domain c, ps_restart_required = False,
     ps_locked_fields = [], ps_source = ''''\<rparr>"

definition shown_settings :: "config_env \<Rightarrow> config \<Rightarrow> config \<Rightarrow> panel_settings" where
  "shown_settings env active c = (panel_settings_from_config env c)\<lparr>ps_restart_required := \<not> same_editable_config active c,
     ps_locked_fields := environment_locked_fields env, ps_source := ''web_override''\<rparr>"

definition current_settings :: "config_env \<Rightarrow> fs \<Rightarrow> config \<Rightarrow> panel_settings" where
  "current_settings env fs active = shown_settings env active (desired_config env fs active)"

section \<open>Saving\<close>

definition settings_comment :: string where
  "settings_comment =
     [CHR ''#'', CHR '' '', CHR 0xE7, CHR 0x94, CHR 0xB1, CHR '' '', CHR 0xE8, CHR 0xAE, CHR 0xBE, CHR 0xE5, 
     CHR 0xA4, CHR 0x87, CHR 0xE7, CHR 0xAE, CHR 0xA1, CHR 0xE7, CHR 0x90, CHR 0x86, CHR 0xE5, CHR 0xB9, 
     CHR 0xB3, CHR 0xE5, CHR 0x8F, CHR 0xB0, CHR '' '', CHR 0xE7, CHR 0xB3, CHR 0xBB, CHR 0xE7, CHR 0xBB, 
     CHR 0x9F, CHR 0xE8, CHR 0xAE, CHR 0xBE, CHR 0xE7, CHR 0xBD, CHR 0xAE, CHR 0xE7, CHR 0x94, CHR 0x9F, 
     CHR 0xE6, CHR 0x88, CHR 0x90, CHR 0xE3, CHR 0x80, CHR 0x82, CHR 0xE5, CHR 0x8F, CHR 0xAF, CHR 0xE7, 
     CHR 0x94, CHR 0xB1, CHR 0xE9, CHR 0x83, CHR 0xA8, CHR 0xE7, CHR 0xBD, CHR 0xB2, CHR 0xE9, CHR 0x85, 
     CHR 0x8D, CHR 0xE7, CHR 0xBD, CHR 0xAE, CHR 0xE6, CHR 0x88, CHR 0x96, CHR 0xE7, CHR 0x8E, CHR 0xAF, 
     CHR 0xE5, CHR 0xA2, CHR 0x83, CHR 0xE5, CHR 0x8F, CHR 0x98, CHR 0xE9, CHR 0x87, CHR 0x8F, CHR 0xE8, 
     CHR 0xA6, CHR 0x86, CHR 0xE7, CHR 0x9B, CHR 0x96, CHR 0xE3, CHR 0x80, CHR 0x82]"

definition bool_text :: "bool \<Rightarrow> string" where
  "bool_text b = (if b then ''true'' else ''false'')"

definition override_values :: "config_env \<Rightarrow> config \<Rightarrow> string \<Rightarrow> (string \<times> string) list" where
  "override_values env c password_file = [
     (''mfa_enabled'', bool_text (cf_mfa_enabled c)), (''mfa_methods'', join_with CHR '','' (cf_mfa_methods c)),
     (''mfa_email_code_ttl'', cv_duration_text env (cf_email_code_ttl c)),
     (''auth_session_ttl'', cv_duration_text env (cf_session_ttl c)),
     (''auth_session_idle_ttl'', cv_duration_text env (cf_idle_ttl c)), (''smtp_host'', cf_smtp_host c),
     (''smtp_port'', itoa (cf_smtp_port c)), (''smtp_username'', cf_smtp_username c), (''smtp_password'', ''''),
     (''smtp_from'', cf_smtp_from c), (''tls_cert_file'', cf_tls_cert c), (''tls_key_file'', cf_tls_key c),
     (''access_tls_cert_file'', cf_access_tls_cert c), (''access_tls_key_file'', cf_access_tls_key c),
     (''access_http_port'', itoa (cf_access_http_port c)), (''access_https_port'', itoa (cf_access_https_port c)),
     (''listen_addr'', cf_listen c), (''https_listen_addr'', cf_https_listen c), (''panel_domain'', cf_panel_domain c),
     (''access_domain'', cf_access_domain c), (''access_scheme'', cf_access_scheme c)]
     @ (if password_file \<noteq> '''' then [(''smtp_password_file'', password_file)] else [])"

definition setting_line :: "string \<times> string \<Rightarrow> string" where
  "setting_line = (\<lambda>(k, v). k @ '' = '' @ v)"

definition render_override :: "config_env \<Rightarrow> config \<Rightarrow> string \<Rightarrow> string" where
  "render_override env c password_file =
     join_with CHR 0x0A (settings_comment # map setting_line (override_values env c password_file)) @ [CHR 0x0A]"

definition write_private_file :: "config_env \<Rightarrow> string \<Rightarrow> string \<Rightarrow> fs \<Rightarrow> fs res" where
  "write_private_file env path content fs = (if cv_can_write env path then Inr (fs(path := Content content))
     else Inl (ErrMsg ''write file''))"

definition setting_of :: "settings res \<Rightarrow> string \<Rightarrow> string" where
  "setting_of r k = (case r of Inl e \<Rightarrow> '''' | Inr values \<Rightarrow> case map_of values k of None \<Rightarrow> '''' | Some v \<Rightarrow> trim_space v)"

definition configured_password_file :: "config_env \<Rightarrow> fs \<Rightarrow> config \<Rightarrow> string" where
  "configured_password_file env fs active = first_configured [cv_getenv env ''DMP_SMTP_PASSWORD_FILE'',
     setting_of (read_config_file fs (cf_override_file active)) ''smtp_password_file'',
     setting_of (read_config_file fs (cf_config_file active)) ''smtp_password_file'']"

text \<open>The texts of an input as they are compared and kept.\<close>

definition trimmed_input :: "panel_settings \<Rightarrow> panel_settings" where
  "trimmed_input i = i\<lparr>ps_mfa_methods := normalized_methods (ps_mfa_methods i), ps_smtp_host := trim_space (ps_smtp_host i),
     ps_smtp_username := trim_space (ps_smtp_username i), ps_smtp_from := trim_space (ps_smtp_from i),
     ps_tls_cert := trim_space (ps_tls_cert i), ps_tls_key := trim_space (ps_tls_key i),
     ps_access_tls_cert := trim_space (ps_access_tls_cert i), ps_access_tls_key := trim_space (ps_access_tls_key i),
     ps_panel_domain := trim_dots (trim_space (ps_panel_domain i)), ps_access_domain := trim_dots (trim_space (ps_access_domain i))\<rparr>"

definition single_line :: "string \<Rightarrow> bool" where
  "single_line v \<longleftrightarrow> CHR 0x0D \<notin> set v \<and> CHR 0x0A \<notin> set v"

definition input_texts :: "panel_settings \<Rightarrow> string list" where
  "input_texts i = [ps_email_code_ttl i, ps_smtp_host i, ps_smtp_username i, ps_smtp_from i, ps_tls_cert i, ps_tls_key i,
     ps_access_tls_cert i, ps_access_tls_key i, ps_panel_domain i, ps_access_domain i]"

text \<open>A duration of the input, or the pending one where the input leaves it blank.\<close>

definition input_duration :: "config_env \<Rightarrow> string \<Rightarrow> int \<Rightarrow> int res" where
  "input_duration env t pending = from_row (cv_parse_duration env (trim_space (if blank t then cv_duration_text env pending else t)))
     (ErrMsg ''not a duration'')"

definition with_input :: "config_env \<Rightarrow> config \<Rightarrow> panel_settings \<Rightarrow> int \<times> int \<times> int \<Rightarrow> config \<Rightarrow> config" where
  "with_input env active i = (\<lambda>(email, session, idle) c. let
     reuse = ps_reuse_panel_ports i \<or> ps_access_http_port i = 0 \<and> ps_access_https_port i = 0 in
     c\<lparr>cf_mfa_enabled := ps_mfa_enabled i, cf_mfa_methods := ps_mfa_methods i, cf_email_code_ttl := email,
       cf_session_ttl := session, cf_idle_ttl := idle, cf_smtp_host := ps_smtp_host i, cf_smtp_port := ps_smtp_port i,
       cf_smtp_username := ps_smtp_username i, cf_smtp_from := ps_smtp_from i,
       cf_smtp_tls_mode := smtp_tls_mode_for_port (ps_smtp_port i), cf_tls_cert := ps_tls_cert i, cf_tls_key := ps_tls_key i,
       cf_access_tls_cert := ps_access_tls_cert i, cf_access_tls_key := ps_access_tls_key i,
       cf_access_http_port := (if reuse then 0 else ps_access_http_port i),
       cf_access_https_port := (if reuse then 0 else ps_access_https_port i),
       cf_listen := listen_address_with_port (cf_listen active) (ps_http_port i),
       cf_https_listen := listen_address_with_port (cf_https_listen active) (ps_https_port i),
       cf_panel_domain := ps_panel_domain i, cf_access_domain := ps_access_domain i,
       cf_access_scheme := (if ps_access_domain i = '''' then cf_access_scheme c
         else if is_local_access_domain (ps_access_domain i) then ''http'' else ''https''),
       cf_smtp_password := (if ps_clear_smtp_password i then ''''
         else if trim_space (ps_smtp_password i) \<noteq> '''' then ps_smtp_password i else cf_smtp_password c)\<rparr>)"

text \<open>What is saved, or why not; nothing is written before.\<close>

definition candidate_config :: "config_env \<Rightarrow> fs \<Rightarrow> config \<Rightarrow> panel_settings \<Rightarrow> config res" where
  "candidate_config env fs active i = (let pending = desired_config env fs active in
     attempt (demand (\<not> (field_locked env ''smtpPassword'' \<and> (trim_space (ps_smtp_password i) \<noteq> '''' \<or> ps_clear_smtp_password i)))
       (ErrMsg ''smtpPassword is controlled by an environment variable'')) (\<lambda>_.
     attempt (demand (ps_mfa_key_file i = '''' \<or> trim_space (ps_mfa_key_file i) = cf_mfa_key_file active)
       (ErrMsg ''mfa_key_file is read-only'')) (\<lambda>_.
     attempt (demand (list_all single_line (input_texts i)) (ErrMsg ''line breaks'')) (\<lambda>_.
     attempt (from_row (cv_parse_duration env (trim_space (ps_email_code_ttl i))) (ErrMsg ''mfa_email_code_ttl must be a duration'')) (\<lambda>email.
     attempt (input_duration env (ps_session_ttl i) (cf_session_ttl pending)) (\<lambda>session.
     attempt (input_duration env (ps_idle_ttl i) (cf_idle_ttl pending)) (\<lambda>idle.
     attempt (demand (port_number (ps_http_port i) \<and> port_number (ps_https_port i)) (ErrMsg ''ports must be between 1 and 65535'')) (\<lambda>_.
     attempt (demand (ps_http_port i \<noteq> ps_https_port i) (ErrMsg ''ports must be different'')) (\<lambda>_.
     attempt (demand (\<not> (ps_clear_smtp_password i \<and> trim_space (ps_smtp_password i) \<noteq> '''')) (ErrMsg ''smtpPassword and clearSMTPPassword'')) (\<lambda>_.
     let c = with_input env active i (email, session, idle) pending in
     attempt (validate_config env c) (\<lambda>_.
     attempt (reject_locked_changes env active c) (\<lambda>_. Inr c))))))))))))"

text \<open>Where the password is kept, written there when it is new or was kept in the configuration itself.\<close>

definition keep_password :: "config_env \<Rightarrow> config \<Rightarrow> panel_settings \<Rightarrow> config \<Rightarrow> fs \<Rightarrow> (string \<times> fs) res" where
  "keep_password env active i c fs = (let own = cv_join env (cf_data_dir active) ''smtp-password'';
       found = configured_password_file env fs active in
     if ps_clear_smtp_password i then Inr ('''', fs)
     else if trim_space (ps_smtp_password i) \<noteq> ''''
       then attempt (write_private_file env own (ps_smtp_password i @ [CHR 0x0A]) fs) (\<lambda>fs. Inr (own, fs))
     else if cf_smtp_password c = '''' then Inr ('''', fs)
     else if found = '''' \<and> \<not> set_in env ''DMP_SMTP_PASSWORD''
       then attempt (write_private_file env own (cf_smtp_password c @ [CHR 0x0A]) fs) (\<lambda>fs. Inr (own, fs))
     else Inr (found, fs))"

definition save_settings :: "config_env \<Rightarrow> config \<Rightarrow> panel_settings \<Rightarrow> fs \<Rightarrow> fs \<times> panel_settings res" where
  "save_settings env active input fs = (let i = trimmed_input input in
     case candidate_config env fs active i of Inl e \<Rightarrow> (fs, Inl e)
     | Inr c \<Rightarrow> (case keep_password env active i c fs of Inl e \<Rightarrow> (fs, Inl e)
     | Inr (password_file, fs) \<Rightarrow>
       (case write_private_file env (cf_override_file active) (render_override env c password_file) fs of Inl e \<Rightarrow> (fs, Inl e)
     | Inr fs \<Rightarrow> (let own = cv_join env (cf_data_dir active) ''smtp-password'' in
         if ps_clear_smtp_password i \<and> fs own \<noteq> Missing \<and> \<not> cv_can_write env own
         then (fs, Inl (ErrMsg ''remove managed SMTP password''))
         else (if ps_clear_smtp_password i then fs(own := Missing) else fs, Inr (shown_settings env active c))))))"

section \<open>The handlers\<close>

text \<open>Without a settings manager the view shows what the server was started with.\<close>

datatype security_view = Panel panel_settings | Fixed bool "string list" bool bool int

definition security_settings_handler ::
  "config_env \<Rightarrow> fs \<Rightarrow> config option \<Rightarrow> bool \<times> string list \<times> bool \<times> bool \<times> int \<Rightarrow> call \<Rightarrow> security_view answer" where
  "security_settings_handler env fs manager started c = (case require_system_admin (cl_principal c) of Inl e \<Rightarrow> Inl e
     | Inr _ \<Rightarrow> (case manager of Some active \<Rightarrow> Inr (Panel (current_settings env fs active))
       | None \<Rightarrow> (case started of (mfa, methods, smtp, tls, ttl) \<Rightarrow> Inr (Fixed mfa methods smtp tls ttl))))"

definition update_settings_handler ::
  "config_env \<Rightarrow> config option \<Rightarrow> drawn \<Rightarrow> call \<Rightarrow> panel_settings option \<Rightarrow> fs \<times> db \<Rightarrow> (fs \<times> db) \<times> panel_settings answer" where
  "update_settings_handler env manager d c body = (\<lambda>(fs, db). case require_system_admin (cl_principal c) of Inl e \<Rightarrow> ((fs, db), Inl e)
     | Inr _ \<Rightarrow> (case manager of None \<Rightarrow> ((fs, db), Inl (503, ''settings_unavailable''))
     | Some active \<Rightarrow> (case body of None \<Rightarrow> ((fs, db), Inl (400, ''invalid_json''))
     | Some input \<Rightarrow> (case save_settings env active input fs of
         (fs, Inl e) \<Rightarrow> ((fs, db), Inl (422, ''settings_invalid''))
       | (fs, Inr s) \<Rightarrow> (case append_audit (dw_id d ''audit'') (dw_at d ''audit'')
             ((audit_from_request c ''settings.security_update'' ''settings'')\<lparr>ai_resource_id := ''security'',
               ai_metadata := Parsed (JObject [(''mfaEnabled'', JBool (ps_mfa_enabled s)),
                 (''mfaMethods'', JArray (map JString (ps_mfa_methods s))), (''restartRequired'', JBool (ps_restart_required s)),
                 (''smtpConfigured'', JBool (ps_smtp_configured s)), (''tlsConfigured'', JBool (ps_tls_configured s))])\<rparr>) db of
           (db, Inl e) \<Rightarrow> ((fs, db), Inl (500, ''audit_write_failed''))
         | (db, Inr _) \<Rightarrow> ((fs, db), Inr s))))))"

text \<open>The restart happens after the answer, in the background.\<close>

definition restart_handler :: "bool \<Rightarrow> drawn \<Rightarrow> call \<Rightarrow> db \<Rightarrow> db \<times> unit answer" where
  "restart_handler supported d c db = (case require_system_admin (cl_principal c) of Inl e \<Rightarrow> (db, Inl e)
     | Inr _ \<Rightarrow> if \<not> supported then (db, Inl (503, ''restart_unavailable''))
       else case append_audit (dw_id d ''audit'') (dw_at d ''audit'')
           ((audit_from_request c ''system.restart'' ''system'')\<lparr>ai_resource_id := ''panel''\<rparr>) db of
         (db, Inl e) \<Rightarrow> (db, Inl (500, ''audit_write_failed'')) | (db, Inr _) \<Rightarrow> (db, Inr ()))"

section \<open>An override is read as it was written\<close>

lemma drop_both_ends: "dropWhile P (rev (dropWhile P (rev s))) = rev (dropWhile P (rev (dropWhile P s)))"
proof (induction s)
  case (Cons ch s)
  show ?case
  proof (cases "\<exists>d\<in>set s. \<not> P d")
    case True
    then show ?thesis using Cons by (auto simp: dropWhile_append)
  next
    case False
    then have "\<forall>d\<in>set s. P d" by blast
    then have "dropWhile P s = []" "dropWhile P (rev s @ [ch]) = dropWhile P [ch]"
      by (simp_all add: dropWhile_append)
    then show ?thesis by (simp del: dropWhile_eq_Nil_conv)
  qed
qed simp

lemma trim_space_after: "\<not> is_space ch \<Longrightarrow> rev (dropWhile is_space (rev (w @ ch # v)))
    = w @ ch # rev (dropWhile is_space (rev v))"
  by (cases "\<exists>d\<in>set v. \<not> is_space d") (auto simp: dropWhile_append dropWhile_eq_Nil_conv)

lemma trim_space_blank_first: "trim_space (CHR '' '' # v) = trim_space v"
  by (simp add: trim_space_def is_space_def)

lemma drop_twice: "dropWhile P (dropWhile P s) = dropWhile P s"
  by (induction s) simp_all

lemma trim_space_trimmed_right: "trim_space (rev (dropWhile is_space (rev v))) = trim_space v"
  by (simp only: trim_space_def drop_both_ends drop_twice rev_rev_ident)

definition good_key :: "string \<Rightarrow> bool" where
  "good_key k \<longleftrightarrow> k \<noteq> '''' \<and> list_all (\<lambda>ch. ch \<in> set ''abcdefghijklmnopqrstuvwxyz_'') k"

lemma good_char: "ch \<in> set ''abcdefghijklmnopqrstuvwxyz_'' \<Longrightarrow>
    \<not> is_space ch \<and> ch \<noteq> CHR ''='' \<and> ch \<noteq> CHR ''#'' \<and> ch \<noteq> CHR '';'' \<and> lower_char ch = ch"
  by (auto simp: is_space_def lower_char_def)

lemma good_key_facts:
  assumes "good_key k"
  shows "k \<noteq> ''''" "\<forall>ch\<in>set k. \<not> is_space ch" "CHR ''='' \<notin> set k" "hd k \<noteq> CHR ''#''" "hd k \<noteq> CHR '';''" "to_lower k = k"
proof -
  have "k \<noteq> ''''" "\<forall>ch\<in>set k. \<not> is_space ch \<and> ch \<noteq> CHR ''='' \<and> ch \<noteq> CHR ''#'' \<and> ch \<noteq> CHR '';'' \<and> lower_char ch = ch"
    using assms good_char unfolding good_key_def list_all_iff by blast+
  then show "k \<noteq> ''''" "\<forall>ch\<in>set k. \<not> is_space ch" "CHR ''='' \<notin> set k" "hd k \<noteq> CHR ''#''" "hd k \<noteq> CHR '';''" "to_lower k = k"
    by (auto simp: to_lower_def intro: map_idI)
qed

lemma setting_line_parsed:
  assumes "good_key k"
  shows "parse_line (setting_line (k, v)) = Some (Some (k, unquote (trim_space v)))"
proof -
  note k = good_key_facts [OF assms]
  have "\<not> is_space CHR ''=''" by (simp add: is_space_def)
  then have line: "trim_space (setting_line (k, v)) = (k @ '' '') @ CHR ''='' # rev (dropWhile is_space (rev (CHR '' '' # v)))"
    using k(1,2) trim_space_after [of "CHR ''=''" "k @ '' ''" "CHR '' '' # v"]
    by (cases k) (auto simp: trim_space_def setting_line_def)
  have key: "trim_space (k @ '' '') = k"
  proof -
    obtain w l where w: "k = w @ [l]" using k(1) by (cases k rule: rev_exhaust) auto
    have "dropWhile is_space (k @ '' '') = k @ '' ''" using k(1,2) by (cases k) auto
    moreover have "\<not> is_space l" "is_space CHR '' ''" using k(2) w by (auto simp: is_space_def)
    ultimately show ?thesis by (simp add: trim_space_def w)
  qed
  have no: "\<forall>ch\<in>set (k @ '' ''). ch \<noteq> CHR ''=''" using k(3) by auto
  have split: "takeWhile (\<lambda>ch. ch \<noteq> CHR ''='') ((k @ '' '') @ CHR ''='' # w) = k @ '' ''"
    "dropWhile (\<lambda>ch. ch \<noteq> CHR ''='') ((k @ '' '') @ CHR ''='' # w) = CHR ''='' # w" for w
    by (subst takeWhile_append2 dropWhile_append2, use no in blast, simp)+
  have rest: "trim_space (rev (dropWhile is_space (rev (CHR '' '' # v)))) = trim_space v"
    by (simp only: trim_space_trimmed_right trim_space_blank_first)
  obtain ch k' where "k = ch # k'" using k(1) by (cases k) auto
  then have "\<not> ((k @ '' '') @ CHR ''='' # w = '''' \<or> hd ((k @ '' '') @ CHR ''='' # w) = CHR ''#''
      \<or> hd ((k @ '' '') @ CHR ''='' # w) = CHR '';'')" "CHR ''='' \<in> set ((k @ '' '') @ CHR ''='' # w)" for w
    using k(4,5) by auto
  then show ?thesis
    by (simp only: parse_line_def Let_def line split key rest k(1,6) list.sel if_False not_True_eq_False if_True simp_thms)
qed

lemma comment_skipped: "parse_line settings_comment = Some None"
  by (simp add: parse_line_def settings_comment_def trim_space_def is_space_def)

lemma parse_setting_lines:
  "list_all (\<lambda>(k, v). good_key k) kvs \<Longrightarrow>
     parse_lines (map setting_line kvs) vs = Inr (rev (map (\<lambda>(k, v). (k, unquote (trim_space v))) kvs) @ vs)"
proof (induction kvs arbitrary: vs)
  case (Cons kv kvs)
  then show ?case by (cases kv) (simp add: setting_line_parsed)
qed simp

lemma override_keys: "list_all (\<lambda>(k, v). good_key k) (override_values env c pw)" "distinct (map fst (override_values env c pw))"
  by (simp_all add: override_values_def good_key_def)

lemma join_with_snoc: "ws \<noteq> [] \<Longrightarrow> join_with sep ws @ [sep] = join_with sep (ws @ [[]])"
  by (cases ws) (simp_all add: join_with_def)

lemma drop_cr_single: "single_line l \<Longrightarrow> drop_cr l = l"
  by (auto simp: drop_cr_def single_line_def dest: last_in_set)

lemma scan_lines_written:
  assumes "ls \<noteq> []" "list_all single_line ls" "last ls \<noteq> ''''"
    and "scan_lines (join_with CHR 0x0A ls @ [CHR 0x0A]) = Some rs"
  shows "rs = ls"
proof -
  have "split_on CHR 0x0A (join_with CHR 0x0A ls @ [CHR 0x0A]) = ls @ [[]]"
    using assms(1,2) by (subst join_with_snoc, simp, subst split_on_join) (auto simp: single_line_def list_all_iff)
  moreover have "map drop_cr ls = ls"
    using assms(2) by (intro map_idI) (simp add: drop_cr_single list_all_iff)
  ultimately show ?thesis using assms(4) by (auto simp: scan_lines_def Let_def split: if_splits)
qed

lemma override_lines_single:
  assumes "list_all (\<lambda>(k, v). single_line v) (override_values env c pw)"
  shows "list_all single_line (settings_comment # map setting_line (override_values env c pw))"
proof -
  have key: "single_line k" if "(k, v) \<in> set (override_values env c pw)" for k v
    using good_char override_keys(1) [of env c pw] that unfolding good_key_def list_all_iff single_line_def is_space_def by fastforce
  have "single_line (setting_line (k, v))" if "(k, v) \<in> set (override_values env c pw)" for k v
    using key [OF that] assms(1) that by (auto simp: setting_line_def single_line_def list_all_iff)
  then show ?thesis
    by (auto simp: list_all_iff settings_comment_def single_line_def)
qed

lemma override_scanned:
  assumes "list_all (\<lambda>(k, v). single_line v) (override_values env c pw)"
  shows "scan_lines (render_override env c pw) = None
    \<or> scan_lines (render_override env c pw) = Some (settings_comment # map setting_line (override_values env c pw))"
proof -
  let ?ls = "settings_comment # map setting_line (override_values env c pw)"
  have "last ?ls \<noteq> ''''" by (simp add: override_values_def setting_line_def)
  then show ?thesis
    unfolding render_override_def using scan_lines_written [of ?ls] override_lines_single [OF assms]
    by (cases "scan_lines (join_with CHR 0x0A ?ls @ [CHR 0x0A])") auto
qed

lemma override_parsed:
  assumes "list_all (\<lambda>(k, v). single_line v) (override_values env c pw)" "fs path = Content (render_override env c pw)"
    and "read_config_file fs path = Inr vs"
  shows "vs = rev (map (\<lambda>(k, v). (k, unquote (trim_space v))) (override_values env c pw))"
  using override_scanned [OF assms(1)] assms(2,3)
  by (auto simp: read_config_file_def comment_skipped parse_setting_lines override_keys)

section \<open>What a save leaves\<close>

lemma candidate_config_done:
  assumes "candidate_config env fs active i = Inr c"
  obtains email session idle
  where "c = with_input env active i (email, session, idle) (desired_config env fs active)" "validate_config env c = Inr ()"
    and "reject_locked_changes env active c = Inr ()" "list_all single_line (input_texts i)"
    and "port_number (ps_http_port i)" "port_number (ps_https_port i)"
    and "field_locked env ''smtpPassword'' \<Longrightarrow> trim_space (ps_smtp_password i) = '''' \<and> \<not> ps_clear_smtp_password i"
    and "cv_parse_duration env (trim_space (ps_email_code_ttl i)) = Some email"
    and "\<exists>p. input_duration env (ps_session_ttl i) p = Inr session" "\<exists>p. input_duration env (ps_idle_ttl i) p = Inr idle"
  using assms unfolding candidate_config_def Let_def by (auto simp: attempt_Inr_iff from_row_Inr_iff)

lemma write_private_file_done: "write_private_file env path content fs = Inr fs' \<Longrightarrow> fs' = fs(path := Content content)"
  by (auto simp: write_private_file_def split: if_splits)

lemma save_settings_done:
  assumes "save_settings env active input fs = (fs', Inr s)"
  obtains c pw fs1
  where "candidate_config env fs active (trimmed_input input) = Inr c"
    and "keep_password env active (trimmed_input input) c fs = Inr (pw, fs1)" "s = shown_settings env active c"
    and "fs' = (let fs2 = fs1(cf_override_file active := Content (render_override env c pw)) in
      if ps_clear_smtp_password input then fs2(cv_join env (cf_data_dir active) ''smtp-password'' := Missing) else fs2)"
proof -
  have "ps_clear_smtp_password (trimmed_input input) = ps_clear_smtp_password input" by (simp add: trimmed_input_def)
  then show ?thesis
    using assms that unfolding save_settings_def Let_def
    by (auto split: sum.splits if_splits dest!: write_private_file_done)
qed

lemma save_settings_ex:
  assumes "save_settings env active input fs = (fs', Inr s)"
  shows "\<exists>c pw fs1. candidate_config env fs active (trimmed_input input) = Inr c
    \<and> keep_password env active (trimmed_input input) c fs = Inr (pw, fs1) \<and> s = shown_settings env active c
    \<and> fs' = (let fs2 = fs1(cf_override_file active := Content (render_override env c pw)) in
      if ps_clear_smtp_password input then fs2(cv_join env (cf_data_dir active) ''smtp-password'' := Missing) else fs2)"
  by (rule save_settings_done [OF assms]) blast

lemma saved_override:
  assumes "save_settings env active input fs = (fs', Inr s)"
    and "cf_override_file active \<noteq> cv_join env (cf_data_dir active) ''smtp-password''"
  shows "\<exists>c pw. candidate_config env fs active (trimmed_input input) = Inr c \<and> s = shown_settings env active c
    \<and> (\<exists>fs1. keep_password env active (trimmed_input input) c fs = Inr (pw, fs1)) \<and> fs' (cf_override_file active) = Content (render_override env c pw)"
  using assms(2) by (rule_tac save_settings_done [OF assms(1)]) (auto simp: Let_def split: if_splits)

text \<open>What the lines of an override rest on: durations are printed on one line, and so are the addresses it starts from.\<close>

definition one_line :: "config_env \<Rightarrow> config \<Rightarrow> bool" where
  "one_line env active \<longleftrightarrow> (\<forall>t. single_line (cv_duration_text env t)) \<and> single_line (cf_listen active)
     \<and> single_line (cf_https_listen active)"

lemma split_last_set: "split_last sep s = Some (a, b) \<Longrightarrow> set a \<subseteq> set s"
  by (induction s arbitrary: a b) (fastforce split: option.splits if_splits)+

lemma cut_at_set: "set (fst (cut_at sep s)) \<subseteq> set s"
  by (induction s) (auto split: prod.splits)

lemma split_host_port_set:
  assumes "split_host_port hp = Some (h, p)"
  shows "set h \<subseteq> set hp"
proof (cases hp)
  case (Cons ch s)
  then show ?thesis
    using assms split_last_set [of _ s] cut_at_set [of "CHR '']''" s]
    by (fastforce simp: split_host_port_def Let_def split: option.splits prod.splits if_splits)
qed (use assms in \<open>simp add: split_host_port_def\<close>)

lemma itoa_single: "single_line (itoa i)"
proof -
  have "list_all is_digit (nat_text n)" for n using nat_text_digits by blast
  then have "single_line (nat_text n)" for n
    unfolding list_all_iff single_line_def is_digit_def by fastforce
  then show ?thesis by (auto simp: itoa_def single_line_def)
qed

lemma listen_address_single: "single_line address \<Longrightarrow> single_line (listen_address_with_port address port)"
  using itoa_single [of port] split_host_port_set [of address]
  by (auto simp: listen_address_with_port_def join_host_port_def single_line_def split: option.splits)

lemma validate_config_facts:
  assumes "validate_config env c = Inr ()"
  shows "cf_access_scheme c = ''http'' \<or> cf_access_scheme c = ''https''"
    "list_all (\<lambda>m. m = ''totp'' \<or> m = ''email'') (cf_mfa_methods c)" "distinct (cf_mfa_methods c)"
proof -
  have "holds (base_rules c @ listen_rules c @ tls_rules c @ mfa_rules env c)"
    using assms by (simp only: validate_config_def checked_Inr_iff)
  then have "holds (base_rules c)" "holds (mfa_rules env c)" by (simp_all add: holds_def)
  then show "cf_access_scheme c = ''http'' \<or> cf_access_scheme c = ''https''"
    "list_all (\<lambda>m. m = ''totp'' \<or> m = ''email'') (cf_mfa_methods c)" "distinct (cf_mfa_methods c)"
    by (simp_all add: base_rules_def mfa_rules_def)
qed

lemma methods_single: "list_all (\<lambda>m. m = ''totp'' \<or> m = ''email'') ms \<Longrightarrow> single_line (join_with CHR '','' ms)"
proof -
  assume ms: "list_all (\<lambda>m. m = ''totp'' \<or> m = ''email'') ms"
  have one: "single_line m" if "m = ''totp'' \<or> m = ''email''" for m
    using that by (elim disjE) (simp_all add: single_line_def)
  have "list_all single_line ms"
    using ms by (rule list.pred_mono_strong) (rule one)
  then have all: "\<forall>m\<in>set ms. single_line m" by (simp only: list_all_iff)
  have "single_line (concat (map ((#) CHR '','') ls))" if "\<forall>m\<in>set ls. single_line m" for ls
    using that by (induction ls) (simp_all add: single_line_def)
  then show ?thesis using all by (cases ms) (simp_all add: join_with_def single_line_def)
qed

lemma candidate_single_lines:
  assumes "candidate_config env fs active (trimmed_input input) = Inr c" "one_line env active" "single_line pw"
  shows "list_all (\<lambda>(k, v). single_line v) (override_values env c pw)"
proof -
  let ?i = "trimmed_input input"
  obtain email session idle where c: "c = with_input env active ?i (email, session, idle) (desired_config env fs active)"
    and valid: "validate_config env c = Inr ()" and lines: "list_all single_line (input_texts ?i)"
    by (rule candidate_config_done [OF assms(1)])
  have fields: "cf_smtp_host c = ps_smtp_host ?i" "cf_smtp_username c = ps_smtp_username ?i" "cf_smtp_from c = ps_smtp_from ?i"
    "cf_tls_cert c = ps_tls_cert ?i" "cf_tls_key c = ps_tls_key ?i" "cf_access_tls_cert c = ps_access_tls_cert ?i"
    "cf_access_tls_key c = ps_access_tls_key ?i" "cf_panel_domain c = ps_panel_domain ?i" "cf_access_domain c = ps_access_domain ?i"
    "cf_listen c = listen_address_with_port (cf_listen active) (ps_http_port ?i)"
    "cf_https_listen c = listen_address_with_port (cf_https_listen active) (ps_https_port ?i)"
    by (simp_all add: c with_input_def Let_def)
  have "single_line (bool_text b)" for b by (simp add: bool_text_def single_line_def)
  moreover have "single_line (cf_access_scheme c)" "single_line ''''"
    using validate_config_facts(1) [OF valid] by (auto simp: single_line_def)
  ultimately show ?thesis
    using lines assms(2,3) methods_single [OF validate_config_facts(2) [OF valid]]
    by (simp add: override_values_def fields input_texts_def one_line_def itoa_single listen_address_single)
qed

lemma field_locked_iff: "field_locked env f \<longleftrightarrow>
    (\<exists>names. (f, names) \<in> set editable_environment \<and> list_ex (set_in env) names) \<or> f = ''smtpPassword'' \<and> set_in env ''DMP_SMTP_PASSWORD_FILE''"
  by (auto simp: field_locked_def environment_locked_fields_def image_iff split: prod.splits)

lemma no_password_lock:
  assumes "\<not> field_locked env ''smtpPassword''"
  shows "\<not> set_in env ''DMP_SMTP_PASSWORD''" "\<not> set_in env ''DMP_SMTP_PASSWORD_FILE''"
proof -
  have "(''smtpPassword'', [''DMP_SMTP_PASSWORD'']) \<in> set editable_environment" by (simp add: editable_environment_def)
  moreover have "list_ex (set_in env) [n] = set_in env n" for n by simp
  ultimately show "\<not> set_in env ''DMP_SMTP_PASSWORD''" "\<not> set_in env ''DMP_SMTP_PASSWORD_FILE''"
    using assms unfolding field_locked_iff by metis+
qed

lemma fixed_fields:
  "cf_config_file (desired_config env fs a) = cf_config_file a" "cf_override_file (desired_config env fs a) = cf_override_file a"
  "cf_mode (desired_config env fs a) = cf_mode a" "cf_data_dir (desired_config env fs a) = cf_data_dir a"
  "cf_database_path (desired_config env fs a) = cf_database_path a" "cf_api_token (desired_config env fs a) = cf_api_token a"
  "cf_mfa_key_file (desired_config env fs a) = cf_mfa_key_file a" "cf_trusted_proxies (desired_config env fs a) = cf_trusted_proxies a"
  by (simp_all add: desired_config_def preserve_environment_def Let_def apply_editable_values_def split: sum.split)

lemma field_locked_by: "(f, names) \<in> set editable_environment \<Longrightarrow> v \<in> set names \<Longrightarrow> set_in env v \<Longrightarrow> field_locked env f"
  unfolding field_locked_iff list_ex_iff by blast

lemma kept_field:
  assumes "reject_locked_changes env a c = Inr ()" "\<exists>names. (f, names) \<in> set editable_environment \<and> v \<in> set names"
    and "(f, x \<noteq> y) \<in> set (field_changes a c)" "set_in env v"
  shows "y = x"
proof -
  have "\<forall>(f, changed)\<in>set (field_changes a c). field_locked env f \<longrightarrow> \<not> changed"
    using assms(1) unfolding reject_locked_changes_def demand_Inr_iff list_ex_iff by fast
  moreover have "field_locked env f" using assms(2,4) field_locked_by by blast
  ultimately show ?thesis using assms(3) by fastforce
qed

lemma methods_key_set:
  assumes "methods_key ms = methods_key ns" "\<forall>l\<in>{ms, ns}. list_all (\<lambda>m. m = ''totp'' \<or> m = ''email'') l \<and> distinct l"
  shows "set ms = set ns"
proof -
  have forms: "l \<in> {[], [''totp''], [''email''], [''totp'', ''email''], [''email'', ''totp'']}"
    if "list_all (\<lambda>m. m = ''totp'' \<or> m = ''email'') l" "distinct l" for l
  proof (cases l)
    case (Cons x xs)
    with that show ?thesis by (cases xs; cases "tl xs") auto
  qed simp
  have keys: "methods_key [] = ''''" "methods_key [''totp''] = ''totp''" "methods_key [''email''] = ''email''"
    "methods_key [''totp'', ''email''] = ''email,totp''" "methods_key [''email'', ''totp''] = ''email,totp''" by code_simp+
  have "ms \<in> {[], [''totp''], [''email''], [''totp'', ''email''], [''email'', ''totp'']}"
    "ns \<in> {[], [''totp''], [''email''], [''totp'', ''email''], [''email'', ''totp'']}"
    using forms assms(2) by blast+
  then show ?thesis using assms(1) unfolding insert_iff empty_iff by (elim disjE; simp add: keys insert_commute)
qed

text \<open>What the environment controls, written down from the variables that \<open>load_config\<close> reads and not from the lists of the
manager: the variables of a value, and that the value is unchanged.\<close>

definition environment_controls :: "config \<Rightarrow> config \<Rightarrow> (string list \<times> bool) list" where
  "environment_controls a c = [
     ([''DMP_CONFIG_FILE''], cf_config_file c = cf_config_file a),
     ([''DMP_SETTINGS_OVERRIDE_FILE''], cf_override_file c = cf_override_file a),
     ([''DMP_MODE''], cf_mode c = cf_mode a), ([''DMP_DATA_DIR''], cf_data_dir c = cf_data_dir a),
     ([''DMP_DB_PATH''], cf_database_path c = cf_database_path a),
     ([''DMP_MFA_KEY_FILE''], cf_mfa_key_file c = cf_mfa_key_file a),
     ([''DMP_TRUSTED_PROXY_CIDRS''], cf_trusted_proxies c = cf_trusted_proxies a),
     ([''DMP_API_TOKEN'', ''DMP_API_TOKEN_FILE''], cf_api_token c = cf_api_token a),
     ([''DMP_MFA_ENABLED''], cf_mfa_enabled c = cf_mfa_enabled a),
     ([''DMP_MFA_EMAIL_CODE_TTL''], cf_email_code_ttl c = cf_email_code_ttl a),
     ([''DMP_AUTH_SESSION_TTL''], cf_session_ttl c = cf_session_ttl a),
     ([''DMP_AUTH_SESSION_IDLE_TTL''], cf_idle_ttl c = cf_idle_ttl a),
     ([''DMP_SMTP_HOST''], cf_smtp_host c = cf_smtp_host a), ([''DMP_SMTP_PORT''], cf_smtp_port c = cf_smtp_port a),
     ([''DMP_SMTP_USERNAME''], cf_smtp_username c = cf_smtp_username a),
     ([''DMP_SMTP_FROM''], cf_smtp_from c = cf_smtp_from a), ([''DMP_TLS_CERT_FILE''], cf_tls_cert c = cf_tls_cert a),
     ([''DMP_TLS_KEY_FILE''], cf_tls_key c = cf_tls_key a),
     ([''DMP_ACCESS_TLS_CERT_FILE''], cf_access_tls_cert c = cf_access_tls_cert a),
     ([''DMP_ACCESS_TLS_KEY_FILE''], cf_access_tls_key c = cf_access_tls_key a),
     ([''DMP_ACCESS_HTTP_PORT''], cf_access_http_port c = cf_access_http_port a),
     ([''DMP_ACCESS_HTTPS_PORT''], cf_access_https_port c = cf_access_https_port a),
     ([''DMP_LISTEN_ADDR''], cf_listen c = cf_listen a),
     ([''DMP_HTTPS_LISTEN_ADDR''], cf_https_listen c = cf_https_listen a),
     ([''DMP_PANEL_DOMAIN''], cf_panel_domain c = cf_panel_domain a),
     ([''DMP_ACCESS_DOMAIN''], cf_access_domain c = cf_access_domain a),
     ([''DMP_MFA_METHODS''], set (cf_mfa_methods c) = set (cf_mfa_methods a)),
     ([''DMP_SMTP_PASSWORD'', ''DMP_SMTP_PASSWORD_FILE''], cf_smtp_password c = cf_smtp_password a),
     ([''DMP_ACCESS_SCHEME''], cf_access_domain c = '''' \<longrightarrow> cf_access_scheme c = cf_access_scheme a)]"

text \<open>C19. A save changes nothing that a variable of the environment controls. What a successful save writes is a valid
configuration, the one that is shown back, and it agrees with the running one in every value for which the start of the
panel reads a variable that is set: the mail password with both of its variables included, and the scheme of access
addresses as long as no access domain is saved.\<close>

theorem locked_fields_unchanged:
  assumes "save_settings env active input fs = (fs', Inr s)" "validate_config env active = Inr ()"
    and "cf_override_file active \<noteq> cv_join env (cf_data_dir active) ''smtp-password''"
  shows "\<exists>c pw. fs' (cf_override_file active) = Content (render_override env c pw) \<and> validate_config env c = Inr ()
    \<and> s = shown_settings env active c
    \<and> (\<forall>(names, unchanged)\<in>set (environment_controls active c). (\<exists>v\<in>set names. set_in env v) \<longrightarrow> unchanged)"
proof -
  let ?i = "trimmed_input input"
  obtain c pw where c: "candidate_config env fs active ?i = Inr c" "s = shown_settings env active c"
    "fs' (cf_override_file active) = Content (render_override env c pw)"
    using saved_override [OF assms(1,3)] by blast
  obtain email session idle where cc: "c = with_input env active ?i (email, session, idle) (desired_config env fs active)"
    and valid: "validate_config env c = Inr ()" and reject: "reject_locked_changes env active c = Inr ()"
    by (rule candidate_config_done [OF c(1)])
  have password: "field_locked env ''smtpPassword'' \<longrightarrow> trim_space (ps_smtp_password ?i) = '''' \<and> \<not> ps_clear_smtp_password ?i"
    by (rule candidate_config_done [OF c(1)]) blast
  have kept: "set_in env ''DMP_MFA_ENABLED'' \<Longrightarrow> cf_mfa_enabled c = cf_mfa_enabled active"
    "set_in env ''DMP_MFA_EMAIL_CODE_TTL'' \<Longrightarrow> cf_email_code_ttl c = cf_email_code_ttl active"
    "set_in env ''DMP_AUTH_SESSION_TTL'' \<Longrightarrow> cf_session_ttl c = cf_session_ttl active"
    "set_in env ''DMP_AUTH_SESSION_IDLE_TTL'' \<Longrightarrow> cf_idle_ttl c = cf_idle_ttl active"
    "set_in env ''DMP_SMTP_HOST'' \<Longrightarrow> cf_smtp_host c = cf_smtp_host active"
    "set_in env ''DMP_SMTP_PORT'' \<Longrightarrow> cf_smtp_port c = cf_smtp_port active"
    "set_in env ''DMP_SMTP_USERNAME'' \<Longrightarrow> cf_smtp_username c = cf_smtp_username active"
    "set_in env ''DMP_SMTP_FROM'' \<Longrightarrow> cf_smtp_from c = cf_smtp_from active"
    "set_in env ''DMP_TLS_CERT_FILE'' \<Longrightarrow> cf_tls_cert c = cf_tls_cert active"
    "set_in env ''DMP_TLS_KEY_FILE'' \<Longrightarrow> cf_tls_key c = cf_tls_key active"
    "set_in env ''DMP_ACCESS_TLS_CERT_FILE'' \<Longrightarrow> cf_access_tls_cert c = cf_access_tls_cert active"
    "set_in env ''DMP_ACCESS_TLS_KEY_FILE'' \<Longrightarrow> cf_access_tls_key c = cf_access_tls_key active"
    "set_in env ''DMP_ACCESS_HTTP_PORT'' \<Longrightarrow> cf_access_http_port c = cf_access_http_port active"
    "set_in env ''DMP_ACCESS_HTTPS_PORT'' \<Longrightarrow> cf_access_https_port c = cf_access_https_port active"
    "set_in env ''DMP_LISTEN_ADDR'' \<Longrightarrow> cf_listen c = cf_listen active"
    "set_in env ''DMP_HTTPS_LISTEN_ADDR'' \<Longrightarrow> cf_https_listen c = cf_https_listen active"
    "set_in env ''DMP_PANEL_DOMAIN'' \<Longrightarrow> cf_panel_domain c = cf_panel_domain active"
    "set_in env ''DMP_ACCESS_DOMAIN'' \<Longrightarrow> cf_access_domain c = cf_access_domain active"
    subgoal using kept_field [OF reject, of "''mfaEnabled''" "''DMP_MFA_ENABLED''" "cf_mfa_enabled active" "cf_mfa_enabled c"] by (simp add: editable_environment_def field_changes_def)
    subgoal using kept_field [OF reject, of "''emailCodeTTL''" "''DMP_MFA_EMAIL_CODE_TTL''" "cf_email_code_ttl active" "cf_email_code_ttl c"] by (simp add: editable_environment_def field_changes_def)
    subgoal using kept_field [OF reject, of "''authSessionTTL''" "''DMP_AUTH_SESSION_TTL''" "cf_session_ttl active" "cf_session_ttl c"] by (simp add: editable_environment_def field_changes_def)
    subgoal using kept_field [OF reject, of "''authSessionIdleTTL''" "''DMP_AUTH_SESSION_IDLE_TTL''" "cf_idle_ttl active" "cf_idle_ttl c"] by (simp add: editable_environment_def field_changes_def)
    subgoal using kept_field [OF reject, of "''smtpHost''" "''DMP_SMTP_HOST''" "cf_smtp_host active" "cf_smtp_host c"] by (simp add: editable_environment_def field_changes_def)
    subgoal using kept_field [OF reject, of "''smtpPort''" "''DMP_SMTP_PORT''" "cf_smtp_port active" "cf_smtp_port c"] by (simp add: editable_environment_def field_changes_def)
    subgoal using kept_field [OF reject, of "''smtpUsername''" "''DMP_SMTP_USERNAME''" "cf_smtp_username active" "cf_smtp_username c"] by (simp add: editable_environment_def field_changes_def)
    subgoal using kept_field [OF reject, of "''smtpFrom''" "''DMP_SMTP_FROM''" "cf_smtp_from active" "cf_smtp_from c"] by (simp add: editable_environment_def field_changes_def)
    subgoal using kept_field [OF reject, of "''tlsCertFile''" "''DMP_TLS_CERT_FILE''" "cf_tls_cert active" "cf_tls_cert c"] by (simp add: editable_environment_def field_changes_def)
    subgoal using kept_field [OF reject, of "''tlsKeyFile''" "''DMP_TLS_KEY_FILE''" "cf_tls_key active" "cf_tls_key c"] by (simp add: editable_environment_def field_changes_def)
    subgoal using kept_field [OF reject, of "''accessTlsCertFile''" "''DMP_ACCESS_TLS_CERT_FILE''" "cf_access_tls_cert active" "cf_access_tls_cert c"] by (simp add: editable_environment_def field_changes_def)
    subgoal using kept_field [OF reject, of "''accessTlsKeyFile''" "''DMP_ACCESS_TLS_KEY_FILE''" "cf_access_tls_key active" "cf_access_tls_key c"] by (simp add: editable_environment_def field_changes_def)
    subgoal using kept_field [OF reject, of "''accessHttpPort''" "''DMP_ACCESS_HTTP_PORT''" "cf_access_http_port active" "cf_access_http_port c"] by (simp add: editable_environment_def field_changes_def)
    subgoal using kept_field [OF reject, of "''accessHttpsPort''" "''DMP_ACCESS_HTTPS_PORT''" "cf_access_https_port active" "cf_access_https_port c"] by (simp add: editable_environment_def field_changes_def)
    subgoal using kept_field [OF reject, of "''httpPort''" "''DMP_LISTEN_ADDR''" "cf_listen active" "cf_listen c"] by (simp add: editable_environment_def field_changes_def)
    subgoal using kept_field [OF reject, of "''httpsPort''" "''DMP_HTTPS_LISTEN_ADDR''" "cf_https_listen active" "cf_https_listen c"] by (simp add: editable_environment_def field_changes_def)
    subgoal using kept_field [OF reject, of "''panelDomain''" "''DMP_PANEL_DOMAIN''" "cf_panel_domain active" "cf_panel_domain c"] by (simp add: editable_environment_def field_changes_def)
    subgoal using kept_field [OF reject, of "''accessDomain''" "''DMP_ACCESS_DOMAIN''" "cf_access_domain active" "cf_access_domain c"] by (simp add: editable_environment_def field_changes_def)
    done
  have "set_in env ''DMP_MFA_METHODS'' \<Longrightarrow> methods_key (cf_mfa_methods c) = methods_key (cf_mfa_methods active)"
    using kept_field [OF reject, of "''mfaMethods''" "''DMP_MFA_METHODS''" "methods_key (cf_mfa_methods active)" "methods_key (cf_mfa_methods c)"]
    by (simp add: editable_environment_def field_changes_def)
  then have methods: "set_in env ''DMP_MFA_METHODS'' \<Longrightarrow> set (cf_mfa_methods c) = set (cf_mfa_methods active)"
    using validate_config_facts(2,3) [OF valid] validate_config_facts(2,3) [OF assms(2)] by (intro methods_key_set) auto
  have "set_in env ''DMP_SMTP_PASSWORD'' \<or> set_in env ''DMP_SMTP_PASSWORD_FILE'' \<Longrightarrow> field_locked env ''smtpPassword''"
    using no_password_lock by blast
  then have secret: "set_in env ''DMP_SMTP_PASSWORD'' \<or> set_in env ''DMP_SMTP_PASSWORD_FILE'' \<Longrightarrow> cf_smtp_password c = cf_smtp_password active"
    using password by (simp add: cc with_input_def Let_def desired_config_def preserve_environment_def)
  have scheme: "set_in env ''DMP_ACCESS_SCHEME'' \<Longrightarrow> cf_access_domain c = '''' \<longrightarrow> cf_access_scheme c = cf_access_scheme active"
    by (simp add: cc with_input_def Let_def desired_config_def preserve_environment_def)
  have fixed: "cf_mode c = cf_mode active" "cf_data_dir c = cf_data_dir active" "cf_database_path c = cf_database_path active"
    "cf_api_token c = cf_api_token active" "cf_mfa_key_file c = cf_mfa_key_file active" "cf_trusted_proxies c = cf_trusted_proxies active"
    "cf_config_file c = cf_config_file active" "cf_override_file c = cf_override_file active"
    by (simp_all add: cc with_input_def Let_def fixed_fields)
  have "\<forall>(names, unchanged)\<in>set (environment_controls active c). (\<exists>v\<in>set names. set_in env v) \<longrightarrow> unchanged"
    using kept methods secret scheme unfolding environment_controls_def by (simp add: fixed) blast
  then show ?thesis using c(2,3) valid by blast
qed

lemma override_password_file:
  assumes "candidate_config env fs active (trimmed_input input) = Inr c" "one_line env active"
    and "fs' path = Content (render_override env c '''')" "read_config_file fs' path = Inr vs"
  shows "map_of vs ''smtp_password_file'' = None"
proof -
  have "single_line ''''" by (simp add: single_line_def)
  note candidate_single_lines [OF assms(1,2) this]
  from override_parsed [OF this assms(3,4)] show ?thesis by (simp add: override_values_def)
qed

lemma desired_after_clear:
  assumes "candidate_config env fs active (trimmed_input input) = Inr c" "one_line env active"
    and "fs' (cf_override_file active) = Content (render_override env c '''')"
  shows "cf_smtp_password (desired_config env fs' active) = cf_smtp_password active"
    and "setting_of (read_config_file fs' (cf_override_file active)) ''smtp_password_file'' = ''''"
  using override_password_file [of env fs active input c fs' "cf_override_file active"] assms
  by (auto simp: desired_config_def preserve_environment_def Let_def apply_editable_values_def or_old_def setting_of_def
    split: sum.splits)

text \<open>C21. A cleared mail password comes back. When an administrator clears the password of the mail server and the
configuration file names no file for it, the next successful save before the restart that neither sets nor clears a password
writes the old password to the managed file again and names that file in the override.\<close>

theorem cleared_password_restored:
  fixes clearing later :: panel_settings
  assumes "save_settings env active clearing fs = (fs1, Inr s1)" "ps_clear_smtp_password clearing"
    and "save_settings env active later fs1 = (fs2, Inr s2)" "\<not> ps_clear_smtp_password later"
    and "trim_space (ps_smtp_password later) = ''''" "cf_smtp_password active \<noteq> ''''" "one_line env active"
    and "setting_of (read_config_file fs1 (cf_config_file active)) ''smtp_password_file'' = ''''"
    and "cf_override_file active \<noteq> cv_join env (cf_data_dir active) ''smtp-password''"
  shows "fs2 (cv_join env (cf_data_dir active) ''smtp-password'') = Content (cf_smtp_password active @ [CHR 0x0A])
    \<and> (\<exists>c. fs2 (cf_override_file active) = Content (render_override env c (cv_join env (cf_data_dir active) ''smtp-password'')))"
proof -
  obtain c1 pw1 fsa where c1: "candidate_config env fs active (trimmed_input clearing) = Inr c1"
    and "keep_password env active (trimmed_input clearing) c1 fs = Inr (pw1, fsa)"
    and "fs1 = (fsa(cf_override_file active := Content (render_override env c1 pw1)))
      (cv_join env (cf_data_dir active) ''smtp-password'' := Missing)"
    using save_settings_ex [OF assms(1)] assms(2) by (auto simp: Let_def)
  then have "fs1 (cf_override_file active) = Content (render_override env c1 '''')"
    using assms(2,9) by (auto simp: keep_password_def Let_def trimmed_input_def)
  note one = desired_after_clear [of env fs active clearing c1 fs1, OF c1 assms(7) this]
  have "\<not> field_locked env ''smtpPassword''"
    by (rule candidate_config_done [OF c1]) (use assms(2) in \<open>auto simp: trimmed_input_def\<close>)
  then have unset: "\<not> set_in env ''DMP_SMTP_PASSWORD''" "configured_password_file env fs1 active = ''''"
    using no_password_lock [of env] one(2) assms(8)
    by (simp_all add: configured_password_file_def first_configured_def set_in_def trim_space_def [of "''''"])
  obtain c2 pw2 fsb where c2: "candidate_config env fs1 active (trimmed_input later) = Inr c2"
    and kept: "keep_password env active (trimmed_input later) c2 fs1 = Inr (pw2, fsb)"
    and fs2: "fs2 = fsb(cf_override_file active := Content (render_override env c2 pw2))"
    using save_settings_ex [OF assms(3)] assms(4) by (auto simp: Let_def)
  have "cf_smtp_password c2 = cf_smtp_password active"
    by (rule candidate_config_done [OF c2]) (use assms(4,5) one(1) in \<open>simp add: with_input_def Let_def trimmed_input_def\<close>)
  then have "pw2 = cv_join env (cf_data_dir active) ''smtp-password''"
    "fsb = fs1(cv_join env (cf_data_dir active) ''smtp-password'' := Content (cf_smtp_password active @ [CHR 0x0A]))"
    using kept unset assms(4,5,6) by (auto simp: keep_password_def Let_def trimmed_input_def attempt_Inr_iff dest!: write_private_file_done)
  then show ?thesis using fs2 assms(9) by auto
qed

section \<open>A save that the next start refuses\<close>

definition bare :: "string \<Rightarrow> bool" where
  "bare v \<longleftrightarrow> (\<forall>ch\<in>set v. \<not> is_space ch \<and> ch \<noteq> CHR 0x22 \<and> ch \<noteq> CHR 0x27)"

lemma bare_kept: "bare v \<Longrightarrow> trim_space v = v" "bare v \<Longrightarrow> unquote v = v"
proof -
  assume v: "bare v"
  have "dropWhile is_space w = w" if "\<forall>ch\<in>set w. \<not> is_space ch" for w using that by (cases w) auto
  from this [of v] this [of "rev v"] show "trim_space v = v" using v by (simp add: bare_def trim_space_def)
  have "length v \<ge> 2 \<Longrightarrow> hd v \<in> set v" by (cases v) auto
  then show "unquote v = v" using v by (auto simp: bare_def unquote_def)
qed

lemma itoa_bare: "bare (itoa i)"
proof -
  have "\<not> is_space ch \<and> ch \<noteq> CHR 0x22 \<and> ch \<noteq> CHR 0x27" if "is_digit ch" for ch
    using that by (auto simp: is_digit_def is_space_def)
  then have "bare (nat_text n)" for n
    using nat_text_digits [of n] unfolding bare_def list_all_iff by blast
  then show ?thesis by (auto simp: itoa_def bare_def is_space_def)
qed

lemma load_config_numbers:
  assumes "read_settings env fs = Inr (path, override, data, vs)" "load_config env fs = (fs', Inr c)"
  shows "\<exists>n. load_numbers env (configured_value env vs) = Inr n"
  using assms by (auto simp: load_config_def Let_def attempt_Inr_iff split: prod.splits sum.splits)

lemma read_settings_override:
  assumes "read_settings env fs = Inr (path, override, data, vs)"
  shows "\<exists>overrides rest. read_config_file fs override = Inr overrides \<and> vs = overrides @ rest"
  using assms by (auto simp: read_settings_def Let_def attempt_Inr_iff)

lemma saved_port_read:
  assumes "save_settings env active input fs = (fs', Inr s)" "one_line env active"
    and "single_line (cv_join env (cf_data_dir active) ''smtp-password'')" "single_line (configured_password_file env fs active)"
    and "cf_override_file active \<noteq> cv_join env (cf_data_dir active) ''smtp-password''"
    and "read_config_file fs' (cf_override_file active) = Inr vs"
  shows "map_of vs ''smtp_port'' = Some (itoa (ps_smtp_port input))"
proof -
  obtain c pw fs1 where c: "candidate_config env fs active (trimmed_input input) = Inr c"
    and pw: "keep_password env active (trimmed_input input) c fs = Inr (pw, fs1)"
    and saved: "fs' (cf_override_file active) = Content (render_override env c pw)"
    using saved_override [OF assms(1,5)] by blast
  have "single_line pw"
    using pw assms(3,4) by (auto simp: keep_password_def Let_def attempt_Inr_iff single_line_def split: if_splits)
  from override_parsed [OF candidate_single_lines [OF c assms(2) this] saved assms(6)]
  have vs: "vs = rev (map (\<lambda>(k, v). (k, unquote (trim_space v))) (override_values env c pw))" .
  have "cf_smtp_port c = ps_smtp_port input"
    by (rule candidate_config_done [OF c]) (simp add: with_input_def Let_def trimmed_input_def)
  then show ?thesis by (simp add: vs override_values_def bare_kept itoa_bare)
qed

text \<open>C22. The panel can be saved into a state it does not start from. A save accepts any port of the mail server, but a port
outside 1 to 65535 makes the next start refuse the configuration, unless the environment sets the port.\<close>

theorem accepted_port_refused_at_start:
  assumes "save_settings env active input fs = (fs', Inr s)" "\<not> port_number (ps_smtp_port input)" "one_line env active"
    and "single_line (cv_join env (cf_data_dir active) ''smtp-password'')" "single_line (configured_password_file env fs active)"
    and "cf_override_file active \<noteq> cv_join env (cf_data_dir active) ''smtp-password''"
    and "trim_space (cv_getenv env ''DMP_SMTP_PORT'') = ''''" "- (2 ^ 63) \<le> ps_smtp_port input" "ps_smtp_port input < 2 ^ 63"
    and "read_settings env fs' = Inr (path, cf_override_file active, data, vs)"
  shows "isl (snd (load_config env fs'))"
proof (rule ccontr)
  assume "\<not> isl (snd (load_config env fs'))"
  then obtain fs2 c where "load_config env fs' = (fs2, Inr c)" by (cases "load_config env fs'"; cases "snd (load_config env fs')") auto
  from load_config_numbers [OF assms(10) this] obtain n where "load_numbers env (configured_value env vs) = Inr n" by blast
  then have port: "\<not> isl (parse_port (configured_value env vs ''DMP_SMTP_PORT'' ''smtp_port'' ''587'') ''smtp_port'')"
    by (auto simp: load_numbers_def attempt_Inr_iff)
  obtain overrides rest where o: "read_config_file fs' (cf_override_file active) = Inr overrides" "vs = overrides @ rest"
    using read_settings_override [OF assms(10)] by blast
  have "map_of vs ''smtp_port'' = Some (itoa (ps_smtp_port input))"
    using saved_port_read [OF assms(1,3-6) o(1)] o(2) by simp
  then have "configured_value env vs ''DMP_SMTP_PORT'' ''smtp_port'' ''587'' = itoa (ps_smtp_port input)"
    using assms(7) by (simp add: configured_value_def bare_kept itoa_bare)
  with port assms(2) show False by (simp add: parse_port_def bare_kept itoa_bare atoi_itoa [OF assms(8,9)])
qed

section \<open>What is saved is what is pending\<close>

lemma methods_read_back:
  assumes "list_all (\<lambda>m. m = ''totp'' \<or> m = ''email'') ms" "distinct ms"
  shows "split_list (unquote (trim_space (join_with CHR '','' ms))) = ms"
proof -
  have "ms \<in> {[], [''totp''], [''email''], [''totp'', ''email''], [''email'', ''totp'']}"
  proof (cases ms)
    case (Cons a as)
    with assms show ?thesis by (cases as; cases "tl as") auto
  qed simp
  then show ?thesis
    by (auto simp: join_with_def trim_space_def is_space_def unquote_def split_list_def to_lower_def lower_char_def)
qed

lemma unlocked_pending:
  assumes "environment_locked_fields env = []" "\<not> set_in env ''DMP_ACCESS_SCHEME''"
  shows "preserve_environment env a d = d"
  by (rule config.equality) (simp_all add: preserve_environment_def Let_def field_locked_def assms)

lemma optional_port_read_back:
  assumes "0 \<le> i" "i \<le> 65535"
  shows "optional_port_or_zero (itoa i) = Some i"
proof (cases "i = 0")
  case True
  have "itoa 0 = ''0''" by code_simp
  with True show ?thesis by (simp add: optional_port_or_zero_def parse_optional_port_def trim_space_def is_space_def)
next
  case False
  have "atoi ''0'' = Some 0" "atoi '''' = None" by code_simp+
  then have "itoa i \<noteq> ''0''" "itoa i \<noteq> ''''" using atoi_itoa [of i] assms False by auto
  then show ?thesis
    using assms False atoi_itoa [of i]
    by (auto simp: optional_port_or_zero_def parse_optional_port_def parse_port_def bare_kept itoa_bare port_number_def)
qed

text \<open>The texts of an input that a line of the override keeps: no blanks around them and no quotes.\<close>

definition kept_text :: "string \<Rightarrow> bool" where
  "kept_text v \<longleftrightarrow> unquote (trim_space v) = v"

lemma bare_kept_text: "bare v \<Longrightarrow> kept_text v"
  by (simp add: kept_text_def bare_kept)

text \<open>Durations have 64 bits; one that is printed is read back.\<close>

definition duration_bits :: "int \<Rightarrow> bool" where
  "duration_bits t \<longleftrightarrow> - (2 ^ 63) \<le> t \<and> t < 2 ^ 63"

definition go_durations :: "config_env \<Rightarrow> bool" where
  "go_durations env \<longleftrightarrow> (\<forall>t. bare (cv_duration_text env t))
     \<and> (\<forall>t. duration_bits t \<longrightarrow> cv_parse_duration env (cv_duration_text env t) = Some t)
     \<and> (\<forall>w t. cv_parse_duration env w = Some t \<longrightarrow> duration_bits t)"

lemma saved_values_read:
  assumes "candidate_config env fs active (trimmed_input input) = Inr c" "one_line env active" "single_line pw"
    and "fs' path = Content (render_override env c pw)" "read_config_file fs' path = Inr vs" "(k, v) \<in> set (override_values env c pw)"
  shows "map_of vs k = Some (unquote (trim_space v))"
proof -
  let ?xs = "map (\<lambda>(k, v). (k, unquote (trim_space v))) (override_values env c pw)"
  have vs: "vs = rev ?xs"
    by (rule override_parsed [OF candidate_single_lines [OF assms(1-3)] assms(4,5)])
  have "map fst ?xs = map fst (override_values env c pw)" by (induction "override_values env c pw") auto
  then have "distinct (map fst ?xs)" using override_keys(2) [of env c pw] by (simp only:)
  moreover have "(k, unquote (trim_space v)) \<in> set ?xs" using assms(6) by force
  ultimately show ?thesis
    unfolding vs by (intro map_of_is_SomeI) (simp_all only: rev_map [symmetric] distinct_rev set_rev)
qed

lemma candidate_is_pending:
  assumes c: "candidate_config env fs active (trimmed_input input) = Inr c" and pw: "single_line pw"
    and saved: "fs' (cf_override_file active) = Content (render_override env c pw)"
    and env: "environment_locked_fields env = []" "\<not> set_in env ''DMP_ACCESS_SCHEME''" "one_line env active" "go_durations env"
    and fits: "\<not> isl (read_config_file fs' (cf_override_file active))"
    and texts: "list_all kept_text (input_texts (trimmed_input input))"
    and listens: "\<forall>p. kept_text (listen_address_with_port (cf_listen active) p) \<and> kept_text (listen_address_with_port (cf_https_listen active) p)"
    and ports: "- (2 ^ 63) \<le> ps_smtp_port input" "ps_smtp_port input < 2 ^ 63"
      "{ps_access_http_port input, ps_access_https_port input} \<subseteq> {0..65535}"
  shows "desired_config env fs' active = c\<lparr>cf_smtp_password := cf_smtp_password (desired_config env fs' active)\<rparr>"
proof -
  let ?i = "trimmed_input input"
  obtain vs where vs: "read_config_file fs' (cf_override_file active) = Inr vs"
    using fits by (cases "read_config_file fs' (cf_override_file active)") auto
  have found: "map_of vs k = Some (unquote (trim_space v))" if "(k, v) \<in> set (override_values env c pw)" for k v
    using saved_values_read [OF c env(3) pw saved vs that] by blast
  obtain email session idle where cc: "c = with_input env active ?i (email, session, idle) (desired_config env fs active)"
    and valid: "validate_config env c = Inr ()"
    and given_email: "cv_parse_duration env (trim_space (ps_email_code_ttl ?i)) = Some email"
    and given_session: "\<exists>p. input_duration env (ps_session_ttl ?i) p = Inr session"
    and given_idle: "\<exists>p. input_duration env (ps_idle_ttl ?i) p = Inr idle"
    by (rule candidate_config_done [OF c])
  have "duration_bits email" "duration_bits session" "duration_bits idle"
    using env(4) given_email given_session given_idle unfolding go_durations_def input_duration_def from_row_Inr_iff by blast+
  then have durations: "cv_parse_duration env (cv_duration_text env (cf_email_code_ttl c)) = Some (cf_email_code_ttl c)"
    "cv_parse_duration env (cv_duration_text env (cf_session_ttl c)) = Some (cf_session_ttl c)"
    "cv_parse_duration env (cv_duration_text env (cf_idle_ttl c)) = Some (cf_idle_ttl c)"
    using env(4) by (simp_all add: cc with_input_def Let_def go_durations_def)
  have scheme: "kept_text (cf_access_scheme c)"
    using validate_config_facts(1) [OF valid] by (auto simp: kept_text_def trim_space_def is_space_def unquote_def)
  have texts_c: "kept_text (cf_smtp_host c)" "kept_text (cf_smtp_username c)" "kept_text (cf_smtp_from c)"
    "kept_text (cf_tls_cert c)" "kept_text (cf_tls_key c)" "kept_text (cf_access_tls_cert c)" "kept_text (cf_access_tls_key c)"
    "kept_text (cf_panel_domain c)" "kept_text (cf_access_domain c)" "kept_text (cf_listen c)" "kept_text (cf_https_listen c)"
    using texts listens by (simp_all add: cc with_input_def Let_def input_texts_def)
  have ports_c: "atoi (itoa (cf_smtp_port c)) = Some (cf_smtp_port c)"
    "optional_port_or_zero (itoa (cf_access_http_port c)) = Some (cf_access_http_port c)"
    "optional_port_or_zero (itoa (cf_access_https_port c)) = Some (cf_access_https_port c)"
    using ports by (auto simp: cc with_input_def Let_def trimmed_input_def intro!: atoi_itoa optional_port_read_back)
  have keeps: "map_of vs k = Some v" if "kept_text v" "(k, v) \<in> set (override_values env c pw)" for k v
    using found [OF that(2)] that(1) by (simp add: kept_text_def)
  have plain: "kept_text (bool_text b)" "go_parse_bool (bool_text b) = Some True \<longleftrightarrow> b" for b
    by (cases b; simp add: bool_text_def go_parse_bool_def bare_def is_space_def bare_kept_text)+
  have numbers: "kept_text (itoa i)" "kept_text (cv_duration_text env t)" for i t
    using env(4) unfolding go_durations_def by (blast intro: bare_kept_text itoa_bare)+
  have looked: "map_of vs ''mfa_enabled'' = Some (bool_text (cf_mfa_enabled c))"
    "map_of vs ''mfa_email_code_ttl'' = Some (cv_duration_text env (cf_email_code_ttl c))"
    "map_of vs ''auth_session_ttl'' = Some (cv_duration_text env (cf_session_ttl c))"
    "map_of vs ''auth_session_idle_ttl'' = Some (cv_duration_text env (cf_idle_ttl c))"
    "map_of vs ''smtp_host'' = Some (cf_smtp_host c)" "map_of vs ''smtp_port'' = Some (itoa (cf_smtp_port c))"
    "map_of vs ''smtp_username'' = Some (cf_smtp_username c)" "map_of vs ''smtp_from'' = Some (cf_smtp_from c)"
    "map_of vs ''tls_cert_file'' = Some (cf_tls_cert c)" "map_of vs ''tls_key_file'' = Some (cf_tls_key c)"
    "map_of vs ''access_tls_cert_file'' = Some (cf_access_tls_cert c)" "map_of vs ''access_tls_key_file'' = Some (cf_access_tls_key c)"
    "map_of vs ''access_http_port'' = Some (itoa (cf_access_http_port c))"
    "map_of vs ''access_https_port'' = Some (itoa (cf_access_https_port c))"
    "map_of vs ''listen_addr'' = Some (cf_listen c)" "map_of vs ''https_listen_addr'' = Some (cf_https_listen c)"
    "map_of vs ''panel_domain'' = Some (cf_panel_domain c)" "map_of vs ''access_domain'' = Some (cf_access_domain c)"
    "map_of vs ''access_scheme'' = Some (cf_access_scheme c)"
    by (rule keeps, simp only: plain numbers texts_c scheme, simp add: override_values_def)+
  have methods: "map_of vs ''mfa_methods'' = Some (unquote (trim_space (join_with CHR '','' (cf_mfa_methods c))))"
    by (rule found) (simp add: override_values_def)
  have fixed: "cf_config_file c = cf_config_file active" "cf_override_file c = cf_override_file active" "cf_mode c = cf_mode active"
    "cf_data_dir c = cf_data_dir active" "cf_database_path c = cf_database_path active" "cf_api_token c = cf_api_token active"
    "cf_mfa_key_file c = cf_mfa_key_file active" "cf_trusted_proxies c = cf_trusted_proxies active"
    by (simp_all add: cc with_input_def Let_def fixed_fields)
  have mode: "cf_smtp_tls_mode c = smtp_tls_mode_for_port (cf_smtp_port c)" by (simp add: cc with_input_def Let_def)
  have "vs \<noteq> []" using methods by auto
  then have pending: "desired_config env fs' active = apply_editable_values env fs' vs active"
    by (simp add: desired_config_def vs unlocked_pending env(1,2))
  show "desired_config env fs' active = c\<lparr>cf_smtp_password := cf_smtp_password (desired_config env fs' active)\<rparr>"
    unfolding pending
    by (intro config.equality) (simp_all add: apply_editable_values_def Let_def or_old_def looked methods fixed mode ports_c plain
      durations methods_read_back [OF validate_config_facts(2,3) [OF valid]])
qed

text \<open>C20. What is saved is what is pending, for inputs that a line of the override keeps. When the environment controls
nothing, the texts have neither blanks nor quotes around them, the access ports are at most 65535, paths and addresses stand
on one line, durations are printed and parsed as Go does, and the override fits the scanner that reads it, then the settings
that a save returns are those of the configuration that the panel reads from the override as pending, the mail password
aside.\<close>

theorem saved_settings_pending:
  assumes save: "save_settings env active input fs = (fs', Inr s)"
    and own: "cf_override_file active \<noteq> cv_join env (cf_data_dir active) ''smtp-password''"
    and env: "environment_locked_fields env = []" "\<not> set_in env ''DMP_ACCESS_SCHEME''" "one_line env active" "go_durations env"
    and one: "single_line (cv_join env (cf_data_dir active) ''smtp-password'')" "single_line (configured_password_file env fs active)"
    and fits: "\<not> isl (read_config_file fs' (cf_override_file active))"
    and texts: "list_all kept_text (input_texts (trimmed_input input))"
    and listens: "\<forall>p. kept_text (listen_address_with_port (cf_listen active) p) \<and> kept_text (listen_address_with_port (cf_https_listen active) p)"
    and ports: "- (2 ^ 63) \<le> ps_smtp_port input" "ps_smtp_port input < 2 ^ 63"
      "{ps_access_http_port input, ps_access_https_port input} \<subseteq> {0..65535}"
  shows "\<exists>c. s = shown_settings env active c
    \<and> desired_config env fs' active = c\<lparr>cf_smtp_password := cf_smtp_password (desired_config env fs' active)\<rparr>"
proof -
  let ?i = "trimmed_input input"
  obtain c pw fs1 where c: "candidate_config env fs active ?i = Inr c" and s: "s = shown_settings env active c"
    and pw: "keep_password env active ?i c fs = Inr (pw, fs1)"
    and saved: "fs' (cf_override_file active) = Content (render_override env c pw)"
    using saved_override [OF save own] by blast
  have "single_line pw"
    using pw one by (auto simp: keep_password_def Let_def attempt_Inr_iff single_line_def split: if_splits)
  from candidate_is_pending [OF c this saved env fits texts listens ports] s show ?thesis by blast
qed

section \<open>Demonstration\<close>

lemma candidate_config_accepts:
  assumes "desired_config env fs active = pending" "trimmed_input input = i"
    and "with_input env active i (email, session, idle) pending = c" "validate_config env c = Inr ()" "reject_locked_changes env active c = Inr ()"
    and "\<not> (field_locked env ''smtpPassword'' \<and> (trim_space (ps_smtp_password i) \<noteq> '''' \<or> ps_clear_smtp_password i))"
    and "ps_mfa_key_file i = '''' \<or> trim_space (ps_mfa_key_file i) = cf_mfa_key_file active" "list_all single_line (input_texts i)"
    and "cv_parse_duration env (trim_space (ps_email_code_ttl i)) = Some email"
    and "input_duration env (ps_session_ttl i) (cf_session_ttl pending) = Inr session"
    and "input_duration env (ps_idle_ttl i) (cf_idle_ttl pending) = Inr idle"
    and "port_number (ps_http_port i) \<and> port_number (ps_https_port i)" "ps_http_port i \<noteq> ps_https_port i"
    and "\<not> (ps_clear_smtp_password i \<and> trim_space (ps_smtp_password i) \<noteq> '''')"
  shows "candidate_config env fs active (trimmed_input input) = Inr c"
  using assms(3-) unfolding candidate_config_def Let_def assms(1,2) by (simp add: demand_def)

lemma override_read:
  assumes "list_all (\<lambda>(k, v). single_line v \<and> length v < 65000) (override_values env c pw)"
    and "fs path = Content (render_override env c pw)"
  shows "read_config_file fs path = Inr (rev (map (\<lambda>(k, v). (k, unquote (trim_space v))) (override_values env c pw)))"
proof -
  let ?ls = "settings_comment # map setting_line (override_values env c pw)"
  have single: "list_all (\<lambda>(k, v). single_line v) (override_values env c pw)"
    using assms(1) by (auto simp: list_all_iff)
  have "list_all (\<lambda>(k, v). length k < 100) (override_values env c pw)"
    by (simp add: override_values_def)
  then have "\<forall>l\<in>set (map setting_line (override_values env c pw)). length l < 65536"
    using assms(1) unfolding list_all_iff setting_line_def by fastforce
  moreover have "length settings_comment < 65536" by (simp add: settings_comment_def)
  ultimately have short: "\<forall>l\<in>set ?ls. length l < 65536" by simp
  have "split_on CHR 0x0A (render_override env c pw) = ?ls @ [[]]"
    using override_lines_single [OF single] unfolding render_override_def
    by (subst join_with_snoc, simp, subst split_on_join) (auto simp: single_line_def list_all_iff)
  then have "scan_lines (render_override env c pw) \<noteq> None"
    using short by (auto simp: scan_lines_def list_ex_iff)
  then have "\<not> isl (read_config_file fs path)"
    using assms(2) override_scanned [OF single] by (auto simp: read_config_file_def comment_skipped parse_setting_lines override_keys)
  then obtain vs where vs: "read_config_file fs path = Inr vs" by (cases "read_config_file fs path") auto
  with override_parsed [OF single assms(2) vs] show ?thesis by simp
qed

lemma save_settings_accepts:
  assumes "candidate_config env fs active (trimmed_input input) = Inr c"
    and "keep_password env active (trimmed_input input) c fs = Inr (pw, fs1)" "\<forall>p. cv_can_write env p"
  shows "\<exists>fs' s. save_settings env active input fs = (fs', Inr s)
    \<and> fs' (cf_override_file active) \<in> {Content (render_override env c pw), Missing}
    \<and> (\<forall>p. p \<notin> {cf_override_file active, cv_join env (cf_data_dir active) ''smtp-password''} \<longrightarrow> fs' p = fs1 p)"
  using assms by (auto simp: save_settings_def Let_def write_private_file_def)

definition demo_config_env :: config_env where
  "demo_config_env = \<lparr>cv_getenv = (\<lambda>n. if n = ''DMP_MODE'' then ''dev'' else if n = ''DMP_SETTINGS_OVERRIDE_FILE'' then ''override'' else ''''),
     cv_join = (\<lambda>a b. a @ ''/'' @ b), cv_dir = (\<lambda>p. ''data''),
     cv_parse_duration = atoi, cv_duration_text = itoa,
     cv_mail_address = (\<lambda>a. CHR 0x40 \<in> set a), cv_fresh_token = None, cv_can_write = (\<lambda>p. True)\<rparr>"

text \<open>The same with a locked field.\<close>

definition demo_locked_env :: config_env where
  "demo_locked_env = demo_config_env\<lparr>cv_getenv := (\<lambda>n. if n = ''DMP_SMTP_USERNAME'' then ''mailer'' else '''')\<rparr>"

definition demo_active :: config where
  "demo_active = \<lparr>cf_config_file = ''conf'', cf_override_file = ''override'', cf_mode = ''dev'', cf_listen = ''0.0.0.0:80'',
     cf_https_listen = ''0.0.0.0:443'', cf_data_dir = ''data'', cf_database_path = ''data/platform.db'', cf_api_token = '''',
     cf_mfa_enabled = False, cf_mfa_methods = [''totp''], cf_mfa_key_file = ''data/mfa.key'', cf_email_code_ttl = 10,
     cf_session_ttl = 720, cf_idle_ttl = 15, cf_smtp_host = '''', cf_smtp_port = 587, cf_smtp_username = ''mailer'',
     cf_smtp_password = ''old'', cf_smtp_from = '''', cf_smtp_tls_mode = ''starttls'', cf_tls_cert = '''', cf_tls_key = '''',
     cf_access_tls_cert = '''', cf_access_tls_key = '''', cf_access_http_port = 0, cf_access_https_port = 0,
     cf_panel_domain = '''', cf_access_domain = '''', cf_access_scheme = ''https'', cf_trusted_proxies = []\<rparr>"

definition demo_settings :: panel_settings where
  "demo_settings = \<lparr>ps_mfa_enabled = False, ps_mfa_methods = [''totp''], ps_email_code_ttl = ''10'', ps_session_ttl = ''720'',
     ps_idle_ttl = ''15'', ps_mfa_key_file = '''', ps_smtp_host = ''mail.example'', ps_smtp_port = 587, ps_smtp_username = ''mailer'',
     ps_smtp_password = '''', ps_smtp_password_configured = True, ps_clear_smtp_password = False, ps_smtp_configured = False,
     ps_smtp_from = '''', ps_tls_cert = '''', ps_tls_key = '''', ps_tls_configured = False, ps_access_tls_cert = '''',
     ps_access_tls_key = '''', ps_access_tls_configured = False, ps_reuse_panel_ports = True, ps_access_http_port = 0,
     ps_access_https_port = 0, ps_http_port = 8080, ps_https_port = 443, ps_panel_domain = '''', ps_access_domain = '''',
     ps_restart_required = False, ps_locked_fields = [], ps_source = ''''\<rparr>"

definition demo_renamed :: config where
  "demo_renamed = demo_active\<lparr>cf_smtp_host := ''mail.example'', cf_listen := ''0.0.0.0:8080''\<rparr>"

abbreviation demo_input :: "int \<Rightarrow> bool \<Rightarrow> panel_settings" where
  "demo_input p clear \<equiv> demo_settings\<lparr>ps_smtp_port := p, ps_clear_smtp_password := clear\<rparr>"

definition demo_to_save :: "int \<Rightarrow> bool \<Rightarrow> config" where
  "demo_to_save p clear = demo_renamed\<lparr>cf_smtp_port := p, cf_smtp_tls_mode := smtp_tls_mode_for_port p,
     cf_smtp_password := if clear then '''' else ''old''\<rparr>"

lemma demo_trimmed: "trimmed_input (demo_input p clear) = demo_input p clear"
  by (rule panel_settings.equality) (simp_all add: trimmed_input_def demo_settings_def normalized_methods_def trim_dots_def
    trim_chars_def to_lower_def lower_char_def trim_space_def is_space_def)

lemma demo_lines: "list_all single_line (input_texts (demo_input p clear))"
  by (simp add: input_texts_def demo_settings_def single_line_def)

lemma demo_listen:
  "listen_address_with_port ''0.0.0.0:80'' 8080 = ''0.0.0.0:8080''" "listen_address_with_port ''0.0.0.0:443'' 443 = ''0.0.0.0:443''"
  "kept_text (listen_address_with_port ''0.0.0.0:80'' i)" "kept_text (listen_address_with_port ''0.0.0.0:443'' i)"
proof -
  have split: "split_host_port ''0.0.0.0:80'' = Some (''0.0.0.0'', ''80'')" "split_host_port ''0.0.0.0:443'' = Some (''0.0.0.0'', ''443'')"
    using split_join_host_port [of "''0.0.0.0''" "''80''"] split_join_host_port [of "''0.0.0.0''" "''443''"]
    by (simp_all add: join_host_port_def)
  have "char_of (48::nat) = CHR ''0''" "char_of (56::nat) = CHR ''8''" "char_of (52::nat) = CHR ''4''" "char_of (51::nat) = CHR ''3''"
    by code_simp+
  then have "itoa 8080 = ''8080''" "itoa 443 = ''443''"
    by (simp_all add: itoa_def nat_text.simps digit_char_def digits_numeral)
  with split show "listen_address_with_port ''0.0.0.0:80'' 8080 = ''0.0.0.0:8080''"
    "listen_address_with_port ''0.0.0.0:443'' 443 = ''0.0.0.0:443''"
    by (simp_all add: listen_address_with_port_def join_host_port_def)
  have "bare (''0.0.0.0:'' @ itoa i)" using itoa_bare [of i] by (simp add: bare_def is_space_def)
  with split show "kept_text (listen_address_with_port ''0.0.0.0:80'' i)" "kept_text (listen_address_with_port ''0.0.0.0:443'' i)"
    by (auto simp: listen_address_with_port_def join_host_port_def dest: bare_kept_text)
qed

lemma demo_env_fields: "env \<in> {demo_config_env, demo_locked_env} \<Longrightarrow> cv_parse_duration env = atoi \<and> cv_duration_text env = itoa
    \<and> (\<forall>p. cv_can_write env p) \<and> cv_join env a b = a @ ''/'' @ b \<and> cv_getenv env ''DMP_SMTP_PASSWORD_FILE'' = ''''
    \<and> cv_getenv env ''DMP_SMTP_PASSWORD'' = ''''"
  by (auto simp: demo_config_env_def demo_locked_env_def)

lemma demo_durations: "cv_parse_duration env = atoi \<Longrightarrow> input_duration env ''720'' i = Inr 720"
  "cv_parse_duration env = atoi \<Longrightarrow> input_duration env ''15'' i = Inr 15" "atoi (trim_space ''10'') = Some 10"
proof -
  have "atoi ''720'' = Some 720" "atoi ''15'' = Some 15" "atoi ''10'' = Some 10" by code_simp+
  then show "cv_parse_duration env = atoi \<Longrightarrow> input_duration env ''720'' i = Inr 720"
    "cv_parse_duration env = atoi \<Longrightarrow> input_duration env ''15'' i = Inr 15" "atoi (trim_space ''10'') = Some 10"
    by (simp_all add: input_duration_def trim_space_def is_space_def blank_def)
qed

lemma demo_locks: "environment_locked_fields demo_config_env = []" "environment_locked_fields demo_locked_env = [''smtpUsername'']"
  by code_simp+

lemma demo_valid:
  assumes "env \<in> {demo_config_env, demo_locked_env}"
  shows "validate_config env (demo_to_save p clear) = Inr ()"
proof -
  have "validate_config env (demo_to_save p clear) = validate_config env demo_renamed"
    by (simp add: validate_config_def base_rules_def listen_rules_def tls_rules_def mfa_rules_def demo_to_save_def)
  moreover have "validate_config demo_config_env demo_renamed = Inr ()" "validate_config demo_locked_env demo_renamed = Inr ()"
    by code_simp+
  ultimately show ?thesis using assms by auto
qed

lemma demo_changes_allowed:
  assumes "env \<in> {demo_config_env, demo_locked_env}"
  shows "reject_locked_changes env demo_active (demo_to_save p clear) = Inr ()"
  using assms by (auto simp: reject_locked_changes_def field_changes_def field_locked_def demo_locks demo_to_save_def demo_renamed_def demo_active_def)

lemma demo_candidate_accepted:
  assumes "env \<in> {demo_config_env, demo_locked_env}" "desired_config env fs demo_active = demo_active\<lparr>cf_smtp_host := h, cf_listen := l\<rparr>"
  shows "candidate_config env fs demo_active (trimmed_input (demo_input p clear)) = Inr (demo_to_save p clear)"
proof (rule candidate_config_accepts [OF assms(2) demo_trimmed])
  show "with_input env demo_active (demo_input p clear) (10, 720, 15) (demo_active\<lparr>cf_smtp_host := h, cf_listen := l\<rparr>) = demo_to_save p clear"
    by (rule config.equality) (simp_all add: with_input_def Let_def demo_to_save_def demo_renamed_def demo_active_def demo_settings_def
      demo_listen trim_space_def)
  show "\<not> (field_locked env ''smtpPassword'' \<and> (trim_space (ps_smtp_password (demo_input p clear)) \<noteq> '''' \<or> ps_clear_smtp_password (demo_input p clear)))"
    using assms(1) by (auto simp: field_locked_def demo_locks)
  show "reject_locked_changes env demo_active (demo_to_save p clear) = Inr ()" "validate_config env (demo_to_save p clear) = Inr ()"
    using assms(1) by (rule demo_changes_allowed demo_valid)+
  show "list_all single_line (input_texts (demo_input p clear))" by (rule demo_lines)
  show "cv_parse_duration env (trim_space (ps_email_code_ttl (demo_input p clear))) = Some 10"
    using demo_env_fields [OF assms(1)] demo_durations(3) by (simp add: demo_settings_def)
qed (use assms(1) demo_env_fields in \<open>simp_all add: demo_valid demo_changes_allowed demo_lines demo_durations demo_settings_def
  demo_active_def port_number_def trim_space_def\<close>)

abbreviation no_files :: fs where
  "no_files \<equiv> \<lambda>p. Missing"

lemma demo_unsaved: "desired_config env no_files demo_active = demo_active\<lparr>cf_smtp_host := '''', cf_listen := ''0.0.0.0:80''\<rparr>"
  by (rule config.equality) (simp_all add: desired_config_def read_config_file_def preserve_environment_def Let_def demo_active_def)

lemma demo_no_password_file:
  assumes "env \<in> {demo_config_env, demo_locked_env}" "fs ''conf'' = Missing"
    and "setting_of (read_config_file fs ''override'') ''smtp_password_file'' = ''''"
  shows "configured_password_file env fs demo_active = ''''"
  using assms demo_env_fields [OF assms(1)]
  by (simp add: configured_password_file_def first_configured_def demo_active_def setting_of_def read_config_file_def trim_space_def)

lemma demo_saves:
  assumes "env \<in> {demo_config_env, demo_locked_env}" "desired_config env fs demo_active = demo_active\<lparr>cf_smtp_host := h, cf_listen := l\<rparr>"
    and "fs ''conf'' = Missing" "setting_of (read_config_file fs ''override'') ''smtp_password_file'' = ''''"
  shows "\<exists>fs' s. save_settings env demo_active (demo_input p clear) fs = (fs', Inr s)
    \<and> fs' ''override'' = Content (render_override env (demo_to_save p clear) (if clear then '''' else ''data/smtp-password''))
    \<and> (\<forall>q. q \<notin> {''override'', ''data/smtp-password''} \<longrightarrow> fs' q = fs q)"
proof -
  note env = demo_env_fields [OF assms(1)]
  have unset: "\<not> set_in env ''DMP_SMTP_PASSWORD''" using env by (simp add: set_in_def trim_space_def)
  have own: "cv_join env (cf_data_dir demo_active) ''smtp-password'' = ''data/smtp-password''"
    using env by (simp add: demo_active_def)
  have demo_data: "cf_data_dir demo_active = ''data''" by (simp add: demo_active_def)
  have kept: "keep_password env demo_active (demo_input p clear) (demo_to_save p clear) fs = Inr (if clear then ('''', fs)
      else (''data/smtp-password'', fs(''data/smtp-password'' := Content (''old'' @ [CHR 0x0A]))))"
    using env demo_no_password_file [OF assms(1,3,4)] unset
    by (simp add: keep_password_def Let_def demo_data demo_settings_def demo_to_save_def trim_space_def write_private_file_def)
  have "cf_override_file demo_active = ''override''" "ps_clear_smtp_password (demo_input p clear) = clear"
    by (simp_all add: demo_active_def)
  then show ?thesis
    using env demo_candidate_accepted [OF assms(1,2), where p = p and clear = clear] kept
    by (simp add: save_settings_def Let_def demo_trimmed write_private_file_def own demo_data)
qed

lemma demo_one_line: "one_line demo_config_env demo_active"
  using itoa_single by (simp add: one_line_def demo_config_env_def demo_active_def single_line_def)

lemma atoi_bits: "atoi w = Some i \<Longrightarrow> duration_bits i"
  unfolding atoi_def Let_def duration_bits_def by (simp split: prod.splits option.splits if_splits)

lemma demo_go_durations: "go_durations demo_config_env"
  by (simp add: go_durations_def demo_config_env_def itoa_bare atoi_bits) (simp add: duration_bits_def atoi_itoa)

lemma demo_own_single: "single_line ''data/smtp-password''" "single_line ''''"
  by (simp_all add: single_line_def)

lemma nat_text_short: "length (nat_text n) \<le> Suc n"
proof (induction n rule: nat_text.induct)
  case (1 n)
  then show ?case by (cases "n < 10") (subst nat_text.simps; simp)+
qed

lemma itoa_short: "0 \<le> i \<and> i < 1000 \<Longrightarrow> length (itoa i) < 65000"
  using nat_text_short [of "nat i"] by (simp add: itoa_def) linarith

lemma demo_first_save:
  assumes "env \<in> {demo_config_env, demo_locked_env}"
  obtains fs' s where "save_settings env demo_active (demo_input p clear) no_files = (fs', Inr s)"
    and "fs' ''override'' = Content (render_override env (demo_to_save p clear) (if clear then '''' else ''data/smtp-password''))"
    and "\<forall>q. q \<notin> {''override'', ''data/smtp-password''} \<longrightarrow> fs' q = Missing"
proof -
  have "setting_of (read_config_file no_files ''override'') ''smtp_password_file'' = ''''"
    by (simp add: setting_of_def read_config_file_def)
  then show ?thesis
    using demo_saves [OF assms demo_unsaved, where p = p and clear = clear] that by blast
qed

lemma demo_fits:
  assumes "fs ''override'' = Content (render_override demo_config_env (demo_to_save p clear) pw)" "p \<in> {0, 587}"
    and "pw \<in> {'''', ''data/smtp-password''}"
  shows "\<exists>vs. read_config_file fs ''override'' = Inr vs"
proof -
  have "list_all (\<lambda>(k, v). single_line v) (override_values demo_config_env (demo_to_save p clear) pw)"
    using assms(3) demo_own_single
    by (intro candidate_single_lines [OF demo_candidate_accepted [OF _ demo_unsaved] demo_one_line]) auto
  moreover have "length (itoa 10) < 65000" "length (itoa 720) < 65000" "length (itoa 15) < 65000" "length (itoa 0) < 65000"
    "length (itoa 587) < 65000" by (rule itoa_short, simp)+
  then have "list_all (\<lambda>(k, v). length v < 65000) (override_values demo_config_env (demo_to_save p clear) pw)"
    using assms(2,3) by (auto simp: override_values_def demo_to_save_def demo_renamed_def demo_active_def demo_config_env_def
      bool_text_def join_with_def)
  ultimately have "list_all (\<lambda>(k, v). single_line v \<and> length v < 65000) (override_values demo_config_env (demo_to_save p clear) pw)"
    by (auto simp: list_all_iff)
  from override_read [where fs = fs and path = "''override''", OF this] assms(1) show ?thesis by blast
qed

theorem locked_fields_unchanged_witness:
  "\<exists>fs' s c pw. save_settings demo_locked_env demo_active (demo_input 587 False) no_files = (fs', Inr s)
    \<and> fs' ''override'' = Content (render_override demo_locked_env c pw) \<and> field_locked demo_locked_env ''smtpUsername''
    \<and> cf_smtp_username c = ''mailer''"
proof -
  obtain fs' s where s: "save_settings demo_locked_env demo_active (demo_input 587 False) no_files = (fs', Inr s)"
    by (rule demo_first_save [of demo_locked_env]) simp_all
  have "cf_override_file demo_active \<noteq> cv_join demo_locked_env (cf_data_dir demo_active) ''smtp-password''"
    by (simp add: demo_active_def demo_locked_env_def demo_config_env_def)
  moreover have "validate_config demo_locked_env demo_active = Inr ()" by code_simp
  ultimately obtain c pw
    where c: "fs' ''override'' = Content (render_override demo_locked_env c pw)"
      "\<forall>(names, unchanged)\<in>set (environment_controls demo_active c). (\<exists>v\<in>set names. set_in demo_locked_env v) \<longrightarrow> unchanged"
    using locked_fields_unchanged [OF s] by (auto simp: demo_active_def)
  have locked: "field_locked demo_locked_env ''smtpUsername''" by (simp add: field_locked_def demo_locks)
  have "([''DMP_SMTP_USERNAME''], cf_smtp_username c = cf_smtp_username demo_active) \<in> set (environment_controls demo_active c)"
    by (simp add: environment_controls_def)
  moreover have "set_in demo_locked_env ''DMP_SMTP_USERNAME''"
    by (simp add: set_in_def demo_locked_env_def trim_space_def is_space_def)
  ultimately have "cf_smtp_username c = cf_smtp_username demo_active" using c(2) by fastforce
  then show ?thesis using s c(1) locked by (auto simp: demo_active_def)
qed

lemma demo_paths: "cf_override_file demo_active = ''override''" "cf_data_dir demo_active = ''data''"
  "cv_join demo_config_env ''data'' ''smtp-password'' = ''data/smtp-password''" "cf_config_file demo_active = ''conf''"
  "cf_smtp_password demo_active = ''old''"
  by (simp_all add: demo_active_def demo_config_env_def)

lemma demo_no_scheme: "\<not> set_in demo_config_env ''DMP_ACCESS_SCHEME''"
  by (simp add: set_in_def demo_config_env_def trim_space_def)

lemma demo_texts: "list_all kept_text (input_texts (trimmed_input (demo_input p clear)))"
proof -
  have "bare ''''" "bare ''10''" "bare ''mail.example''" "bare ''mailer''" by (simp_all add: bare_def is_space_def)
  then have "kept_text ''''" "kept_text ''10''" "kept_text ''mail.example''" "kept_text ''mailer''" by (simp_all only: bare_kept_text)
  then show ?thesis by (subst demo_trimmed) (simp add: input_texts_def demo_settings_def)
qed

theorem saved_settings_pending_witness:
  "\<exists>fs' s c. save_settings demo_config_env demo_active (demo_input 587 False) no_files = (fs', Inr s)
    \<and> s = shown_settings demo_config_env demo_active c
    \<and> desired_config demo_config_env fs' demo_active
      = c\<lparr>cf_smtp_password := cf_smtp_password (desired_config demo_config_env fs' demo_active)\<rparr>"
proof -
  obtain fs' s where s: "save_settings demo_config_env demo_active (demo_input 587 False) no_files = (fs', Inr s)"
    and saved: "fs' ''override'' = Content (render_override demo_config_env (demo_to_save 587 False) ''data/smtp-password'')"
    by (rule demo_first_save [where env = demo_config_env and p = 587 and clear = False]) simp_all
  have found: "configured_password_file demo_config_env no_files demo_active = ''''"
    by (rule demo_no_password_file) (simp_all add: setting_of_def read_config_file_def)
  have "\<exists>c. s = shown_settings demo_config_env demo_active c \<and> desired_config demo_config_env fs' demo_active
      = c\<lparr>cf_smtp_password := cf_smtp_password (desired_config demo_config_env fs' demo_active)\<rparr>"
    using demo_fits [where fs = fs' and p = 587 and clear = False and pw = "''data/smtp-password''"] saved
    by (intro saved_settings_pending [OF s _ demo_locks(1) demo_no_scheme demo_one_line demo_go_durations _ _ _ demo_texts])
      (auto simp: demo_paths demo_own_single found demo_settings_def, simp_all add: demo_listen demo_active_def)
  then show ?thesis using s by blast
qed

theorem accepted_port_refused_at_start_witness:
  "\<exists>fs' s. save_settings demo_config_env demo_active (demo_input 0 False) no_files = (fs', Inr s)
    \<and> isl (snd (load_config demo_config_env fs'))"
proof -
  obtain fs' s where s: "save_settings demo_config_env demo_active (demo_input 0 False) no_files = (fs', Inr s)"
    and saved: "fs' ''override'' = Content (render_override demo_config_env (demo_to_save 0 False) ''data/smtp-password'')"
    and others: "\<forall>q. q \<notin> {''override'', ''data/smtp-password''} \<longrightarrow> fs' q = Missing"
    by (rule demo_first_save [where env = demo_config_env and p = 0 and clear = False]) simp_all
  have found: "configured_password_file demo_config_env no_files demo_active = ''''"
    by (rule demo_no_password_file) (simp_all add: setting_of_def read_config_file_def)
  obtain vs where vs: "read_config_file fs' ''override'' = Inr vs"
    using demo_fits [where fs = fs' and p = 0 and clear = False and pw = "''data/smtp-password''"] saved by auto
  have "fs' ''./conf/device-management-platform.conf'' = Missing" using others by simp
  then have "\<exists>path data. read_settings demo_config_env fs' = Inr (path, cf_override_file demo_active, data, vs)"
    using vs by (simp add: read_settings_def Let_def demo_config_env_def trim_space_def is_space_def first_configured_def
      read_config_file_def demo_paths)
  then obtain path data where "read_settings demo_config_env fs' = Inr (path, cf_override_file demo_active, data, vs)" by blast
  then have "isl (snd (load_config demo_config_env fs'))"
    by (intro accepted_port_refused_at_start [OF s _ demo_one_line])
      (simp_all add: demo_paths demo_own_single found port_number_def demo_settings_def, simp add: demo_config_env_def trim_space_def)
  then show ?thesis using s by blast
qed

theorem cleared_password_restored_witness:
  "\<exists>fs1 s1 fs2 s2. save_settings demo_config_env demo_active (demo_input 587 True) no_files = (fs1, Inr s1)
    \<and> save_settings demo_config_env demo_active (demo_input 587 False) fs1 = (fs2, Inr s2)
    \<and> fs2 ''data/smtp-password'' = Content (''old'' @ [CHR 0x0A])"
proof -
  let ?e = demo_config_env
  obtain fs1 s1 where s1: "save_settings ?e demo_active (demo_input 587 True) no_files = (fs1, Inr s1)"
    and saved: "fs1 ''override'' = Content (render_override ?e (demo_to_save 587 True) '''')"
    and others: "\<forall>q. q \<notin> {''override'', ''data/smtp-password''} \<longrightarrow> fs1 q = Missing"
    by (rule demo_first_save [where env = ?e and p = 587 and clear = True]) simp_all
  have c: "candidate_config ?e no_files demo_active (trimmed_input (demo_input 587 True)) = Inr (demo_to_save 587 True)"
    by (rule demo_candidate_accepted [OF _ demo_unsaved]) simp
  have conf: "fs1 ''conf'' = Missing" using others by simp
  have saved': "fs1 (cf_override_file demo_active) = Content (render_override ?e (demo_to_save 587 True) '''')"
    using saved by (simp add: demo_paths)
  have fits: "\<not> isl (read_config_file fs1 (cf_override_file demo_active))"
    using demo_fits [where fs = fs1 and p = 587 and clear = True and pw = "''''"] saved by (auto simp: demo_paths)
  note kept = desired_after_clear [of ?e no_files demo_active _ _ fs1, OF c demo_one_line saved']
  have "desired_config ?e fs1 demo_active = (demo_to_save 587 True)\<lparr>cf_smtp_password := ''old''\<rparr>"
    using candidate_is_pending [OF c demo_own_single(2) saved' demo_locks(1) demo_no_scheme demo_one_line demo_go_durations fits
      demo_texts] kept(1)
    by (simp add: demo_settings_def demo_listen demo_active_def)
  also have "\<dots> = demo_active\<lparr>cf_smtp_host := ''mail.example'', cf_listen := ''0.0.0.0:8080''\<rparr>"
    by (simp add: demo_to_save_def demo_renamed_def demo_active_def smtp_tls_mode_for_port_def)
  finally have pending: "desired_config ?e fs1 demo_active
    = demo_active\<lparr>cf_smtp_host := ''mail.example'', cf_listen := ''0.0.0.0:8080''\<rparr>" .
  obtain fs2 s2 where s2: "save_settings ?e demo_active (demo_input 587 False) fs1 = (fs2, Inr s2)"
    using demo_saves [OF _ pending, where p = 587 and clear = False] conf kept(2) by (auto simp: demo_paths)
  have "setting_of (read_config_file fs1 (cf_config_file demo_active)) ''smtp_password_file'' = ''''"
    using conf by (simp add: demo_paths setting_of_def read_config_file_def)
  then have "fs2 ''data/smtp-password'' = Content (''old'' @ [CHR 0x0A])"
    using cleared_password_restored [OF s1 _ s2 _ _ _ demo_one_line]
    by (simp add: demo_paths) (simp add: demo_settings_def trim_space_def)
  then show ?thesis using s1 s2 by blast
qed

end
