(* ===== verification/Spec2Isabelle.thy ===== *)
theory Spec2Isabelle
  imports Steps LoginLimiter SshGateway Discovery Lifecycle ApiNodes ApiDiscovery ApiPolicies Routes Settings
begin

text \<open>
  A model of the device management platform (the Go program under \<open>src/backend\<close>): a panel on which
  administrators register nodes, projects and devices, and users open web, SSH and port-forward sessions
  to the devices behind the nodes.

  \<^bold>\<open>The program and its theories.\<close> A request passes the middleware of \<open>api/api.go\<close> (theory \<open>ApiAuth\<close>), a
  handler calls the store (\<open>store/*.go\<close>, theories \<open>Store*\<close>), the vault (\<open>Vault\<close>), the node adapter
  (\<open>NodeAdapter\<close>) and the discovery manager (\<open>Discovery\<close>); browsers reach devices through the gateways of
  \<open>access/*.go\<close> (\<open>Gateway\<close>, \<open>SshGateway\<close>), which resolve sessions in the store and dial through the SOCKS
  proxy of a node (\<open>Socks\<close>); a timer sweeps what has expired (\<open>Lifecycle\<close>).

  \<^item> \<open>Prelude\<close>, \<open>Texts\<close>, \<open>Digits\<close>, \<open>Encodings\<close>, \<open>Timestamps\<close>, \<open>Netip\<close>, \<open>Http\<close>: the error type, transactions
    (\<open>run_tx\<close>, \<open>attempt\<close>) and list lemmas all theories share, and what the program uses of Go's standard
    library: texts and their splitting, numbers, base64 and base32, RFC 3339 time texts and their order in SQL,
    addresses and prefixes, headers, cookies and URLs. Strings are lists of bytes, times are nanoseconds.
  \<^item> \<open>Schema\<close>, \<open>Integrity\<close>, \<open>Statements\<close>: the database of \<open>store/migrations.go\<close> as one record of tables, the
    constraints of its schema (\<open>db_ok\<close>), and the SQL statements as functions on it which keep them; a statement
    that breaks a constraint is the error \<open>ErrConstraint\<close>, and a failed transaction returns the old state.
    \<open>store_inv\<close> adds that access logs follow their sessions and that a user has one live challenge at most.
  \<^item> \<open>StoreAudit\<close>, \<open>StoreUsers\<close>, \<open>StoreMfa\<close>, \<open>StoreAccess\<close>, \<open>StorePolicies\<close>, \<open>StoreProjects\<close>, \<open>StoreDevices\<close>,
    \<open>StoreForwards\<close>, \<open>StoreDiscovery\<close>: the operations of the files of those names under \<open>store/\<close> (nodes are with
    the projects), one definition per method, with the identifiers and clock readings it draws as arguments.
    \<open>Demo\<close> is a small database on which witnesses run. \<open>Steps\<close> is the step relation of all of them and the
    reachable states.
  \<^item> \<open>LoginLimiter\<close>, \<open>Auth\<close>: \<open>auth/\<close> and \<open>id/\<close>: the failure windows, passwords, one-time and recovery codes.
  \<^item> \<open>Vault\<close>: \<open>secrets/\<close>; the locale of a credential store and its interpretation on the vault.
  \<^item> \<open>RouteLabel\<close>, \<open>Registry\<close>, \<open>Gateway\<close>, \<open>Socks\<close>, \<open>SshGateway\<close>: \<open>webroutelabel/\<close> and \<open>access/\<close>: labels of web
    routes, the registries of open connections as step relations, the requests that are proxied, the SOCKS
    negotiation against a reference proxy, and terminals.
  \<^item> \<open>Probes\<close>, \<open>Discovery\<close>: \<open>discovery/manager.go\<close>: probes of a port, hosts of a network, the worker pool.
  \<^item> \<open>NodeAdapter\<close>: \<open>nodeadapter/\<close>: requests and answers of the node API and the edits of its tasks.
  \<^item> \<open>Lifecycle\<close>: \<open>lifecycle/manager.go\<close>: one sweep, with the answers of the nodes as arguments.
  \<^item> \<open>ApiAuth\<close>: the checks every request of \<open>api/api.go\<close> passes before its handler. \<open>ApiLogin\<close>: the handlers of
    setup, login, onboarding, second factor and accounts over the database, the two limiters and the outbox.
    \<open>ApiAccess\<close>: the handlers that open, list and revoke access sessions. \<open>ApiValidate\<close>: the checks of the inputs of
    nodes, projects, devices and scans, canonical networks, generated node credentials, CSV cells.
  \<^item> \<open>ApiForwards\<close>, \<open>ApiResources\<close>, \<open>ApiNodes\<close>, \<open>ApiDiscovery\<close>, \<open>ApiPolicies\<close>: the other handlers of \<open>api/api.go\<close>
    (forwards and the closing of resources; projects and devices; nodes, clients, tunnels and the monitor; scans;
    policies, logs and their export) over the database and the tasks that run on the nodes. \<open>Routes\<close>: the table of
    routes, how one is found, and the whole way of a request through the middleware.
  \<^item> \<open>Config\<close>, \<open>Settings\<close>: \<open>config/\<close>: loading and validation of the configuration from environment, override and file,
    the settings that the panel edits and the override it writes, with the files as a function of their paths.

  \<^bold>\<open>What is shown.\<close> Every reachable state of the store keeps the constraints of its schema and the invariants of
  logs and challenges; the last administrator stays; challenges, codes, grants and counters are used once;
  sessions resolve only while login, user and clock allow; revocation closes connections and terminals; the
  limiter refines a window counter within its memory bound; encodings, labels, credentials and forms read
  back; jobs and sweeps end in the states the program names; a handler that fails undoes what it did on the nodes and
  in the vault, except where a theorem shows that it does not; only open routes are reached without a login; a save of
  the settings keeps what the environment controls and reads back, except for a cleared password and for ports the
  next start refuses. Each property stands after a text with its claim.

  \<^bold>\<open>Bounds and fuel.\<close> Loops of the source are structural recursions or have a measure (the groups of an
  encoding, the hosts of a prefix, free ports of a pool); no definition uses fuel. A loop that waits for input (a
  terminal, a proxy) runs over the list of the messages that arrive. The one loop that may go on for ever, the
  rejection of random bytes in \<open>new_nps_compatible_secret\<close>, is a partial function into an option with a proof of
  when it returns.

  \<^bold>\<open>Arguments of the model.\<close> Hash functions, PBKDF2, ciphers, the SSH library, the node API, the answers of the
  network and the draws of the random source are arguments; the laws a theorem needs of them are its hypotheses.

  \<^bold>\<open>Not modelled.\<close> The SQLite driver and files (opening, backup, restore), the SMTP conversation, QR codes, the
  process start of \<open>cmd/server\<close>, static assets, the frontend, and goroutine scheduling other than where a step
  relation or an order of completion says so.
\<close>

end
